(* ===== verification/Mokosh_Prelude.thy ===== *)
theory Mokosh_Prelude
  imports Complex_Main
begin

text \<open>
  Shared vocabulary of the development: identifiers, dates, instants and decimals; the error
  type of the services (\<open>AppError\<close> of src/src/utils/error.rs) and their result type; the
  relational operations the embedded SQL uses (select one row, update where, delete where,
  sum where), with the lemmas the component theories share; and the rounding that a
  DECIMAL(p, 2) column performs on write.
\<close>

section \<open>Types\<close>

text \<open>
  A UUID is a natural number, only its identity matters. A date is its day number and an
  instant its second number, both counted from 1970-01-01; \<open>rust_decimal::Decimal\<close> and
  the NUMERIC type are exact rationals.
\<close>

type_synonym uuid = nat
type_synonym tenant = nat
type_synonym date = int
type_synonym instant = int
type_synonym decimal = rat

named_theorems table_simps \<open>evaluation of the relational operations\<close>
named_theorems status_simps \<open>case tables of the status enumerations\<close>

section \<open>Errors as values\<close>

text \<open>
  The variants of \<open>AppError\<close>. The text a variant carries is the fixed part of the message;
  the values interpolated into it, and the field errors of a validation failure, are left out.
\<close>

datatype app_error =
    Unauthorized
  | Forbidden string
  | NotFound string
  | Validation string
  | QueryError string
  | Conflict string
  | BadRequest string
  | Gone string
  | AccountDeleted
  | TokenExpired
  | RateLimited "nat option"
  | Database string
  | ExternalService string string
  | Internal string
  | Configuration string
  | Tenant string
  | File string
  | PayloadTooLarge string
  | Email string
  | Payment string
  | Integration string

type_synonym 'a app_result = "app_error + 'a"

definition is_ok :: "'e + 'a \<Rightarrow> bool" where
  "is_ok r = (case r of Inl _ \<Rightarrow> False | Inr _ \<Rightarrow> True)"

definition and_then :: "'e + 'a \<Rightarrow> ('a \<Rightarrow> 'e + 'b) \<Rightarrow> 'e + 'b" where
  "and_then r k = (case r of Inl e \<Rightarrow> Inl e | Inr a \<Rightarrow> k a)"

lemma is_ok_simps [simp]: "\<not> is_ok (Inl e)" "is_ok (Inr a)"
  by (simp_all add: is_ok_def)

lemma and_then_simps [simp]: "and_then (Inl e) k = Inl e" "and_then (Inr a) k = k a"
  by (simp_all add: and_then_def)

lemma and_then_InrE [elim]:
  assumes "and_then r k = Inr b"
  obtains a where "r = Inr a" and "k a = Inr b"
  using assms by (cases r) auto

lemma guard_Inr: "(if b then Inl e else r) = Inr y \<longleftrightarrow> \<not> b \<and> r = Inr y"
  by simp

lemma case_option_InrE:
  assumes "(case x of None \<Rightarrow> Inl e | Some a \<Rightarrow> k a) = Inr b"
  obtains a where "x = Some a" and "k a = Inr b"
  using assms by (cases x) auto

lemma map_sum_snd_InrE:
  assumes "map_sum id snd r = Inr x"
  obtains s where "r = Inr (s, x)"
  using assms by (cases r) auto

lemma and_then_assoc: "and_then (and_then r k) l = and_then r (\<lambda>a. and_then (k a) l)"
  by (cases r) auto

text \<open>A transaction that fails is rolled back: the caller's state is kept.\<close>

definition committed :: "'s \<Rightarrow> 'e + ('s \<times> 'a) \<Rightarrow> 's" where
  "committed s r = (case r of Inl _ \<Rightarrow> s | Inr (s', _) \<Rightarrow> s')"

lemma committed_simps [simp]: "committed s (Inl e) = s" "committed s (Inr (s', a)) = s'"
  by (simp_all add: committed_def)

section \<open>Tables\<close>

text \<open>A table is the list of its rows in insertion order.\<close>

definition select_one :: "('r \<Rightarrow> bool) \<Rightarrow> 'r list \<Rightarrow> 'r option" where
  "select_one p rs = find p rs"

definition update_where :: "('r \<Rightarrow> bool) \<Rightarrow> ('r \<Rightarrow> 'r) \<Rightarrow> 'r list \<Rightarrow> 'r list" where
  "update_where p f rs = map (\<lambda>r. if p r then f r else r) rs"

definition delete_where :: "('r \<Rightarrow> bool) \<Rightarrow> 'r list \<Rightarrow> 'r list" where
  "delete_where p rs = filter (\<lambda>r. \<not> p r) rs"

definition sum_where :: "('r \<Rightarrow> bool) \<Rightarrow> ('r \<Rightarrow> decimal) \<Rightarrow> 'r list \<Rightarrow> decimal" where
  "sum_where p f rs = sum_list (map f (filter p rs))"

lemma select_one_None: "select_one p rs = None \<longleftrightarrow> (\<forall>r \<in> set rs. \<not> p r)"
  by (auto simp: select_one_def find_None_iff)

lemma select_one_SomeD: "select_one p rs = Some r \<Longrightarrow> r \<in> set rs \<and> p r"
  by (auto simp: select_one_def find_Some_iff)

lemma select_one_simps [table_simps]:
  "select_one p [] = None"
  "select_one p (r # rs) = (if p r then Some r else select_one p rs)"
  by (simp_all add: select_one_def)

lemma select_one_append [table_simps]:
  "select_one p (rs @ qs) = (case select_one p rs of None \<Rightarrow> select_one p qs | Some r \<Rightarrow> Some r)"
  by (induction rs) (simp_all add: table_simps)

lemma update_where_simps [table_simps]:
  "update_where p f [] = []"
  "update_where p f (r # rs) = (if p r then f r else r) # update_where p f rs"
  by (simp_all add: update_where_def)

lemma set_update_where: "set (update_where p f rs) = (\<lambda>r. if p r then f r else r) ` set rs"
  by (simp add: update_where_def)

lemma in_update_whereE:
  assumes "x \<in> set (update_where p f rs)"
  obtains r where "r \<in> set rs" and "x = (if p r then f r else r)"
  using assms by (auto simp: set_update_where)

lemma length_update_where [simp]: "length (update_where p f rs) = length rs"
  by (simp add: update_where_def)

lemma map_update_where:
  "(\<And>r. r \<in> set rs \<Longrightarrow> p r \<Longrightarrow> g (f r) = g r) \<Longrightarrow> map g (update_where p f rs) = map g rs"
  by (auto simp: update_where_def)

lemma update_where_none: "(\<And>r. r \<in> set rs \<Longrightarrow> \<not> p r) \<Longrightarrow> update_where p f rs = rs"
  by (simp add: update_where_def map_idI)

lemma update_where_fuse:
  "(\<And>r. p r \<Longrightarrow> p (f r)) \<Longrightarrow> update_where p g (update_where p f rs) = update_where p (g \<circ> f) rs"
  by (auto simp: update_where_def)

text \<open>A row update that keeps the key finds the updated row under the same key.\<close>

lemma select_one_update_where:
  assumes "\<And>r. q (f r) = q r"
  shows "select_one q (update_where p f rs) =
         map_option (\<lambda>r. if p r then f r else r) (select_one q rs)"
  using assms by (induction rs) (auto simp: table_simps)

lemma filter_update_where:
  "(\<And>r. q (f r) = q r) \<Longrightarrow> filter q (update_where p f rs) = update_where p f (filter q rs)"
  by (induction rs) (auto simp: table_simps)

lemma map_eq_member:
  assumes "map f xs = map f ys" and "x \<in> set xs"
  obtains y where "y \<in> set ys" and "f x = f y"
proof -
  have "f x \<in> set (map f ys)" using assms by (metis image_eqI list.set_map)
  then show thesis using that by auto
qed

lemma delete_where_simps [table_simps]:
  "delete_where p [] = []"
  "delete_where p (r # rs) = (if p r then delete_where p rs else r # delete_where p rs)"
  by (simp_all add: delete_where_def)

lemma set_delete_where [simp]: "set (delete_where p rs) = {r \<in> set rs. \<not> p r}"
  by (simp add: delete_where_def)

lemma delete_where_update_where:
  "(\<And>x. x \<in> set rs \<Longrightarrow> p x \<Longrightarrow> d x \<and> d (f x)) \<Longrightarrow> delete_where d (update_where p f rs) = delete_where d rs"
  by (induction rs) (auto simp: table_simps)

lemma sum_where_simps [simp]:
  "sum_where p f [] = 0"
  "sum_where p f (r # rs) = (if p r then f r else 0) + sum_where p f rs"
  "sum_where p f (rs @ qs) = sum_where p f rs + sum_where p f qs"
  by (simp_all add: sum_where_def)

lemma sum_where_none: "(\<And>r. r \<in> set rs \<Longrightarrow> \<not> p r) \<Longrightarrow> sum_where p f rs = 0"
  by (induction rs) auto

lemma sum_where_cong:
  "(\<And>r. r \<in> set rs \<Longrightarrow> p r = q r) \<Longrightarrow> (\<And>r. r \<in> set rs \<Longrightarrow> q r \<Longrightarrow> f r = g r) \<Longrightarrow>
   sum_where p f rs = sum_where q g rs"
  by (induction rs) auto

lemma sum_where_nonneg: "(\<And>r. r \<in> set rs \<Longrightarrow> p r \<Longrightarrow> 0 \<le> f r) \<Longrightarrow> 0 \<le> sum_where p f rs"
  by (induction rs) auto

lemma sum_where_delete:
  "sum_where p f (delete_where d rs) = sum_where p f rs - sum_where (\<lambda>r. p r \<and> d r) f rs"
  by (induction rs) (auto simp: table_simps)

lemma sum_where_update_where:
  "sum_where p f (update_where q g rs) =
   sum_where (\<lambda>r. p (if q r then g r else r)) (\<lambda>r. f (if q r then g r else r)) rs"
  by (induction rs) (auto simp: table_simps)

text \<open>At most one row of a table carries a given primary key.\<close>

lemma sum_where_unique_key:
  assumes "distinct (map key rs)" and "r \<in> set rs"
  shows "sum_where (\<lambda>x. p x \<and> key x = key r) f rs = (if p r then f r else 0)"
  using assms
proof (induction rs)
  case Nil
  then show ?case by simp
next
  case (Cons x xs)
  show ?case
  proof (cases "x = r")
    case True
    with Cons.prems have "\<And>y. y \<in> set xs \<Longrightarrow> \<not> (p y \<and> key y = key r)"
      by (auto simp: rev_image_eqI)
    with True show ?thesis by (simp add: sum_where_none)
  next
    case False
    with Cons.prems have "key x \<noteq> key r" and "r \<in> set xs" by auto
    with Cons show ?thesis by simp
  qed
qed

lemma sum_where_update_one:
  assumes "distinct rs" and "r \<in> set rs" and "\<And>x. x \<in> set rs \<Longrightarrow> p x \<longleftrightarrow> x = r"
  shows "sum_where q f (update_where p g rs) =
         sum_where q f rs - (if q r then f r else 0) + (if q (g r) then f (g r) else 0)"
  using assms
proof (induction rs)
  case Nil
  then show ?case by simp
next
  case (Cons x xs)
  show ?case
  proof (cases "x = r")
    case True
    with Cons.prems have "update_where p g xs = xs" by (intro update_where_none) auto
    with True Cons.prems show ?thesis by (simp add: table_simps)
  next
    case False
    with Cons.prems have "r \<in> set xs" "\<not> p x" by auto
    with Cons show ?thesis by (simp add: table_simps)
  qed
qed

lemma sum_where_member_le:
  assumes "r \<in> set rs" and "p r" and "\<And>x. x \<in> set rs \<Longrightarrow> p x \<Longrightarrow> 0 \<le> f x"
  shows "f r \<le> sum_where p f rs"
  using assms
proof (induction rs)
  case Nil
  then show ?case by simp
next
  case (Cons x xs)
  have "0 \<le> sum_where p f xs" using Cons.prems by (intro sum_where_nonneg) auto
  moreover have "x \<noteq> r \<Longrightarrow> f r \<le> sum_where p f xs" using Cons by auto
  ultimately show ?case using Cons.prems by (cases "x = r") (auto simp: add_increasing)
qed

section \<open>Two-digit columns\<close>

text \<open>
  Writing a value to a DECIMAL(p, 2) column rounds it to two digits, half away from zero.
  \<open>round_dp_with_strategy(2, MidpointAwayFromZero)\<close> of \<open>rust_decimal\<close> is the same function.
\<close>

definition num2 :: "decimal \<Rightarrow> decimal" where
  "num2 x = (if 0 \<le> x then of_int \<lfloor>x * 100 + 1 / 2\<rfloor> / 100
             else - (of_int \<lfloor>- x * 100 + 1 / 2\<rfloor> / 100))"

definition is_num2 :: "decimal \<Rightarrow> bool" where
  "is_num2 x \<longleftrightarrow> of_int \<lfloor>x * 100\<rfloor> = x * 100"

definition is_tie2 :: "decimal \<Rightarrow> bool" where
  "is_tie2 x \<longleftrightarrow> of_int \<lfloor>x * 100 + 1 / 2\<rfloor> = x * 100 + 1 / 2"

lemma is_num2_iff: "is_num2 x \<longleftrightarrow> (\<exists>k::int. x * 100 = of_int k)"
  by (auto simp: is_num2_def)

lemma is_num2_obtain:
  assumes "is_num2 x" obtains k :: int where "x = of_int k / 100"
  using assms by (auto simp: is_num2_iff field_simps)

lemma is_num2_0 [simp]: "is_num2 0"
  by (simp add: is_num2_def)

lemma is_num2_num2 [simp]: "is_num2 (num2 x)"
  by (auto simp: is_num2_iff num2_def) (metis of_int_minus)

lemma is_num2_add [intro]: "is_num2 x \<Longrightarrow> is_num2 y \<Longrightarrow> is_num2 (x + y)"
  by (auto simp: is_num2_iff distrib_right) (metis of_int_add)

lemma is_num2_diff [intro]: "is_num2 x \<Longrightarrow> is_num2 y \<Longrightarrow> is_num2 (x - y)"
  by (auto simp: is_num2_iff left_diff_distrib) (metis of_int_diff)

lemma is_num2_uminus [intro]: "is_num2 x \<Longrightarrow> is_num2 (- x)"
  using is_num2_diff [of 0 x] by simp

lemma is_num2_sum_where [intro]:
  "(\<And>r. r \<in> set rs \<Longrightarrow> p r \<Longrightarrow> is_num2 (f r)) \<Longrightarrow> is_num2 (sum_where p f rs)"
  by (induction rs) auto

lemma num2_id [simp]:
  assumes "is_num2 x" shows "num2 x = x"
proof -
  obtain k where k: "x = of_int k / 100" using assms by (rule is_num2_obtain)
  have "\<lfloor>of_int k + 1 / 2 :: rat\<rfloor> = k" for k by linarith
  from this [of k] this [of "- k"] k show ?thesis by (simp add: num2_def)
qed

lemma num2_nonneg: "0 \<le> x \<Longrightarrow> 0 \<le> num2 x"
  by (simp add: num2_def)

lemma num2_mono:
  assumes "x \<le> y" shows "num2 x \<le> num2 y"
proof -
  consider "0 \<le> x" | "x < 0" "0 \<le> y" | "x < 0" "y < 0" by linarith
  then show ?thesis
  proof cases
    case 1
    then have "\<lfloor>x * 100 + 1 / 2\<rfloor> \<le> \<lfloor>y * 100 + 1 / 2\<rfloor>" using assms by (intro floor_mono) auto
    with 1 assms show ?thesis by (simp add: num2_def divide_right_mono)
  next
    case 2
    then have "0 \<le> \<lfloor>- x * 100 + 1 / 2\<rfloor>" and "0 \<le> \<lfloor>y * 100 + 1 / 2\<rfloor>" by (simp_all)
    then have "num2 x \<le> 0" and "0 \<le> num2 y" using 2 by (simp_all add: num2_def)
    then show ?thesis by simp
  next
    case 3
    then have "\<lfloor>- y * 100 + 1 / 2\<rfloor> \<le> \<lfloor>- x * 100 + 1 / 2\<rfloor>" using assms by (intro floor_mono) auto
    with 3 show ?thesis by (simp add: num2_def divide_right_mono)
  qed
qed

lemma num2_le: "x \<le> y \<Longrightarrow> is_num2 y \<Longrightarrow> num2 x \<le> y"
  using num2_mono [of x y] by simp

lemma num2_pos_add:
  assumes "is_num2 a" and "0 \<le> a" and "0 \<le> x"
  shows "num2 (a + x) = a + num2 x"
proof -
  obtain k where k: "a = of_int k / 100" using assms(1) by (rule is_num2_obtain)
  have "\<lfloor>(a + x) * 100 + 1 / 2\<rfloor> = k + \<lfloor>x * 100 + 1 / 2\<rfloor>"
    using k by (simp add: distrib_right) linarith
  with assms k show ?thesis by (simp add: num2_def add_divide_distrib)
qed

text \<open>
  Rounding the difference agrees with subtracting the rounded value only away from ties: at
  a tie both sums are rounded up.
\<close>

lemma num2_pos_diff:
  assumes "is_num2 a" and "0 \<le> x" and "x \<le> a" and "\<not> is_tie2 x"
  shows "num2 (a - x) = a - num2 x"
proof -
  obtain k where k: "a = of_int k / 100" using assms(1) by (rule is_num2_obtain)
  let ?y = "x * 100 + 1 / 2"
  have "of_int \<lfloor>?y\<rfloor> < ?y"
    using assms(4) of_int_floor_le [of ?y] unfolding is_tie2_def by linarith
  then have "\<lfloor>(a - x) * 100 + 1 / 2\<rfloor> = k - \<lfloor>?y\<rfloor>"
    using k by (simp add: left_diff_distrib) linarith
  with assms k show ?thesis by (simp add: num2_def diff_divide_distrib)
qed

lemma not_tie2_num2: "is_num2 x \<Longrightarrow> \<not> is_tie2 x"
proof
  assume "is_num2 x" "is_tie2 x"
  then obtain k l :: int where "x * 100 = of_int k" "x * 100 + 1 / 2 = of_int l"
    by (auto simp: is_num2_iff is_tie2_def)
  then have "(1::rat) = of_int (2 * (l - k))" by (simp add: algebra_simps)
  then have "1 = 2 * (l - k)" by linarith
  then show False by presburger
qed

text \<open>A whole number of minutes, read as hours, is never a tie.\<close>

lemma not_tie2_minutes: "\<not> is_tie2 (of_int m / 60)"
proof
  assume "is_tie2 (of_int m / 60)"
  then obtain k :: int where "of_int m / 60 * 100 + 1 / 2 = (of_int k :: rat)"
    by (auto simp: is_tie2_def)
  then have "(of_int (10 * m + 3) :: rat) = of_int (6 * k)" by (simp add: field_simps)
  then have "10 * m + 3 = 6 * k" by (simp only: of_int_eq_iff)
  then show False by presburger
qed

section \<open>Text\<close>

text \<open>\<open>format!("{:06}", n)\<close>: decimal digits, padded with zeros to six places.\<close>

fun digits_of :: "nat \<Rightarrow> string" where
  "digits_of n = (if n < 10 then [char_of (48 + n)] else digits_of (n div 10) @ [char_of (48 + n mod 10)])"

declare digits_of.simps [simp del]

definition pad6 :: "nat \<Rightarrow> string" where
  "pad6 n = replicate (6 - length (digits_of n)) (CHR ''0'') @ digits_of n"

fun undigits :: "nat \<Rightarrow> string \<Rightarrow> nat" where
  "undigits acc [] = acc"
| "undigits acc (c # cs) = undigits (10 * acc + (of_char c - 48)) cs"

lemma undigits_append: "undigits a (xs @ ys) = undigits (undigits a xs) ys"
  by (induction xs arbitrary: a) auto

lemma undigits_zeros: "undigits 0 (replicate k (CHR ''0'')) = 0"
  by (induction k) auto

lemma undigits_digits_of: "undigits 0 (digits_of n) = n"
proof (induction n rule: digits_of.induct)
  case (1 n)
  show ?case
  proof (cases "n < 10")
    case True
    then show ?thesis by (subst digits_of.simps) simp
  next
    case False
    with 1 have "undigits 0 (digits_of (n div 10)) = n div 10" by simp
    with False show ?thesis by (subst digits_of.simps) (simp add: undigits_append)
  qed
qed

lemma undigits_pad6: "undigits 0 (pad6 n) = n"
  by (simp add: pad6_def undigits_append undigits_zeros undigits_digits_of)

lemma pad6_inject: "pad6 m = pad6 n \<longleftrightarrow> m = n"
  using undigits_pad6 by metis

end
