(* ===== verification/Calendar.thy ===== *)
theory Calendar
  imports Mokosh_Prelude
begin

text \<open>
  The part of \<open>chrono\<close> the server calls on dates. The operations are the fields of a record
  that the components take as an argument; locale \<open>calendar\<close> states the documented
  behaviour they rely on (adding days adds them, adding months moves strictly forward, results
  stay in the supported range). The proleptic Gregorian calendar with the range of
  \<open>NaiveDate\<close> is an instance, used by the interpretation and by every concrete evaluation.
\<close>

section \<open>The interface\<close>

record cal =
  cal_min :: date
  cal_max :: date
  checked_add_days :: "nat \<Rightarrow> date \<Rightarrow> date option"
  checked_add_months :: "nat \<Rightarrow> date \<Rightarrow> date option"
  from_ymd_opt :: "int \<Rightarrow> nat \<Rightarrow> nat \<Rightarrow> date option"

definition succ_opt :: "cal \<Rightarrow> date \<Rightarrow> date option" where
  "succ_opt C d = (if d < cal_max C then Some (d + 1) else None)"

definition pred_opt :: "cal \<Rightarrow> date \<Rightarrow> date option" where
  "pred_opt C d = (if cal_min C < d then Some (d - 1) else None)"

definition opt_or :: "'a option \<Rightarrow> 'a \<Rightarrow> 'a" where
  "opt_or x d = (case x of None \<Rightarrow> d | Some y \<Rightarrow> y)"

lemma opt_or_simps [simp]: "opt_or None d = d" "opt_or (Some y) d = y"
  by (simp_all add: opt_or_def)

text \<open>Sunday is 0, as in the schedules of the SLA clock; 1970-01-01 was a Thursday.\<close>

definition weekday :: "date \<Rightarrow> nat" where
  "weekday d = nat ((d + 4) mod 7)"

definition num_days_from_monday :: "date \<Rightarrow> int" where
  "num_days_from_monday d = (d + 3) mod 7"

lemma weekday_less: "weekday d < 7"
  by (simp add: weekday_def nat_less_iff)

locale calendar =
  fixes C :: cal
  assumes add_days: "checked_add_days C n d = Some d' \<Longrightarrow> d' = d + int n"
    and add_months: "checked_add_months C n d = Some d' \<Longrightarrow> 0 < n \<Longrightarrow> d < d'"
    and add_days_max: "checked_add_days C n d = Some d' \<Longrightarrow> d' \<le> cal_max C"
    and add_months_max: "checked_add_months C n d = Some d' \<Longrightarrow> d' \<le> cal_max C"

section \<open>The Gregorian instance\<close>

definition leap :: "int \<Rightarrow> bool" where
  "leap y \<longleftrightarrow> 4 dvd y \<and> (\<not> 100 dvd y \<or> 400 dvd y)"

definition jan1 :: "int \<Rightarrow> int" where
  "jan1 y = 365 * (y - 1) + (y - 1) div 4 - (y - 1) div 100 + (y - 1) div 400 - 719162"

definition days_in_month :: "int \<Rightarrow> int \<Rightarrow> int" where
  "days_in_month y m =
     (if m = 1 then (if leap y then 29 else 28) else if m \<in> {3, 5, 8, 10} then 30 else 31)"

definition month_len :: "int \<Rightarrow> int" where
  "month_len k = days_in_month (k div 12) (k mod 12)"

definition before_month :: "int \<Rightarrow> int \<Rightarrow> int" where
  "before_month y m =
     [0, 31, 59, 90, 120, 151, 181, 212, 243, 273, 304, 334] ! nat m
     + (if m \<ge> 2 \<and> leap y then 1 else 0)"

text \<open>Months are counted from January of year 0: month \<open>12 * y + (m - 1)\<close>.\<close>

definition month_first :: "int \<Rightarrow> int" where
  "month_first k = jan1 (k div 12) + before_month (k div 12) (k mod 12)"

lemma div_pred:
  assumes "0 < (n::int)"
  shows "y div n = (y - 1) div n + (if n dvd y then 1 else 0)"
proof (cases "n dvd y")
  case True
  then obtain q where q: "y = n * q" by blast
  have "(n * q - 1) div n = q - 1"
    using assms int_div_pos_eq [of "n * q - 1" n "q - 1" "n - 1"] by (simp add: algebra_simps)
  with True q assms show ?thesis by simp
next
  case False
  have "y mod n \<noteq> 0" using False by (simp add: dvd_eq_mod_eq_0)
  then have r: "0 < y mod n" "y mod n < n"
    using pos_mod_sign [OF assms, of y] pos_mod_bound [OF assms, of y] by linarith+
  have "y - 1 = n * (y div n) + (y mod n - 1)" by simp
  then have "(y - 1) div n = y div n"
    using r int_div_pos_eq [of "y - 1" n "y div n" "y mod n - 1"] by simp
  with False show ?thesis by simp
qed

lemma jan1_Suc: "jan1 (y + 1) = jan1 y + (if leap y then 366 else 365)"
proof -
  have d: "100 dvd y \<Longrightarrow> 4 dvd y" "400 dvd y \<Longrightarrow> 100 dvd y"
    by (rule dvd_trans [of "4::int" 100 y], simp, simp)
       (rule dvd_trans [of "100::int" 400 y], simp, simp)
  define p q r where "p = (y - 1) div 4" and "q = (y - 1) div 100" and "r = (y - 1) div 400"
  have e: "y div 4 = p + (if 4 dvd y then 1 else 0)"
    "y div 100 = q + (if 100 dvd y then 1 else 0)"
    "y div 400 = r + (if 400 dvd y then 1 else 0)"
    unfolding p_def q_def r_def by (rule div_pred, simp)+
  have "jan1 (y + 1) = 365 * y + y div 4 - y div 100 + y div 400 - 719162"
    by (simp add: jan1_def)
  moreover have "jan1 y = 365 * (y - 1) + p - q + r - 719162"
    by (simp add: jan1_def p_def q_def r_def)
  ultimately show ?thesis using d by (simp only: e leap_def split: if_splits) auto
qed

lemma month_len_bounds: "28 \<le> month_len k" "month_len k \<le> 31"
  by (simp_all add: month_len_def days_in_month_def)

lemma before_month_Suc:
  assumes "0 \<le> m" and "m < 11"
  shows "before_month y (m + 1) = before_month y m + days_in_month y m"
proof -
  from assms have "m = 0 \<or> m = 1 \<or> m = 2 \<or> m = 3 \<or> m = 4 \<or> m = 5 \<or> m = 6 \<or> m = 7
      \<or> m = 8 \<or> m = 9 \<or> m = 10" by presburger
  then show ?thesis
    by (elim disjE) (simp_all add: before_month_def days_in_month_def)
qed

lemma month_first_Suc: "month_first (k + 1) = month_first k + month_len k"
proof (cases "k mod 12 = 11")
  case True
  then have e: "(k + 1) div 12 = k div 12 + 1" "(k + 1) mod 12 = 0"
    using int_div_pos_eq [of "k + 1" 12 "k div 12 + 1" 0] int_mod_pos_eq [of "k + 1" 12 "k div 12 + 1" 0]
      div_mult_mod_eq [of k 12] by simp_all
  show ?thesis
    unfolding month_first_def month_len_def e True jan1_Suc
    by (simp add: before_month_def days_in_month_def)
next
  case False
  have b: "0 \<le> k mod 12" "k mod 12 < 12" by simp_all
  with False have m: "0 \<le> k mod 12" "k mod 12 < 11" by linarith+
  then have e: "(k + 1) div 12 = k div 12" "(k + 1) mod 12 = k mod 12 + 1"
    using int_div_pos_eq [of "k + 1" 12 "k div 12" "k mod 12 + 1"]
      int_mod_pos_eq [of "k + 1" 12 "k div 12" "k mod 12 + 1"] div_mult_mod_eq [of k 12]
    by simp_all
  show ?thesis
    unfolding month_first_def month_len_def e before_month_Suc [OF m] by simp
qed

lemma month_first_less_Suc: "month_first k < month_first (k + 1)"
  using month_len_bounds(1) [of k] by (simp add: month_first_Suc)

lemma month_first_mono_nat: "month_first k \<le> month_first (k + int n)"
proof (induction n)
  case (Suc n)
  then show ?case using month_first_less_Suc [of "k + int n"] by (simp add: algebra_simps)
qed simp

text \<open>The month of a day, searched upwards from a month that starts no later.\<close>

function month_from :: "int \<Rightarrow> date \<Rightarrow> int" where
  "month_from k d = (if d < month_first (k + 1) then k else month_from (k + 1) d)"
  by pat_completeness auto
termination
proof (relation "measure (\<lambda>(k, d). nat (d + 1 - month_first k))")
  fix k d
  assume "\<not> d < month_first (k + 1)"
  then show "((k + 1, d), k, d) \<in> measure (\<lambda>(k, d). nat (d + 1 - month_first k))"
    using month_first_less_Suc [of k] by simp
qed simp

declare month_from.simps [simp del]

lemma month_from_bounds:
  "month_first k \<le> d \<Longrightarrow>
   month_first (month_from k d) \<le> d \<and> d < month_first (month_from k d + 1)"
proof (induction k d rule: month_from.induct)
  case (1 k d)
  then show ?case by (cases "d < month_first (k + 1)") (simp_all add: month_from.simps [of k d])
qed

definition start_month :: "date \<Rightarrow> int" where
  "start_month d = 12 * (1970 + (if 0 \<le> d then d div 366 else d div 365))"

lemma jan1_bounds: "jan1 (1970 + int n) \<le> 366 * int n" "jan1 (1970 - int n) \<le> - (365 * int n)"
proof (induction n)
  case 0
  show "jan1 (1970 + int 0) \<le> 366 * int 0" "jan1 (1970 - int 0) \<le> - (365 * int 0)"
    by (simp_all add: jan1_def)
next
  case (Suc n)
  show "jan1 (1970 + int (Suc n)) \<le> 366 * int (Suc n)"
    using Suc(1) jan1_Suc [of "1970 + int n"] by (auto split: if_splits simp: algebra_simps)
  show "jan1 (1970 - int (Suc n)) \<le> - (365 * int (Suc n))"
    using Suc(2) jan1_Suc [of "1970 - int (Suc n)"] by (auto split: if_splits simp: algebra_simps)
qed

lemma start_month_le: "month_first (start_month d) \<le> d"
proof (cases "0 \<le> d")
  case True
  then have "0 \<le> d div 366" by (simp add: pos_imp_zdiv_nonneg_iff)
  then have "jan1 (1970 + d div 366) \<le> 366 * (d div 366)"
    using jan1_bounds(1) [of "nat (d div 366)"] by simp
  also have "\<dots> \<le> d" by simp
  finally show ?thesis
    using True by (simp add: month_first_def start_month_def before_month_def)
next
  case False
  then have "d div 365 \<le> 0" by simp
  then have "jan1 (1970 + d div 365) \<le> 365 * (d div 365)"
    using jan1_bounds(2) [of "nat (- (d div 365))"] by simp
  also have "\<dots> \<le> d" by simp
  finally show ?thesis
    using False by (simp add: month_first_def start_month_def before_month_def)
qed

definition month_of :: "date \<Rightarrow> int" where
  "month_of d = month_from (start_month d) d"

lemma month_of_bounds: "month_first (month_of d) \<le> d" "d < month_first (month_of d + 1)"
  using month_from_bounds [OF start_month_le] by (simp_all add: month_of_def)

text \<open>
  Adding months keeps the day of the month, or takes the last day of a shorter target month.
\<close>

definition greg_add_months :: "nat \<Rightarrow> date \<Rightarrow> date" where
  "greg_add_months n d =
     (let k = month_of d; k' = k + int n
      in month_first k' + min (d - month_first k) (month_len k' - 1))"

lemma greg_add_months_gt:
  assumes "0 < n" shows "d < greg_add_months n d"
proof -
  obtain j where j: "n = Suc j" using assms by (cases n) auto
  have "d < month_first (month_of d + 1)" by (rule month_of_bounds)
  also have "\<dots> \<le> month_first (month_of d + int n)"
    using month_first_mono_nat [of "month_of d + 1" j] j by (simp add: algebra_simps)
  also have "\<dots> \<le> greg_add_months n d"
    using month_of_bounds(1) [of d] month_len_bounds(1) [of "month_of d + int n"]
    by (simp add: greg_add_months_def Let_def)
  finally show ?thesis .
qed

definition ymd :: "int \<Rightarrow> nat \<Rightarrow> nat \<Rightarrow> date" where
  "ymd y m d = month_first (12 * y + int m - 1) + int d - 1"

definition gregorian :: cal where
  "gregorian = \<lparr>
     cal_min = ymd (- 262143) 1 1,
     cal_max = ymd 262142 12 31,
     checked_add_days = (\<lambda>n d. if d + int n \<le> ymd 262142 12 31 then Some (d + int n) else None),
     checked_add_months = (\<lambda>n d. if greg_add_months n d \<le> ymd 262142 12 31
                                 then Some (greg_add_months n d) else None),
     from_ymd_opt = (\<lambda>y m d. if 1 \<le> m \<and> m \<le> 12 \<and> 1 \<le> d
                                 \<and> int d \<le> month_len (12 * y + int m - 1)
                                 \<and> - 262143 \<le> y \<and> y \<le> 262142
                              then Some (ymd y m d) else None) \<rparr>"

interpretation greg: calendar gregorian
  by unfold_locales (auto simp: gregorian_def greg_add_months_gt split: if_splits)

lemma gregorian_known_days:
  "ymd 1970 1 1 = 0" "ymd 2026 1 31 = 20484" "ymd 9999 12 31 = 2932896"
  "greg_add_months 1 (ymd 2026 1 31) = ymd 2026 2 28"
  "weekday (ymd 2026 6 5) = 5"
  by code_simp+

end
