(* ===== verification/Billing_Cycle.thy ===== *)
theory Billing_Cycle
  imports Calendar
begin

text \<open>
  Billing periods. \<open>CycleStep\<close> and \<open>period_for\<close> of src/src/modules/contracts/service.rs cut the
  windows that hour balances are kept in; \<open>current_billing_period\<close> of
  src/src/modules/billing/service.rs cuts the windows recurring invoices are anchored on. Both
  walk forward from the contract's start date. The theory shows that they cut the same
  windows, that a window contains the date it was asked for, that the windows tile the time
  after the start date, and that the walk ends.
\<close>

section \<open>Cycle steps\<close>

datatype cycle_step = Days nat | Months nat

definition from_cycle :: "string \<Rightarrow> cycle_step option" where
  "from_cycle billing_cycle =
     (if billing_cycle = ''weekly'' then Some (Days 7)
      else if billing_cycle = ''bi_weekly'' then Some (Days 14)
      else if billing_cycle = ''monthly'' then Some (Months 1)
      else if billing_cycle = ''quarterly'' then Some (Months 3)
      else if billing_cycle = ''annually'' then Some (Months 12)
      else None)"

fun advance :: "cal \<Rightarrow> cycle_step \<Rightarrow> date \<Rightarrow> date option" where
  "advance C (Days d) date = checked_add_days C d date"
| "advance C (Months m) date = checked_add_months C m date"

section \<open>Hour-balance windows\<close>

text \<open>The loop of \<open>period_for\<close>, then the function.\<close>

function period_walk :: "cal \<Rightarrow> cycle_step \<Rightarrow> date \<Rightarrow> date \<Rightarrow> date \<times> date" where
  "period_walk C step start when =
     (let next = opt_or (advance C step start) start
      in if next \<le> start then (start, opt_or (from_ymd_opt C 9999 12 31) start)
         else if when < next then (start, opt_or (pred_opt C next) next)
         else period_walk C step next when)"
  by pat_completeness auto
termination
  by (relation "measure (\<lambda>(C, step, start, when). nat (when - start))") auto

declare period_walk.simps [simp del]

definition period_for :: "cal \<Rightarrow> date \<Rightarrow> string \<Rightarrow> date \<Rightarrow> date \<times> date" where
  "period_for C anchor billing_cycle when =
     (case from_cycle billing_cycle of
        None \<Rightarrow> (anchor, opt_or (from_ymd_opt C 9999 12 31) anchor)
      | Some step \<Rightarrow> period_walk C step anchor when)"

section \<open>Recurring-invoice windows\<close>

function billing_walk :: "cal \<Rightarrow> cycle_step \<Rightarrow> date \<Rightarrow> date \<Rightarrow> (date \<times> date) option" where
  "billing_walk C step period_start today =
     (case advance C step period_start of
        None \<Rightarrow> None
      | Some next \<Rightarrow>
          if next \<le> period_start then None
          else if next > today then Some (period_start, opt_or (pred_opt C next) next)
          else billing_walk C step next today)"
  by pat_completeness auto
termination
  by (relation "measure (\<lambda>(C, step, start, today). nat (today - start))") auto

declare billing_walk.simps [simp del]

definition current_billing_period :: "cal \<Rightarrow> string \<Rightarrow> date \<Rightarrow> date \<Rightarrow> (date \<times> date) option" where
  "current_billing_period C billing_cycle start_date today =
     (if today < start_date then None
      else case from_cycle billing_cycle of
             None \<Rightarrow> None
           | Some step \<Rightarrow> billing_walk C step start_date today)"

section \<open>The boundaries the windows lie between\<close>

text \<open>
  Boundary \<open>n\<close> of a step and an anchor is the anchor advanced \<open>n\<close> times; it is undefined
  from the first step that leaves the calendar. This is the specification of both walks.
\<close>

fun boundary :: "cal \<Rightarrow> cycle_step \<Rightarrow> date \<Rightarrow> nat \<Rightarrow> date option" where
  "boundary C step anchor 0 = Some anchor"
| "boundary C step anchor (Suc n) = Option.bind (boundary C step anchor n) (advance C step)"

definition is_window :: "cal \<Rightarrow> cycle_step \<Rightarrow> date \<Rightarrow> date \<times> date \<Rightarrow> bool" where
  "is_window C step anchor w \<longleftrightarrow>
     (\<exists>n. boundary C step anchor n = Some (fst w)
        \<and> boundary C step anchor (Suc n) = Some (snd w + 1))"

definition recurring :: "cycle_step \<Rightarrow> bool" where
  "recurring step = (case step of Days n \<Rightarrow> 0 < n | Months n \<Rightarrow> 0 < n)"

lemma from_cycle_recurring: "from_cycle c = Some step \<Longrightarrow> recurring step"
  by (auto simp: from_cycle_def recurring_def split: if_splits)

lemma boundary_shift:
  "advance C step anchor = Some next \<Longrightarrow> boundary C step anchor (Suc n) = boundary C step next n"
  by (induction n) auto

lemma is_window_shift:
  assumes "advance C step anchor = Some next" and "is_window C step next w"
  shows "is_window C step anchor w"
proof -
  from assms(2) obtain n where "boundary C step next n = Some (fst w)"
    and "boundary C step next (Suc n) = Some (snd w + 1)" by (auto simp: is_window_def)
  then have "boundary C step anchor (Suc n) = Some (fst w)"
    and "boundary C step anchor (Suc (Suc n)) = Some (snd w + 1)"
    by (simp_all only: boundary_shift [OF assms(1)])
  then show ?thesis unfolding is_window_def by blast
qed

text \<open>Where the invoice walk answers, the balance walk answers the same.\<close>

lemma period_walk_billing_walk:
  "billing_walk C step start when = Some w \<Longrightarrow> period_walk C step start when = w"
proof (induction C step start "when" rule: billing_walk.induct)
  case (1 C step start "when")
  from "1.prems" obtain next' where n: "advance C step start = Some next'" "start < next'"
    by (auto simp: billing_walk.simps [of C step start] split: option.splits if_splits)
  show ?case
  proof (cases "when < next'")
    case True
    with n "1.prems" show ?thesis
      by (simp add: billing_walk.simps [of C step start] period_walk.simps [of C step start])
  next
    case False
    with n "1.prems" have "billing_walk C step next' when = Some w"
      by (simp add: billing_walk.simps [of C step start])
    with False n "1.IH" [OF n(1)] show ?thesis
      by (simp add: period_walk.simps [of C step start])
  qed
qed

context calendar
begin

lemma advance_gt: "advance C step d = Some d' \<Longrightarrow> recurring step \<Longrightarrow> d < d'"
  by (cases step) (auto simp: recurring_def dest: add_days add_months)

lemma boundary_Suc_gt:
  "recurring step \<Longrightarrow> boundary C step a n = Some d \<Longrightarrow> boundary C step a (Suc n) = Some d' \<Longrightarrow> d < d'"
  by (auto dest: advance_gt)

lemma boundary_less:
  assumes "recurring step" and "m < n"
    and "boundary C step a m = Some d" and "boundary C step a n = Some d'"
  shows "d < d'"
  using assms(2,4)
proof (induction n arbitrary: d')
  case 0
  then show ?case by simp
next
  case (Suc n)
  then obtain e where e: "boundary C step a n = Some e" "e < d'"
    using advance_gt [OF _ assms(1)] by (auto simp: Option.bind_eq_Some_conv)
  show ?case
  proof (cases "m = n")
    case True
    with e assms(3) show ?thesis by simp
  next
    case False
    with Suc.prems have "m < n" by simp
    with Suc.IH e show ?thesis by fastforce
  qed
qed

text \<open>Two windows that share a day are the same window.\<close>

lemma is_window_unique:
  assumes "recurring step" and "is_window C step a v" and "is_window C step a w"
    and "fst v \<le> d" "d \<le> snd v" "fst w \<le> d" "d \<le> snd w"
  shows "v = w"
proof -
  from assms(2,3) obtain m n where
    m: "boundary C step a m = Some (fst v)" "boundary C step a (Suc m) = Some (snd v + 1)" and
    n: "boundary C step a n = Some (fst w)" "boundary C step a (Suc n) = Some (snd w + 1)"
    unfolding is_window_def by blast
  have le: "snd x + 1 \<le> fst y"
    if "i < j" and "boundary C step a (Suc i) = Some (snd x + 1)"
      and "boundary C step a j = Some (fst y)" for i j and x y :: "date \<times> date"
    using that boundary_less [OF assms(1), of "Suc i" j a "snd x + 1" "fst y"]
    by (cases "Suc i = j") auto
  have "m = n"
    using le [of m n v w] le [of n m w v] m n assms(4-7) by (cases m n rule: linorder_cases) auto
  with m n show ?thesis by (simp add: prod_eq_iff)
qed

text \<open>The invoice walk returns exactly the window that holds the day.\<close>

lemma billing_walk_window:
  assumes "recurring step"
  shows "billing_walk C step a d = Some w \<Longrightarrow> a \<le> d \<Longrightarrow> cal_min C \<le> a \<Longrightarrow>
         is_window C step a w \<and> fst w \<le> d \<and> d \<le> snd w"
proof (induction C step a d rule: billing_walk.induct)
  case (1 C' step' a' d')
  note IH = "1.IH" and prems = "1.prems"
  from prems(1) obtain next' where n: "advance C' step' a' = Some next'" "a' < next'"
    by (auto simp: billing_walk.simps [of C' step' a'] split: option.splits if_splits)
  show ?case
  proof (cases "d' < next'")
    case True
    with n prems have w: "w = (a', next' - 1)"
      by (simp add: billing_walk.simps [of C' step' a'] pred_opt_def)
    have "boundary C' step' a' 0 = Some (fst w)" "boundary C' step' a' (Suc 0) = Some (snd w + 1)"
      using n w by simp_all
    then have "is_window C' step' a' w" unfolding is_window_def by blast
    with w True prems show ?thesis by simp
  next
    case False
    with n prems have "billing_walk C' step' next' d' = Some w"
      by (simp add: billing_walk.simps [of C' step' a'])
    with IH [OF n(1)] n prems False have "is_window C' step' next' w \<and> fst w \<le> d' \<and> d' \<le> snd w"
      by simp
    with is_window_shift [OF n(1)] show ?thesis by blast
  qed
qed

text \<open>A window that holds a boundary starts there.\<close>

lemma window_at_boundary:
  assumes "recurring step" and "boundary C step a k = Some d"
    and "is_window C step a w" and "fst w \<le> d" and "d \<le> snd w"
  shows "fst w = d"
proof -
  from assms(3) obtain n where
    n: "boundary C step a n = Some (fst w)" "boundary C step a (Suc n) = Some (snd w + 1)"
    unfolding is_window_def by blast
  have "\<not> k < n" using boundary_less [OF assms(1) _ assms(2) n(1)] assms(4) by auto
  moreover have "\<not> Suc n < k" using boundary_less [OF assms(1) _ n(2) assms(2)] assms(5) by auto
  moreover have "k \<noteq> Suc n" using n(2) assms(2,5) by auto
  ultimately have "k = n" by simp
  with n(1) assms(2) show ?thesis by simp
qed

lemma billing_walk_iff:
  assumes "recurring step" and "a \<le> d" and "cal_min C \<le> a" and "billing_walk C step a d = Some v"
  shows "v = w \<longleftrightarrow> is_window C step a w \<and> fst w \<le> d \<and> d \<le> snd w"
  using billing_walk_window [OF assms(1,4,2,3)] is_window_unique [OF assms(1)] by blast

end

section \<open>Properties\<close>

lemma current_billing_period_iff:
  assumes "calendar C" and "cal_min C \<le> start_date"
    and "from_cycle cycle = Some step"
    and "current_billing_period C cycle start_date today = Some w"
  shows "w = v \<longleftrightarrow> is_window C step start_date v \<and> fst v \<le> today \<and> today \<le> snd v"
proof -
  from assms have "start_date \<le> today" and "billing_walk C step start_date today = Some w"
    by (auto simp: current_billing_period_def split: if_splits)
  with assms show ?thesis
    by (intro calendar.billing_walk_iff from_cycle_recurring)
qed

lemma period_for_eq:
  "current_billing_period C cycle start_date today = Some w \<Longrightarrow> period_for C start_date cycle today = w"
  using period_walk_billing_walk
  by (auto simp: current_billing_period_def period_for_def split: if_splits option.splits)

text \<open>
  C39. For a date on or after the contract's start, the window the recurring-invoicing run
  computes is a window between two consecutive cycle boundaries, it contains the date, and no
  other window between consecutive boundaries does: the windows tile the time from the start
  date on.
\<close>

theorem current_billing_period_tiles:
  assumes "calendar C" and "cal_min C \<le> start_date"
    and "from_cycle cycle = Some step"
    and "current_billing_period C cycle start_date today = Some w"
  shows "is_window C step start_date w \<and> fst w \<le> today \<and> today \<le> snd w
     \<and> (\<forall>v. is_window C step start_date v \<longrightarrow> fst v \<le> today \<longrightarrow> today \<le> snd v \<longrightarrow> v = w)"
  by (metis current_billing_period_iff [OF assms])

theorem current_billing_period_tiles_witness:
  "calendar gregorian \<and> cal_min gregorian \<le> ymd 2026 1 15
   \<and> from_cycle ''monthly'' = Some (Months 1)
   \<and> current_billing_period gregorian ''monthly'' (ymd 2026 1 15) (ymd 2026 3 1)
       = Some (ymd 2026 2 15, ymd 2026 3 14)
   \<and> is_window gregorian (Months 1) (ymd 2026 1 15) (ymd 2026 2 15, ymd 2026 3 14)"
proof -
  have h: "cal_min gregorian \<le> ymd 2026 1 15" "from_cycle ''monthly'' = Some (Months 1)"
    "current_billing_period gregorian ''monthly'' (ymd 2026 1 15) (ymd 2026 3 1)
       = Some (ymd 2026 2 15, ymd 2026 3 14)" by code_simp+
  show ?thesis
    using current_billing_period_tiles [OF greg.calendar_axioms h] h greg.calendar_axioms by simp
qed

text \<open>
  The hour-balance window and the recurring-invoice window agree: wherever
  \<open>current_billing_period\<close> answers, \<open>period_for\<close> answers the same window.
\<close>

theorem period_for_agrees_with_invoicing:
  assumes "current_billing_period C cycle start_date today = Some w"
  shows "period_for C start_date cycle today = w"
  using assms by (rule period_for_eq)

theorem period_for_agrees_with_invoicing_witness:
  "current_billing_period gregorian ''quarterly'' (ymd 2026 1 1) (ymd 2026 8 20)
     = Some (ymd 2026 7 1, ymd 2026 9 30)
   \<and> period_for gregorian (ymd 2026 1 1) ''quarterly'' (ymd 2026 8 20)
     = (ymd 2026 7 1, ymd 2026 9 30)"
proof -
  have h: "current_billing_period gregorian ''quarterly'' (ymd 2026 1 1) (ymd 2026 8 20)
     = Some (ymd 2026 7 1, ymd 2026 9 30)" by code_simp
  show ?thesis using h period_for_agrees_with_invoicing [OF h] by simp
qed

text \<open>
  The window that \<open>roll_to_next_period\<close> credits, the one \<open>period_for\<close> gives for the day
  after a closing window ends, starts on exactly that day.
\<close>

theorem period_after_close_starts_next_day:
  assumes "calendar C" and "cal_min C \<le> start_date"
    and "current_billing_period C cycle start_date today = Some (s, e)"
    and "current_billing_period C cycle start_date (e + 1) = Some w"
  shows "fst (period_for C start_date cycle (e + 1)) = e + 1"
proof -
  from assms(3) obtain step where step: "from_cycle cycle = Some step"
    by (auto simp: current_billing_period_def split: if_splits option.splits)
  have "is_window C step start_date (s, e)"
    using current_billing_period_iff [OF assms(1,2) step assms(3)] by blast
  then obtain k where k: "boundary C step start_date (Suc k) = Some (e + 1)"
    unfolding is_window_def by auto
  have "is_window C step start_date w \<and> fst w \<le> e + 1 \<and> e + 1 \<le> snd w"
    using current_billing_period_iff [OF assms(1,2) step assms(4)] by blast
  then have "fst w = e + 1"
    using calendar.window_at_boundary [OF assms(1) from_cycle_recurring [OF step] k] by blast
  with period_for_eq [OF assms(4)] show ?thesis by simp
qed

theorem period_after_close_starts_next_day_witness:
  "current_billing_period gregorian ''bi_weekly'' (ymd 2026 1 5) (ymd 2026 2 1)
     = Some (ymd 2026 1 19, ymd 2026 2 1)
   \<and> fst (period_for gregorian (ymd 2026 1 5) ''bi_weekly'' (ymd 2026 2 1 + 1)) = ymd 2026 2 1 + 1"
proof -
  have h: "cal_min gregorian \<le> ymd 2026 1 5"
    "current_billing_period gregorian ''bi_weekly'' (ymd 2026 1 5) (ymd 2026 2 1)
     = Some (ymd 2026 1 19, ymd 2026 2 1)"
    "current_billing_period gregorian ''bi_weekly'' (ymd 2026 1 5) (ymd 2026 2 1 + 1)
     = Some (ymd 2026 2 2, ymd 2026 2 15)" by code_simp+
  show ?thesis using h period_after_close_starts_next_day [OF greg.calendar_axioms h] by blast
qed

lemma month_first_add_le: "month_first (k + int n) \<le> month_first k + 31 * int n"
proof (induction n)
  case (Suc n)
  then show ?case
    using month_first_Suc [of "k + int n"] month_len_bounds(2) [of "k + int n"]
    by (simp add: algebra_simps)
qed simp

lemma greg_add_months_le: "greg_add_months n d \<le> d + 31 * int n"
  using month_first_add_le [of "month_of d" n] by (simp add: greg_add_months_def Let_def)

lemma gregorian_advance:
  assumes "from_cycle c = Some step" and "d + 372 \<le> cal_max gregorian"
  shows "\<exists>d'. advance gregorian step d = Some d' \<and> d < d'"
proof -
  have "\<exists>d'. advance gregorian step d = Some d'"
    using assms greg_add_months_le [of 1 d] greg_add_months_le [of 3 d] greg_add_months_le [of 12 d]
    by (auto simp: from_cycle_def gregorian_def split: if_splits)
  with greg.advance_gt from_cycle_recurring [OF assms(1)] show ?thesis by blast
qed

lemma gregorian_billing_walk:
  assumes "from_cycle c = Some step"
  shows "start \<le> d \<Longrightarrow> d + 372 \<le> cal_max gregorian \<Longrightarrow> \<exists>w. billing_walk gregorian step start d = Some w"
proof (induction "nat (d - start)" arbitrary: start rule: less_induct)
  case less
  from less.prems obtain n where n: "advance gregorian step start = Some n" "start < n"
    using gregorian_advance [OF assms, of start] by auto
  show ?case
  proof (cases "d < n")
    case True
    with n show ?thesis by (simp add: billing_walk.simps [of _ _ start])
  next
    case False
    with n less.prems have "\<exists>w. billing_walk gregorian step n d = Some w"
      by (intro less.hyps) auto
    with False n show ?thesis by (simp add: billing_walk.simps [of _ _ start])
  qed
qed

text \<open>
  C40. On the Gregorian calendar the walk always answers within the supported range: no window
  is returned exactly when the contract has not started or its cycle does not recur.
\<close>

theorem current_billing_period_total:
  assumes "today + 372 \<le> cal_max gregorian"
  shows "current_billing_period gregorian cycle start_date today = None
         \<longleftrightarrow> today < start_date \<or> from_cycle cycle = None"
  using gregorian_billing_walk [of cycle _ start_date today] assms
  by (auto simp: current_billing_period_def split: option.splits)

theorem current_billing_period_total_witness:
  "ymd 2026 5 1 + 372 \<le> cal_max gregorian
   \<and> current_billing_period gregorian ''one_time'' (ymd 2026 1 1) (ymd 2026 5 1) = None
   \<and> current_billing_period gregorian ''weekly'' (ymd 2026 1 1) (ymd 2026 5 1) \<noteq> None"
proof -
  have h: "ymd 2026 5 1 + 372 \<le> cal_max gregorian" "\<not> ymd 2026 5 1 < ymd 2026 1 1"
    "from_cycle ''one_time'' = None" "from_cycle ''weekly'' \<noteq> None" by code_simp+
  show ?thesis
    using h current_billing_period_total [OF h(1), of "''one_time''" "ymd 2026 1 1"]
      current_billing_period_total [OF h(1), of "''weekly''" "ymd 2026 1 1"] by simp
qed

text \<open>
  Month cycles drift: the walk advances from the clamped date, so a monthly contract that
  starts on January 31 bills from March 28 in its third period, where two months after the
  start is March 31.
\<close>

theorem monthly_cycle_drifts:
  "current_billing_period gregorian ''monthly'' (ymd 2026 1 31) (ymd 2026 3 30)
     = Some (ymd 2026 3 28, ymd 2026 4 27)
   \<and> checked_add_months gregorian 2 (ymd 2026 1 31) = Some (ymd 2026 3 31)"
  by code_simp

end
