(* ===== verification/Hour_Balances.thy ===== *)
theory Hour_Balances
  imports Billing_Cycle
begin

text \<open>
  Block-hours contracts: the draw, the give-back and the roll-over of
  \<open>ContractsService\<close> (src/src/modules/contracts/service.rs) on the tables \<open>contracts\<close>,
  \<open>contract_items\<close> and \<open>contract_hour_balances\<close>. Every statement runs on a connection scoped
  to the tenant, so row-level security adds the tenant to each condition. The columns are
  DECIMAL(10, 2): a write rounds. The theory shows that used and remaining hours always add up
  to the included hours, that a draw splits the request exactly, that giving back undoes a
  draw, and that rolling a closed period twice credits it once.
\<close>

section \<open>Tables\<close>

record contract =
  c_id :: uuid
  c_tenant :: tenant
  c_company :: uuid
  c_status :: string
  c_billing_cycle :: "string option"
  c_start_date :: date
  c_end_date :: "date option"

record contract_item =
  ci_id :: uuid
  ci_tenant :: tenant
  ci_contract :: uuid
  ci_item_type :: string
  ci_included_hours :: "decimal option"
  ci_overage_rate :: "decimal option"
  ci_rollover_enabled :: "bool option"
  ci_max_rollover_hours :: "decimal option"
  ci_sort_order :: int

record hour_balance =
  hb_id :: uuid
  hb_tenant :: tenant
  hb_contract :: uuid
  hb_item :: uuid
  hb_period_start :: date
  hb_period_end :: date
  hb_included :: decimal
  hb_used :: "decimal option"
  hb_remaining :: decimal
  hb_rollover :: "decimal option"

record hours_db =
  contracts :: "contract list"
  contract_items :: "contract_item list"
  hour_balances :: "hour_balance list"

text \<open>\<open>BlockItemRow\<close>: the first block-hours item of the contract, with the contract's period.\<close>

record block_item =
  bi_id :: uuid
  bi_included_hours :: "decimal option"
  bi_overage_rate :: "decimal option"
  bi_rollover_enabled :: "bool option"
  bi_max_rollover_hours :: "decimal option"
  bi_billing_cycle :: "string option"
  bi_start_date :: date
  bi_end_date :: "date option"

definition block_item_of :: "contract_item \<Rightarrow> contract \<Rightarrow> block_item" where
  "block_item_of ci c = \<lparr>
     bi_id = ci_id ci, bi_included_hours = ci_included_hours ci,
     bi_overage_rate = ci_overage_rate ci, bi_rollover_enabled = ci_rollover_enabled ci,
     bi_max_rollover_hours = ci_max_rollover_hours ci, bi_billing_cycle = c_billing_cycle c,
     bi_start_date = c_start_date c, bi_end_date = c_end_date c \<rparr>"

definition select_block_item :: "'a hours_db_scheme \<Rightarrow> tenant \<Rightarrow> uuid \<Rightarrow> block_item option" where
  "select_block_item db t contract_id =
     (case sort_key fst
        [(ci_sort_order ci, block_item_of ci c).
           ci \<leftarrow> contract_items db, c \<leftarrow> contracts db,
           c_id c = ci_contract ci \<and> c_tenant c = t
           \<and> ci_tenant ci = t \<and> ci_contract ci = contract_id \<and> ci_item_type ci = ''block_hours'']
      of [] \<Rightarrow> None | (_, item) # _ \<Rightarrow> Some item)"

section \<open>Drawing hours\<close>

record consume_outcome =
  hours_applied :: decimal
  overage_hours :: decimal
  overage_amount :: decimal
  overage_rate :: "decimal option"
  balance_id :: uuid

definition hb_key :: "tenant \<Rightarrow> uuid \<Rightarrow> uuid \<Rightarrow> date \<Rightarrow> date \<Rightarrow> hour_balance \<Rightarrow> bool" where
  "hb_key t contract_id item s e b \<longleftrightarrow>
     hb_tenant b = t \<and> hb_contract b = contract_id \<and> hb_item b = item
     \<and> hb_period_start b = s \<and> hb_period_end b = e"

definition set_hours :: "uuid \<Rightarrow> decimal \<Rightarrow> decimal \<Rightarrow> hour_balance list \<Rightarrow> hour_balance list" where
  "set_hours i used remaining =
     update_where (\<lambda>b. hb_id b = i)
       (\<lambda>b. b\<lparr>hb_used := Some (num2 used), hb_remaining := num2 remaining\<rparr>)"

text \<open>The find-or-create step: the balance row of the period, seeded on first use.\<close>

definition find_or_seed :: "'a hours_db_scheme \<Rightarrow> tenant \<Rightarrow> uuid \<Rightarrow> uuid \<Rightarrow> date \<times> date \<Rightarrow> decimal
    \<Rightarrow> uuid \<Rightarrow> 'a hours_db_scheme \<times> hour_balance" where
  "find_or_seed db t contract_id item period included new_id =
     (case select_one (hb_key t contract_id item (fst period) (snd period)) (hour_balances db) of
        Some b \<Rightarrow> (db, b)
      | None \<Rightarrow>
          let b = \<lparr> hb_id = new_id, hb_tenant = t, hb_contract = contract_id, hb_item = item,
                    hb_period_start = fst period, hb_period_end = snd period,
                    hb_included = num2 included, hb_used = Some 0, hb_remaining = num2 included,
                    hb_rollover = Some 0 \<rparr>
          in (db\<lparr>hour_balances := hour_balances db @ [b]\<rparr>, b))"

definition consume_hours_in_tx :: "cal \<Rightarrow> 'a hours_db_scheme \<Rightarrow> tenant \<Rightarrow> uuid \<Rightarrow> decimal
    \<Rightarrow> instant \<Rightarrow> uuid \<Rightarrow> ('a hours_db_scheme \<times> consume_outcome) app_result" where
  "consume_hours_in_tx C db t contract_id hours when new_id =
     (if hours < 0 then Inl (BadRequest ''consume_hours: hours must be non-negative'')
      else case select_block_item db t contract_id of
        None \<Rightarrow> Inl (NotFound ''Block hours contract item'')
      | Some item \<Rightarrow>
          let included = opt_or (bi_included_hours item) 0;
              rate = opt_or (bi_overage_rate item) 0;
              billing_cycle = opt_or (bi_billing_cycle item) ''monthly'';
              when_date = when div 86400
          in if when_date < bi_start_date item
                \<or> (case bi_end_date item of None \<Rightarrow> False | Some e \<Rightarrow> when_date > e)
             then Inl (BadRequest ''Date is outside the contract's coverage.'')
             else
               let period = period_for C (bi_start_date item) billing_cycle when_date;
                   (db', balance) = find_or_seed db t contract_id (bi_id item) period included new_id;
                   remaining = max (hb_remaining balance) 0;
                   applied = min hours remaining;
                   over = hours - applied;
                   used = opt_or (hb_used balance) 0
               in Inr (db'\<lparr>hour_balances :=
                           set_hours (hb_id balance) (used + applied) (remaining - applied)
                             (hour_balances db')\<rparr>,
                       \<lparr> hours_applied = applied, overage_hours = over,
                         overage_amount = over * rate, overage_rate = bi_overage_rate item,
                         balance_id = hb_id balance \<rparr>))"

definition consume_hours :: "cal \<Rightarrow> 'a hours_db_scheme \<Rightarrow> tenant \<Rightarrow> uuid \<Rightarrow> decimal
    \<Rightarrow> instant \<Rightarrow> uuid \<Rightarrow> ('a hours_db_scheme \<times> consume_outcome) app_result" where
  "consume_hours C db t contract_id hours when new_id =
     consume_hours_in_tx C db t contract_id hours when new_id"

section \<open>Giving hours back\<close>

definition release_hours_in_tx :: "'a hours_db_scheme \<Rightarrow> tenant \<Rightarrow> uuid \<Rightarrow> decimal
    \<Rightarrow> 'a hours_db_scheme app_result" where
  "release_hours_in_tx db t bid applied =
     (if applied \<le> 0 then Inr db
      else case select_one (\<lambda>b. hb_tenant b = t \<and> hb_id b = bid) (hour_balances db) of
        None \<Rightarrow> Inr db
      | Some row \<Rightarrow>
          let used = opt_or (hb_used row) 0;
              give_back = min applied used
          in Inr (db\<lparr>hour_balances :=
                      set_hours (hb_id row) (used - give_back) (hb_remaining row + give_back)
                        (hour_balances db)\<rparr>))"

definition release_hours :: "'a hours_db_scheme \<Rightarrow> tenant \<Rightarrow> uuid \<Rightarrow> decimal
    \<Rightarrow> 'a hours_db_scheme app_result" where
  "release_hours db t bid applied = release_hours_in_tx db t bid applied"

section \<open>Rolling a closed period\<close>

text \<open>The upsert: insert the next period, or credit it once if it carries no roll-over yet.\<close>

definition upsert_roll :: "tenant \<Rightarrow> uuid \<Rightarrow> uuid \<Rightarrow> date \<times> date \<Rightarrow> decimal \<Rightarrow> decimal \<Rightarrow> uuid
    \<Rightarrow> hour_balance list \<Rightarrow> hour_balance list \<times> bool" where
  "upsert_roll t contract_id item period included rolled new_id bs =
     (let key = hb_key t contract_id item (fst period) (snd period) in
      case select_one key bs of
        None \<Rightarrow>
          (bs @ [\<lparr> hb_id = new_id, hb_tenant = t, hb_contract = contract_id, hb_item = item,
                   hb_period_start = fst period, hb_period_end = snd period,
                   hb_included = num2 (included + rolled), hb_used = Some 0,
                   hb_remaining = num2 (included + rolled), hb_rollover = Some (num2 rolled) \<rparr>], True)
      | Some b \<Rightarrow>
          if hb_rollover b = Some 0 then
            (update_where key
               (\<lambda>b. b\<lparr>hb_included := num2 (hb_included b + num2 rolled),
                      hb_remaining := num2 (hb_remaining b + num2 rolled),
                      hb_rollover := map_option (\<lambda>r. num2 (r + num2 rolled)) (hb_rollover b)\<rparr>) bs, True)
          else (bs, False))"

definition roll_to_next_period :: "cal \<Rightarrow> 'a hours_db_scheme \<Rightarrow> tenant \<Rightarrow> uuid \<Rightarrow> date \<Rightarrow> uuid
    \<Rightarrow> ('a hours_db_scheme \<times> decimal) app_result" where
  "roll_to_next_period C db t contract_id closing_period_end new_id =
     (case select_block_item db t contract_id of
        None \<Rightarrow> Inl (NotFound ''Block hours contract item'')
      | Some item \<Rightarrow>
          if \<not> opt_or (bi_rollover_enabled item) False then Inr (db, 0)
          else case select_one (\<lambda>b. hb_tenant b = t \<and> hb_contract b = contract_id
                    \<and> hb_item b = bi_id item \<and> hb_period_end b = closing_period_end)
                  (hour_balances db) of
            None \<Rightarrow> Inl (NotFound ''closing-period balance'')
          | Some closing \<Rightarrow>
              let unused = max (hb_remaining closing) 0;
                  cap = opt_or (bi_max_rollover_hours item) unused;
                  rolled = min unused cap
              in if rolled \<le> 0 then Inr (db, 0)
                 else
                   let included = opt_or (bi_included_hours item) 0;
                       billing_cycle = opt_or (bi_billing_cycle item) ''monthly'';
                       next_start = opt_or (succ_opt C closing_period_end) closing_period_end;
                       period = period_for C (bi_start_date item) billing_cycle next_start;
                       (bs, applied) = upsert_roll t contract_id (bi_id item) period included
                                         rolled new_id (hour_balances db)
                   in Inr (db\<lparr>hour_balances := bs\<rparr>, if applied then rolled else 0))"

section \<open>The invariant\<close>

text \<open>
  A balance row adds up, holds no negative figure, and stores two-digit values; the primary
  key and the unique period key of migration 025 hold.
\<close>

definition balance_ok :: "hour_balance \<Rightarrow> bool" where
  "balance_ok b \<longleftrightarrow>
     (\<exists>u. hb_used b = Some u \<and> 0 \<le> u \<and> is_num2 u \<and> u + hb_remaining b = hb_included b)
     \<and> 0 \<le> hb_remaining b \<and> is_num2 (hb_remaining b)
     \<and> (\<exists>r. hb_rollover b = Some r \<and> 0 \<le> r \<and> is_num2 r)"

definition period_key :: "hour_balance \<Rightarrow> tenant \<times> uuid \<times> uuid \<times> date \<times> date" where
  "period_key b = (hb_tenant b, hb_contract b, hb_item b, hb_period_start b, hb_period_end b)"

definition balances_ok :: "'a hours_db_scheme \<Rightarrow> bool" where
  "balances_ok db \<longleftrightarrow>
     (\<forall>b \<in> set (hour_balances db). balance_ok b)
     \<and> distinct (map hb_id (hour_balances db)) \<and> distinct (map period_key (hour_balances db))"

text \<open>The item's own columns are two-digit and, as the request validators demand, not negative.\<close>

definition items_ok :: "'a hours_db_scheme \<Rightarrow> bool" where
  "items_ok db \<longleftrightarrow> (\<forall>ci \<in> set (contract_items db).
     (\<forall>h. ci_included_hours ci = Some h \<longrightarrow> 0 \<le> h \<and> is_num2 h)
     \<and> (\<forall>h. ci_max_rollover_hours ci = Some h \<longrightarrow> is_num2 h))"

lemma select_block_item_ok:
  assumes "items_ok db" and "select_block_item db t c = Some item"
  shows "0 \<le> opt_or (bi_included_hours item) 0" "is_num2 (opt_or (bi_included_hours item) 0)"
    and "bi_max_rollover_hours item = Some h \<Longrightarrow> is_num2 h"
proof -
  let ?rows = "[(ci_sort_order ci, block_item_of ci c').
           ci \<leftarrow> contract_items db, c' \<leftarrow> contracts db,
           c_id c' = ci_contract ci \<and> c_tenant c' = t
           \<and> ci_tenant ci = t \<and> ci_contract ci = c \<and> ci_item_type ci = ''block_hours'']"
  from assms(2) obtain k xs where "sort_key fst ?rows = (k, item) # xs"
    by (auto simp: select_block_item_def split: list.splits)
  then have "(k, item) \<in> set (sort_key fst ?rows)" by simp
  then have "(k, item) \<in> set ?rows" by (simp only: set_sort)
  then obtain ci c' where "ci \<in> set (contract_items db)" "item = block_item_of ci c'" by auto
  with assms(1) show "0 \<le> opt_or (bi_included_hours item) 0"
    "is_num2 (opt_or (bi_included_hours item) 0)"
    "bi_max_rollover_hours item = Some h \<Longrightarrow> is_num2 h"
    by (auto simp: items_ok_def block_item_of_def opt_or_def split: option.splits)
qed

lemma hb_key_iff: "hb_key t c i s e b \<longleftrightarrow> period_key b = (t, c, i, s, e)"
  by (auto simp: hb_key_def period_key_def)

lemma hb_key_set [simp]:
  "hb_key t c i s e (b\<lparr>hb_used := u\<rparr>) = hb_key t c i s e b"
  "hb_key t c i s e (b\<lparr>hb_remaining := r\<rparr>) = hb_key t c i s e b"
  "hb_key t c i s e (b\<lparr>hb_included := r\<rparr>) = hb_key t c i s e b"
  "hb_key t c i s e (b\<lparr>hb_rollover := u\<rparr>) = hb_key t c i s e b"
  by (simp_all add: hb_key_def)

lemma set_hours_keys [simp]:
  "map hb_id (set_hours i u r bs) = map hb_id bs"
  "map period_key (set_hours i u r bs) = map period_key bs"
  by (simp_all add: set_hours_def map_update_where period_key_def)

text \<open>Rewriting one row with figures that add up keeps the invariant.\<close>

lemma set_hours_ok:
  assumes "balances_ok db" and "b \<in> set (hour_balances db)" and "i = hb_id b"
    and "0 \<le> num2 u" and "0 \<le> num2 r" and "num2 u + num2 r = hb_included b"
  shows "balances_ok (db\<lparr>hour_balances := set_hours i u r (hour_balances db)\<rparr>)"
proof -
  have "balance_ok x" if "x \<in> set (set_hours i u r (hour_balances db))" for x
  proof -
    from that obtain y where y: "y \<in> set (hour_balances db)"
      "x = (if hb_id y = i then y\<lparr>hb_used := Some (num2 u), hb_remaining := num2 r\<rparr> else y)"
      by (auto simp: set_hours_def set_update_where)
    show ?thesis
    proof (cases "hb_id y = i")
      case True
      with y assms(1,2,3) have "y = b"
        by (auto simp: balances_ok_def distinct_map dest: inj_onD)
      moreover have "balance_ok b" using assms(1,2) by (auto simp: balances_ok_def)
      ultimately show ?thesis using y True assms(4-6) by (auto simp: balance_ok_def)
    next
      case False
      with y assms(1) show ?thesis by (auto simp: balances_ok_def)
    qed
  qed
  with assms(1) show ?thesis by (simp add: balances_ok_def)
qed

lemma find_or_seed_ok:
  assumes "balances_ok db" and "0 \<le> included" and "is_num2 included"
    and "new_id \<notin> hb_id ` set (hour_balances db)"
    and "find_or_seed db t c i p included new_id = (db', b)"
  shows "balances_ok db'" and "b \<in> set (hour_balances db')" and "balance_ok b"
    and "contract_items db' = contract_items db" and "hb_tenant b = t"
proof -
  show "balances_ok db'"
  proof (cases "select_one (hb_key t c i (fst p) (snd p)) (hour_balances db)")
    case None
    then have "(t, c, i, fst p, snd p) \<notin> period_key ` set (hour_balances db)"
      by (auto simp: select_one_None hb_key_iff)
    with None assms show ?thesis
      by (auto simp: find_or_seed_def balances_ok_def balance_ok_def Let_def period_key_def)
  qed (use assms in \<open>simp add: find_or_seed_def\<close>)
  moreover show "b \<in> set (hour_balances db')"
    using assms(5) by (auto simp: find_or_seed_def Let_def split: option.splits dest: select_one_SomeD)
  ultimately show "balance_ok b" by (auto simp: balances_ok_def)
  show "contract_items db' = contract_items db" "hb_tenant b = t"
    using assms(5)
    by (auto simp: find_or_seed_def Let_def hb_key_def split: option.splits dest: select_one_SomeD)
qed

section \<open>What a draw and a give-back do\<close>

definition used_of :: "'a hours_db_scheme \<Rightarrow> uuid \<Rightarrow> decimal" where
  "used_of db i = sum_where (\<lambda>b. hb_id b = i) (\<lambda>b. opt_or (hb_used b) 0) (hour_balances db)"

definition owns_balance :: "'a hours_db_scheme \<Rightarrow> tenant \<Rightarrow> uuid \<Rightarrow> bool" where
  "owns_balance db t i \<longleftrightarrow> (t, i) \<in> set (map (\<lambda>b. (hb_tenant b, hb_id b)) (hour_balances db))"

lemma owns_balance_set_hours [simp]:
  "owns_balance (db\<lparr>hour_balances := set_hours k u r (hour_balances db)\<rparr>) = owns_balance db"
proof -
  have "map (\<lambda>b. (hb_tenant b, hb_id b)) (set_hours k u r (hour_balances db))
        = map (\<lambda>b. (hb_tenant b, hb_id b)) (hour_balances db)"
    unfolding set_hours_def by (rule map_update_where) simp
  then show ?thesis by (intro ext) (simp add: owns_balance_def del: set_map)
qed

lemma used_of_row:
  assumes "balances_ok db" and "b \<in> set (hour_balances db)"
  shows "used_of db (hb_id b) = opt_or (hb_used b) 0"
  using assms sum_where_unique_key [of hb_id "hour_balances db" b "\<lambda>_. True"]
  by (simp add: used_of_def balances_ok_def)

lemma used_of_set_hours:
  assumes "balances_ok db" and "b \<in> set (hour_balances db)"
  shows "used_of (db\<lparr>hour_balances := set_hours (hb_id b) u r (hour_balances db)\<rparr>) i =
         (if i = hb_id b then num2 u else used_of db i)"
proof (cases "i = hb_id b")
  case True
  let ?f = "\<lambda>x. if hb_id x = hb_id b then x\<lparr>hb_used := Some (num2 u), hb_remaining := num2 r\<rparr> else x"
  have "used_of (db\<lparr>hour_balances := set_hours (hb_id b) u r (hour_balances db)\<rparr>) i =
      sum_where (\<lambda>x. True \<and> hb_id x = hb_id b) (\<lambda>x. num2 u) (hour_balances db)"
    unfolding used_of_def set_hours_def using True
    by (auto simp: sum_where_update_where intro!: sum_where_cong)
  then show ?thesis
    using assms True sum_where_unique_key [of hb_id "hour_balances db" b "\<lambda>_. True" "\<lambda>_. num2 u"]
    by (simp add: balances_ok_def)
next
  case False
  then show ?thesis
    unfolding used_of_def set_hours_def by (auto simp: sum_where_update_where intro!: sum_where_cong)
qed

lemma used_of_find_or_seed:
  "find_or_seed db t c i p inc new_id = (db', b) \<Longrightarrow> used_of db' k = used_of db k"
  by (auto simp: find_or_seed_def Let_def used_of_def split: option.splits)

text \<open>A draw of a request that is not a rounding tie moves the rounded applied hours.\<close>

lemma split_moves_rounded:
  assumes "balance_ok b" and "0 \<le> h" and "\<not> is_tie2 h" and "hb_used b = Some u"
  defines "applied \<equiv> min h (max (hb_remaining b) 0)"
  shows "num2 (u + applied) = u + num2 applied"
    and "num2 (max (hb_remaining b) 0 - applied) = hb_remaining b - num2 applied"
    and "0 \<le> num2 applied" and "num2 applied \<le> hb_remaining b" and "0 \<le> u"
proof -
  from assms have b: "0 \<le> u" "is_num2 u" "0 \<le> hb_remaining b" "is_num2 (hb_remaining b)"
    by (auto simp: balance_ok_def)
  have a: "0 \<le> applied" "applied \<le> hb_remaining b" "\<not> is_tie2 applied"
    using b assms(2,3) not_tie2_num2 [of "hb_remaining b"] by (auto simp: applied_def min_def max_def)
  show "num2 (u + applied) = u + num2 applied" using b a by (simp add: num2_pos_add)
  show "num2 (max (hb_remaining b) 0 - applied) = hb_remaining b - num2 applied"
    using b a by (simp add: num2_pos_diff max_def)
  show "0 \<le> num2 applied" using a by (simp add: num2_nonneg)
  show "num2 applied \<le> hb_remaining b" using a b by (simp add: num2_le)
  show "0 \<le> u" by (rule b(1))
qed

lemma consume_hours_InrE:
  assumes "consume_hours_in_tx C db t c h w new_id = Inr (db', out)"
  obtains item db1 b where "0 \<le> h" and "select_block_item db t c = Some item"
    and "find_or_seed db t c (bi_id item)
           (period_for C (bi_start_date item) (opt_or (bi_billing_cycle item) ''monthly'') (w div 86400))
           (opt_or (bi_included_hours item) 0) new_id = (db1, b)"
    and "hours_applied out = min h (max (hb_remaining b) 0)"
    and "overage_hours out = h - hours_applied out" and "balance_id out = hb_id b"
    and "overage_rate out = bi_overage_rate item"
    and "overage_amount out = overage_hours out * opt_or (bi_overage_rate item) 0"
    and "bi_start_date item \<le> w div 86400"
    and "db' = db1\<lparr>hour_balances := set_hours (hb_id b) (opt_or (hb_used b) 0 + hours_applied out)
                 (max (hb_remaining b) 0 - hours_applied out) (hour_balances db1)\<rparr>"
proof -
  from assms have h: "\<not> h < 0" by (auto simp: consume_hours_in_tx_def)
  with assms obtain item where item: "select_block_item db t c = Some item"
    by (auto simp: consume_hours_in_tx_def split: option.splits)
  obtain db1 b where seed: "find_or_seed db t c (bi_id item)
           (period_for C (bi_start_date item) (opt_or (bi_billing_cycle item) ''monthly'') (w div 86400))
           (opt_or (bi_included_hours item) 0) new_id = (db1, b)" by (rule prod.exhaust)
  note eq = assms [unfolded consume_hours_in_tx_def item Let_def, simplified h seed, simplified]
  show thesis
    by (rule that [of item db1 b]) (use h item seed eq in \<open>simp_all split: if_splits\<close>, auto)
qed

lemma consume_hours_effect:
  assumes "balances_ok db" and "items_ok db" and "new_id \<notin> hb_id ` set (hour_balances db)"
    and "\<not> is_tie2 h" and "consume_hours_in_tx C db t c h w new_id = Inr (db', out)"
  shows "balances_ok db'" and "contract_items db' = contract_items db"
    and "used_of db' i = used_of db i + (if i = balance_id out then num2 (hours_applied out) else 0)"
    and "owns_balance db' t (balance_id out)"
    and "hours_applied out + overage_hours out = h" and "0 \<le> hours_applied out"
    and "0 \<le> overage_hours out"
proof -
  from assms(5) obtain item db1 b where
    h: "0 \<le> h" and item: "select_block_item db t c = Some item" and
    seed: "find_or_seed db t c (bi_id item)
           (period_for C (bi_start_date item) (opt_or (bi_billing_cycle item) ''monthly'') (w div 86400))
           (opt_or (bi_included_hours item) 0) new_id = (db1, b)" and
    out: "hours_applied out = min h (max (hb_remaining b) 0)"
      "overage_hours out = h - hours_applied out" "balance_id out = hb_id b" and
    db': "db' = db1\<lparr>hour_balances := set_hours (hb_id b) (opt_or (hb_used b) 0 + hours_applied out)
                 (max (hb_remaining b) 0 - hours_applied out) (hour_balances db1)\<rparr>"
    by (rule consume_hours_InrE)
  note inc = select_block_item_ok(1,2) [OF assms(2) item]
  note s = find_or_seed_ok [OF assms(1) inc assms(3) seed]
  obtain u where u: "hb_used b = Some u" and sum: "u + hb_remaining b = hb_included b"
    using s(3) by (auto simp: balance_ok_def)
  note m = split_moves_rounded [OF s(3) h assms(4) u, folded out(1)]
  show "balances_ok db'"
    unfolding db' using m u sum
    by (intro set_hours_ok [OF s(1,2) refl]) (simp_all)
  show "contract_items db' = contract_items db" using s(4) by (simp add: db')
  show "used_of db' i = used_of db i + (if i = balance_id out then num2 (hours_applied out) else 0)"
    using used_of_set_hours [OF s(1,2)] used_of_find_or_seed [OF seed] used_of_row [OF s(1,2)] u m out
    by (simp add: db')
  show "owns_balance db' t (balance_id out)"
    using s(2,5) unfolding db' out(3) by (force simp: owns_balance_def)
  show "hours_applied out + overage_hours out = h" "0 \<le> hours_applied out" "0 \<le> overage_hours out"
    using out h by auto
qed

lemma find_or_seed_owner:
  "find_or_seed db t c i p inc n = (db', b) \<Longrightarrow> owns_balance db t' k \<Longrightarrow> owns_balance db' t' k"
  by (auto simp: find_or_seed_def Let_def owns_balance_def split: option.splits)

lemma consume_hours_owner:
  assumes "consume_hours_in_tx C db t c h w n = Inr (db', out)" and "owns_balance db t' k"
  shows "owns_balance db' t' k"
  using assms(1)
proof (rule consume_hours_InrE)
  fix item db1 b
  assume seed: "find_or_seed db t c (bi_id item)
        (period_for C (bi_start_date item) (opt_or (bi_billing_cycle item) ''monthly'') (w div 86400))
        (opt_or (bi_included_hours item) 0) n = (db1, b)"
    and db': "db' = db1\<lparr>hour_balances := set_hours (hb_id b) (opt_or (hb_used b) 0 + hours_applied out)
                 (max (hb_remaining b) 0 - hours_applied out) (hour_balances db1)\<rparr>"
  show ?thesis unfolding db' using find_or_seed_owner [OF seed assms(2)] by simp
qed

text \<open>A draw and a give-back touch the balance rows only.\<close>

lemma find_or_seed_only_balances:
  "find_or_seed db t c i p inc n = (db', b) \<Longrightarrow> \<exists>bs. db' = db\<lparr>hour_balances := bs\<rparr>"
  by (auto simp: find_or_seed_def Let_def split: option.splits intro: exI [of _ "hour_balances db"])

lemma consume_only_balances:
  assumes "consume_hours_in_tx C db t c h w n = Inr (db', out)"
  obtains bs where "db' = db\<lparr>hour_balances := bs\<rparr>"
  using assms
proof (rule consume_hours_InrE)
  fix item db1 b
  assume seed: "find_or_seed db t c (bi_id item)
        (period_for C (bi_start_date item) (opt_or (bi_billing_cycle item) ''monthly'') (w div 86400))
        (opt_or (bi_included_hours item) 0) n = (db1, b)"
    and db': "db' = db1\<lparr>hour_balances := set_hours (hb_id b) (opt_or (hb_used b) 0 + hours_applied out)
                 (max (hb_remaining b) 0 - hours_applied out) (hour_balances db1)\<rparr>"
  from find_or_seed_only_balances [OF seed] obtain bs where "db1 = db\<lparr>hour_balances := bs\<rparr>" ..
  then show thesis using db' that by simp
qed

lemma release_only_balances:
  assumes "release_hours_in_tx db t b a = Inr db'"
  obtains bs where "db' = db\<lparr>hour_balances := bs\<rparr>"
proof -
  have "\<exists>bs. db' = db\<lparr>hour_balances := bs\<rparr>"
    using assms by (auto simp: release_hours_in_tx_def Let_def split: if_splits option.splits
        intro: exI [of _ "hour_balances db"])
  then show thesis using that by blast
qed

lemma release_hours_effect:
  assumes "balances_ok db" and "owns_balance db t bid" and "is_num2 a" and "0 \<le> a"
    and "a \<le> used_of db bid"
  obtains db' where "release_hours_in_tx db t bid a = Inr db'" and "balances_ok db'"
    and "contract_items db' = contract_items db"
    and "\<And>i. used_of db' i = used_of db i - (if i = bid then a else 0)"
    and "\<And>t' i. owns_balance db' t' i = owns_balance db t' i"
proof (cases "a = 0")
  case True
  show ?thesis by (rule that [of db]) (use True assms in \<open>simp_all add: release_hours_in_tx_def\<close>)
next
  case False
  have "select_one (\<lambda>b. hb_tenant b = t \<and> hb_id b = bid) (hour_balances db) \<noteq> None"
    using assms(2) by (auto simp: select_one_None owns_balance_def)
  then obtain b where sel: "select_one (\<lambda>b. hb_tenant b = t \<and> hb_id b = bid) (hour_balances db) = Some b"
    by blast
  then have b: "b \<in> set (hour_balances db)" "hb_id b = bid" by (auto dest: select_one_SomeD)
  obtain u where u: "hb_used b = Some u" "0 \<le> u" "is_num2 u" "u + hb_remaining b = hb_included b"
      "is_num2 (hb_remaining b)" "0 \<le> hb_remaining b"
    using assms(1) b(1) by (auto simp: balances_ok_def balance_ok_def)
  have used: "used_of db bid = u" using used_of_row [OF assms(1) b(1)] u b by simp
  define db' where "db' = db\<lparr>hour_balances := set_hours (hb_id b) (u - a) (hb_remaining b + a)
                                  (hour_balances db)\<rparr>"
  have n: "num2 (u - a) = u - a" "num2 (hb_remaining b + a) = hb_remaining b + a"
    using u assms(3) by (auto intro: num2_id)
  show ?thesis
  proof (rule that [of db'])
    show "release_hours_in_tx db t bid a = Inr db'"
      using False assms(4,5) sel u used by (simp add: release_hours_in_tx_def Let_def db'_def)
    show "balances_ok db'"
      unfolding db'_def by (rule set_hours_ok [OF assms(1) b(1) refl]) (use n u assms(4,5) used in simp_all)
    show "contract_items db' = contract_items db" by (simp add: db'_def)
    show "used_of db' i = used_of db i - (if i = bid then a else 0)" for i
      using used_of_set_hours [OF assms(1) b(1)] n used b by (simp add: db'_def)
    show "owns_balance db' t' i = owns_balance db t' i" for t' i
      by (simp add: db'_def)
  qed
qed

section \<open>The contract its clients rely on\<close>

text \<open>
  What time tracking needs of a pool of prepaid hours: a draw records how much it moved and
  from which balance, and giving exactly that back undoes it.
\<close>

locale hour_pool =
  fixes ok :: "'s \<Rightarrow> bool" and used :: "'s \<Rightarrow> uuid \<Rightarrow> decimal"
    and owner :: "'s \<Rightarrow> tenant \<Rightarrow> uuid \<Rightarrow> bool" and fresh :: "'s \<Rightarrow> 'q \<Rightarrow> bool"
    and draw :: "'s \<Rightarrow> tenant \<Rightarrow> 'q \<Rightarrow> ('s \<times> decimal \<times> uuid) app_result"
    and give :: "'s \<Rightarrow> tenant \<Rightarrow> uuid \<Rightarrow> decimal \<Rightarrow> 's app_result"
  assumes draw_ok: "ok s \<Longrightarrow> fresh s q \<Longrightarrow> draw s t q = Inr (s', a, i) \<Longrightarrow>
      ok s' \<and> 0 \<le> a \<and> is_num2 a \<and> owner s' t i"
    and draw_used: "ok s \<Longrightarrow> fresh s q \<Longrightarrow> draw s t q = Inr (s', a, i) \<Longrightarrow>
      used s' k = used s k + (if k = i then a else 0)"
    and draw_owner: "ok s \<Longrightarrow> fresh s q \<Longrightarrow> draw s t q = Inr (s', a, i) \<Longrightarrow>
      owner s t' k \<Longrightarrow> owner s' t' k"
    and give_ok: "ok s \<Longrightarrow> owner s t i \<Longrightarrow> is_num2 a \<Longrightarrow> 0 \<le> a \<Longrightarrow> a \<le> used s i \<Longrightarrow>
      \<exists>s'. give s t i a = Inr s' \<and> ok s' \<and> (\<forall>k. used s' k = used s k - (if k = i then a else 0))
           \<and> owner s' = owner s"
    and used_nonneg: "ok s \<Longrightarrow> 0 \<le> used s k"
begin

lemma give_undoes_draw:
  assumes "ok s" and "fresh s q" and "draw s t q = Inr (s', a, i)"
  shows "\<exists>s''. give s' t i a = Inr s'' \<and> ok s'' \<and> used s'' = used s"
proof -
  note d = draw_ok [OF assms] and u = draw_used [OF assms]
  have "a \<le> used s' i" using u [of i] used_nonneg [OF assms(1), of i] by simp
  then obtain s'' where "give s' t i a = Inr s''" "ok s''"
    "\<forall>k. used s'' k = used s' k - (if k = i then a else 0)"
    using give_ok [of s' t i a] d by blast
  with u show ?thesis by (auto simp: fun_eq_iff)
qed

end

text \<open>The draw an entry of \<open>m\<close> minutes makes, with what is stamped on the entry.\<close>

definition draw_minutes :: "cal \<Rightarrow> 'a hours_db_scheme \<Rightarrow> tenant \<Rightarrow> uuid \<times> int \<times> instant \<times> uuid
    \<Rightarrow> ('a hours_db_scheme \<times> decimal \<times> uuid) app_result" where
  "draw_minutes C db t q = (case q of (contract_id, m, when, new_id) \<Rightarrow>
     map_sum id (\<lambda>(db', out). (db', num2 (hours_applied out), balance_id out))
       (consume_hours_in_tx C db t contract_id (of_int m / 60) when new_id))"

interpretation block_hours: hour_pool
  "\<lambda>db :: 'a hours_db_scheme. balances_ok db \<and> items_ok db" used_of owns_balance
  "\<lambda>db (_, _, _, new_id). new_id \<notin> hb_id ` set (hour_balances db)"
  "draw_minutes C" release_hours_in_tx
proof (unfold_locales, goal_cases)
  case (1 db q t db' a i)
  then obtain c m w n out where q: "q = (c, m, w, n)" "n \<notin> hb_id ` set (hour_balances db)"
    and r: "consume_hours_in_tx C db t c (of_int m / 60) w n = Inr (db', out)"
    and a: "a = num2 (hours_applied out)" "i = balance_id out"
    by (cases q) (auto simp: draw_minutes_def map_sum_def split: sum.splits)
  note e = consume_hours_effect [OF conjunct1 [OF 1(1)] conjunct2 [OF 1(1)] q(2) not_tie2_minutes r]
  from 1(1) e(1,2) have "balances_ok db' \<and> items_ok db'" by (simp add: items_ok_def)
  with a e(4,6) show ?case by (simp add: num2_nonneg)
next
  case (2 db q t db' a i k)
  then obtain c m w n out where q: "q = (c, m, w, n)" "n \<notin> hb_id ` set (hour_balances db)"
    and r: "consume_hours_in_tx C db t c (of_int m / 60) w n = Inr (db', out)"
    and a: "a = num2 (hours_applied out)" "i = balance_id out"
    by (cases q) (auto simp: draw_minutes_def map_sum_def split: sum.splits)
  show ?case
    using consume_hours_effect(3) [OF conjunct1 [OF 2(1)] conjunct2 [OF 2(1)] q(2) not_tie2_minutes r, of k] a
    by simp
next
  case (3 db q t db' a i t' k)
  then obtain c m w n out where "consume_hours_in_tx C db t c (of_int m / 60) w n = Inr (db', out)"
    by (cases q) (auto simp: draw_minutes_def map_sum_def split: sum.splits)
  with 3(4) show ?case by (metis consume_hours_owner)
next
  case (4 db t i a)
  then obtain db' where "release_hours_in_tx db t i a = Inr db'" "balances_ok db'"
    "contract_items db' = contract_items db"
    "\<And>k. used_of db' k = used_of db k - (if k = i then a else 0)"
    "\<And>t' k. owns_balance db' t' k = owns_balance db t' k"
    by (metis release_hours_effect)
  with 4 show ?case by (auto simp: items_ok_def fun_eq_iff)
next
  case (5 db k)
  then show ?case
    by (auto simp: used_of_def balances_ok_def balance_ok_def intro!: sum_where_nonneg)
qed

section \<open>What a roll does\<close>

lemma select_block_item_balances [simp]:
  "select_block_item (db\<lparr>hour_balances := bs\<rparr>) t c = select_block_item db t c"
  by (simp add: select_block_item_def)

lemma upsert_roll_twice:
  assumes "upsert_roll t c i p inc r n bs = (bs', True)" and "num2 r \<noteq> 0"
  shows "upsert_roll t c i p inc' r' n' bs' = (bs', False)"
proof -
  let ?key = "hb_key t c i (fst p) (snd p)"
  have "\<exists>b. select_one ?key bs' = Some b \<and> hb_rollover b \<noteq> Some 0"
  proof (cases "select_one ?key bs")
    case None
    with assms show ?thesis
      by (auto simp: upsert_roll_def Let_def table_simps hb_key_def)
  next
    case (Some b)
    with assms(1) have "hb_rollover b = Some 0"
      and bs': "bs' = update_where ?key
        (\<lambda>b. b\<lparr>hb_included := num2 (hb_included b + num2 r),
               hb_remaining := num2 (hb_remaining b + num2 r),
               hb_rollover := map_option (\<lambda>x. num2 (x + num2 r)) (hb_rollover b)\<rparr>) bs"
      by (auto simp: upsert_roll_def Let_def split: if_splits)
    moreover have "?key b" using Some by (auto dest: select_one_SomeD)
    ultimately show ?thesis using Some assms(2) by (simp add: select_one_update_where)
  qed
  then show ?thesis by (auto simp: upsert_roll_def Let_def)
qed

lemma upsert_roll_keys:
  assumes "upsert_roll t c i p inc r n bs = (bs', x)"
  shows "period_key ` set bs \<subseteq> period_key ` set bs'"
proof -
  let ?f = "\<lambda>b. b\<lparr>hb_included := num2 (hb_included b + num2 r),
               hb_remaining := num2 (hb_remaining b + num2 r),
               hb_rollover := map_option (\<lambda>x. num2 (x + num2 r)) (hb_rollover b)\<rparr>"
  have "map period_key (update_where (hb_key t c i (fst p) (snd p)) ?f bs) = map period_key bs"
    by (rule map_update_where) (simp add: period_key_def)
  then have "period_key ` set (update_where (hb_key t c i (fst p) (snd p)) ?f bs) = period_key ` set bs"
    by (simp only: list.set_map [symmetric])
  with assms show ?thesis by (auto simp: upsert_roll_def Let_def split: option.splits if_splits)
qed

lemma upsert_roll_used:
  "upsert_roll t c i p inc r n bs = (bs', x) \<Longrightarrow>
   sum_where (\<lambda>b. hb_id b = k) (\<lambda>b. opt_or (hb_used b) 0) bs' =
   sum_where (\<lambda>b. hb_id b = k) (\<lambda>b. opt_or (hb_used b) 0) bs"
  by (auto simp: upsert_roll_def Let_def sum_where_update_where
      intro!: sum_where_cong split: option.splits if_splits)

lemma upsert_roll_ok:
  assumes "balances_ok db" and "0 \<le> inc" and "is_num2 inc" and "0 \<le> r" and "is_num2 r"
    and "n \<notin> hb_id ` set (hour_balances db)"
    and "upsert_roll t c i p inc r n (hour_balances db) = (bs', x)"
  shows "balances_ok (db\<lparr>hour_balances := bs'\<rparr>)"
proof (cases "select_one (hb_key t c i (fst p) (snd p)) (hour_balances db)")
  case None
  then have "(t, c, i, fst p, snd p) \<notin> period_key ` set (hour_balances db)"
    by (auto simp: select_one_None hb_key_iff)
  moreover have "num2 (inc + r) = inc + r" using assms by (intro num2_id is_num2_add)
  moreover have "is_num2 (inc + r)" using assms by auto
  ultimately show ?thesis using None assms
    by (auto simp: upsert_roll_def balances_ok_def balance_ok_def Let_def period_key_def)
next
  case (Some b)
  let ?f = "\<lambda>b. b\<lparr>hb_included := num2 (hb_included b + num2 r),
               hb_remaining := num2 (hb_remaining b + num2 r),
               hb_rollover := map_option (\<lambda>x. num2 (x + num2 r)) (hb_rollover b)\<rparr>"
  have f: "balance_ok (?f y)" if y: "balance_ok y" for y
  proof -
    from y obtain u v where "hb_used y = Some u" "hb_rollover y = Some v" "0 \<le> u" "0 \<le> v"
      "is_num2 u" "is_num2 v" "u + hb_remaining y = hb_included y" "0 \<le> hb_remaining y"
      "is_num2 (hb_remaining y)" by (auto simp: balance_ok_def)
    moreover from this have "is_num2 (hb_included y)" by (metis is_num2_add)
    ultimately show ?thesis using assms(4,5)
      by (simp add: balance_ok_def is_num2_add)
  qed
  have "map hb_id (update_where (hb_key t c i (fst p) (snd p)) ?f (hour_balances db))
        = map hb_id (hour_balances db)"
    "map period_key (update_where (hb_key t c i (fst p) (snd p)) ?f (hour_balances db))
        = map period_key (hour_balances db)"
    by (rule map_update_where, simp add: period_key_def)+
  with Some assms f show ?thesis
    by (auto simp: upsert_roll_def Let_def balances_ok_def set_update_where split: if_splits)
qed

text \<open>The hours a roll moves, as the operation computes them.\<close>

lemma roll_InrE:
  assumes "roll_to_next_period C db t c e n = Inr (db', r)" and "r \<noteq> 0"
  obtains item closing p inc where "select_block_item db t c = Some item"
    and "opt_or (bi_rollover_enabled item) False"
    and "closing \<in> set (hour_balances db)" and "hb_period_end closing = e"
    and "r = min (max (hb_remaining closing) 0)
               (opt_or (bi_max_rollover_hours item) (max (hb_remaining closing) 0))"
    and "0 < r" and "inc = opt_or (bi_included_hours item) 0"
    and "p = period_for C (bi_start_date item) (opt_or (bi_billing_cycle item) ''monthly'')
               (opt_or (succ_opt C e) e)"
    and "upsert_roll t c (bi_id item) p inc r n (hour_balances db) = (hour_balances db', True)"
    and "db' = db\<lparr>hour_balances := hour_balances db'\<rparr>"
proof -
  from assms obtain item where item: "select_block_item db t c = Some item"
    and en: "opt_or (bi_rollover_enabled item) False"
    by (auto simp: roll_to_next_period_def split: option.splits if_splits)
  let ?sel = "select_one (\<lambda>b. hb_tenant b = t \<and> hb_contract b = c
                    \<and> hb_item b = bi_id item \<and> hb_period_end b = e) (hour_balances db)"
  from assms item en obtain closing where closing: "?sel = Some closing"
    by (auto simp: roll_to_next_period_def split: option.splits)
  define rolled where "rolled = min (max (hb_remaining closing) 0)
               (opt_or (bi_max_rollover_hours item) (max (hb_remaining closing) 0))"
  define p where "p = period_for C (bi_start_date item) (opt_or (bi_billing_cycle item) ''monthly'')
               (opt_or (succ_opt C e) e)"
  obtain bs x where up: "upsert_roll t c (bi_id item) p (opt_or (bi_included_hours item) 0) rolled n
      (hour_balances db) = (bs, x)" by (rule prod.exhaust)
  have "(if rolled \<le> 0 then Inr (db, 0)
      else Inr (db\<lparr>hour_balances := bs\<rparr>, if x then rolled else 0)) = (Inr (db', r) :: _ app_result)"
    using assms(1) en
    by (cases "rolled \<le> 0"; cases x) (simp_all add: roll_to_next_period_def Let_def item closing rolled_def [symmetric] p_def [symmetric] up)
  with assms(2) have "0 < rolled" "x" "r = rolled" "db' = db\<lparr>hour_balances := bs\<rparr>"
    by (auto split: if_splits)
  with item en closing up show thesis
    by (intro that [of item closing "opt_or (bi_included_hours item) 0" p])
       (auto simp: rolled_def p_def dest: select_one_SomeD)
qed

lemma roll_amount_num2:
  assumes "balances_ok db" and "items_ok db" and "select_block_item db t c = Some item"
    and "closing \<in> set (hour_balances db)"
  shows "is_num2 (min (max (hb_remaining closing) 0)
               (opt_or (bi_max_rollover_hours item) (max (hb_remaining closing) 0)))"
  using assms(1,4) select_block_item_ok(3) [OF assms(2,3)]
  by (auto simp: min_def max_def opt_or_def balances_ok_def balance_ok_def split: option.splits)

lemma upsert_roll_owner:
  assumes "upsert_roll t c i p inc r n (hour_balances db) = (bs', x)" and "owns_balance db t' k"
  shows "owns_balance (db\<lparr>hour_balances := bs'\<rparr>) t' k"
proof -
  let ?f = "\<lambda>b :: hour_balance. b\<lparr>hb_included := num2 (hb_included b + num2 r),
               hb_remaining := num2 (hb_remaining b + num2 r),
               hb_rollover := map_option (\<lambda>x. num2 (x + num2 r)) (hb_rollover b)\<rparr>"
  have "map (\<lambda>b. (hb_tenant b, hb_id b)) (update_where q ?f bs) = map (\<lambda>b. (hb_tenant b, hb_id b)) bs" for q bs
    by (rule map_update_where) simp
  with assms show ?thesis
    by (auto simp: upsert_roll_def Let_def owns_balance_def simp del: set_map
        split: option.splits if_splits)
qed

lemma upsert_roll_False: "upsert_roll t c i p inc r n bs = (bs', False) \<Longrightarrow> bs' = bs"
  by (auto simp: upsert_roll_def Let_def split: option.splits if_splits)

lemma roll_zero_same:
  assumes "roll_to_next_period C db t c e n = Inr (db', 0)" shows "db' = db"
proof -
  from assms obtain item where item: "select_block_item db t c = Some item"
    by (auto simp: roll_to_next_period_def split: option.splits)
  let ?sel = "select_one (\<lambda>b. hb_tenant b = t \<and> hb_contract b = c
                    \<and> hb_item b = bi_id item \<and> hb_period_end b = e) (hour_balances db)"
  show ?thesis
  proof (cases "opt_or (bi_rollover_enabled item) False")
    case False
    with assms item show ?thesis by (simp add: roll_to_next_period_def)
  next
    case en: True
    with assms item obtain closing where closing: "?sel = Some closing"
      by (auto simp: roll_to_next_period_def split: option.splits)
    define rolled where "rolled = min (max (hb_remaining closing) 0)
               (opt_or (bi_max_rollover_hours item) (max (hb_remaining closing) 0))"
    obtain bs x where up: "upsert_roll t c (bi_id item)
        (period_for C (bi_start_date item) (opt_or (bi_billing_cycle item) ''monthly'') (opt_or (succ_opt C e) e))
        (opt_or (bi_included_hours item) 0) rolled n (hour_balances db) = (bs, x)" by (rule prod.exhaust)
    have "(if rolled \<le> 0 then Inr (db, 0)
        else Inr (db\<lparr>hour_balances := bs\<rparr>, if x then rolled else 0)) = (Inr (db', 0) :: _ app_result)"
      using assms en
      by (cases "rolled \<le> 0"; cases x)
         (simp_all add: roll_to_next_period_def Let_def item closing rolled_def [symmetric] up)
    with up show ?thesis by (cases x) (auto dest: upsert_roll_False split: if_splits)
  qed
qed

lemma roll_effect:
  assumes "balances_ok db" and "items_ok db" and "n \<notin> hb_id ` set (hour_balances db)"
    and "roll_to_next_period C db t c e n = Inr (db', r)"
  shows "balances_ok db'" and "used_of db' i = used_of db i"
    and "owns_balance db t' k \<Longrightarrow> owns_balance db' t' k"
    and "db' = db\<lparr>hour_balances := hour_balances db'\<rparr>"
proof -
  have "balances_ok db' \<and> used_of db' i = used_of db i \<and> (owns_balance db t' k \<longrightarrow> owns_balance db' t' k)
    \<and> db' = db\<lparr>hour_balances := hour_balances db'\<rparr>"
  proof (cases "r = 0")
    case True
    with assms roll_zero_same [of C db t c e n db'] show ?thesis by simp
  next
    case False
    with assms(4) obtain item closing p inc where
      item: "select_block_item db t c = Some item" and cl: "closing \<in> set (hour_balances db)" and
      r: "r = min (max (hb_remaining closing) 0)
               (opt_or (bi_max_rollover_hours item) (max (hb_remaining closing) 0))" "0 < r" and
      inc: "inc = opt_or (bi_included_hours item) 0" and
      up: "upsert_roll t c (bi_id item) p inc r n (hour_balances db) = (hour_balances db', True)" and
      db': "db' = db\<lparr>hour_balances := hour_balances db'\<rparr>"
      by (rule roll_InrE)
    have n: "is_num2 r" using roll_amount_num2 [OF assms(1,2) item cl] by (simp only: r(1))
    have "balances_ok (db\<lparr>hour_balances := hour_balances db'\<rparr>)"
      using select_block_item_ok(1,2) [OF assms(2) item, folded inc]
      by (rule upsert_roll_ok [OF assms(1) _ _ less_imp_le [OF r(2)] n assms(3) up])
    moreover have "used_of db' i = used_of db i"
      using upsert_roll_used [OF up] by (simp add: used_of_def)
    ultimately show ?thesis using db' upsert_roll_owner [OF up] by simp
  qed
  then show "balances_ok db'" "used_of db' i = used_of db i"
    "owns_balance db t' k \<Longrightarrow> owns_balance db' t' k" "db' = db\<lparr>hour_balances := hour_balances db'\<rparr>"
    by simp_all
qed

section \<open>Properties\<close>

text \<open>
  C36. A draw splits the request exactly into hours applied and overage, takes nothing out of
  any other balance, charges the overage at the item's rate, and keeps every balance row
  adding up (used plus remaining is included) although both columns are rounded separately.
  The hours of a time entry are a whole number of minutes, which is what rules out the ties at
  which the two roundings would disagree.
\<close>

theorem consume_hours_conserves:
  assumes "balances_ok db" and "items_ok db" and "new_id \<notin> hb_id ` set (hour_balances db)"
    and "consume_hours C db t contract_id (of_int minutes / 60) when new_id = Inr (db', out)"
  shows "balances_ok db'
    \<and> hours_applied out + overage_hours out = of_int minutes / 60
    \<and> 0 \<le> hours_applied out \<and> 0 \<le> overage_hours out
    \<and> overage_amount out = overage_hours out * opt_or (overage_rate out) 0
    \<and> (\<forall>i. used_of db' i = used_of db i + (if i = balance_id out then num2 (hours_applied out) else 0))"
proof -
  note r = assms(4) [unfolded consume_hours_def]
  have "overage_amount out = overage_hours out * opt_or (overage_rate out) 0"
    using r by (rule consume_hours_InrE) simp
  with consume_hours_effect [OF assms(1-3) not_tie2_minutes r] show ?thesis by blast
qed

text \<open>A contract of eight hours a month, and ten minutes drawn from it.\<close>

definition sample_hours :: hours_db where
  "sample_hours = \<lparr>
     contracts = [\<lparr> c_id = 1, c_tenant = 7, c_company = 3, c_status = ''active'',
                    c_billing_cycle = Some ''monthly'', c_start_date = 20454, c_end_date = None \<rparr>],
     contract_items = [\<lparr> ci_id = 2, ci_tenant = 7, ci_contract = 1, ci_item_type = ''block_hours'',
                    ci_included_hours = Some 8, ci_overage_rate = Some 150,
                    ci_rollover_enabled = Some True, ci_max_rollover_hours = Some 4, ci_sort_order = 0 \<rparr>],
     hour_balances = [] \<rparr>"

lemma sample_hours_ok: "balances_ok sample_hours" "items_ok sample_hours"
  "9 \<notin> hb_id ` set (hour_balances sample_hours)"
  by (simp_all add: sample_hours_def balances_ok_def items_ok_def is_num2_def)

theorem consume_hours_conserves_witness:
  "\<exists>db' out. consume_hours gregorian sample_hours 7 1 (of_int 10 / 60) (20460 * 86400) 9 = Inr (db', out)
     \<and> balances_ok db' \<and> used_of db' 9 = 17 / 100 \<and> hours_applied out + overage_hours out = 1 / 6"
proof -
  have "is_ok (consume_hours gregorian sample_hours 7 1 (of_int 10 / 60) (20460 * 86400) 9)"
    by code_simp
  then obtain db' out where r:
    "consume_hours gregorian sample_hours 7 1 (of_int 10 / 60) (20460 * 86400) 9 = Inr (db', out)"
    by (auto simp: is_ok_def split: sum.splits)
  have "map_sum id (\<lambda>(db', out). used_of db' 9)
      (consume_hours gregorian sample_hours 7 1 (of_int 10 / 60) (20460 * 86400) 9) = Inr (17 / 100)"
    by code_simp
  with r have "used_of db' 9 = 17 / 100" by simp
  with r consume_hours_conserves [OF sample_hours_ok r] show ?thesis by simp
qed

text \<open>
  C37. Giving back the hours an entry recorded undoes its draw: the release succeeds, the rows
  still add up and every balance has the used hours it had before the draw.
\<close>

theorem release_undoes_consume:
  assumes "balances_ok db" and "items_ok db" and "new_id \<notin> hb_id ` set (hour_balances db)"
    and "consume_hours C db t contract_id (of_int minutes / 60) when new_id = Inr (db', out)"
  shows "\<exists>db''. release_hours db' t (balance_id out) (num2 (hours_applied out)) = Inr db''
     \<and> balances_ok db'' \<and> (\<forall>i. used_of db'' i = used_of db i)"
proof -
  have "draw_minutes C db t (contract_id, minutes, when, new_id)
      = Inr (db', num2 (hours_applied out), balance_id out)"
    using assms(4) by (simp add: draw_minutes_def consume_hours_def)
  then show ?thesis
    using block_hours.give_undoes_draw [of db "(contract_id, minutes, when, new_id)"] assms(1-3)
    by (fastforce simp: release_hours_def)
qed

theorem release_undoes_consume_witness:
  "\<exists>db' out db''. consume_hours gregorian sample_hours 7 1 (of_int 600 / 60) (20460 * 86400) 9 = Inr (db', out)
     \<and> release_hours db' 7 (balance_id out) (num2 (hours_applied out)) = Inr db''
     \<and> used_of db' 9 = 8 \<and> used_of db'' 9 = 0"
proof -
  have ev: "map_sum id (\<lambda>(db', out). used_of db' 9)
      (consume_hours gregorian sample_hours 7 1 (of_int 600 / 60) (20460 * 86400) 9) = Inr 8"
    by code_simp
  then obtain db' out where r:
    "consume_hours gregorian sample_hours 7 1 (of_int 600 / 60) (20460 * 86400) 9 = Inr (db', out)"
    by (auto simp: map_sum_def split: sum.splits)
  have "used_of sample_hours 9 = 0" by code_simp
  with ev r release_undoes_consume [OF sample_hours_ok r] show ?thesis by fastforce
qed

text \<open>
  Rolling the same closed period again credits nothing and changes nothing: once a roll
  moved hours into the next period, every further roll of that close is a no-op.
\<close>

theorem roll_credits_once:
  assumes "balances_ok db" and "items_ok db"
    and "roll_to_next_period C db t contract_id closing_end new_id = Inr (db', rolled)"
    and "rolled \<noteq> 0"
  shows "roll_to_next_period C db' t contract_id closing_end new_id' = Inr (db', 0)"
proof -
  from assms(3,4) obtain item closing p inc where
    item: "select_block_item db t contract_id = Some item" and
    en: "opt_or (bi_rollover_enabled item) False" and
    cl: "closing \<in> set (hour_balances db)" and
    r: "rolled = min (max (hb_remaining closing) 0)
               (opt_or (bi_max_rollover_hours item) (max (hb_remaining closing) 0))" "0 < rolled" and
    p: "p = period_for C (bi_start_date item) (opt_or (bi_billing_cycle item) ''monthly'')
               (opt_or (succ_opt C closing_end) closing_end)" and
    up: "upsert_roll t contract_id (bi_id item) p inc rolled new_id (hour_balances db)
         = (hour_balances db', True)" and
    db': "db' = db\<lparr>hour_balances := hour_balances db'\<rparr>"
    by (rule roll_InrE)
  have "is_num2 rolled"
    using roll_amount_num2 [OF assms(1,2) item cl] by (simp only: r(1))
  with r(2) have "num2 rolled \<noteq> 0" by simp
  note again = upsert_roll_twice [OF up this]
  have item': "select_block_item db' t contract_id = Some item"
    by (subst db') (simp add: item)
  have ex: "\<exists>b. select_one (\<lambda>b. hb_tenant b = t \<and> hb_contract b = contract_id
      \<and> hb_item b = bi_id item \<and> hb_period_end b = closing_end) (hour_balances db') = Some b"
  proof (rule ccontr)
    assume "\<not> ?thesis"
    then have none: "\<forall>b \<in> set (hour_balances db'). \<not> (hb_tenant b = t \<and> hb_contract b = contract_id
      \<and> hb_item b = bi_id item \<and> hb_period_end b = closing_end)"
      by (simp add: select_one_None)
    from assms(3,4) item en obtain b where "b \<in> set (hour_balances db)" "hb_tenant b = t"
      "hb_contract b = contract_id" "hb_item b = bi_id item" "hb_period_end b = closing_end"
      by (auto simp: roll_to_next_period_def split: option.splits dest: select_one_SomeD)
    with upsert_roll_keys [OF up] none show False by (fastforce simp: period_key_def)
  qed
  with item' en again p show ?thesis by (auto simp: roll_to_next_period_def Let_def)
qed


definition sample_hours_closed :: hours_db where
  "sample_hours_closed = sample_hours\<lparr>hour_balances :=
     [\<lparr> hb_id = 5, hb_tenant = 7, hb_contract = 1, hb_item = 2,
        hb_period_start = 20454, hb_period_end = 20484, hb_included = 8, hb_used = Some 1,
        hb_remaining = 7, hb_rollover = Some 0 \<rparr>]\<rparr>"

lemma sample_hours_closed_ok: "balances_ok sample_hours_closed" "items_ok sample_hours_closed"
  "9 \<notin> hb_id ` set (hour_balances sample_hours_closed)"
  by (simp_all add: sample_hours_closed_def sample_hours_def balances_ok_def items_ok_def
      balance_ok_def is_num2_def)

theorem roll_credits_once_witness:
  "\<exists>db'. roll_to_next_period gregorian sample_hours_closed 7 1 20484 9 = Inr (db', 4)
     \<and> roll_to_next_period gregorian db' 7 1 20484 10 = Inr (db', 0)"
proof -
  have "map_sum id snd (roll_to_next_period gregorian sample_hours_closed 7 1 20484 9) = Inr 4"
    by code_simp
  then obtain db' where r: "roll_to_next_period gregorian sample_hours_closed 7 1 20484 9 = Inr (db', 4)"
    by (auto simp: map_sum_def split: sum.splits)
  show ?thesis using r roll_credits_once [OF sample_hours_closed_ok(1,2) r] by simp
qed


end
