(* ===== verification/Time_Rules.thy ===== *)
theory Time_Rules
  imports Calendar
begin

text \<open>
  The pure rules of time tracking (src/src/modules/time_tracking/service.rs): how long an entry
  is, whose time it is, what it is classified as, how its billable minutes are rounded, what it
  costs and whether the day still has room for it. Minutes are \<open>i32\<close> in the source; here
  they are integers, with the truncating cast written out where a wider value is narrowed.
\<close>

section \<open>Machine arithmetic and text the rules use\<close>

text \<open>Rust's integer division and remainder truncate towards zero.\<close>

definition trunc_div :: "int \<Rightarrow> int \<Rightarrow> int" where
  "trunc_div a b = sgn a * sgn b * (\<bar>a\<bar> div \<bar>b\<bar>)"

definition trunc_rem :: "int \<Rightarrow> int \<Rightarrow> int" where
  "trunc_rem a b = a - b * trunc_div a b"

definition as_i32 :: "int \<Rightarrow> int" where
  "as_i32 x = (x + 2 ^ 31) mod 2 ^ 32 - 2 ^ 31"

lemma trunc_rem_pos: "0 \<le> a \<Longrightarrow> 0 < b \<Longrightarrow> trunc_rem a b = a mod b"
  by (cases "a = 0") (simp_all add: trunc_rem_def trunc_div_def sgn_if minus_mult_div_eq_mod)

lemma trunc_div_pos: "0 \<le> a \<Longrightarrow> 0 < b \<Longrightarrow> trunc_div a b = a div b"
  by (cases "a = 0") (simp_all add: trunc_div_def sgn_if)

lemma as_i32_id: "- (2 ^ 31) \<le> x \<Longrightarrow> x < 2 ^ 31 \<Longrightarrow> as_i32 x = x"
  by (simp add: as_i32_def)

text \<open>\<open>str::trim\<close> on ASCII text.\<close>

definition is_space :: "char \<Rightarrow> bool" where
  "is_space c \<longleftrightarrow> c \<in> {CHR '' '', CHR 0x09, CHR 0x0A, CHR 0x0B, CHR 0x0C, CHR 0x0D}"

definition trim :: "string \<Rightarrow> string" where
  "trim s = rev (dropWhile is_space (rev (dropWhile is_space s)))"

section \<open>The length of an entry\<close>

text \<open>
  The request fields that decide it. Times of day are seconds; \<open>num_minutes\<close> of a difference
  truncates towards zero.
\<close>

record minutes_request =
  mr_worked_minutes :: "int option"
  mr_duration_minutes :: "int option"
  mr_start_time :: "int option"
  mr_end_time :: "int option"

definition num_minutes :: "int \<Rightarrow> int" where
  "num_minutes secs = trunc_div secs 60"

definition compute_minutes :: "minutes_request \<Rightarrow> int app_result" where
  "compute_minutes request =
     (case mr_worked_minutes request of
        Some m \<Rightarrow> Inr m
      | None \<Rightarrow>
     (case mr_duration_minutes request of
        Some m \<Rightarrow> Inr m
      | None \<Rightarrow>
     (case (mr_start_time request, mr_end_time request) of
        (Some s, Some e) \<Rightarrow>
          (let m = num_minutes (e - s)
           in if m < 0 then Inl (BadRequest ''end_time must be after start_time'')
              else Inr (as_i32 m))
      | _ \<Rightarrow> Inl (BadRequest ''Either duration_minutes or (start_time, end_time) must be supplied''))))"

section \<open>Whose time it is\<close>

definition ENTRY_KIND_CLIENT :: string where "ENTRY_KIND_CLIENT = ''client''"
definition ENTRY_KIND_EMPLOYEE :: string where "ENTRY_KIND_EMPLOYEE = ''employee''"

lemmas entry_kind_defs = ENTRY_KIND_CLIENT_def ENTRY_KIND_EMPLOYEE_def

record entry_kind_input =
  ek_requested :: "string option"
  ek_company_id :: "uuid option"
  ek_own_company_id :: "uuid option"
  ek_ticket_id :: "uuid option"
  ek_project_id :: "uuid option"
  ek_task_id :: "uuid option"
  ek_contract_id :: "uuid option"
  ek_is_billable :: bool

record resolved_kind =
  rk_kind :: string
  rk_billable :: bool

definition has_client_work :: "entry_kind_input \<Rightarrow> bool" where
  "has_client_work i \<longleftrightarrow> ek_ticket_id i \<noteq> None \<or> ek_project_id i \<noteq> None
     \<or> ek_task_id i \<noteq> None \<or> ek_contract_id i \<noteq> None"

definition derived_kind :: "entry_kind_input \<Rightarrow> string" where
  "derived_kind i =
     (if has_client_work i then ENTRY_KIND_CLIENT
      else if ek_company_id i = None
              \<or> (ek_own_company_id i \<noteq> None \<and> ek_company_id i = ek_own_company_id i)
      then ENTRY_KIND_EMPLOYEE else ENTRY_KIND_CLIENT)"

definition requested_kind :: "entry_kind_input \<Rightarrow> string app_result" where
  "requested_kind i =
     (case map_option trim (ek_requested i) of
        None \<Rightarrow> Inr (derived_kind i)
      | Some r \<Rightarrow>
          if r = [] then Inr (derived_kind i)
          else if r = ENTRY_KIND_CLIENT then Inr ENTRY_KIND_CLIENT
          else if r = ENTRY_KIND_EMPLOYEE then Inr ENTRY_KIND_EMPLOYEE
          else Inl (BadRequest ''entry_kind must be one of client, employee''))"

definition resolve_entry_kind :: "entry_kind_input \<Rightarrow> resolved_kind app_result" where
  "resolve_entry_kind i =
     and_then (requested_kind i) (\<lambda>kind.
       if kind = ENTRY_KIND_EMPLOYEE \<and> has_client_work i then
         Inl (BadRequest ''Employee time carries no ticket, project, task or contract'')
       else if kind = ENTRY_KIND_CLIENT \<and> ek_company_id i = None then
         Inl (BadRequest ''Client work needs a company_id'')
       else Inr \<lparr> rk_kind = kind, rk_billable = (kind = ENTRY_KIND_CLIENT \<and> ek_is_billable i) \<rparr>)"

section \<open>Billing status and category\<close>

datatype billing_status = NotBilled | ReadyToBill | Billed | Prepaid

primrec billing_status_as_str :: "billing_status \<Rightarrow> string" where
  "billing_status_as_str NotBilled = ''not_billed''"
| "billing_status_as_str ReadyToBill = ''ready_to_bill''"
| "billing_status_as_str Billed = ''billed''"
| "billing_status_as_str Prepaid = ''prepaid''"

definition billing_status_from_str :: "string \<Rightarrow> billing_status option" where
  "billing_status_from_str s =
     (if s = ''not_billed'' then Some NotBilled
      else if s = ''ready_to_bill'' then Some ReadyToBill
      else if s = ''billed'' then Some Billed
      else if s = ''prepaid'' then Some Prepaid
      else None)"

definition resolve_billing_status :: "bool \<Rightarrow> billing_status option \<Rightarrow> string" where
  "resolve_billing_status is_billable current =
     (if current = Some Billed then ''billed''
      else if is_billable then ''ready_to_bill'' else ''not_billed'')"

definition derive_work_category :: "string option \<Rightarrow> uuid option \<Rightarrow> uuid option \<Rightarrow> string app_result" where
  "derive_work_category requested ticket_id project_id =
     (let derived = (if ticket_id \<noteq> None then ''ticketed''
                     else if project_id \<noteq> None then ''project'' else ''general'') in
      case map_option trim requested of
        None \<Rightarrow> Inr derived
      | Some category \<Rightarrow>
          if category = [] then Inr derived
          else if category \<notin> {''ticketed'', ''project'', ''general''} then
            Inl (BadRequest ''work_category must be one of ticketed, project, general'')
          else if category = ''ticketed'' \<and> ticket_id = None then
            Inl (BadRequest ''work_category 'ticketed' requires a ticket_id'')
          else Inr category)"

section \<open>The day cap and the week\<close>

definition enforce_day_cap :: "int \<Rightarrow> int \<Rightarrow> int \<Rightarrow> unit app_result" where
  "enforce_day_cap existing new_minutes cap_minutes =
     (if existing + new_minutes > cap_minutes
      then Inl (BadRequest ''Day total would exceed the cap'') else Inr ())"

definition monday_anchor :: "date \<Rightarrow> date" where
  "monday_anchor d = d - num_days_from_monday d"

section \<open>Rounding and price\<close>

record rounding_params =
  rp_increment_minutes :: int
  rp_minimum_minutes :: int
  rp_method :: string

definition validate_rounding_method :: "string \<Rightarrow> unit app_result" where
  "validate_rounding_method m =
     (if m \<in> {''up'', ''down'', ''nearest''} then Inr ()
      else Inl (BadRequest ''rounding_method invalid; expected up | down | nearest''))"

definition apply_rounding :: "int \<Rightarrow> rounding_params \<Rightarrow> int" where
  "apply_rounding raw_minutes rule =
     (let floored = max raw_minutes (rp_minimum_minutes rule);
          inc = rp_increment_minutes rule
      in if inc \<le> 0 then floored
         else let r = trunc_rem floored inc
         in if r = 0 then floored
            else let down = floored - r
            in if rp_method rule = ''down'' then down
               else if rp_method rule = ''up'' then down + inc
               else if rp_method rule = ''nearest'' then (if r * 2 \<ge> inc then down + inc else down)
               else floored)"

definition derive_billable_minutes :: "int \<Rightarrow> bool \<Rightarrow> rounding_params option \<Rightarrow> int" where
  "derive_billable_minutes worked_minutes is_billable rounding =
     (if \<not> is_billable then 0
      else case rounding of Some rule \<Rightarrow> apply_rounding worked_minutes rule | None \<Rightarrow> worked_minutes)"

record work_type_defaults =
  wtd_default_rate :: "decimal option"
  wtd_default_billable :: bool

definition resolve_billing :: "decimal option \<Rightarrow> bool \<Rightarrow> work_type_defaults \<Rightarrow> int
    \<Rightarrow> decimal option \<times> decimal option" where
  "resolve_billing explicit_rate is_billable defaults minutes =
     (let rate = (case explicit_rate of Some r \<Rightarrow> Some r | None \<Rightarrow> wtd_default_rate defaults)
      in (rate, if is_billable then map_option (\<lambda>r. r * of_int minutes / 60) rate else None))"

section \<open>Properties\<close>

lemma billing_status_round_trip: "billing_status_from_str (billing_status_as_str s) = Some s"
  by (cases s) (simp_all add: billing_status_from_str_def)

lemma requested_kind_cases:
  "requested_kind i = Inr k \<Longrightarrow> k = ENTRY_KIND_CLIENT \<or> k = ENTRY_KIND_EMPLOYEE"
  by (auto simp: requested_kind_def derived_kind_def split: option.splits if_splits)

text \<open>
  A resolved entry is either client work, which names a company, or the employee's own
  time, which names no ticket, project, task or contract and is never billable.
\<close>

theorem resolved_kind_is_consistent:
  assumes "resolve_entry_kind i = Inr k"
  shows "(rk_kind k = ''client'' \<and> ek_company_id i \<noteq> None \<and> rk_billable k = ek_is_billable i)
    \<or> (rk_kind k = ''employee'' \<and> \<not> has_client_work i \<and> \<not> rk_billable k)"
proof -
  from assms obtain kind where "requested_kind i = Inr kind"
    and r: "(if kind = ENTRY_KIND_EMPLOYEE \<and> has_client_work i then
         Inl (BadRequest ''Employee time carries no ticket, project, task or contract'')
       else if kind = ENTRY_KIND_CLIENT \<and> ek_company_id i = None then
         Inl (BadRequest ''Client work needs a company_id'')
       else Inr \<lparr> rk_kind = kind, rk_billable = (kind = ENTRY_KIND_CLIENT \<and> ek_is_billable i) \<rparr>) = Inr k"
    unfolding resolve_entry_kind_def by (rule and_then_InrE)
  then have "kind = ENTRY_KIND_CLIENT \<or> kind = ENTRY_KIND_EMPLOYEE" by (metis requested_kind_cases)
  with r show ?thesis by (elim disjE) (auto simp: entry_kind_defs split: if_splits)
qed

theorem resolved_kind_is_consistent_witness:
  "resolve_entry_kind \<lparr> ek_requested = Some '' employee '', ek_company_id = Some 4,
      ek_own_company_id = None, ek_ticket_id = None, ek_project_id = None, ek_task_id = None,
      ek_contract_id = None, ek_is_billable = True \<rparr>
     = Inr \<lparr> rk_kind = ''employee'', rk_billable = False \<rparr>
   \<and> \<not> rk_billable \<lparr> rk_kind = ''employee'', rk_billable = False \<rparr>"
proof -
  let ?i = "\<lparr> ek_requested = Some '' employee '', ek_company_id = Some 4,
      ek_own_company_id = None, ek_ticket_id = None, ek_project_id = None, ek_task_id = None,
      ek_contract_id = None, ek_is_billable = True \<rparr>"
  have h: "resolve_entry_kind ?i = Inr \<lparr> rk_kind = ''employee'', rk_billable = False \<rparr>"
    by code_simp
  show ?thesis using h resolved_kind_is_consistent [OF h] by simp
qed

lemma apply_rounding_unfold:
  assumes "0 < inc" and "0 \<le> f" and "f = max raw (rp_minimum_minutes rule)"
    and "inc = rp_increment_minutes rule"
  shows "apply_rounding raw rule =
    (if f mod inc = 0 then f
     else if rp_method rule = ''down'' then f - f mod inc
     else if rp_method rule = ''up'' then f - f mod inc + inc
     else if rp_method rule = ''nearest''
          then (if f mod inc * 2 \<ge> inc then f - f mod inc + inc else f - f mod inc)
     else f)"
  using assms by (simp add: apply_rounding_def Let_def trunc_rem_pos)

lemma div_up:
  assumes "0 < (c::int)" and "a mod c \<noteq> 0"
  shows "(a + c - 1) div c = a div c + 1"
proof -
  have "0 \<le> a mod c" "a mod c < c" using assms by simp_all
  with assms have "0 \<le> a mod c - 1" "a mod c - 1 < c" by linarith+
  moreover have "a + c - 1 = c * (a div c + 1) + (a mod c - 1)" by (simp add: algebra_simps)
  ultimately show ?thesis by (metis int_div_pos_eq)
qed

lemma div_nearest:
  assumes "0 < (c::int)"
  shows "(2 * a + c) div (2 * c) = (if a mod c * 2 \<ge> c then a div c + 1 else a div c)"
proof -
  have m: "0 \<le> a mod c" "a mod c < c" using assms by simp_all
  have a: "2 * a = (2 * c) * (a div c) + 2 * (a mod c)"
    using mult_div_mod_eq [of c a] by (metis distrib_left mult.assoc)
  show ?thesis
  proof (cases "a mod c * 2 \<ge> c")
    case True
    have "2 * a + c = (2 * c) * (a div c + 1) + (2 * (a mod c) - c)"
      using a by (simp add: algebra_simps)
    then show ?thesis
      using True m int_div_pos_eq [of "2 * a + c" "2 * c" "a div c + 1" "2 * (a mod c) - c"] by simp
  next
    case False
    have "2 * a + c = (2 * c) * (a div c) + (2 * (a mod c) + c)"
      using a by simp
    then show ?thesis
      using False m int_div_pos_eq [of "2 * a + c" "2 * c" "a div c" "2 * (a mod c) + c"] by simp
  qed
qed

text \<open>
  Rounding is the floor of the minimum followed by a rounding to the increment: down to
  the largest multiple not above, up to the smallest multiple not below, or to the nearest
  multiple with an exact midpoint going up.
\<close>

theorem apply_rounding_reference:
  assumes "0 < rp_increment_minutes rule" and "0 \<le> rp_minimum_minutes rule"
    and "f = max raw (rp_minimum_minutes rule)" and "inc = rp_increment_minutes rule"
  shows "(rp_method rule = ''down'' \<longrightarrow> apply_rounding raw rule = inc * (f div inc))
    \<and> (rp_method rule = ''up'' \<longrightarrow> apply_rounding raw rule = inc * ((f + inc - 1) div inc))
    \<and> (rp_method rule = ''nearest'' \<longrightarrow> apply_rounding raw rule = inc * ((2 * f + inc) div (2 * inc)))"
proof -
  have f: "0 < inc" "0 \<le> f" using assms by auto
  have q: "f - f mod inc = inc * (f div inc)" by (simp add: minus_mod_eq_mult_div)
  have z: "(f + inc - 1) div inc = f div inc" if "f mod inc = 0"
    using f(1) that int_div_pos_eq [of "f + inc - 1" inc "f div inc" "inc - 1"]
      mult_div_mod_eq [of inc f] by simp
  show ?thesis
    using apply_rounding_unfold [OF f assms(3,4)] q div_up [OF f(1), of f] div_nearest [OF f(1), of f] z f
    by (auto simp: distrib_left)
qed

theorem apply_rounding_reference_witness:
  "apply_rounding 22 \<lparr> rp_increment_minutes = 15, rp_minimum_minutes = 10, rp_method = ''nearest'' \<rparr> = 15
   \<and> apply_rounding 23 \<lparr> rp_increment_minutes = 15, rp_minimum_minutes = 10, rp_method = ''nearest'' \<rparr> = 30
   \<and> apply_rounding 3 \<lparr> rp_increment_minutes = 15, rp_minimum_minutes = 10, rp_method = ''up'' \<rparr> = 15"
proof -
  let ?n = "\<lparr> rp_increment_minutes = 15, rp_minimum_minutes = 10, rp_method = ''nearest'' \<rparr>"
  let ?u = "\<lparr> rp_increment_minutes = 15, rp_minimum_minutes = 10, rp_method = ''up'' \<rparr>"
  show ?thesis
    using apply_rounding_reference [of ?n 22 22 15] apply_rounding_reference [of ?n 23 23 15]
      apply_rounding_reference [of ?u 10 3 15] by simp
qed

text \<open>
  The worked minutes of an entry are the explicit figure, else the duration, else the
  minutes between start and end; an end before the start by a minute or more is refused, and
  so is a request with none of them.
\<close>

theorem compute_minutes_cases:
  "compute_minutes \<lparr> mr_worked_minutes = w, mr_duration_minutes = d, mr_start_time = s, mr_end_time = e \<rparr> =
     (case (w, d, s, e) of
        (Some m, _, _, _) \<Rightarrow> Inr m
      | (None, Some m, _, _) \<Rightarrow> Inr m
      | (None, None, Some s', Some e') \<Rightarrow>
          if e' - s' \<le> - 60 then Inl (BadRequest ''end_time must be after start_time'')
          else Inr (as_i32 (if e' < s' then 0 else (e' - s') div 60))
      | _ \<Rightarrow> Inl (BadRequest ''Either duration_minutes or (start_time, end_time) must be supplied''))"
proof -
  have neg: "trunc_div x 60 < 0 \<longleftrightarrow> x \<le> - 60" for x
    by (cases "0 \<le> x") (auto simp: trunc_div_def sgn_if pos_imp_zdiv_pos_iff pos_imp_zdiv_nonneg_iff)
  have zero: "trunc_div x 60 = 0" if "- 60 < x" "x < 0" for x
    using that by (simp add: trunc_div_def sgn_if zdiv_eq_0_iff)
  have pos: "trunc_div x 60 = x div 60" if "0 \<le> x" for x
    using that by (simp add: trunc_div_pos)
  show ?thesis
    by (auto simp: compute_minutes_def num_minutes_def Let_def neg zero pos split: option.splits)
qed

text \<open>
  The week an entry belongs to starts on the Monday on or before its date.
\<close>

theorem monday_anchor_is_monday:
  "weekday (monday_anchor d) = 1 \<and> monday_anchor d \<le> d \<and> d < monday_anchor d + 7"
proof -
  have r: "0 \<le> (d + 3) mod 7" "(d + 3) mod 7 < 7" by simp_all
  have "(d - (d + 3) mod 7 + 4) mod 7 = ((d + 3) - (d + 3) mod 7 + 1) mod 7" by (simp add: algebra_simps)
  also have "\<dots> = 1" by (simp add: minus_mod_eq_mult_div)
  finally show ?thesis using r by (simp add: monday_anchor_def num_days_from_monday_def weekday_def)
qed

end
