(* ===== verification/Audit_Trail.thy ===== *)
theory Audit_Trail
  imports Mokosh_Prelude
begin

text \<open>
  The audit trail of src/src/modules/audit/context.rs: every mutation appends one row inside its
  own transaction. The before and after snapshots (JSON images of the row) are left out.
\<close>

datatype audit_action = ACreate | AUpdate | ADelete | AView | ALogin | ALogout | AExport | AImport

primrec audit_action_as_str :: "audit_action \<Rightarrow> string" where
  "audit_action_as_str ACreate = ''create''"
| "audit_action_as_str AUpdate = ''update''"
| "audit_action_as_str ADelete = ''delete''"
| "audit_action_as_str AView = ''view''"
| "audit_action_as_str ALogin = ''login''"
| "audit_action_as_str ALogout = ''logout''"
| "audit_action_as_str AExport = ''export''"
| "audit_action_as_str AImport = ''import''"

record audit_ctx =
  ctx_tenant :: "uuid option"
  ctx_user :: "uuid option"
  ctx_ip :: "string option"
  ctx_user_agent :: "string option"

definition audit_ctx_system :: "uuid \<Rightarrow> audit_ctx" where
  "audit_ctx_system t =
     \<lparr> ctx_tenant = Some t, ctx_user = None, ctx_ip = None, ctx_user_agent = None \<rparr>"

record audit_row =
  au_tenant :: tenant
  au_user :: "uuid option"
  au_action :: string
  au_entity_type :: string
  au_entity_id :: "uuid option"
  au_ip :: "string option"
  au_user_agent :: "string option"

definition audit_write :: "audit_row list \<Rightarrow> tenant \<Rightarrow> audit_ctx \<Rightarrow> audit_action \<Rightarrow> string \<Rightarrow> uuid option
    \<Rightarrow> audit_row list" where
  "audit_write rows t ctx action entity_type entity_id =
     rows @ [\<lparr> au_tenant = t, au_user = ctx_user ctx, au_action = audit_action_as_str action,
              au_entity_type = entity_type, au_entity_id = entity_id,
              au_ip = ctx_ip ctx, au_user_agent = ctx_user_agent ctx \<rparr>]"

lemma audit_write_length [simp]: "length (audit_write rows t ctx a e i) = Suc (length rows)"
  by (simp add: audit_write_def)

end
