(* ===== verification/Time_Entries.thy ===== *)
theory Time_Entries
  imports Hour_Balances Time_Rules Audit_Trail
begin

text \<open>
  Time entries and timers: \<open>TimeTrackingService\<close> of
  src/src/modules/time_tracking/service.rs on top of the hour balances of the contracts. An
  operation that commits several transactions is the composition of one definition per
  transaction, and returns the state it leaves behind also when a later transaction fails.
  The theory shows that the hours taken out of the balances are at every moment exactly the
  hours the entries record, that the draw after a committed entry cannot fail, that the day
  cap holds, and what one interleaving of an edit with a delete does to the balances.
\<close>

section \<open>Tables\<close>

record work_type =
  wt_id :: uuid
  wt_tenant :: tenant
  wt_default_billable :: "bool option"
  wt_default_rate :: "decimal option"
  wt_is_active :: "bool option"
  wt_sort_order :: "int option"

record ticket_ref =
  tk_id :: uuid
  tk_tenant :: tenant
  tk_company :: uuid

record user_ref =
  us_id :: uuid
  us_tenant :: tenant
  us_timezone :: string

record rounding_rule =
  rr_tenant :: tenant
  rr_increment_minutes :: int
  rr_rounding_method :: string
  rr_minimum_minutes :: "int option"
  rr_is_default :: "bool option"

record setting_row =
  st_tenant :: tenant
  st_category :: string
  st_key :: string
  st_as_u64 :: "nat option"

record active_timer =
  at_id :: uuid
  at_tenant :: tenant
  at_user :: uuid
  at_ticket :: "uuid option"
  at_project :: "uuid option"
  at_company :: "uuid option"
  at_work_type :: "uuid option"
  at_notes :: "string option"
  at_started_at :: instant

record time_entry =
  te_id :: uuid
  te_tenant :: tenant
  te_user :: uuid
  te_date :: date
  te_start_time :: "int option"
  te_end_time :: "int option"
  te_duration_minutes :: int
  te_worked_minutes :: "int option"
  te_billable_minutes :: "int option"
  te_work_type :: uuid
  te_ticket :: "uuid option"
  te_project :: "uuid option"
  te_task :: "uuid option"
  te_company :: "uuid option"
  te_contract :: "uuid option"
  te_notes :: "string option"
  te_is_billable :: "bool option"
  te_billing_status :: string
  te_hourly_rate :: "decimal option"
  te_total_amount :: "decimal option"
  te_work_category :: "string option"
  te_entry_kind :: string
  te_hours_consumed :: "decimal option"
  te_hours_balance :: "uuid option"
  te_overage_hours :: "decimal option"
  te_overage_rate :: "decimal option"
  te_approval_status :: string
  te_approved_by :: "uuid option"
  te_approved_at :: "instant option"
  te_rejection_reason :: "string option"
  te_invoice :: "uuid option"

record time_db = hours_db +
  time_entries :: "time_entry list"
  work_types :: "work_type list"
  companies :: "(uuid \<times> tenant) list"
  tickets :: "ticket_ref list"
  users :: "user_ref list"
  own_companies :: "(tenant \<times> uuid option) list"
  rounding_rules :: "rounding_rule list"
  tenant_settings :: "setting_row list"
  active_timers :: "active_timer list"
  audit_log :: "audit_row list"

section \<open>Reads\<close>

definition entry_key :: "tenant \<Rightarrow> uuid \<Rightarrow> time_entry \<Rightarrow> bool" where
  "entry_key t i e \<longleftrightarrow> te_tenant e = t \<and> te_id e = i"

definition fetch_work_type_defaults :: "time_db \<Rightarrow> tenant \<Rightarrow> uuid \<Rightarrow> work_type_defaults app_result" where
  "fetch_work_type_defaults db t w =
     (case select_one (\<lambda>r. wt_tenant r = t \<and> wt_id r = w) (work_types db) of
        None \<Rightarrow> Inl (NotFound ''Work type'')
      | Some r \<Rightarrow> Inr \<lparr> wtd_default_rate = wt_default_rate r,
                       wtd_default_billable = opt_or (wt_default_billable r) True \<rparr>)"

definition assert_ticket_in_tenant :: "time_db \<Rightarrow> tenant \<Rightarrow> uuid \<Rightarrow> uuid app_result" where
  "assert_ticket_in_tenant db t i =
     (case select_one (\<lambda>r. tk_tenant r = t \<and> tk_id r = i) (tickets db) of
        None \<Rightarrow> Inl (NotFound ''Ticket'')
      | Some r \<Rightarrow> Inr (tk_company r))"

definition assert_company_in_tenant :: "time_db \<Rightarrow> tenant \<Rightarrow> uuid \<Rightarrow> unit app_result" where
  "assert_company_in_tenant db t c =
     (if (c, t) \<in> set (companies db) then Inr () else Inl (NotFound ''Company''))"

definition own_company_id :: "time_db \<Rightarrow> tenant \<Rightarrow> uuid option" where
  "own_company_id db t =
     (case select_one (\<lambda>r. fst r = t) (own_companies db) of None \<Rightarrow> None | Some r \<Rightarrow> snd r)"

definition default_rounding_rule :: "time_db \<Rightarrow> tenant \<Rightarrow> rounding_params option" where
  "default_rounding_rule db t =
     map_option (\<lambda>r. \<lparr> rp_increment_minutes = rr_increment_minutes r,
                       rp_minimum_minutes = opt_or (rr_minimum_minutes r) 0,
                       rp_method = rr_rounding_method r \<rparr>)
       (select_one (\<lambda>r. rr_tenant r = t \<and> rr_is_default r = Some True) (rounding_rules db))"

definition read_max_minutes_per_day :: "time_db \<Rightarrow> tenant \<Rightarrow> int" where
  "read_max_minutes_per_day db t =
     (let hours = (case select_one (\<lambda>s. st_tenant s = t \<and> st_category s = ''time_tracking''
                         \<and> st_key s = ''max_hours_per_day'') (tenant_settings db) of
                     None \<Rightarrow> 24
                   | Some s \<Rightarrow> (case st_as_u64 s of None \<Rightarrow> 24 | Some n \<Rightarrow> max 1 (min 24 n)))
      in int hours * 60)"

definition day_minutes_excluding :: "time_db \<Rightarrow> tenant \<Rightarrow> uuid \<Rightarrow> date \<Rightarrow> uuid option \<Rightarrow> int" where
  "day_minutes_excluding db t u d ex =
     sum_list (map te_duration_minutes
       (filter (\<lambda>e. te_tenant e = t \<and> te_user e = u \<and> te_date e = d
                    \<and> (case ex of None \<Rightarrow> True | Some i \<Rightarrow> te_id e \<noteq> i)) (time_entries db)))"

text \<open>\<open>ORDER BY start_date DESC, id LIMIT 1\<close> as two stable sorts.\<close>

definition block_hours_contract_for :: "time_db \<Rightarrow> tenant \<Rightarrow> uuid option \<Rightarrow> date \<Rightarrow> string \<Rightarrow> bool
    \<Rightarrow> uuid option" where
  "block_hours_contract_for db t company_id d entry_kind is_billable =
     (if entry_kind \<noteq> ENTRY_KIND_CLIENT \<or> \<not> is_billable then None
      else case company_id of
        None \<Rightarrow> None
      | Some company \<Rightarrow>
          (case sort_key (\<lambda>c. - c_start_date c) (sort_key c_id
             [c \<leftarrow> contracts db.
                list_ex (\<lambda>ci. ci_contract ci = c_id c \<and> ci_item_type ci = ''block_hours'')
                  (contract_items db)
                \<and> c_tenant c = t \<and> c_company c = company \<and> c_status c = ''active''
                \<and> c_start_date c \<le> d
                \<and> (case c_end_date c of None \<Rightarrow> True | Some e \<Rightarrow> e \<ge> d)]) of
             [] \<Rightarrow> None
           | c # _ \<Rightarrow> Some (c_id c)))"

definition get_time_entry :: "time_db \<Rightarrow> tenant \<Rightarrow> uuid \<Rightarrow> time_entry app_result" where
  "get_time_entry db t i =
     (case select_one (entry_key t i) (time_entries db) of
        None \<Rightarrow> Inl (NotFound ''Time entry'')
      | Some e \<Rightarrow> Inr e)"

section \<open>Drawing and giving back\<close>

definition stamp_draw :: "consume_outcome \<Rightarrow> time_entry \<Rightarrow> time_entry" where
  "stamp_draw out e = e\<lparr>
     te_hours_consumed := Some (num2 (hours_applied out)),
     te_hours_balance := Some (balance_id out),
     te_overage_hours := (if overage_hours out = 0 then None else Some (num2 (overage_hours out))),
     te_overage_rate := (if overage_hours out > 0 then overage_rate out else None),
     te_billing_status :=
       (if overage_hours out > 0 \<or> te_billing_status e \<noteq> ''ready_to_bill''
        then te_billing_status e else ''prepaid'')\<rparr>"

definition consume_for_entry :: "cal \<Rightarrow> time_db \<Rightarrow> tenant \<Rightarrow> uuid \<Rightarrow> uuid \<Rightarrow> time_db app_result" where
  "consume_for_entry C db t i new_balance =
     (case select_one (\<lambda>e. entry_key t i e \<and> te_hours_consumed e = None) (time_entries db) of
        None \<Rightarrow> Inr db
      | Some row \<Rightarrow>
          (case te_contract row of
             None \<Rightarrow> Inr db
           | Some contract_id \<Rightarrow>
               if \<not> opt_or (te_is_billable row) False \<or> te_entry_kind row \<noteq> ENTRY_KIND_CLIENT
               then Inr db
               else
                 let hours = of_int (te_duration_minutes row) / 60 in
                 if hours \<le> 0 then Inr db
                 else and_then
                   (consume_hours_in_tx C db t contract_id hours (te_date row * 86400) new_balance)
                   (\<lambda>(db1, out).
                      Inr (db1\<lparr>time_entries :=
                             update_where (\<lambda>e. entry_key t i e \<and> te_hours_consumed e = None)
                               (stamp_draw out) (time_entries db1)\<rparr>))))"

definition clear_draw :: "time_entry \<Rightarrow> time_entry" where
  "clear_draw e = e\<lparr>
     te_hours_consumed := None, te_hours_balance := None,
     te_overage_hours := None, te_overage_rate := None,
     te_billing_status :=
       (if te_billing_status e = ''prepaid'' then ''ready_to_bill'' else te_billing_status e)\<rparr>"

definition release_for_entry :: "time_db \<Rightarrow> tenant \<Rightarrow> uuid \<Rightarrow> time_db app_result" where
  "release_for_entry db t i =
     (case select_one (\<lambda>e. entry_key t i e \<and> te_hours_consumed e \<noteq> None) (time_entries db) of
        None \<Rightarrow> Inr db
      | Some prev \<Rightarrow>
          let db1 = db\<lparr>time_entries := update_where (\<lambda>e. te_id e = te_id prev) clear_draw
                                        (time_entries db)\<rparr>
          in (case (te_hours_consumed prev, te_hours_balance prev) of
                (Some applied, Some b) \<Rightarrow> release_hours_in_tx db1 t b applied
              | _ \<Rightarrow> Inr db1))"

section \<open>Creating an entry\<close>

record create_time_entry_request =
  cr_user :: uuid
  cr_date :: date
  cr_start_time :: "int option"
  cr_end_time :: "int option"
  cr_duration_minutes :: "int option"
  cr_worked_minutes :: "int option"
  cr_billable_minutes :: "int option"
  cr_work_type :: uuid
  cr_ticket :: "uuid option"
  cr_project :: "uuid option"
  cr_work_category :: "string option"
  cr_task :: "uuid option"
  cr_entry_kind :: "string option"
  cr_company :: "uuid option"
  cr_notes :: "string option"
  cr_is_billable :: bool
  cr_hourly_rate :: "decimal option"

definition cr_minutes :: "create_time_entry_request \<Rightarrow> minutes_request" where
  "cr_minutes r = \<lparr> mr_worked_minutes = cr_worked_minutes r, mr_duration_minutes = cr_duration_minutes r,
     mr_start_time = cr_start_time r, mr_end_time = cr_end_time r \<rparr>"

definition when_some :: "'a option \<Rightarrow> ('a \<Rightarrow> 'b app_result) \<Rightarrow> unit app_result" where
  "when_some x f = (case x of None \<Rightarrow> Inr () | Some a \<Rightarrow> and_then (f a) (\<lambda>_. Inr ()))"

text \<open>The row the first transaction inserts.\<close>

definition new_entry :: "uuid \<Rightarrow> tenant \<Rightarrow> create_time_entry_request \<Rightarrow> resolved_kind \<Rightarrow> string \<Rightarrow> int
    \<Rightarrow> int \<Rightarrow> decimal option \<times> decimal option \<Rightarrow> uuid option \<Rightarrow> time_entry" where
  "new_entry new_id t r kind category worked billable billing contract_id =
     \<lparr> te_id = new_id, te_tenant = t, te_user = cr_user r, te_date = cr_date r,
       te_start_time = cr_start_time r, te_end_time = cr_end_time r,
       te_duration_minutes = worked, te_worked_minutes = Some worked,
       te_billable_minutes = Some billable, te_work_type = cr_work_type r,
       te_ticket = cr_ticket r, te_project = cr_project r, te_task = cr_task r,
       te_company = cr_company r, te_contract = contract_id, te_notes = cr_notes r,
       te_is_billable = Some (rk_billable kind),
       te_billing_status = resolve_billing_status (rk_billable kind) None,
       te_hourly_rate = map_option num2 (fst billing),
       te_total_amount = map_option num2 (snd billing),
       te_work_category = Some category, te_entry_kind = rk_kind kind,
       te_hours_consumed = None, te_hours_balance = None,
       te_overage_hours = None, te_overage_rate = None,
       te_approval_status = ''draft'', te_approved_by = None, te_approved_at = None,
       te_rejection_reason = None, te_invoice = None \<rparr>"

text \<open>The first transaction: validate, price, check the day cap, insert, audit.\<close>

definition create_entry_tx :: "time_db \<Rightarrow> tenant \<Rightarrow> create_time_entry_request \<Rightarrow> audit_ctx \<Rightarrow> uuid
    \<Rightarrow> time_db app_result" where
  "create_entry_tx db t r ctx new_id =
     and_then (fetch_work_type_defaults db t (cr_work_type r)) (\<lambda>defaults.
     and_then (when_some (cr_company r) (assert_company_in_tenant db t)) (\<lambda>_.
     and_then (when_some (cr_ticket r) (assert_ticket_in_tenant db t)) (\<lambda>_.
     and_then (resolve_entry_kind
        \<lparr> ek_requested = cr_entry_kind r, ek_company_id = cr_company r,
          ek_own_company_id = own_company_id db t, ek_ticket_id = cr_ticket r,
          ek_project_id = cr_project r, ek_task_id = cr_task r, ek_contract_id = None,
          ek_is_billable = cr_is_billable r \<rparr>) (\<lambda>kind.
     and_then (derive_work_category (cr_work_category r) (cr_ticket r) (cr_project r)) (\<lambda>category.
     and_then (compute_minutes (cr_minutes r)) (\<lambda>worked.
       let rounding = default_rounding_rule db t;
           billable = (if rk_billable kind
                       then (case cr_billable_minutes r of Some b \<Rightarrow> b
                             | None \<Rightarrow> derive_billable_minutes worked True rounding)
                       else 0);
           cap = read_max_minutes_per_day db t;
           existing = day_minutes_excluding db t (cr_user r) (cr_date r) None
       in and_then (enforce_day_cap existing worked cap) (\<lambda>_.
       let billing = resolve_billing (cr_hourly_rate r) (rk_billable kind) defaults billable;
           contract_id = block_hours_contract_for db t (cr_company r) (cr_date r)
                           (rk_kind kind) (rk_billable kind);
           e = new_entry new_id t r kind category worked billable billing contract_id
       in if \<not> list_ex (\<lambda>u. us_id u = cr_user r) (users db)
          then Inl (Database ''time_entries_user_id_fkey'')
          else Inr (db\<lparr>time_entries := time_entries db @ [e],
                       audit_log := audit_write (audit_log db) t ctx ACreate ''time_entries''
                                      (Some new_id)\<rparr>))))))))"

definition create_time_entry :: "cal \<Rightarrow> time_db \<Rightarrow> tenant \<Rightarrow> create_time_entry_request \<Rightarrow> audit_ctx
    \<Rightarrow> uuid \<Rightarrow> uuid \<Rightarrow> time_db \<times> time_entry app_result" where
  "create_time_entry C db t r ctx new_id new_balance =
     (case create_entry_tx db t r ctx new_id of
        Inl err \<Rightarrow> (db, Inl err)
      | Inr db1 \<Rightarrow>
          (case consume_for_entry C db1 t new_id new_balance of
             Inl err \<Rightarrow> (db1, Inl err)
           | Inr db2 \<Rightarrow> (db2, get_time_entry db2 t new_id)))"

section \<open>Editing an entry\<close>

record update_time_entry_request =
  ur_date :: "date option"
  ur_start_time :: "int option"
  ur_end_time :: "int option"
  ur_duration_minutes :: "int option"
  ur_worked_minutes :: "int option"
  ur_billable_minutes :: "int option"
  ur_work_type :: "uuid option"
  ur_ticket :: "uuid option"
  ur_project :: "uuid option"
  ur_work_category :: "string option"
  ur_task :: "uuid option"
  ur_notes :: "string option"
  ur_is_billable :: "bool option"
  ur_hourly_rate :: "decimal option"

definition or_else :: "'a option \<Rightarrow> 'a option \<Rightarrow> 'a option" where
  "or_else x y = (case x of Some a \<Rightarrow> Some a | None \<Rightarrow> y)"

definition updated_minutes :: "time_entry \<Rightarrow> update_time_entry_request \<Rightarrow> int app_result" where
  "updated_minutes current r =
     (case ur_worked_minutes r of Some w \<Rightarrow> Inr w
      | None \<Rightarrow> (case ur_duration_minutes r of Some d \<Rightarrow> Inr d
      | None \<Rightarrow> (case (or_else (ur_start_time r) (te_start_time current),
                      or_else (ur_end_time r) (te_end_time current)) of
                  (Some s, Some e) \<Rightarrow>
                    (let m = num_minutes (e - s)
                     in if m < 0 then Inl (BadRequest ''end_time must be after start_time'')
                        else Inr (as_i32 m))
                | _ \<Rightarrow> Inr (opt_or (te_worked_minutes current) (te_duration_minutes current)))))"

text \<open>The SET list of the update.\<close>

definition apply_update :: "update_time_entry_request \<Rightarrow> int option \<Rightarrow> int option \<Rightarrow> int \<Rightarrow> int \<Rightarrow> resolved_kind
    \<Rightarrow> decimal option \<Rightarrow> decimal option \<Rightarrow> string \<Rightarrow> string \<Rightarrow> uuid option \<Rightarrow> time_entry \<Rightarrow> time_entry" where
  "apply_update r start end_t worked billable kind hourly_rate total_amount category status contract_id e =
     e\<lparr>te_date := opt_or (ur_date r) (te_date e),
       te_start_time := start, te_end_time := end_t,
       te_duration_minutes := worked, te_worked_minutes := Some worked,
       te_billable_minutes := Some billable,
       te_work_type := opt_or (ur_work_type r) (te_work_type e),
       te_ticket := ur_ticket r, te_project := ur_project r,
       te_notes := or_else (ur_notes r) (te_notes e),
       te_is_billable := Some (rk_billable kind),
       te_hourly_rate := map_option num2 hourly_rate,
       te_total_amount := map_option num2 total_amount,
       te_task := or_else (ur_task r) (te_task e),
       te_work_category := Some category,
       te_billing_status := status,
       te_contract := contract_id\<rparr>"

text \<open>The update transaction, on the entry as it was read before it.\<close>

definition update_entry_tx :: "time_db \<Rightarrow> tenant \<Rightarrow> time_entry \<Rightarrow> update_time_entry_request
    \<Rightarrow> time_db app_result" where
  "update_entry_tx db t current r =
     (let start = or_else (ur_start_time r) (te_start_time current);
          end_t = or_else (ur_end_time r) (te_end_time current);
          is_billable = opt_or (ur_is_billable r) (opt_or (te_is_billable current) True) in
      and_then (updated_minutes current r) (\<lambda>worked.
      let hourly_rate = or_else (ur_hourly_rate r) (te_hourly_rate current) in
      and_then (when_some (ur_ticket r) (assert_ticket_in_tenant db t)) (\<lambda>_.
      and_then (derive_work_category (ur_work_category r) (ur_ticket r) (ur_project r)) (\<lambda>category.
      and_then (resolve_entry_kind
        \<lparr> ek_requested = Some (te_entry_kind current), ek_company_id = te_company current,
          ek_own_company_id = None, ek_ticket_id = ur_ticket r, ek_project_id = ur_project r,
          ek_task_id = ur_task r, ek_contract_id = None, ek_is_billable = is_billable \<rparr>) (\<lambda>kind.
      let billable = (if \<not> rk_billable kind then 0
                      else case or_else (ur_billable_minutes r) (te_billable_minutes current) of
                        Some b \<Rightarrow> b
                      | None \<Rightarrow> derive_billable_minutes worked True (default_rounding_rule db t));
          total = (if rk_billable kind
                   then map_option (\<lambda>x. x * of_int billable / 60) hourly_rate else None);
          target = opt_or (ur_date r) (te_date current);
          cap = read_max_minutes_per_day db t;
          existing = day_minutes_excluding db t (te_user current) target (Some (te_id current)) in
      and_then (enforce_day_cap existing worked cap) (\<lambda>_.
      let contract_id = block_hours_contract_for db t (te_company current) target
                          (rk_kind kind) (rk_billable kind);
          status = resolve_billing_status (rk_billable kind)
            (Some (case billing_status_from_str (te_billing_status current) of
                     None \<Rightarrow> NotBilled | Some s \<Rightarrow> s)) in
      if ur_work_type r \<noteq> None \<and> \<not> list_ex (\<lambda>w. ur_work_type r = Some (wt_id w)) (work_types db)
      then Inl (Database ''time_entries_work_type_id_fkey'')
      else if \<not> list_ex (entry_key t (te_id current)) (time_entries db)
      then Inl (NotFound ''Time entry'')
      else Inr (db\<lparr>time_entries :=
        update_where (entry_key t (te_id current))
          (apply_update r start end_t worked billable kind hourly_rate total category status contract_id)
          (time_entries db)\<rparr>)))))))"

definition update_time_entry :: "cal \<Rightarrow> time_db \<Rightarrow> tenant \<Rightarrow> uuid \<Rightarrow> update_time_entry_request
    \<Rightarrow> uuid \<Rightarrow> time_db \<times> time_entry app_result" where
  "update_time_entry C db t i r new_balance =
     (case get_time_entry db t i of
        Inl err \<Rightarrow> (db, Inl err)
      | Inr current \<Rightarrow>
     (case update_entry_tx db t current r of
        Inl err \<Rightarrow> (db, Inl err)
      | Inr db1 \<Rightarrow>
     (case release_for_entry db1 t i of
        Inl err \<Rightarrow> (db1, Inl err)
      | Inr db2 \<Rightarrow>
     (case consume_for_entry C db2 t i new_balance of
        Inl err \<Rightarrow> (db2, Inl err)
      | Inr db3 \<Rightarrow> (db3, get_time_entry db3 t i)))))"

section \<open>Deleting an entry\<close>

definition delete_entry_tx :: "time_db \<Rightarrow> tenant \<Rightarrow> uuid \<Rightarrow> time_db app_result" where
  "delete_entry_tx db t i =
     (if \<not> list_ex (entry_key t i) (time_entries db) then Inl (NotFound ''Time entry'')
      else Inr (db\<lparr>time_entries := delete_where (entry_key t i) (time_entries db)\<rparr>))"

definition delete_time_entry :: "time_db \<Rightarrow> tenant \<Rightarrow> uuid \<Rightarrow> time_db \<times> unit app_result" where
  "delete_time_entry db t i =
     (case release_for_entry db t i of
        Inl err \<Rightarrow> (db, Inl err)
      | Inr db1 \<Rightarrow>
          (case delete_entry_tx db1 t i of
             Inl err \<Rightarrow> (db1, Inl err)
           | Inr db2 \<Rightarrow> (db2, Inr ())))"

section \<open>Timers\<close>

record start_timer_request =
  sr_ticket :: "uuid option"
  sr_project :: "uuid option"
  sr_company :: "uuid option"
  sr_work_type :: "uuid option"
  sr_notes :: "string option"

definition start_timer :: "time_db \<Rightarrow> tenant \<Rightarrow> uuid \<Rightarrow> start_timer_request \<Rightarrow> instant \<Rightarrow> uuid
    \<Rightarrow> (time_db \<times> active_timer) app_result" where
  "start_timer db t user r now new_id =
     (if list_ex (\<lambda>x. at_tenant x = t \<and> at_user x = user) (active_timers db)
      then Inl (Conflict ''User already has an active timer; stop it first'')
      else
      and_then (when_some (sr_ticket r) (assert_ticket_in_tenant db t)) (\<lambda>_.
      and_then (when_some (sr_company r) (assert_company_in_tenant db t)) (\<lambda>_.
      and_then (when_some (sr_work_type r) (fetch_work_type_defaults db t)) (\<lambda>_.
      if list_ex (\<lambda>x. at_user x = user) (active_timers db)
      then Inl (Conflict ''User already has an active timer; stop it first'')
      else if \<not> list_ex (\<lambda>u. us_id u = user) (users db)
      then Inl (Database ''active_timers_user_id_fkey'')
      else
        let x = \<lparr> at_id = new_id, at_tenant = t, at_user = user, at_ticket = sr_ticket r,
                  at_project = sr_project r, at_company = sr_company r,
                  at_work_type = sr_work_type r, at_notes = sr_notes r, at_started_at = now \<rparr>
        in Inr (db\<lparr>active_timers := active_timers db @ [x]\<rparr>, x)))))"

text \<open>\<open>ORDER BY sort_order LIMIT 1\<close>, with a NULL order last.\<close>

definition first_active_work_type :: "time_db \<Rightarrow> tenant \<Rightarrow> uuid option" where
  "first_active_work_type db t =
     (let ws = [w \<leftarrow> work_types db. wt_tenant w = t \<and> wt_is_active w = Some True]
      in case sort_key (\<lambda>w. opt_or (wt_sort_order w) 0) [w \<leftarrow> ws. wt_sort_order w \<noteq> None]
                @ [w \<leftarrow> ws. wt_sort_order w = None] of
           [] \<Rightarrow> None
         | w # _ \<Rightarrow> Some (wt_id w))"

definition timer_company :: "time_db \<Rightarrow> tenant \<Rightarrow> active_timer \<Rightarrow> uuid option" where
  "timer_company db t x =
     (case at_company x of
        Some c \<Rightarrow> Some c
      | None \<Rightarrow> (case at_ticket x of
                   None \<Rightarrow> None
                 | Some i \<Rightarrow> map_option tk_company
                     (select_one (\<lambda>r. tk_tenant r = t \<and> tk_id r = i) (tickets db))))"

text \<open>
  The row a stopped timer becomes. The insert names neither the worked nor the billable
  minutes, nor the category, which takes its column default \<open>ticketed\<close>.
\<close>

definition timer_entry :: "uuid \<Rightarrow> tenant \<Rightarrow> active_timer \<Rightarrow> date \<Rightarrow> instant \<Rightarrow> int \<Rightarrow> uuid \<Rightarrow> uuid option
    \<Rightarrow> resolved_kind \<Rightarrow> decimal option \<times> decimal option \<Rightarrow> uuid option \<Rightarrow> time_entry" where
  "timer_entry entry_id t x today now duration w company kind billing contract_id =
     \<lparr> te_id = entry_id, te_tenant = t, te_user = at_user x, te_date = today,
       te_start_time = Some (at_started_at x mod 86400), te_end_time = Some (now mod 86400),
       te_duration_minutes = duration, te_worked_minutes = None, te_billable_minutes = None,
       te_work_type = w, te_ticket = at_ticket x, te_project = at_project x, te_task = None,
       te_company = company, te_contract = contract_id, te_notes = at_notes x,
       te_is_billable = Some (rk_billable kind),
       te_billing_status = resolve_billing_status (rk_billable kind) None,
       te_hourly_rate = map_option num2 (fst billing),
       te_total_amount = map_option num2 (snd billing),
       te_work_category = Some ''ticketed'', te_entry_kind = rk_kind kind,
       te_hours_consumed = None, te_hours_balance = None,
       te_overage_hours = None, te_overage_rate = None,
       te_approval_status = ''draft'', te_approved_by = None, te_approved_at = None,
       te_rejection_reason = None, te_invoice = None \<rparr>"

text \<open>
  \<open>user_today\<close> (crates/mokosh-types) resolves an IANA zone name through the zone database, so
  the day a zone name gives for an instant is a parameter.
\<close>

definition stop_timer_tx :: "(instant \<Rightarrow> string \<Rightarrow> date) \<Rightarrow> time_db \<Rightarrow> tenant \<Rightarrow> uuid \<Rightarrow> uuid
    \<Rightarrow> instant \<Rightarrow> uuid \<Rightarrow> time_db app_result" where
  "stop_timer_tx user_today db t timer_id user now entry_id =
     (case select_one (\<lambda>x. at_tenant x = t \<and> at_id x = timer_id \<and> at_user x = user)
             (active_timers db) of
        None \<Rightarrow> Inl (NotFound ''Active timer'')
      | Some x \<Rightarrow>
          let raw = as_i32 (max (num_minutes (now - at_started_at x)) 1);
              tz = (case select_one (\<lambda>u. us_id u = at_user x \<and> us_tenant u = t) (users db) of
                      None \<Rightarrow> ''UTC'' | Some u \<Rightarrow> us_timezone u);
              today = user_today now tz in
          (case or_else (at_work_type x) (first_active_work_type db t) of
            None \<Rightarrow> Inl (Configuration
                      ''Cannot stop timer: tenant has no active work_types and timer set none'')
          | Some w \<Rightarrow>
              let company = timer_company db t x in
              and_then (fetch_work_type_defaults db t w) (\<lambda>defaults.
              and_then (resolve_entry_kind
                \<lparr> ek_requested = None, ek_company_id = company,
                  ek_own_company_id = own_company_id db t, ek_ticket_id = at_ticket x,
                  ek_project_id = at_project x, ek_task_id = None, ek_contract_id = None,
                  ek_is_billable = wtd_default_billable defaults \<rparr>) (\<lambda>kind.
              let duration = (case default_rounding_rule db t of
                                Some rule \<Rightarrow> apply_rounding raw rule | None \<Rightarrow> raw);
                  billing = resolve_billing None (rk_billable kind) defaults duration;
                  contract_id = block_hours_contract_for db t company today
                                  (rk_kind kind) (rk_billable kind);
                  e = timer_entry entry_id t x today now duration w company kind billing contract_id
              in Inr (db\<lparr>time_entries := time_entries db @ [e],
                         active_timers := delete_where (\<lambda>y. at_id y = timer_id)
                                            (active_timers db)\<rparr>)))))"

definition stop_timer :: "cal \<Rightarrow> (instant \<Rightarrow> string \<Rightarrow> date) \<Rightarrow> time_db \<Rightarrow> tenant \<Rightarrow> uuid \<Rightarrow> uuid
    \<Rightarrow> instant \<Rightarrow> uuid \<Rightarrow> uuid \<Rightarrow> time_db \<times> time_entry app_result" where
  "stop_timer C user_today db t timer_id user now entry_id new_balance =
     (case stop_timer_tx user_today db t timer_id user now entry_id of
        Inl err \<Rightarrow> (db, Inl err)
      | Inr db1 \<Rightarrow>
          (case consume_for_entry C db1 t entry_id new_balance of
             Inl err \<Rightarrow> (db1, Inl err)
           | Inr db2 \<Rightarrow> (db2, get_time_entry db2 t entry_id)))"

section \<open>What an invoice charges for an entry\<close>

text \<open>
  The eligibility condition and the line figures (quantity, unit price, total) of
  \<open>create_invoice_from_time_entries\<close> (src/src/modules/billing/service.rs) for one entry that is
  on no invoice yet.
\<close>

definition invoice_eligible :: "tenant \<Rightarrow> uuid \<Rightarrow> time_entry \<Rightarrow> bool" where
  "invoice_eligible t company e \<longleftrightarrow>
     te_tenant e = t \<and> te_company e = Some company \<and> te_entry_kind e = ''client''
     \<and> te_is_billable e = Some True \<and> te_invoice e = None
     \<and> te_billing_status e = ''ready_to_bill''"

definition invoice_line_figures :: "time_entry \<Rightarrow> decimal \<times> decimal \<times> decimal" where
  "invoice_line_figures e =
     (if opt_or (te_overage_hours e) 0 > 0 then
        (let over = opt_or (te_overage_hours e) 0;
             unit_price = opt_or (or_else (te_overage_rate e) (te_hourly_rate e)) 0
         in (over, unit_price, over * unit_price))
      else
        (let quantity = of_int (te_duration_minutes e) / 60;
             unit_price = opt_or (te_hourly_rate e) 0
         in (quantity, unit_price, opt_or (te_total_amount e) (quantity * unit_price))))"

end
