(* ===== verification/Pagination.thy ===== *)
theory Pagination
  imports Mokosh_Prelude "HOL-Library.Word"
begin

text \<open>
  Paging and sorting of every list endpoint (src/src/utils/pagination.rs). Page numbers and
  page sizes are \<open>u32\<close>; the offset is a product of two of them and wraps. The theory shows
  that the pages of a listing partition its rows as long as the product fits, that the product
  does wrap, that the sort clause is assembled from the allow-list only, and that the page count
  is the least number of pages that holds every row.
\<close>

section \<open>Parameters\<close>

record pagination_params =
  pg_page :: "32 word"
  pg_per_page :: "32 word"
  pg_sort :: "string option"
  pg_sort_dir :: string

text \<open>The derived \<open>Default\<close>, which does not go through the serde defaults.\<close>

definition pagination_default :: pagination_params where
  "pagination_default = \<lparr> pg_page = 0, pg_per_page = 0, pg_sort = None, pg_sort_dir = '''' \<rparr>"

definition default_page :: "32 word" where "default_page = 1"
definition default_per_page :: "32 word" where "default_per_page = 25"
definition default_sort_dir :: string where "default_sort_dir = ''desc''"
definition MAX_PER_PAGE :: "32 word" where "MAX_PER_PAGE = 100"

definition deserialize_per_page :: "32 word \<Rightarrow> string + 32 word" where
  "deserialize_per_page v =
     (if v > MAX_PER_PAGE then Inl ''per_page exceeds the maximum of 100'' else Inr v)"

definition per_page :: "pagination_params \<Rightarrow> 32 word" where
  "per_page p = max 1 (min MAX_PER_PAGE (pg_per_page p))"

definition page_offset :: "pagination_params \<Rightarrow> 32 word" where
  "page_offset p = (if pg_page p = 0 then 0 else pg_page p - 1) * per_page p"

definition page_limit :: "pagination_params \<Rightarrow> 32 word" where
  "page_limit p = per_page p"

text \<open>\<open>to_lowercase\<close> on ASCII text.\<close>

definition lower_char :: "char \<Rightarrow> char" where
  "lower_char c = (let n = (of_char c :: nat) in if 65 \<le> n \<and> n \<le> 90 then char_of (n + 32) else c)"

definition to_lowercase :: "string \<Rightarrow> string" where
  "to_lowercase s = map lower_char s"

definition is_ascending :: "pagination_params \<Rightarrow> bool" where
  "is_ascending p \<longleftrightarrow> to_lowercase (pg_sort_dir p) = ''asc''"

definition direction :: "pagination_params \<Rightarrow> string app_result" where
  "direction p =
     (let d = to_lowercase (pg_sort_dir p) in
      if d = ''asc'' then Inr ''ASC''
      else if d = '''' \<or> d = ''desc'' then Inr ''DESC''
      else Inl (Validation ''sort_dir''))"

definition reject_over_cap_per_page :: "pagination_params \<Rightarrow> unit app_result" where
  "reject_over_cap_per_page p =
     (if pg_per_page p > MAX_PER_PAGE then Inl (Validation ''per_page'') else Inr ())"

definition unknown_sort :: app_error where
  "unknown_sort = Validation ''sort''"

definition is_white :: "char \<Rightarrow> bool" where
  "is_white c \<longleftrightarrow> c \<in> {CHR '' '', CHR 0x09, CHR 0x0A, CHR 0x0B, CHR 0x0C, CHR 0x0D}"

text \<open>\<open>split_whitespace().next()\<close>: the first run of non-blank characters, if there is one.\<close>

definition first_token :: "string \<Rightarrow> string option" where
  "first_token s =
     (let w = takeWhile (\<lambda>c. \<not> is_white c) (dropWhile is_white s)
      in if w = [] then None else Some w)"

definition order_by :: "pagination_params \<Rightarrow> string \<Rightarrow> string list \<Rightarrow> string app_result" where
  "order_by p default_field allowed =
     and_then (reject_over_cap_per_page p) (\<lambda>_.
       let default_field = (case first_token default_field of None \<Rightarrow> default_field | Some w \<Rightarrow> w) in
       and_then
         (case pg_sort p of
            Some requested \<Rightarrow> if requested \<notin> set allowed then Inl unknown_sort else Inr requested
          | None \<Rightarrow> Inr default_field)
         (\<lambda>field. and_then (direction p) (\<lambda>d. Inr (field @ '' '' @ d))))"

definition order_by_mapped :: "pagination_params \<Rightarrow> string \<Rightarrow> (string \<times> string) list
    \<Rightarrow> string app_result" where
  "order_by_mapped p default_sql allowed =
     and_then (reject_over_cap_per_page p) (\<lambda>_.
       and_then
         (case pg_sort p of
            Some requested \<Rightarrow>
              (case find (\<lambda>kv. fst kv = requested) allowed of
                 Some kv \<Rightarrow> Inr (snd kv) | None \<Rightarrow> Inl unknown_sort)
          | None \<Rightarrow> Inr default_sql)
         (\<lambda>sql. and_then (direction p) (\<lambda>d. Inr (sql @ '' '' @ d))))"

definition reject_unsupported_sort :: "pagination_params \<Rightarrow> unit app_result" where
  "reject_unsupported_sort p =
     and_then (reject_over_cap_per_page p) (\<lambda>_.
       case pg_sort p of Some _ \<Rightarrow> Inl unknown_sort | None \<Rightarrow> Inr ())"

section \<open>The response\<close>

record pagination_meta =
  pm_page :: "32 word"
  pm_per_page :: "32 word"
  pm_total :: nat
  pm_total_pages :: "32 word"
  pm_has_next :: bool
  pm_has_prev :: bool

text \<open>
  The page count goes through \<open>f64\<close>; the quotient is exact enough to be rounded up
  correctly for every total below 2^45, and the cast to \<open>u32\<close> saturates.
\<close>

definition ceil_div :: "nat \<Rightarrow> nat \<Rightarrow> nat" where
  "ceil_div a b = (a + b - 1) div b"

definition paginated_meta :: "32 word \<Rightarrow> 32 word \<Rightarrow> nat \<Rightarrow> pagination_meta" where
  "paginated_meta page size_per_page n_total =
     (let pp = max size_per_page 1;
          total_pages = of_nat (min (2 ^ 32 - 1) (ceil_div n_total (unat pp)))
      in \<lparr> pm_page = page, pm_per_page = pp, pm_total = n_total, pm_total_pages = total_pages,
           pm_has_next = (page < total_pages), pm_has_prev = (page > 1) \<rparr>)"

definition from_params :: "'a list \<Rightarrow> pagination_params \<Rightarrow> nat \<Rightarrow> 'a list \<times> pagination_meta" where
  "from_params rows p n_total = (rows, paginated_meta (pg_page p) (per_page p) n_total)"

text \<open>The rows a LIMIT/OFFSET query returns for the parameters.\<close>

definition page_rows :: "pagination_params \<Rightarrow> 'a list \<Rightarrow> 'a list" where
  "page_rows p rows = take (unat (page_limit p)) (drop (unat (page_offset p)) rows)"

section \<open>Properties\<close>

lemma per_page_bounds: "1 \<le> unat (per_page p)" "unat (per_page p) \<le> 100"
proof -
  have "1 \<le> per_page p" "per_page p \<le> 100"
    by (auto simp: per_page_def MAX_PER_PAGE_def)
  then show "1 \<le> unat (per_page p)" "unat (per_page p) \<le> 100"
    by (simp_all add: word_le_nat_alt)
qed

lemma page_offset_exact:
  assumes "(unat (pg_page p) - 1) * unat (per_page p) < 2 ^ 32"
  shows "unat (page_offset p) = (unat (pg_page p) - 1) * unat (per_page p)"
proof (cases "pg_page p = 0")
  case False
  then have "1 \<le> pg_page p" by (simp add: word_le_nat_alt word_gt_0 Suc_le_eq unat_gt_0)
  then have "unat (pg_page p - 1) = unat (pg_page p) - 1" by (simp add: unat_sub)
  with False assms show ?thesis by (simp add: page_offset_def unat_word_ariths)
qed (simp add: page_offset_def)

lemma take_drop_windows:
  "concat (map (\<lambda>k. take n (drop (k * n) rows)) [0..<m]) = take (m * n) rows"
proof (induction m)
  case (Suc m)
  have "take (n + m * n) rows = take (m * n) rows @ take n (drop (m * n) rows)"
    by (subst add.commute) (rule take_add)
  with Suc show ?case by simp
qed simp

lemma ceil_div_covers:
  assumes "0 < b" shows "a \<le> ceil_div a b * b"
  using assms div_mult_mod_eq [of "a + b - 1" b] mod_less_divisor [OF assms, of "a + b - 1"]
  unfolding ceil_div_def by linarith

lemma ceil_div_least:
  assumes "0 < b" and "a \<le> k * b" shows "ceil_div a b \<le> k"
proof -
  have "a + b - 1 < Suc k * b" using assms by simp
  then have "(a + b - 1) div b < Suc k" by (rule less_mult_imp_div_less)
  then show ?thesis by (simp add: ceil_div_def)
qed

text \<open>
  The pages of a listing partition it: reading pages 1 to n one after the other with the
  same page size, n being the reported page count, gives back the rows of the listing in order
  and each exactly once, and no smaller number of pages holds them all, as long as the last
  offset fits in 32 bits.
\<close>

theorem pages_partition_rows:
  assumes "n = ceil_div (length rows) (unat (per_page p))"
    and "n * unat (per_page p) < 2 ^ 32" and "n < 2 ^ 32 - 1"
  shows "concat (map (\<lambda>k. page_rows (p\<lparr>pg_page := of_nat (Suc k)\<rparr>) rows) [0..<n]) = rows
    \<and> pm_total_pages (snd (from_params rows p (length rows))) = of_nat n
    \<and> (\<forall>m. length rows \<le> m * unat (per_page p) \<longrightarrow> n \<le> m)"
proof -
  let ?pp = "unat (per_page p)"
  have pp: "per_page (p\<lparr>pg_page := w\<rparr>) = per_page p" for w by (simp add: per_page_def)
  have page: "page_rows (p\<lparr>pg_page := of_nat (Suc k)\<rparr>) rows = take ?pp (drop (k * ?pp) rows)"
    if "k < n" for k
  proof -
    have k: "unat (of_nat (Suc k) :: 32 word) = Suc k"
      using that assms(3) by (simp only: unat_of_nat) (simp add: take_bit_nat_eq_self)
    have "k * ?pp \<le> n * ?pp" using that by simp
    with assms(2) have "k * ?pp < 2 ^ 32" by (rule le_less_trans [rotated])
    with k have "unat (page_offset (p\<lparr>pg_page := of_nat (Suc k)\<rparr>)) = k * ?pp"
      using page_offset_exact [of "p\<lparr>pg_page := of_nat (Suc k)\<rparr>"] by (simp add: pp)
    then show ?thesis by (simp add: page_rows_def page_limit_def pp)
  qed
  have "concat (map (\<lambda>k. page_rows (p\<lparr>pg_page := of_nat (Suc k)\<rparr>) rows) [0..<n])
        = concat (map (\<lambda>k. take ?pp (drop (k * ?pp) rows)) [0..<n])"
    using page by (intro arg_cong [where f = concat] map_cong) auto
  also have "\<dots> = take (n * ?pp) rows" by (rule take_drop_windows)
  also have "\<dots> = rows"
    using ceil_div_covers [of ?pp "length rows"] per_page_bounds(1) [of p] assms(1) by simp
  finally have "concat (map (\<lambda>k. page_rows (p\<lparr>pg_page := of_nat (Suc k)\<rparr>) rows) [0..<n]) = rows" .
  moreover have "max (per_page p) 1 = per_page p" by (simp add: per_page_def)
  then have "pm_total_pages (snd (from_params rows p (length rows))) = of_nat n"
    using assms by (simp add: from_params_def paginated_meta_def Let_def min_def)
  moreover have "n \<le> m" if "length rows \<le> m * ?pp" for m
    using ceil_div_least [OF _ that] per_page_bounds(1) [of p] assms(1) by simp
  ultimately show ?thesis by blast
qed

theorem pages_partition_rows_witness:
  "concat (map (\<lambda>k. page_rows \<lparr> pg_page = of_nat (Suc k), pg_per_page = 2, pg_sort = None, pg_sort_dir = '''' \<rparr>
      ''abcde'') [0..<3]) = ''abcde''"
proof -
  let ?p = "\<lparr> pg_page = 0, pg_per_page = 2, pg_sort = None, pg_sort_dir = '''' \<rparr>"
  have "unat (per_page ?p) = 2" by code_simp
  then have h: "3 = ceil_div (length ''abcde'') (unat (per_page ?p))"
    "3 * unat (per_page ?p) < 2 ^ 32" "(3::nat) < 2 ^ 32 - 1"
    by (simp_all add: ceil_div_def)
  show ?thesis using conjunct1 [OF pages_partition_rows [OF h]] by simp
qed

text \<open>
  The offset is a 32-bit product and wraps: page 42949674 with 100 rows a page starts at
  row 4, inside the first page.
\<close>

theorem page_offset_wraps:
  "page_offset \<lparr> pg_page = 42949674, pg_per_page = 100, pg_sort = None, pg_sort_dir = '''' \<rparr> = 4"
  by code_simp

text \<open>
  A sort clause that is accepted consists of an allow-listed column, or the handler's own
  default, followed by a direction; nothing else of the request reaches the SQL.
\<close>

theorem order_by_only_allowed:
  assumes "order_by p default_field allowed = Inr clause"
  shows "\<exists>field d. clause = field @ '' '' @ d \<and> d \<in> {''ASC'', ''DESC''}
    \<and> (field \<in> set allowed \<and> pg_sort p = Some field
       \<or> pg_sort p = None \<and> field = (case first_token default_field of None \<Rightarrow> default_field | Some w \<Rightarrow> w))
    \<and> pg_per_page p \<le> MAX_PER_PAGE"
proof -
  from assms obtain field d where f:
    "reject_over_cap_per_page p = Inr ()"
    "(case pg_sort p of
            Some requested \<Rightarrow> if requested \<notin> set allowed then Inl unknown_sort else Inr requested
          | None \<Rightarrow> Inr (case first_token default_field of None \<Rightarrow> default_field | Some w \<Rightarrow> w)) = Inr field"
    "direction p = Inr d" "clause = field @ '' '' @ d"
    unfolding order_by_def Let_def by (elim and_then_InrE) auto
  from f(3) have "d \<in> {''ASC'', ''DESC''}" by (auto simp: direction_def Let_def split: if_splits)
  moreover from f(1) have "pg_per_page p \<le> MAX_PER_PAGE"
    by (auto simp: reject_over_cap_per_page_def split: if_splits)
  moreover from f(2) have "field \<in> set allowed \<and> pg_sort p = Some field
       \<or> pg_sort p = None \<and> field = (case first_token default_field of None \<Rightarrow> default_field | Some w \<Rightarrow> w)"
    by (cases "pg_sort p") (auto split: if_splits)
  ultimately show ?thesis using f(4) by blast
qed

theorem order_by_only_allowed_witness:
  "order_by \<lparr> pg_page = 1, pg_per_page = 25, pg_sort = Some ''name'', pg_sort_dir = ''Asc'' \<rparr>
     ''created_at DESC'' [''name''] = Inr ''name ASC''
   \<and> (\<exists>field d. ''name ASC'' = field @ '' '' @ d \<and> d \<in> {''ASC'', ''DESC''})"
proof -
  have h: "order_by \<lparr> pg_page = 1, pg_per_page = 25, pg_sort = Some ''name'', pg_sort_dir = ''Asc'' \<rparr>
     ''created_at DESC'' [''name''] = Inr ''name ASC''" by code_simp
  show ?thesis using h order_by_only_allowed [OF h] by blast
qed

end
