(* ===== verification/Timesheets.thy ===== *)
theory Timesheets
  imports Time_Entries Pagination
begin

text \<open>
  Weekly timesheets (src/src/modules/time_tracking/service.rs): the roll-up of the entries of a
  user and week, and the submit, withdraw, approve and reject transitions over them. The theory
  shows that an approved entry is final for all four, that the roll-up counts every entry
  exactly once, and what each transition leaves behind.
\<close>

section \<open>The roll-up\<close>

record timesheet_filter =
  tf_user :: "uuid option"
  tf_week :: "date option"
  tf_status :: "string option"
  tf_from :: "date option"
  tf_to :: "date option"

record timesheet_summary =
  ts_user :: uuid
  ts_week_start :: date
  ts_total_minutes :: int
  ts_billable_minutes :: int
  ts_entry_count :: nat
  ts_approval_status :: string
  ts_decided_at :: "instant option"
  ts_decided_by :: "uuid option"
  ts_rejection_reason :: "string option"

definition timesheet_status_filter :: "string option \<Rightarrow> string option app_result" where
  "timesheet_status_filter s =
     (case map_option trim s of
        None \<Rightarrow> Inr None
      | Some x \<Rightarrow>
          if x \<in> {'''', ''all''} then Inr None
          else if x \<in> {''pending'', ''approved'', ''rejected''} then Inr (Some x)
          else Inl (BadRequest ''Unknown timesheet status filter''))"

definition MAX_RANGE_WEEKS :: int where "MAX_RANGE_WEEKS = 26"

definition timesheet_date_span :: "timesheet_filter \<Rightarrow> (date \<times> date) option app_result" where
  "timesheet_date_span f =
     (case tf_from f of
        None \<Rightarrow> Inr None
      | Some from_anchor \<Rightarrow>
          let from_d = monday_anchor from_anchor;
              to_d = monday_anchor (opt_or (tf_to f) from_anchor)
          in if to_d < from_d then Inl (BadRequest ''`to` must be on or after `from`'')
             else let span_weeks = trunc_div (to_d - from_d) 7 + 1
                  in if span_weeks > MAX_RANGE_WEEKS
                     then Inl (BadRequest ''Timesheet range capped at 26 weeks'')
                     else Inr (Some (from_d, to_d)))"

definition timesheet_where :: "tenant \<Rightarrow> timesheet_filter \<Rightarrow> (date \<times> date) option \<Rightarrow> time_entry \<Rightarrow> bool" where
  "timesheet_where t f spn e \<longleftrightarrow>
     te_tenant e = t
     \<and> (case tf_user f of None \<Rightarrow> True | Some u \<Rightarrow> te_user e = u)
     \<and> (case spn of
          Some (from_d, to_d) \<Rightarrow> from_d \<le> te_date e \<and> te_date e < to_d + 7
        | None \<Rightarrow> (case tf_week f of
            None \<Rightarrow> True
          | Some w \<Rightarrow> monday_anchor w \<le> te_date e \<and> te_date e < monday_anchor w + 7))"

definition rolled_status :: "time_entry list \<Rightarrow> string" where
  "rolled_status es =
     (if list_ex (\<lambda>e. te_approval_status e = ''rejected'') es then ''rejected''
      else if list_all (\<lambda>e. te_approval_status e = ''approved'') es then ''approved''
      else if list_ex (\<lambda>e. te_approval_status e = ''pending'') es then ''pending''
      else ''draft'')"

definition worked_or_duration :: "time_entry \<Rightarrow> int" where
  "worked_or_duration e = opt_or (te_worked_minutes e) (te_duration_minutes e)"

definition billed_minutes :: "time_entry \<Rightarrow> int" where
  "billed_minutes e =
     opt_or (te_billable_minutes e) (if te_is_billable e = Some True then worked_or_duration e else 0)"

definition somes :: "'a option list \<Rightarrow> 'a list" where
  "somes xs = concat (map (\<lambda>x. case x of None \<Rightarrow> [] | Some a \<Rightarrow> [a]) xs)"

definition head_opt :: "'a list \<Rightarrow> 'a option" where
  "head_opt xs = (case xs of [] \<Rightarrow> None | x # _ \<Rightarrow> Some x)"

definition max_opt :: "int list \<Rightarrow> int option" where
  "max_opt xs = (case xs of [] \<Rightarrow> None | x # ys \<Rightarrow> Some (fold max ys x))"

definition summarise :: "uuid \<times> date \<Rightarrow> time_entry list \<Rightarrow> timesheet_summary" where
  "summarise g es = \<lparr>
     ts_user = fst g, ts_week_start = snd g,
     ts_total_minutes = sum_list (map worked_or_duration es),
     ts_billable_minutes = sum_list (map billed_minutes es),
     ts_entry_count = length es,
     ts_approval_status = rolled_status es,
     ts_decided_at = max_opt (somes (map te_approved_at es)),
     ts_decided_by = head_opt (somes (map te_approved_by es)),
     ts_rejection_reason = head_opt (filter (\<lambda>s. s \<noteq> []) (somes (map te_rejection_reason es))) \<rparr>"

definition week_group :: "time_entry \<Rightarrow> uuid \<times> date" where
  "week_group e = (te_user e, monday_anchor (te_date e))"

text \<open>\<open>ORDER BY week_start DESC, user_id\<close> as two stable sorts of the groups.\<close>

definition timesheet_rows :: "time_entry list \<Rightarrow> string option \<Rightarrow> timesheet_summary list" where
  "timesheet_rows es status =
     filter (\<lambda>s. case status of None \<Rightarrow> True | Some x \<Rightarrow> ts_approval_status s = x)
       (map (\<lambda>g. summarise g (filter (\<lambda>e. week_group e = g) es))
          (sort_key (\<lambda>g. - snd g) (sort_key fst (remdups (map week_group es)))))"

definition list_timesheets :: "time_db \<Rightarrow> tenant \<Rightarrow> timesheet_filter \<Rightarrow> pagination_params
    \<Rightarrow> (timesheet_summary list \<times> nat) app_result" where
  "list_timesheets db t f p =
     and_then (timesheet_status_filter (tf_status f)) (\<lambda>status.
     and_then (timesheet_date_span f) (\<lambda>spn.
       let rows = timesheet_rows (filter (timesheet_where t f spn) (time_entries db)) status
       in Inr (page_rows p rows, length rows)))"

definition week_summary :: "time_db \<Rightarrow> tenant \<Rightarrow> uuid \<Rightarrow> date \<Rightarrow> timesheet_summary app_result" where
  "week_summary db t u anchor =
     and_then (list_timesheets db t \<lparr> tf_user = Some u, tf_week = Some anchor, tf_status = None,
                 tf_from = None, tf_to = None \<rparr> pagination_default)
       (\<lambda>(summaries, _).
          Inr (case find (\<lambda>s. ts_user s = u \<and> ts_week_start s = anchor) summaries of
                 Some s \<Rightarrow> s
               | None \<Rightarrow> \<lparr> ts_user = u, ts_week_start = anchor, ts_total_minutes = 0,
                           ts_billable_minutes = 0, ts_entry_count = 0,
                           ts_approval_status = ''draft'', ts_decided_at = None,
                           ts_decided_by = None, ts_rejection_reason = None \<rparr>))"

section \<open>The transitions\<close>

definition in_week :: "tenant \<Rightarrow> uuid \<Rightarrow> date \<Rightarrow> time_entry \<Rightarrow> bool" where
  "in_week t u anchor e \<longleftrightarrow>
     te_tenant e = t \<and> te_user e = u \<and> anchor \<le> te_date e \<and> te_date e < anchor + 7"

definition submit_timesheet :: "time_db \<Rightarrow> tenant \<Rightarrow> uuid \<Rightarrow> date
    \<Rightarrow> time_db \<times> timesheet_summary app_result" where
  "submit_timesheet db t u week_start =
     (let anchor = monday_anchor week_start;
          db' = db\<lparr>time_entries := update_where
                  (\<lambda>e. in_week t u anchor e \<and> te_approval_status e \<noteq> ''approved'')
                  (\<lambda>e. e\<lparr>te_approval_status := ''pending''\<rparr>) (time_entries db)\<rparr>
      in (db', week_summary db' t u anchor))"

definition withdraw_timesheet :: "time_db \<Rightarrow> tenant \<Rightarrow> uuid \<Rightarrow> date
    \<Rightarrow> time_db \<times> timesheet_summary app_result" where
  "withdraw_timesheet db t u week_start =
     (let anchor = monday_anchor week_start in
      if list_ex (\<lambda>e. in_week t u anchor e \<and> te_approval_status e = ''approved'') (time_entries db)
      then (db, Inl (Conflict ''Cannot withdraw an approved timesheet''))
      else let db' = db\<lparr>time_entries := update_where
                  (\<lambda>e. in_week t u anchor e \<and> te_approval_status e = ''pending'')
                  (\<lambda>e. e\<lparr>te_approval_status := ''draft''\<rparr>) (time_entries db)\<rparr>
           in (db', week_summary db' t u anchor))"

definition approve_timesheet :: "time_db \<Rightarrow> tenant \<Rightarrow> uuid \<Rightarrow> uuid \<Rightarrow> date \<Rightarrow> instant
    \<Rightarrow> time_db \<times> timesheet_summary app_result" where
  "approve_timesheet db t approver u week_start now =
     (let anchor = monday_anchor week_start;
          db' = db\<lparr>time_entries := update_where
                  (\<lambda>e. in_week t u anchor e \<and> te_approval_status e = ''pending'')
                  (\<lambda>e. e\<lparr>te_approval_status := ''approved'', te_approved_by := Some approver,
                         te_approved_at := Some now\<rparr>) (time_entries db)\<rparr>
      in (db', week_summary db' t u anchor))"

definition reject_timesheet :: "time_db \<Rightarrow> tenant \<Rightarrow> uuid \<Rightarrow> uuid \<Rightarrow> date \<Rightarrow> string \<Rightarrow> instant
    \<Rightarrow> time_db \<times> timesheet_summary app_result" where
  "reject_timesheet db t reviewer u week_start reason now =
     (let anchor = monday_anchor week_start;
          db' = db\<lparr>time_entries := update_where
                  (\<lambda>e. in_week t u anchor e \<and> te_approval_status e = ''pending'')
                  (\<lambda>e. e\<lparr>te_approval_status := ''rejected'', te_rejection_reason := Some reason,
                         te_approved_by := Some reviewer, te_approved_at := Some now\<rparr>)
                  (time_entries db)\<rparr>
      in (db', week_summary db' t u anchor))"

inductive timesheet_step :: "time_db \<Rightarrow> time_db \<Rightarrow> bool" where
  submit: "timesheet_step db (fst (submit_timesheet db t u w))"
| withdraw: "timesheet_step db (fst (withdraw_timesheet db t u w))"
| approve: "timesheet_step db (fst (approve_timesheet db t a u w now))"
| reject: "timesheet_step db (fst (reject_timesheet db t a u w reason now))"

section \<open>Lemmas\<close>

lemma monday_anchor_in_week:
  assumes "monday_anchor a = a" shows "monday_anchor d = a \<longleftrightarrow> a \<le> d \<and> d < a + 7"
proof -
  have a: "(a + 3) mod 7 = 0" using assms by (simp add: monday_anchor_def num_days_from_monday_def)
  have r: "0 \<le> (d + 3) mod 7" "(d + 3) mod 7 < 7" by simp_all
  show ?thesis
  proof
    assume "monday_anchor d = a"
    with r show "a \<le> d \<and> d < a + 7" by (auto simp: monday_anchor_def num_days_from_monday_def)
  next
    assume "a \<le> d \<and> d < a + 7"
    then have "(d - a) mod 7 = d - a" by simp
    moreover have "(d + 3) mod 7 = (d - a) mod 7"
      using a by (metis (no_types, opaque_lifting) add.commute add_diff_eq diff_add_eq mod_diff_right_eq diff_zero add_diff_cancel_left')
    ultimately show "monday_anchor d = a" by (simp add: monday_anchor_def num_days_from_monday_def)
  qed
qed

lemma monday_anchor_idem [simp]: "monday_anchor (monday_anchor d) = monday_anchor d"
proof -
  have "(d - (d + 3) mod 7 + 3) mod 7 = ((d + 3) - (d + 3) mod 7) mod 7" by (simp add: algebra_simps)
  then show ?thesis by (simp add: monday_anchor_def num_days_from_monday_def minus_mod_eq_mult_div)
qed

lemma in_week_decision [simp]:
  "in_week t u a (e\<lparr>te_approval_status := s\<rparr>) = in_week t u a e"
  "in_week t u a (e\<lparr>te_approved_by := b\<rparr>) = in_week t u a e"
  "in_week t u a (e\<lparr>te_approved_at := c\<rparr>) = in_week t u a e"
  by (simp_all add: in_week_def)

lemma week_where:
  "timesheet_where t \<lparr> tf_user = Some u, tf_week = Some (monday_anchor w), tf_status = None,
     tf_from = None, tf_to = None \<rparr> None = in_week t u (monday_anchor w)"
  by (auto simp: timesheet_where_def in_week_def fun_eq_iff)

lemma page_rows_default: "page_rows pagination_default rows = take 1 rows"
proof -
  have "unat (page_limit pagination_default) = 1" "unat (page_offset pagination_default) = 0"
    by code_simp+
  then show ?thesis by (simp add: page_rows_def)
qed

lemma remdups_replicate: "remdups (replicate n x) = (if n = 0 then [] else [x])"
  by (induction n) auto

lemma week_rows:
  assumes "\<And>e. e \<in> set es \<Longrightarrow> week_group e = g"
  shows "timesheet_rows es None = (if es = [] then [] else [summarise g es])"
proof (cases "es = []")
  case False
  with assms have "map week_group es = replicate (length es) g" by (intro replicate_eqI) auto
  with False have "remdups (map week_group es) = [g]" by (simp add: remdups_replicate)
  moreover have "filter (\<lambda>e. week_group e = g) es = es" using assms by (simp add: filter_id_conv)
  ultimately show ?thesis using False by (simp add: timesheet_rows_def)
qed (simp add: timesheet_rows_def)

lemma week_summary_eq:
  fixes db t u w
  defines "es \<equiv> filter (in_week t u (monday_anchor w)) (time_entries db)"
  shows "week_summary db t u (monday_anchor w) =
    Inr (if es = [] then \<lparr> ts_user = u, ts_week_start = monday_anchor w, ts_total_minutes = 0,
                           ts_billable_minutes = 0, ts_entry_count = 0,
                           ts_approval_status = ''draft'', ts_decided_at = None,
                           ts_decided_by = None, ts_rejection_reason = None \<rparr>
         else summarise (u, monday_anchor w) es)"
proof -
  have "week_group e = (u, monday_anchor w)" if "e \<in> set es" for e
    using that monday_anchor_in_week [of "monday_anchor w" "te_date e"]
    by (auto simp: es_def in_week_def week_group_def)
  then have "timesheet_rows es None = (if es = [] then [] else [summarise (u, monday_anchor w) es])"
    by (rule week_rows)
  then show ?thesis
    by (simp add: week_summary_def list_timesheets_def timesheet_status_filter_def
        timesheet_date_span_def week_where page_rows_default es_def [symmetric])
       (simp add: summarise_def)
qed

lemma sum_over_groups:
  fixes h :: "'a \<Rightarrow> int"
  assumes "distinct gs" and "f ` set es \<subseteq> set gs"
  shows "sum_list (map (\<lambda>g. sum_list (map h (filter (\<lambda>e. f e = g) es))) gs) = sum_list (map h es)"
  using assms(2)
proof (induction es)
  case (Cons x xs)
  have "sum_list (map (\<lambda>g. sum_list (map h (filter (\<lambda>e. f e = g) (x # xs)))) gs)
      = sum_list (map (\<lambda>g. (if f x = g then h x else 0)
          + sum_list (map h (filter (\<lambda>e. f e = g) xs))) gs)"
    by (intro arg_cong [where f = sum_list] map_cong) auto
  also have "\<dots> = sum_list (map (\<lambda>g. if f x = g then h x else 0) gs) + sum_list (map h xs)"
    using Cons by (simp add: sum_list_addf)
  also have "sum_list (map (\<lambda>g. if f x = g then h x else 0) gs) = h x"
    using assms(1) Cons.prems by (simp add: sum_list_distinct_conv_sum_set)
  finally show ?case by simp
qed (simp add: sum_list_0)

lemma timesheet_rows_sum:
  fixes h :: "time_entry \<Rightarrow> int"
  assumes "\<And>g es. H (summarise g es) = sum_list (map h es)"
  shows "sum_list (map H (timesheet_rows es None)) = sum_list (map h es)"
proof -
  let ?gs = "sort_key (\<lambda>g. - snd g) (sort_key fst (remdups (map week_group es)))"
  have "sum_list (map H (timesheet_rows es None))
      = sum_list (map (\<lambda>g. sum_list (map h (filter (\<lambda>e. week_group e = g) es))) ?gs)"
    using assms by (simp add: timesheet_rows_def comp_def)
  also have "\<dots> = sum_list (map h es)" by (rule sum_over_groups) auto
  finally show ?thesis .
qed

lemma approved_kept:
  assumes "\<And>e. p e \<Longrightarrow> te_approval_status e \<noteq> ''approved''" and "e \<in> set es"
    and "te_approval_status e = ''approved''"
  shows "e \<in> set (update_where p f es)"
proof -
  have "\<not> p e" using assms by blast
  then have "e = (\<lambda>r. if p r then f r else r) e" by simp
  then show ?thesis using assms(2) unfolding set_update_where by (rule image_eqI)
qed

lemma timesheet_step_approved:
  assumes "timesheet_step db db'" and "e \<in> set (time_entries db)"
    and "te_approval_status e = ''approved''"
  shows "e \<in> set (time_entries db')"
  using assms
  by cases (auto simp: submit_timesheet_def withdraw_timesheet_def approve_timesheet_def
      reject_timesheet_def Let_def intro!: approved_kept)

section \<open>A sample week\<close>

definition sample_entry :: time_entry where
  "sample_entry = \<lparr> te_id = 30, te_tenant = 7, te_user = 5, te_date = 20460,
     te_start_time = None, te_end_time = None, te_duration_minutes = 90,
     te_worked_minutes = Some 90, te_billable_minutes = Some 90, te_work_type = 11,
     te_ticket = None, te_project = None, te_task = None, te_company = Some 3,
     te_contract = Some 1, te_notes = None, te_is_billable = Some True,
     te_billing_status = ''ready_to_bill'', te_hourly_rate = Some 120, te_total_amount = Some 180,
     te_work_category = Some ''general'', te_entry_kind = ''client'',
     te_hours_consumed = None, te_hours_balance = None, te_overage_hours = None,
     te_overage_rate = None, te_approval_status = ''draft'', te_approved_by = None,
     te_approved_at = None, te_rejection_reason = None, te_invoice = None \<rparr>"

definition sample_week :: "time_entry \<Rightarrow> time_db" where
  "sample_week e = \<lparr>
     contracts = contracts sample_hours, contract_items = contract_items sample_hours,
     hour_balances = [], time_entries = [e],
     work_types = [\<lparr> wt_id = 11, wt_tenant = 7, wt_default_billable = Some True,
                     wt_default_rate = Some 120, wt_is_active = Some True, wt_sort_order = Some 0 \<rparr>],
     companies = [(3, 7)], tickets = [],
     users = [\<lparr> us_id = 5, us_tenant = 7, us_timezone = ''UTC'' \<rparr>],
     own_companies = [], rounding_rules = [], tenant_settings = [], active_timers = [],
     audit_log = [] \<rparr>"

section \<open>Properties\<close>

text \<open>
  The roll-up counts every entry exactly once: over all rows of an unfiltered listing the
  entry counts, the worked minutes and the billed minutes add up to those of the entries.
\<close>

theorem timesheet_rows_conserve:
  "sum_list (map (int \<circ> ts_entry_count) (timesheet_rows es None)) = int (length es)
   \<and> sum_list (map ts_total_minutes (timesheet_rows es None)) = sum_list (map worked_or_duration es)
   \<and> sum_list (map ts_billable_minutes (timesheet_rows es None)) = sum_list (map billed_minutes es)"
proof -
  have len: "int (length xs) = sum_list (map (\<lambda>_. 1) xs)" for xs :: "time_entry list"
    by (induction xs) auto
  have "sum_list (map (int \<circ> ts_entry_count) (timesheet_rows es None)) = sum_list (map (\<lambda>_. 1) es)"
    by (rule timesheet_rows_sum) (simp add: summarise_def len)
  moreover have "sum_list (map ts_total_minutes (timesheet_rows es None)) = sum_list (map worked_or_duration es)"
    "sum_list (map ts_billable_minutes (timesheet_rows es None)) = sum_list (map billed_minutes es)"
    by (rule timesheet_rows_sum, simp add: summarise_def)+
  ultimately show ?thesis using len by simp
qed

text \<open>
  An approved entry is final: no sequence of submits, withdrawals, approvals and
  rejections, of any user's week in any tenant, changes it in any way.
\<close>

theorem approved_entry_is_final:
  assumes "timesheet_step\<^sup>*\<^sup>* db db'" and "e \<in> set (time_entries db)"
    and "te_approval_status e = ''approved''"
  shows "e \<in> set (time_entries db')"
  using assms(1) by (induction rule: rtranclp_induct) (use assms timesheet_step_approved in auto)

theorem approved_entry_is_final_witness:
  "\<exists>e. te_approval_status e = ''approved''
     \<and> e \<in> set (time_entries (fst (reject_timesheet (sample_week e) 7 1 5 20460 ''late'' 0)))"
proof -
  let ?e = "sample_entry\<lparr>te_approval_status := ''approved''\<rparr>"
  have e: "te_approval_status ?e = ''approved''" "?e \<in> set (time_entries (sample_week ?e))"
    by (simp_all add: sample_week_def)
  have "timesheet_step\<^sup>*\<^sup>* (sample_week ?e) (fst (reject_timesheet (sample_week ?e) 7 1 5 20460 ''late'' 0))"
    by (intro r_into_rtranclp timesheet_step.reject)
  from approved_entry_is_final [OF this e(2,1)] e(1) show ?thesis by blast
qed

text \<open>
  Submitting a week and approving it approves the whole week: the summary returned counts
  every entry of the week and reads approved, or draft when the week is empty.
\<close>

theorem submit_then_approve:
  "\<exists>s. snd (approve_timesheet (fst (submit_timesheet db t u w)) t a u w now) = Inr s
     \<and> ts_entry_count s = length (filter (in_week t u (monday_anchor w)) (time_entries db))
     \<and> ts_approval_status s = (if ts_entry_count s = 0 then ''draft'' else ''approved'')"
proof -
  let ?in = "in_week t u (monday_anchor w)"
  define es where "es = filter ?in (time_entries (fst (approve_timesheet
      (fst (submit_timesheet db t u w)) t a u w now)))"
  have len: "length es = length (filter ?in (time_entries db))"
    by (simp add: es_def approve_timesheet_def submit_timesheet_def Let_def filter_update_where)
  have "te_approval_status e = ''approved''" if e: "e \<in> set es" for e
  proof -
    from e obtain y where y: "y \<in> set (time_entries (fst (submit_timesheet db t u w)))" "?in e"
      "e = (if ?in y \<and> te_approval_status y = ''pending''
            then y\<lparr>te_approval_status := ''approved'', te_approved_by := Some a, te_approved_at := Some now\<rparr>
            else y)"
      by (auto simp: es_def approve_timesheet_def Let_def set_update_where)
    from y(1) have "y \<in> set (update_where (\<lambda>e. ?in e \<and> te_approval_status e \<noteq> ''approved'')
        (\<lambda>e. e\<lparr>te_approval_status := ''pending''\<rparr>) (time_entries db))"
      by (simp add: submit_timesheet_def Let_def)
    then obtain x where "y = (if ?in x \<and> te_approval_status x \<noteq> ''approved''
                              then x\<lparr>te_approval_status := ''pending''\<rparr> else x)"
      by (rule in_update_whereE)
    with y(2,3) show ?thesis
      by (cases "?in x"; cases "te_approval_status x = ''approved''") (simp_all split: if_splits)
  qed
  then have st: "es \<noteq> [] \<Longrightarrow> rolled_status es = ''approved''"
    by (auto simp: rolled_status_def list_ex_iff list_all_iff)
  have "snd (approve_timesheet (fst (submit_timesheet db t u w)) t a u w now)
      = week_summary (fst (approve_timesheet (fst (submit_timesheet db t u w)) t a u w now)) t u
          (monday_anchor w)"
    by (simp add: approve_timesheet_def Let_def)
  then show ?thesis
    using st len by (auto simp: week_summary_eq es_def [symmetric] summarise_def)
qed

end
