(* ===== verification/Time_Ledger.thy ===== *)
theory Time_Ledger
  imports Timesheets
begin

text \<open>
  The hours a tenant's entries record and the hours their contracts have given out are two
  copies of one figure, kept in two tables by operations of two services. This theory proves
  that they agree after every sequence of operations, through the \<open>hour_pool\<close> interface of
  the contracts, and that the operations of a time entry behave as their callers rely on.
\<close>

section \<open>The invariant\<close>

definition drawn :: "time_db \<Rightarrow> uuid \<Rightarrow> decimal" where
  "drawn db i = sum_where (\<lambda>e. te_hours_balance e = Some i) (\<lambda>e. opt_or (te_hours_consumed e) 0)
                  (time_entries db)"

definition stamp_ok :: "time_db \<Rightarrow> time_entry \<Rightarrow> bool" where
  "stamp_ok db e \<longleftrightarrow>
     (case te_hours_consumed e of
        None \<Rightarrow> te_hours_balance e = None
      | Some h \<Rightarrow> 0 \<le> h \<and> is_num2 h
          \<and> (case te_hours_balance e of None \<Rightarrow> False | Some i \<Rightarrow> owns_balance db (te_tenant e) i))"

definition time_ok :: "time_db \<Rightarrow> bool" where
  "time_ok db \<longleftrightarrow>
     balances_ok db \<and> items_ok db \<and> distinct (map te_id (time_entries db))
     \<and> (\<forall>e \<in> set (time_entries db). stamp_ok db e)
     \<and> (\<forall>i. used_of db i = drawn db i)"

text \<open>What the tables of the hour pool see of a change to any other table: nothing.\<close>

lemma pool_frame [simp]:
  "balances_ok (db\<lparr>time_entries := es\<rparr>) = balances_ok db"
  "balances_ok (db\<lparr>audit_log := l\<rparr>) = balances_ok db"
  "balances_ok (db\<lparr>active_timers := ts\<rparr>) = balances_ok db"
  "items_ok (db\<lparr>time_entries := es\<rparr>) = items_ok db"
  "items_ok (db\<lparr>audit_log := l\<rparr>) = items_ok db"
  "items_ok (db\<lparr>active_timers := ts\<rparr>) = items_ok db"
  "used_of (db\<lparr>time_entries := es\<rparr>) = used_of db"
  "used_of (db\<lparr>audit_log := l\<rparr>) = used_of db"
  "used_of (db\<lparr>active_timers := ts\<rparr>) = used_of db"
  "owns_balance (db\<lparr>time_entries := es\<rparr>) = owns_balance db"
  "owns_balance (db\<lparr>audit_log := l\<rparr>) = owns_balance db"
  "owns_balance (db\<lparr>active_timers := ts\<rparr>) = owns_balance db"
  by (simp_all add: balances_ok_def items_ok_def used_of_def owns_balance_def fun_eq_iff)

lemma stamp_frame [simp]:
  "stamp_ok (db\<lparr>time_entries := es\<rparr>) = stamp_ok db"
  "stamp_ok (db\<lparr>audit_log := l\<rparr>) = stamp_ok db"
  "stamp_ok (db\<lparr>active_timers := ts\<rparr>) = stamp_ok db"
  by (simp_all add: stamp_ok_def fun_eq_iff split: option.splits)

lemma stamp_ok_mono:
  "stamp_ok db e \<Longrightarrow> (\<And>t i. owns_balance db t i \<Longrightarrow> owns_balance db' t i) \<Longrightarrow> stamp_ok db' e"
  by (auto simp: stamp_ok_def split: option.splits)

lemma balance_ids: "hb_id ` set (hour_balances db) = {k. \<exists>t. owns_balance db t k}"
  by (auto simp: owns_balance_def)

lemma entry_unique:
  assumes "distinct (map te_id es)" and "e \<in> set es" and "x \<in> set es" and "te_id x = te_id e"
  shows "x = e"
  using assms by (auto simp: distinct_map dest: inj_onD)

lemma time_ok_drawn_nonneg:
  assumes "time_ok db" and "e \<in> set (time_entries db)" and "te_hours_balance e = Some i"
    and "te_hours_consumed e = Some h"
  shows "h \<le> used_of db i" and "0 \<le> h" and "is_num2 h" and "owns_balance db (te_tenant e) i"
proof -
  from assms have "stamp_ok db e" by (auto simp: time_ok_def)
  with assms(3,4) show "0 \<le> h" "is_num2 h" "owns_balance db (te_tenant e) i"
    by (auto simp: stamp_ok_def)
  have "opt_or (te_hours_consumed e) 0 \<le> drawn db i"
    unfolding drawn_def
  proof (rule sum_where_member_le [OF assms(2)])
    fix x assume "x \<in> set (time_entries db)"
    with assms(1) have "stamp_ok db x" by (auto simp: time_ok_def)
    then show "0 \<le> opt_or (te_hours_consumed x) 0" by (auto simp: stamp_ok_def split: option.splits)
  qed (rule assms(3))
  with assms(1,4) show "h \<le> used_of db i" by (simp add: time_ok_def)
qed

section \<open>A draw\<close>

lemma drawn_update_entry:
  assumes "distinct (map te_id (time_entries db))" and "e \<in> set (time_entries db)"
    and "\<And>x. x \<in> set (time_entries db) \<Longrightarrow> p x \<longleftrightarrow> x = e"
  shows "drawn (db\<lparr>time_entries := update_where p g (time_entries db)\<rparr>) i =
    drawn db i - (if te_hours_balance e = Some i then opt_or (te_hours_consumed e) 0 else 0)
      + (if te_hours_balance (g e) = Some i then opt_or (te_hours_consumed (g e)) 0 else 0)"
  unfolding drawn_def
  using sum_where_update_one [OF conjunct1 [OF assms(1) [unfolded distinct_map]] assms(2,3)] by simp

lemma consume_for_entry_InrE:
  assumes "consume_for_entry C db t i nb = Inr db'"
  obtains "db' = db"
  | e c db1 out where "e \<in> set (time_entries db)" and "entry_key t i e" and "te_hours_consumed e = None"
      and "te_contract e = Some c"
      and "draw_minutes C db t (c, te_duration_minutes e, te_date e * 86400, nb)
             = Inr (db1, num2 (hours_applied out), balance_id out)"
      and "time_entries db1 = time_entries db"
      and "db' = db1\<lparr>time_entries := update_where (\<lambda>e. entry_key t i e \<and> te_hours_consumed e = None)
                 (stamp_draw out) (time_entries db1)\<rparr>"
proof -
  let ?sel = "select_one (\<lambda>e. entry_key t i e \<and> te_hours_consumed e = None) (time_entries db)"
  show thesis
  proof (cases ?sel)
    case None
    with assms have "db' = db" by (simp add: consume_for_entry_def)
    then show thesis by (rule that)
  next
    case (Some e)
    then have e: "e \<in> set (time_entries db)" "entry_key t i e" "te_hours_consumed e = None"
      by (auto dest: select_one_SomeD)
    show thesis
    proof (cases "te_contract e")
      case None
      with Some assms have "db' = db" by (simp add: consume_for_entry_def)
      then show thesis by (rule that)
    next
      case (Some c)
      let ?r = "consume_hours_in_tx C db t c (of_int (te_duration_minutes e) / 60) (te_date e * 86400) nb"
      show thesis
      proof (cases "db' = db")
        case False
        with assms \<open>?sel = Some e\<close> Some
        have "and_then ?r (\<lambda>(db1, out). Inr (db1\<lparr>time_entries :=
                 update_where (\<lambda>e. entry_key t i e \<and> te_hours_consumed e = None)
                   (stamp_draw out) (time_entries db1)\<rparr>)) = Inr db'"
          by (auto simp: consume_for_entry_def Let_def split: if_splits)
        then obtain db1 out where r: "?r = Inr (db1, out)"
          and db': "db' = db1\<lparr>time_entries := update_where (\<lambda>e. entry_key t i e \<and> te_hours_consumed e = None)
                 (stamp_draw out) (time_entries db1)\<rparr>"
          by (auto elim!: and_then_InrE)
        from r obtain bs where "db1 = db\<lparr>hour_balances := bs\<rparr>" by (rule consume_only_balances)
        then have "time_entries db1 = time_entries db" by simp
        with e Some r db' show thesis
          by (intro that(2) [of e c db1 out]) (simp_all add: draw_minutes_def)
      qed (rule that(1))
    qed
  qed
qed


lemma stamp_draw_keys [simp]:
  "te_id (stamp_draw out e) = te_id e" "te_tenant (stamp_draw out e) = te_tenant e"
  "te_hours_balance (stamp_draw out e) = Some (balance_id out)"
  "te_hours_consumed (stamp_draw out e) = Some (num2 (hours_applied out))"
  by (simp_all add: stamp_draw_def)

lemma consume_for_entry_ok:
  assumes "time_ok db" and "nb \<notin> hb_id ` set (hour_balances db)"
    and "consume_for_entry C db t i nb = Inr db'"
  shows "time_ok db'"
  using assms(3)
proof (rule consume_for_entry_InrE)
  fix e :: time_entry and c :: uuid and db1 :: time_db and out :: consume_outcome
  let ?q = "(c, te_duration_minutes e, te_date e * 86400, nb)"
  let ?p = "\<lambda>e. entry_key t i e \<and> te_hours_consumed e = None"
  assume e: "e \<in> set (time_entries db)" "entry_key t i e" "te_hours_consumed e = None"
    and draw: "draw_minutes C db t ?q = Inr (db1, num2 (hours_applied out), balance_id out)"
    and es: "time_entries db1 = time_entries db"
    and db': "db' = db1\<lparr>time_entries := update_where ?p (stamp_draw out) (time_entries db1)\<rparr>"
  have ok: "balances_ok db \<and> items_ok db" and d: "distinct (map te_id (time_entries db))"
    using assms(1) by (auto simp: time_ok_def)
  have fresh: "(\<lambda>db (_, _, _, new_id). new_id \<notin> hb_id ` set (hour_balances db)) db ?q"
    using assms(2) by simp
  note pool = block_hours.draw_ok [OF ok fresh draw] block_hours.draw_used [OF ok fresh draw]
    block_hours.draw_owner [OF ok fresh draw]
  have one: "?p x \<longleftrightarrow> x = e" if "x \<in> set (time_entries db)" for x
    using that e entry_unique [OF d e(1) that] by (auto simp: entry_key_def)
  have "stamp_ok db' x" if "x \<in> set (time_entries db')" for x
  proof -
    from that obtain y where y: "y \<in> set (time_entries db)" "x = (if ?p y then stamp_draw out y else y)"
      unfolding db' es by (auto elim!: in_update_whereE)
    show ?thesis
    proof (cases "?p y")
      case True
      with y one e have "x = stamp_draw out e" "te_tenant e = t" by (auto simp: entry_key_def)
      with pool(1) show ?thesis by (simp add: db' stamp_ok_def)
    next
      case False
      with y assms(1) have "stamp_ok db x" by (simp add: time_ok_def)
      then show ?thesis unfolding db' stamp_frame by (rule stamp_ok_mono) (rule pool(3))
    qed
  qed
  moreover have "used_of db' k = drawn db' k" for k
  proof -
    have "drawn db' k = drawn db k + (if k = balance_id out then num2 (hours_applied out) else 0)"
      using drawn_update_entry [OF d e(1) one, where g = "stamp_draw out" and i = k] e(3)
      unfolding db' by (simp add: es drawn_def)
    moreover have "used_of db k = drawn db k" using assms(1) by (simp add: time_ok_def)
    ultimately show ?thesis using pool(2) [of k] by (simp add: db')
  qed
  moreover have "map te_id (time_entries db') = map te_id (time_entries db)"
    unfolding db' by (simp add: es map_update_where)
  ultimately show ?thesis using pool(1) d by (simp add: time_ok_def db')
qed (use assms(1) in simp)

section \<open>A give-back\<close>

lemma clear_draw_keys [simp]:
  "te_id (clear_draw e) = te_id e" "te_tenant (clear_draw e) = te_tenant e"
  "te_hours_balance (clear_draw e) = None" "te_hours_consumed (clear_draw e) = None"
  by (simp_all add: clear_draw_def)

text \<open>
  Under the invariant a give-back never fails, and it credits exactly what the entry recorded.
\<close>

lemma release_for_entry_ok:
  assumes "time_ok db"
  obtains db' where "release_for_entry db t i = Inr db'" and "time_ok db'"
    and "map te_id (time_entries db') = map te_id (time_entries db)"
    and "\<And>e. e \<in> set (time_entries db') \<Longrightarrow> entry_key t i e \<Longrightarrow> te_hours_consumed e = None"
    and "hb_id ` set (hour_balances db') = hb_id ` set (hour_balances db)"
    and "delete_where (entry_key t i) (time_entries db') = delete_where (entry_key t i) (time_entries db)"
proof -
  let ?s = "\<lambda>e. entry_key t i e \<and> te_hours_consumed e \<noteq> None"
  have d: "distinct (map te_id (time_entries db))" using assms by (simp add: time_ok_def)
  show thesis
  proof (cases "select_one ?s (time_entries db)")
    case None
    then have "release_for_entry db t i = Inr db" by (simp add: release_for_entry_def)
    with None assms show thesis by (intro that [of db]) (auto simp: select_one_None)
  next
    case (Some e)
    then have e: "e \<in> set (time_entries db)" "entry_key t i e" "te_hours_consumed e \<noteq> None"
      by (auto dest: select_one_SomeD)
    then obtain h where h: "te_hours_consumed e = Some h" by auto
    moreover have "stamp_ok db e" using assms e(1) by (simp add: time_ok_def)
    ultimately obtain b where b: "te_hours_balance e = Some b"
      by (auto simp: stamp_ok_def split: option.splits)
    note n = time_ok_drawn_nonneg [OF assms e(1) b h]
    define db1 where "db1 = db\<lparr>time_entries := update_where (\<lambda>x. te_id x = te_id e) clear_draw
                                 (time_entries db)\<rparr>"
    have "balances_ok db1 \<and> items_ok db1" "owns_balance db1 t b" "h \<le> used_of db1 b"
      using assms n e(2) by (auto simp: db1_def time_ok_def entry_key_def)
    from block_hours.give_ok [OF this(1,2) n(3,2) this(3)]
    obtain db' where g: "release_hours_in_tx db1 t b h = Inr db'" "balances_ok db'" "items_ok db'"
      "\<And>k. used_of db' k = used_of db1 k - (if k = b then h else 0)"
      "owns_balance db' = owns_balance db1" by auto
    from g(1) obtain bs where bs: "db' = db1\<lparr>hour_balances := bs\<rparr>" by (rule release_only_balances)
    then have es: "time_entries db' = update_where (\<lambda>x. te_id x = te_id e) clear_draw (time_entries db)"
      by (simp add: db1_def)
    have one: "te_id x = te_id e \<longleftrightarrow> x = e" if "x \<in> set (time_entries db)" for x
      using entry_unique [OF d e(1) that] by auto
    have "drawn db' k = drawn db k - (if k = b then h else 0)" for k
      using drawn_update_entry [OF d e(1) one, where g = clear_draw and i = k] h b
      by (simp add: drawn_def es)
    moreover have "stamp_ok db' x" if "x \<in> set (time_entries db')" for x
    proof -
      from that obtain y where y: "y \<in> set (time_entries db)" "x = (if te_id y = te_id e then clear_draw y else y)"
        unfolding es by (rule in_update_whereE)
      show ?thesis
      proof (cases "te_id y = te_id e")
        case False
        with y assms have "stamp_ok db x" by (simp add: time_ok_def)
        then show ?thesis by (rule stamp_ok_mono) (simp add: g(5) db1_def)
      qed (use y in \<open>simp add: stamp_ok_def\<close>)
    qed
    moreover have ids: "map te_id (time_entries db') = map te_id (time_entries db)"
      unfolding es by (simp add: map_update_where)
    ultimately have "time_ok db'" using g assms d by (simp add: time_ok_def db1_def)
    moreover have "release_for_entry db t i = Inr db'"
      using Some h b g(1) by (simp add: release_for_entry_def db1_def)
    moreover have "te_hours_consumed x = None" if "x \<in> set (time_entries db')" "entry_key t i x" for x
      using that e(2) unfolding es by (auto elim!: in_update_whereE simp: entry_key_def split: if_splits)
    moreover have "hb_id ` set (hour_balances db') = hb_id ` set (hour_balances db)"
      by (simp add: balance_ids g(5) db1_def)
    moreover have "delete_where (entry_key t i) (time_entries db') = delete_where (entry_key t i) (time_entries db)"
      unfolding es using e(2) one by (intro delete_where_update_where) (auto simp: entry_key_def)
    ultimately show thesis using ids by (intro that)
  qed
qed


section \<open>The other transactions\<close>

lemma time_ok_append:
  assumes "time_ok db" and "te_id e \<notin> te_id ` set (time_entries db)"
    and "te_hours_consumed e = None" and "te_hours_balance e = None"
  shows "time_ok (db\<lparr>time_entries := time_entries db @ [e]\<rparr>)"
  using assms by (auto simp: time_ok_def drawn_def stamp_ok_def)

lemma time_ok_update_fields:
  assumes "time_ok db" and "\<And>e. te_id (g e) = te_id e" and "\<And>e. te_tenant (g e) = te_tenant e"
    and "\<And>e. te_hours_consumed (g e) = te_hours_consumed e"
    and "\<And>e. te_hours_balance (g e) = te_hours_balance e"
  shows "time_ok (db\<lparr>time_entries := update_where p g (time_entries db)\<rparr>)"
proof -
  have "drawn (db\<lparr>time_entries := update_where p g (time_entries db)\<rparr>) i = drawn db i" for i
    unfolding drawn_def using assms(4,5)
    by (auto simp: sum_where_update_where intro!: sum_where_cong)
  moreover have "stamp_ok db x" if "x \<in> set (update_where p g (time_entries db))" for x
    using that
  proof (rule in_update_whereE)
    fix y assume "y \<in> set (time_entries db)" "x = (if p y then g y else y)"
    moreover have "stamp_ok db (g y) = stamp_ok db y" using assms(3-5) by (simp add: stamp_ok_def split: option.split)
    ultimately show ?thesis using assms(1) by (auto simp: time_ok_def)
  qed
  moreover have "map te_id (update_where p g (time_entries db)) = map te_id (time_entries db)"
    using assms(2) by (simp add: map_update_where)
  ultimately show ?thesis using assms(1) by (simp add: time_ok_def)
qed

lemma time_ok_frame [simp]:
  "time_ok (db\<lparr>audit_log := l\<rparr>) = time_ok db" "time_ok (db\<lparr>active_timers := ts\<rparr>) = time_ok db"
  by (simp_all add: time_ok_def drawn_def)

text \<open>Deleting a row that has given its hours back.\<close>

lemma time_ok_delete:
  assumes "time_ok db" and "\<And>e. e \<in> set (time_entries db) \<Longrightarrow> p e \<Longrightarrow> te_hours_consumed e = None"
  shows "time_ok (db\<lparr>time_entries := delete_where p (time_entries db)\<rparr>)"
proof -
  have "sum_where (\<lambda>e. te_hours_balance e = Some i \<and> p e) (\<lambda>e. opt_or (te_hours_consumed e) 0)
      (time_entries db) = sum_where (\<lambda>e. te_hours_balance e = Some i \<and> p e) (\<lambda>e. 0) (time_entries db)" for i
    using assms(2) by (intro sum_where_cong) auto
  also have "\<dots> i = 0" for i by (simp add: sum_where_def)
  finally have "drawn (db\<lparr>time_entries := delete_where p (time_entries db)\<rparr>) i = drawn db i" for i
    by (simp add: drawn_def sum_where_delete)
  moreover have "distinct (map te_id (delete_where p (time_entries db)))"
    using assms(1) by (simp add: time_ok_def delete_where_def distinct_map_filter)
  ultimately show ?thesis using assms(1) by (simp add: time_ok_def)
qed

lemma create_entry_tx_InrE:
  assumes "create_entry_tx db t r ctx new_id = Inr db'"
  obtains e where "db' = db\<lparr>time_entries := time_entries db @ [e],
      audit_log := audit_write (audit_log db) t ctx ACreate ''time_entries'' (Some new_id)\<rparr>"
    and "te_id e = new_id" and "te_tenant e = t" and "te_user e = cr_user r" and "te_date e = cr_date r"
    and "te_company e = cr_company r"
    and "te_hours_consumed e = None" and "te_hours_balance e = None"
    and "day_minutes_excluding db t (cr_user r) (cr_date r) None + te_duration_minutes e
           \<le> read_max_minutes_per_day db t"
    and "te_contract e = block_hours_contract_for db t (cr_company r) (cr_date r) (te_entry_kind e)
           (te_is_billable e = Some True)"
    and "te_billing_status e = (if te_is_billable e = Some True then ''ready_to_bill'' else ''not_billed'')"
    and "te_is_billable e \<noteq> None"
proof -
  have "\<exists>kind category worked billable billing.
    enforce_day_cap (day_minutes_excluding db t (cr_user r) (cr_date r) None) worked
       (read_max_minutes_per_day db t) \<in> range Inr
    \<and> db' = db\<lparr>time_entries := time_entries db
             @ [new_entry new_id t r kind category worked billable billing
                  (block_hours_contract_for db t (cr_company r) (cr_date r)
                     (rk_kind kind) (rk_billable kind))],
           audit_log := audit_write (audit_log db) t ctx ACreate ''time_entries'' (Some new_id)\<rparr>"
    using assms unfolding create_entry_tx_def Let_def
    by (elim and_then_InrE) (simp only: guard_Inr sum.inject, blast intro: range_eqI [OF sym])
  then obtain kind category worked billable billing contract_id where
    "enforce_day_cap (day_minutes_excluding db t (cr_user r) (cr_date r) None) worked
       (read_max_minutes_per_day db t) \<in> range Inr"
    "contract_id = block_hours_contract_for db t (cr_company r) (cr_date r)
       (rk_kind kind) (rk_billable kind)"
    "db' = db\<lparr>time_entries := time_entries db
             @ [new_entry new_id t r kind category worked billable billing contract_id],
           audit_log := audit_write (audit_log db) t ctx ACreate ''time_entries'' (Some new_id)\<rparr>"
    by blast
  then show thesis
    by (intro that [of "new_entry new_id t r kind category worked billable billing contract_id"])
       (auto simp: new_entry_def resolve_billing_status_def enforce_day_cap_def split: if_splits)
qed

lemma apply_update_keys [simp]:
  "te_id (apply_update r a b c d k hr x y z w e) = te_id e"
  "te_tenant (apply_update r a b c d k hr x y z w e) = te_tenant e"
  "te_hours_consumed (apply_update r a b c d k hr x y z w e) = te_hours_consumed e"
  "te_hours_balance (apply_update r a b c d k hr x y z w e) = te_hours_balance e"
  "te_contract (apply_update r a b c d k hr x y z w e) = w"
  "te_date (apply_update r a b c d k hr x y z w e) = opt_or (ur_date r) (te_date e)"
  "te_duration_minutes (apply_update r a b c d k hr x y z w e) = c"
  "te_user (apply_update r a b c d k hr x y z w e) = te_user e"
  by (simp_all add: apply_update_def)

lemma update_entry_tx_InrE:
  assumes "update_entry_tx db t current r = Inr db'"
  obtains g where "db' = db\<lparr>time_entries := update_where (entry_key t (te_id current)) g (time_entries db)\<rparr>"
    and "\<And>e. te_id (g e) = te_id e" and "\<And>e. te_tenant (g e) = te_tenant e"
    and "\<And>e. te_hours_consumed (g e) = te_hours_consumed e"
    and "\<And>e. te_hours_balance (g e) = te_hours_balance e"
    and "\<And>e. te_date (g e) = opt_or (ur_date r) (te_date e)"
    and "\<And>e. te_user (g e) = te_user e"
    and "\<And>e. \<exists>k b. te_contract (g e) = block_hours_contract_for db t (te_company current)
           (opt_or (ur_date r) (te_date current)) k b"
    and "\<And>e. day_minutes_excluding db t (te_user current) (opt_or (ur_date r) (te_date current))
           (Some (te_id current)) + te_duration_minutes (g e) \<le> read_max_minutes_per_day db t"
proof -
  have "\<exists>a b worked d kind hr x y z.
    enforce_day_cap (day_minutes_excluding db t (te_user current) (opt_or (ur_date r) (te_date current))
       (Some (te_id current))) worked (read_max_minutes_per_day db t) \<in> range Inr
    \<and> db' = db\<lparr>time_entries := update_where (entry_key t (te_id current))
        (apply_update r a b worked d kind hr x y z
           (block_hours_contract_for db t (te_company current) (opt_or (ur_date r) (te_date current))
              (rk_kind kind) (rk_billable kind))) (time_entries db)\<rparr>"
    using assms unfolding update_entry_tx_def Let_def
    by (elim and_then_InrE) (simp only: guard_Inr sum.inject, blast intro: range_eqI [OF sym])
  then obtain a b worked d kind hr x y z where
    cap: "enforce_day_cap (day_minutes_excluding db t (te_user current) (opt_or (ur_date r) (te_date current))
       (Some (te_id current))) worked (read_max_minutes_per_day db t) \<in> range Inr" and
    db': "db' = db\<lparr>time_entries := update_where (entry_key t (te_id current))
        (apply_update r a b worked d kind hr x y z
           (block_hours_contract_for db t (te_company current) (opt_or (ur_date r) (te_date current))
              (rk_kind kind) (rk_billable kind))) (time_entries db)\<rparr>"
    by blast
  from cap have "day_minutes_excluding db t (te_user current) (opt_or (ur_date r) (te_date current))
           (Some (te_id current)) + worked \<le> read_max_minutes_per_day db t"
    by (auto simp: enforce_day_cap_def split: if_splits)
  with db' show thesis by (intro that [OF db']) (simp_all, blast)
qed

lemma stop_timer_tx_InrE:
  assumes "stop_timer_tx user_today db t timer_id user now entry_id = Inr db'"
  obtains e where "db' = db\<lparr>time_entries := time_entries db @ [e],
        active_timers := delete_where (\<lambda>y. at_id y = timer_id) (active_timers db)\<rparr>"
    and "te_id e = entry_id" and "te_tenant e = t"
    and "te_hours_consumed e = None" and "te_hours_balance e = None"
    and "\<exists>k b co. te_contract e = block_hours_contract_for db t co (te_date e) k b"
proof -
  have "\<exists>x today duration w company kind billing.
    db' = db\<lparr>time_entries := time_entries db @ [timer_entry entry_id t x today now duration w company kind
          billing (block_hours_contract_for db t company today (rk_kind kind) (rk_billable kind))],
        active_timers := delete_where (\<lambda>y. at_id y = timer_id) (active_timers db)\<rparr>"
    using assms unfolding stop_timer_tx_def Let_def
    by (cases "select_one (\<lambda>x. at_tenant x = t \<and> at_id x = timer_id \<and> at_user x = user) (active_timers db)";
        simp only: option.case sum.distinct)
       (elim case_option_InrE and_then_InrE, simp only: sum.inject, blast)
  then show thesis
    by (elim exE) (rule that, assumption, simp_all add: timer_entry_def, blast)
qed

section \<open>The steps\<close>

lemma create_time_entry_ok:
  assumes "time_ok db" and "new_id \<notin> te_id ` set (time_entries db)"
    and "nb \<notin> hb_id ` set (hour_balances db)"
  shows "time_ok (fst (create_time_entry C db t r ctx new_id nb))"
proof (cases "create_entry_tx db t r ctx new_id")
  case (Inr db1)
  then obtain e where e: "te_id e = new_id" "te_hours_consumed e = None" "te_hours_balance e = None"
    "db1 = db\<lparr>time_entries := time_entries db @ [e],
      audit_log := audit_write (audit_log db) t ctx ACreate ''time_entries'' (Some new_id)\<rparr>"
    by (rule create_entry_tx_InrE)
  have db1: "time_ok db1" using time_ok_append [OF assms(1), of e] assms(2) e by simp
  moreover have "nb \<notin> hb_id ` set (hour_balances db1)" using assms(3) e(4) by simp
  ultimately show ?thesis using Inr consume_for_entry_ok
    by (cases "consume_for_entry C db1 t new_id nb") (auto simp: create_time_entry_def)
qed (use assms in \<open>simp add: create_time_entry_def\<close>)

lemma stop_timer_ok:
  assumes "time_ok db" and "new_id \<notin> te_id ` set (time_entries db)"
    and "nb \<notin> hb_id ` set (hour_balances db)"
  shows "time_ok (fst (stop_timer C z db t timer_id user now new_id nb))"
proof (cases "stop_timer_tx z db t timer_id user now new_id")
  case (Inr db1)
  then obtain e where e: "te_id e = new_id" "te_hours_consumed e = None" "te_hours_balance e = None"
    "db1 = db\<lparr>time_entries := time_entries db @ [e],
        active_timers := delete_where (\<lambda>y. at_id y = timer_id) (active_timers db)\<rparr>"
    by (rule stop_timer_tx_InrE)
  have db1: "time_ok db1" using time_ok_append [OF assms(1), of e] assms(2) e by simp
  moreover have "nb \<notin> hb_id ` set (hour_balances db1)" using assms(3) e(4) by simp
  ultimately show ?thesis using Inr consume_for_entry_ok
    by (cases "consume_for_entry C db1 t new_id nb") (auto simp: stop_timer_def)
qed (use assms in \<open>simp add: stop_timer_def\<close>)

lemma update_time_entry_ok:
  assumes "time_ok db" and "nb \<notin> hb_id ` set (hour_balances db)"
  shows "time_ok (fst (update_time_entry C db t i r nb))"
proof (cases "get_time_entry db t i")
  case (Inr current)
  show ?thesis
  proof (cases "update_entry_tx db t current r")
    case (Inr db1)
    then obtain g where db1: "db1 = db\<lparr>time_entries := update_where (entry_key t (te_id current)) g (time_entries db)\<rparr>"
      and g: "\<And>e. te_id (g e) = te_id e" "\<And>e. te_tenant (g e) = te_tenant e"
        "\<And>e. te_hours_consumed (g e) = te_hours_consumed e"
        "\<And>e. te_hours_balance (g e) = te_hours_balance e"
      by (rule update_entry_tx_InrE) blast
    have ok1: "time_ok db1" unfolding db1 using assms(1) g by (rule time_ok_update_fields)
    then obtain db2 where r: "release_for_entry db1 t i = Inr db2" "time_ok db2"
        "hb_id ` set (hour_balances db2) = hb_id ` set (hour_balances db1)"
      by (rule release_for_entry_ok)
    have "nb \<notin> hb_id ` set (hour_balances db2)" using assms(2) r(3) db1 by simp
    then show ?thesis
      using \<open>get_time_entry db t i = Inr current\<close> Inr r(1,2) consume_for_entry_ok [OF r(2)]
      by (cases "consume_for_entry C db2 t i nb") (auto simp: update_time_entry_def)
  qed (use assms Inr in \<open>simp add: update_time_entry_def\<close>)
qed (use assms in \<open>simp add: update_time_entry_def\<close>)

lemma delete_time_entry_ok:
  assumes "time_ok db"
  shows "time_ok (fst (delete_time_entry db t i))"
proof -
  obtain db1 where r: "release_for_entry db t i = Inr db1" "time_ok db1"
    "\<And>e. e \<in> set (time_entries db1) \<Longrightarrow> entry_key t i e \<Longrightarrow> te_hours_consumed e = None"
    using assms by (rule release_for_entry_ok) blast
  have "time_ok (db1\<lparr>time_entries := delete_where (entry_key t i) (time_entries db1)\<rparr>)"
    using r(2,3) by (rule time_ok_delete)
  with r(1,2) show ?thesis by (simp add: delete_time_entry_def delete_entry_tx_def)
qed

lemma roll_time_ok:
  assumes "time_ok db" and "n \<notin> hb_id ` set (hour_balances db)"
  shows "time_ok (committed db (roll_to_next_period C db t c e n))"
proof (cases "roll_to_next_period C db t c e n")
  case (Inr p)
  obtain db' r where p: "p = (db', r)" by (rule prod.exhaust)
  have ok: "balances_ok db" "items_ok db" using assms(1) by (simp_all add: time_ok_def)
  note f = roll_effect [OF ok assms(2) Inr [unfolded p]]
  have es: "time_entries db' = time_entries db" "contract_items db' = contract_items db"
    by (subst f(4), simp)+
  have "stamp_ok db' x" if "x \<in> set (time_entries db)" for x
    using assms(1) that f(3) by (auto simp: time_ok_def intro: stamp_ok_mono)
  with assms(1) f(1,2) show ?thesis
    by (simp add: Inr p time_ok_def drawn_def es items_ok_def)
qed (use assms in simp)

lemma timesheet_time_ok:
  assumes "time_ok db" and "timesheet_step db db'" shows "time_ok db'"
  using assms(2)
  by cases (auto simp: submit_timesheet_def withdraw_timesheet_def approve_timesheet_def
      reject_timesheet_def Let_def assms(1) intro!: time_ok_update_fields)

text \<open>
  One committed operation of the service, or a roll of a contract's closed period by the
  invoicing run. A new row takes an identifier that no row has.
\<close>

inductive time_step :: "cal \<Rightarrow> (instant \<Rightarrow> string \<Rightarrow> date) \<Rightarrow> time_db \<Rightarrow> time_db \<Rightarrow> bool"
  for C :: cal and z :: "instant \<Rightarrow> string \<Rightarrow> date" where
  create: "new_id \<notin> te_id ` set (time_entries db) \<Longrightarrow> nb \<notin> hb_id ` set (hour_balances db) \<Longrightarrow>
    time_step C z db (fst (create_time_entry C db t r ctx new_id nb))"
| update: "nb \<notin> hb_id ` set (hour_balances db) \<Longrightarrow>
    time_step C z db (fst (update_time_entry C db t i r' nb))"
| delete: "time_step C z db (fst (delete_time_entry db t i))"
| start: "time_step C z db (committed db (start_timer db t u sr now new_id))"
| stop: "new_id \<notin> te_id ` set (time_entries db) \<Longrightarrow> nb \<notin> hb_id ` set (hour_balances db) \<Longrightarrow>
    time_step C z db (fst (stop_timer C z db t timer_id u now new_id nb))"
| roll: "nb \<notin> hb_id ` set (hour_balances db) \<Longrightarrow>
    time_step C z db (committed db (roll_to_next_period C db t c e nb))"
| timesheet: "timesheet_step db db' \<Longrightarrow> time_step C z db db'"

lemma start_timer_time_ok:
  "time_ok db \<Longrightarrow> time_ok (committed db (start_timer db t u sr now new_id))"
  by (cases "start_timer db t u sr now new_id")
     (auto simp: start_timer_def Let_def elim!: and_then_InrE split: if_splits)

lemma time_step_ok:
  assumes "time_step C z db db'" and "time_ok db" shows "time_ok db'"
  using assms
  by cases (simp_all add: create_time_entry_ok update_time_entry_ok delete_time_entry_ok
      start_timer_time_ok stop_timer_ok roll_time_ok timesheet_time_ok)

section \<open>A draw cannot fail after the commit\<close>

text \<open>
  Contracts have distinct keys and an item belongs to the tenant of its contract, as the
  foreign keys and the row-level security policies of the tables have it.
\<close>

definition catalog_ok :: "time_db \<Rightarrow> bool" where
  "catalog_ok db \<longleftrightarrow> distinct (map c_id (contracts db))
     \<and> (\<forall>ci \<in> set (contract_items db). \<forall>c \<in> set (contracts db).
          c_id c = ci_contract ci \<longrightarrow> ci_tenant ci = c_tenant c)"

lemma block_hours_contract_SomeD:
  assumes "block_hours_contract_for db t co d k b = Some c"
  obtains r ci where "r \<in> set (contracts db)" and "c_id r = c" and "c_tenant r = t"
    and "c_start_date r \<le> d" and "\<And>e. c_end_date r = Some e \<Longrightarrow> d \<le> e"
    and "c_status r = ''active''" and "Some (c_company r) = co" and "k = ENTRY_KIND_CLIENT" and "b"
    and "ci \<in> set (contract_items db)" and "ci_contract ci = c" and "ci_item_type ci = ''block_hours''"
proof -
  from assms obtain company where co: "co = Some company" "k = ENTRY_KIND_CLIENT" "b"
    by (auto simp: block_hours_contract_for_def split: if_splits option.splits)
  let ?cs = "[c \<leftarrow> contracts db.
                list_ex (\<lambda>ci. ci_contract ci = c_id c \<and> ci_item_type ci = ''block_hours'')
                  (contract_items db)
                \<and> c_tenant c = t \<and> c_company c = company \<and> c_status c = ''active''
                \<and> c_start_date c \<le> d
                \<and> (case c_end_date c of None \<Rightarrow> True | Some e \<Rightarrow> e \<ge> d)]"
  from assms co obtain r rs where
    "sort_key (\<lambda>c. - c_start_date c) (sort_key c_id ?cs) = r # rs" "c_id r = c"
    by (auto simp: block_hours_contract_for_def split: list.splits)
  then have "r \<in> set (sort_key (\<lambda>c. - c_start_date c) (sort_key c_id ?cs))" by simp
  then have "r \<in> set ?cs" by (simp only: set_sort)
  then have r: "r \<in> set (contracts db)" "c_tenant r = t" "c_company r = company"
    "c_status r = ''active''" "c_start_date r \<le> d"
    "case c_end_date r of None \<Rightarrow> True | Some e \<Rightarrow> e \<ge> d"
    "list_ex (\<lambda>ci. ci_contract ci = c_id r \<and> ci_item_type ci = ''block_hours'') (contract_items db)"
    by simp_all
  from r(7) obtain ci where "ci \<in> set (contract_items db)" "ci_contract ci = c_id r"
    "ci_item_type ci = ''block_hours''" by (auto simp: list_ex_iff)
  with r(1-6) \<open>c_id r = c\<close> co show thesis by (intro that [of r ci]) simp_all
qed

lemma covered_contract_draws:
  assumes "catalog_ok db" and "block_hours_contract_for db t co d k b = Some c" and "0 \<le> h"
  shows "is_ok (consume_hours_in_tx C db t c h (d * 86400) nb)"
proof -
  from assms(2) obtain r ci where r: "r \<in> set (contracts db)" "c_id r = c" "c_tenant r = t"
    "c_start_date r \<le> d" "\<And>e. c_end_date r = Some e \<Longrightarrow> d \<le> e"
    "ci \<in> set (contract_items db)" "ci_contract ci = c" "ci_item_type ci = ''block_hours''"
    by (rule block_hours_contract_SomeD) blast
  let ?rows = "[(ci_sort_order ci, block_item_of ci c').
           ci \<leftarrow> contract_items db, c' \<leftarrow> contracts db,
           c_id c' = ci_contract ci \<and> c_tenant c' = t
           \<and> ci_tenant ci = t \<and> ci_contract ci = c \<and> ci_item_type ci = ''block_hours'']"
  have "ci_tenant ci = t" using assms(1) r by (auto simp: catalog_ok_def)
  with r have "(ci_sort_order ci, block_item_of ci r) \<in> set ?rows" by force
  then have "set (sort_key fst ?rows) \<noteq> {}" by (simp only: set_sort) (rule notI, simp only: empty_iff)
  then obtain key item rest where sorted: "sort_key fst ?rows = (key, item) # rest"
    by (cases "sort_key fst ?rows") auto
  then have item: "select_block_item db t c = Some item" by (simp add: select_block_item_def)
  from sorted have "(key, item) \<in> set (sort_key fst ?rows)" by simp
  then have "(key, item) \<in> set ?rows" by (simp only: set_sort)
  then obtain ci' c' where "item = block_item_of ci' c'" "c' \<in> set (contracts db)" "c_id c' = c"
    by auto
  moreover from this r(1,2) assms(1) have "c' = r"
    by (auto simp: catalog_ok_def distinct_map dest: inj_onD)
  ultimately have "bi_start_date item \<le> d" "\<And>e. bi_end_date item = Some e \<Longrightarrow> d \<le> e"
    using r by (simp_all add: block_item_of_def)
  then have cov: "\<not> (d < bi_start_date item
      \<or> (case bi_end_date item of None \<Rightarrow> False | Some e \<Rightarrow> d > e))"
    by (auto split: option.splits)
  then show ?thesis
    using assms(3) item by (simp add: consume_hours_in_tx_def Let_def split: prod.split)
qed

text \<open>An entry whose contract is the one that covers its date can draw.\<close>

lemma consume_for_entry_total:
  assumes "catalog_ok db"
    and "\<And>e c. e \<in> set (time_entries db) \<Longrightarrow> entry_key t i e \<Longrightarrow> te_contract e = Some c \<Longrightarrow>
           \<exists>co k b. block_hours_contract_for db t co (te_date e) k b = Some c"
  shows "is_ok (consume_for_entry C db t i nb)"
proof (cases "select_one (\<lambda>e. entry_key t i e \<and> te_hours_consumed e = None) (time_entries db)")
  case (Some e)
  then have e: "e \<in> set (time_entries db)" "entry_key t i e" by (auto dest: select_one_SomeD)
  show ?thesis
  proof (cases "te_contract e")
    case c: (Some c)
    with e assms(2) obtain co k b where "block_hours_contract_for db t co (te_date e) k b = Some c"
      by blast
    note draw = covered_contract_draws [OF assms(1) this, of "of_int (te_duration_minutes e) / 60" C nb]
    let ?r = "consume_hours_in_tx C db t c (of_int (te_duration_minutes e) / 60) (te_date e * 86400) nb"
    show ?thesis
    proof (cases "of_int (te_duration_minutes e) / 60 \<le> (0::rat)")
      case False
      with draw obtain db1 out where "?r = Inr (db1, out)" by (cases ?r) auto
      with Some c show ?thesis by (simp add: consume_for_entry_def Let_def)
    qed (use Some c in \<open>simp add: consume_for_entry_def Let_def\<close>)
  qed (use Some in \<open>simp add: consume_for_entry_def\<close>)
qed (simp add: consume_for_entry_def)

lemma catalog_cong:
  assumes "contracts db' = contracts db" and "contract_items db' = contract_items db"
  shows "catalog_ok db' = catalog_ok db" and "block_hours_contract_for db' = block_hours_contract_for db"
  using assms by (simp_all add: catalog_ok_def block_hours_contract_for_def fun_eq_iff split: option.split)

lemma catalog_frame [simp]:
  "catalog_ok (db\<lparr>time_entries := es\<rparr>) = catalog_ok db"
  "catalog_ok (db\<lparr>audit_log := l\<rparr>) = catalog_ok db"
  "catalog_ok (db\<lparr>active_timers := ts\<rparr>) = catalog_ok db"
  "catalog_ok (db\<lparr>hour_balances := bs\<rparr>) = catalog_ok db"
  "block_hours_contract_for (db\<lparr>time_entries := es\<rparr>) = block_hours_contract_for db"
  "block_hours_contract_for (db\<lparr>audit_log := l\<rparr>) = block_hours_contract_for db"
  "block_hours_contract_for (db\<lparr>active_timers := ts\<rparr>) = block_hours_contract_for db"
  "block_hours_contract_for (db\<lparr>hour_balances := bs\<rparr>) = block_hours_contract_for db"
  by (simp_all add: catalog_ok_def block_hours_contract_for_def fun_eq_iff split: option.split)

section \<open>Day totals\<close>

text \<open>What a draw and a give-back keep of every entry.\<close>

abbreviation day_key :: "time_entry \<Rightarrow> uuid \<times> tenant \<times> uuid \<times> date \<times> int \<times> uuid option" where
  "day_key e \<equiv> (te_id e, te_tenant e, te_user e, te_date e, te_duration_minutes e, te_contract e)"

lemma day_minutes_cong:
  assumes "map day_key (time_entries db') = map day_key (time_entries db)"
  shows "day_minutes_excluding db' t u d ex = day_minutes_excluding db t u d ex"
proof -
  let ?p = "\<lambda>(i, t', u', d', m :: int, c :: uuid option). t' = t \<and> u' = u \<and> d' = d \<and> (case ex of None \<Rightarrow> True | Some j \<Rightarrow> i \<noteq> j)"
  have "day_minutes_excluding x t u d ex =
      sum_list (map (\<lambda>(i, t', u', d', m, c). m) (filter ?p (map day_key (time_entries x))))" for x
    by (simp add: day_minutes_excluding_def filter_map comp_def)
  then show ?thesis using assms by simp
qed

lemma day_minutes_split:
  assumes "distinct (map te_id (time_entries db))" and "e \<in> set (time_entries db)"
    and "te_tenant e = t"
  shows "day_minutes_excluding db t (te_user e) (te_date e) None =
         day_minutes_excluding db t (te_user e) (te_date e) (Some (te_id e)) + te_duration_minutes e"
proof -
  have "sum_list (map te_duration_minutes (filter P es)) =
      sum_list (map te_duration_minutes (filter (\<lambda>x. P x \<and> te_id x \<noteq> te_id e) es)) + te_duration_minutes e"
    if "distinct (map te_id es)" "e \<in> set es" "P e" for P and es :: "time_entry list"
    using that
  proof (induction es)
    case (Cons x xs)
    show ?case
    proof (cases "x = e")
      case True
      with Cons.prems have "filter (\<lambda>x. P x \<and> te_id x \<noteq> te_id e) xs = filter P xs"
        by (intro filter_cong) (auto simp: rev_image_eqI)
      with True Cons.prems show ?thesis by simp
    next
      case False
      with Cons.prems have "te_id x \<noteq> te_id e" "e \<in> set xs" by (auto simp: rev_image_eqI)
      with Cons show ?thesis by simp
    qed
  qed simp
  from this [of "time_entries db" "\<lambda>x. te_tenant x = t \<and> te_user x = te_user e \<and> te_date x = te_date e"] assms
  show ?thesis by (simp add: day_minutes_excluding_def conj_assoc)
qed

lemma day_minutes_excluding_update:
  assumes "\<And>e. te_id (g e) = te_id e"
  shows "day_minutes_excluding (db\<lparr>time_entries := update_where (entry_key t i) g (time_entries db)\<rparr>)
           t u d (Some i) = day_minutes_excluding db t u d (Some i)"
proof -
  let ?p = "\<lambda>e. te_tenant e = t \<and> te_user e = u \<and> te_date e = d \<and> te_id e \<noteq> i"
  have "filter ?p (update_where (entry_key t i) g es) = filter ?p es" for es
    using assms by (induction es) (auto simp: table_simps entry_key_def)
  then show ?thesis by (simp add: day_minutes_excluding_def)
qed

lemma updated_row:
  assumes "distinct (map te_id es)" and "e \<in> set es" and "te_id e = i" and "te_tenant e = t"
    and "\<And>e. te_id (g e) = te_id e" and "x \<in> set (update_where (entry_key t i) g es)" and "te_id x = i"
  shows "x = g e"
  using assms(6)
proof (rule in_update_whereE)
  fix y assume y: "y \<in> set es" "x = (if entry_key t i y then g y else y)"
  with assms(3,5,7) have "te_id y = te_id e" by (auto split: if_splits)
  then have "y = e" by (rule entry_unique [OF assms(1,2) y(1)])
  with y(2) assms(3,4) show ?thesis by (simp add: entry_key_def)
qed

lemma stamp_draw_day [simp]:
  "te_user (stamp_draw out e) = te_user e" "te_date (stamp_draw out e) = te_date e"
  "te_duration_minutes (stamp_draw out e) = te_duration_minutes e"
  "te_contract (stamp_draw out e) = te_contract e"
  by (simp_all add: stamp_draw_def)

lemma clear_draw_day [simp]:
  "te_user (clear_draw e) = te_user e" "te_date (clear_draw e) = te_date e"
  "te_duration_minutes (clear_draw e) = te_duration_minutes e"
  "te_contract (clear_draw e) = te_contract e"
  by (simp_all add: clear_draw_def)

lemma consume_for_entry_keys:
  assumes "consume_for_entry C db t i nb = Inr db'"
  shows "map day_key (time_entries db') = map day_key (time_entries db)"
  using assms
proof (rule consume_for_entry_InrE)
  fix e :: time_entry and c :: uuid and db1 :: time_db and out :: consume_outcome
  assume "time_entries db1 = time_entries db"
    "db' = db1\<lparr>time_entries := update_where (\<lambda>e. entry_key t i e \<and> te_hours_consumed e = None)
                 (stamp_draw out) (time_entries db1)\<rparr>"
  then show ?thesis by (simp add: map_update_where)
qed simp

lemma release_for_entry_keys:
  assumes "release_for_entry db t i = Inr db'"
  shows "map day_key (time_entries db') = map day_key (time_entries db)
    \<and> contracts db' = contracts db \<and> contract_items db' = contract_items db"
proof -
  have A: ?thesis if "release_hours_in_tx (db\<lparr>time_entries := update_where p clear_draw (time_entries db)\<rparr>) t b a = Inr db'"
    for p b a
  proof -
    from that obtain bs where "db' = (db\<lparr>time_entries := update_where p clear_draw (time_entries db)\<rparr>)\<lparr>hour_balances := bs\<rparr>"
      by (rule release_only_balances)
    then show ?thesis by (simp add: map_update_where)
  qed
  show ?thesis
    using assms by (auto simp: release_for_entry_def Let_def map_update_where split: option.splits dest: A)
qed

lemma get_time_entry_of_keys:
  assumes "(i, t) \<in> set (map (\<lambda>e. (te_id e, te_tenant e)) (time_entries db))"
  obtains e where "get_time_entry db t i = Inr e" and "e \<in> set (time_entries db)"
    and "te_id e = i" and "te_tenant e = t"
proof -
  from assms have "select_one (entry_key t i) (time_entries db) \<noteq> None"
    by (auto simp: select_one_None entry_key_def)
  then obtain e where e: "select_one (entry_key t i) (time_entries db) = Some e" by blast
  then have "e \<in> set (time_entries db)" "entry_key t i e" by (auto dest: select_one_SomeD)
  with e show thesis by (intro that [of e]) (simp_all add: get_time_entry_def entry_key_def)
qed

section \<open>Properties\<close>

text \<open>
  C2. The hours ledger balances: after any sequence of entries created, edited and deleted,
  timers started and stopped, timesheets moved and periods rolled, of any tenants, every hour
  balance adds up and has given out exactly the hours that the time entries drawing on it
  record, so no hour is lost and none is drawn twice.
\<close>

theorem hours_ledger_balances:
  assumes "time_ok db" and "(time_step C z)\<^sup>*\<^sup>* db db'"
  shows "time_ok db'"
  using assms(2) by (induction rule: rtranclp_induct) (use assms(1) time_step_ok in auto)

definition sample_request :: create_time_entry_request where
  "sample_request = \<lparr> cr_user = 5, cr_date = 20460, cr_start_time = None, cr_end_time = None,
     cr_duration_minutes = Some 90, cr_worked_minutes = None, cr_billable_minutes = None,
     cr_work_type = 11, cr_ticket = None, cr_project = None, cr_work_category = None,
     cr_task = None, cr_entry_kind = None, cr_company = Some 3, cr_notes = None,
     cr_is_billable = True, cr_hourly_rate = None \<rparr>"

definition sample_edit :: update_time_entry_request where
  "sample_edit = \<lparr> ur_date = None, ur_start_time = None, ur_end_time = None,
     ur_duration_minutes = Some 60, ur_worked_minutes = None, ur_billable_minutes = None,
     ur_work_type = None, ur_ticket = None, ur_project = None, ur_work_category = None,
     ur_task = None, ur_notes = None, ur_is_billable = None, ur_hourly_rate = None \<rparr>"

definition sample_empty :: time_db where
  "sample_empty = (sample_week sample_entry)\<lparr>time_entries := []\<rparr>"

definition sample_ctx :: audit_ctx where
  "sample_ctx = audit_ctx_system 7"

lemma sample_empty_ok: "time_ok sample_empty" "catalog_ok sample_empty"
  "30 \<notin> te_id ` set (time_entries sample_empty)" "9 \<notin> hb_id ` set (hour_balances sample_empty)"
  by (simp_all add: sample_empty_def sample_week_def sample_hours_def time_ok_def balances_ok_def
      items_ok_def is_num2_def used_of_def drawn_def catalog_ok_def)

theorem hours_ledger_balances_witness:
  "\<exists>db'. db' = fst (create_time_entry gregorian sample_empty 7 sample_request sample_ctx 30 9)
     \<and> time_ok db' \<and> used_of db' 9 = 3 / 2"
proof -
  let ?db = "fst (create_time_entry gregorian sample_empty 7 sample_request sample_ctx 30 9)"
  have "(time_step gregorian (\<lambda>_ _. 0))\<^sup>*\<^sup>* sample_empty ?db"
    by (intro r_into_rtranclp time_step.create sample_empty_ok)
  moreover have "used_of ?db 9 = 3 / 2" by code_simp
  ultimately show ?thesis using hours_ledger_balances [OF sample_empty_ok(1)] by blast
qed

text \<open>
  Creating an entry is all or nothing although it runs as two transactions: a failed
  create changes nothing, and one that inserted its row cannot fail in the draw that follows.
  On success the new row is returned and the user's day stays within the tenant's cap.
\<close>

theorem create_time_entry_atomic:
  assumes "catalog_ok db" and "new_id \<notin> te_id ` set (time_entries db)"
  shows "case create_time_entry C db t r ctx new_id nb of
           (db', Inl err) \<Rightarrow> db' = db
         | (db', Inr e) \<Rightarrow> te_id e = new_id \<and> te_tenant e = t \<and> e \<in> set (time_entries db')
             \<and> day_minutes_excluding db' t (cr_user r) (cr_date r) None \<le> read_max_minutes_per_day db t"
proof (cases "create_entry_tx db t r ctx new_id")
  case (Inl err)
  then show ?thesis by (simp add: create_time_entry_def)
next
  case (Inr db1)
  then obtain e where e: "te_id e = new_id" "te_tenant e = t" "te_user e = cr_user r" "te_date e = cr_date r"
    and db1: "db1 = db\<lparr>time_entries := time_entries db @ [e],
      audit_log := audit_write (audit_log db) t ctx ACreate ''time_entries'' (Some new_id)\<rparr>"
    and cap: "day_minutes_excluding db t (cr_user r) (cr_date r) None + te_duration_minutes e
           \<le> read_max_minutes_per_day db t"
    and con: "te_contract e = block_hours_contract_for db t (cr_company r) (cr_date r) (te_entry_kind e)
           (te_is_billable e = Some True)"
    by (rule create_entry_tx_InrE)
  have "is_ok (consume_for_entry C db1 t new_id nb)"
  proof (rule consume_for_entry_total)
    fix x c
    assume x: "x \<in> set (time_entries db1)" "entry_key t new_id x" "te_contract x = Some c"
    with assms(2) db1 have "x = e" by (auto simp: entry_key_def)
    with x(3) con e(4) show "\<exists>co k b. block_hours_contract_for db1 t co (te_date x) k b = Some c"
      by (auto simp: db1)
  qed (use assms(1) db1 in simp)
  then obtain db2 where c: "consume_for_entry C db1 t new_id nb = Inr db2"
    by (cases "consume_for_entry C db1 t new_id nb") auto
  note keys = consume_for_entry_keys [OF c]
  have "(new_id, t) \<in> set (map (\<lambda>e. (te_id e, te_tenant e)) (time_entries db1))"
    using e by (simp add: db1)
  also have "map (\<lambda>e. (te_id e, te_tenant e)) (time_entries db1) = map (\<lambda>e. (te_id e, te_tenant e)) (time_entries db2)"
    using arg_cong [OF keys, of "map (\<lambda>(i, t, _). (i, t))"] by (simp add: comp_def)
  finally obtain e' where e': "get_time_entry db2 t new_id = Inr e'" "e' \<in> set (time_entries db2)"
      "te_id e' = new_id" "te_tenant e' = t"
    by (rule get_time_entry_of_keys)
  have "day_minutes_excluding db2 t (cr_user r) (cr_date r) None
      = day_minutes_excluding db1 t (cr_user r) (cr_date r) None" by (rule day_minutes_cong [OF keys])
  also have "\<dots> = day_minutes_excluding db t (cr_user r) (cr_date r) None + te_duration_minutes e"
    using e by (simp add: day_minutes_excluding_def db1)
  finally show ?thesis using cap e' Inr c by (simp add: create_time_entry_def)
qed

theorem create_time_entry_atomic_witness:
  "\<exists>db' e. create_time_entry gregorian sample_empty 7 sample_request sample_ctx 30 9 = (db', Inr e)
     \<and> te_id e = 30 \<and> day_minutes_excluding db' 7 5 20460 None \<le> 1440"
proof -
  let ?r = "create_time_entry gregorian sample_empty 7 sample_request sample_ctx 30 9"
  have "is_ok (snd ?r)" by code_simp
  then obtain db' e where r: "?r = (db', Inr e)" by (cases ?r; cases "snd ?r") auto
  have "cr_user sample_request = 5" "cr_date sample_request = 20460" "read_max_minutes_per_day sample_empty 7 = 1440"
    by code_simp+
  with create_time_entry_atomic [OF sample_empty_ok(2,3),
      where C = gregorian and t = 7 and r = sample_request and ctx = sample_ctx and nb = 9] r
  show ?thesis by simp
qed

text \<open>
  Editing an entry is all or nothing although it runs as three transactions: a failed edit
  changes nothing, and once the row is updated neither the give-back nor the new draw can fail.
  On success the edited row is returned and the day it now belongs to stays within the cap.
\<close>

theorem update_time_entry_atomic:
  assumes "time_ok db" and "catalog_ok db"
  shows "case update_time_entry C db t i r nb of
           (db', Inl err) \<Rightarrow> db' = db
         | (db', Inr e) \<Rightarrow> te_id e = i \<and> te_tenant e = t \<and> e \<in> set (time_entries db')
             \<and> day_minutes_excluding db' t (te_user e) (te_date e) None \<le> read_max_minutes_per_day db t"
proof (cases "get_time_entry db t i")
  case (Inr current)
  then have cur: "current \<in> set (time_entries db)" "te_id current = i" "te_tenant current = t"
    by (auto simp: get_time_entry_def entry_key_def split: option.splits dest: select_one_SomeD)
  have d: "distinct (map te_id (time_entries db))" using assms(1) by (simp add: time_ok_def)
  show ?thesis
  proof (cases "update_entry_tx db t current r")
    case upd: (Inr db1)
    then obtain g where db1: "db1 = db\<lparr>time_entries := update_where (entry_key t i) g (time_entries db)\<rparr>"
      and g: "\<And>e. te_id (g e) = te_id e" "\<And>e. te_tenant (g e) = te_tenant e"
        "\<And>e. te_hours_consumed (g e) = te_hours_consumed e"
        "\<And>e. te_hours_balance (g e) = te_hours_balance e"
        "\<And>e. te_date (g e) = opt_or (ur_date r) (te_date e)" "\<And>e. te_user (g e) = te_user e"
      and con: "\<And>e. \<exists>k b. te_contract (g e) = block_hours_contract_for db t (te_company current)
           (opt_or (ur_date r) (te_date current)) k b"
      and cap: "\<And>e. day_minutes_excluding db t (te_user current) (opt_or (ur_date r) (te_date current))
           (Some i) + te_duration_minutes (g e) \<le> read_max_minutes_per_day db t"
      unfolding cur(2) [symmetric] by (rule update_entry_tx_InrE) blast
    have row: "x = g current" if "x \<in> set (time_entries db1)" "te_id x = i" for x
      using updated_row [OF d cur g(1)] that by (simp add: db1)
    have "time_ok db1" unfolding db1 using assms(1) g(1-4) by (rule time_ok_update_fields)
    then obtain db2 where rel: "release_for_entry db1 t i = Inr db2" by (rule release_for_entry_ok)
    note k2 = release_for_entry_keys [OF rel]
    have cat: "contracts db2 = contracts db" "contract_items db2 = contract_items db"
      using k2 by (simp_all add: db1)
    have "is_ok (consume_for_entry C db2 t i nb)"
    proof (rule consume_for_entry_total)
      fix x c assume x: "x \<in> set (time_entries db2)" "entry_key t i x" "te_contract x = Some c"
      obtain y where "y \<in> set (time_entries db1)" "day_key x = day_key y"
        using conjunct1 [OF k2] x(1) by (rule map_eq_member)
      with x row [of y] have "te_date x = te_date (g current)" "te_contract (g current) = Some c"
        by (auto simp: entry_key_def)
      with con [of current] g(5) show "\<exists>co k b. block_hours_contract_for db2 t co (te_date x) k b = Some c"
        unfolding catalog_cong(2) [OF cat] by metis
    qed (use assms(2) catalog_cong(1) [OF cat] in simp)
    then obtain db3 where c: "consume_for_entry C db2 t i nb = Inr db3"
      by (cases "consume_for_entry C db2 t i nb") auto
    have keys: "map day_key (time_entries db3) = map day_key (time_entries db1)"
      using k2 consume_for_entry_keys [OF c] by simp
    have mem: "g current \<in> set (time_entries db1)"
      using cur by (force simp: db1 set_update_where entry_key_def)
    have "(i, t) \<in> set (map (\<lambda>e. (te_id e, te_tenant e)) (time_entries db1))"
      using imageI [OF mem, of "\<lambda>e. (te_id e, te_tenant e)"] g(1,2) cur by simp
    also have "map (\<lambda>e. (te_id e, te_tenant e)) (time_entries db1) = map (\<lambda>e. (te_id e, te_tenant e)) (time_entries db3)"
      using arg_cong [OF keys, of "map (\<lambda>(i, t, _). (i, t))"] by (simp add: comp_def)
    finally obtain e where e: "get_time_entry db3 t i = Inr e" "e \<in> set (time_entries db3)"
        "te_id e = i" "te_tenant e = t"
      by (rule get_time_entry_of_keys)
    obtain y where "y \<in> set (time_entries db1)" "day_key e = day_key y"
      using keys e(2) by (rule map_eq_member)
    with row [of y] e(3) have ek: "te_user e = te_user current" "te_date e = te_date (g current)"
      using g(6) by auto
    let ?date = "opt_or (ur_date r) (te_date current)"
    have "day_minutes_excluding db3 t (te_user e) (te_date e) None
        = day_minutes_excluding db1 t (te_user (g current)) (te_date (g current)) None"
      using day_minutes_cong [OF keys] ek g(6) by simp
    also have "\<dots> = day_minutes_excluding db1 t (te_user current) ?date (Some i) + te_duration_minutes (g current)"
      using day_minutes_split [OF _ mem] \<open>time_ok db1\<close> g cur by (simp add: time_ok_def)
    also have "day_minutes_excluding db1 t (te_user current) ?date (Some i)
        = day_minutes_excluding db t (te_user current) ?date (Some i)"
      unfolding db1 by (rule day_minutes_excluding_update) (rule g(1))
    finally show ?thesis using cap [of current] e Inr upd rel c by (simp add: update_time_entry_def)
  qed (simp add: update_time_entry_def Inr)
qed (simp add: update_time_entry_def)

theorem update_time_entry_atomic_witness:
  "\<exists>db' e. update_time_entry gregorian
       (fst (create_time_entry gregorian sample_empty 7 sample_request sample_ctx 30 9)) 7 30 sample_edit 10
     = (db', Inr e) \<and> te_id e = 30 \<and> day_minutes_excluding db' 7 (te_user e) (te_date e) None \<le> 1440"
proof -
  let ?db = "fst (create_time_entry gregorian sample_empty 7 sample_request sample_ctx 30 9)"
  let ?r = "update_time_entry gregorian ?db 7 30 sample_edit 10"
  have ok: "time_ok ?db" by (rule create_time_entry_ok) (rule sample_empty_ok)+
  have "contracts ?db = contracts sample_empty" "contract_items ?db = contract_items sample_empty"
    by code_simp+
  then have cat: "catalog_ok ?db" using catalog_cong(1) sample_empty_ok(2) by blast
  have "is_ok (snd ?r)" by code_simp
  then obtain db' e where r: "?r = (db', Inr e)" by (cases ?r; cases "snd ?r") auto
  have "read_max_minutes_per_day ?db 7 = 1440" by code_simp
  with update_time_entry_atomic [OF ok cat, where C = gregorian and t = 7 and i = 30 and r = sample_edit and nb = 10] r
  show ?thesis by simp
qed

text \<open>
  Deleting an entry gives its hours back: the delete succeeds, the row is gone, every
  other row is kept, and each balance has its used hours reduced by exactly what the entry
  had recorded against it.
\<close>

theorem delete_gives_hours_back:
  assumes "time_ok db" and "get_time_entry db t i = Inr e"
  shows "\<exists>db'. delete_time_entry db t i = (db', Inr ())
    \<and> map te_id (time_entries db') = map te_id (delete_where (entry_key t i) (time_entries db))
    \<and> (\<forall>k. used_of db' k = used_of db k
         - (if te_hours_balance e = Some k then opt_or (te_hours_consumed e) 0 else 0))"
proof -
  have d: "distinct (map te_id (time_entries db))" using assms(1) by (simp add: time_ok_def)
  from assms(2) have e: "e \<in> set (time_entries db)" "entry_key t i e"
    by (auto simp: get_time_entry_def split: option.splits dest: select_one_SomeD)
  obtain db1 where r: "release_for_entry db t i = Inr db1" "time_ok db1"
    and ids: "map te_id (time_entries db1) = map te_id (time_entries db)"
    and clear: "\<And>x. x \<in> set (time_entries db1) \<Longrightarrow> entry_key t i x \<Longrightarrow> te_hours_consumed x = None"
    and rest: "delete_where (entry_key t i) (time_entries db1) = delete_where (entry_key t i) (time_entries db)"
    using assms(1) by (rule release_for_entry_ok) blast
  define db2 where "db2 = db1\<lparr>time_entries := delete_where (entry_key t i) (time_entries db1)\<rparr>"
  have "time_ok db2" unfolding db2_def using r(2) clear by (rule time_ok_delete)
  have "list_ex (entry_key t i) (time_entries db1)"
  proof (rule ccontr)
    assume "\<not> ?thesis"
    then have "delete_where (entry_key t i) (time_entries db1) = time_entries db1"
      by (simp add: delete_where_def list_ex_iff filter_id_conv)
    then have "delete_where (entry_key t i) (time_entries db) = time_entries db1" by (simp add: rest)
    then have sub: "set (time_entries db1) = {x \<in> set (time_entries db). \<not> entry_key t i x}"
      by (metis set_delete_where)
    have "te_id e \<in> set (map te_id (time_entries db1))" using e(1) by (simp add: ids)
    then obtain y where "y \<in> set (time_entries db)" "\<not> entry_key t i y" "te_id y = te_id e"
      using sub by auto
    with entry_unique [OF d e(1)] e(2) show False by blast
  qed
  then have del: "delete_time_entry db t i = (db2, Inr ())"
    by (simp add: delete_time_entry_def delete_entry_tx_def r(1) db2_def)
  have "used_of db2 k = used_of db k
         - (if te_hours_balance e = Some k then opt_or (te_hours_consumed e) 0 else 0)" for k
  proof -
    let ?b = "\<lambda>x. te_hours_balance x = Some k" and ?h = "\<lambda>x. opt_or (te_hours_consumed x) 0"
    have "used_of db2 k = drawn db2 k" using \<open>time_ok db2\<close> by (simp add: time_ok_def)
    also have "\<dots> = drawn db k - sum_where (\<lambda>x. ?b x \<and> entry_key t i x) ?h (time_entries db)"
      by (simp add: drawn_def db2_def rest sum_where_delete)
    also have "sum_where (\<lambda>x. ?b x \<and> entry_key t i x) ?h (time_entries db)
        = sum_where (\<lambda>x. ?b x \<and> te_id x = te_id e) ?h (time_entries db)"
      using e(2) entry_unique [OF d e(1)] by (intro sum_where_cong) (auto simp: entry_key_def)
    also have "\<dots> = (if ?b e then ?h e else 0)" using d e(1) by (rule sum_where_unique_key)
    finally show ?thesis using assms(1) by (simp add: time_ok_def)
  qed
  with del show ?thesis by (auto simp: db2_def rest)
qed

theorem delete_gives_hours_back_witness:
  "\<exists>db e db'. db = fst (create_time_entry gregorian sample_empty 7 sample_request sample_ctx 30 9)
     \<and> get_time_entry db 7 30 = Inr e \<and> delete_time_entry db 7 30 = (db', Inr ())
     \<and> used_of db 9 = 3 / 2 \<and> used_of db' 9 = 0"
proof -
  let ?db = "fst (create_time_entry gregorian sample_empty 7 sample_request sample_ctx 30 9)"
  have ok: "time_ok ?db" by (rule create_time_entry_ok) (rule sample_empty_ok)+
  have ev: "map_sum id (\<lambda>e. (te_hours_balance e, te_hours_consumed e)) (get_time_entry ?db 7 30)
      = Inr (Some 9, Some (3 / 2))" by code_simp
  then obtain e where e: "get_time_entry ?db 7 30 = Inr e" "te_hours_balance e = Some 9"
    "te_hours_consumed e = Some (3 / 2)" by (cases "get_time_entry ?db 7 30") auto
  have u: "used_of ?db 9 = 3 / 2" by code_simp
  from delete_gives_hours_back [OF ok e(1)] obtain db' where "delete_time_entry ?db 7 30 = (db', Inr ())"
    "used_of db' 9 = used_of ?db 9 - (if te_hours_balance e = Some 9 then opt_or (te_hours_consumed e) 0 else 0)"
    by blast
  with e u show ?thesis by (intro exI [of _ ?db] exI [of _ e] exI [of _ db']) simp
qed

definition edit_inside_delete :: "cal \<Rightarrow> time_db \<Rightarrow> tenant \<Rightarrow> uuid \<Rightarrow> update_time_entry_request \<Rightarrow> uuid
    \<Rightarrow> time_db app_result" where
  "edit_inside_delete C db t i r nb =
     and_then (release_for_entry db t i) (\<lambda>db1.
       case update_time_entry C db1 t i r nb of
         (db2, _) \<Rightarrow> delete_entry_tx db2 t i)"

text \<open>
  Interleaving: an edit that runs between the two transactions of a delete draws the hours
  again, and the delete then removes the row that recorded them. The balance stays short by
  hours that no entry accounts for.
\<close>

theorem edit_inside_delete_loses_hours:
  "map_sum id (\<lambda>db. (used_of db 9, drawn db 9, length (time_entries db)))
     (edit_inside_delete gregorian
        (fst (create_time_entry gregorian sample_empty 7 sample_request sample_ctx 30 9)) 7 30 sample_edit 10)
   = Inr (1, 0, 0)"
  by code_simp

definition sample_one_hour :: time_db where
  "sample_one_hour = sample_empty\<lparr>contract_items :=
     map (\<lambda>ci. ci\<lparr>ci_included_hours := Some 1\<rparr>) (contract_items sample_empty)\<rparr>"

text \<open>
  An entry that the block covers down to the rounding is drawn and then charged in full:
  on a block of one hour, 40 minutes leave 0.33 hours, a further 20 minutes run over by less
  than half a hundredth of an hour, the recorded overage is 0.00, the entry stays ready to
  bill, and the invoice, which reads an overage of zero as no draw, bills the whole 20 minutes.
\<close>

theorem covered_entry_is_charged_in_full:
  "(let db1 = fst (create_time_entry gregorian sample_one_hour 7
                (sample_request\<lparr>cr_duration_minutes := Some 40\<rparr>) sample_ctx 30 9);
        db2 = fst (create_time_entry gregorian db1 7
                (sample_request\<lparr>cr_duration_minutes := Some 20\<rparr>) sample_ctx 31 10)
    in map_sum id (\<lambda>e. (te_hours_consumed e, te_overage_hours e, invoice_eligible 7 3 e, invoice_line_figures e))
         (get_time_entry db2 7 31))
   = Inr (Some (33 / 100), Some 0, True, (1 / 3, 120, 40))"
  by code_simp

definition sample_timer :: time_db where
  "sample_timer = sample_empty\<lparr>active_timers :=
     [\<lparr> at_id = 40, at_tenant = 7, at_user = 5, at_ticket = None, at_project = None,
        at_company = Some 3, at_work_type = None, at_notes = None, at_started_at = 20460 * 86400 \<rparr>]\<rparr>"

text \<open>
  A stopped timer skips two rules that the manual path enforces: the entry is categorised
  as ticketed although it has no ticket, and the day may exceed the tenant's cap.
\<close>

theorem stopped_timer_skips_the_rules:
  "(let r = stop_timer gregorian (\<lambda>now _. now div 86400) sample_timer 7 40 5 (20461 * 86400 + 3600) 30 9
    in (map_sum id (\<lambda>e. (te_work_category e, te_ticket e)) (snd r),
        derive_work_category (Some ''ticketed'') None None,
        day_minutes_excluding (fst r) 7 5 20461 None,
        read_max_minutes_per_day (fst r) 7))
   = (Inr (Some ''ticketed'', None),
      Inl (BadRequest ''work_category 'ticketed' requires a ticket_id''), 1500, 1440)"
  by code_simp

text \<open>
  Time worked while a contract ran is not drawn from it once the sweep has marked it
  expired: only an active contract is considered, whatever the date of the entry.
\<close>

theorem expired_contract_covers_nothing:
  assumes "\<And>c. c \<in> set (contracts db) \<Longrightarrow> c_company c = company \<Longrightarrow> c_status c = ''expired''"
  shows "block_hours_contract_for db t (Some company) d k b = None"
proof (rule ccontr)
  assume "block_hours_contract_for db t (Some company) d k b \<noteq> None"
  then obtain c where "block_hours_contract_for db t (Some company) d k b = Some c" by auto
  then show False by (rule block_hours_contract_SomeD) (use assms in auto)
qed

theorem expired_contract_covers_nothing_witness:
  "block_hours_contract_for sample_empty 7 (Some 3) 20460 ''client'' True = Some 1
   \<and> block_hours_contract_for
       (sample_empty\<lparr>contracts := map (\<lambda>c. c\<lparr>c_status := ''expired''\<rparr>) (contracts sample_empty)\<rparr>)
       7 (Some 3) 20460 ''client'' True = None"
proof
  show "block_hours_contract_for sample_empty 7 (Some 3) 20460 ''client'' True = Some 1" by code_simp
  show "block_hours_contract_for
       (sample_empty\<lparr>contracts := map (\<lambda>c. c\<lparr>c_status := ''expired''\<rparr>) (contracts sample_empty)\<rparr>)
       7 (Some 3) 20460 ''client'' True = None"
    by (rule expired_contract_covers_nothing) auto
qed

end
