(* ===== verification/Billing_Types.thy ===== *)
theory Billing_Types
  imports Calendar
begin

text \<open>
  The enumerations of billing (crates/mokosh-types/src/billing.rs) with their text forms, the
  overdue rule of src/src/modules/billing/models.rs, and the shape of an invoice number
  (src/src/modules/billing/numbering.rs). A status column carries a CHECK constraint that admits
  exactly the text forms, so the tables of \<open>Billing_Ledger\<close> hold the enumeration itself; the
  round trips below are what makes that the same thing.
\<close>

section \<open>Statuses\<close>

datatype invoice_status = Draft | Pending | Sent | Paid | PartiallyPaid | Void | WrittenOff

primrec invoice_status_as_str :: "invoice_status \<Rightarrow> string" where
  "invoice_status_as_str Draft = ''draft''"
| "invoice_status_as_str Pending = ''pending''"
| "invoice_status_as_str Sent = ''sent''"
| "invoice_status_as_str Paid = ''paid''"
| "invoice_status_as_str PartiallyPaid = ''partially_paid''"
| "invoice_status_as_str Void = ''void''"
| "invoice_status_as_str WrittenOff = ''written_off''"

definition invoice_status_from_str :: "string \<Rightarrow> invoice_status option" where
  "invoice_status_from_str s =
     (if s = ''draft'' then Some Draft
      else if s = ''pending'' then Some Pending
      else if s = ''sent'' then Some Sent
      else if s = ''paid'' then Some Paid
      else if s = ''partially_paid'' then Some PartiallyPaid
      else if s = ''void'' then Some Void
      else if s = ''written_off'' then Some WrittenOff
      else None)"

primrec is_frozen :: "invoice_status \<Rightarrow> bool" where
  "is_frozen Draft = False"
| "is_frozen Pending = False"
| "is_frozen Sent = True"
| "is_frozen Paid = True"
| "is_frozen PartiallyPaid = True"
| "is_frozen Void = True"
| "is_frozen WrittenOff = True"

datatype payment_method = Check | CreditCard | Ach | Wire | Cash | Paypal | OtherMethod

primrec payment_method_as_str :: "payment_method \<Rightarrow> string" where
  "payment_method_as_str Check = ''check''"
| "payment_method_as_str CreditCard = ''credit_card''"
| "payment_method_as_str Ach = ''ach''"
| "payment_method_as_str Wire = ''wire''"
| "payment_method_as_str Cash = ''cash''"
| "payment_method_as_str Paypal = ''paypal''"
| "payment_method_as_str OtherMethod = ''other''"

definition payment_method_from_str :: "string \<Rightarrow> payment_method option" where
  "payment_method_from_str s =
     (if s = ''check'' then Some Check
      else if s = ''credit_card'' then Some CreditCard
      else if s = ''ach'' then Some Ach
      else if s = ''wire'' then Some Wire
      else if s = ''cash'' then Some Cash
      else if s = ''paypal'' then Some Paypal
      else if s = ''other'' then Some OtherMethod
      else None)"

datatype credit_note_status = Issued | CreditVoid

primrec credit_note_status_as_str :: "credit_note_status \<Rightarrow> string" where
  "credit_note_status_as_str Issued = ''issued''"
| "credit_note_status_as_str CreditVoid = ''void''"

definition credit_note_status_from_str :: "string \<Rightarrow> credit_note_status option" where
  "credit_note_status_from_str s =
     (if s = ''issued'' then Some Issued else if s = ''void'' then Some CreditVoid else None)"

datatype invoice_line_type =
  LService | LProduct | LTimeEntry | LMileage | LAdjustment | LTax | LDiscount

primrec invoice_line_type_as_str :: "invoice_line_type \<Rightarrow> string" where
  "invoice_line_type_as_str LService = ''service''"
| "invoice_line_type_as_str LProduct = ''product''"
| "invoice_line_type_as_str LTimeEntry = ''time_entry''"
| "invoice_line_type_as_str LMileage = ''mileage''"
| "invoice_line_type_as_str LAdjustment = ''adjustment''"
| "invoice_line_type_as_str LTax = ''tax''"
| "invoice_line_type_as_str LDiscount = ''discount''"

definition invoice_line_type_from_str :: "string \<Rightarrow> invoice_line_type option" where
  "invoice_line_type_from_str s =
     (if s = ''service'' then Some LService
      else if s = ''product'' then Some LProduct
      else if s = ''time_entry'' then Some LTimeEntry
      else if s = ''mileage'' then Some LMileage
      else if s = ''adjustment'' then Some LAdjustment
      else if s = ''tax'' then Some LTax
      else if s = ''discount'' then Some LDiscount
      else None)"

datatype delivery_method = ByEmail | ByPost | ByOther

primrec delivery_method_as_str :: "delivery_method \<Rightarrow> string" where
  "delivery_method_as_str ByEmail = ''email''"
| "delivery_method_as_str ByPost = ''postal''"
| "delivery_method_as_str ByOther = ''other''"

datatype provider_kind = Xero | Quickbooks

primrec provider_kind_as_str :: "provider_kind \<Rightarrow> string" where
  "provider_kind_as_str Xero = ''xero''"
| "provider_kind_as_str Quickbooks = ''quickbooks''"

definition provider_kind_parse :: "string \<Rightarrow> provider_kind option" where
  "provider_kind_parse s =
     (if s = ''xero'' then Some Xero else if s = ''quickbooks'' then Some Quickbooks else None)"

text \<open>
  Every enumeration has the same contract: a text form and a parser that inverts it and accepts
  nothing else. The lemmas of the contract are proved once.
\<close>

locale text_enum =
  fixes as_str :: "'a \<Rightarrow> string" and from_str :: "string \<Rightarrow> 'a option"
  assumes from_as: "from_str (as_str x) = Some x"
    and only: "from_str s = Some x \<Longrightarrow> as_str x = s"
begin

lemma from_str_iff: "from_str s = Some x \<longleftrightarrow> s = as_str x"
  using from_as only by blast

lemma as_str_inject: "as_str x = as_str y \<longleftrightarrow> x = y"
  using from_as by (metis option.inject)

lemma rejects: "from_str s = None \<longleftrightarrow> s \<notin> range as_str"
  using from_as only by (metis not_None_eq rangeE rangeI)

end

interpretation invoice_statuses: text_enum invoice_status_as_str invoice_status_from_str
proof
  show "invoice_status_from_str (invoice_status_as_str x) = Some x" for x
    by (cases x) (simp_all add: invoice_status_from_str_def)
  show "invoice_status_from_str s = Some x \<Longrightarrow> invoice_status_as_str x = s" for s x
    by (auto simp: invoice_status_from_str_def split: if_splits)
qed

interpretation payment_methods: text_enum payment_method_as_str payment_method_from_str
proof
  show "payment_method_from_str (payment_method_as_str x) = Some x" for x
    by (cases x) (simp_all add: payment_method_from_str_def)
  show "payment_method_from_str s = Some x \<Longrightarrow> payment_method_as_str x = s" for s x
    by (auto simp: payment_method_from_str_def split: if_splits)
qed

interpretation credit_note_statuses: text_enum credit_note_status_as_str credit_note_status_from_str
proof
  show "credit_note_status_from_str (credit_note_status_as_str x) = Some x" for x
    by (cases x) (simp_all add: credit_note_status_from_str_def)
  show "credit_note_status_from_str s = Some x \<Longrightarrow> credit_note_status_as_str x = s" for s x
    by (auto simp: credit_note_status_from_str_def split: if_splits)
qed

interpretation invoice_line_types: text_enum invoice_line_type_as_str invoice_line_type_from_str
proof
  show "invoice_line_type_from_str (invoice_line_type_as_str x) = Some x" for x
    by (cases x) (simp_all add: invoice_line_type_from_str_def)
  show "invoice_line_type_from_str s = Some x \<Longrightarrow> invoice_line_type_as_str x = s" for s x
    by (auto simp: invoice_line_type_from_str_def split: if_splits)
qed

interpretation provider_kinds: text_enum provider_kind_as_str provider_kind_parse
proof
  show "provider_kind_parse (provider_kind_as_str x) = Some x" for x
    by (cases x) (simp_all add: provider_kind_parse_def)
  show "provider_kind_parse s = Some x \<Longrightarrow> provider_kind_as_str x = s" for s x
    by (auto simp: provider_kind_parse_def split: if_splits)
qed

section \<open>Overdue\<close>

definition overdue_days :: "invoice_status \<Rightarrow> decimal \<Rightarrow> date \<Rightarrow> date \<Rightarrow> int option" where
  "overdue_days status balance_due due_date today =
     (if status \<in> {Sent, PartiallyPaid} \<and> balance_due > 0 \<and> due_date < today
      then Some (today - due_date) else None)"

definition mark_overdue :: "invoice_status \<Rightarrow> decimal \<Rightarrow> date \<Rightarrow> date \<Rightarrow> bool \<times> int" where
  "mark_overdue status balance_due due_date today =
     (let days = overdue_days status balance_due due_date today
      in (days \<noteq> None, opt_or days 0))"

section \<open>Numbers\<close>

datatype number_scheme = TenantSequence | CompanyPrefix

primrec number_scheme_as_str :: "number_scheme \<Rightarrow> string" where
  "number_scheme_as_str TenantSequence = ''tenant_sequence''"
| "number_scheme_as_str CompanyPrefix = ''company_prefix''"

definition number_scheme_from_setting :: "string option \<Rightarrow> number_scheme" where
  "number_scheme_from_setting v = (if v = Some ''company_prefix'' then CompanyPrefix else TenantSequence)"

definition PREFIX_ALPHABET :: string where
  "PREFIX_ALPHABET = ''ABCDEFGHJKMNPQRSTUVWXYZ23456789''"

definition PREFIX_LEN :: nat where "PREFIX_LEN = 4"
definition PREFIX_ATTEMPTS :: nat where "PREFIX_ATTEMPTS = 5"
definition DEFAULT_NET_DAYS :: int where "DEFAULT_NET_DAYS = 30"

text \<open>Four indices drawn below the alphabet's length give a prefix.\<close>

definition generate_prefix :: "(nat \<Rightarrow> nat) \<Rightarrow> string" where
  "generate_prefix draw =
     map (\<lambda>k. PREFIX_ALPHABET ! (draw k mod length PREFIX_ALPHABET)) [0..<PREFIX_LEN]"

definition format_company_number :: "string \<Rightarrow> nat \<Rightarrow> string" where
  "format_company_number prefix n = prefix @ ''-'' @ pad6 n"

definition format_tenant_number :: "string \<Rightarrow> nat \<Rightarrow> string" where
  "format_tenant_number prefix n = prefix @ pad6 n"

lemma length_prefix [simp]: "length (generate_prefix draw) = 4"
  by (simp add: generate_prefix_def PREFIX_LEN_def)

lemma dash_not_in_alphabet: "CHR ''-'' \<notin> set PREFIX_ALPHABET"
  by (simp add: PREFIX_ALPHABET_def)

lemma generate_prefix_alphabet: "set (generate_prefix draw) \<subseteq> set PREFIX_ALPHABET"
proof
  fix c assume "c \<in> set (generate_prefix draw)"
  then obtain k where "c = PREFIX_ALPHABET ! (draw k mod length PREFIX_ALPHABET)"
    by (auto simp: generate_prefix_def)
  moreover have "draw k mod length PREFIX_ALPHABET < length PREFIX_ALPHABET"
    by (rule mod_less_divisor) (simp add: PREFIX_ALPHABET_def)
  ultimately show "c \<in> set PREFIX_ALPHABET" by simp
qed

lemma format_company_number_inject:
  assumes "length p = length q"
  shows "format_company_number p m = format_company_number q n \<longleftrightarrow> p = q \<and> m = n"
  using assms by (auto simp: format_company_number_def pad6_inject)

lemma format_tenant_number_inject: "format_tenant_number p m = format_tenant_number p n \<longleftrightarrow> m = n"
  by (simp add: format_tenant_number_def pad6_inject)

end
