(* ===== verification/Billing_Ledger.thy ===== *)
theory Billing_Ledger
  imports Billing_Types Audit_Trail Time_Rules
begin

text \<open>
  Invoices and the money that moves against them: \<open>BillingService\<close> of
  src/src/modules/billing/service.rs on the tables \<open>invoices\<close>, \<open>invoice_lines\<close>,
  \<open>payments\<close>, \<open>payment_refunds\<close>, \<open>credit_notes\<close> and the counters. Amounts are
  DECIMAL(12, 2) columns and round on write; a CHECK or UNIQUE violation of the database is an
  error value like any other. What the operations promise is proved in \<open>Ledger_Invariants\<close>.
\<close>

section \<open>Tables\<close>

record invoice =
  inv_id :: uuid
  inv_tenant :: tenant
  inv_number :: string
  inv_company :: uuid
  inv_billing_contact :: "uuid option"
  inv_contract :: "uuid option"
  inv_status :: invoice_status
  inv_invoice_date :: date
  inv_due_date :: date
  inv_payment_term :: "uuid option"
  inv_subtotal :: decimal
  inv_tax_amount :: decimal
  inv_tax_rate_id :: "uuid option"
  inv_tax_rate :: "decimal option"
  inv_discount :: decimal
  inv_total :: decimal
  inv_amount_paid :: decimal
  inv_amount_credited :: decimal
  inv_balance_due :: decimal
  inv_currency :: "string option"
  inv_sent_at :: "instant option"
  inv_issuer_snapshot :: "string option"
  inv_emailed_to :: "string option"
  inv_delivery :: "(delivery_method \<times> string option) option"
  inv_paid_at :: "instant option"
  inv_written_off_at :: "instant option"
  inv_written_off_by :: "uuid option"
  inv_write_off_reason :: "string option"
  inv_write_off_amount :: "decimal option"
  inv_voided_at :: "instant option"
  inv_voided_by :: "uuid option"
  inv_void_reason :: "string option"
  inv_external_provider :: "string option"
  inv_external_id :: "string option"
  inv_amends :: "uuid option"
  inv_number_scheme :: number_scheme

record invoice_line =
  il_invoice :: uuid
  il_type :: invoice_line_type
  il_description :: string
  il_quantity :: decimal
  il_unit_price :: decimal
  il_total :: decimal
  il_time_entries :: "uuid list"
  il_ticket :: "uuid option"
  il_project :: "uuid option"
  il_product :: "uuid option"
  il_taxable :: bool
  il_sort_order :: int

record payment =
  pay_id :: uuid
  pay_tenant :: tenant
  pay_invoice :: "uuid option"
  pay_company :: uuid
  pay_date :: date
  pay_amount :: decimal
  pay_method :: payment_method
  pay_reference :: "string option"
  pay_gateway_tx :: "string option"
  pay_created_at :: instant

record payment_refund =
  rf_id :: uuid
  rf_tenant :: tenant
  rf_payment :: uuid
  rf_invoice :: "uuid option"
  rf_amount :: decimal
  rf_provider :: string
  rf_reference :: string
  rf_created_at :: instant

record credit_note =
  cn_id :: uuid
  cn_tenant :: tenant
  cn_number :: string
  cn_company :: uuid
  cn_invoice :: uuid
  cn_status :: credit_note_status
  cn_issue_date :: date
  cn_reason :: string
  cn_subtotal :: decimal
  cn_tax :: decimal
  cn_total :: decimal
  cn_currency :: string
  cn_created_by :: "uuid option"
  cn_voided_at :: "instant option"
  cn_voided_by :: "uuid option"
  cn_external :: "(string \<times> string) option"

record credit_note_line =
  cl_note :: uuid
  cl_description :: string
  cl_quantity :: decimal
  cl_unit_price :: decimal
  cl_total :: decimal
  cl_sort_order :: int

record company_row =
  cp_id :: uuid
  cp_tenant :: tenant
  cp_invoice_prefix :: "string option"
  cp_default_contact :: "uuid option"

record contact_row =
  ct_id :: uuid
  ct_tenant :: tenant
  ct_company :: "uuid option"
  ct_email :: "string option"

record product_row =
  pr_id :: uuid
  pr_tenant :: tenant
  pr_is_taxable :: bool
  pr_is_active :: bool

record mileage_entry =
  me_id :: uuid
  me_tenant :: tenant
  me_company :: uuid
  me_date :: date
  me_distance :: decimal
  me_rate :: "decimal option"
  me_total :: "decimal option"
  me_is_billable :: bool
  me_billing_status :: string
  me_invoice :: "uuid option"
  me_ticket :: "uuid option"
  me_start_address :: "string option"
  me_end_address :: "string option"

record invoice_run =
  ir_tenant :: tenant
  ir_contract :: uuid
  ir_invoice :: uuid
  ir_period_start :: date
  ir_period_end :: date

record payment_term =
  pt_id :: uuid
  pt_tenant :: tenant
  pt_net_days :: "int option"
  pt_is_default :: bool
  pt_is_active :: bool
  pt_sort_order :: int
  pt_name_rank :: nat

record tax_rate_row =
  tr_id :: uuid
  tr_tenant :: tenant
  tr_rate :: decimal
  tr_is_default :: bool
  tr_is_active :: bool
  tr_created_at :: instant

record number_sequence =
  sq_tenant :: tenant
  sq_last_number :: nat
  sq_prefix :: "string option"

record company_sequence =
  cs_tenant :: tenant
  cs_company :: uuid
  cs_last_number :: nat

record bill_db =
  invoices :: "invoice list"
  invoice_lines :: "invoice_line list"
  payments :: "payment list"
  payment_refunds :: "payment_refund list"
  credit_notes :: "credit_note list"
  credit_note_lines :: "credit_note_line list"
  companies_tbl :: "company_row list"
  payment_terms :: "payment_term list"
  tax_rates :: "tax_rate_row list"
  invoice_sequences :: "number_sequence list"
  company_sequences :: "company_sequence list"
  credit_note_sequences :: "number_sequence list"
  contacts_tbl :: "contact_row list"
  contact_companies :: "(tenant \<times> uuid \<times> uuid) list"
  products :: "product_row list"
  projects_tbl :: "(uuid \<times> uuid option) list"
  mileage_entries :: "mileage_entry list"
  invoice_runs :: "invoice_run list"
  text_settings :: "(tenant \<times> string \<times> string \<times> string option) list"
  bill_audit :: "audit_row list"

section \<open>Shared reads and checks\<close>

definition inv_key :: "tenant \<Rightarrow> uuid \<Rightarrow> invoice \<Rightarrow> bool" where
  "inv_key t i r \<longleftrightarrow> inv_id r = i \<and> inv_tenant r = t"

definition select_invoice :: "bill_db \<Rightarrow> tenant \<Rightarrow> uuid \<Rightarrow> invoice option" where
  "select_invoice db t i = select_one (inv_key t i) (invoices db)"

definition update_invoice_row :: "tenant \<Rightarrow> uuid \<Rightarrow> (invoice \<Rightarrow> invoice) \<Rightarrow> bill_db \<Rightarrow> bill_db" where
  "update_invoice_row t i f db = db\<lparr>invoices := update_where (inv_key t i) f (invoices db)\<rparr>"

definition load_invoice :: "bill_db \<Rightarrow> tenant \<Rightarrow> uuid \<Rightarrow> invoice app_result" where
  "load_invoice db t i =
     (case select_invoice db t i of None \<Rightarrow> Inl (NotFound ''Invoice'') | Some r \<Rightarrow> Inr r)"

definition audited :: "tenant \<Rightarrow> audit_ctx \<Rightarrow> audit_action \<Rightarrow> string \<Rightarrow> uuid \<Rightarrow> bill_db \<Rightarrow> bill_db" where
  "audited t ctx a entity i db = db\<lparr>bill_audit := audit_write (bill_audit db) t ctx a entity (Some i)\<rparr>"

definition read_text_setting :: "bill_db \<Rightarrow> tenant \<Rightarrow> string \<Rightarrow> string \<Rightarrow> string option" where
  "read_text_setting db t category key =
     (case select_one (\<lambda>(t', c, k, _). t' = t \<and> c = category \<and> k = key) (text_settings db) of
        None \<Rightarrow> None | Some (_, _, _, v) \<Rightarrow> v)"

definition read_default_currency :: "bill_db \<Rightarrow> tenant \<Rightarrow> string" where
  "read_default_currency db t = opt_or (read_text_setting db t ''billing_prefs'' ''currency'') ''USD''"

definition assert_billing_company :: "bill_db \<Rightarrow> tenant \<Rightarrow> uuid \<Rightarrow> unit app_result" where
  "assert_billing_company db t c =
     (if list_ex (\<lambda>r. cp_id r = c \<and> cp_tenant r = t) (companies_tbl db) then Inr ()
      else Inl (Validation ''company_id must be a company of this organization''))"

definition lock_invoice_totals :: "bill_db \<Rightarrow> tenant \<Rightarrow> uuid
    \<Rightarrow> (decimal \<times> decimal \<times> decimal \<times> invoice_status) option" where
  "lock_invoice_totals db t i =
     map_option (\<lambda>r. (inv_total r, inv_amount_paid r, inv_amount_credited r, inv_status r))
       (select_invoice db t i)"

section \<open>The derived balance\<close>

definition paid_sum :: "bill_db \<Rightarrow> tenant \<Rightarrow> uuid \<Rightarrow> decimal" where
  "paid_sum db t i =
     sum_where (\<lambda>p. pay_invoice p = Some i \<and> pay_tenant p = t) pay_amount (payments db)
     - sum_where (\<lambda>r. rf_invoice r = Some i \<and> rf_tenant r = t) rf_amount (payment_refunds db)"

definition credited_sum :: "bill_db \<Rightarrow> tenant \<Rightarrow> uuid \<Rightarrow> decimal" where
  "credited_sum db t i =
     sum_where (\<lambda>c. cn_invoice c = i \<and> cn_tenant c = t \<and> cn_status c = Issued) cn_total
       (credit_notes db)"

definition derived_status :: "invoice \<Rightarrow> decimal \<Rightarrow> decimal \<Rightarrow> invoice_status" where
  "derived_status r paid credited =
     (if inv_status r \<in> {Draft, Pending} then inv_status r
      else if inv_written_off_at r \<noteq> None then WrittenOff
      else if inv_voided_at r \<noteq> None then Void
      else if inv_total r - paid - credited \<le> 0 then Paid
      else if paid > 0 then PartiallyPaid
      else Sent)"

definition rebalance :: "instant \<Rightarrow> decimal \<Rightarrow> decimal \<Rightarrow> invoice \<Rightarrow> invoice" where
  "rebalance now paid credited r = r\<lparr>
     inv_amount_paid := num2 paid,
     inv_amount_credited := num2 credited,
     inv_balance_due := num2 (inv_total r - paid - credited),
     inv_status := derived_status r paid credited,
     inv_paid_at := (if inv_total r - paid \<le> 0
                     then (case inv_paid_at r of Some s \<Rightarrow> Some s | None \<Rightarrow> Some now) else None)\<rparr>"

definition recompute_invoice_balance :: "bill_db \<Rightarrow> tenant \<Rightarrow> uuid \<Rightarrow> instant \<Rightarrow> bill_db" where
  "recompute_invoice_balance db t i now =
     update_invoice_row t i (rebalance now (paid_sum db t i) (credited_sum db t i)) db"

section \<open>Payments\<close>

record create_payment_request =
  cpr_invoice :: "uuid option"
  cpr_company :: uuid
  cpr_date :: date
  cpr_amount :: decimal
  cpr_method :: payment_method
  cpr_reference :: "string option"
  cpr_gateway_tx :: "string option"

definition gateway_tx_taken :: "bill_db \<Rightarrow> tenant \<Rightarrow> string option \<Rightarrow> bool" where
  "gateway_tx_taken db t g \<longleftrightarrow>
     g \<noteq> None \<and> list_ex (\<lambda>p. pay_tenant p = t \<and> pay_gateway_tx p = g) (payments db)"

text \<open>The INSERT: the CHECK on a positive amount, then the unique index on the gateway id.\<close>

definition insert_payment :: "bill_db \<Rightarrow> payment \<Rightarrow> bill_db app_result" where
  "insert_payment db p =
     (if pay_amount p \<le> 0 then Inl (Database ''payments_amount_positive'')
      else if gateway_tx_taken db (pay_tenant p) (pay_gateway_tx p)
      then Inl (Conflict ''That record already exists'')
      else Inr (db\<lparr>payments := payments db @ [p]\<rparr>))"

definition check_payment_target :: "bill_db \<Rightarrow> tenant \<Rightarrow> create_payment_request \<Rightarrow> unit app_result" where
  "check_payment_target db t r =
     (case cpr_invoice r of
        None \<Rightarrow> assert_billing_company db t (cpr_company r)
      | Some i \<Rightarrow>
          (case select_invoice db t i of
             None \<Rightarrow> Inl (NotFound ''Invoice'')
           | Some row \<Rightarrow>
               if inv_status row \<in> {Draft, Pending} then
                 Inl (Conflict ''Invoice has not been sent, so a payment cannot be recorded against it'')
               else
                 let remaining = inv_total row - inv_amount_paid row - inv_amount_credited row in
                 if cpr_amount r > remaining then
                   Inl (BadRequest ''Payment amount exceeds invoice balance due'')
                 else if inv_company row \<noteq> cpr_company r then
                   Inl (BadRequest ''Payment company_id does not match the invoice's company'')
                 else Inr ()))"

definition create_payment :: "bill_db \<Rightarrow> tenant \<Rightarrow> create_payment_request \<Rightarrow> audit_ctx \<Rightarrow> uuid
    \<Rightarrow> instant \<Rightarrow> (bill_db \<times> payment) app_result" where
  "create_payment db t r ctx new_id now =
     and_then (check_payment_target db t r) (\<lambda>_.
       let p = \<lparr> pay_id = new_id, pay_tenant = t, pay_invoice = cpr_invoice r,
                 pay_company = cpr_company r, pay_date = cpr_date r, pay_amount = num2 (cpr_amount r),
                 pay_method = cpr_method r, pay_reference = cpr_reference r,
                 pay_gateway_tx = cpr_gateway_tx r, pay_created_at = now \<rparr>
       in and_then (insert_payment db p) (\<lambda>db1.
            let db2 = (case cpr_invoice r of
                         None \<Rightarrow> db1 | Some i \<Rightarrow> recompute_invoice_balance db1 t i now)
            in Inr (audited t ctx ACreate ''payments'' new_id db2, p\<lparr>pay_amount := cpr_amount r\<rparr>)))"

definition delete_payment :: "bill_db \<Rightarrow> tenant \<Rightarrow> uuid \<Rightarrow> audit_ctx \<Rightarrow> instant \<Rightarrow> bill_db app_result" where
  "delete_payment db t pid ctx now =
     (case select_one (\<lambda>p. pay_id p = pid \<and> pay_tenant p = t) (payments db) of
        None \<Rightarrow> Inl (NotFound ''Payment'')
      | Some p \<Rightarrow>
          let db1 = db\<lparr>payments := delete_where (\<lambda>q. pay_id q = pid \<and> pay_tenant q = t) (payments db),
                       payment_refunds := delete_where (\<lambda>r. rf_payment r = pid) (payment_refunds db)\<rparr>;
              db2 = (case pay_invoice p of
                       None \<Rightarrow> db1 | Some i \<Rightarrow> recompute_invoice_balance db1 t i now)
          in Inr (audited t ctx ADelete ''payments'' pid db2))"

section \<open>Gateway deliveries\<close>

definition gateway_payment_method :: "string \<Rightarrow> payment_method" where
  "gateway_payment_method provider_id =
     (if provider_id = ''paypal'' then Paypal
      else if provider_id = ''stripe'' then CreditCard else OtherMethod)"

text \<open>
  \<open>Ok(false)\<close> leaves the transaction uncommitted. A conflict on the gateway id is the
  \<open>ON CONFLICT DO NOTHING\<close> path; the CHECK on the amount is evaluated before it.
\<close>

definition record_gateway_payment :: "bill_db \<Rightarrow> tenant \<Rightarrow> string \<Rightarrow> uuid \<Rightarrow> string \<Rightarrow> decimal
    \<Rightarrow> uuid \<Rightarrow> instant \<Rightarrow> (bill_db \<times> bool) app_result" where
  "record_gateway_payment db t provider_id i reference amount new_id now =
     (case select_invoice db t i of
        None \<Rightarrow> Inr (db, False)
      | Some row \<Rightarrow>
          if inv_status row \<in> {Draft, Pending} then Inr (db, False)
          else if amount > inv_total row - inv_amount_paid row - inv_amount_credited row
          then Inr (db, False)
          else if num2 amount \<le> 0 then Inl (Database ''payments_amount_positive'')
          else if gateway_tx_taken db t (Some reference) then Inr (db, False)
          else
            let p = \<lparr> pay_id = new_id, pay_tenant = t, pay_invoice = Some i,
                      pay_company = inv_company row, pay_date = now div 86400,
                      pay_amount = num2 amount, pay_method = gateway_payment_method provider_id,
                      pay_reference = None, pay_gateway_tx = Some reference, pay_created_at = now \<rparr>;
                db1 = db\<lparr>payments := payments db @ [p]\<rparr>
            in Inr (audited t (audit_ctx_system t) ACreate ''payments'' new_id
                      (recompute_invoice_balance db1 t i now), True))"

record refund_line =
  rl_amount :: decimal
  rl_reference :: string

fun insert_refunds :: "instant \<Rightarrow> tenant \<Rightarrow> string \<Rightarrow> uuid \<Rightarrow> uuid option \<Rightarrow> (refund_line \<times> uuid) list
    \<Rightarrow> payment_refund list \<Rightarrow> payment_refund list app_result" where
  "insert_refunds now t provider pid i [] rs = Inr rs"
| "insert_refunds now t provider pid i ((l, new_id) # ls) rs =
     (if num2 (rl_amount l) \<le> 0 then Inl (Database ''payment_refunds_amount_check'')
      else if list_ex (\<lambda>r. rf_tenant r = t \<and> rf_reference r = rl_reference l) rs
      then insert_refunds now t provider pid i ls rs
      else insert_refunds now t provider pid i ls
             (rs @ [\<lparr> rf_id = new_id, rf_tenant = t, rf_payment = pid, rf_invoice = i,
                      rf_amount = num2 (rl_amount l), rf_provider = provider,
                      rf_reference = rl_reference l, rf_created_at = now \<rparr>]))"

definition record_gateway_refunds :: "bill_db \<Rightarrow> tenant \<Rightarrow> string \<Rightarrow> string
    \<Rightarrow> (refund_line \<times> uuid) list \<Rightarrow> instant \<Rightarrow> bill_db app_result" where
  "record_gateway_refunds db t provider_id reference refunds now =
     (case select_one (\<lambda>p. pay_tenant p = t \<and> pay_gateway_tx p = Some reference) (payments db) of
        None \<Rightarrow> Inr db
      | Some p \<Rightarrow>
          and_then (insert_refunds now t provider_id (pay_id p) (pay_invoice p) refunds (payment_refunds db))
            (\<lambda>rs. let db1 = db\<lparr>payment_refunds := rs\<rparr>
                  in Inr (case pay_invoice p of
                            None \<Rightarrow> db1 | Some i \<Rightarrow> recompute_invoice_balance db1 t i now)))"

section \<open>Terminal states\<close>

definition write_off_invoice :: "bill_db \<Rightarrow> tenant \<Rightarrow> uuid \<Rightarrow> uuid \<Rightarrow> string \<Rightarrow> audit_ctx \<Rightarrow> instant
    \<Rightarrow> (bill_db \<times> invoice) app_result" where
  "write_off_invoice db t i user reason ctx now =
     (case select_invoice db t i of
        None \<Rightarrow> Inl (NotFound ''Invoice'')
      | Some row \<Rightarrow>
          if inv_status row \<notin> {Sent, PartiallyPaid} then
            Inl (Conflict ''Invoice cannot be written off in status'')
          else if inv_balance_due row \<le> 0 then
            Inl (Conflict ''Invoice has nothing outstanding to write off'')
          else
            let db1 = update_invoice_row t i (\<lambda>r. r\<lparr>inv_status := WrittenOff,
                        inv_written_off_at := Some now, inv_written_off_by := Some user,
                        inv_write_off_reason := Some (trim reason),
                        inv_write_off_amount := Some (inv_balance_due r)\<rparr>) db;
                db2 = audited t ctx AUpdate ''invoices'' i db1
            in map_sum id (\<lambda>r. (db2, r)) (load_invoice db2 t i))"

definition void_invoice :: "bill_db \<Rightarrow> tenant \<Rightarrow> uuid \<Rightarrow> uuid \<Rightarrow> string option \<Rightarrow> audit_ctx \<Rightarrow> instant
    \<Rightarrow> (bill_db \<times> invoice) app_result" where
  "void_invoice db t i user reason ctx now =
     (case select_invoice db t i of
        None \<Rightarrow> Inl (NotFound ''Invoice'')
      | Some row \<Rightarrow>
          if inv_status row \<notin> {Draft, Pending} then
            Inl (Conflict ''Invoice cannot be voided in status: the customer already holds it'')
          else
            let reason' = (case map_option trim reason of Some [] \<Rightarrow> None | x \<Rightarrow> x);
                db1 = update_invoice_row t i (\<lambda>r. r\<lparr>inv_status := Void,
                        inv_voided_at := Some now, inv_voided_by := Some user,
                        inv_void_reason := reason'\<rparr>) db;
                db2 = audited t ctx AUpdate ''invoices'' i db1
            in map_sum id (\<lambda>r. (db2, r)) (load_invoice db2 t i))"

definition void_delegated_invoice :: "bill_db \<Rightarrow> tenant \<Rightarrow> uuid \<Rightarrow> string \<Rightarrow> instant \<Rightarrow> bill_db \<times> bool" where
  "void_delegated_invoice db t i provider now =
     (if list_ex (\<lambda>r. inv_key t i r \<and> inv_external_provider r = Some provider \<and> inv_status r \<noteq> Void)
           (invoices db)
      then (audited t (audit_ctx_system t) AUpdate ''invoices'' i
              (db\<lparr>invoices := update_where
                    (\<lambda>r. inv_key t i r \<and> inv_external_provider r = Some provider \<and> inv_status r \<noteq> Void)
                    (\<lambda>r. r\<lparr>inv_status := Void, inv_voided_at := Some now,
                           inv_void_reason := Some (''Voided in '' @ provider @ '', which issued it'')\<rparr>)
                    (invoices db)\<rparr>), True)
      else (db, False))"

end
