(* ===== verification/Invoice_Numbers.thy ===== *)
theory Invoice_Numbers
  imports Billing_Ledger
begin

text \<open>
  What an invoice is born with: its number (src/src/modules/billing/numbering.rs and
  \<open>next_invoice_number\<close>, \<open>next_tenant_invoice_number\<close>, \<open>next_credit_note_number\<close> of
  src/src/modules/billing/service.rs), its due date (\<open>resolve_due_date\<close>) and its tax
  (\<open>apply_tax\<close>). A counter is an INTEGER column and refuses to pass the largest 32-bit value.
  The theory shows that the numbers handed out are dense and never repeat, that a prefix
  collision cannot be retried, and what tax and due date come out.
\<close>

section \<open>Counters\<close>

definition MAX_I32 :: int where "MAX_I32 = 2147483647"

definition bump :: "nat \<Rightarrow> nat app_result" where
  "bump n = (if MAX_I32 \<le> int n then Inl (Database ''integer out of range'') else Inr (Suc n))"

lemma bump_Inr: "bump n = Inr m \<longleftrightarrow> int n < MAX_I32 \<and> m = Suc n"
  by (auto simp: bump_def)

definition sq_row :: "tenant \<Rightarrow> number_sequence \<Rightarrow> bool" where
  "sq_row t r \<longleftrightarrow> sq_tenant r = t"

text \<open>The seed-or-bump that the two document series share, on either sequence table.\<close>

definition next_in_series :: "tenant \<Rightarrow> string \<Rightarrow> number_sequence list
    \<Rightarrow> (number_sequence list \<times> string) app_result" where
  "next_in_series t default_prefix sqs =
     (case select_one (sq_row t) sqs of
        Some r \<Rightarrow>
          and_then (bump (sq_last_number r)) (\<lambda>n.
            Inr (update_where (sq_row t) (\<lambda>s. s\<lparr>sq_last_number := n\<rparr>) sqs,
                 format_tenant_number (opt_or (sq_prefix r) default_prefix) n))
      | None \<Rightarrow>
          Inr (sqs @ [\<lparr> sq_tenant = t, sq_last_number = 1, sq_prefix = Some default_prefix \<rparr>],
               format_tenant_number default_prefix 1))"

definition next_tenant_invoice_number :: "bill_db \<Rightarrow> tenant
    \<Rightarrow> (bill_db \<times> string \<times> number_scheme) app_result" where
  "next_tenant_invoice_number db t =
     map_sum id (\<lambda>(sqs, s). (db\<lparr>invoice_sequences := sqs\<rparr>, s, TenantSequence))
       (next_in_series t ''INV-'' (invoice_sequences db))"

definition next_credit_note_number :: "bill_db \<Rightarrow> tenant \<Rightarrow> (bill_db \<times> string) app_result" where
  "next_credit_note_number db t =
     map_sum id (\<lambda>(sqs, s). (db\<lparr>credit_note_sequences := sqs\<rparr>, s))
       (next_in_series t ''CN-'' (credit_note_sequences db))"

section \<open>Company prefixes\<close>

definition company_key :: "tenant \<Rightarrow> uuid \<Rightarrow> company_row \<Rightarrow> bool" where
  "company_key t c r \<longleftrightarrow> cp_id r = c \<and> cp_tenant r = t"

definition prefix_taken :: "bill_db \<Rightarrow> tenant \<Rightarrow> string \<Rightarrow> bool" where
  "prefix_taken db t p \<longleftrightarrow> list_ex (\<lambda>r. cp_tenant r = t \<and> cp_invoice_prefix r = Some p) (companies_tbl db)"

text \<open>
  The attempts of \<open>ensure_company_prefix\<close> run in one transaction. A unique violation aborts
  it in the database, and every later statement of an aborted transaction fails: the loop
  carries that state.
\<close>

fun assign_prefix :: "nat \<Rightarrow> bool \<Rightarrow> (nat \<Rightarrow> nat \<Rightarrow> nat) \<Rightarrow> bill_db \<Rightarrow> tenant \<Rightarrow> uuid
    \<Rightarrow> (bill_db \<times> string) app_result" where
  "assign_prefix 0 aborted draw db t c =
     Inl (Internal ''could not assign an invoice prefix for this company after several attempts'')"
| "assign_prefix (Suc n) aborted draw db t c =
     (if aborted then Inl (Database ''current transaction is aborted'')
      else let candidate = generate_prefix (draw n) in
        if prefix_taken db t candidate then assign_prefix n True draw db t c
        else Inr (db\<lparr>companies_tbl := update_where (company_key t c)
                       (\<lambda>r. r\<lparr>cp_invoice_prefix := Some candidate\<rparr>) (companies_tbl db)\<rparr>, candidate))"

definition ensure_company_prefix :: "(nat \<Rightarrow> nat \<Rightarrow> nat) \<Rightarrow> bill_db \<Rightarrow> tenant \<Rightarrow> uuid
    \<Rightarrow> (bill_db \<times> string) app_result" where
  "ensure_company_prefix draw db t c =
     (case select_one (company_key t c) (companies_tbl db) of
        None \<Rightarrow> Inl (NotFound ''Company'')
      | Some r \<Rightarrow> (case cp_invoice_prefix r of
                    Some p \<Rightarrow> Inr (db, p)
                  | None \<Rightarrow> assign_prefix PREFIX_ATTEMPTS False draw db t c))"

definition cs_key :: "tenant \<Rightarrow> uuid \<Rightarrow> company_sequence \<Rightarrow> bool" where
  "cs_key t c r \<longleftrightarrow> cs_tenant r = t \<and> cs_company r = c"

definition next_company_number :: "bill_db \<Rightarrow> tenant \<Rightarrow> uuid \<Rightarrow> (bill_db \<times> nat) app_result" where
  "next_company_number db t c =
     (case select_one (cs_key t c) (company_sequences db) of
        Some r \<Rightarrow>
          and_then (bump (cs_last_number r)) (\<lambda>n.
            Inr (db\<lparr>company_sequences := update_where (cs_key t c)
                      (\<lambda>s. s\<lparr>cs_last_number := n\<rparr>) (company_sequences db)\<rparr>, n))
      | None \<Rightarrow>
          Inr (db\<lparr>company_sequences := company_sequences db
                    @ [\<lparr> cs_tenant = t, cs_company = c, cs_last_number = 1 \<rparr>]\<rparr>, 1))"

definition read_scheme :: "bill_db \<Rightarrow> tenant \<Rightarrow> number_scheme" where
  "read_scheme db t =
     number_scheme_from_setting (read_text_setting db t ''billing_prefs'' ''invoice_numbering'')"

definition next_invoice_number :: "(nat \<Rightarrow> nat \<Rightarrow> nat) \<Rightarrow> bill_db \<Rightarrow> tenant \<Rightarrow> uuid
    \<Rightarrow> (bill_db \<times> string \<times> number_scheme) app_result" where
  "next_invoice_number draw db t c =
     (if read_scheme db t = CompanyPrefix then
        and_then (ensure_company_prefix draw db t c) (\<lambda>(db1, prefix).
          and_then (next_company_number db1 t c) (\<lambda>(db2, n).
            Inr (db2, format_company_number prefix n, CompanyPrefix)))
      else next_tenant_invoice_number db t)"

section \<open>Due dates\<close>

definition term_key :: "tenant \<Rightarrow> uuid \<Rightarrow> payment_term \<Rightarrow> bool" where
  "term_key t i r \<longleftrightarrow> pt_tenant r = t \<and> pt_id r = i"

definition assert_payment_term_in_tenant :: "bill_db \<Rightarrow> tenant \<Rightarrow> uuid \<Rightarrow> unit app_result" where
  "assert_payment_term_in_tenant db t i =
     (if list_ex (term_key t i) (payment_terms db) then Inr ()
      else Inl (BadRequest ''payment_term_id does not reference a payment term in this tenant''))"

definition default_payment_term :: "bill_db \<Rightarrow> tenant \<Rightarrow> payment_term option" where
  "default_payment_term db t =
     (case sort_key pt_sort_order (sort_key pt_name_rank
             (filter (\<lambda>r. pt_tenant r = t \<and> pt_is_default r \<and> pt_is_active r) (payment_terms db))) of
        [] \<Rightarrow> None | r # _ \<Rightarrow> Some r)"

definition resolve_due_date :: "bill_db \<Rightarrow> tenant \<Rightarrow> date \<Rightarrow> uuid option \<Rightarrow> date option
    \<Rightarrow> date \<times> uuid option" where
  "resolve_due_date db t invoice_date payment_term_id due_date =
     (case due_date of
        Some due \<Rightarrow> (due, payment_term_id)
      | None \<Rightarrow>
          let term = (case payment_term_id of
                        Some i \<Rightarrow> select_one (term_key t i) (payment_terms db)
                      | None \<Rightarrow> default_payment_term db t);
              (term_id, net_days) = (case term of
                        Some r \<Rightarrow> (Some (pt_id r), pt_net_days r)
                      | None \<Rightarrow> (payment_term_id, None))
          in (invoice_date + opt_or net_days DEFAULT_NET_DAYS, term_id))"

section \<open>Tax\<close>

definition default_tax_rate :: "bill_db \<Rightarrow> tenant \<Rightarrow> (uuid \<times> decimal) option" where
  "default_tax_rate db t =
     (case sort_key tr_created_at (sort_key tr_id
             (filter (\<lambda>r. tr_tenant r = t \<and> tr_is_default r \<and> tr_is_active r) (tax_rates db))) of
        [] \<Rightarrow> None | r # _ \<Rightarrow> Some (tr_id r, tr_rate r))"

definition assert_tax_rate_in_tenant :: "bill_db \<Rightarrow> tenant \<Rightarrow> uuid \<Rightarrow> (uuid \<times> decimal) app_result" where
  "assert_tax_rate_in_tenant db t i =
     (case select_one (\<lambda>r. tr_tenant r = t \<and> tr_id r = i \<and> tr_is_active r) (tax_rates db) of
        None \<Rightarrow> Inl (BadRequest ''tax_rate_id does not name an active tax rate in this tenant'')
      | Some r \<Rightarrow> Inr (tr_id r, tr_rate r))"

definition lines_total :: "bill_db \<Rightarrow> uuid \<Rightarrow> decimal" where
  "lines_total db i = sum_where (\<lambda>l. il_invoice l = i) il_total (invoice_lines db)"

definition taxable_total :: "bill_db \<Rightarrow> uuid \<Rightarrow> decimal" where
  "taxable_total db i = sum_where (\<lambda>l. il_invoice l = i \<and> il_taxable l) il_total (invoice_lines db)"

definition choose_rate :: "bill_db \<Rightarrow> tenant \<Rightarrow> uuid option \<Rightarrow> (uuid \<times> decimal) option app_result" where
  "choose_rate db t requested =
     (case requested of
        Some i \<Rightarrow> map_sum id Some (assert_tax_rate_in_tenant db t i)
      | None \<Rightarrow> Inr (default_tax_rate db t))"

definition tax_of :: "decimal \<Rightarrow> decimal option \<Rightarrow> (uuid \<times> decimal) option
    \<Rightarrow> decimal \<times> uuid option \<times> decimal option" where
  "tax_of taxable explicit_amount rate =
     (case (explicit_amount, rate) of
        (Some amount, _) \<Rightarrow> (amount, None, None)
      | (None, Some (i, pct)) \<Rightarrow> (num2 (taxable * pct / 100), Some i, Some pct)
      | (None, None) \<Rightarrow> (0, None, None))"

definition apply_tax :: "bill_db \<Rightarrow> tenant \<Rightarrow> uuid \<Rightarrow> uuid option \<Rightarrow> decimal option \<Rightarrow> decimal
    \<Rightarrow> bill_db app_result" where
  "apply_tax db t i requested_rate explicit_amount discount =
     and_then (choose_rate db t requested_rate) (\<lambda>rate.
       let subtotal = lines_total db i;
           (tax, rate_id, rate_pct) = tax_of (taxable_total db i) explicit_amount rate
       in Inr (update_invoice_row t i (\<lambda>r. r\<lparr>
            inv_subtotal := num2 subtotal,
            inv_tax_amount := num2 tax,
            inv_tax_rate_id := rate_id,
            inv_tax_rate := rate_pct,
            inv_total := num2 (subtotal + tax - discount),
            inv_balance_due := num2 (subtotal + tax - discount - inv_amount_paid r - inv_amount_credited r)\<rparr>) db))"

section \<open>Series of numbers\<close>

text \<open>Several allocations from one series, one after the other.\<close>

fun take_many :: "('s \<Rightarrow> ('s \<times> string) app_result) \<Rightarrow> nat \<Rightarrow> 's \<Rightarrow> ('s \<times> string list) app_result" where
  "take_many f 0 s = Inr (s, [])"
| "take_many f (Suc n) s =
     and_then (f s) (\<lambda>(s1, x). and_then (take_many f n s1) (\<lambda>(s2, xs). Inr (s2, x # xs)))"

locale number_series =
  fixes take_next :: "'s \<Rightarrow> ('s \<times> string) app_result"
    and last_no :: "'s \<Rightarrow> nat"
    and form :: "'s \<Rightarrow> nat \<Rightarrow> string"
  assumes step: "take_next s = Inr (s', x) \<Longrightarrow>
      last_no s' = Suc (last_no s) \<and> x = form s (Suc (last_no s)) \<and> form s' = form s"
    and form_inject: "form s m = form s n \<Longrightarrow> m = n"
begin

lemma take_many_dense:
  "take_many take_next n s = Inr (s', xs) \<Longrightarrow>
     xs = map (form s) [Suc (last_no s)..<Suc (last_no s + n)] \<and> last_no s' = last_no s + n"
proof (induction n arbitrary: s xs)
  case 0
  then show ?case by simp
next
  case (Suc n)
  then obtain s1 x ys where one: "take_next s = Inr (s1, x)"
    and rest: "take_many take_next n s1 = Inr (s', ys)" and xs: "xs = x # ys"
    by (auto simp: and_then_def split: sum.splits)
  note st = step [OF one]
  have "[Suc (last_no s)..<Suc (last_no s + Suc n)]
        = Suc (last_no s) # [Suc (last_no s1)..<Suc (last_no s1 + n)]"
    using st by (subst upt_conv_Cons) (simp_all del: upt_Suc)
  with Suc.IH [OF rest] st xs show ?case by (simp del: upt_Suc)
qed

lemma take_many_distinct: "take_many take_next n s = Inr (s', xs) \<Longrightarrow> distinct xs"
  using take_many_dense [of n s s' xs] form_inject
  by (auto simp: distinct_map inj_on_def)

end

definition series_last :: "tenant \<Rightarrow> number_sequence list \<Rightarrow> nat" where
  "series_last t sqs = (case select_one (sq_row t) sqs of None \<Rightarrow> 0 | Some r \<Rightarrow> sq_last_number r)"

definition series_prefix :: "tenant \<Rightarrow> string \<Rightarrow> number_sequence list \<Rightarrow> string" where
  "series_prefix t p sqs =
     (case select_one (sq_row t) sqs of None \<Rightarrow> p | Some r \<Rightarrow> opt_or (sq_prefix r) p)"

lemma select_bumped:
  "select_one (sq_row t) (update_where (sq_row t) (\<lambda>s. s\<lparr>sq_last_number := n\<rparr>) sqs)
   = map_option (\<lambda>r. r\<lparr>sq_last_number := n\<rparr>) (select_one (sq_row t) sqs)"
  by (subst select_one_update_where)
     (auto simp: sq_row_def dest!: select_one_SomeD intro!: option.map_cong0 split: option.splits)

interpretation documents: number_series "next_in_series t p" "series_last t"
    "\<lambda>sqs. format_tenant_number (series_prefix t p sqs)" for t p
proof
  fix s s' x
  assume "next_in_series t p s = Inr (s', x)"
  then show "series_last t s' = Suc (series_last t s)
      \<and> x = format_tenant_number (series_prefix t p s) (Suc (series_last t s))
      \<and> format_tenant_number (series_prefix t p s') = format_tenant_number (series_prefix t p s)"
    by (auto simp: next_in_series_def series_last_def series_prefix_def bump_Inr select_bumped
        select_one_append table_simps sq_row_def opt_or_def split: option.splits elim!: and_then_InrE)
next
  fix s m n
  assume "format_tenant_number (series_prefix t p s) m = format_tenant_number (series_prefix t p s) n"
  then show "m = n" by (simp add: format_tenant_number_inject)
qed

section \<open>No number is handed out twice\<close>

definition comp_last :: "bill_db \<Rightarrow> tenant \<Rightarrow> uuid \<Rightarrow> nat" where
  "comp_last db t c =
     (case select_one (cs_key t c) (company_sequences db) of None \<Rightarrow> 0 | Some r \<Rightarrow> cs_last_number r)"

definition comp_prefix :: "bill_db \<Rightarrow> tenant \<Rightarrow> uuid \<Rightarrow> string option" where
  "comp_prefix db t c =
     (case select_one (company_key t c) (companies_tbl db) of
        None \<Rightarrow> None | Some r \<Rightarrow> cp_invoice_prefix r)"

text \<open>What the column constraints of migration 243 say of the prefixes.\<close>

definition prefixes_ok :: "bill_db \<Rightarrow> tenant \<Rightarrow> bool" where
  "prefixes_ok db t \<longleftrightarrow>
     (\<forall>r \<in> set (companies_tbl db). \<forall>r' \<in> set (companies_tbl db).
        cp_tenant r = t \<and> cp_tenant r' = t \<and> cp_invoice_prefix r \<noteq> None
        \<and> cp_invoice_prefix r = cp_invoice_prefix r' \<longrightarrow> cp_id r = cp_id r')
     \<and> (\<forall>r \<in> set (companies_tbl db). cp_tenant r = t \<longrightarrow>
          (case cp_invoice_prefix r of None \<Rightarrow> True | Some p \<Rightarrow> length p = PREFIX_LEN))"

lemma comp_prefix_row:
  assumes "comp_prefix db t c = Some p"
  obtains r where "r \<in> set (companies_tbl db)" "cp_id r = c" "cp_tenant r = t"
    "cp_invoice_prefix r = Some p"
  using assms by (auto simp: comp_prefix_def company_key_def split: option.splits dest!: select_one_SomeD)

lemma prefixes_ok_rows:
  assumes "prefixes_ok db t" "r \<in> set (companies_tbl db)" "r' \<in> set (companies_tbl db)"
    "cp_tenant r = t" "cp_tenant r' = t" "cp_invoice_prefix r = Some p" "cp_invoice_prefix r' = Some p"
  shows "cp_id r = cp_id r'"
proof -
  have "cp_tenant r = t \<and> cp_tenant r' = t \<and> cp_invoice_prefix r \<noteq> None
      \<and> cp_invoice_prefix r = cp_invoice_prefix r' \<longrightarrow> cp_id r = cp_id r'"
    using assms(1-3) unfolding prefixes_ok_def by blast
  with assms show ?thesis by simp
qed

lemma prefixes_ok_len:
  assumes "prefixes_ok db t" "r \<in> set (companies_tbl db)" "cp_tenant r = t" "cp_invoice_prefix r = Some p"
  shows "length p = PREFIX_LEN"
proof -
  have "cp_tenant r = t \<longrightarrow>
      (case cp_invoice_prefix r of None \<Rightarrow> True | Some p \<Rightarrow> length p = PREFIX_LEN)"
    using assms(1,2) by (simp add: prefixes_ok_def)
  with assms show ?thesis by simp
qed

lemma prefixes_ok_unique:
  assumes "prefixes_ok db t" "comp_prefix db t c = Some p" "comp_prefix db t d = Some p"
  shows "c = d"
proof -
  obtain r where "r \<in> set (companies_tbl db)" "cp_id r = c" "cp_tenant r = t"
    "cp_invoice_prefix r = Some p" using assms(2) by (rule comp_prefix_row)
  moreover obtain r' where "r' \<in> set (companies_tbl db)" "cp_id r' = d" "cp_tenant r' = t"
    "cp_invoice_prefix r' = Some p" using assms(3) by (rule comp_prefix_row)
  ultimately show ?thesis using prefixes_ok_rows [OF assms(1), of r r' p] by simp
qed

lemma prefixes_ok_length:
  assumes "prefixes_ok db t" "comp_prefix db t c = Some p"
  shows "length p = PREFIX_LEN"
  using assms(2) by (rule comp_prefix_row) (rule prefixes_ok_len [OF assms(1)])

lemma assign_prefix_True: "\<not> is_ok (assign_prefix n True draw db t c)"
  by (cases n) simp_all

lemma assign_prefix_Inr:
  assumes "assign_prefix n False draw db t c = Inr (db', p)"
  shows "\<not> prefix_taken db t p \<and> length p = PREFIX_LEN
    \<and> db' = db\<lparr>companies_tbl := update_where (company_key t c)
                 (\<lambda>r. r\<lparr>cp_invoice_prefix := Some p\<rparr>) (companies_tbl db)\<rparr>"
proof (cases n)
  case 0
  with assms show ?thesis by simp
next
  case (Suc m)
  have "assign_prefix m True draw db t c \<noteq> Inr (db', p)"
    using assign_prefix_True [of m draw db t c] by auto
  with assms Suc show ?thesis by (auto simp: Let_def PREFIX_LEN_def split: if_splits)
qed

lemma prefixes_ok_assign:
  assumes ok: "prefixes_ok db t" and free: "\<not> prefix_taken db t p" and len: "length p = PREFIX_LEN"
  shows "prefixes_ok (db\<lparr>companies_tbl := update_where (company_key t c)
           (\<lambda>r. r\<lparr>cp_invoice_prefix := Some p\<rparr>) (companies_tbl db)\<rparr>) t"
proof -
  have other: "cp_invoice_prefix r \<noteq> Some p" if "r \<in> set (companies_tbl db)" "cp_tenant r = t" for r
    using free that by (auto simp: prefix_taken_def list_ex_iff)
  let ?f = "\<lambda>r. if company_key t c r then r\<lparr>cp_invoice_prefix := Some p\<rparr> else r"
  have rows: "cp_id (?f r) = cp_id (?f r')"
    if "r \<in> set (companies_tbl db)" "r' \<in> set (companies_tbl db)" "cp_tenant r = t" "cp_tenant r' = t"
      "cp_invoice_prefix (?f r) \<noteq> None" "cp_invoice_prefix (?f r) = cp_invoice_prefix (?f r')" for r r'
  proof (cases "company_key t c r \<or> company_key t c r'")
    case True
    then show ?thesis using that other [of r] other [of r'] by (auto simp: company_key_def split: if_splits)
  next
    case False
    then show ?thesis using that prefixes_ok_rows [OF ok, of r r'] by auto
  qed
  have lens: "case cp_invoice_prefix (?f r) of None \<Rightarrow> True | Some q \<Rightarrow> length q = PREFIX_LEN"
    if "r \<in> set (companies_tbl db)" "cp_tenant r = t" for r
    using that len prefixes_ok_len [OF ok, of r] by (auto split: option.splits)
  let ?db = "db\<lparr>companies_tbl := update_where (company_key t c)
           (\<lambda>r. r\<lparr>cp_invoice_prefix := Some p\<rparr>) (companies_tbl db)\<rparr>"
  have image: "set (companies_tbl ?db) = ?f ` set (companies_tbl db)"
    by (simp add: set_update_where)
  have tenant_f: "cp_tenant (?f r) = cp_tenant r" for r by simp
  show ?thesis
    unfolding prefixes_ok_def image
  proof (intro conjI ballI impI; elim imageE)
    fix r r' r0 r0'
    assume r: "cp_tenant r = t \<and> cp_tenant r' = t \<and> cp_invoice_prefix r \<noteq> None
        \<and> cp_invoice_prefix r = cp_invoice_prefix r'"
      and eq: "r = ?f r0" "r' = ?f r0'"
      and mem: "r0 \<in> set (companies_tbl db)" "r0' \<in> set (companies_tbl db)"
    have t: "cp_tenant r0 = t" "cp_tenant r0' = t"
      using r eq tenant_f [of r0] tenant_f [of r0'] by simp_all
    have "cp_invoice_prefix (?f r0) \<noteq> None" "cp_invoice_prefix (?f r0) = cp_invoice_prefix (?f r0')"
      using r unfolding eq by blast+
    with rows [OF mem t] show "cp_id r = cp_id r'" unfolding eq by blast
  next
    fix r r0
    assume "cp_tenant r = t" "r = ?f r0" "r0 \<in> set (companies_tbl db)"
    then show "case cp_invoice_prefix r of None \<Rightarrow> True | Some p \<Rightarrow> length p = PREFIX_LEN"
      using lens [of r0] tenant_f [of r0] by simp
  qed
qed

lemma ensure_company_prefix_Inr:
  assumes "ensure_company_prefix draw db t c = Inr (db', p)" and ok: "prefixes_ok db t"
  shows "comp_prefix db' t c = Some p \<and> prefixes_ok db' t
    \<and> (\<forall>d q. comp_prefix db t d = Some q \<longrightarrow> comp_prefix db' t d = Some q)
    \<and> company_sequences db' = company_sequences db \<and> text_settings db' = text_settings db"
proof -
  obtain r where row: "select_one (company_key t c) (companies_tbl db) = Some r"
    using assms(1) by (auto simp: ensure_company_prefix_def elim: case_option_InrE)
  show ?thesis
  proof (cases "cp_invoice_prefix r")
    case (Some q)
    with assms row show ?thesis by (auto simp: ensure_company_prefix_def comp_prefix_def)
  next
    case None
    with assms(1) row have a: "assign_prefix PREFIX_ATTEMPTS False draw db t c = Inr (db', p)"
      by (simp add: ensure_company_prefix_def)
    note as = assign_prefix_Inr [OF a]
    have sel: "select_one (company_key t d) (companies_tbl db')
        = map_option (\<lambda>r. if company_key t c r then r\<lparr>cp_invoice_prefix := Some p\<rparr> else r)
            (select_one (company_key t d) (companies_tbl db))" for d
      using as by (simp add: select_one_update_where company_key_def)
    have "company_key t c r" using row by (auto dest: select_one_SomeD)
    then have "comp_prefix db' t c = Some p" by (simp add: comp_prefix_def sel row)
    moreover have "comp_prefix db' t d = Some q" if "comp_prefix db t d = Some q" for d q
    proof -
      obtain r' where r': "select_one (company_key t d) (companies_tbl db) = Some r'"
        "cp_invoice_prefix r' = Some q"
        using \<open>comp_prefix db t d = Some q\<close> by (auto simp: comp_prefix_def split: option.splits)
      then have "company_key t d r'" by (auto dest: select_one_SomeD)
      moreover have "d \<noteq> c" using r' row None by auto
      ultimately have "\<not> company_key t c r'" by (simp add: company_key_def)
      with r' show ?thesis by (simp add: comp_prefix_def sel)
    qed
    ultimately show ?thesis using as prefixes_ok_assign [OF ok, of p c] by simp
  qed
qed

lemma next_company_number_Inr:
  assumes "next_company_number db t c = Inr (db', n)"
  shows "n = Suc (comp_last db t c) \<and> comp_last db' t c = n
    \<and> (\<forall>d. d \<noteq> c \<longrightarrow> comp_last db' t d = comp_last db t d)
    \<and> companies_tbl db' = companies_tbl db \<and> text_settings db' = text_settings db"
proof -
  have other: "select_one (cs_key t d) (update_where (cs_key t c) (\<lambda>s. s\<lparr>cs_last_number := m\<rparr>) rs)
      = map_option (\<lambda>r. if cs_key t c r then r\<lparr>cs_last_number := m\<rparr> else r)
          (select_one (cs_key t d) rs)" for d m rs
    by (rule select_one_update_where) (simp add: cs_key_def)
  show ?thesis
  proof (cases "select_one (cs_key t c) (company_sequences db)")
    case None
    have "select_one (cs_key t d) (company_sequences db
        @ [\<lparr>cs_tenant = t, cs_company = c, cs_last_number = 1\<rparr>])
      = select_one (cs_key t d) (company_sequences db)" if "d \<noteq> c" for d
      using that by (simp add: select_one_append table_simps cs_key_def split: option.splits)
    with None assms show ?thesis
      by (auto simp: next_company_number_def comp_last_def select_one_append table_simps cs_key_def)
  next
    case (Some r)
    have "cs_key t c r" using Some by (auto dest: select_one_SomeD)
    have away: "\<not> cs_key t c r'" if "select_one (cs_key t d) (company_sequences db) = Some r'" "d \<noteq> c" for d r'
      using that by (auto simp: cs_key_def dest!: select_one_SomeD)
    have db': "n = Suc (cs_last_number r) \<and> db' = db\<lparr>company_sequences := update_where (cs_key t c)
        (\<lambda>s. s\<lparr>cs_last_number := n\<rparr>) (company_sequences db)\<rparr>"
      using assms Some by (auto simp: next_company_number_def bump_Inr elim!: and_then_InrE)
    have "comp_last db' t d = comp_last db t d" if "d \<noteq> c" for d
      using db' away [OF _ that]
      by (cases "select_one (cs_key t d) (company_sequences db)") (simp_all add: comp_last_def other)
    moreover have "comp_last db' t c = n" "comp_last db t c = cs_last_number r"
      using db' Some \<open>cs_key t c r\<close> by (simp_all add: comp_last_def other)
    ultimately show ?thesis using db' by simp
  qed
qed

fun allot_numbers :: "bill_db \<Rightarrow> tenant \<Rightarrow> (uuid \<times> (nat \<Rightarrow> nat \<Rightarrow> nat)) list \<Rightarrow> (bill_db \<times> string list) app_result" where
  "allot_numbers db t [] = Inr (db, [])"
| "allot_numbers db t ((c, draw) # cs) =
     and_then (next_invoice_number draw db t c) (\<lambda>(db1, s, _).
       and_then (allot_numbers db1 t cs) (\<lambda>(db2, ss). Inr (db2, s # ss)))"

lemma allot_ConsE:
  assumes "allot_numbers db t ((c, draw) # cs) = Inr (db', ns)"
  obtains db1 s scheme ss where "next_invoice_number draw db t c = Inr (db1, s, scheme)"
    "allot_numbers db1 t cs = Inr (db', ss)" "ns = s # ss"
  using assms by (auto simp: and_then_def split: sum.splits prod.splits)

lemma read_scheme_cong: "text_settings db' = text_settings db \<Longrightarrow> read_scheme db' t = read_scheme db t"
  by (simp add: read_scheme_def read_text_setting_def)

lemma next_invoice_number_company:
  assumes "next_invoice_number draw db t c = Inr (db', s, scheme)" "read_scheme db t = CompanyPrefix"
    and ok: "prefixes_ok db t"
  obtains p where "comp_prefix db' t c = Some p" "s = format_company_number p (Suc (comp_last db t c))"
    "comp_last db' t c = Suc (comp_last db t c)" "\<And>d. d \<noteq> c \<Longrightarrow> comp_last db' t d = comp_last db t d"
    "\<And>d q. comp_prefix db t d = Some q \<Longrightarrow> comp_prefix db' t d = Some q"
    "prefixes_ok db' t" "read_scheme db' t = CompanyPrefix"
proof -
  obtain db1 p n where e: "ensure_company_prefix draw db t c = Inr (db1, p)"
    and n: "next_company_number db1 t c = Inr (db', n)" and s: "s = format_company_number p n"
    using assms(1,2) by (auto simp: next_invoice_number_def elim!: and_then_InrE)
  note e' = ensure_company_prefix_Inr [OF e ok] and n' = next_company_number_Inr [OF n]
  have cl: "comp_last db1 t d = comp_last db t d" for d using e' by (simp add: comp_last_def)
  have cp: "comp_prefix db' t d = comp_prefix db1 t d" for d using n' by (simp add: comp_prefix_def)
  have pok: "prefixes_ok db' t = prefixes_ok db1 t" using n' by (simp add: prefixes_ok_def)
  have sch: "read_scheme db' t = CompanyPrefix"
    using n' e' assms(2) read_scheme_cong [of db' db1 t] read_scheme_cong [of db1 db t] by simp
  show thesis
    using that [of p] e' n' cl cp pok sch s by simp
qed

lemma allot_company:
  assumes "allot_numbers db t cs = Inr (db', ns)" "read_scheme db t = CompanyPrefix" "prefixes_ok db t"
  shows "distinct ns \<and> prefixes_ok db' t
    \<and> (\<forall>d q. comp_prefix db t d = Some q \<longrightarrow> comp_prefix db' t d = Some q)
    \<and> (\<forall>s \<in> set ns. \<exists>c p k. comp_prefix db' t c = Some p \<and> s = format_company_number p k
          \<and> comp_last db t c < k)"
  using assms
proof (induction cs arbitrary: db ns)
  case Nil
  then show ?case by simp
next
  case (Cons cd cs)
  obtain c draw where "cd = (c, draw)" by force
  with Cons.prems obtain db1 s scheme ss where
    one: "next_invoice_number draw db t c = Inr (db1, s, scheme)"
    and rest: "allot_numbers db1 t cs = Inr (db', ss)" and ns: "ns = s # ss"
    by (metis allot_ConsE)
  obtain p where p: "comp_prefix db1 t c = Some p"
    and s: "s = format_company_number p (Suc (comp_last db t c))"
    and l: "comp_last db1 t c = Suc (comp_last db t c)"
    and o: "\<And>d. d \<noteq> c \<Longrightarrow> comp_last db1 t d = comp_last db t d"
    and keep: "\<And>d q. comp_prefix db t d = Some q \<Longrightarrow> comp_prefix db1 t d = Some q"
    and ok1: "prefixes_ok db1 t" and sch: "read_scheme db1 t = CompanyPrefix"
    using next_invoice_number_company [OF one Cons.prems(2,3)] by blast
  note IH = Cons.IH [OF rest sch ok1]
  have pc: "comp_prefix db' t c = Some p" using IH p by blast
  have le: "comp_last db t d \<le> comp_last db1 t d" for d using l o [of d] by (cases "d = c") auto
  have "s \<notin> set ss"
  proof
    assume "s \<in> set ss"
    then obtain d q k where d: "comp_prefix db' t d = Some q" "s = format_company_number q k"
      "comp_last db1 t d < k" using IH by blast
    have "length p = length q"
      using prefixes_ok_length [of db' t] IH pc d(1) by metis
    with s d(2) have "p = q" "k = comp_last db1 t c" by (simp_all add: format_company_number_inject l)
    with pc d IH show False using prefixes_ok_unique [of db' t c p d] by simp
  qed
  moreover have "\<exists>c p k. comp_prefix db' t c = Some p \<and> x = format_company_number p k \<and> comp_last db t c < k"
    if "x \<in> set ss" for x
    using IH that le order.strict_trans1 by blast
  ultimately show ?case using IH ns keep pc s by auto
qed

lemma allot_tenant:
  assumes "allot_numbers db t cs = Inr (db', ns)" "read_scheme db t = TenantSequence"
  shows "take_many (next_in_series t ''INV-'') (length cs) (invoice_sequences db)
    = Inr (invoice_sequences db', ns)"
  using assms
proof (induction cs arbitrary: db ns)
  case Nil
  then show ?case by simp
next
  case (Cons cd cs)
  obtain c draw where "cd = (c, draw)" by force
  with Cons.prems obtain db1 s scheme ss where
    one: "next_invoice_number draw db t c = Inr (db1, s, scheme)"
    and rest: "allot_numbers db1 t cs = Inr (db', ss)" and ns: "ns = s # ss"
    by (metis allot_ConsE)
  have next': "next_in_series t ''INV-'' (invoice_sequences db) = Inr (invoice_sequences db1, s)
      \<and> text_settings db1 = text_settings db"
    using one Cons.prems(2)
    by (auto simp: next_invoice_number_def next_tenant_invoice_number_def map_sum_def split: sum.splits)
  with Cons.IH [OF rest] read_scheme_cong [of db1 db t] Cons.prems(2) ns show ?case by simp
qed

text \<open>
  C35. Invoice numbers never repeat: however many invoices a tenant raises, for whichever
  companies and in whichever order, the numbers handed out are pairwise distinct under both
  numbering schemes; under the tenant-wide scheme they are moreover exactly the consecutive
  numbers that follow the counter, with no gap.
\<close>

theorem invoice_numbers_distinct:
  assumes "prefixes_ok db t" and "allot_numbers db t cs = Inr (db', ns)"
  shows "distinct ns \<and> (read_scheme db t = TenantSequence \<longrightarrow>
           ns = map (format_tenant_number (series_prefix t ''INV-'' (invoice_sequences db)))
                 [Suc (series_last t (invoice_sequences db))
                   ..<Suc (series_last t (invoice_sequences db) + length cs)])"
proof (cases "read_scheme db t")
  case TenantSequence
  note many = allot_tenant [OF assms(2) TenantSequence]
  from documents.take_many_dense [OF many] documents.take_many_distinct [OF many]
  show ?thesis by blast
next
  case CompanyPrefix
  with allot_company [OF assms(2) _ assms(1)] show ?thesis by simp
qed

definition sample_numbers :: "string option \<Rightarrow> bill_db" where
  "sample_numbers scheme = \<lparr> invoices = [], invoice_lines = [], payments = [], payment_refunds = [],
     credit_notes = [], credit_note_lines = [],
     companies_tbl =
       [\<lparr> cp_id = 3, cp_tenant = 7, cp_invoice_prefix = Some ''A7QF'', cp_default_contact = None \<rparr>,
        \<lparr> cp_id = 4, cp_tenant = 7, cp_invoice_prefix = None, cp_default_contact = None \<rparr>],
     payment_terms = [], tax_rates = [],
     invoice_sequences = [\<lparr> sq_tenant = 7, sq_last_number = 41, sq_prefix = None \<rparr>],
     company_sequences = [\<lparr> cs_tenant = 7, cs_company = 3, cs_last_number = 9 \<rparr>],
     credit_note_sequences = [], contacts_tbl = [], contact_companies = [], products = [],
     projects_tbl = [], mileage_entries = [], invoice_runs = [],
     text_settings = [(7, ''billing_prefs'', ''invoice_numbering'', scheme)], bill_audit = [] \<rparr>"

definition sample_requests :: "(uuid \<times> (nat \<Rightarrow> nat \<Rightarrow> nat)) list" where
  "sample_requests = [(3, \<lambda>_ k. k), (4, \<lambda>_ k. k), (3, \<lambda>_ k. k)]"

theorem invoice_numbers_distinct_witness:
  "prefixes_ok (sample_numbers (Some ''company_prefix'')) 7
   \<and> map_sum id snd (allot_numbers (sample_numbers (Some ''company_prefix'')) 7 sample_requests)
       = Inr [''A7QF-000010'', ''ABCD-000001'', ''A7QF-000011'']
   \<and> distinct [''A7QF-000010'', ''ABCD-000001'', ''A7QF-000011'']"
proof -
  have ok: "prefixes_ok (sample_numbers (Some ''company_prefix'')) 7" by code_simp
  have r: "map_sum id snd (allot_numbers (sample_numbers (Some ''company_prefix'')) 7 sample_requests)
       = Inr [''A7QF-000010'', ''ABCD-000001'', ''A7QF-000011'']" by code_simp
  then obtain db' where a: "allot_numbers (sample_numbers (Some ''company_prefix'')) 7 sample_requests
       = Inr (db', [''A7QF-000010'', ''ABCD-000001'', ''A7QF-000011''])"
    by (rule map_sum_snd_InrE)
  from ok r conjunct1 [OF invoice_numbers_distinct [OF ok a]] show ?thesis by (intro conjI)
qed

text \<open>
  A prefix collision cannot be retried: when the first prefix drawn for a company is held by
  another company of the tenant, the unique violation aborts the transaction and the second
  attempt fails on it, so the company gets no prefix and the invoice no number, whatever the
  remaining draws are.
\<close>

theorem prefix_collision_is_not_retried:
  assumes "select_one (company_key t c) (companies_tbl db) = Some r" and "cp_invoice_prefix r = None"
    and "prefix_taken db t (generate_prefix (draw 4))"
  shows "ensure_company_prefix draw db t c = Inl (Database ''current transaction is aborted'')"
  using assms by (simp add: ensure_company_prefix_def PREFIX_ATTEMPTS_def eval_nat_numeral)

theorem prefix_collision_is_not_retried_witness:
  "ensure_company_prefix (\<lambda>n k. if n = 4 then [0, 28, 13, 5] ! k else k)
     (sample_numbers (Some ''company_prefix'')) 7 4
   = Inl (Database ''current transaction is aborted'')"
  by (rule prefix_collision_is_not_retried
      [where r = "\<lparr> cp_id = 4, cp_tenant = 7, cp_invoice_prefix = None, cp_default_contact = None \<rparr>"])
     code_simp+

end
