(* ===== verification/Invoicing.thy ===== *)
theory Invoicing
  imports Invoice_Numbers Time_Entries
begin

text \<open>
  The life of an invoice before the customer holds it: \<open>create_invoice\<close>, \<open>update_invoice\<close>
  with the send, \<open>amend_invoice\<close> and the checks they share, of
  src/src/modules/billing/service.rs and src/src/modules/contacts/billing_contact.rs. What the
  service asks of the outside during one request (the accounting provider, the branding store, the
  document renderer, the mail relay) is a record of answers, one per call. Descriptive columns
  (notes, purchase-order number, the free-text terms) are left out.
\<close>

section \<open>Requests and the outside\<close>

record invoice_line_request =
  lr_type :: invoice_line_type
  lr_product :: "uuid option"
  lr_taxable :: bool
  lr_description :: string
  lr_quantity :: decimal
  lr_unit_price :: decimal
  lr_ticket :: "uuid option"
  lr_project :: "uuid option"
  lr_sort_order :: int

record create_invoice_request =
  ci_company :: uuid
  ci_billing_contact :: "uuid option"
  ci_for_contract :: "uuid option"
  ci_invoice_date :: date
  ci_due_date :: "date option"
  ci_payment_term :: "uuid option"
  ci_tax_amount :: "decimal option"
  ci_tax_rate :: "uuid option"
  ci_discount :: "decimal option"
  ci_currency :: "string option"
  ci_lines :: "invoice_line_request list"

record update_invoice_request =
  ui_company :: "uuid option"
  ui_billing_contact :: "uuid option"
  ui_contract :: "uuid option"
  ui_invoice_date :: "date option"
  ui_due_date :: "date option"
  ui_payment_term :: "uuid option"
  ui_tax_amount :: "decimal option"
  ui_tax_rate :: "uuid option"
  ui_discount :: "decimal option"
  ui_lines :: "invoice_line_request list option"
  ui_status :: "invoice_status option"
  ui_delivery :: "(delivery_method \<times> string option) option"
  ui_legacy_skip_email :: "bool option"

record invoice_env =
  env_delegation :: bool
  env_issue :: "(string \<times> string) option app_result"
  env_issuer :: "string app_result"
  env_document :: "unit app_result"
  env_portal_grant :: "unit app_result"
  env_mail_budget :: "nat option"
  env_mail :: "unit app_result"
  env_void_in_provider :: "unit app_result"

section \<open>Checks\<close>

definition assert_product_sellable :: "bill_db \<Rightarrow> tenant \<Rightarrow> uuid \<Rightarrow> unit app_result" where
  "assert_product_sellable db t p =
     (case select_one (\<lambda>r. pr_id r = p \<and> pr_tenant r = t) (products db) of
        None \<Rightarrow> Inl (BadRequest ''product_id does not name a product in this tenant'')
      | Some r \<Rightarrow> if pr_is_active r then Inr ()
                  else Inl (BadRequest ''That product has been retired and cannot be put on a new document''))"

fun assert_lines_sellable :: "bill_db \<Rightarrow> tenant \<Rightarrow> invoice_line_request list \<Rightarrow> unit app_result" where
  "assert_lines_sellable db t [] = Inr ()"
| "assert_lines_sellable db t (l # ls) =
     and_then (case lr_product l of None \<Rightarrow> Inr () | Some p \<Rightarrow> assert_product_sellable db t p)
       (\<lambda>_. assert_lines_sellable db t ls)"

definition assert_for_company :: "bill_db \<Rightarrow> tenant \<Rightarrow> uuid \<Rightarrow> uuid \<Rightarrow> unit app_result" where
  "assert_for_company db t company contact =
     (if list_ex (\<lambda>c. ct_tenant c = t \<and> ct_id c = contact
            \<and> (ct_company c = Some company \<or> (t, contact, company) \<in> set (contact_companies db)))
           (contacts_tbl db)
      then Inr ()
      else Inl (BadRequest ''billing_contact_id does not reference a contact of this company''))"

definition resolve_billing_contact :: "bill_db \<Rightarrow> tenant \<Rightarrow> uuid \<Rightarrow> uuid option
    \<Rightarrow> uuid option app_result" where
  "resolve_billing_contact db t company requested =
     (case requested of
        Some c \<Rightarrow> and_then (assert_for_company db t company c) (\<lambda>_. Inr requested)
      | None \<Rightarrow> Inr (case select_one (company_key t company) (companies_tbl db) of
                       None \<Rightarrow> None | Some r \<Rightarrow> cp_default_contact r))"

definition resolve_invoice_recipient :: "bill_db \<Rightarrow> tenant \<Rightarrow> uuid \<Rightarrow> uuid option
    \<Rightarrow> (uuid \<times> string) app_result" where
  "resolve_invoice_recipient db t company invoice_contact =
     (case select_one (company_key t company) (companies_tbl db) of
        None \<Rightarrow> Inl (Conflict ''The invoice's company no longer exists, so it has no recipient.'')
      | Some r \<Rightarrow>
          (case or_else invoice_contact (cp_default_contact r) of
             None \<Rightarrow> Inl (Conflict ''no billing contact, so this invoice cannot be sent'')
           | Some c \<Rightarrow>
               (case select_one (\<lambda>x. ct_tenant x = t \<and> ct_id x = c) (contacts_tbl db) of
                  None \<Rightarrow> Inl (Conflict ''billing contact no longer exists'')
                | Some x \<Rightarrow>
                    (case ct_email x of
                       None \<Rightarrow> Inl (Conflict ''billing contact has no email address'')
                     | Some email \<Rightarrow>
                         if trim email = [] then Inl (Conflict ''billing contact has no email address'')
                         else Inr (c, trim email)))))"

section \<open>Lines\<close>

definition line_taxable :: "bill_db \<Rightarrow> invoice_line_request \<Rightarrow> bool" where
  "line_taxable db l =
     (case lr_product l of
        None \<Rightarrow> lr_taxable l
      | Some p \<Rightarrow> (case select_one (\<lambda>r. pr_id r = p) (products db) of
                     None \<Rightarrow> lr_taxable l | Some r \<Rightarrow> pr_is_taxable r))"

definition written_line :: "bill_db \<Rightarrow> uuid \<Rightarrow> invoice_line_request \<Rightarrow> invoice_line" where
  "written_line db i l = \<lparr> il_invoice = i, il_type = lr_type l, il_description = lr_description l,
     il_quantity = num2 (lr_quantity l), il_unit_price = num2 (lr_unit_price l),
     il_total = num2 (lr_quantity l * lr_unit_price l), il_time_entries = [],
     il_ticket = lr_ticket l, il_project = lr_project l, il_product = lr_product l,
     il_taxable = line_taxable db l, il_sort_order = lr_sort_order l \<rparr>"

definition write_lines :: "bill_db \<Rightarrow> uuid \<Rightarrow> invoice_line_request list \<Rightarrow> bill_db" where
  "write_lines db i ls = db\<lparr>invoice_lines := invoice_lines db @ map (written_line db i) ls\<rparr>"

definition request_subtotal :: "invoice_line_request list \<Rightarrow> decimal" where
  "request_subtotal ls = sum_list (map (\<lambda>l. lr_quantity l * lr_unit_price l) ls)"

text \<open>The INSERT of a header: the number is unique in the tenant.\<close>

definition insert_invoice :: "bill_db \<Rightarrow> invoice \<Rightarrow> bill_db app_result" where
  "insert_invoice db r =
     (if list_ex (\<lambda>x. inv_tenant x = inv_tenant r \<and> inv_number x = inv_number r) (invoices db)
      then Inl (Conflict ''That record already exists'')
      else Inr (db\<lparr>invoices := invoices db @ [r]\<rparr>))"

definition check_opt :: "('a \<Rightarrow> unit app_result) \<Rightarrow> 'a option \<Rightarrow> unit app_result" where
  "check_opt f x = (case x of None \<Rightarrow> Inr () | Some a \<Rightarrow> f a)"

section \<open>Creating\<close>

definition issue_first :: "invoice_env \<Rightarrow> bill_db \<Rightarrow> tenant \<Rightarrow> create_invoice_request
    \<Rightarrow> ((date \<times> uuid option) option \<times> (string \<times> string) option) app_result" where
  "issue_first env db t r =
     (if env_delegation env then
        and_then (assert_billing_company db t (ci_company r)) (\<lambda>_.
        and_then (check_opt (assert_payment_term_in_tenant db t) (ci_payment_term r)) (\<lambda>_.
        and_then (assert_lines_sellable db t (ci_lines r)) (\<lambda>_.
          map_sum id
            (\<lambda>ext. (Some (resolve_due_date db t (ci_invoice_date r) (ci_payment_term r) (ci_due_date r)), ext))
            (env_issue env))))
      else Inr (None, None))"

definition due_and_term :: "bill_db \<Rightarrow> tenant \<Rightarrow> create_invoice_request \<Rightarrow> (date \<times> uuid option) option
    \<Rightarrow> (date \<times> uuid option) app_result" where
  "due_and_term db t r prevalidated =
     (case prevalidated of
        Some x \<Rightarrow> Inr x
      | None \<Rightarrow>
          and_then (assert_billing_company db t (ci_company r)) (\<lambda>_.
          and_then (check_opt (assert_payment_term_in_tenant db t) (ci_payment_term r)) (\<lambda>_.
            Inr (resolve_due_date db t (ci_invoice_date r) (ci_payment_term r) (ci_due_date r)))))"

definition new_invoice :: "tenant \<Rightarrow> uuid \<Rightarrow> string \<Rightarrow> number_scheme \<Rightarrow> create_invoice_request
    \<Rightarrow> date \<times> uuid option \<Rightarrow> uuid option \<Rightarrow> string \<Rightarrow> (string \<times> string) option \<Rightarrow> instant \<Rightarrow> invoice" where
  "new_invoice t i number scheme r dt contact currency ext now =
     (let subtotal = request_subtotal (ci_lines r);
          tax = opt_or (ci_tax_amount r) 0;
          discount = opt_or (ci_discount r) 0;
          amount = subtotal + tax - discount
      in \<lparr> inv_id = i, inv_tenant = t, inv_number = number, inv_company = ci_company r,
           inv_billing_contact = contact, inv_contract = ci_for_contract r,
           inv_status = (if ext = None then Draft else Sent),
           inv_invoice_date = ci_invoice_date r, inv_due_date = fst dt, inv_payment_term = snd dt,
           inv_subtotal = num2 subtotal, inv_tax_amount = num2 tax, inv_tax_rate_id = None,
           inv_tax_rate = None, inv_discount = num2 discount, inv_total = num2 amount,
           inv_amount_paid = 0, inv_amount_credited = 0, inv_balance_due = num2 amount,
           inv_currency = Some currency,
           inv_sent_at = (if ext = None then None else Some now), inv_issuer_snapshot = None,
           inv_emailed_to = None, inv_delivery = None, inv_paid_at = None,
           inv_written_off_at = None, inv_written_off_by = None, inv_write_off_reason = None,
           inv_write_off_amount = None, inv_voided_at = None, inv_voided_by = None,
           inv_void_reason = None, inv_external_provider = map_option fst ext,
           inv_external_id = map_option snd ext, inv_amends = None, inv_number_scheme = scheme \<rparr>)"

definition create_invoice_tx :: "(nat \<Rightarrow> nat \<Rightarrow> nat) \<Rightarrow> bill_db \<Rightarrow> tenant \<Rightarrow> create_invoice_request \<Rightarrow> audit_ctx
    \<Rightarrow> (date \<times> uuid option) option \<Rightarrow> (string \<times> string) option \<Rightarrow> uuid \<Rightarrow> instant \<Rightarrow> bill_db app_result" where
  "create_invoice_tx draw db t r ctx pre ext new_id now =
     and_then (next_invoice_number draw db t (ci_company r)) (\<lambda>(db1, number, scheme).
     and_then (due_and_term db1 t r pre) (\<lambda>dt.
     and_then (resolve_billing_contact db1 t (ci_company r) (ci_billing_contact r)) (\<lambda>contact.
     let currency = opt_or (ci_currency r) (read_default_currency db1 t) in
     and_then (insert_invoice db1 (new_invoice t new_id number scheme r dt contact currency ext now)) (\<lambda>db2.
     and_then (if pre = None then assert_lines_sellable db2 t (ci_lines r) else Inr ()) (\<lambda>_.
     and_then (apply_tax (write_lines db2 new_id (ci_lines r)) t new_id (ci_tax_rate r)
                 (ci_tax_amount r) (opt_or (ci_discount r) 0)) (\<lambda>db3.
       Inr (audited t ctx ACreate ''invoices'' new_id db3)))))))"

definition create_invoice :: "(nat \<Rightarrow> nat \<Rightarrow> nat) \<Rightarrow> invoice_env \<Rightarrow> bill_db \<Rightarrow> tenant
    \<Rightarrow> create_invoice_request \<Rightarrow> audit_ctx \<Rightarrow> uuid \<Rightarrow> instant \<Rightarrow> (bill_db \<times> invoice) app_result" where
  "create_invoice draw env db t r ctx new_id now =
     and_then (issue_first env db t r) (\<lambda>(pre, ext).
     and_then (create_invoice_tx draw db t r ctx pre ext new_id now) (\<lambda>db1.
       map_sum id (\<lambda>row. (db1, row)) (load_invoice db1 t new_id)))"

section \<open>Editing and sending\<close>

definition delivery_choice :: "update_invoice_request \<Rightarrow> (delivery_method \<times> string option) option" where
  "delivery_choice r = map_option (\<lambda>(m, note).
     (m, case map_option trim note of Some [] \<Rightarrow> None | x \<Rightarrow> x)) (ui_delivery r)"

definition check_update_request :: "update_invoice_request \<Rightarrow> unit app_result" where
  "check_update_request r =
     (if ui_legacy_skip_email r \<noteq> None then Inl (Validation ''skip_email'')
      else if delivery_choice r = Some (ByOther, None) then Inl (Validation ''delivery.note'')
      else if ui_status r \<in> {Some Void, Some WrittenOff} then Inl (Validation ''status'')
      else Inr ())"

definition company_change :: "update_invoice_request \<Rightarrow> invoice \<Rightarrow> uuid option" where
  "company_change r current =
     (case ui_company r of None \<Rightarrow> None
      | Some c \<Rightarrow> if c = inv_company current then None else Some c)"

text \<open>A draft moves to another company only when nothing on it belongs to the old one.\<close>

definition foreign_line :: "time_db \<Rightarrow> bill_db \<Rightarrow> uuid \<Rightarrow> invoice_line \<Rightarrow> bool" where
  "foreign_line tdb db c l \<longleftrightarrow>
     (case il_ticket l of None \<Rightarrow> False
      | Some k \<Rightarrow> (case select_one (\<lambda>r. tk_id r = k) (tickets tdb) of
                     None \<Rightarrow> True | Some r \<Rightarrow> tk_company r \<noteq> c))
     \<or> (case il_project l of None \<Rightarrow> False
        | Some k \<Rightarrow> (case select_one (\<lambda>r. fst r = k) (projects_tbl db) of
                       None \<Rightarrow> True | Some r \<Rightarrow> snd r \<noteq> Some c))"

definition assert_draft_can_move_company :: "time_db \<Rightarrow> bill_db \<Rightarrow> tenant \<Rightarrow> invoice \<Rightarrow> uuid \<Rightarrow> uuid option
    \<Rightarrow> unit app_result" where
  "assert_draft_can_move_company tdb db t row c requested_contract =
     and_then (assert_billing_company db t c) (\<lambda>_.
       let i = inv_id row in
       if list_ex (\<lambda>p. pay_tenant p = t \<and> pay_invoice p = Some i) (payments db)
       then Inl (Conflict ''payment(s) are recorded against it'')
       else if list_ex (\<lambda>e. te_tenant e = t \<and> te_invoice e = Some i) (time_entries tdb)
            \<or> list_ex (\<lambda>m. me_tenant m = t \<and> me_invoice m = Some i) (mileage_entries db)
       then Inl (Conflict ''it bills time or mileage entries of its company'')
       else if inv_contract row \<noteq> None \<or> list_ex (\<lambda>x. ir_invoice x = i) (invoice_runs db)
            \<or> requested_contract \<noteq> None
       then Inl (Conflict ''it was generated from, or names, a contract'')
       else if list_ex (\<lambda>l. il_invoice l = i \<and> foreign_line tdb db c l) (invoice_lines db)
       then Inl (Conflict ''line(s) name a ticket or project that does not belong to the company'')
       else Inr ())"

definition replace_lines :: "bill_db \<Rightarrow> tenant \<Rightarrow> uuid \<Rightarrow> invoice_line_request list option \<Rightarrow> bill_db app_result" where
  "replace_lines db t i new =
     (case new of
        None \<Rightarrow> Inr db
      | Some ls \<Rightarrow>
          and_then (assert_lines_sellable db t ls) (\<lambda>_.
            Inr (write_lines (db\<lparr>invoice_lines := delete_where (\<lambda>l. il_invoice l = i) (invoice_lines db)\<rparr>) i ls)))"

definition just_sent :: "update_invoice_request \<Rightarrow> invoice \<Rightarrow> invoice_status \<Rightarrow> bool" where
  "just_sent r current locked_status \<longleftrightarrow>
     opt_or (ui_status r) locked_status = Sent \<and> inv_sent_at current = None"

definition replaceable :: "invoice \<Rightarrow> bool" where
  "replaceable r \<longleftrightarrow> inv_status r = Sent \<and> inv_amount_paid r \<le> 0 \<and> inv_amount_credited r \<le> 0"

definition check_amended :: "bill_db \<Rightarrow> tenant \<Rightarrow> uuid option \<Rightarrow> unit app_result" where
  "check_amended db t amends =
     (case amends of
        None \<Rightarrow> Inr ()
      | Some i \<Rightarrow>
          (case select_invoice db t i of
             None \<Rightarrow> Inl (Conflict ''The invoice this one amends no longer exists'')
           | Some orig \<Rightarrow> if replaceable orig then Inr ()
                        else Inl (Conflict ''no longer in a state this amendment can replace'')))"

definition updated_due_date :: "bill_db \<Rightarrow> tenant \<Rightarrow> update_invoice_request \<Rightarrow> invoice \<Rightarrow> date option" where
  "updated_due_date db t r current =
     (case (ui_payment_term r, ui_due_date r) of
        (Some term, None) \<Rightarrow>
          Some (fst (resolve_due_date db t (opt_or (ui_invoice_date r) (inv_invoice_date current)) (Some term) None))
      | (_, given) \<Rightarrow> given)"

definition send_method :: "update_invoice_request \<Rightarrow> delivery_method" where
  "send_method r = (case delivery_choice r of None \<Rightarrow> ByEmail | Some (m, _) \<Rightarrow> m)"

definition choose_recipient :: "bill_db \<Rightarrow> tenant \<Rightarrow> update_invoice_request \<Rightarrow> invoice \<Rightarrow> bool
    \<Rightarrow> (uuid \<times> string) option app_result" where
  "choose_recipient db t r current sent =
     (if sent \<and> send_method r = ByEmail then
        (let company = opt_or (company_change r current) (inv_company current);
             contact = (if company_change r current \<noteq> None then ui_billing_contact r
                        else or_else (ui_billing_contact r) (inv_billing_contact current))
         in map_sum id Some (resolve_invoice_recipient db t company contact))
      else Inr None)"

definition update_header :: "update_invoice_request \<Rightarrow> invoice \<Rightarrow> invoice \<Rightarrow> uuid option \<Rightarrow> date option
    \<Rightarrow> string option \<Rightarrow> instant \<Rightarrow> invoice \<Rightarrow> invoice" where
  "update_header r current locked contact due snapshot now row =
     (let subtotal = (case ui_lines r of Some ls \<Rightarrow> request_subtotal ls | None \<Rightarrow> inv_subtotal current);
          tax = opt_or (ui_tax_amount r) (inv_tax_amount current);
          discount = opt_or (ui_discount r) (inv_discount current);
          amount = subtotal + tax - discount;
          moved = company_change r current
      in row\<lparr>
           inv_billing_contact := (if moved \<noteq> None then contact else or_else contact (inv_billing_contact row)),
           inv_company := opt_or moved (inv_company row),
           inv_contract := or_else (ui_contract r) (inv_contract row),
           inv_invoice_date := opt_or (ui_invoice_date r) (inv_invoice_date row),
           inv_due_date := opt_or due (inv_due_date row),
           inv_status := opt_or (ui_status r) (inv_status locked),
           inv_subtotal := num2 subtotal,
           inv_tax_amount := num2 tax,
           inv_discount := num2 discount,
           inv_total := num2 amount,
           inv_balance_due := num2 (amount - inv_amount_paid locked),
           inv_sent_at := (if just_sent r current (inv_status locked) then Some now else inv_sent_at current),
           inv_payment_term := or_else (ui_payment_term r) (inv_payment_term row),
           inv_issuer_snapshot := or_else (inv_issuer_snapshot row) snapshot\<rparr>)"

text \<open>
  An error carries whether the relay refused the mail: that attempt is recorded in a transaction
  of its own after the rollback.
\<close>

type_synonym 'a send_result = "(app_error \<times> bool) + 'a"

definition plain :: "'a app_result \<Rightarrow> 'a send_result" where
  "plain = map_sum (\<lambda>e. (e, False)) id"

definition deliver :: "invoice_env \<Rightarrow> bill_db \<Rightarrow> tenant \<Rightarrow> uuid \<Rightarrow> update_invoice_request \<Rightarrow> audit_ctx
    \<Rightarrow> (uuid \<times> string) option \<Rightarrow> bill_db send_result" where
  "deliver env db t i r ctx recipient =
     and_then (plain (env_document env)) (\<lambda>_.
       (case recipient of
          Some (contact, address) \<Rightarrow>
            and_then (plain (env_portal_grant env)) (\<lambda>_.
            and_then (case (ctx_user ctx, env_mail_budget env) of
                        (Some _, Some wait) \<Rightarrow> Inl (RateLimited (Some wait), False)
                      | _ \<Rightarrow> Inr ()) (\<lambda>_.
            and_then (map_sum (\<lambda>e. (e, True)) id (env_mail env)) (\<lambda>_.
              Inr (audited t ctx AUpdate ''invoices'' i
                    (update_invoice_row t i
                      (\<lambda>x. x\<lparr>inv_emailed_to := Some address, inv_delivery := Some (ByEmail, None)\<rparr>) db)))))
        | None \<Rightarrow>
            Inr (audited t ctx AUpdate ''invoices'' i
                  (update_invoice_row t i (\<lambda>x. x\<lparr>inv_delivery :=
                     Some (send_method r, case delivery_choice r of None \<Rightarrow> None | Some (_, note) \<Rightarrow> note)\<rparr>) db))))"

definition void_amended :: "invoice_env \<Rightarrow> bill_db \<Rightarrow> tenant \<Rightarrow> audit_ctx \<Rightarrow> string \<Rightarrow> uuid option \<Rightarrow> instant
    \<Rightarrow> bill_db send_result" where
  "void_amended env db t ctx number amends now =
     (case amends of
        None \<Rightarrow> Inr db
      | Some orig_id \<Rightarrow>
          let held = (case select_invoice db t orig_id of
                        None \<Rightarrow> False
                      | Some orig \<Rightarrow>
                          (case (inv_external_provider orig, inv_external_id orig) of
                             (Some provider, Some _) \<Rightarrow> provider_kind_parse provider \<noteq> None
                           | _ \<Rightarrow> False));
              db1 = update_invoice_row t orig_id (\<lambda>x. x\<lparr>inv_status := Void, inv_voided_at := Some now,
                      inv_voided_by := ctx_user ctx,
                      inv_void_reason := Some (''Replaced by invoice '' @ number),
                      inv_balance_due := 0\<rparr>) db
          in and_then (if held \<and> env_delegation env then plain (env_void_in_provider env) else Inr ())
               (\<lambda>_. Inr (audited t ctx AUpdate ''invoices'' orig_id db1)))"

definition update_invoice_tx :: "invoice_env \<Rightarrow> time_db \<Rightarrow> bill_db \<Rightarrow> tenant \<Rightarrow> uuid \<Rightarrow> update_invoice_request
    \<Rightarrow> invoice \<Rightarrow> audit_ctx \<Rightarrow> instant \<Rightarrow> bill_db send_result" where
  "update_invoice_tx env tdb db t i r current ctx now =
     (case select_invoice db t i of
        None \<Rightarrow> Inl (NotFound ''Invoice'', False)
      | Some locked \<Rightarrow>
          if is_frozen (inv_status locked) then Inl (Conflict ''Invoice cannot be edited'', False)
          else
            let moved = company_change r current;
                sent = just_sent r current (inv_status locked);
                amends = (if sent then inv_amends current else None) in
            and_then (plain (replace_lines db t i (ui_lines r))) (\<lambda>db1.
            and_then (plain (check_opt (\<lambda>c. assert_draft_can_move_company tdb db1 t locked c (ui_contract r)) moved)) (\<lambda>_.
            and_then (plain (check_amended db1 t amends)) (\<lambda>_.
            and_then (plain (check_opt (assert_payment_term_in_tenant db1 t) (ui_payment_term r))) (\<lambda>_.
            and_then (plain (check_opt (assert_for_company db1 t (opt_or moved (inv_company current)))
                        (ui_billing_contact r))) (\<lambda>_.
            and_then (plain (choose_recipient db1 t r current sent)) (\<lambda>recipient.
            and_then (plain (if sent then map_sum id Some (env_issuer env) else Inr None)) (\<lambda>snapshot.
            let contact = or_else (ui_billing_contact r) (map_option fst recipient);
                db2 = update_invoice_row t i (update_header r current locked contact
                        (updated_due_date db1 t r current) snapshot now) db1 in
            and_then (plain (if ui_lines r \<noteq> None \<or> ui_tax_rate r \<noteq> None \<or> ui_tax_amount r \<noteq> None
                      then apply_tax db2 t i (or_else (ui_tax_rate r) (inv_tax_rate_id current))
                             (ui_tax_amount r) (opt_or (ui_discount r) (inv_discount current))
                      else Inr db2)) (\<lambda>db3.
            and_then (if sent then deliver env db3 t i r ctx recipient else Inr db3) (\<lambda>db4.
            let db5 = audited t ctx AUpdate ''invoices'' i db4;
                db6 = (if moved = None then db5 else audited t ctx AUpdate ''invoices'' i db5) in
            void_amended env db6 t ctx (inv_number current) amends now))))))))))"

text \<open>
  The whole operation on a row read before the transaction: \<open>current\<close>. The state is the one left
  behind, also when the operation fails.
\<close>

definition update_invoice_from :: "invoice \<Rightarrow> invoice_env \<Rightarrow> time_db \<Rightarrow> bill_db \<Rightarrow> tenant \<Rightarrow> uuid
    \<Rightarrow> update_invoice_request \<Rightarrow> audit_ctx \<Rightarrow> instant \<Rightarrow> bill_db \<times> invoice app_result" where
  "update_invoice_from current env tdb db t i r ctx now =
     (if is_frozen (inv_status current) then (db, Inl (Conflict ''Invoice cannot be edited''))
      else (case update_invoice_tx env tdb db t i r current ctx now of
              Inl (e, refused) \<Rightarrow>
                (if refused then audited t ctx AUpdate ''invoices'' i db else db, Inl e)
            | Inr db1 \<Rightarrow> (db1, load_invoice db1 t i)))"

definition update_invoice :: "invoice_env \<Rightarrow> time_db \<Rightarrow> bill_db \<Rightarrow> tenant \<Rightarrow> uuid
    \<Rightarrow> update_invoice_request \<Rightarrow> audit_ctx \<Rightarrow> instant \<Rightarrow> bill_db \<times> invoice app_result" where
  "update_invoice env tdb db t i r ctx now =
     (case check_update_request r of
        Inl e \<Rightarrow> (db, Inl e)
      | Inr _ \<Rightarrow>
          (case load_invoice db t i of
             Inl e \<Rightarrow> (db, Inl e)
           | Inr current \<Rightarrow> update_invoice_from current env tdb db t i r ctx now))"

section \<open>Amending\<close>

definition check_amendable :: "bill_db \<Rightarrow> tenant \<Rightarrow> invoice \<Rightarrow> unit app_result" where
  "check_amendable db t row =
     (if inv_status row \<noteq> Sent then
        Inl (Conflict (if inv_status row \<in> {Draft, Pending} then ''has not been sent yet''
                       else if inv_status row = Void then ''is void'' else ''cannot be amended in status''))
      else if inv_amount_paid row > 0 then Inl (Conflict ''has a payment recorded against it'')
      else if inv_amount_credited row > 0 then Inl (Conflict ''already has a credit note against it'')
      else if list_ex (\<lambda>x. inv_tenant x = t \<and> inv_amends x = Some (inv_id row)
                           \<and> inv_status x \<in> {Draft, Pending}) (invoices db)
      then Inl (Conflict ''already has a draft amendment'')
      else Inr ())"

definition amendment_of :: "invoice \<Rightarrow> uuid \<Rightarrow> string \<Rightarrow> number_scheme \<Rightarrow> date \<Rightarrow> date \<Rightarrow> invoice" where
  "amendment_of row new_id number scheme today due = row\<lparr>
     inv_id := new_id, inv_number := number, inv_status := Draft, inv_invoice_date := today,
     inv_due_date := due, inv_amount_paid := 0, inv_amount_credited := 0,
     inv_balance_due := inv_total row, inv_sent_at := None, inv_issuer_snapshot := None,
     inv_emailed_to := None, inv_delivery := None, inv_paid_at := None,
     inv_written_off_at := None, inv_written_off_by := None, inv_write_off_reason := None,
     inv_write_off_amount := None, inv_voided_at := None, inv_voided_by := None,
     inv_void_reason := None, inv_external_provider := None, inv_external_id := None,
     inv_amends := Some (inv_id row), inv_number_scheme := scheme\<rparr>"

definition copy_lines :: "bill_db \<Rightarrow> uuid \<Rightarrow> uuid \<Rightarrow> bill_db" where
  "copy_lines db from_id to_id = db\<lparr>invoice_lines := invoice_lines db
     @ map (\<lambda>l. l\<lparr>il_invoice := to_id\<rparr>)
         (sort_key il_sort_order (filter (\<lambda>l. il_invoice l = from_id) (invoice_lines db)))\<rparr>"

definition amend_invoice :: "(nat \<Rightarrow> nat \<Rightarrow> nat) \<Rightarrow> bill_db \<Rightarrow> tenant \<Rightarrow> uuid \<Rightarrow> date \<Rightarrow> audit_ctx \<Rightarrow> uuid
    \<Rightarrow> (bill_db \<times> invoice) app_result" where
  "amend_invoice draw db t i today ctx new_id =
     (case select_invoice db t i of
        None \<Rightarrow> Inl (NotFound ''Invoice'')
      | Some row \<Rightarrow>
          and_then (check_amendable db t row) (\<lambda>_.
          and_then (next_invoice_number draw db t (inv_company row)) (\<lambda>(db1, number, scheme).
          let due = fst (resolve_due_date db1 t today (inv_payment_term row) None) in
          and_then (insert_invoice db1 (amendment_of row new_id number scheme today due)) (\<lambda>db2.
          let db3 = audited t ctx ACreate ''invoices'' new_id (copy_lines db2 i new_id) in
          map_sum id (\<lambda>x. (db3, x)) (load_invoice db3 t new_id)))))"

end
