(* ===== verification/Credit_Notes.thy ===== *)
theory Credit_Notes
  imports Invoice_Numbers
begin

text \<open>
  Credit notes: \<open>create_credit_note\<close>, \<open>lock_and_check_credit_note_invoice\<close> and
  \<open>void_credit_note\<close> of src/src/modules/billing/service.rs. Creating one runs as a check that
  commits, a call to the accounting provider with no transaction open, and the transaction that
  writes; the last two steps are definitions of their own, so that anything may happen between
  them. The provider's answers and the renderer's are arguments.
\<close>

record credit_line_request =
  cq_description :: string
  cq_quantity :: decimal
  cq_unit_price :: decimal
  cq_sort_order :: int

record create_credit_note_request =
  cc_invoice :: uuid
  cc_issue_date :: "date option"
  cc_reason :: string
  cc_tax_amount :: "decimal option"
  cc_currency :: "string option"
  cc_lines :: "credit_line_request list"

record credit_env =
  ce_delegation :: bool
  ce_issue :: "string app_result"
  ce_void :: "unit app_result"
  ce_document :: "unit app_result"

section \<open>Checks\<close>

fun credit_subtotal :: "decimal \<Rightarrow> credit_line_request list \<Rightarrow> decimal app_result" where
  "credit_subtotal acc [] = Inr acc"
| "credit_subtotal acc (l # ls) =
     (if cq_quantity l \<le> 0 \<or> cq_unit_price l \<le> 0
      then Inl (BadRequest ''A credit note line must have a positive quantity and unit price'')
      else credit_subtotal (acc + cq_quantity l * cq_unit_price l) ls)"

definition credit_totals :: "create_credit_note_request \<Rightarrow> (decimal \<times> decimal \<times> decimal) app_result" where
  "credit_totals r =
     and_then (credit_subtotal 0 (cc_lines r)) (\<lambda>subtotal.
       let tax = opt_or (cc_tax_amount r) 0 in
       if tax < 0 then Inl (BadRequest ''A credit note's tax amount cannot be negative'')
       else if subtotal + tax \<le> 0 then Inl (BadRequest ''A credit note must credit something'')
       else Inr (subtotal, tax, subtotal + tax))"

definition lock_and_check_credit_note_invoice :: "bill_db \<Rightarrow> tenant \<Rightarrow> uuid \<Rightarrow> decimal
    \<Rightarrow> invoice app_result" where
  "lock_and_check_credit_note_invoice db t i amount =
     (case select_invoice db t i of
        None \<Rightarrow> Inl (NotFound ''Invoice'')
      | Some row \<Rightarrow>
          if \<not> is_frozen (inv_status row) then
            Inl (BadRequest ''can still be edited, so it does not need a credit note'')
          else if inv_status row = WrittenOff then
            Inl (BadRequest ''This invoice has been written off'')
          else if inv_status row = Void then
            Inl (BadRequest ''This invoice was voided, so it charges nothing to credit'')
          else if amount > inv_total row - inv_amount_credited row then
            Inl (BadRequest ''exceeds what is left to credit on this invoice'')
          else Inr row)"

section \<open>Creating\<close>

definition push_credit_note :: "credit_env \<Rightarrow> invoice \<Rightarrow> (string \<times> string) option app_result" where
  "push_credit_note env row =
     (case (inv_external_provider row, inv_external_id row) of
        (Some provider, Some _) \<Rightarrow>
          if ce_delegation env then
            (case provider_kind_parse provider of
               None \<Rightarrow> Inl (Internal ''recorded against a provider which this build does not know'')
             | Some kind \<Rightarrow> map_sum id (\<lambda>ref. Some (provider_kind_as_str kind, ref)) (ce_issue env))
          else Inr None
      | _ \<Rightarrow> Inr None)"

definition credit_note_pre :: "credit_env \<Rightarrow> bill_db \<Rightarrow> tenant \<Rightarrow> create_credit_note_request
    \<Rightarrow> (string \<times> (string \<times> string) option) app_result" where
  "credit_note_pre env db t r =
     and_then (credit_totals r) (\<lambda>(_, _, amount).
     and_then (lock_and_check_credit_note_invoice db t (cc_invoice r) amount) (\<lambda>row.
       let currency = opt_or (cc_currency r) (opt_or (inv_currency row) (read_default_currency db t))
       in map_sum id (\<lambda>push. (currency, push)) (push_credit_note env row)))"

definition insert_credit_note :: "bill_db \<Rightarrow> credit_note \<Rightarrow> bill_db app_result" where
  "insert_credit_note db c =
     (if cn_total c \<le> 0 then Inl (Database ''credit_notes_total_positive'')
      else if list_ex (\<lambda>x. cn_tenant x = cn_tenant c \<and> cn_number x = cn_number c) (credit_notes db)
      then Inl (Conflict ''That record already exists'')
      else Inr (db\<lparr>credit_notes := credit_notes db @ [c]\<rparr>))"

definition written_credit_line :: "uuid \<Rightarrow> credit_line_request \<Rightarrow> credit_note_line" where
  "written_credit_line i l = \<lparr> cl_note = i, cl_description = cq_description l,
     cl_quantity = num2 (cq_quantity l), cl_unit_price = num2 (cq_unit_price l),
     cl_total = num2 (cq_quantity l * cq_unit_price l), cl_sort_order = cq_sort_order l \<rparr>"

definition credit_note_tx :: "credit_env \<Rightarrow> bill_db \<Rightarrow> tenant \<Rightarrow> create_credit_note_request \<Rightarrow> date \<Rightarrow> audit_ctx
    \<Rightarrow> string \<times> (string \<times> string) option \<Rightarrow> uuid \<Rightarrow> instant \<Rightarrow> (bill_db \<times> credit_note) app_result" where
  "credit_note_tx env db t r today ctx pre new_id now =
     and_then (credit_totals r) (\<lambda>(subtotal, tax, amount).
     and_then (lock_and_check_credit_note_invoice db t (cc_invoice r) amount) (\<lambda>row.
     and_then (next_credit_note_number db t) (\<lambda>(db1, number).
     let c = \<lparr> cn_id = new_id, cn_tenant = t, cn_number = number, cn_company = inv_company row,
               cn_invoice = cc_invoice r, cn_status = Issued,
               cn_issue_date = opt_or (cc_issue_date r) today, cn_reason = cc_reason r,
               cn_subtotal = num2 subtotal, cn_tax = num2 tax, cn_total = num2 amount,
               cn_currency = fst pre, cn_created_by = ctx_user ctx, cn_voided_at = None,
               cn_voided_by = None, cn_external = snd pre \<rparr> in
     and_then (insert_credit_note db1 c) (\<lambda>db2.
     and_then (ce_document env) (\<lambda>_.
       let db3 = recompute_invoice_balance
                   (db2\<lparr>credit_note_lines := credit_note_lines db2 @ map (written_credit_line new_id) (cc_lines r)\<rparr>)
                   t (cc_invoice r) now
       in Inr (audited t ctx ACreate ''credit_notes'' new_id db3, c))))))"

definition create_credit_note :: "credit_env \<Rightarrow> bill_db \<Rightarrow> tenant \<Rightarrow> create_credit_note_request \<Rightarrow> date
    \<Rightarrow> audit_ctx \<Rightarrow> uuid \<Rightarrow> instant \<Rightarrow> (bill_db \<times> credit_note) app_result" where
  "create_credit_note env db t r today ctx new_id now =
     and_then (credit_note_pre env db t r) (\<lambda>pre. credit_note_tx env db t r today ctx pre new_id now)"

section \<open>Voiding\<close>

definition cn_key :: "tenant \<Rightarrow> uuid \<Rightarrow> credit_note \<Rightarrow> bool" where
  "cn_key t i c \<longleftrightarrow> cn_id c = i \<and> cn_tenant c = t"

definition void_credit_note :: "credit_env \<Rightarrow> bill_db \<Rightarrow> tenant \<Rightarrow> uuid \<Rightarrow> audit_ctx \<Rightarrow> instant
    \<Rightarrow> bill_db app_result" where
  "void_credit_note env db t i ctx now =
     (case select_one (cn_key t i) (credit_notes db) of
        None \<Rightarrow> Inl (NotFound ''Credit note'')
      | Some c \<Rightarrow>
          if cn_status c = CreditVoid then Inl (Conflict ''This credit note is already void'')
          else
            let db1 = db\<lparr>credit_notes := update_where (cn_key t i)
                        (\<lambda>x. x\<lparr>cn_status := CreditVoid, cn_voided_at := Some now, cn_voided_by := ctx_user ctx\<rparr>)
                        (credit_notes db)\<rparr>;
                db2 = recompute_invoice_balance db1 t (cn_invoice c) now
            in and_then (case cn_external c of
                 None \<Rightarrow> Inr ()
               | Some (provider, _) \<Rightarrow>
                   if ce_delegation env then
                     (if provider_kind_parse provider = None
                      then Inl (Internal ''recorded against a provider which this build does not know'')
                      else ce_void env)
                   else Inr ()) (\<lambda>_.
                 Inr (audited t ctx AUpdate ''credit_notes'' i db2)))"

end
