(* ===== verification/Ledger_Invariants.thy ===== *)
theory Ledger_Invariants
  imports Invoicing Credit_Notes
begin

text \<open>
  The invoice ledger is sound: whatever order the operations of billing run in, every invoice
  carries the sums of its payments, refunds and credit notes, owes their difference from its
  total, and is never credited beyond it. The operations are collected in one step relation, with
  the steps that run as several transactions taken apart, so that the statements cover every
  interleaving of the transactions. Identifiers come from a UUID generator: a step that creates a
  row takes an identifier no row carries.
\<close>

section \<open>The invariant\<close>

definition no_money :: "bill_db \<Rightarrow> tenant \<Rightarrow> uuid \<Rightarrow> bool" where
  "no_money db t i \<longleftrightarrow>
     (\<forall>p \<in> set (payments db). \<not> (pay_tenant p = t \<and> pay_invoice p = Some i))
     \<and> (\<forall>r \<in> set (payment_refunds db). \<not> (rf_tenant r = t \<and> rf_invoice r = Some i))
     \<and> (\<forall>c \<in> set (credit_notes db). \<not> (cn_tenant c = t \<and> cn_invoice c = i))"

definition row_base_ok :: "bill_db \<Rightarrow> invoice \<Rightarrow> bool" where
  "row_base_ok db r \<longleftrightarrow>
     is_num2 (inv_total r)
     \<and> (is_frozen (inv_status r) \<or> no_money db (inv_tenant r) (inv_id r))
     \<and> (0 < credited_sum db (inv_tenant r) (inv_id r)
          \<longrightarrow> credited_sum db (inv_tenant r) (inv_id r) \<le> inv_total r)"

definition row_ok :: "bill_db \<Rightarrow> invoice \<Rightarrow> bool" where
  "row_ok db r \<longleftrightarrow>
     row_base_ok db r
     \<and> inv_amount_paid r = paid_sum db (inv_tenant r) (inv_id r)
     \<and> inv_amount_credited r = credited_sum db (inv_tenant r) (inv_id r)
     \<and> (inv_status r = Void
        \<or> inv_balance_due r = inv_total r - inv_amount_paid r - inv_amount_credited r)"

definition has_invoice :: "bill_db \<Rightarrow> tenant \<Rightarrow> uuid option \<Rightarrow> bool" where
  "has_invoice db t target =
     (case target of None \<Rightarrow> True | Some i \<Rightarrow> list_ex (inv_key t i) (invoices db))"

definition payment_ok :: "bill_db \<Rightarrow> payment \<Rightarrow> bool" where
  "payment_ok db p \<longleftrightarrow> is_num2 (pay_amount p) \<and> 0 < pay_amount p
     \<and> has_invoice db (pay_tenant p) (pay_invoice p)"

definition refund_ok :: "bill_db \<Rightarrow> payment_refund \<Rightarrow> bool" where
  "refund_ok db r \<longleftrightarrow> is_num2 (rf_amount r) \<and> 0 < rf_amount r
     \<and> list_ex (\<lambda>p. pay_id p = rf_payment r \<and> pay_tenant p = rf_tenant r
           \<and> pay_invoice p = rf_invoice r) (payments db)"

definition credit_ok :: "bill_db \<Rightarrow> credit_note \<Rightarrow> bool" where
  "credit_ok db c \<longleftrightarrow> is_num2 (cn_total c) \<and> 0 < cn_total c
     \<and> has_invoice db (cn_tenant c) (Some (cn_invoice c))"

definition money_ok :: "bill_db \<Rightarrow> bool" where
  "money_ok db \<longleftrightarrow>
     distinct (map inv_id (invoices db)) \<and> distinct (map pay_id (payments db))
     \<and> distinct (map cn_id (credit_notes db))
     \<and> list_all (payment_ok db) (payments db) \<and> list_all (refund_ok db) (payment_refunds db)
     \<and> list_all (credit_ok db) (credit_notes db)"

definition ledger_ok :: "bill_db \<Rightarrow> bool" where
  "ledger_ok db \<longleftrightarrow> money_ok db \<and> (\<forall>r \<in> set (invoices db). row_ok db r)"

text \<open>The state between a change to the money and the recompute of the one invoice it concerns.\<close>

definition ledger_except :: "bill_db \<Rightarrow> tenant \<Rightarrow> uuid \<Rightarrow> bool" where
  "ledger_except db t i \<longleftrightarrow>
     money_ok db
     \<and> (\<forall>r \<in> set (invoices db). if inv_key t i r then row_base_ok db r else row_ok db r)"

named_theorems ledger_defs \<open>the parts of the ledger invariant\<close>

lemmas [ledger_defs] = no_money_def row_base_ok_def row_ok_def money_ok_def paid_sum_def credited_sum_def

section \<open>Changes that leave the money alone\<close>

definition same_money :: "bill_db \<Rightarrow> bill_db \<Rightarrow> bool" where
  "same_money db db' \<longleftrightarrow> payments db' = payments db \<and> payment_refunds db' = payment_refunds db
     \<and> credit_notes db' = credit_notes db"

lemma row_ok_same_money: "same_money db db' \<Longrightarrow> row_ok db' r = row_ok db r"
  by (simp add: same_money_def ledger_defs)

lemma row_base_ok_same_money: "same_money db db' \<Longrightarrow> row_base_ok db' r = row_base_ok db r"
  by (simp add: same_money_def ledger_defs)

lemma has_invoice_cong: "invoices db' = invoices db \<Longrightarrow> has_invoice db' = has_invoice db"
  by (simp add: has_invoice_def fun_eq_iff split: option.split)

lemma row_oks_cong:
  "has_invoice db' = has_invoice db \<Longrightarrow> payment_ok db' = payment_ok db"
  "has_invoice db' = has_invoice db \<Longrightarrow> credit_ok db' = credit_ok db"
  "payments db' = payments db \<Longrightarrow> refund_ok db' = refund_ok db"
  by (simp_all add: payment_ok_def credit_ok_def refund_ok_def fun_eq_iff)

lemma money_okD:
  assumes "money_ok db"
  shows "p \<in> set (payments db) \<Longrightarrow> payment_ok db p"
    and "r \<in> set (payment_refunds db) \<Longrightarrow> refund_ok db r"
    and "c \<in> set (credit_notes db) \<Longrightarrow> credit_ok db c"
  using assms by (auto simp: money_ok_def list_all_iff)

lemma money_ok_cong:
  "same_money db db' \<Longrightarrow> invoices db' = invoices db \<Longrightarrow> money_ok db' = money_ok db"
  by (simp add: same_money_def money_ok_def has_invoice_cong [of db' db] row_oks_cong [of db' db])

lemma ledger_ok_cong:
  "same_money db db' \<Longrightarrow> invoices db' = invoices db \<Longrightarrow> ledger_ok db' = ledger_ok db"
  by (simp add: ledger_ok_def money_ok_cong row_ok_same_money)

lemma audited_simps [simp]:
  "invoices (audited t ctx a e i db) = invoices db"
  "same_money db (audited t ctx a e i db)"
  "invoice_lines (audited t ctx a e i db) = invoice_lines db"
  "payments (audited t ctx a e i db) = payments db"
  "payment_refunds (audited t ctx a e i db) = payment_refunds db"
  "credit_notes (audited t ctx a e i db) = credit_notes db"
  by (simp_all add: audited_def same_money_def)

lemma ledger_ok_audited [simp]: "ledger_ok (audited t ctx a e i db) = ledger_ok db"
  by (rule ledger_ok_cong) simp_all

lemma update_row_simps [simp]:
  "invoices (update_invoice_row t i f db) = update_where (inv_key t i) f (invoices db)"
  "same_money db (update_invoice_row t i f db)"
  "invoice_lines (update_invoice_row t i f db) = invoice_lines db"
  "payments (update_invoice_row t i f db) = payments db"
  "payment_refunds (update_invoice_row t i f db) = payment_refunds db"
  "credit_notes (update_invoice_row t i f db) = credit_notes db"
  by (simp_all add: update_invoice_row_def same_money_def)

text \<open>An update that keeps the key of the row and the soundness of the row keeps the ledger.\<close>

definition keeps_key :: "(invoice \<Rightarrow> invoice) \<Rightarrow> bool" where
  "keeps_key f \<longleftrightarrow> (\<forall>r. inv_id (f r) = inv_id r \<and> inv_tenant (f r) = inv_tenant r)"

lemma list_ex_key_update:
  "keeps_key f \<Longrightarrow> list_ex (inv_key t j) (update_where p f rs) = list_ex (inv_key t j) rs"
  by (induction rs) (auto simp: table_simps inv_key_def keeps_key_def)

lemma money_ok_update_row:
  assumes "keeps_key f" shows "money_ok (update_invoice_row t i f db) = money_ok db"
proof -
  have "map inv_id (update_where (inv_key t i) f (invoices db)) = map inv_id (invoices db)"
    using assms by (intro map_update_where) (simp add: keeps_key_def)
  moreover have "has_invoice (update_invoice_row t i f db) = has_invoice db"
    by (simp add: has_invoice_def fun_eq_iff list_ex_key_update [OF assms] split: option.split)
  ultimately show ?thesis
    by (simp add: money_ok_def row_oks_cong [of "update_invoice_row t i f db" db])
qed

lemma ledger_ok_update_row:
  assumes "ledger_ok db" and "keeps_key f"
    and "\<And>r. r \<in> set (invoices db) \<Longrightarrow> inv_key t i r \<Longrightarrow> row_ok db r \<Longrightarrow> row_ok db (f r)"
  shows "ledger_ok (update_invoice_row t i f db)"
  using assms
  by (auto simp: ledger_ok_def money_ok_update_row set_update_where
      row_ok_same_money [of db "update_invoice_row t i f db"])

section \<open>The recompute restores the invariant\<close>

lemma paid_sum_num2: "money_ok db \<Longrightarrow> is_num2 (paid_sum db t i)"
  unfolding paid_sum_def by (intro is_num2_diff is_num2_sum_where)
    (auto dest: money_okD simp: payment_ok_def refund_ok_def)

lemma credited_sum_num2: "money_ok db \<Longrightarrow> is_num2 (credited_sum db t i)"
  unfolding credited_sum_def by (intro is_num2_sum_where) (auto dest: money_okD simp: credit_ok_def)

lemma credited_sum_nonneg: "money_ok db \<Longrightarrow> 0 \<le> credited_sum db t i"
  unfolding credited_sum_def by (intro sum_where_nonneg) (auto dest: money_okD simp: credit_ok_def)

lemma no_money_sums: "no_money db t i \<Longrightarrow> paid_sum db t i = 0 \<and> credited_sum db t i = 0"
  unfolding no_money_def paid_sum_def credited_sum_def
  by (subst (1 2 3) sum_where_none) auto

lemma rebalance_simps [simp]:
  "inv_id (rebalance now p c r) = inv_id r" "inv_tenant (rebalance now p c r) = inv_tenant r"
  "inv_total (rebalance now p c r) = inv_total r"
  by (simp_all add: rebalance_def)

lemma derived_status_frozen [simp]: "is_frozen (derived_status r p c) = is_frozen (inv_status r)"
  by (cases "inv_status r") (auto simp: derived_status_def)

lemma row_ok_rebalance:
  assumes "money_ok db" "row_base_ok db r" "p = paid_sum db (inv_tenant r) (inv_id r)"
    "c = credited_sum db (inv_tenant r) (inv_id r)"
  shows "row_ok db (rebalance now p c r)"
proof -
  have "is_num2 p" "is_num2 c" using assms paid_sum_num2 credited_sum_num2 by simp_all
  moreover have "is_num2 (inv_total r)" using assms(2) by (simp add: row_base_ok_def)
  moreover have "is_num2 (inv_total r - p - c)" using calculation by (intro is_num2_diff)
  ultimately show ?thesis
    using assms by (simp add: row_ok_def row_base_ok_def rebalance_def)
qed

lemma keeps_key_rebalance [simp]: "keeps_key (rebalance now p c)"
  by (simp add: keeps_key_def)

lemma ledger_ok_recompute:
  assumes "ledger_except db t i"
  shows "ledger_ok (recompute_invoice_balance db t i now)"
proof -
  let ?f = "rebalance now (paid_sum db t i) (credited_sum db t i)"
  have m: "money_ok db" using assms by (simp add: ledger_except_def)
  have "row_ok db (if inv_key t i r then ?f r else r)" if "r \<in> set (invoices db)" for r
    using assms that row_ok_rebalance [OF m]
    by (auto simp: ledger_except_def inv_key_def)
  then have "\<forall>r \<in> (\<lambda>r. if inv_key t i r then ?f r else r) ` set (invoices db). row_ok db r" by blast
  then show ?thesis
    using m by (simp only: ledger_ok_def recompute_invoice_balance_def money_ok_update_row
        keeps_key_rebalance update_row_simps set_update_where simp_thms
        row_ok_same_money [of db "update_invoice_row t i ?f db"])
qed

lemma ledger_except_intro:
  assumes "ledger_ok db" and "invoices db' = invoices db" and "money_ok db'"
    and other: "\<And>r. r \<in> set (invoices db) \<Longrightarrow> \<not> inv_key t i r \<Longrightarrow> row_ok db r \<Longrightarrow> row_ok db' r"
    and this: "\<And>r. r \<in> set (invoices db) \<Longrightarrow> inv_key t i r \<Longrightarrow> row_ok db r \<Longrightarrow> row_base_ok db' r"
  shows "ledger_except db' t i"
  using assms by (auto simp: ledger_except_def ledger_ok_def)

text \<open>A row whose money is untouched stays as sound as it was.\<close>

lemma row_ok_local:
  assumes "paid_sum db' (inv_tenant r) (inv_id r) = paid_sum db (inv_tenant r) (inv_id r)"
    "credited_sum db' (inv_tenant r) (inv_id r) = credited_sum db (inv_tenant r) (inv_id r)"
    "no_money db' (inv_tenant r) (inv_id r) = no_money db (inv_tenant r) (inv_id r)"
  shows "row_ok db' r = row_ok db r"
  using assms by (simp add: row_ok_def row_base_ok_def)

section \<open>Payments\<close>

lemma key_unique:
  assumes "ledger_ok db" "r \<in> set (invoices db)" "r' \<in> set (invoices db)" "inv_key t i r" "inv_key t i r'"
  shows "r = r'"
  using assms by (auto simp: ledger_ok_def money_ok_def inv_key_def distinct_map inj_on_def)

lemma select_invoice_iff:
  assumes "ledger_ok db"
  shows "select_invoice db t i = Some r \<longleftrightarrow> r \<in> set (invoices db) \<and> inv_key t i r"
proof
  assume "select_invoice db t i = Some r"
  then show "r \<in> set (invoices db) \<and> inv_key t i r"
    by (simp add: select_invoice_def select_one_SomeD)
next
  assume r: "r \<in> set (invoices db) \<and> inv_key t i r"
  then obtain r' where r': "select_invoice db t i = Some r'"
    by (cases "select_invoice db t i") (auto simp: select_invoice_def select_one_None)
  then have "r' \<in> set (invoices db) \<and> inv_key t i r'"
    by (simp add: select_invoice_def select_one_SomeD)
  with r r' show "select_invoice db t i = Some r" using key_unique [OF assms] by blast
qed

lemma ledger_row: "ledger_ok db \<Longrightarrow> select_invoice db t i = Some r \<Longrightarrow> row_ok db r"
  by (auto simp: select_invoice_iff ledger_ok_def)

text \<open>A new payment against an issued invoice of the tenant, or against none.\<close>

definition add_payment :: "payment \<Rightarrow> bill_db \<Rightarrow> bill_db" where
  "add_payment p db = db\<lparr>payments := payments db @ [p]\<rparr>"

lemma add_payment_simps [simp]:
  "invoices (add_payment p db) = invoices db" "payments (add_payment p db) = payments db @ [p]"
  "payment_refunds (add_payment p db) = payment_refunds db" "credit_notes (add_payment p db) = credit_notes db"
  by (simp_all add: add_payment_def)

lemma money_ok_add_payment:
  assumes "money_ok db" "is_num2 (pay_amount p)" "0 < pay_amount p" "pay_id p \<notin> set (map pay_id (payments db))"
    and "has_invoice db (pay_tenant p) (pay_invoice p)"
  shows "money_ok (add_payment p db)"
proof -
  have "has_invoice (add_payment p db) = has_invoice db" by (rule has_invoice_cong) simp
  moreover have "refund_ok db r \<Longrightarrow> refund_ok (add_payment p db) r" for r
    by (simp add: refund_ok_def)
  ultimately show ?thesis
    using assms by (auto simp: money_ok_def list_all_iff row_oks_cong [of "add_payment p db" db] payment_ok_def)
qed

lemma paid_sum_add_payment:
  "paid_sum (add_payment p db) t i
   = paid_sum db t i + (if pay_tenant p = t \<and> pay_invoice p = Some i then pay_amount p else 0)"
  by (simp add: paid_sum_def)

lemma credited_sum_add_payment [simp]: "credited_sum (add_payment p db) t i = credited_sum db t i"
  by (simp add: credited_sum_def)

lemma no_money_add_payment:
  "no_money (add_payment p db) t i \<longleftrightarrow> no_money db t i \<and> \<not> (pay_tenant p = t \<and> pay_invoice p = Some i)"
  by (auto simp: no_money_def)

lemma ledger_add_payment_none:
  assumes "ledger_ok db" "money_ok (add_payment p db)" "pay_invoice p = None"
  shows "ledger_ok (add_payment p db)"
proof -
  have "row_ok (add_payment p db) r = row_ok db r" for r
    using assms(3) by (intro row_ok_local) (simp_all add: paid_sum_add_payment no_money_add_payment)
  with assms show ?thesis by (simp add: ledger_ok_def)
qed

lemma ledger_add_payment:
  assumes "ledger_ok db" "money_ok (add_payment p db)" "select_invoice db t i = Some r"
    "is_frozen (inv_status r)" "pay_invoice p = Some i" "pay_tenant p = t"
  shows "ledger_ok (recompute_invoice_balance (add_payment p db) t i now)"
proof (rule ledger_ok_recompute, rule ledger_except_intro [OF assms(1)])
  fix r' assume r': "r' \<in> set (invoices db)" "\<not> inv_key t i r'" "row_ok db r'"
  then have "\<not> (pay_tenant p = inv_tenant r' \<and> pay_invoice p = Some (inv_id r'))"
    using assms by (auto simp: inv_key_def)
  then have "row_ok (add_payment p db) r' = row_ok db r'"
    by (intro row_ok_local) (auto simp: paid_sum_add_payment no_money_add_payment)
  with r' show "row_ok (add_payment p db) r'" by simp
next
  fix r' assume "r' \<in> set (invoices db)" "inv_key t i r'" "row_ok db r'"
  moreover have "r' = r" using calculation assms select_invoice_iff [OF assms(1)] key_unique [OF assms(1)] by blast
  ultimately show "row_base_ok (add_payment p db) r'"
    using assms(4) by (simp add: row_ok_def row_base_ok_def)
qed (use assms(2) in simp_all)

lemma create_payment_cases:
  assumes "create_payment db t r ctx new_id now = Inr (db', p)"
  obtains p' where "pay_id p' = new_id" "pay_tenant p' = t" "pay_invoice p' = cpr_invoice r"
    "pay_amount p' = num2 (cpr_amount r)" "0 < pay_amount p'" "pay_company p' = cpr_company r"
    "check_payment_target db t r = Inr ()"
    "db' = audited t ctx ACreate ''payments'' new_id
       (case cpr_invoice r of None \<Rightarrow> add_payment p' db
        | Some i \<Rightarrow> recompute_invoice_balance (add_payment p' db) t i now)"
proof -
  let ?p = "\<lparr> pay_id = new_id, pay_tenant = t, pay_invoice = cpr_invoice r,
                 pay_company = cpr_company r, pay_date = cpr_date r, pay_amount = num2 (cpr_amount r),
                 pay_method = cpr_method r, pay_reference = cpr_reference r,
                 pay_gateway_tx = cpr_gateway_tx r, pay_created_at = now \<rparr>"
  obtain db1 where c: "check_payment_target db t r = Inr ()" and i: "insert_payment db ?p = Inr db1"
    and d: "db' = audited t ctx ACreate ''payments'' new_id
       (case cpr_invoice r of None \<Rightarrow> db1 | Some i \<Rightarrow> recompute_invoice_balance db1 t i now)"
    using assms by (auto simp: create_payment_def Let_def elim!: and_then_InrE)
  from i have db1: "db1 = add_payment ?p db" and pos: "0 < pay_amount ?p"
    by (auto simp: insert_payment_def add_payment_def split: if_splits)
  show thesis by (rule that [of ?p]) (use c pos in \<open>simp_all add: d db1 split: option.splits\<close>)
qed

lemma check_payment_target_Some:
  assumes "check_payment_target db t r = Inr ()" "cpr_invoice r = Some i"
  obtains row where "select_invoice db t i = Some row" "inv_status row \<notin> {Draft, Pending}"
    "cpr_amount r \<le> inv_total row - inv_amount_paid row - inv_amount_credited row"
    "inv_company row = cpr_company r"
  using assms by (auto simp: check_payment_target_def Let_def guard_Inr elim!: case_option_InrE)

lemma is_frozen_iff: "is_frozen s \<longleftrightarrow> s \<notin> {Draft, Pending}"
  by (cases s) simp_all

lemma select_invoice_ex:
  "select_invoice db t i = Some r \<Longrightarrow> list_ex (inv_key t i) (invoices db)"
  by (auto simp: select_invoice_def list_ex_iff dest!: select_one_SomeD)

lemma ledger_create_payment:
  assumes ok: "ledger_ok db" and fresh: "new_id \<notin> set (map pay_id (payments db))"
    and run: "create_payment db t r ctx new_id now = Inr (db', p)"
  shows "ledger_ok db'"
proof -
  obtain p' where p': "pay_id p' = new_id" "pay_tenant p' = t" "pay_invoice p' = cpr_invoice r"
    "pay_amount p' = num2 (cpr_amount r)" "0 < pay_amount p'" "check_payment_target db t r = Inr ()"
    and db': "db' = audited t ctx ACreate ''payments'' new_id
       (case cpr_invoice r of None \<Rightarrow> add_payment p' db
        | Some i \<Rightarrow> recompute_invoice_balance (add_payment p' db) t i now)"
    using run by (rule create_payment_cases)
  have m: "money_ok db" using ok by (simp add: ledger_ok_def)
  show ?thesis
  proof (cases "cpr_invoice r")
    case None
    then have "money_ok (add_payment p' db)" using m p' fresh by (intro money_ok_add_payment) (simp_all add: None has_invoice_def)
    with None ledger_add_payment_none [OF ok] p' db' show ?thesis by simp
  next
    case (Some i)
    obtain row where row: "select_invoice db t i = Some row" "inv_status row \<notin> {Draft, Pending}"
      using check_payment_target_Some [OF p'(6) Some] by blast
    have "money_ok (add_payment p' db)"
      using m p' fresh Some select_invoice_ex [OF row(1)]
      by (intro money_ok_add_payment) (auto simp: has_invoice_def)
    from ledger_add_payment [OF ok this row(1)] row p' Some db' show ?thesis
      by (simp add: is_frozen_iff)
  qed
qed

lemma record_gateway_payment_cases:
  assumes "record_gateway_payment db t provider i reference amount new_id now = Inr (db', done)"
  obtains "db' = db" "\<not> done"
  | row p' where "select_invoice db t i = Some row" "inv_status row \<notin> {Draft, Pending}"
      "amount \<le> inv_total row - inv_amount_paid row - inv_amount_credited row"
      "\<not> gateway_tx_taken db t (Some reference)" "done"
      "pay_id p' = new_id" "pay_tenant p' = t" "pay_invoice p' = Some i" "pay_amount p' = num2 amount"
      "0 < pay_amount p'" "pay_gateway_tx p' = Some reference"
      "db' = audited t (audit_ctx_system t) ACreate ''payments'' new_id
         (recompute_invoice_balance (add_payment p' db) t i now)"
proof (cases "db' = db \<and> \<not> done")
  case True
  then show thesis using that(1) by simp
next
  case False
  obtain row where row: "select_invoice db t i = Some row"
    using assms False by (auto simp: record_gateway_payment_def split: option.splits)
  let ?p = "\<lparr> pay_id = new_id, pay_tenant = t, pay_invoice = Some i,
                      pay_company = inv_company row, pay_date = now div 86400,
                      pay_amount = num2 amount, pay_method = gateway_payment_method provider,
                      pay_reference = None, pay_gateway_tx = Some reference, pay_created_at = now \<rparr>"
  show thesis
    by (rule that(2) [of row ?p])
       (use assms False row in \<open>auto simp: record_gateway_payment_def Let_def add_payment_def split: if_splits\<close>)
qed

lemma ledger_record_gateway_payment:
  assumes ok: "ledger_ok db" and fresh: "new_id \<notin> set (map pay_id (payments db))"
    and run: "record_gateway_payment db t provider i reference amount new_id now = Inr (db', done)"
  shows "ledger_ok db'"
  using run
proof (cases rule: record_gateway_payment_cases)
  case 1
  with ok show ?thesis by simp
next
  case (2 row p')
  have "money_ok (add_payment p' db)"
    using ok 2 fresh select_invoice_ex [OF 2(1)]
    by (intro money_ok_add_payment) (auto simp: ledger_ok_def has_invoice_def)
  from ledger_add_payment [OF ok this 2(1)] 2 show ?thesis by (simp add: is_frozen_iff)
qed

section \<open>Deletions and refunds\<close>

definition drop_payment :: "tenant \<Rightarrow> uuid \<Rightarrow> bill_db \<Rightarrow> bill_db" where
  "drop_payment t pid db = db\<lparr>
     payments := delete_where (\<lambda>q. pay_id q = pid \<and> pay_tenant q = t) (payments db),
     payment_refunds := delete_where (\<lambda>r. rf_payment r = pid) (payment_refunds db)\<rparr>"

lemma drop_payment_simps [simp]:
  "invoices (drop_payment t pid db) = invoices db"
  "credit_notes (drop_payment t pid db) = credit_notes db"
  "payments (drop_payment t pid db) = delete_where (\<lambda>q. pay_id q = pid \<and> pay_tenant q = t) (payments db)"
  "payment_refunds (drop_payment t pid db) = delete_where (\<lambda>r. rf_payment r = pid) (payment_refunds db)"
  by (simp_all add: drop_payment_def)

lemma pay_id_unique:
  "money_ok db \<Longrightarrow> p \<in> set (payments db) \<Longrightarrow> q \<in> set (payments db) \<Longrightarrow> pay_id p = pay_id q \<Longrightarrow> p = q"
  by (auto simp: money_ok_def distinct_map inj_on_def)

lemma refund_payment:
  assumes "money_ok db" "r \<in> set (payment_refunds db)"
  obtains p where "p \<in> set (payments db)" "pay_id p = rf_payment r" "pay_tenant p = rf_tenant r"
    "pay_invoice p = rf_invoice r"
  using money_okD(2) [OF assms] by (auto simp: refund_ok_def list_ex_iff)

lemma distinct_map_delete_where: "distinct (map f rs) \<Longrightarrow> distinct (map f (delete_where q rs))"
  by (simp add: delete_where_def distinct_map_filter)

lemma money_ok_drop_payment:
  assumes m: "money_ok db" and p: "p \<in> set (payments db)" "pay_id p = pid" "pay_tenant p = t"
  shows "money_ok (drop_payment t pid db)"
proof -
  have "refund_ok (drop_payment t pid db) r" if "r \<in> set (payment_refunds db)" "rf_payment r \<noteq> pid" for r
    using money_okD(2) [OF m that(1)] that(2)
    by (auto simp: refund_ok_def list_ex_iff)
  moreover have "has_invoice (drop_payment t pid db) = has_invoice db" by (rule has_invoice_cong) simp
  ultimately show ?thesis
    using m by (auto simp: money_ok_def list_all_iff distinct_map_delete_where
        row_oks_cong [of "drop_payment t pid db" db])
qed

lemma drop_payment_elsewhere:
  assumes m: "money_ok db" and p: "p \<in> set (payments db)" "pay_id p = pid" "pay_tenant p = t"
    and other: "\<not> (pay_tenant p = t' \<and> pay_invoice p = Some j)"
  shows "paid_sum (drop_payment t pid db) t' j = paid_sum db t' j
    \<and> no_money (drop_payment t pid db) t' j = no_money db t' j"
proof -
  have pay: "\<not> (pay_tenant q = t' \<and> pay_invoice q = Some j)" if "q \<in> set (payments db)" "pay_id q = pid" for q
    using pay_id_unique [OF m p(1) that(1)] that(2) p(2) other by simp
  have rf: "\<not> (rf_tenant r = t' \<and> rf_invoice r = Some j)" if "r \<in> set (payment_refunds db)" "rf_payment r = pid" for r
    using refund_payment [OF m that(1)] pay that(2) by metis
  have "sum_where (\<lambda>q. (pay_invoice q = Some j \<and> pay_tenant q = t') \<and> pay_id q = pid \<and> pay_tenant q = t)
      pay_amount (payments db) = 0"
    using pay by (intro sum_where_none) blast
  moreover have "sum_where (\<lambda>r. (rf_invoice r = Some j \<and> rf_tenant r = t') \<and> rf_payment r = pid)
      rf_amount (payment_refunds db) = 0"
    using rf by (intro sum_where_none) blast
  ultimately have "paid_sum (drop_payment t pid db) t' j = paid_sum db t' j"
    by (simp add: paid_sum_def sum_where_delete)
  moreover have "no_money (drop_payment t pid db) t' j = no_money db t' j"
    using pay rf by (auto simp: no_money_def)
  ultimately show ?thesis by blast
qed

lemma credited_sum_drop_payment [simp]: "credited_sum (drop_payment t pid db) t' j = credited_sum db t' j"
  by (simp add: credited_sum_def)

lemma no_money_drop_payment: "no_money db t' j \<Longrightarrow> no_money (drop_payment t pid db) t' j"
  by (auto simp: no_money_def)

lemma ledger_delete_payment:
  assumes ok: "ledger_ok db" and run: "delete_payment db t pid ctx now = Inr db'"
  shows "ledger_ok db'"
proof -
  obtain p where sel: "select_one (\<lambda>p. pay_id p = pid \<and> pay_tenant p = t) (payments db) = Some p"
    using run by (auto simp: delete_payment_def elim: case_option_InrE)
  then have p: "p \<in> set (payments db)" "pay_id p = pid" "pay_tenant p = t"
    by (auto dest: select_one_SomeD)
  have m: "money_ok db" using ok by (simp add: ledger_ok_def)
  note m1 = money_ok_drop_payment [OF m p] and away = drop_payment_elsewhere [OF m p]
  have db': "db' = audited t ctx ADelete ''payments'' pid
      (case pay_invoice p of None \<Rightarrow> drop_payment t pid db
       | Some i \<Rightarrow> recompute_invoice_balance (drop_payment t pid db) t i now)"
    using run sel by (simp add: delete_payment_def drop_payment_def Let_def split: option.splits)
  show ?thesis
  proof (cases "pay_invoice p")
    case None
    have "row_ok (drop_payment t pid db) r = row_ok db r" for r
      using None away [of "inv_tenant r" "inv_id r"] by (intro row_ok_local) simp_all
    then have "ledger_ok (drop_payment t pid db)" using ok m1 by (simp add: ledger_ok_def)
    with db' None show ?thesis by simp
  next
    case (Some i)
    have "ledger_except (drop_payment t pid db) t i"
    proof (rule ledger_except_intro [OF ok _ m1])
      fix r assume "r \<in> set (invoices db)" "\<not> inv_key t i r" "row_ok db r"
      then show "row_ok (drop_payment t pid db) r"
        using Some p(3) away [of "inv_tenant r" "inv_id r"]
        by (subst row_ok_local [of _ _ db]) (auto simp: inv_key_def)
    next
      fix r assume "row_ok db r"
      then show "row_base_ok (drop_payment t pid db) r"
        by (auto simp: row_ok_def row_base_ok_def no_money_drop_payment)
    qed simp
    with db' Some show ?thesis by (simp add: ledger_ok_recompute)
  qed
qed

lemma insert_refunds_append:
  "insert_refunds now t provider pid i ls rs = Inr rs' \<Longrightarrow>
   \<exists>new. rs' = rs @ new \<and> (\<forall>r \<in> set new. rf_tenant r = t \<and> rf_payment r = pid \<and> rf_invoice r = i
            \<and> is_num2 (rf_amount r) \<and> 0 < rf_amount r)"
proof (induction now t provider pid i ls rs rule: insert_refunds.induct)
  case (2 now t provider pid i l new_id ls rs)
  then show ?case by (fastforce split: if_splits)
qed simp

lemma ledger_add_refunds:
  assumes ok: "ledger_ok db" and p: "p \<in> set (payments db)" "pay_tenant p = t"
    and new: "\<forall>r \<in> set new. rf_tenant r = t \<and> rf_payment r = pay_id p \<and> rf_invoice r = pay_invoice p
            \<and> is_num2 (rf_amount r) \<and> 0 < rf_amount r"
  defines "db1 \<equiv> db\<lparr>payment_refunds := payment_refunds db @ new\<rparr>"
  shows "ledger_ok (case pay_invoice p of None \<Rightarrow> db1 | Some i \<Rightarrow> recompute_invoice_balance db1 t i now)"
proof -
  have "refund_ok db r" if "r \<in> set new" for r
    using new p that by (auto simp: refund_ok_def list_ex_iff intro!: bexI [of _ p])
  moreover have "refund_ok db1 = refund_ok db" "has_invoice db1 = has_invoice db"
    by (rule row_oks_cong has_invoice_cong; simp add: db1_def)+
  ultimately have m1: "money_ok db1"
    using ok by (auto simp: ledger_ok_def money_ok_def row_oks_cong [of db1 db] list_all_iff)
       (auto simp: db1_def)
  have away: "row_ok db1 r = row_ok db r" if "\<not> (t = inv_tenant r \<and> pay_invoice p = Some (inv_id r))" for r
  proof -
    have none: "\<not> (rf_invoice x = Some (inv_id r) \<and> rf_tenant x = inv_tenant r)" if "x \<in> set new" for x
      using new \<open>\<not> (t = inv_tenant r \<and> pay_invoice p = Some (inv_id r))\<close> that by auto
    then have "sum_where (\<lambda>x. rf_invoice x = Some (inv_id r) \<and> rf_tenant x = inv_tenant r) rf_amount new = 0"
      by (rule sum_where_none)
    with none show ?thesis
      by (intro row_ok_local) (auto simp: db1_def paid_sum_def credited_sum_def no_money_def)
  qed
  show ?thesis
  proof (cases "pay_invoice p")
    case None
    with ok m1 away show ?thesis by (simp add: ledger_ok_def) (simp add: db1_def)
  next
    case (Some i)
    have "ledger_except db1 t i"
    proof (rule ledger_except_intro [OF ok _ m1])
      show "invoices db1 = invoices db" by (simp add: db1_def)
      fix r assume "r \<in> set (invoices db)" "\<not> inv_key t i r" "row_ok db r"
      then show "row_ok db1 r" using away [of r] Some by (auto simp: inv_key_def)
    next
      fix r assume r: "inv_key t i r" "row_ok db r"
      then have "is_frozen (inv_status r)"
        using p Some by (auto simp: row_ok_def row_base_ok_def no_money_def inv_key_def)
      with r show "row_base_ok db1 r"
        by (auto simp: row_ok_def row_base_ok_def db1_def credited_sum_def)
    qed
    with Some show ?thesis by (simp add: ledger_ok_recompute)
  qed
qed

lemma ledger_record_gateway_refunds:
  assumes ok: "ledger_ok db" and run: "record_gateway_refunds db t provider reference refunds now = Inr db'"
  shows "ledger_ok db'"
proof (cases "select_one (\<lambda>p. pay_tenant p = t \<and> pay_gateway_tx p = Some reference) (payments db)")
  case None
  with ok run show ?thesis by (simp add: record_gateway_refunds_def)
next
  case (Some p)
  then have p: "p \<in> set (payments db)" "pay_tenant p = t" by (auto dest: select_one_SomeD)
  from run Some obtain rs where
    rs: "insert_refunds now t provider (pay_id p) (pay_invoice p) refunds (payment_refunds db) = Inr rs"
    and db': "db' = (case pay_invoice p of None \<Rightarrow> db\<lparr>payment_refunds := rs\<rparr>
                 | Some i \<Rightarrow> recompute_invoice_balance (db\<lparr>payment_refunds := rs\<rparr>) t i now)"
    by (auto simp: record_gateway_refunds_def Let_def elim!: and_then_InrE)
  from insert_refunds_append [OF rs] ledger_add_refunds [OF ok p] db' show ?thesis by blast
qed

section \<open>Credit notes\<close>

definition add_credit :: "credit_note \<Rightarrow> bill_db \<Rightarrow> bill_db" where
  "add_credit c db = db\<lparr>credit_notes := credit_notes db @ [c]\<rparr>"

lemma add_credit_simps [simp]:
  "invoices (add_credit c db) = invoices db" "payments (add_credit c db) = payments db"
  "payment_refunds (add_credit c db) = payment_refunds db"
  "credit_notes (add_credit c db) = credit_notes db @ [c]"
  by (simp_all add: add_credit_def)

lemma credited_sum_add_credit:
  "credited_sum (add_credit c db) t i = credited_sum db t i
     + (if cn_invoice c = i \<and> cn_tenant c = t \<and> cn_status c = Issued then cn_total c else 0)"
  by (simp add: credited_sum_def)

lemma paid_sum_add_credit [simp]: "paid_sum (add_credit c db) t i = paid_sum db t i"
  by (simp add: paid_sum_def)

lemma ledger_add_credit:
  assumes ok: "ledger_ok db" and row: "select_invoice db t i = Some r" "is_frozen (inv_status r)"
    and c: "cn_tenant c = t" "cn_invoice c = i" "is_num2 (cn_total c)" "0 < cn_total c"
      "cn_id c \<notin> set (map cn_id (credit_notes db))"
    and cap: "cn_total c \<le> inv_total r - inv_amount_credited r"
  shows "ledger_ok (recompute_invoice_balance (add_credit c db) t i now)"
proof (rule ledger_ok_recompute, rule ledger_except_intro [OF ok])
  have inv: "has_invoice (add_credit c db) = has_invoice db" by (rule has_invoice_cong) simp
  have "credit_ok db c"
    using c select_invoice_ex [OF row(1)] by (simp add: credit_ok_def has_invoice_def)
  then show "money_ok (add_credit c db)"
    using ok c by (simp add: ledger_ok_def money_ok_def row_oks_cong(1,2) [of "add_credit c db" db, OF inv]
        row_oks_cong(3) [of "add_credit c db" db])
next
  fix r' assume "r' \<in> set (invoices db)" "\<not> inv_key t i r'" "row_ok db r'"
  then show "row_ok (add_credit c db) r'"
    using c by (subst row_ok_local [of _ _ db]) (auto simp: credited_sum_add_credit no_money_def inv_key_def)
next
  fix r' assume r': "r' \<in> set (invoices db)" "inv_key t i r'" "row_ok db r'"
  then have "r' = r" using row select_invoice_iff [OF ok] key_unique [OF ok] by blast
  with r' row cap c show "row_base_ok (add_credit c db) r'"
    by (auto simp: row_ok_def row_base_ok_def credited_sum_add_credit inv_key_def)
qed simp

lemma lock_and_check_Inr:
  assumes "lock_and_check_credit_note_invoice db t i amount = Inr row"
  shows "select_invoice db t i = Some row \<and> is_frozen (inv_status row)
    \<and> inv_status row \<notin> {Void, WrittenOff} \<and> amount \<le> inv_total row - inv_amount_credited row"
  using assms
  by (auto simp: lock_and_check_credit_note_invoice_def guard_Inr split: option.splits if_splits)

lemma next_credit_note_number_Inr:
  assumes "next_credit_note_number db t = Inr (db', s)"
  shows "\<exists>sqs. db' = db\<lparr>credit_note_sequences := sqs\<rparr>"
  using assms by (auto simp: next_credit_note_number_def map_sum_def split: sum.splits)

lemma credit_note_tx_cases:
  assumes "credit_note_tx env db t r today ctx pre new_id now = Inr (db', c)"
  obtains row subtotal tax amount sqs where
    "credit_totals r = Inr (subtotal, tax, amount)"
    "select_invoice db t (cc_invoice r) = Some row" "is_frozen (inv_status row)"
    "inv_status row \<notin> {Void, WrittenOff}" "amount \<le> inv_total row - inv_amount_credited row"
    "cn_id c = new_id" "cn_tenant c = t" "cn_invoice c = cc_invoice r" "cn_status c = Issued"
    "cn_total c = num2 amount" "0 < cn_total c" "cn_company c = inv_company row"
    "db' = audited t ctx ACreate ''credit_notes'' new_id
       (recompute_invoice_balance
         ((add_credit c db)\<lparr>credit_note_sequences := sqs,
            credit_note_lines := credit_note_lines db @ map (written_credit_line new_id) (cc_lines r)\<rparr>)
         t (cc_invoice r) now)"
proof -
  from assms obtain subtotal tax amount row db1 number db2 where
    tot: "credit_totals r = Inr (subtotal, tax, amount)"
    and lock: "lock_and_check_credit_note_invoice db t (cc_invoice r) amount = Inr row"
    and num: "next_credit_note_number db t = Inr (db1, number)"
    and ins: "insert_credit_note db1 c = Inr db2"
    and c: "cn_id c = new_id" "cn_tenant c = t" "cn_invoice c = cc_invoice r" "cn_status c = Issued"
       "cn_total c = num2 amount" "cn_company c = inv_company row"
    and db': "db' = audited t ctx ACreate ''credit_notes'' new_id
       (recompute_invoice_balance (db2\<lparr>credit_note_lines := credit_note_lines db2
           @ map (written_credit_line new_id) (cc_lines r)\<rparr>) t (cc_invoice r) now)"
    by (auto simp: credit_note_tx_def Let_def elim!: and_then_InrE)
  from next_credit_note_number_Inr [OF num] obtain sqs where "db1 = db\<lparr>credit_note_sequences := sqs\<rparr>"
    by blast
  with ins have "db2 = (add_credit c db)\<lparr>credit_note_sequences := sqs\<rparr>" "0 < cn_total c"
    by (auto simp: insert_credit_note_def add_credit_def split: if_splits)
  with that [OF tot] lock_and_check_Inr [OF lock] c db' show thesis
    by (simp add: add_credit_def)
qed

lemma recompute_ledger_cong:
  assumes "invoices db' = invoices db" "same_money db db'"
  shows "ledger_ok (recompute_invoice_balance db' t i now) = ledger_ok (recompute_invoice_balance db t i now)"
proof -
  have "paid_sum db' t i = paid_sum db t i" "credited_sum db' t i = credited_sum db t i"
    using assms by (simp_all add: paid_sum_def credited_sum_def same_money_def)
  then show ?thesis
    using assms by (intro ledger_ok_cong) (simp_all add: recompute_invoice_balance_def same_money_def)
qed

lemma ledger_credit_note_tx:
  assumes ok: "ledger_ok db" and fresh: "new_id \<notin> set (map cn_id (credit_notes db))"
    and run: "credit_note_tx env db t r today ctx pre new_id now = Inr (db', c)"
  shows "ledger_ok db'"
  using run
proof (rule credit_note_tx_cases)
  fix row subtotal tax amount sqs
  assume row: "select_invoice db t (cc_invoice r) = Some row" "is_frozen (inv_status row)"
    "amount \<le> inv_total row - inv_amount_credited row"
    and c: "cn_id c = new_id" "cn_tenant c = t" "cn_invoice c = cc_invoice r" "cn_total c = num2 amount"
      "0 < cn_total c"
    and db': "db' = audited t ctx ACreate ''credit_notes'' new_id
       (recompute_invoice_balance
         ((add_credit c db)\<lparr>credit_note_sequences := sqs,
            credit_note_lines := credit_note_lines db @ map (written_credit_line new_id) (cc_lines r)\<rparr>)
         t (cc_invoice r) now)"
  have "is_num2 (inv_total row - inv_amount_credited row)"
    using ledger_row [OF ok row(1)] ok credited_sum_num2
    by (intro is_num2_diff) (auto simp: row_ok_def row_base_ok_def ledger_ok_def)
  then have "cn_total c \<le> inv_total row - inv_amount_credited row"
    using num2_le [OF row(3)] c by simp
  with ledger_add_credit [OF ok row(1,2), of c now] c fresh
  have "ledger_ok (recompute_invoice_balance (add_credit c db) t (cc_invoice r) now)" by simp
  then show ?thesis
    unfolding db' ledger_ok_audited
    by (subst recompute_ledger_cong [where db = "add_credit c db"]) (simp_all add: same_money_def)
qed

lemma sum_where_mono:
  "(\<And>r. r \<in> set rs \<Longrightarrow> p r \<Longrightarrow> q r) \<Longrightarrow> (\<And>r. r \<in> set rs \<Longrightarrow> q r \<Longrightarrow> 0 \<le> f r) \<Longrightarrow>
   sum_where p f rs \<le> sum_where q f rs"
  by (induction rs) (auto simp: add_mono add_increasing)

definition void_credit :: "tenant \<Rightarrow> uuid \<Rightarrow> uuid option \<Rightarrow> instant \<Rightarrow> bill_db \<Rightarrow> bill_db" where
  "void_credit t i user now db = db\<lparr>credit_notes := update_where (cn_key t i)
     (\<lambda>x. x\<lparr>cn_status := CreditVoid, cn_voided_at := Some now, cn_voided_by := user\<rparr>) (credit_notes db)\<rparr>"

lemma void_credit_simps [simp]:
  "invoices (void_credit t i u now db) = invoices db" "payments (void_credit t i u now db) = payments db"
  "payment_refunds (void_credit t i u now db) = payment_refunds db"
  by (simp_all add: void_credit_def)

lemma credited_sum_void_credit:
  "credited_sum (void_credit t i u now db) t' j =
   sum_where (\<lambda>c. cn_invoice c = j \<and> cn_tenant c = t' \<and> cn_status c = Issued \<and> \<not> cn_key t i c) cn_total
     (credit_notes db)"
  unfolding credited_sum_def void_credit_def
  by (simp add: sum_where_update_where) (rule sum_where_cong, auto)

lemma ledger_void_credit:
  assumes ok: "ledger_ok db" and c: "c \<in> set (credit_notes db)" "cn_key t i c"
  shows "ledger_ok (recompute_invoice_balance (void_credit t i u now db) t (cn_invoice c) now)"
proof (rule ledger_ok_recompute, rule ledger_except_intro [OF ok])
  let ?db = "void_credit t i u now db"
  have m: "money_ok db" using ok by (simp add: ledger_ok_def)
  have uniq: "x = c" if "x \<in> set (credit_notes db)" "cn_key t i x" for x
    using m c that by (auto simp: money_ok_def distinct_map inj_on_def cn_key_def)
  have inv: "has_invoice ?db = has_invoice db" by (rule has_invoice_cong) simp
  have "map cn_id (credit_notes ?db) = map cn_id (credit_notes db)"
    unfolding void_credit_def by (simp add: map_update_where)
  moreover have "list_all (credit_ok db) (credit_notes ?db)"
    using m by (auto simp: money_ok_def list_all_iff void_credit_def set_update_where credit_ok_def)
  ultimately show "money_ok ?db"
    using m by (simp add: money_ok_def row_oks_cong(1,2) [of ?db db, OF inv] row_oks_cong(3) [of ?db db])
  have keys: "(\<forall>c \<in> set cs. \<not> (cn_tenant c = t' \<and> cn_invoice c = j))
      \<longleftrightarrow> (t', j) \<notin> set (map (\<lambda>c. (cn_tenant c, cn_invoice c)) cs)" for cs t' j
    by auto
  have "map (\<lambda>c. (cn_tenant c, cn_invoice c)) (credit_notes ?db)
      = map (\<lambda>c. (cn_tenant c, cn_invoice c)) (credit_notes db)"
    unfolding void_credit_def by (simp add: map_update_where)
  then have none: "no_money ?db t' j = no_money db t' j" for t' j
    unfolding no_money_def keys by simp
  fix r assume "r \<in> set (invoices db)" and ok_r: "row_ok db r"
  {
    assume "\<not> inv_key t (cn_invoice c) r"
    then have "\<not> cn_key t i x" if "x \<in> set (credit_notes db)" "cn_invoice x = inv_id r" "cn_tenant x = inv_tenant r" for x
      using uniq [of x] that by (auto simp: cn_key_def inv_key_def)
    then have "credited_sum ?db (inv_tenant r) (inv_id r) = credited_sum db (inv_tenant r) (inv_id r)"
      unfolding credited_sum_void_credit unfolding credited_sum_def
      by (intro sum_where_cong) auto
    with none have "row_ok ?db r = row_ok db r" by (intro row_ok_local) (simp_all add: paid_sum_def)
    with ok_r show "row_ok ?db r" by simp
  }
  have "credited_sum ?db (inv_tenant r) (inv_id r) \<le> credited_sum db (inv_tenant r) (inv_id r)"
    unfolding credited_sum_void_credit unfolding credited_sum_def
    by (intro sum_where_mono) (auto dest!: money_okD(3) [OF m] simp: credit_ok_def)
  with ok_r none show "row_base_ok ?db r"
    by (auto simp: row_ok_def row_base_ok_def)
qed simp

lemma void_credit_note_cases:
  assumes "void_credit_note env db t i ctx now = Inr db'"
  obtains c where "c \<in> set (credit_notes db)" "cn_key t i c" "cn_status c = Issued"
    "db' = audited t ctx AUpdate ''credit_notes'' i
       (recompute_invoice_balance (void_credit t i (ctx_user ctx) now db) t (cn_invoice c) now)"
proof -
  obtain c where "select_one (cn_key t i) (credit_notes db) = Some c"
    using assms by (auto simp: void_credit_note_def elim: case_option_InrE)
  moreover have "cn_status c = Issued"
    using assms calculation by (cases "cn_status c") (simp_all add: void_credit_note_def)
  ultimately show thesis
    using assms that [of c] select_one_SomeD [of "cn_key t i" "credit_notes db" c]
    by (auto simp: void_credit_note_def void_credit_def Let_def elim!: and_then_InrE)
qed

lemma ledger_void_credit_note:
  assumes ok: "ledger_ok db" and run: "void_credit_note env db t i ctx now = Inr db'"
  shows "ledger_ok db'"
  using run by (rule void_credit_note_cases) (simp add: ledger_void_credit [OF ok])

section \<open>Terminal states\<close>

lemma ledger_write_off_invoice:
  assumes ok: "ledger_ok db" and run: "write_off_invoice db t i user reason ctx now = Inr (db', r)"
  shows "ledger_ok db'"
proof -
  obtain row where row: "select_invoice db t i = Some row" "inv_status row \<in> {Sent, PartiallyPaid}"
    and db': "db' = audited t ctx AUpdate ''invoices'' i (update_invoice_row t i
      (\<lambda>r. r\<lparr>inv_status := WrittenOff, inv_written_off_at := Some now, inv_written_off_by := Some user,
              inv_write_off_reason := Some (trim reason), inv_write_off_amount := Some (inv_balance_due r)\<rparr>) db)"
    using run by (auto simp: write_off_invoice_def Let_def guard_Inr elim!: case_option_InrE)
       (auto simp: map_sum_def split: sum.splits)
  have "x = row" if "x \<in> set (invoices db)" "inv_key t i x" for x
    using that row(1) select_invoice_iff [OF ok] key_unique [OF ok] by blast
  with row(2) show ?thesis
    unfolding db' ledger_ok_audited
    by (intro ledger_ok_update_row [OF ok])
       (auto simp: keeps_key_def row_ok_def row_base_ok_def)
qed

lemma row_ok_voided:
  assumes "row_ok db r" "inv_tenant r' = inv_tenant r" "inv_id r' = inv_id r" "inv_total r' = inv_total r"
    "inv_amount_paid r' = inv_amount_paid r" "inv_amount_credited r' = inv_amount_credited r"
    "inv_status r' = Void"
  shows "row_ok db r'"
  using assms by (simp add: row_ok_def row_base_ok_def)

lemma ledger_void_invoice:
  assumes ok: "ledger_ok db" and run: "void_invoice db t i user reason ctx now = Inr (db', r)"
  shows "ledger_ok db'"
proof -
  obtain f where db': "db' = audited t ctx AUpdate ''invoices'' i (update_invoice_row t i f db)"
    and f: "f = (\<lambda>r. r\<lparr>inv_status := Void, inv_voided_at := Some now, inv_voided_by := Some user,
        inv_void_reason := (case map_option trim reason of Some [] \<Rightarrow> None | x \<Rightarrow> x)\<rparr>)"
    using run by (auto simp: void_invoice_def Let_def guard_Inr map_sum_def elim!: case_option_InrE
        split: sum.splits)
  show ?thesis
    unfolding db' ledger_ok_audited
    by (intro ledger_ok_update_row [OF ok]) (auto simp: f keeps_key_def elim: row_ok_voided)
qed

lemma void_delegated_row:
  "fst (void_delegated_invoice db t i provider now) = db
   \<or> fst (void_delegated_invoice db t i provider now) = audited t (audit_ctx_system t) AUpdate ''invoices'' i
       (update_invoice_row t i
         (\<lambda>r. if inv_external_provider r = Some provider \<and> inv_status r \<noteq> Void
              then r\<lparr>inv_status := Void, inv_voided_at := Some now,
                     inv_void_reason := Some (''Voided in '' @ provider @ '', which issued it'')\<rparr>
              else r) db)"
  by (auto simp: void_delegated_invoice_def update_invoice_row_def update_where_def audited_def)

lemma ledger_void_delegated_invoice:
  assumes ok: "ledger_ok db"
  shows "ledger_ok (fst (void_delegated_invoice db t i provider now))"
  using void_delegated_row [of db t i provider now]
proof
  assume e: "fst (void_delegated_invoice db t i provider now) = audited t (audit_ctx_system t) AUpdate
       ''invoices'' i (update_invoice_row t i
         (\<lambda>r. if inv_external_provider r = Some provider \<and> inv_status r \<noteq> Void
              then r\<lparr>inv_status := Void, inv_voided_at := Some now,
                     inv_void_reason := Some (''Voided in '' @ provider @ '', which issued it'')\<rparr>
              else r) db)"
  show ?thesis
    unfolding e ledger_ok_audited
    by (intro ledger_ok_update_row [OF ok]) (auto simp: keeps_key_def elim: row_ok_voided)
qed (use ok in simp)

section \<open>Drafts\<close>

lemma fresh_no_money:
  assumes m: "money_ok db" and fresh: "i \<notin> set (map inv_id (invoices db))"
  shows "no_money db t i"
proof -
  have no: "\<not> has_invoice db t' (Some i)" for t'
    using fresh by (auto simp: has_invoice_def list_ex_iff inv_key_def)
  have pay: "pay_invoice p \<noteq> Some i" if "p \<in> set (payments db)" for p
    using money_okD(1) [OF m that] no [of "pay_tenant p"] by (auto simp: payment_ok_def)
  have "rf_invoice r \<noteq> Some i" if "r \<in> set (payment_refunds db)" for r
    using refund_payment [OF m that] pay by metis
  moreover have "cn_invoice c \<noteq> i" if "c \<in> set (credit_notes db)" for c
    using money_okD(3) [OF m that] no [of "cn_tenant c"] by (auto simp: credit_ok_def)
  ultimately show ?thesis using pay by (auto simp: no_money_def)
qed

lemma ledger_insert_invoice:
  assumes ok: "ledger_ok db" and fresh: "inv_id r \<notin> set (map inv_id (invoices db))"
    and r: "is_num2 (inv_total r)" "inv_amount_paid r = 0" "inv_amount_credited r = 0"
      "inv_balance_due r = inv_total r"
    and run: "insert_invoice db r = Inr db'"
  shows "ledger_ok db' \<and> no_money db' (inv_tenant r) (inv_id r)"
proof -
  have m: "money_ok db" using ok by (simp add: ledger_ok_def)
  note none = fresh_no_money [OF m fresh]
  have db': "db' = db\<lparr>invoices := invoices db @ [r]\<rparr>"
    using run by (simp add: insert_invoice_def split: if_splits)
  have same: "same_money db db'" by (simp add: db' same_money_def)
  have has: "has_invoice db t x \<Longrightarrow> has_invoice db' t x" for t x
    by (auto simp: has_invoice_def db' split: option.splits)
  have "money_ok db'"
    using m fresh same has
    by (auto simp: money_ok_def list_all_iff payment_ok_def credit_ok_def refund_ok_def same_money_def db')
  moreover have "row_ok db r"
    using r none no_money_sums [OF none [of "inv_tenant r"]] by (simp add: row_ok_def row_base_ok_def)
  moreover have "no_money db' (inv_tenant r) (inv_id r)" using none by (simp add: no_money_def db')
  moreover have "invoices db' = invoices db @ [r]" by (simp add: db')
  ultimately show ?thesis
    using ok by (auto simp: ledger_ok_def row_ok_same_money [OF same])
qed

lemma ledger_draft_row:
  assumes ok: "ledger_ok db" and none: "no_money db t i" and key: "keeps_key f"
    and f: "\<And>r. inv_amount_paid (f r) = inv_amount_paid r" "\<And>r. inv_amount_credited (f r) = inv_amount_credited r"
      "\<And>r. is_num2 (inv_total (f r))"
      "\<And>r. inv_amount_paid r = 0 \<Longrightarrow> inv_amount_credited r = 0 \<Longrightarrow> inv_balance_due (f r) = inv_total (f r)"
  shows "ledger_ok (update_invoice_row t i f db) \<and> no_money (update_invoice_row t i f db) t i"
proof -
  have "row_ok db (f r)" if "inv_key t i r" "row_ok db r" for r
    using that none no_money_sums [OF none] f [of r] key
    by (auto simp: row_ok_def row_base_ok_def keeps_key_def inv_key_def)
  then show ?thesis
    using ledger_ok_update_row [OF ok key] none by (simp add: no_money_def)
qed

lemma next_invoice_number_frame:
  assumes "next_invoice_number draw db t c = Inr (db', s, scheme)"
  shows "invoices db' = invoices db \<and> same_money db db' \<and> invoice_lines db' = invoice_lines db"
proof -
  have assign: "invoices db' = invoices db \<and> same_money db db' \<and> invoice_lines db' = invoice_lines db"
    if "assign_prefix n False draw db t c = Inr (db', p)" for n draw db t c db' p
    using assign_prefix_Inr [OF that] by (simp add: same_money_def)
  show ?thesis
  proof (cases "read_scheme db t = CompanyPrefix")
    case True
    then obtain db1 p n where e: "ensure_company_prefix draw db t c = Inr (db1, p)"
      and n: "next_company_number db1 t c = Inr (db', n)"
      using assms by (auto simp: next_invoice_number_def elim!: and_then_InrE)
    have "invoices db1 = invoices db \<and> same_money db db1 \<and> invoice_lines db1 = invoice_lines db"
      using e by (auto simp: ensure_company_prefix_def same_money_def split: option.splits dest: assign)
    moreover have "invoices db' = invoices db1 \<and> same_money db1 db' \<and> invoice_lines db' = invoice_lines db1"
      using n by (auto simp: next_company_number_def same_money_def split: option.splits elim!: and_then_InrE)
    ultimately show ?thesis by (simp add: same_money_def)
  next
    case False
    with assms show ?thesis
      by (auto simp: next_invoice_number_def next_tenant_invoice_number_def same_money_def map_sum_def
          split: sum.splits)
  qed
qed

lemma same_money_no_money: "same_money db db' \<Longrightarrow> no_money db' t i = no_money db t i"
  by (simp add: same_money_def no_money_def)

definition tax_update :: "decimal \<Rightarrow> decimal \<times> uuid option \<times> decimal option \<Rightarrow> decimal \<Rightarrow> invoice \<Rightarrow> invoice" where
  "tax_update subtotal tax discount r = r\<lparr>
     inv_subtotal := num2 subtotal, inv_tax_amount := num2 (fst tax),
     inv_tax_rate_id := fst (snd tax), inv_tax_rate := snd (snd tax),
     inv_total := num2 (subtotal + fst tax - discount),
     inv_balance_due := num2 (subtotal + fst tax - discount - inv_amount_paid r - inv_amount_credited r)\<rparr>"

lemma apply_tax_Inr:
  assumes "apply_tax db t i requested explicit discount = Inr db'"
  obtains rate where "choose_rate db t requested = Inr rate"
    "db' = update_invoice_row t i (tax_update (lines_total db i) (tax_of (taxable_total db i) explicit rate) discount) db"
  using assms
  by (auto simp: apply_tax_def tax_update_def [abs_def] Let_def case_prod_beta elim!: and_then_InrE)

lemma ledger_apply_tax:
  assumes "ledger_ok db" "no_money db t i" "apply_tax db t i requested explicit discount = Inr db'"
  shows "ledger_ok db' \<and> no_money db' t i"
  using assms(3)
proof (rule apply_tax_Inr)
  fix rate
  assume db': "db' = update_invoice_row t i
      (tax_update (lines_total db i) (tax_of (taxable_total db i) explicit rate) discount) db"
  show ?thesis
    unfolding db' by (rule ledger_draft_row [OF assms(1,2)]) (simp_all add: keeps_key_def tax_update_def)
qed

lemma write_lines_frame:
  "invoices (write_lines db i ls) = invoices db" "same_money db (write_lines db i ls)"
  by (simp_all add: write_lines_def same_money_def)

lemma ledger_create_invoice_tx:
  assumes ok: "ledger_ok db" and fresh: "new_id \<notin> set (map inv_id (invoices db))"
    and run: "create_invoice_tx draw db t r ctx pre ext new_id now = Inr db'"
  shows "ledger_ok db'"
proof -
  obtain db1 number scheme dt contact currency db2 db3 where
    num: "next_invoice_number draw db t (ci_company r) = Inr (db1, number, scheme)"
    and ins: "insert_invoice db1 (new_invoice t new_id number scheme r dt contact currency ext now) = Inr db2"
    and tax: "apply_tax (write_lines db2 new_id (ci_lines r)) t new_id (ci_tax_rate r)
                 (ci_tax_amount r) (opt_or (ci_discount r) 0) = Inr db3"
    and db': "db' = audited t ctx ACreate ''invoices'' new_id db3"
    using run by (auto simp: create_invoice_tx_def Let_def elim!: and_then_InrE)
  note f = next_invoice_number_frame [OF num]
  have ok1: "ledger_ok db1" using ok f ledger_ok_cong [of db db1] by simp
  have "ledger_ok db2 \<and> no_money db2 t new_id"
    using ledger_insert_invoice [OF ok1 _ _ _ _ _ ins] fresh f
    by (simp add: new_invoice_def Let_def)
  then have "ledger_ok (write_lines db2 new_id (ci_lines r)) \<and> no_money (write_lines db2 new_id (ci_lines r)) t new_id"
    using ledger_ok_cong [OF write_lines_frame(2,1), of db2 new_id "ci_lines r"]
      same_money_no_money [OF write_lines_frame(2), of db2 new_id "ci_lines r" t new_id] by simp
  with ledger_apply_tax [OF _ _ tax] db' show ?thesis by simp
qed

lemma ledger_amend_invoice:
  assumes ok: "ledger_ok db" and fresh: "new_id \<notin> set (map inv_id (invoices db))"
    and run: "amend_invoice draw db t i today ctx new_id = Inr (db', r)"
  shows "ledger_ok db'"
proof -
  obtain row db1 number scheme due db2 where
    row: "select_invoice db t i = Some row"
    and num: "next_invoice_number draw db t (inv_company row) = Inr (db1, number, scheme)"
    and ins: "insert_invoice db1 (amendment_of row new_id number scheme today due) = Inr db2"
    and db': "db' = audited t ctx ACreate ''invoices'' new_id (copy_lines db2 i new_id)"
    using run
    by (auto simp: amend_invoice_def Let_def map_sum_def elim!: case_option_InrE and_then_InrE split: sum.splits)
  note f = next_invoice_number_frame [OF num]
  have ok1: "ledger_ok db1" using ok f ledger_ok_cong [of db db1] by simp
  have "is_num2 (inv_total row)" using ledger_row [OF ok row] by (simp add: row_ok_def row_base_ok_def)
  then have "ledger_ok db2"
    using ledger_insert_invoice [OF ok1 _ _ _ _ _ ins] fresh f by (simp add: amendment_of_def)
  then show ?thesis
    using ledger_ok_cong [of db2 "copy_lines db2 i new_id"] db' by (simp add: copy_lines_def same_money_def)
qed

lemma plain_Inr [simp]: "plain r = Inr x \<longleftrightarrow> r = Inr x"
  by (cases r) (simp_all add: plain_def)

lemma update_invoice_tx_cases:
  assumes "update_invoice_tx env tdb db t i r current ctx now = Inr db'"
  obtains locked sent amends db1 contact due snapshot db2 db3 db4 db6 where
    "select_invoice db t i = Some locked" "\<not> is_frozen (inv_status locked)"
    "sent = just_sent r current (inv_status locked)" "amends = (if sent then inv_amends current else None)"
    "replace_lines db t i (ui_lines r) = Inr db1" "check_amended db1 t amends = Inr ()"
    "db2 = update_invoice_row t i (update_header r current locked contact due snapshot now) db1"
    "(if ui_lines r \<noteq> None \<or> ui_tax_rate r \<noteq> None \<or> ui_tax_amount r \<noteq> None
      then apply_tax db2 t i (or_else (ui_tax_rate r) (inv_tax_rate_id current))
             (ui_tax_amount r) (opt_or (ui_discount r) (inv_discount current))
      else Inr db2) = Inr db3"
    "sent \<and> (\<exists>recipient. deliver env db3 t i r ctx recipient = Inr db4) \<or> \<not> sent \<and> db4 = db3"
    "db6 = audited t ctx AUpdate ''invoices'' i db4
     \<or> db6 = audited t ctx AUpdate ''invoices'' i (audited t ctx AUpdate ''invoices'' i db4)"
    "void_amended env db6 t ctx (inv_number current) amends now = Inr db'"
proof -
  obtain locked where locked: "select_invoice db t i = Some locked" "\<not> is_frozen (inv_status locked)"
    using assms by (auto simp: update_invoice_tx_def split: option.splits if_splits)
  let ?sent = "just_sent r current (inv_status locked)"
  let ?amends = "if ?sent then inv_amends current else None"
  from assms locked obtain db1 recipient snapshot db3 db4 where
    parts: "replace_lines db t i (ui_lines r) = Inr db1" "check_amended db1 t ?amends = Inr ()"
    "(if ui_lines r \<noteq> None \<or> ui_tax_rate r \<noteq> None \<or> ui_tax_amount r \<noteq> None
      then apply_tax (update_invoice_row t i (update_header r current locked
              (or_else (ui_billing_contact r) (map_option fst recipient)) (updated_due_date db1 t r current)
              snapshot now) db1) t i (or_else (ui_tax_rate r) (inv_tax_rate_id current))
             (ui_tax_amount r) (opt_or (ui_discount r) (inv_discount current))
      else Inr (update_invoice_row t i (update_header r current locked
              (or_else (ui_billing_contact r) (map_option fst recipient)) (updated_due_date db1 t r current)
              snapshot now) db1)) = Inr db3"
    "(if ?sent then deliver env db3 t i r ctx recipient else Inr db3) = Inr db4"
    "void_amended env (if company_change r current = None then audited t ctx AUpdate ''invoices'' i db4
       else audited t ctx AUpdate ''invoices'' i (audited t ctx AUpdate ''invoices'' i db4))
       t ctx (inv_number current) ?amends now = Inr db'"
    by (auto simp: update_invoice_tx_def Let_def simp del: if_split elim!: and_then_InrE)
  show thesis
    by (rule that [OF locked refl refl parts(1,2) refl parts(3), where ?db6.0 = "if company_change r current = None then audited t ctx AUpdate ''invoices'' i db4
       else audited t ctx AUpdate ''invoices'' i (audited t ctx AUpdate ''invoices'' i db4)" and ?db4.0 = db4])
       (use parts(4,5) in \<open>auto split: if_splits\<close>)
qed

lemma deliver_Inr:
  assumes "deliver env db t i r ctx recipient = Inr db'"
  obtains f where "db' = audited t ctx AUpdate ''invoices'' i (update_invoice_row t i f db)"
    "\<And>x. \<exists>a b. f x = x\<lparr>inv_emailed_to := a, inv_delivery := b\<rparr>"
proof (cases recipient)
  case None
  let ?d = "Some (send_method r, case delivery_choice r of None \<Rightarrow> None | Some (_, note) \<Rightarrow> note)"
  have same: "x\<lparr>inv_delivery := ?d\<rparr> = x\<lparr>inv_emailed_to := inv_emailed_to x, inv_delivery := ?d\<rparr>" for x :: invoice
    by (cases x) simp
  have "db' = audited t ctx AUpdate ''invoices'' i (update_invoice_row t i (\<lambda>x. x\<lparr>inv_delivery := ?d\<rparr>) db)"
    using assms None by (auto simp: deliver_def elim!: and_then_InrE)
  with same show thesis by (intro that [of "\<lambda>x. x\<lparr>inv_delivery := ?d\<rparr>"]) blast+
next
  case (Some ca)
  show thesis
    by (rule that [of "\<lambda>x. x\<lparr>inv_emailed_to := Some (snd ca), inv_delivery := Some (ByEmail, None)\<rparr>"])
       (use assms Some in \<open>auto simp: deliver_def case_prod_beta elim!: and_then_InrE\<close>)
qed

lemma void_amended_Inr:
  assumes "void_amended env db t ctx number amends now = Inr db'"
  shows "case amends of None \<Rightarrow> db' = db
    | Some j \<Rightarrow> db' = audited t ctx AUpdate ''invoices'' j (update_invoice_row t j
        (\<lambda>x. x\<lparr>inv_status := Void, inv_voided_at := Some now, inv_voided_by := ctx_user ctx,
               inv_void_reason := Some (''Replaced by invoice '' @ number), inv_balance_due := 0\<rparr>) db)"
  using assms by (auto simp: void_amended_def Let_def split: option.splits elim!: and_then_InrE)

lemma replace_lines_Inr:
  assumes "replace_lines db t i new = Inr db'"
  shows "invoices db' = invoices db \<and> same_money db db'
    \<and> (\<exists>ls. db' = db\<lparr>invoice_lines := ls\<rparr> \<and> filter (\<lambda>l. il_invoice l \<noteq> i) ls = filter (\<lambda>l. il_invoice l \<noteq> i) (invoice_lines db))"
proof (cases new)
  case None
  then have "db' = db" using assms by (simp add: replace_lines_def)
  then show ?thesis by (auto simp: same_money_def intro!: exI [of _ "invoice_lines db"])
next
  case (Some ls)
  then show ?thesis
    using assms
    by (auto simp: replace_lines_def write_lines_def same_money_def written_line_def filter_map comp_def
        delete_where_def elim!: and_then_InrE)
qed

lemma ledger_update_invoice_tx:
  assumes ok: "ledger_ok db" and run: "update_invoice_tx env tdb db t i r current ctx now = Inr db'"
  shows "ledger_ok db'"
  using run
proof (rule update_invoice_tx_cases)
  fix locked sent amends db1 contact due snapshot db2 db3 db4 db6
  assume locked: "select_invoice db t i = Some locked" "\<not> is_frozen (inv_status locked)"
    and lines: "replace_lines db t i (ui_lines r) = Inr db1"
    and db2: "db2 = update_invoice_row t i (update_header r current locked contact due snapshot now) db1"
    and db3: "(if ui_lines r \<noteq> None \<or> ui_tax_rate r \<noteq> None \<or> ui_tax_amount r \<noteq> None
      then apply_tax db2 t i (or_else (ui_tax_rate r) (inv_tax_rate_id current))
             (ui_tax_amount r) (opt_or (ui_discount r) (inv_discount current))
      else Inr db2) = Inr db3"
    and db4: "sent \<and> (\<exists>recipient. deliver env db3 t i r ctx recipient = Inr db4) \<or> \<not> sent \<and> db4 = db3"
    and db6: "db6 = audited t ctx AUpdate ''invoices'' i db4
     \<or> db6 = audited t ctx AUpdate ''invoices'' i (audited t ctx AUpdate ''invoices'' i db4)"
    and void: "void_amended env db6 t ctx (inv_number current) amends now = Inr db'"
  note rl = replace_lines_Inr [OF lines]
  have locked_ok: "row_ok db locked" "inv_tenant locked = t" "inv_id locked = i"
    using ledger_row [OF ok locked(1)] locked(1) select_invoice_iff [OF ok] by (auto simp: inv_key_def)
  then have none: "no_money db t i" using locked(2) by (auto simp: row_ok_def row_base_ok_def)
  then have paid0: "inv_amount_paid locked = 0"
    using locked_ok no_money_sums by (simp add: row_ok_def)
  have one: "ledger_ok db1 \<and> no_money db1 t i"
    using ok none rl ledger_ok_cong [of db db1] same_money_no_money [of db db1] by simp
  have "ledger_ok db2 \<and> no_money db2 t i"
    unfolding db2 using one
    by (intro ledger_draft_row) (simp_all add: keeps_key_def update_header_def Let_def paid0)
  then have "ledger_ok db3 \<and> no_money db3 t i"
    using db3 ledger_apply_tax [of db2 t i] by (metis Inr_inject)
  then have "ledger_ok db4"
    using db4
  proof (elim disjE conjE exE)
    fix recipient assume del: "deliver env db3 t i r ctx recipient = Inr db4" and ok3: "ledger_ok db3"
    from del obtain f where f: "db4 = audited t ctx AUpdate ''invoices'' i (update_invoice_row t i f db3)"
      "\<And>x. \<exists>a b. f x = x\<lparr>inv_emailed_to := a, inv_delivery := b\<rparr>" by (rule deliver_Inr) blast
    have key: "keeps_key f" unfolding keeps_key_def
    proof
      fix x show "inv_id (f x) = inv_id x \<and> inv_tenant (f x) = inv_tenant x" using f(2) [of x] by auto
    qed
    have "row_ok db3 (f x)" if "row_ok db3 x" for x
      using that f(2) [of x] by (auto simp: row_ok_def row_base_ok_def)
    then show ?thesis unfolding f(1) ledger_ok_audited by (intro ledger_ok_update_row [OF ok3 key])
  qed simp
  then have ok6: "ledger_ok db6" using db6 by auto
  show ?thesis
  proof (cases amends)
    case None
    with void_amended_Inr [OF void] ok6 show ?thesis by simp
  next
    case (Some j)
    with void_amended_Inr [OF void] have e: "db' = audited t ctx AUpdate ''invoices'' j (update_invoice_row t j
        (\<lambda>x. x\<lparr>inv_status := Void, inv_voided_at := Some now, inv_voided_by := ctx_user ctx,
               inv_void_reason := Some (''Replaced by invoice '' @ inv_number current), inv_balance_due := 0\<rparr>) db6)"
      by simp
    show ?thesis
      unfolding e ledger_ok_audited
      by (intro ledger_ok_update_row [OF ok6]) (auto simp: keeps_key_def elim: row_ok_voided)
  qed
qed

lemma ledger_update_invoice_from:
  assumes "ledger_ok db"
  shows "ledger_ok (fst (update_invoice_from current env tdb db t i r ctx now))"
  using assms ledger_update_invoice_tx [OF assms]
  by (auto simp: update_invoice_from_def split: sum.splits)

end
