(* ===== verification/Time_Invoicing.thy ===== *)
theory Time_Invoicing
  imports Invoicing
begin

text \<open>
  Billing logged time and mileage: \<open>create_invoice_from_time_entries\<close> and
  \<open>uninvoiceable_time_for_company\<close> of src/src/modules/billing/service.rs, and the texts of
  src/src/modules/billing/descriptions.rs. The renderings of a date and of a decimal belong to the
  chrono and rust\_decimal libraries and are parameters, with the names of work types and tickets,
  which the tables of the model leave out. A table keeps its rows in the order they were created,
  so the stable sort by date is the order \<open>date, created_at\<close>.
\<close>

record line_texts =
  tx_date :: "date \<Rightarrow> string"
  tx_decimal :: "decimal \<Rightarrow> string"
  tx_work_type :: "uuid \<Rightarrow> string"
  tx_ticket :: "uuid \<Rightarrow> (string \<times> string) option"

section \<open>What a line says\<close>

definition MAX_NOTES_CHARS :: nat where "MAX_NOTES_CHARS = 120"

fun lines_of_text :: "string \<Rightarrow> string list" where
  "lines_of_text [] = []"
| "lines_of_text (c # cs) =
     (if c = CHR 0x0A then [] # lines_of_text cs
      else case lines_of_text cs of [] \<Rightarrow> [[c]]
           | l # ls \<Rightarrow> (c # l) # ls)"

definition trim_end :: "string \<Rightarrow> string" where
  "trim_end s = rev (dropWhile is_space (rev s))"

definition first_line :: "string \<Rightarrow> string option" where
  "first_line notes =
     (case filter (\<lambda>l. l \<noteq> []) (map trim (lines_of_text notes)) of
        [] \<Rightarrow> None
      | line # _ \<Rightarrow>
          Some (if MAX_NOTES_CHARS < length line then trim_end (take MAX_NOTES_CHARS line) @ ''...'' else line))"

fun join_with :: "string \<Rightarrow> string list \<Rightarrow> string" where
  "join_with sep [] = []"
| "join_with sep [s] = s"
| "join_with sep (s # r # rs) = s @ sep @ join_with sep (r # rs)"

definition ticket_detail :: "string \<times> string \<Rightarrow> string list" where
  "ticket_detail tk =
     (let number = trim (fst tk); title = trim (snd tk) in
      if number \<noteq> [] \<and> title \<noteq> [] then [number @ '' '' @ title]
      else if number \<noteq> [] then [number]
      else if title \<noteq> [] then [title] else [])"

definition time_entry_line :: "line_texts \<Rightarrow> date \<Rightarrow> string \<Rightarrow> (string \<times> string) option \<Rightarrow> string option \<Rightarrow> string" where
  "time_entry_line X d work_type ticket notes =
     (let detail = (case ticket of None \<Rightarrow> [] | Some tk \<Rightarrow> ticket_detail tk)
                   @ (case notes of None \<Rightarrow> [] | Some n \<Rightarrow>
                        (case first_line n of None \<Rightarrow> [] | Some l \<Rightarrow> [l]));
          head = tx_date X d @ '' '' @ trim work_type
      in if detail = [] then head else head @ '': '' @ join_with '' - '' detail)"

definition time_entry_overage_line :: "line_texts \<Rightarrow> date \<Rightarrow> string \<Rightarrow> (string \<times> string) option \<Rightarrow> string option
    \<Rightarrow> decimal \<Rightarrow> decimal \<Rightarrow> string" where
  "time_entry_overage_line X d work_type ticket notes over covered =
     (let base = time_entry_line X d work_type ticket notes in
      if covered > 0
      then base @ '' - '' @ tx_decimal X over @ ''h over the '' @ tx_decimal X covered @ ''h block''
      else base @ '' - '' @ tx_decimal X over @ ''h past an exhausted block'')"

definition entry_description :: "line_texts \<Rightarrow> time_entry \<Rightarrow> string" where
  "entry_description X e =
     (let ticket = (case te_ticket e of None \<Rightarrow> None | Some k \<Rightarrow> tx_ticket X k);
          work_type = tx_work_type X (te_work_type e)
      in if opt_or (te_overage_hours e) 0 > 0
         then time_entry_overage_line X (te_date e) work_type ticket (te_notes e)
                (opt_or (te_overage_hours e) 0) (opt_or (te_hours_consumed e) 0)
         else time_entry_line X (te_date e) work_type ticket (te_notes e))"

section \<open>Why there is nothing to invoice\<close>

record uninvoiceable_time =
  un_not_ready :: nat
  un_not_ready_minutes :: int
  un_non_billable :: nat
  un_non_billable_minutes :: int
  un_already_invoiced :: nat
  un_prepaid :: nat
  un_prepaid_minutes :: int

definition client_time :: "tenant \<Rightarrow> uuid \<Rightarrow> time_entry \<Rightarrow> bool" where
  "client_time t c e \<longleftrightarrow> te_tenant e = t \<and> te_company e = Some c \<and> te_entry_kind e = ''client''"

definition not_ready :: "time_entry \<Rightarrow> bool" where
  "not_ready e \<longleftrightarrow> te_is_billable e = Some True \<and> te_invoice e = None
     \<and> te_billing_status e \<noteq> ''ready_to_bill'' \<and> te_billing_status e \<noteq> ''prepaid''"

definition uninvoiceable_time_for_company :: "time_db \<Rightarrow> tenant \<Rightarrow> uuid \<Rightarrow> uninvoiceable_time" where
  "uninvoiceable_time_for_company tdb t c =
     (let es = filter (client_time t c) (time_entries tdb);
          count = (\<lambda>p. length (filter p es));
          minutes = (\<lambda>p. sum_list (map te_duration_minutes (filter p es)));
          non_billable = (\<lambda>e. te_is_billable e \<noteq> Some True);
          prepaid = (\<lambda>e. te_billing_status e = ''prepaid'')
      in \<lparr> un_not_ready = count not_ready, un_not_ready_minutes = minutes not_ready,
           un_non_billable = count non_billable, un_non_billable_minutes = minutes non_billable,
           un_already_invoiced = count (\<lambda>e. te_is_billable e = Some True \<and> te_invoice e \<noteq> None),
           un_prepaid = count prepaid, un_prepaid_minutes = minutes prepaid \<rparr>)"

definition hours_text :: "line_texts \<Rightarrow> int \<Rightarrow> string" where
  "hours_text X minutes =
     (let hours = num2 (of_int minutes / 60) in
      if hours = 1 then ''1 hour'' else tx_decimal X hours @ '' hours'')"

definition count_of :: "nat \<Rightarrow> string \<Rightarrow> string \<Rightarrow> string" where
  "count_of n singular plural = (if n = 1 then ''1 '' @ singular else digits_of n @ '' '' @ plural)"

definition next_step :: "uninvoiceable_time \<Rightarrow> string option" where
  "next_step u =
     (if un_not_ready u > 0 then Some ''Re-save them and they become invoiceable.''
      else if un_non_billable u > 0 then
        Some ''Mark them billable if they should be charged, then generate the invoice again.''
      else if un_already_invoiced u > 0 then Some ''There is nothing new to bill for this company.''
      else if un_prepaid u > 0 then
        Some ''Those hours were prepaid, so there is nothing to charge for them.''
      else None)"

definition message_parts :: "line_texts \<Rightarrow> uninvoiceable_time \<Rightarrow> string list" where
  "message_parts X u =
     (if un_not_ready u > 0 then
        [count_of (un_not_ready u) ''billable time entry'' ''billable time entries'' @ '' (''
         @ hours_text X (un_not_ready_minutes u) @ '') that '' @ (if un_not_ready u = 1 then ''is'' else ''are'')
         @ '' not marked ready to bill''] else [])
     @ (if un_non_billable u > 0 then
          [count_of (un_non_billable u) ''time entry'' ''time entries'' @ '' (''
           @ hours_text X (un_non_billable_minutes u) @ '') logged as non-billable''] else [])
     @ (if un_already_invoiced u > 0 then
          [count_of (un_already_invoiced u) ''billable time entry'' ''billable time entries''
           @ '' already on an invoice''] else [])
     @ (if un_prepaid u > 0 then
          [count_of (un_prepaid u) ''time entry'' ''time entries'' @ '' (''
           @ hours_text X (un_prepaid_minutes u) @ '') covered by the block-hours contract''] else [])"

definition into_message :: "line_texts \<Rightarrow> uninvoiceable_time \<Rightarrow> string" where
  "into_message X u =
     (case next_step u of
        None \<Rightarrow> ''No billable time or mileage entries found for this company''
      | Some next_action \<Rightarrow>
          let parts = message_parts X u;
              what = (if length parts = 1 then hd parts
                      else join_with '', '' (butlast parts) @ '' and '' @ last parts)
          in ''This company has no time to invoice right now. It has '' @ what @ ''. '' @ next_action)"

section \<open>Generating\<close>

record time_invoice_request =
  ti_company :: uuid
  ti_billing_contact :: "uuid option"
  ti_contract :: "uuid option"
  ti_invoice_date :: "date option"
  ti_due_date :: "date option"
  ti_currency :: "string option"
  ti_entry_ids :: "uuid list option"
  ti_tax_rate :: "uuid option"

definition selected_entry :: "tenant \<Rightarrow> time_invoice_request \<Rightarrow> time_entry \<Rightarrow> bool" where
  "selected_entry t r e \<longleftrightarrow> invoice_eligible t (ti_company r) e
     \<and> (case ti_entry_ids r of None \<Rightarrow> True | Some ids \<Rightarrow> te_id e \<in> set ids)"

definition eligible_entries :: "time_db \<Rightarrow> tenant \<Rightarrow> time_invoice_request \<Rightarrow> time_entry list" where
  "eligible_entries tdb t r = sort_key te_date (filter (selected_entry t r) (time_entries tdb))"

definition eligible_mile :: "tenant \<Rightarrow> uuid \<Rightarrow> mileage_entry \<Rightarrow> bool" where
  "eligible_mile t c m \<longleftrightarrow> me_tenant m = t \<and> me_company m = c \<and> me_is_billable m
     \<and> me_invoice m = None \<and> me_billing_status m = ''ready_to_bill''"

definition eligible_mileage :: "bill_db \<Rightarrow> tenant \<Rightarrow> uuid \<Rightarrow> mileage_entry list" where
  "eligible_mileage db t c = sort_key me_date (filter (eligible_mile t c) (mileage_entries db))"

definition mileage_figures :: "mileage_entry \<Rightarrow> decimal \<times> decimal \<times> decimal" where
  "mileage_figures m =
     (let quantity = me_distance m; unit_price = opt_or (me_rate m) 0
      in (quantity, unit_price, opt_or (me_total m) (quantity * unit_price)))"

text \<open>An arrow between two spaces, in UTF-8.\<close>

definition ARROW :: string where
  "ARROW = [CHR 0x20, CHR 0xE2, CHR 0x86, CHR 0x92, CHR 0x20]"

definition mileage_description :: "mileage_entry \<Rightarrow> string" where
  "mileage_description m =
     (case (me_start_address m, me_end_address m) of
        (None, None) \<Rightarrow> ''Mileage''
      | (a, b) \<Rightarrow> ''Mileage: '' @ opt_or a [] @ ARROW @ opt_or b [])"

definition source_line :: "uuid \<Rightarrow> invoice_line_type \<Rightarrow> string \<Rightarrow> decimal \<times> decimal \<times> decimal \<Rightarrow> uuid list
    \<Rightarrow> uuid option \<Rightarrow> nat \<Rightarrow> invoice_line" where
  "source_line i ty text figures entries ticket k =
     \<lparr> il_invoice = i, il_type = ty, il_description = text, il_quantity = num2 (fst figures),
       il_unit_price = num2 (fst (snd figures)), il_total = num2 (snd (snd figures)),
       il_time_entries = entries, il_ticket = ticket, il_project = None, il_product = None,
       il_taxable = True, il_sort_order = int k \<rparr>"

definition time_lines :: "line_texts \<Rightarrow> uuid \<Rightarrow> time_entry list \<Rightarrow> invoice_line list" where
  "time_lines X i es =
     map (\<lambda>(k, e). source_line i LTimeEntry (entry_description X e) (invoice_line_figures e) [te_id e] (te_ticket e) k)
       (enumerate 0 es)"

definition mileage_lines :: "uuid \<Rightarrow> nat \<Rightarrow> mileage_entry list \<Rightarrow> invoice_line list" where
  "mileage_lines i first_order ms =
     map (\<lambda>(k, m). source_line i LMileage (mileage_description m) (mileage_figures m) [] (me_ticket m) k)
       (enumerate first_order ms)"

definition sources_subtotal :: "time_entry list \<Rightarrow> mileage_entry list \<Rightarrow> decimal" where
  "sources_subtotal es ms =
     sum_list (map (\<lambda>e. snd (snd (invoice_line_figures e))) es)
     + sum_list (map (\<lambda>m. snd (snd (mileage_figures m))) ms)"

text \<open>The header of an invoice raised from a subtotal alone, as this path and the recurring run write it.\<close>

definition raised_invoice :: "tenant \<Rightarrow> uuid \<Rightarrow> string \<Rightarrow> number_scheme \<Rightarrow> uuid \<Rightarrow> uuid option \<Rightarrow> uuid option
    \<Rightarrow> date \<Rightarrow> date \<times> uuid option \<Rightarrow> decimal \<Rightarrow> string \<Rightarrow> invoice" where
  "raised_invoice t i number scheme company contact for_contract invoice_date dt subtotal currency =
     \<lparr> inv_id = i, inv_tenant = t, inv_number = number, inv_company = company,
       inv_billing_contact = contact, inv_contract = for_contract, inv_status = Draft,
       inv_invoice_date = invoice_date, inv_due_date = fst dt, inv_payment_term = snd dt,
       inv_subtotal = num2 subtotal, inv_tax_amount = 0, inv_tax_rate_id = None, inv_tax_rate = None,
       inv_discount = 0, inv_total = num2 subtotal, inv_amount_paid = 0, inv_amount_credited = 0,
       inv_balance_due = num2 subtotal, inv_currency = Some currency, inv_sent_at = None,
       inv_issuer_snapshot = None, inv_emailed_to = None, inv_delivery = None, inv_paid_at = None,
       inv_written_off_at = None, inv_written_off_by = None, inv_write_off_reason = None,
       inv_write_off_amount = None, inv_voided_at = None, inv_voided_by = None, inv_void_reason = None,
       inv_external_provider = None, inv_external_id = None, inv_amends = None,
       inv_number_scheme = scheme \<rparr>"

definition add_lines :: "invoice_line list \<Rightarrow> bill_db \<Rightarrow> bill_db" where
  "add_lines ls db = db\<lparr>invoice_lines := invoice_lines db @ ls\<rparr>"

definition mark_mileage :: "tenant \<Rightarrow> uuid \<Rightarrow> uuid list \<Rightarrow> bill_db \<Rightarrow> bill_db" where
  "mark_mileage t i ids db = db\<lparr>mileage_entries := update_where (\<lambda>m. me_tenant m = t \<and> me_id m \<in> set ids)
     (\<lambda>m. m\<lparr>me_billing_status := ''billed'', me_invoice := Some i\<rparr>) (mileage_entries db)\<rparr>"

definition mark_entries :: "tenant \<Rightarrow> uuid \<Rightarrow> uuid list \<Rightarrow> time_db \<Rightarrow> time_db" where
  "mark_entries t i ids tdb = tdb\<lparr>time_entries := update_where (\<lambda>e. te_tenant e = t \<and> te_id e \<in> set ids)
     (\<lambda>e. e\<lparr>te_billing_status := ''billed'', te_invoice := Some i\<rparr>) (time_entries tdb)\<rparr>"

definition create_invoice_from_time_entries :: "line_texts \<Rightarrow> (nat \<Rightarrow> nat \<Rightarrow> nat) \<Rightarrow> bill_db \<Rightarrow> time_db \<Rightarrow> tenant
    \<Rightarrow> date \<Rightarrow> time_invoice_request \<Rightarrow> audit_ctx \<Rightarrow> uuid \<Rightarrow> (bill_db \<times> time_db \<times> invoice) app_result" where
  "create_invoice_from_time_entries X draw db tdb t today r ctx new_id =
     and_then (assert_billing_company db t (ti_company r)) (\<lambda>_.
     let es = eligible_entries tdb t r;
         ms = eligible_mileage db t (ti_company r) in
     if es = [] \<and> ms = [] then
       Inl (BadRequest (into_message X (uninvoiceable_time_for_company tdb t (ti_company r))))
     else
       and_then (next_invoice_number draw db t (ti_company r)) (\<lambda>(db1, number, scheme).
       let invoice_date = opt_or (ti_invoice_date r) today;
           dt = resolve_due_date db1 t invoice_date None (ti_due_date r) in
       and_then (resolve_billing_contact db1 t (ti_company r) (ti_billing_contact r)) (\<lambda>contact.
       let currency = opt_or (ti_currency r) (read_default_currency db1 t) in
       and_then (insert_invoice db1 (raised_invoice t new_id number scheme (ti_company r) contact (ti_contract r)
                   invoice_date dt (sources_subtotal es ms) currency)) (\<lambda>db2.
       and_then (apply_tax (add_lines (time_lines X new_id es @ mileage_lines new_id (length es) ms) db2)
                   t new_id (ti_tax_rate r) None 0) (\<lambda>db3.
       let db4 = audited t ctx ACreate ''invoices'' new_id (mark_mileage t new_id (map me_id ms) db3);
           tdb' = mark_entries t new_id (map te_id es) tdb
       in map_sum id (\<lambda>row. (db4, tdb', row)) (load_invoice db4 t new_id))))))"

end
