(* ===== verification/Recurring_Billing.thy ===== *)
theory Recurring_Billing
  imports Time_Invoicing
begin

text \<open>
  The recurring run: \<open>generate_due_recurring_invoices\<close>, \<open>generate_one_recurring_invoice\<close> and
  the sweep over all tenants of src/src/modules/billing/service.rs. The billing columns of
  \<open>contract_items\<close> are a table of their own here: the block-hours columns are in
  \<open>Hour_Balances\<close>, and no operation writes both. The zone database of chrono-tz and the collation of
  item names are parameters, and so are the identifiers a run draws, one pair per contract.
\<close>

record billing_item =
  bit_id :: uuid
  bit_tenant :: tenant
  bit_contract :: uuid
  bit_name :: string
  bit_quantity :: decimal
  bit_unit_price :: decimal
  bit_product :: "uuid option"
  bit_rule :: string
  bit_billed_at :: "instant option"
  bit_sort_order :: int

record run_db =
  run_bill :: bill_db
  run_time :: time_db
  run_items :: "billing_item list"
  business_zones :: "(tenant \<times> string) list"

section \<open>One contract, one period\<close>

definition due_item :: "tenant \<Rightarrow> uuid \<Rightarrow> billing_item \<Rightarrow> bool" where
  "due_item t c x \<longleftrightarrow> bit_tenant x = t \<and> bit_contract x = c
     \<and> (bit_rule x = ''every_period'' \<or> bit_rule x = ''once'' \<and> bit_billed_at x = None)"

definition due_items :: "(string \<Rightarrow> nat) \<Rightarrow> billing_item list \<Rightarrow> tenant \<Rightarrow> uuid \<Rightarrow> billing_item list" where
  "due_items collate xs t c =
     sort_key bit_sort_order (sort_key (collate \<circ> bit_name) (filter (due_item t c) xs))"

definition items_subtotal :: "billing_item list \<Rightarrow> decimal" where
  "items_subtotal xs = sum_list (map (\<lambda>x. bit_quantity x * bit_unit_price x) xs)"

definition claimable :: "tenant \<Rightarrow> uuid \<Rightarrow> billing_item \<Rightarrow> bool" where
  "claimable t i x \<longleftrightarrow> bit_id x = i \<and> bit_tenant x = t \<and> bit_billed_at x = None"

fun claim_items :: "tenant \<Rightarrow> instant \<Rightarrow> billing_item list \<Rightarrow> billing_item list \<Rightarrow> billing_item list option" where
  "claim_items t now [] xs = Some xs"
| "claim_items t now (y # ys) xs =
     (if bit_rule y = ''once'' then
        if list_ex (claimable t (bit_id y)) xs
        then claim_items t now ys (update_where (claimable t (bit_id y)) (\<lambda>x. x\<lparr>bit_billed_at := Some now\<rparr>) xs)
        else None
      else claim_items t now ys xs)"

definition item_line :: "bill_db \<Rightarrow> uuid \<Rightarrow> nat \<Rightarrow> billing_item \<Rightarrow> invoice_line" where
  "item_line db i k x = \<lparr> il_invoice = i, il_type = LService, il_description = bit_name x,
     il_quantity = num2 (bit_quantity x), il_unit_price = num2 (bit_unit_price x),
     il_total = num2 (bit_quantity x * bit_unit_price x), il_time_entries = [], il_ticket = None,
     il_project = None, il_product = bit_product x,
     il_taxable = (case bit_product x of None \<Rightarrow> True
        | Some p \<Rightarrow> (case select_one (\<lambda>r. pr_id r = p) (products db) of None \<Rightarrow> True | Some r \<Rightarrow> pr_is_taxable r)),
     il_sort_order = int k \<rparr>"

definition item_lines :: "bill_db \<Rightarrow> uuid \<Rightarrow> billing_item list \<Rightarrow> invoice_line list" where
  "item_lines db i xs = map (\<lambda>(k, x). item_line db i k x) (enumerate 0 xs)"

definition period_billed :: "bill_db \<Rightarrow> tenant \<Rightarrow> uuid \<Rightarrow> date \<Rightarrow> bool" where
  "period_billed db t c start \<longleftrightarrow>
     list_ex (\<lambda>x. ir_tenant x = t \<and> ir_contract x = c \<and> ir_period_start x = start) (invoice_runs db)"

text \<open>\<open>Ok(None)\<close> drops the transaction: the state is the one before.\<close>

definition generate_one_recurring_invoice :: "(string \<Rightarrow> nat) \<Rightarrow> (nat \<Rightarrow> nat \<Rightarrow> nat) \<Rightarrow> bill_db \<Rightarrow> billing_item list
    \<Rightarrow> tenant \<Rightarrow> uuid \<Rightarrow> uuid \<Rightarrow> date \<times> date \<Rightarrow> date \<Rightarrow> audit_ctx \<Rightarrow> uuid \<Rightarrow> instant
    \<Rightarrow> (bill_db \<times> billing_item list \<times> uuid option) app_result" where
  "generate_one_recurring_invoice collate draw db xs t c company period today ctx new_id now =
     (let ys = due_items collate xs t c in
      if ys = [] then Inr (db, xs, None)
      else
        let dt = resolve_due_date db t today None None in
        and_then (next_invoice_number draw db t company) (\<lambda>(db1, number, scheme).
        and_then (resolve_billing_contact db1 t company None) (\<lambda>contact.
        and_then (insert_invoice db1 (raised_invoice t new_id number scheme company contact (Some c) today dt
                    (items_subtotal ys) (read_default_currency db1 t))) (\<lambda>db2.
        if period_billed db2 t c (fst period) then Inr (db, xs, None)
        else
          let db3 = db2\<lparr>invoice_runs := invoice_runs db2 @ [\<lparr> ir_tenant = t, ir_contract = c, ir_invoice = new_id,
                         ir_period_start = fst period, ir_period_end = snd period \<rparr>]\<rparr> in
          case claim_items t now ys xs of
            None \<Rightarrow> Inr (db, xs, None)
          | Some xs1 \<Rightarrow>
              map_sum id (\<lambda>db4. (audited t ctx ACreate ''invoices'' new_id db4, xs1, Some new_id))
                (apply_tax (add_lines (item_lines db3 new_id ys) db3) t new_id None None 0)))))"

section \<open>A run\<close>

definition read_tenant_zone :: "run_db \<Rightarrow> tenant \<Rightarrow> string" where
  "read_tenant_zone s t = opt_or (map_option snd (select_one (\<lambda>r. fst r = t) (business_zones s))) ''UTC''"

definition due_contracts :: "run_db \<Rightarrow> tenant \<Rightarrow> date \<Rightarrow> contract list" where
  "due_contracts s t today =
     sort_key c_id (filter (\<lambda>c. c_tenant c = t \<and> c_status c = ''active''
       \<and> c_billing_cycle c \<noteq> Some ''one_time'' \<and> c_start_date c \<le> today) (contracts (run_time s)))"

definition period_to_bill :: "cal \<Rightarrow> date \<Rightarrow> contract \<Rightarrow> (date \<times> date) option" where
  "period_to_bill C today c =
     (case current_billing_period C (opt_or (c_billing_cycle c) ''monthly'') (c_start_date c) today of
        None \<Rightarrow> None
      | Some period \<Rightarrow>
          (case c_end_date c of
             None \<Rightarrow> Some period
           | Some e \<Rightarrow> if fst period > e then None else Some period))"

definition roll_closing :: "cal \<Rightarrow> time_db \<Rightarrow> tenant \<Rightarrow> uuid \<Rightarrow> date \<Rightarrow> uuid \<Rightarrow> time_db app_result" where
  "roll_closing C tdb t c period_start bal =
     (case pred_opt C period_start of
        None \<Rightarrow> Inr tdb
      | Some closing_end \<Rightarrow>
          (case roll_to_next_period C tdb t c closing_end bal of
             Inr (tdb', _) \<Rightarrow> Inr tdb'
           | Inl (NotFound _) \<Rightarrow> Inr tdb
           | Inl e \<Rightarrow> Inl e))"

fun run_contracts :: "cal \<Rightarrow> (string \<Rightarrow> nat) \<Rightarrow> (nat \<Rightarrow> nat \<Rightarrow> nat) \<Rightarrow> (uuid \<Rightarrow> uuid \<times> uuid) \<Rightarrow> tenant \<Rightarrow> date
    \<Rightarrow> audit_ctx \<Rightarrow> instant \<Rightarrow> contract list \<Rightarrow> run_db \<Rightarrow> run_db \<times> uuid list app_result" where
  "run_contracts C collate draw ids t today ctx now [] s = (s, Inr [])"
| "run_contracts C collate draw ids t today ctx now (c # cs) s =
     (case period_to_bill C today c of
        None \<Rightarrow> run_contracts C collate draw ids t today ctx now cs s
      | Some period \<Rightarrow>
          (case roll_closing C (run_time s) t (c_id c) (fst period) (snd (ids (c_id c))) of
             Inl e \<Rightarrow> (s, Inl e)
           | Inr tdb \<Rightarrow>
               let s1 = s\<lparr>run_time := tdb\<rparr> in
               (case generate_one_recurring_invoice collate draw (run_bill s1) (run_items s1) t (c_id c) (c_company c)
                       period today ctx (fst (ids (c_id c))) now of
                  Inl e \<Rightarrow> (s1, Inl e)
                | Inr (db, xs, made) \<Rightarrow>
                    (case run_contracts C collate draw ids t today ctx now cs (s1\<lparr>run_bill := db, run_items := xs\<rparr>) of
                       (s2, Inl e) \<Rightarrow> (s2, Inl e)
                     | (s2, Inr created) \<Rightarrow>
                         (s2, Inr (case made of None \<Rightarrow> created | Some i \<Rightarrow> i # created))))))"

definition generate_due_recurring_invoices :: "cal \<Rightarrow> (string \<Rightarrow> instant \<Rightarrow> date) \<Rightarrow> (string \<Rightarrow> nat)
    \<Rightarrow> (nat \<Rightarrow> nat \<Rightarrow> nat) \<Rightarrow> (uuid \<Rightarrow> uuid \<times> uuid) \<Rightarrow> run_db \<Rightarrow> tenant \<Rightarrow> instant \<Rightarrow> audit_ctx
    \<Rightarrow> run_db \<times> uuid list app_result" where
  "generate_due_recurring_invoices C local_date collate draw ids s t now ctx =
     (let today = local_date (read_tenant_zone s t) now in
      run_contracts C collate draw ids t today ctx now (due_contracts s t today) s)"

fun generate_due_recurring_invoices_all_tenants :: "cal \<Rightarrow> (string \<Rightarrow> instant \<Rightarrow> date) \<Rightarrow> (string \<Rightarrow> nat)
    \<Rightarrow> (nat \<Rightarrow> nat \<Rightarrow> nat) \<Rightarrow> (uuid \<Rightarrow> uuid \<times> uuid) \<Rightarrow> tenant list \<Rightarrow> run_db \<Rightarrow> instant \<Rightarrow> run_db \<times> nat" where
  "generate_due_recurring_invoices_all_tenants C local_date collate draw ids [] s now = (s, 0)"
| "generate_due_recurring_invoices_all_tenants C local_date collate draw ids (t # ts) s now =
     (case generate_due_recurring_invoices C local_date collate draw ids s t now (audit_ctx_system t) of
        (s1, res) \<Rightarrow>
          (case generate_due_recurring_invoices_all_tenants C local_date collate draw ids ts s1 now of
             (s2, n) \<Rightarrow> (s2, (case res of Inl _ \<Rightarrow> 0 | Inr made \<Rightarrow> length made) + n)))"

end
