(* ===== verification/Raised_Invoices.thy ===== *)
theory Raised_Invoices
  imports Ledger_Invariants Recurring_Billing
begin

text \<open>
  What the two ways of raising an invoice from work done share: both write a draft from a number, a
  header, lines of its own and the tax over them. \<open>raised_draft\<close> is that shape; the ledger
  invariant and, in \<open>Billing_Steps\<close>, the immutability of issued invoices and the separation of
  tenants are proved of it once.
\<close>

inductive raised_draft :: "tenant \<Rightarrow> uuid \<Rightarrow> bill_db \<Rightarrow> bill_db \<Rightarrow> bool" for t i db db' where
  "next_invoice_number draw db t company = Inr (db1, number, scheme) \<Longrightarrow>
   insert_invoice db1 (raised_invoice t i number scheme company contact con d dt sub cur) = Inr db2 \<Longrightarrow>
   invoices db3 = invoices db2 \<Longrightarrow> same_money db2 db3 \<Longrightarrow>
   invoice_lines db3 = invoice_lines db2 @ ls \<Longrightarrow> \<forall>l \<in> set ls. il_invoice l = i \<Longrightarrow>
   apply_tax db3 t i rate None 0 = Inr db4 \<Longrightarrow>
   invoices db' = invoices db4 \<Longrightarrow> same_money db4 db' \<Longrightarrow> invoice_lines db' = invoice_lines db4 \<Longrightarrow>
   raised_draft t i db db'"

inductive_cases raised_draftE: "raised_draft t i db db'"

lemma raised_invoice_money [simp]:
  "inv_id (raised_invoice t i n sch c k con d dt sub cur) = i"
  "inv_tenant (raised_invoice t i n sch c k con d dt sub cur) = t"
  "inv_total (raised_invoice t i n sch c k con d dt sub cur) = num2 sub"
  "inv_amount_paid (raised_invoice t i n sch c k con d dt sub cur) = 0"
  "inv_amount_credited (raised_invoice t i n sch c k con d dt sub cur) = 0"
  "inv_balance_due (raised_invoice t i n sch c k con d dt sub cur) = num2 sub"
  "inv_status (raised_invoice t i n sch c k con d dt sub cur) = Draft"
  by (simp_all add: raised_invoice_def)

lemma ledger_raised_draft:
  assumes ok: "ledger_ok db" and fresh: "i \<notin> set (map inv_id (invoices db))" and run: "raised_draft t i db db'"
  shows "ledger_ok db'"
  using run
proof (rule raised_draftE)
  fix draw company db1 number scheme contact con d dt sub cur db2 db3 ls rate db4
  assume num: "next_invoice_number draw db t company = Inr (db1, number, scheme)"
    and ins: "insert_invoice db1 (raised_invoice t i number scheme company contact con d dt sub cur) = Inr db2"
    and db3: "invoices db3 = invoices db2" "same_money db2 db3"
    and tax: "apply_tax db3 t i rate None 0 = Inr db4"
    and db': "invoices db' = invoices db4" "same_money db4 db'"
  note f = next_invoice_number_frame [OF num]
  have ok1: "ledger_ok db1" using ok f ledger_ok_cong [of db db1] by simp
  have "ledger_ok db2 \<and> no_money db2 t i"
    using ledger_insert_invoice [OF ok1 _ _ _ _ _ ins] fresh f by simp
  then have "ledger_ok db3 \<and> no_money db3 t i"
    using ledger_ok_cong [OF db3(2,1)] same_money_no_money [OF db3(2)] by simp
  with ledger_apply_tax [OF _ _ tax] ledger_ok_cong [OF db'(2,1)] show ?thesis by simp
qed

section \<open>From time entries\<close>

lemma source_line_simps [simp]:
  "il_invoice (source_line i ty tx fs es k n) = i" "il_total (source_line i ty tx fs es k n) = num2 (snd (snd fs))"
  "il_time_entries (source_line i ty tx fs es k n) = es" "il_taxable (source_line i ty tx fs es k n)"
  by (simp_all add: source_line_def)

lemma from_time_entries_cases:
  assumes "create_invoice_from_time_entries X draw db tdb t today r ctx new_id = Inr (db', tdb', row)"
  obtains db1 number scheme contact d dt cur db2 db3 es ms where
    "es = eligible_entries tdb t r" "ms = eligible_mileage db t (ti_company r)" "\<not> (es = [] \<and> ms = [])"
    "next_invoice_number draw db t (ti_company r) = Inr (db1, number, scheme)"
    "insert_invoice db1 (raised_invoice t new_id number scheme (ti_company r) contact (ti_contract r) d dt
       (sources_subtotal es ms) cur) = Inr db2"
    "apply_tax (add_lines (time_lines X new_id es @ mileage_lines new_id (length es) ms) db2)
       t new_id (ti_tax_rate r) None 0 = Inr db3"
    "db' = audited t ctx ACreate ''invoices'' new_id (mark_mileage t new_id (map me_id ms) db3)"
    "tdb' = mark_entries t new_id (map te_id es) tdb" "load_invoice db' t new_id = Inr row"
proof -
  let ?es = "eligible_entries tdb t r" and ?ms = "eligible_mileage db t (ti_company r)"
  have ne: "\<not> (?es = [] \<and> ?ms = [])"
    using assms by (auto simp: create_invoice_from_time_entries_def elim!: and_then_InrE)
  from assms ne obtain db1 number scheme contact db2 db3 where
    "next_invoice_number draw db t (ti_company r) = Inr (db1, number, scheme)"
    "insert_invoice db1 (raised_invoice t new_id number scheme (ti_company r) contact (ti_contract r)
       (opt_or (ti_invoice_date r) today)
       (resolve_due_date db1 t (opt_or (ti_invoice_date r) today) None (ti_due_date r))
       (sources_subtotal ?es ?ms) (opt_or (ti_currency r) (read_default_currency db1 t))) = Inr db2"
    "apply_tax (add_lines (time_lines X new_id ?es @ mileage_lines new_id (length ?es) ?ms) db2)
       t new_id (ti_tax_rate r) None 0 = Inr db3"
    and e: "map_sum id (\<lambda>row. (audited t ctx ACreate ''invoices'' new_id (mark_mileage t new_id (map me_id ?ms) db3),
        mark_entries t new_id (map te_id ?es) tdb, row))
       (load_invoice (audited t ctx ACreate ''invoices'' new_id (mark_mileage t new_id (map me_id ?ms) db3)) t new_id)
      = Inr (db', tdb', row)"
    by (auto simp: create_invoice_from_time_entries_def Let_def elim!: and_then_InrE)
  with that [OF refl refl ne] show thesis
    by (auto simp: map_sum_def split: sum.splits)
qed

lemma raised_from_time_entries:
  assumes "create_invoice_from_time_entries X draw db tdb t today r ctx new_id = Inr (db', tdb', row)"
  shows "raised_draft t new_id db db'"
  using assms
  by (rule from_time_entries_cases)
     (rule raised_draft.intros, assumption, assumption,
      auto simp: add_lines_def same_money_def mark_mileage_def audited_def time_lines_def mileage_lines_def)

section \<open>Recurring runs\<close>

lemma generate_one_cases:
  assumes "generate_one_recurring_invoice collate draw db xs t c company period today ctx new_id now = Inr (db', xs', made)"
  obtains "db' = db" "xs' = xs" "made = None"
  | db1 number scheme contact dt cur db2 db4 ys where
    "ys = due_items collate xs t c" "ys \<noteq> []"
    "next_invoice_number draw db t company = Inr (db1, number, scheme)"
    "insert_invoice db1 (raised_invoice t new_id number scheme company contact (Some c) today dt
       (items_subtotal ys) cur) = Inr db2"
    "\<not> period_billed db2 t c (fst period)" "claim_items t now ys xs = Some xs'"
    "apply_tax (add_lines (item_lines db2 new_id ys) (db2\<lparr>invoice_runs := invoice_runs db2
       @ [\<lparr> ir_tenant = t, ir_contract = c, ir_invoice = new_id, ir_period_start = fst period,
            ir_period_end = snd period \<rparr>]\<rparr>)) t new_id None None 0 = Inr db4"
    "db' = audited t ctx ACreate ''invoices'' new_id db4" "made = Some new_id"
proof (cases "db' = db \<and> xs' = xs \<and> made = None")
  case False
  let ?ys = "due_items collate xs t c"
  have ne: "?ys \<noteq> []" using assms False by (auto simp: generate_one_recurring_invoice_def)
  have "item_line (db2\<lparr>invoice_runs := rs\<rparr>) = item_line db2" for db2 rs
    by (intro ext) (simp add: item_line_def split: option.split)
  then have lines: "item_lines (db2\<lparr>invoice_runs := rs\<rparr>) = item_lines db2" for db2 rs
    by (simp add: item_lines_def fun_eq_iff)
  from assms ne obtain db1 number scheme contact db2 where
    num: "next_invoice_number draw db t company = Inr (db1, number, scheme)"
    and ins: "insert_invoice db1 (raised_invoice t new_id number scheme company contact (Some c) today
       (resolve_due_date db t today None None) (items_subtotal ?ys) (read_default_currency db1 t)) = Inr db2"
    and rest: "(if period_billed db2 t c (fst period) then Inr (db, xs, None)
        else let db3 = db2\<lparr>invoice_runs := invoice_runs db2 @ [\<lparr> ir_tenant = t, ir_contract = c, ir_invoice = new_id,
                         ir_period_start = fst period, ir_period_end = snd period \<rparr>]\<rparr>
          in case claim_items t now ?ys xs of
            None \<Rightarrow> Inr (db, xs, None)
          | Some xs1 \<Rightarrow>
              map_sum id (\<lambda>db4. (audited t ctx ACreate ''invoices'' new_id db4, xs1, Some new_id))
                (apply_tax (add_lines (item_lines db3 new_id ?ys) db3) t new_id None None 0)) = Inr (db', xs', made)"
    by (auto simp: generate_one_recurring_invoice_def Let_def [of "due_items _ _ _ _"] Let_def [of "resolve_due_date _ _ _ _ _"]
        simp del: if_split elim!: and_then_InrE)
  from rest False obtain db4 where "\<not> period_billed db2 t c (fst period)" "claim_items t now ?ys xs = Some xs'"
    "apply_tax (add_lines (item_lines db2 new_id ?ys) (db2\<lparr>invoice_runs := invoice_runs db2
                 @ [\<lparr> ir_tenant = t, ir_contract = c, ir_invoice = new_id, ir_period_start = fst period,
                      ir_period_end = snd period \<rparr>]\<rparr>)) t new_id None None 0 = Inr db4"
    "db' = audited t ctx ACreate ''invoices'' new_id db4" "made = Some new_id"
    by (auto simp: Let_def lines map_sum_def split: if_splits option.splits sum.splits)
  with that(2) [OF refl ne num ins] show thesis by blast
qed (use that(1) in blast)

lemma raised_recurring:
  assumes "generate_one_recurring_invoice collate draw db xs t c company period today ctx new_id now
      = Inr (db', xs', Some i)"
  shows "i = new_id \<and> raised_draft t new_id db db'"
  using assms
proof (cases rule: generate_one_cases)
  case (2 db1 number scheme contact dt cur db2 db4 ys)
  show ?thesis
    by (rule conjI, use 2 in simp, rule raised_draft.intros [OF 2(3,4) _ _ _ _ 2(7)])
       (auto simp: add_lines_def same_money_def 2(8) item_lines_def item_line_def)
qed simp

end
