(* ===== verification/Billing_Steps.thy ===== *)
theory Billing_Steps
  imports Raised_Invoices
begin

text \<open>
  The operations of billing as one step relation, labelled with the tenant whose request runs. An
  operation that commits more than once contributes one step per transaction (the write of a
  credit note, the update of an invoice from a row read earlier), so that a sequence of steps is
  any interleaving of transactions. Three invariants are proved of every sequence: the ledger
  balances, an issued invoice is immutable, and a tenant's rows are never touched by another
  tenant's request.
\<close>

section \<open>Steps\<close>

inductive bill_step :: "tenant \<Rightarrow> bill_db \<Rightarrow> bill_db \<Rightarrow> bool" where
  pay: "new_id \<notin> set (map pay_id (payments db)) \<Longrightarrow>
     create_payment db t r ctx new_id now = Inr (db', p) \<Longrightarrow> bill_step t db db'"
| unpay: "delete_payment db t pid ctx now = Inr db' \<Longrightarrow> bill_step t db db'"
| gateway: "new_id \<notin> set (map pay_id (payments db)) \<Longrightarrow>
     record_gateway_payment db t provider i reference amount new_id now = Inr (db', done) \<Longrightarrow> bill_step t db db'"
| refunds: "record_gateway_refunds db t provider reference rs now = Inr db' \<Longrightarrow> bill_step t db db'"
| credit: "new_id \<notin> set (map cn_id (credit_notes db)) \<Longrightarrow>
     credit_note_tx cenv db t cr today ctx pre new_id now = Inr (db', c) \<Longrightarrow> bill_step t db db'"
| uncredit: "void_credit_note cenv db t i ctx now = Inr db' \<Longrightarrow> bill_step t db db'"
| write_off: "write_off_invoice db t i user reason ctx now = Inr (db', row) \<Longrightarrow> bill_step t db db'"
| void: "void_invoice db t i user reason' ctx now = Inr (db', row) \<Longrightarrow> bill_step t db db'"
| provider_void: "bill_step t db (fst (void_delegated_invoice db t i provider now))"
| create: "new_id \<notin> set (map inv_id (invoices db)) \<Longrightarrow>
     create_invoice_tx draw db t cir ctx pre' ext new_id now = Inr db' \<Longrightarrow> bill_step t db db'"
| update: "bill_step t db (fst (update_invoice_from current env tdb db t i uir ctx now))"
| amend: "new_id \<notin> set (map inv_id (invoices db)) \<Longrightarrow>
     amend_invoice draw db t i today ctx new_id = Inr (db', row) \<Longrightarrow> bill_step t db db'"
| bill_time: "new_id \<notin> set (map inv_id (invoices db)) \<Longrightarrow>
     create_invoice_from_time_entries X draw db tdb t today tir ctx new_id = Inr (db', tdb', row) \<Longrightarrow> bill_step t db db'"
| bill_contract: "new_id \<notin> set (map inv_id (invoices db)) \<Longrightarrow>
     generate_one_recurring_invoice collate draw db xs t con company period today ctx new_id now = Inr (db', xs', made) \<Longrightarrow>
     bill_step t db db'"

inductive_cases bill_stepE: "bill_step t db db'"

lemma bill_contract_made:
  assumes "generate_one_recurring_invoice collate draw db xs t c company period today ctx new_id now = Inr (db', xs', made)"
  shows "db' = db \<or> raised_draft t new_id db db'"
  using assms raised_recurring [of collate draw db xs t c company period today ctx new_id now db' xs']
  by (cases made) (auto elim: generate_one_cases)

definition bill_any :: "bill_db \<Rightarrow> bill_db \<Rightarrow> bool" where
  "bill_any db db' \<longleftrightarrow> (\<exists>t. bill_step t db db')"

lemma ledger_bill_step:
  assumes "bill_step t db db'" and ok: "ledger_ok db"
  shows "ledger_ok db'"
  using assms(1)
proof (cases rule: bill_step.cases)
  case (pay new_id r ctx now p)
  with ok show ?thesis by (intro ledger_create_payment [OF ok])
next
  case (unpay pid ctx now)
  then show ?thesis by (rule ledger_delete_payment [OF ok])
next
  case (gateway new_id provider i reference amount now success)
  then show ?thesis by (intro ledger_record_gateway_payment [OF ok])
next
  case (refunds provider reference rs now)
  then show ?thesis by (rule ledger_record_gateway_refunds [OF ok])
next
  case (credit new_id cenv cr today ctx pre now c)
  then show ?thesis by (intro ledger_credit_note_tx [OF ok])
next
  case (uncredit cenv i ctx now)
  then show ?thesis by (rule ledger_void_credit_note [OF ok])
next
  case (write_off i user reason ctx now row)
  then show ?thesis by (rule ledger_write_off_invoice [OF ok])
next
  case (void i user reason' ctx now row)
  then show ?thesis by (rule ledger_void_invoice [OF ok])
next
  case (provider_void i provider now)
  then show ?thesis using ledger_void_delegated_invoice [OF ok] by simp
next
  case (create new_id draw cir ctx pre' ext now)
  then show ?thesis by (intro ledger_create_invoice_tx [OF ok])
next
  case (update current env tdb i uir ctx now)
  then show ?thesis using ledger_update_invoice_from [OF ok] by simp
next
  case (amend new_id draw i today ctx row)
  then show ?thesis by (intro ledger_amend_invoice [OF ok])
next
  case (bill_time new_id X draw tdb today tir ctx tdb' row)
  then show ?thesis by (intro ledger_raised_draft [OF ok bill_time(1) raised_from_time_entries])
next
  case (bill_contract new_id collate draw xs con company period today ctx now xs' made)
  then show ?thesis
    using ok ledger_raised_draft [OF ok bill_contract(1)] bill_contract_made [OF bill_contract(2)] by blast
qed

lemma ledger_bill_steps: "rtranclp bill_any db db' \<Longrightarrow> ledger_ok db \<Longrightarrow> ledger_ok db'"
  by (induction rule: rtranclp_induct) (auto simp: bill_any_def dest: ledger_bill_step)

section \<open>What the customer holds\<close>

text \<open>The columns and lines that are printed on an invoice.\<close>

definition printed :: "invoice \<Rightarrow> invoice" where
  "printed r = r\<lparr>inv_status := Sent, inv_amount_paid := 0, inv_amount_credited := 0, inv_balance_due := 0,
     inv_paid_at := None, inv_written_off_at := None, inv_written_off_by := None,
     inv_write_off_reason := None, inv_write_off_amount := None, inv_voided_at := None,
     inv_voided_by := None, inv_void_reason := None\<rparr>"

definition lines_of :: "bill_db \<Rightarrow> uuid \<Rightarrow> invoice_line list" where
  "lines_of db i = filter (\<lambda>l. il_invoice l = i) (invoice_lines db)"

definition keeps :: "uuid set \<Rightarrow> bill_db \<Rightarrow> bill_db \<Rightarrow> bool" where
  "keeps F db db' \<longleftrightarrow>
     (\<forall>r \<in> set (invoices db). inv_id r \<in> F \<longrightarrow>
        (\<exists>r' \<in> set (invoices db'). printed r' = printed r \<and> (is_frozen (inv_status r) \<longrightarrow> is_frozen (inv_status r'))))
     \<and> (\<forall>i \<in> F. lines_of db' i = lines_of db i)"

lemma printed_id: "printed r' = printed r \<Longrightarrow> inv_id r' = inv_id r"
  by (drule arg_cong [where f = inv_id]) (simp add: printed_def)

lemma keepsD:
  assumes "keeps F db db'" "r \<in> set (invoices db)" "inv_id r \<in> F"
  obtains r' where "r' \<in> set (invoices db')" "printed r' = printed r"
    "is_frozen (inv_status r) \<Longrightarrow> is_frozen (inv_status r')"
proof -
  have "\<exists>r' \<in> set (invoices db'). printed r' = printed r \<and> (is_frozen (inv_status r) \<longrightarrow> is_frozen (inv_status r'))"
    using assms unfolding keeps_def by blast
  with that show thesis by blast
qed

lemma keeps_trans:
  assumes "keeps F db db1" "keeps F db1 db2" shows "keeps F db db2"
proof -
  have "\<exists>r2 \<in> set (invoices db2). printed r2 = printed r \<and> (is_frozen (inv_status r) \<longrightarrow> is_frozen (inv_status r2))"
    if mem: "r \<in> set (invoices db)" "inv_id r \<in> F" for r
  proof -
    obtain r1 where r1: "r1 \<in> set (invoices db1)" "printed r1 = printed r"
      "is_frozen (inv_status r) \<Longrightarrow> is_frozen (inv_status r1)"
      by (rule keepsD [OF assms(1) mem]) blast
    have "inv_id r1 \<in> F" using mem printed_id [OF r1(2)] by simp
    from keepsD [OF assms(2) r1(1) this] obtain r2 where
      "r2 \<in> set (invoices db2)" "printed r2 = printed r1"
      "is_frozen (inv_status r1) \<Longrightarrow> is_frozen (inv_status r2)" by blast
    with r1 show ?thesis by (intro bexI [of _ r2]) simp_all
  qed
  with assms show ?thesis by (simp add: keeps_def)
qed

lemma keeps_same:
  "invoices db' = invoices db \<Longrightarrow> (\<And>i. i \<in> F \<Longrightarrow> lines_of db' i = lines_of db i) \<Longrightarrow> keeps F db db'"
  by (auto simp: keeps_def)

lemma keeps_grow:
  "set (invoices db) \<subseteq> set (invoices db') \<Longrightarrow> (\<And>i. i \<in> F \<Longrightarrow> lines_of db' i = lines_of db i) \<Longrightarrow> keeps F db db'"
  by (auto simp: keeps_def)

lemma lines_of_cong: "invoice_lines db' = invoice_lines db \<Longrightarrow> lines_of db' = lines_of db"
  by (simp add: lines_of_def fun_eq_iff)

lemma keeps_update_row:
  assumes "\<And>r. r \<in> set (invoices db) \<Longrightarrow> inv_key t i r \<Longrightarrow> inv_id r \<in> F \<Longrightarrow>
     printed (f r) = printed r \<and> (is_frozen (inv_status r) \<longrightarrow> is_frozen (inv_status (f r)))"
  shows "keeps F db (update_invoice_row t i f db)"
proof -
  have "\<exists>r' \<in> set (update_where (inv_key t i) f (invoices db)). printed r' = printed r
      \<and> (is_frozen (inv_status r) \<longrightarrow> is_frozen (inv_status r'))"
    if "r \<in> set (invoices db)" "inv_id r \<in> F" for r
    unfolding set_update_where using that assms [of r]
    by (intro bexI [of _ "if inv_key t i r then f r else r"]) auto
  then show ?thesis by (simp add: keeps_def lines_of_def)
qed

lemma keeps_audited [simp]: "keeps F db (audited t ctx a e i db') = keeps F db db'"
  by (simp add: keeps_def lines_of_def)

lemma printed_rebalance [simp]: "printed (rebalance now p c r) = printed r"
  by (simp add: printed_def rebalance_def)

lemma status_rebalance: "inv_status (rebalance now p c r) = derived_status r p c"
  by (simp add: rebalance_def)

lemma keeps_recompute: "keeps F db (recompute_invoice_balance db t i now)"
  unfolding recompute_invoice_balance_def
  by (rule keeps_update_row) (simp add: status_rebalance)

lemma keeps_create_payment:
  assumes "create_payment db t r ctx new_id now = Inr (db', p)"
  shows "keeps F db db'"
  using assms
proof (rule create_payment_cases)
  fix p'
  assume db': "db' = audited t ctx ACreate ''payments'' new_id
       (case cpr_invoice r of None \<Rightarrow> add_payment p' db
        | Some i \<Rightarrow> recompute_invoice_balance (add_payment p' db) t i now)"
  have "keeps F db (add_payment p' db)" by (rule keeps_same) (simp_all add: lines_of_def add_payment_def)
  with keeps_trans [OF this keeps_recompute] show ?thesis
    unfolding db' by (simp split: option.split)
qed

lemma keeps_delete_payment:
  assumes "delete_payment db t pid ctx now = Inr db'"
  shows "keeps F db db'"
proof -
  have same: "keeps F db (db\<lparr>payments := ps, payment_refunds := rs\<rparr>)" for ps rs
    by (rule keeps_same) (simp_all add: lines_of_def)
  with keeps_trans [OF same keeps_recompute] assms show ?thesis
    by (auto simp: delete_payment_def Let_def split: option.splits)
qed

lemma keeps_record_gateway_payment:
  assumes "record_gateway_payment db t provider i reference amount new_id now = Inr (db', success)"
  shows "keeps F db db'"
  using assms
proof (cases rule: record_gateway_payment_cases)
  case 1
  then show ?thesis by (simp add: keeps_same)
next
  case (2 row p')
  have "keeps F db (add_payment p' db)" by (rule keeps_same) (simp_all add: lines_of_def add_payment_def)
  from keeps_trans [OF this keeps_recompute] 2 show ?thesis by simp
qed

lemma keeps_record_gateway_refunds:
  assumes "record_gateway_refunds db t provider reference refunds now = Inr db'"
  shows "keeps F db db'"
proof -
  have same: "keeps F db (db\<lparr>payment_refunds := rs\<rparr>)" for rs
    by (rule keeps_same) (simp_all add: lines_of_def)
  have refl: "keeps F db db" by (rule keeps_same) simp_all
  from same keeps_trans [OF same keeps_recompute] refl assms show ?thesis
    by (auto simp: record_gateway_refunds_def Let_def split: option.splits elim!: and_then_InrE)
qed

lemma keeps_credit_note_tx:
  assumes "credit_note_tx env db t r today ctx pre new_id now = Inr (db', c)"
  shows "keeps F db db'"
  using assms
proof (rule credit_note_tx_cases)
  fix sqs
  assume db': "db' = audited t ctx ACreate ''credit_notes'' new_id
       (recompute_invoice_balance
         ((add_credit c db)\<lparr>credit_note_sequences := sqs,
            credit_note_lines := credit_note_lines db @ map (written_credit_line new_id) (cc_lines r)\<rparr>)
         t (cc_invoice r) now)"
  have "keeps F db ((add_credit c db)\<lparr>credit_note_sequences := sqs, credit_note_lines := ls\<rparr>)" for ls
    by (rule keeps_same) (simp_all add: lines_of_def add_credit_def)
  from keeps_trans [OF this keeps_recompute] show ?thesis unfolding db' by simp
qed

lemma keeps_void_credit_note:
  assumes "void_credit_note env db t i ctx now = Inr db'"
  shows "keeps F db db'"
  using assms
proof (rule void_credit_note_cases)
  fix c
  assume db': "db' = audited t ctx AUpdate ''credit_notes'' i
       (recompute_invoice_balance (void_credit t i (ctx_user ctx) now db) t (cn_invoice c) now)"
  have "keeps F db (void_credit t i (ctx_user ctx) now db)"
    by (rule keeps_same) (simp_all add: lines_of_def void_credit_def)
  from keeps_trans [OF this keeps_recompute] show ?thesis unfolding db' by simp
qed

lemma keeps_write_off_invoice:
  assumes "write_off_invoice db t i user reason ctx now = Inr (db', row)"
  shows "keeps F db db'"
proof -
  have "keeps F db (update_invoice_row t i
      (\<lambda>r. r\<lparr>inv_status := WrittenOff, inv_written_off_at := Some now, inv_written_off_by := Some user,
              inv_write_off_reason := Some (trim reason), inv_write_off_amount := Some (inv_balance_due r)\<rparr>) db)"
    by (rule keeps_update_row) (simp add: printed_def)
  with assms show ?thesis
    by (auto simp: write_off_invoice_def Let_def guard_Inr map_sum_def elim!: case_option_InrE split: sum.splits)
qed

lemma keeps_void_invoice:
  assumes "void_invoice db t i user reason ctx now = Inr (db', row)"
  shows "keeps F db db'"
proof -
  have "keeps F db (update_invoice_row t i (\<lambda>r. r\<lparr>inv_status := Void,
      inv_voided_at := Some now, inv_voided_by := Some user, inv_void_reason := x\<rparr>) db)" for x
    by (rule keeps_update_row) (simp add: printed_def)
  with assms show ?thesis
    by (auto simp: void_invoice_def Let_def guard_Inr map_sum_def elim!: case_option_InrE split: sum.splits)
qed

lemma keeps_void_delegated_invoice:
  "keeps F db (fst (void_delegated_invoice db t i provider now))"
  using void_delegated_row [of db t i provider now]
proof
  assume e: "fst (void_delegated_invoice db t i provider now) = audited t (audit_ctx_system t) AUpdate
       ''invoices'' i (update_invoice_row t i
         (\<lambda>r. if inv_external_provider r = Some provider \<and> inv_status r \<noteq> Void
              then r\<lparr>inv_status := Void, inv_voided_at := Some now,
                     inv_void_reason := Some (''Voided in '' @ provider @ '', which issued it'')\<rparr>
              else r) db)"
  show ?thesis
    unfolding e keeps_audited by (rule keeps_update_row) (simp add: printed_def)
qed (simp add: keeps_same)

lemma keeps_insert_invoice:
  assumes "insert_invoice db r = Inr db'" shows "keeps F db db'"
  using assms by (auto simp: insert_invoice_def lines_of_def intro!: keeps_grow split: if_splits)

lemma keeps_next_invoice_number:
  assumes "next_invoice_number draw db t c = Inr (db', s, scheme)" shows "keeps F db db'"
  using next_invoice_number_frame [OF assms] by (intro keeps_same) (simp_all add: lines_of_def)

lemma keeps_apply_tax:
  assumes "apply_tax db t i requested explicit discount = Inr db'" shows "keeps (- {i}) db db'"
  using assms by (rule apply_tax_Inr) (auto simp: inv_key_def intro!: keeps_update_row)

lemma keeps_create_invoice_tx:
  assumes run: "create_invoice_tx draw db t r ctx pre ext new_id now = Inr db'"
  shows "keeps (- {new_id}) db db'"
proof -
  obtain db1 number scheme dt contact currency db2 db3 where
    num: "next_invoice_number draw db t (ci_company r) = Inr (db1, number, scheme)"
    and ins: "insert_invoice db1 (new_invoice t new_id number scheme r dt contact currency ext now) = Inr db2"
    and tax: "apply_tax (write_lines db2 new_id (ci_lines r)) t new_id (ci_tax_rate r)
                 (ci_tax_amount r) (opt_or (ci_discount r) 0) = Inr db3"
    and db': "db' = audited t ctx ACreate ''invoices'' new_id db3"
    using run by (auto simp: create_invoice_tx_def Let_def elim!: and_then_InrE)
  have "keeps (- {new_id}) db2 (write_lines db2 new_id (ci_lines r))"
    by (rule keeps_same) (auto simp: write_lines_def lines_of_def written_line_def filter_map comp_def)
  from keeps_trans [OF keeps_trans [OF keeps_trans
      [OF keeps_next_invoice_number [OF num] keeps_insert_invoice [OF ins]] this] keeps_apply_tax [OF tax]]
  show ?thesis unfolding db' by simp
qed

lemma keeps_raised_draft:
  assumes "raised_draft t i db db'" shows "keeps (- {i}) db db'"
  using assms
proof (rule raised_draftE)
  fix draw company db1 number scheme contact con d dt sub cur db2 db3 ls rate db4
  assume num: "next_invoice_number draw db t company = Inr (db1, number, scheme)"
    and ins: "insert_invoice db1 (raised_invoice t i number scheme company contact con d dt sub cur) = Inr db2"
    and db3: "invoices db3 = invoices db2" "invoice_lines db3 = invoice_lines db2 @ ls" "\<forall>l \<in> set ls. il_invoice l = i"
    and tax: "apply_tax db3 t i rate None 0 = Inr db4"
    and db': "invoices db' = invoices db4" "invoice_lines db' = invoice_lines db4"
  have "keeps (- {i}) db2 db3"
    by (rule keeps_same) (use db3 in \<open>auto simp: lines_of_def filter_empty_conv\<close>)
  moreover have "keeps (- {i}) db4 db'" by (rule keeps_same) (use db' in \<open>simp_all add: lines_of_def\<close>)
  ultimately show ?thesis
    using keeps_next_invoice_number [OF num] keeps_insert_invoice [OF ins] keeps_apply_tax [OF tax]
    by (blast intro: keeps_trans)
qed

lemma keeps_amend_invoice:
  assumes run: "amend_invoice draw db t i today ctx new_id = Inr (db', r)"
  shows "keeps (- {new_id}) db db'"
proof -
  obtain row db1 number scheme due db2 where
    num: "next_invoice_number draw db t (inv_company row) = Inr (db1, number, scheme)"
    and ins: "insert_invoice db1 (amendment_of row new_id number scheme today due) = Inr db2"
    and db': "db' = audited t ctx ACreate ''invoices'' new_id (copy_lines db2 i new_id)"
    using run
    by (auto simp: amend_invoice_def Let_def map_sum_def elim!: case_option_InrE and_then_InrE split: sum.splits)
  have "keeps (- {new_id}) db2 (copy_lines db2 i new_id)"
    by (rule keeps_same) (auto simp: copy_lines_def lines_of_def filter_map comp_def)
  from keeps_trans [OF keeps_trans [OF keeps_next_invoice_number [OF num] keeps_insert_invoice [OF ins]] this]
  show ?thesis unfolding db' by simp
qed

lemma keeps_update_invoice_tx:
  assumes run: "update_invoice_tx env tdb db t i r current ctx now = Inr db'"
  shows "keeps (- {i}) db db' \<and> (\<exists>locked. select_invoice db t i = Some locked \<and> \<not> is_frozen (inv_status locked))"
  using run
proof (rule update_invoice_tx_cases)
  fix locked sent amends db1 contact due snapshot db2 db3 db4 db6
  assume locked: "select_invoice db t i = Some locked" "\<not> is_frozen (inv_status locked)"
    and lines: "replace_lines db t i (ui_lines r) = Inr db1"
    and db2: "db2 = update_invoice_row t i (update_header r current locked contact due snapshot now) db1"
    and db3: "(if ui_lines r \<noteq> None \<or> ui_tax_rate r \<noteq> None \<or> ui_tax_amount r \<noteq> None
      then apply_tax db2 t i (or_else (ui_tax_rate r) (inv_tax_rate_id current))
             (ui_tax_amount r) (opt_or (ui_discount r) (inv_discount current))
      else Inr db2) = Inr db3"
    and db4: "sent \<and> (\<exists>recipient. deliver env db3 t i r ctx recipient = Inr db4) \<or> \<not> sent \<and> db4 = db3"
    and db6: "db6 = audited t ctx AUpdate ''invoices'' i db4
     \<or> db6 = audited t ctx AUpdate ''invoices'' i (audited t ctx AUpdate ''invoices'' i db4)"
    and void: "void_amended env db6 t ctx (inv_number current) amends now = Inr db'"
  have here: "keeps (- {i}) a (update_invoice_row t i f a)" for f a
    by (rule keeps_update_row) (simp add: inv_key_def)
  obtain ls where ls: "db1 = db\<lparr>invoice_lines := ls\<rparr>"
    "filter (\<lambda>l. il_invoice l \<noteq> i) ls = filter (\<lambda>l. il_invoice l \<noteq> i) (invoice_lines db)"
    using replace_lines_Inr [OF lines] by blast
  have "lines_of db1 j = lines_of db j" if "j \<noteq> i" for j
  proof -
    have split: "filter (\<lambda>l. il_invoice l = j) xs = filter (\<lambda>l. il_invoice l = j) (filter (\<lambda>l. il_invoice l \<noteq> i) xs)"
      for xs :: "invoice_line list" using that by (auto intro: filter_cong)
    show ?thesis unfolding lines_of_def ls(1)
      using split [of ls] split [of "invoice_lines db"] ls(2) by simp
  qed
  then have k1: "keeps (- {i}) db db1" by (intro keeps_same) (simp_all add: ls(1))
  have k2: "keeps (- {i}) db db2" unfolding db2 by (rule keeps_trans [OF k1 here])
  have "keeps (- {i}) db2 db3"
    using db3 by (auto simp: keeps_same split: if_splits intro: keeps_apply_tax)
  moreover have "keeps (- {i}) db3 db4"
    using db4
  proof (elim disjE conjE exE)
    fix recipient assume "deliver env db3 t i r ctx recipient = Inr db4"
    then obtain f where "db4 = audited t ctx AUpdate ''invoices'' i (update_invoice_row t i f db3)"
      by (rule deliver_Inr) blast
    then show ?thesis by (simp add: here)
  qed (simp add: keeps_same)
  moreover have "keeps (- {i}) db4 db6" using db6 by (auto simp: keeps_same)
  moreover have "keeps (- {i}) db6 db'"
    using void_amended_Inr [OF void]
    by (cases amends) (auto simp: keeps_same printed_def intro!: keeps_update_row)
  ultimately show ?thesis using k2 keeps_trans locked by blast
qed

text \<open>No step touches what is printed on an invoice that has been issued.\<close>

lemma bill_step_keeps_issued:
  assumes "bill_step t db db'" and ok: "ledger_ok db" and r: "r \<in> set (invoices db)" "is_frozen (inv_status r)"
  obtains F where "inv_id r \<in> F" "keeps F db db'"
  using assms(1)
proof (cases rule: bill_step.cases)
  case (pay new_id r ctx now p)
  then show thesis using that [of UNIV] keeps_create_payment by blast
next
  case (unpay pid ctx now)
  then show thesis using that [of UNIV] keeps_delete_payment by blast
next
  case (gateway new_id provider i reference amount now success)
  then show thesis using that [of UNIV] keeps_record_gateway_payment by blast
next
  case (refunds provider reference rs now)
  then show thesis using that [of UNIV] keeps_record_gateway_refunds by blast
next
  case (credit new_id cenv cr today ctx pre now c)
  then show thesis using that [of UNIV] keeps_credit_note_tx by blast
next
  case (uncredit cenv i ctx now)
  then show thesis using that [of UNIV] keeps_void_credit_note by blast
next
  case (write_off i user reason ctx now row)
  then show thesis using that [of UNIV] keeps_write_off_invoice by blast
next
  case (void i user reason' ctx now row)
  then show thesis using that [of UNIV] keeps_void_invoice by blast
next
  case (provider_void i provider now)
  then show thesis using that [of UNIV] keeps_void_delegated_invoice by simp
next
  case (create new_id draw cir ctx pre' ext now)
  with r have "inv_id r \<in> - {new_id}" by auto
  then show thesis using that [of "- {new_id}"] keeps_create_invoice_tx [OF create(2)] by simp
next
  case (amend new_id draw i today ctx row)
  with r have "inv_id r \<in> - {new_id}" by auto
  then show thesis using that [of "- {new_id}"] keeps_amend_invoice [OF amend(2)] by simp
next
  case (bill_time new_id X draw tdb today tir ctx tdb' row)
  with r have "inv_id r \<in> - {new_id}" by auto
  then show thesis using that [of "- {new_id}"] keeps_raised_draft [OF raised_from_time_entries [OF bill_time(2)]] by simp
next
  case (bill_contract new_id collate draw xs con company period today ctx now xs' made)
  with r have "inv_id r \<in> - {new_id}" by auto
  then show thesis
    using that [of "- {new_id}"] bill_contract_made [OF bill_contract(2)] keeps_raised_draft keeps_same [of db db] by blast
next
  case (update current env tdb i uir ctx now)
  show thesis
  proof (cases "db' = db \<or> keeps UNIV db db'")
    case True
    then have "keeps UNIV db db'" using keeps_same [of db db UNIV] by auto
    with that [of UNIV] show thesis by simp
  next
    case False
    have tx: "update_invoice_tx env tdb db t i uir current ctx now = Inr db'"
    proof (cases "update_invoice_tx env tdb db t i uir current ctx now")
      case (Inl e)
      then show ?thesis
        using update False keeps_same [of db db UNIV]
        by (cases e) (simp add: update_invoice_from_def split: if_splits)
    next
      case (Inr db1)
      then show ?thesis using update False by (simp add: update_invoice_from_def split: if_splits)
    qed
    from conjunct2 [OF keeps_update_invoice_tx [OF tx]] obtain locked where
      locked: "select_invoice db t i = Some locked" "\<not> is_frozen (inv_status locked)" by blast
    have "inv_id r \<noteq> i"
    proof
      assume "inv_id r = i"
      then have "r = locked"
        using r locked(1) ok
        by (auto simp: select_invoice_iff [OF ok] inv_key_def ledger_ok_def money_ok_def distinct_map inj_on_def)
      with r locked show False by simp
    qed
    with that [of "- {i}"] conjunct1 [OF keeps_update_invoice_tx [OF tx]] show thesis by simp
  qed
qed

section \<open>Tenants\<close>

text \<open>The rows of the money tables that belong to other tenants.\<close>

definition others :: "tenant \<Rightarrow> bill_db
    \<Rightarrow> invoice list \<times> payment list \<times> payment_refund list \<times> credit_note list" where
  "others t db =
     (filter (\<lambda>r. inv_tenant r \<noteq> t) (invoices db), filter (\<lambda>p. pay_tenant p \<noteq> t) (payments db),
      filter (\<lambda>r. rf_tenant r \<noteq> t) (payment_refunds db), filter (\<lambda>c. cn_tenant c \<noteq> t) (credit_notes db))"

lemma filter_update_where_out:
  "(\<And>r. p r \<Longrightarrow> \<not> q r \<and> \<not> q (f r)) \<Longrightarrow> filter q (update_where p f rs) = filter q rs"
  by (induction rs) (auto simp: table_simps)

lemma filter_delete_where_out:
  "(\<And>r. r \<in> set rs \<Longrightarrow> d r \<Longrightarrow> \<not> q r) \<Longrightarrow> filter q (delete_where d rs) = filter q rs"
  by (induction rs) (auto simp: table_simps)

lemma others_cong:
  "invoices db' = invoices db \<Longrightarrow> same_money db db' \<Longrightarrow> others t db' = others t db"
  by (simp add: others_def same_money_def)

lemma others_audited [simp]: "others t (audited t' ctx a e i db) = others t db"
  by (rule others_cong) simp_all

lemma others_update_row:
  "(\<And>r. inv_tenant (f r) = inv_tenant r) \<Longrightarrow> others t (update_invoice_row t i f db) = others t db"
  by (simp add: others_def) (rule filter_update_where_out, simp add: inv_key_def)

lemma others_recompute [simp]: "others t (recompute_invoice_balance db t i now) = others t db"
  unfolding recompute_invoice_balance_def by (rule others_update_row) simp

lemma others_add_payment: "pay_tenant p = t \<Longrightarrow> others t (add_payment p db) = others t db"
  by (simp add: others_def)

lemma others_add_credit: "cn_tenant c = t \<Longrightarrow> others t (add_credit c db) = others t db"
  by (simp add: others_def)

lemma others_drop_payment:
  assumes m: "money_ok db" and p: "p \<in> set (payments db)" "pay_id p = pid" "pay_tenant p = t"
  shows "others t (drop_payment t pid db) = others t db"
proof -
  have "rf_tenant r = t" if "r \<in> set (payment_refunds db)" "rf_payment r = pid" for r
    using refund_payment [OF m that(1)] pay_id_unique [OF m p(1)] p that(2) by metis
  then have "filter (\<lambda>r. rf_tenant r \<noteq> t) (delete_where (\<lambda>r. rf_payment r = pid) (payment_refunds db))
      = filter (\<lambda>r. rf_tenant r \<noteq> t) (payment_refunds db)"
    by (intro filter_delete_where_out) simp
  moreover have "filter (\<lambda>q. pay_tenant q \<noteq> t)
      (delete_where (\<lambda>q. pay_id q = pid \<and> pay_tenant q = t) (payments db))
      = filter (\<lambda>q. pay_tenant q \<noteq> t) (payments db)"
    by (rule filter_delete_where_out) simp
  ultimately show ?thesis by (simp add: others_def)
qed

lemma others_void_credit: "others t (void_credit t i u now db) = others t db"
  by (simp add: others_def void_credit_def) (rule filter_update_where_out, simp add: cn_key_def)

lemma others_delete_payment:
  assumes m: "money_ok db" and run: "delete_payment db t pid ctx now = Inr db'"
  shows "others t db' = others t db"
proof -
  obtain p where sel: "select_one (\<lambda>p. pay_id p = pid \<and> pay_tenant p = t) (payments db) = Some p"
    using run by (auto simp: delete_payment_def elim: case_option_InrE)
  then have "others t (drop_payment t pid db) = others t db"
    using others_drop_payment [OF m] by (auto dest: select_one_SomeD)
  with run sel show ?thesis
    by (auto simp: delete_payment_def drop_payment_def Let_def split: option.splits)
qed

lemma others_record_gateway_refunds:
  assumes "record_gateway_refunds db t provider reference refunds now = Inr db'"
  shows "others t db' = others t db"
proof -
  have "others t (db\<lparr>payment_refunds := rs\<rparr>) = others t db"
    if "insert_refunds now t provider pid i refunds (payment_refunds db) = Inr rs" for pid i rs
    using insert_refunds_append [OF that] by (auto simp: others_def)
  with assms show ?thesis
    by (auto simp: record_gateway_refunds_def Let_def split: option.splits elim!: and_then_InrE)
qed

lemma others_insert_invoice:
  "insert_invoice db r = Inr db' \<Longrightarrow> inv_tenant r = t \<Longrightarrow> others t db' = others t db"
  by (auto simp: insert_invoice_def others_def split: if_splits)

lemma others_apply_tax:
  "apply_tax db t i requested explicit discount = Inr db' \<Longrightarrow> others t db' = others t db"
  by (erule apply_tax_Inr) (simp add: others_update_row tax_update_def)

lemma others_next_invoice_number:
  "next_invoice_number draw db t c = Inr (db', s, scheme) \<Longrightarrow> others t' db' = others t' db"
  using next_invoice_number_frame by (intro others_cong) blast+

lemma others_raised_draft:
  assumes "raised_draft t i db db'" shows "others t db' = others t db"
  using assms
proof (rule raised_draftE)
  fix draw company db1 number scheme contact con d dt sub cur db2 db3 ls rate db4
  assume num: "next_invoice_number draw db t company = Inr (db1, number, scheme)"
    and ins: "insert_invoice db1 (raised_invoice t i number scheme company contact con d dt sub cur) = Inr db2"
    and db3: "invoices db3 = invoices db2" "same_money db2 db3"
    and tax: "apply_tax db3 t i rate None 0 = Inr db4"
    and db': "invoices db' = invoices db4" "same_money db4 db'"
  have "others t db3 = others t db2" "others t db' = others t db4"
    by (rule others_cong; use db3 db' in simp)+
  with others_next_invoice_number [OF num, of t] others_insert_invoice [OF ins, of t] others_apply_tax [OF tax]
  show ?thesis by simp
qed

lemma others_update_invoice_tx:
  assumes "update_invoice_tx env tdb db t i r current ctx now = Inr db'"
  shows "others t db' = others t db"
  using assms
proof (rule update_invoice_tx_cases)
  fix locked sent amends db1 contact due snapshot db2 db3 db4 db6
  assume lines: "replace_lines db t i (ui_lines r) = Inr db1"
    and db2: "db2 = update_invoice_row t i (update_header r current locked contact due snapshot now) db1"
    and db3: "(if ui_lines r \<noteq> None \<or> ui_tax_rate r \<noteq> None \<or> ui_tax_amount r \<noteq> None
      then apply_tax db2 t i (or_else (ui_tax_rate r) (inv_tax_rate_id current))
             (ui_tax_amount r) (opt_or (ui_discount r) (inv_discount current))
      else Inr db2) = Inr db3"
    and db4: "sent \<and> (\<exists>recipient. deliver env db3 t i r ctx recipient = Inr db4) \<or> \<not> sent \<and> db4 = db3"
    and db6: "db6 = audited t ctx AUpdate ''invoices'' i db4
     \<or> db6 = audited t ctx AUpdate ''invoices'' i (audited t ctx AUpdate ''invoices'' i db4)"
    and void: "void_amended env db6 t ctx (inv_number current) amends now = Inr db'"
  have "others t db1 = others t db" using replace_lines_Inr [OF lines] by (intro others_cong) blast+
  moreover have "others t db2 = others t db1"
    unfolding db2 by (rule others_update_row) (simp add: update_header_def Let_def)
  moreover have "others t db3 = others t db2"
    using db3 by (auto split: if_splits dest: others_apply_tax)
  moreover have "others t db4 = others t db3"
    using db4
  proof (elim disjE conjE exE)
    fix recipient assume "deliver env db3 t i r ctx recipient = Inr db4"
    then obtain f where f: "db4 = audited t ctx AUpdate ''invoices'' i (update_invoice_row t i f db3)"
      "\<And>x. \<exists>a b. f x = x\<lparr>inv_emailed_to := a, inv_delivery := b\<rparr>" by (rule deliver_Inr) blast
    have "inv_tenant (f x) = inv_tenant x" for x using f(2) [of x] by auto
    then show ?thesis unfolding f(1) others_audited by (rule others_update_row)
  qed simp
  moreover have "others t db6 = others t db4" using db6 by auto
  moreover have "others t db' = others t db6"
    using void_amended_Inr [OF void] by (cases amends) (simp_all add: others_update_row)
  ultimately show ?thesis by simp
qed

lemma others_bill_step:
  assumes "bill_step t db db'" and ok: "ledger_ok db"
  shows "others t db' = others t db"
  using assms(1)
proof (cases rule: bill_step.cases)
  case (pay new_id r ctx now p)
  from pay(2) show ?thesis
    by (rule create_payment_cases) (simp add: others_add_payment split: option.split)
next
  case (unpay pid ctx now)
  then show ?thesis using others_delete_payment ok by (simp add: ledger_ok_def)
next
  case (gateway new_id provider i reference amount now success)
  from gateway(2) show ?thesis
    by (rule record_gateway_payment_cases) (simp_all add: others_add_payment)
next
  case (refunds provider reference rs now)
  then show ?thesis by (rule others_record_gateway_refunds)
next
  case (credit new_id cenv cr today ctx pre now c)
  have "others t ((add_credit c db)\<lparr>credit_note_sequences := sqs, credit_note_lines := ls\<rparr>)
      = others t (add_credit c db)" for sqs ls
    by (rule others_cong) (simp_all add: same_money_def)
  with credit(2) show ?thesis
    by (elim credit_note_tx_cases) (simp add: others_add_credit)
next
  case (uncredit cenv i ctx now)
  then show ?thesis by (elim void_credit_note_cases) (simp add: others_void_credit)
next
  case (write_off i user reason ctx now row)
  then show ?thesis
    by (auto simp: write_off_invoice_def Let_def guard_Inr map_sum_def others_update_row
        elim!: case_option_InrE split: sum.splits)
next
  case (void i user reason' ctx now row)
  then show ?thesis
    by (auto simp: void_invoice_def Let_def guard_Inr map_sum_def others_update_row
        elim!: case_option_InrE split: sum.splits)
next
  case (provider_void i provider now)
  then show ?thesis
    using void_delegated_row [of db t i provider now] by (auto simp: others_update_row)
next
  case (create new_id draw cir ctx pre' ext now)
  have "others t (write_lines a new_id ls) = others t a" for a ls
    by (rule others_cong) (simp_all add: write_lines_frame)
  with create(2) show ?thesis
    by (auto simp: create_invoice_tx_def Let_def new_invoice_def elim!: and_then_InrE
        dest!: others_next_invoice_number others_apply_tax others_insert_invoice [where t = t])
next
  case (update current env tdb i uir ctx now)
  then show ?thesis
    by (auto simp: update_invoice_from_def split: sum.splits dest: others_update_invoice_tx)
next
  case (amend new_id draw i today ctx row)
  have copy: "others t (copy_lines a i j) = others t a" for a j
    by (rule others_cong) (simp_all add: copy_lines_def same_money_def)
  obtain orig db1 number scheme due db2 where
    orig: "select_invoice db t i = Some orig"
    and num: "next_invoice_number draw db t (inv_company orig) = Inr (db1, number, scheme)"
    and ins: "insert_invoice db1 (amendment_of orig new_id number scheme today due) = Inr db2"
    and db': "db' = audited t ctx ACreate ''invoices'' new_id (copy_lines db2 i new_id)"
    using amend(2)
    by (auto simp: amend_invoice_def Let_def map_sum_def elim!: case_option_InrE and_then_InrE split: sum.splits)
  have "inv_tenant (amendment_of orig new_id number scheme today due) = t"
    using orig by (auto simp: amendment_of_def select_invoice_def inv_key_def dest: select_one_SomeD)
  from others_insert_invoice [OF ins this] others_next_invoice_number [OF num] copy show ?thesis
    unfolding db' by simp
next
  case (bill_time new_id X draw tdb today tir ctx tdb' row)
  then show ?thesis by (intro others_raised_draft raised_from_time_entries)
next
  case (bill_contract new_id collate draw xs con company period today ctx now xs' made)
  then show ?thesis using bill_contract_made [OF bill_contract(2)] others_raised_draft by blast
qed

end
