(* ===== verification/Billing_Guarantees.thy ===== *)
theory Billing_Guarantees
  imports Billing_Steps
begin

text \<open>
  What billing promises, stated over the operations themselves: the three invariants of every
  sequence of steps, the behaviour of payments, gateway deliveries, refunds and credit notes, the
  terminal states, and the sending of an amendment. The last section records behaviour that the
  comments of the source do not intend.
\<close>

section \<open>A sample ledger\<close>

definition sample_invoice :: invoice where
  "sample_invoice = \<lparr> inv_id = 100, inv_tenant = 7, inv_number = ''INV-000040'', inv_company = 3,
     inv_billing_contact = Some 12, inv_contract = None, inv_status = PartiallyPaid,
     inv_invoice_date = 20500, inv_due_date = 20530, inv_payment_term = None, inv_subtotal = 120,
     inv_tax_amount = 0, inv_tax_rate_id = None, inv_tax_rate = None, inv_discount = 0, inv_total = 120,
     inv_amount_paid = 20, inv_amount_credited = 0, inv_balance_due = 100, inv_currency = Some ''USD'',
     inv_sent_at = Some 1771200000, inv_issuer_snapshot = Some ''MSP'', inv_emailed_to = None,
     inv_delivery = None, inv_paid_at = None, inv_written_off_at = None, inv_written_off_by = None,
     inv_write_off_reason = None, inv_write_off_amount = None, inv_voided_at = None,
     inv_voided_by = None, inv_void_reason = None, inv_external_provider = None,
     inv_external_id = None, inv_amends = None, inv_number_scheme = TenantSequence \<rparr>"

definition sample_draft :: invoice where
  "sample_draft = sample_invoice\<lparr>inv_id := 101, inv_number := ''INV-000041'', inv_status := Draft,
     inv_subtotal := 80, inv_total := 80, inv_amount_paid := 0, inv_balance_due := 80,
     inv_sent_at := None, inv_issuer_snapshot := None\<rparr>"

definition sample_line :: "uuid \<Rightarrow> decimal \<Rightarrow> invoice_line" where
  "sample_line i x = \<lparr> il_invoice = i, il_type = LService, il_description = ''Work'', il_quantity = 1,
     il_unit_price = x, il_total = x, il_time_entries = [], il_ticket = None, il_project = None,
     il_product = None, il_taxable = False, il_sort_order = 0 \<rparr>"

definition sample_payment :: payment where
  "sample_payment = \<lparr> pay_id = 50, pay_tenant = 7, pay_invoice = Some 100, pay_company = 3, pay_date = 20510,
     pay_amount = 20, pay_method = Wire, pay_reference = None, pay_gateway_tx = Some ''pi_1'', pay_created_at = 1772064000 \<rparr>"

definition sample_foreign :: invoice where
  "sample_foreign = sample_invoice\<lparr>inv_id := 200, inv_tenant := 8, inv_status := Sent,
     inv_amount_paid := 0, inv_balance_due := 120\<rparr>"

definition sample_bill :: bill_db where
  "sample_bill = (sample_numbers None)\<lparr>
     invoices := [sample_invoice, sample_draft, sample_foreign],
     invoice_lines := [sample_line 100 100, sample_line 100 20, sample_line 101 80],
     payments := [sample_payment],
     contacts_tbl := [\<lparr> ct_id = 12, ct_tenant = 7, ct_company = Some 3, ct_email = Some ''ap@client.example'' \<rparr>]\<rparr>"

definition sample_user :: audit_ctx where
  "sample_user = \<lparr> ctx_tenant = Some 7, ctx_user = Some 5, ctx_ip = None, ctx_user_agent = None \<rparr>"

definition sample_pay :: "decimal \<Rightarrow> create_payment_request" where
  "sample_pay x = \<lparr> cpr_invoice = Some 100, cpr_company = 3, cpr_date = 20520, cpr_amount = x,
     cpr_method = Wire, cpr_reference = None, cpr_gateway_tx = None \<rparr>"

lemma sample_bill_ok: "ledger_ok sample_bill"
  by code_simp

section \<open>Every sequence of operations\<close>


lemma committed_run: "is_ok r \<Longrightarrow> \<exists>x. r = Inr (committed s r, x)"
  by (cases r) auto

lemma pay_step:
  assumes "new_id \<notin> set (map pay_id (payments db))" "is_ok (create_payment db t r ctx new_id now)"
  shows "bill_any db (committed db (create_payment db t r ctx new_id now))"
  using committed_run [OF assms(2), of db] assms(1) bill_step.pay unfolding bill_any_def by blast

definition sample_paid :: bill_db where
  "sample_paid = committed sample_bill (create_payment sample_bill 7 (sample_pay 60) sample_user 51 1771300000)"

lemma sample_paid_step: "rtranclp bill_any sample_bill sample_paid"
  unfolding sample_paid_def by (rule r_into_rtranclp, rule pay_step) code_simp+


text \<open>
  C3. An issued invoice is immutable: once an invoice is sent (or in any later state), no sequence
  of billing transactions changes a printed column of it, its number and lines included, or turns it
  back into a draft; only its payment state and its void or write-off marks move.
\<close>

theorem issued_invoice_is_immutable:
  assumes "rtranclp bill_any db db'" and "ledger_ok db" and "r \<in> set (invoices db)"
    and "is_frozen (inv_status r)"
  shows "(\<exists>r' \<in> set (invoices db'). printed r' = printed r \<and> is_frozen (inv_status r'))
    \<and> lines_of db' (inv_id r) = lines_of db (inv_id r)"
  using assms(1)
proof (induction rule: rtranclp_induct)
  case base
  then show ?case using assms(3,4) by blast
next
  case (step db1 db2)
  then obtain r1 where r1: "r1 \<in> set (invoices db1)" "printed r1 = printed r" "is_frozen (inv_status r1)" by blast
  have ok1: "ledger_ok db1" using ledger_bill_steps step.hyps(1) assms(2) .
  obtain t where "bill_step t db1 db2" using step.hyps(2) by (auto simp: bill_any_def)
  then obtain F where F: "inv_id r1 \<in> F" "keeps F db1 db2"
    by (rule bill_step_keeps_issued [OF _ ok1 r1(1,3)])
  from keepsD [OF F(2) r1(1) F(1)] obtain r2 where
    "r2 \<in> set (invoices db2)" "printed r2 = printed r1" "is_frozen (inv_status r2)" using r1(3) by blast
  moreover have "lines_of db2 (inv_id r) = lines_of db1 (inv_id r)"
    using F printed_id [OF r1(2)] by (simp add: keeps_def)
  ultimately show ?case using r1(2) step.IH by auto
qed

theorem issued_invoice_is_immutable_witness:
  "rtranclp bill_any sample_bill sample_paid \<and> sample_invoice \<in> set (invoices sample_bill)
   \<and> is_frozen (inv_status sample_invoice)
   \<and> (\<exists>r' \<in> set (invoices sample_paid). printed r' = printed sample_invoice \<and> is_frozen (inv_status r'))"
proof -
  have "sample_invoice \<in> set (invoices sample_bill)" "is_frozen (inv_status sample_invoice)"
    by (simp_all add: sample_bill_def sample_invoice_def)
  with issued_invoice_is_immutable [OF sample_paid_step sample_bill_ok this] sample_paid_step
  show ?thesis by blast
qed


lemma sample_paid_run:
  obtains p where "create_payment sample_bill 7 (sample_pay 60) sample_user 51 1771300000
    = Inr (sample_paid, p)"
proof -
  have "is_ok (create_payment sample_bill 7 (sample_pay 60) sample_user 51 1771300000)" by code_simp
  from committed_run [OF this] show thesis using that unfolding sample_paid_def by blast
qed

lemma sample_paid_bill_step: "bill_step 7 sample_bill sample_paid"
proof -
  obtain p where run: "create_payment sample_bill 7 (sample_pay 60) sample_user 51 1771300000
    = Inr (sample_paid, p)" by (rule sample_paid_run)
  have "51 \<notin> set (map pay_id (payments sample_bill))" by code_simp
  from bill_step.pay [OF this run] show ?thesis .
qed


section \<open>Payments\<close>

lemma select_after_recompute:
  assumes "select_invoice db t i = Some row"
  shows "select_invoice (recompute_invoice_balance db t i now) t i
    = Some (rebalance now (paid_sum db t i) (credited_sum db t i) row)"
  using assms select_one_SomeD [of "inv_key t i" "invoices db" row]
  by (simp add: select_invoice_def recompute_invoice_balance_def update_invoice_row_def
      select_one_update_where inv_key_def)

lemma select_invoice_audited [simp]: "select_invoice (audited t' ctx a e j db) t i = select_invoice db t i"
  by (simp add: select_invoice_def)

lemma select_invoice_add_payment [simp]: "select_invoice (add_payment p db) t i = select_invoice db t i"
  by (simp add: select_invoice_def)

text \<open>
  C28. A payment moves exactly its amount and never overpays: recording one against an invoice adds
  the rounded amount to what is paid and takes it off the balance, the balance stays at or above
  zero, and an invoice that is neither written off nor void comes out paid when nothing is left and
  partially paid otherwise.
\<close>

theorem create_payment_effect:
  assumes "ledger_ok db" and "cpr_invoice r = Some i" and "select_invoice db t i = Some row"
    and "0 \<le> inv_amount_paid row"
    and "create_payment db t r ctx new_id now = Inr (db', p)"
  shows "\<exists>row'. select_invoice db' t i = Some row'
    \<and> inv_amount_paid row' = inv_amount_paid row + num2 (cpr_amount r)
    \<and> inv_balance_due row' = inv_total row - inv_amount_paid row' - inv_amount_credited row
    \<and> 0 \<le> inv_balance_due row' \<and> 0 < num2 (cpr_amount r)
    \<and> (inv_written_off_at row = None \<and> inv_voided_at row = None \<longrightarrow>
         inv_status row' = (if inv_balance_due row' = 0 then Paid else PartiallyPaid))"
proof -
  obtain p' where p': "pay_tenant p' = t" "pay_invoice p' = Some i" "pay_amount p' = num2 (cpr_amount r)"
    "0 < pay_amount p'" and chk: "check_payment_target db t r = Inr ()"
    and db': "db' = audited t ctx ACreate ''payments'' new_id
       (recompute_invoice_balance (add_payment p' db) t i now)"
    using assms(2) by (auto intro: create_payment_cases [OF assms(5)])
  obtain row0 where row0: "select_invoice db t i = Some row0" "inv_status row0 \<notin> {Draft, Pending}"
    "cpr_amount r \<le> inv_total row0 - inv_amount_paid row0 - inv_amount_credited row0"
    using check_payment_target_Some [OF chk assms(2)] by blast
  have row: "inv_status row \<notin> {Draft, Pending}"
    "cpr_amount r \<le> inv_total row - inv_amount_paid row - inv_amount_credited row"
    using row0 assms(3) by simp_all
  have rk: "row_ok db row" and key: "inv_tenant row = t" "inv_id row = i"
    using ledger_row [OF assms(1,3)] assms(3) by (auto simp: select_invoice_iff [OF assms(1)] inv_key_def)
  have m: "money_ok db" using assms(1) by (simp add: ledger_ok_def)
  have sums: "paid_sum (add_payment p' db) t i = inv_amount_paid row + num2 (cpr_amount r)"
    "credited_sum (add_payment p' db) t i = inv_amount_credited row"
    using p' rk key by (simp_all add: paid_sum_add_payment row_ok_def)
  have n: "is_num2 (inv_total row)" "is_num2 (inv_amount_paid row)" "is_num2 (inv_amount_credited row)"
    using rk key paid_sum_num2 [OF m] credited_sum_num2 [OF m] by (simp_all add: row_ok_def row_base_ok_def)
  then have le: "num2 (cpr_amount r) \<le> inv_total row - inv_amount_paid row - inv_amount_credited row"
    by (intro num2_le [OF row(2)] is_num2_diff)
  have np: "is_num2 (inv_amount_paid row + num2 (cpr_amount r))" using n by (intro is_num2_add) simp_all
  have nb: "is_num2 (inv_total row - (inv_amount_paid row + num2 (cpr_amount r)) - inv_amount_credited row)"
    by (intro is_num2_diff n np)
  let ?row = "rebalance now (inv_amount_paid row + num2 (cpr_amount r)) (inv_amount_credited row) row"
  have sel: "select_invoice db' t i = Some ?row"
    using select_after_recompute [of "add_payment p' db" t i row now] assms(3) by (simp add: db' sums del: credited_sum_add_payment)
  have cols: "inv_amount_paid ?row = inv_amount_paid row + num2 (cpr_amount r)"
    "inv_balance_due ?row = inv_total row - (inv_amount_paid row + num2 (cpr_amount r)) - inv_amount_credited row"
    using np nb by (simp_all add: rebalance_def num2_id)
  have st: "inv_status ?row = (if inv_balance_due ?row = 0 then Paid else PartiallyPaid)"
    if "inv_written_off_at row = None \<and> inv_voided_at row = None"
    unfolding cols(2) using that row(1) p' le assms(4) by (simp add: rebalance_def derived_status_def)
  show ?thesis
    by (rule exI [of _ ?row]) (use sel cols st le p' in simp)
qed

theorem create_payment_effect_witness:
  "map_option inv_balance_due (select_invoice sample_bill 7 100) = Some 100
   \<and> (\<exists>row'. select_invoice sample_paid 7 100 = Some row' \<and> 0 \<le> inv_balance_due row'
        \<and> inv_amount_paid row' = 20 + num2 60)"
proof -
  have s: "select_invoice sample_bill 7 100 = Some sample_invoice" by code_simp
  obtain p where run: "create_payment sample_bill 7 (sample_pay 60) sample_user 51 1771300000
      = Inr (sample_paid, p)" by (rule sample_paid_run)
  have "cpr_invoice (sample_pay 60) = Some 100" "0 \<le> inv_amount_paid sample_invoice"
    by (simp_all add: sample_pay_def sample_invoice_def)
  from create_payment_effect [OF sample_bill_ok this(1) s this(2) run] s show ?thesis
    by (auto simp: sample_pay_def sample_invoice_def)
qed

end
