(* ===== verification/Payment_Guarantees.thy ===== *)
theory Payment_Guarantees
  imports Billing_Guarantees
begin

text \<open>
  Money that arrives twice or is taken back: the redelivery of a gateway's notification, the
  repetition of a refund report, the deletion of a payment and the voiding of a credit note. Each
  statement is about the operations of \<open>Billing_Ledger\<close> and \<open>Credit_Notes\<close>; the balance they
  leave is the one \<open>recompute_invoice_balance\<close> derives, which is idempotent.
\<close>

section \<open>The recompute\<close>

lemma map_sum_InrE:
  assumes "map_sum f g r = Inr y" obtains x where "r = Inr x" "g x = y"
  using assms by (cases r) auto

lemma derived_status_rebalance [simp]:
  "derived_status (rebalance now p c r) p' c' = derived_status r p' c'"
  by (auto simp: derived_status_def rebalance_def)

lemma rebalance_fields [simp]:
  "inv_status (rebalance now p c r) = derived_status r p c"
  "inv_amount_paid (rebalance now p c r) = num2 p"
  "inv_amount_credited (rebalance now p c r) = num2 c"
  "inv_balance_due (rebalance now p c r) = num2 (inv_total r - p - c)"
  by (simp_all add: rebalance_def)

lemma rebalance_rebalance: "rebalance now' p c (rebalance now p c r) = rebalance now p c r"
proof -
  have "inv_paid_at (rebalance now' p c (rebalance now p c r)) = inv_paid_at (rebalance now p c r)"
    by (auto simp: rebalance_def split: option.splits)
  moreover have "inv_status (rebalance now' p c (rebalance now p c r)) = inv_status (rebalance now p c r)"
    by simp
  ultimately show ?thesis by (cases r) (simp add: rebalance_def)
qed

lemma update_invoice_row_update_invoice_row:
  assumes "keeps_key f" and "\<And>r. g (f r) = f r"
  shows "update_invoice_row t i g (update_invoice_row t i f db) = update_invoice_row t i f db"
  using assms
  by (simp add: update_invoice_row_def update_where_def inv_key_def keeps_key_def comp_def cong: map_cong)

lemma recompute_idem:
  "recompute_invoice_balance (recompute_invoice_balance db t i now) t i now'
   = recompute_invoice_balance db t i now"
  unfolding recompute_invoice_balance_def [of "recompute_invoice_balance db t i now"]
  unfolding recompute_invoice_balance_def
  by (simp add: paid_sum_def credited_sum_def update_invoice_row_update_invoice_row rebalance_rebalance)

section \<open>Gateway deliveries\<close>

text \<open>
  C29. A gateway's notification is recorded once: when a delivery records a payment, its reference
  is on file from then on, and every redelivery of the notification while it is on file, however
  the ledger has moved in between, reports that nothing was recorded and leaves the ledger as it is.
\<close>

theorem gateway_delivery_recorded_once:
  assumes "record_gateway_payment db t provider i reference amount new_id now = Inr (db1, True)"
  shows "gateway_tx_taken db1 t (Some reference)
    \<and> (gateway_tx_taken db2 t (Some reference) \<longrightarrow>
         record_gateway_payment db2 t provider i reference amount id2 now2 = Inr (db2, False))"
  using assms
proof (cases rule: record_gateway_payment_cases)
  case (2 row p')
  have "gateway_tx_taken db1 t (Some reference)"
    unfolding 2(12) using 2 by (simp add: gateway_tx_taken_def recompute_invoice_balance_def)
  moreover have "\<not> num2 amount \<le> 0" using 2 by simp
  ultimately show ?thesis by (simp add: record_gateway_payment_def split: option.splits)
qed simp

definition sample_gateway :: "(bill_db \<times> bool) app_result" where
  "sample_gateway = record_gateway_payment sample_bill 7 ''stripe'' 100 ''pi_2'' 30 52 1771300000"

theorem gateway_delivery_recorded_once_witness:
  "\<exists>db1. record_gateway_payment sample_bill 7 ''stripe'' 100 ''pi_2'' 30 52 1771300000 = Inr (db1, True)
     \<and> gateway_tx_taken db1 7 (Some ''pi_2'')
     \<and> record_gateway_payment db1 7 ''stripe'' 100 ''pi_2'' 30 53 1771300060 = Inr (db1, False)"
proof -
  have "map_sum id snd sample_gateway = Inr True" by code_simp
  then obtain db1 where "record_gateway_payment sample_bill 7 ''stripe'' 100 ''pi_2'' 30 52 1771300000 = Inr (db1, True)"
    unfolding sample_gateway_def by (rule map_sum_snd_InrE) blast
  with gateway_delivery_recorded_once [OF this, of db1] show ?thesis by blast
qed

section \<open>Refunds\<close>

lemma insert_refunds_known:
  assumes "\<forall>l \<in> fst ` set ls. 0 < num2 (rl_amount l)
    \<and> list_ex (\<lambda>r. rf_tenant r = t \<and> rf_reference r = rl_reference l) rs"
  shows "insert_refunds now t provider pid i ls rs = Inr rs"
  using assms by (induction ls) auto

lemma insert_refunds_knows:
  assumes "insert_refunds now t provider pid i ls rs = Inr rs'"
  shows "set rs \<subseteq> set rs' \<and> (\<forall>l \<in> fst ` set ls. 0 < num2 (rl_amount l)
    \<and> list_ex (\<lambda>r. rf_tenant r = t \<and> rf_reference r = rl_reference l) rs')"
  using assms
proof (induction now t provider pid i ls rs rule: insert_refunds.induct)
  case (2 now t provider pid i l new_id ls rs)
  show ?case
  proof (cases "list_ex (\<lambda>r. rf_tenant r = t \<and> rf_reference r = rl_reference l) rs")
    case True
    with 2 show ?thesis by (auto simp: list_ex_iff split: if_splits)
  next
    case False
    then have "set rs \<subseteq> set rs'" and "0 < num2 (rl_amount l)"
      and "\<exists>r \<in> set rs'. rf_tenant r = t \<and> rf_reference r = rl_reference l"
      and "\<forall>k \<in> fst ` set ls. 0 < num2 (rl_amount k)
        \<and> list_ex (\<lambda>r. rf_tenant r = t \<and> rf_reference r = rl_reference k) rs'"
      using 2 by (force split: if_splits)+
    then show ?thesis by (auto simp: list_ex_iff)
  qed
qed simp

text \<open>
  A refund report is applied once: repeating a gateway's report of the refunds of a payment,
  under whatever fresh identifiers and at whatever time, succeeds and leaves the whole database as
  the first one left it.
\<close>

theorem gateway_refunds_applied_once:
  assumes "record_gateway_refunds db t provider reference refunds now = Inr db1"
    and "map fst again = map fst refunds"
  shows "record_gateway_refunds db1 t provider reference again now2 = Inr db1"
proof (cases "select_one (\<lambda>p. pay_tenant p = t \<and> pay_gateway_tx p = Some reference) (payments db)")
  case None
  with assms show ?thesis by (simp add: record_gateway_refunds_def)
next
  case (Some p)
  with assms(1) obtain rs where
    rs: "insert_refunds now t provider (pay_id p) (pay_invoice p) refunds (payment_refunds db) = Inr rs"
    and db1: "db1 = (case pay_invoice p of None \<Rightarrow> db\<lparr>payment_refunds := rs\<rparr>
                 | Some i \<Rightarrow> recompute_invoice_balance (db\<lparr>payment_refunds := rs\<rparr>) t i now)"
    by (auto simp: record_gateway_refunds_def Let_def elim!: and_then_InrE)
  have keep: "payments db1 = payments db" "payment_refunds db1 = rs"
    by (simp_all add: db1 recompute_invoice_balance_def split: option.splits)
  have "fst ` set again = fst ` set refunds" using arg_cong [OF assms(2), of set] by simp
  then have "insert_refunds now2 t provider (pay_id p) (pay_invoice p) again rs = Inr rs"
    using insert_refunds_knows [OF rs] by (intro insert_refunds_known) simp
  with Some keep have "record_gateway_refunds db1 t provider reference again now2
      = Inr (case pay_invoice p of None \<Rightarrow> db1\<lparr>payment_refunds := rs\<rparr>
             | Some i \<Rightarrow> recompute_invoice_balance (db1\<lparr>payment_refunds := rs\<rparr>) t i now2)"
    by (simp add: record_gateway_refunds_def Let_def)
  also have "db1\<lparr>payment_refunds := rs\<rparr> = db1" using keep(2) by (cases db1) simp
  also have "(case pay_invoice p of None \<Rightarrow> db1 | Some i \<Rightarrow> recompute_invoice_balance db1 t i now2) = db1"
    by (simp add: db1 recompute_idem split: option.splits)
  finally show ?thesis .
qed

definition sample_refunds :: "bill_db app_result" where
  "sample_refunds = record_gateway_refunds sample_bill 7 ''stripe'' ''pi_1''
     [(\<lparr> rl_amount = 5, rl_reference = ''re_1'' \<rparr>, 60)] 1771300000"

theorem gateway_refunds_applied_once_witness:
  "\<exists>db1. sample_refunds = Inr db1 \<and> map rf_amount (payment_refunds db1) = [5]
     \<and> record_gateway_refunds db1 7 ''stripe'' ''pi_1''
         [(\<lparr> rl_amount = 5, rl_reference = ''re_1'' \<rparr>, 61)] 1771300060 = Inr db1"
proof -
  have "map_sum (\<lambda>_. ()) (\<lambda>db. map rf_amount (payment_refunds db)) sample_refunds = Inr [5]" by code_simp
  then obtain db1 where db1: "sample_refunds = Inr db1" "map rf_amount (payment_refunds db1) = [5]"
    by (rule map_sum_InrE)
  from gateway_refunds_applied_once [OF db1(1) [unfolded sample_refunds_def],
      of "[(\<lparr> rl_amount = 5, rl_reference = ''re_1'' \<rparr>, 61)]" 1771300060] db1
  show ?thesis by auto
qed

section \<open>Taking money back\<close>

text \<open>The same document, owing the same; the status too when it was the derived one.\<close>

definition same_standing :: "invoice \<Rightarrow> invoice \<Rightarrow> bool" where
  "same_standing row row' \<longleftrightarrow>
     printed row' = printed row \<and> inv_amount_paid row' = inv_amount_paid row
     \<and> inv_amount_credited row' = inv_amount_credited row
     \<and> (inv_status row \<noteq> Void \<longrightarrow> inv_balance_due row' = inv_balance_due row)
     \<and> (inv_status row = derived_status row (inv_amount_paid row) (inv_amount_credited row)
          \<longrightarrow> inv_status row' = inv_status row)"

lemma same_standing_refl [simp]: "same_standing row row"
  by (simp add: same_standing_def)

lemma same_standing_rebalance:
  assumes "ledger_ok db" and "r \<in> set (invoices db)"
    and "p = paid_sum db (inv_tenant r) (inv_id r)" and "c = credited_sum db (inv_tenant r) (inv_id r)"
  shows "same_standing r (rebalance now' p c (rebalance now p' c' r))"
proof -
  have m: "money_ok db" and "row_ok db r" using assms by (auto simp: ledger_ok_def)
  then have row: "inv_amount_paid r = p" "inv_amount_credited r = c" "is_num2 (inv_total r)"
    "inv_status r \<noteq> Void \<Longrightarrow> inv_balance_due r = inv_total r - p - c"
    using assms by (auto simp: row_ok_def row_base_ok_def)
  have "is_num2 p" "is_num2 c" using assms paid_sum_num2 [OF m] credited_sum_num2 [OF m] by simp_all
  with row is_num2_diff show ?thesis by (simp add: same_standing_def printed_rebalance)
qed

lemma select_recompute:
  "select_invoice (recompute_invoice_balance db t i now) t' j =
   map_option (\<lambda>r. if inv_key t i r then rebalance now (paid_sum db t i) (credited_sum db t i) r else r)
     (select_invoice db t' j)"
  unfolding recompute_invoice_balance_def select_invoice_def update_row_simps
  by (rule select_one_update_where) (simp add: inv_key_def)

text \<open>A change to the money of one invoice and its reversal, each followed by the recompute.\<close>

lemma standing_restored:
  assumes ok: "ledger_ok db" and "invoices db1 = invoices db"
    and "invoices db2 = invoices (recompute_invoice_balance db1 t i now1)"
    and "paid_sum db2 t i = paid_sum db t i" "credited_sum db2 t i = credited_sum db t i"
    and row: "select_invoice db t' j = Some row"
  shows "\<exists>row'. select_invoice (recompute_invoice_balance db2 t i now2) t' j = Some row'
    \<and> same_standing row row'"
proof -
  let ?g = "rebalance now1 (paid_sum db1 t i) (credited_sum db1 t i)"
  have mem: "row \<in> set (invoices db)" using row by (simp add: select_invoice_iff [OF ok])
  have "select_invoice db2 t' j = Some (if inv_key t i row then ?g row else row)"
    using select_recompute [of db1 t i now1 t' j] assms(2,3) row by (simp add: select_invoice_def)
  then have "select_invoice (recompute_invoice_balance db2 t i now2) t' j =
     Some (if inv_key t i row
           then rebalance now2 (paid_sum db t i) (credited_sum db t i) (?g row) else row)"
    using assms(4,5) by (simp add: select_recompute inv_key_def)
  with same_standing_rebalance [OF ok mem refl refl, of now2 now1 "paid_sum db1 t i" "credited_sum db1 t i"]
  show ?thesis by (auto simp: inv_key_def)
qed



text \<open>
  Voiding a credit note undoes issuing it: after a credit note is issued and voided, with no
  step between, every invoice stands as it did before, and the credit note is kept as a void
  document that counts for nothing.
\<close>

theorem void_credit_note_undoes_create:
  assumes "ledger_ok db" and "new_id \<notin> set (map cn_id (credit_notes db))"
    and "credit_note_tx env db t r today ctx pre new_id now = Inr (db1, c)"
    and "void_credit_note env' db1 t new_id ctx' now' = Inr db2"
  shows "map cn_id (credit_notes db2) = map cn_id (credit_notes db) @ [new_id]
    \<and> credited_sum db2 = credited_sum db
    \<and> (select_invoice db t' j = Some row \<longrightarrow>
         (\<exists>row'. select_invoice db2 t' j = Some row' \<and> same_standing row row'))"
proof -
  obtain sqs where c: "cn_id c = new_id" "cn_tenant c = t" "cn_invoice c = cc_invoice r"
    and db1: "db1 = audited t ctx ACreate ''credit_notes'' new_id
       (recompute_invoice_balance
         ((add_credit c db)\<lparr>credit_note_sequences := sqs,
            credit_note_lines := credit_note_lines db @ map (written_credit_line new_id) (cc_lines r)\<rparr>)
         t (cc_invoice r) now)"
    using credit_note_tx_cases [OF assms(3)] by metis
  have cns: "credit_notes db1 = credit_notes db @ [c]" "payments db1 = payments db"
    "payment_refunds db1 = payment_refunds db"
    by (simp_all add: db1 recompute_invoice_balance_def)
  obtain c' where c': "c' \<in> set (credit_notes db1)" "cn_key t new_id c'"
    and db2: "db2 = audited t ctx' AUpdate ''credit_notes'' new_id
       (recompute_invoice_balance (void_credit t new_id (ctx_user ctx') now' db1) t (cn_invoice c') now')"
    by (rule void_credit_note_cases [OF assms(4)])
  have "c' = c" using c' assms(2) by (auto simp: cns cn_key_def)
  let ?v = "void_credit t new_id (ctx_user ctx') now' db1"
  have new: "\<not> cn_key t new_id x" if "x \<in> set (credit_notes db)" for x
    using assms(2) that by (auto simp: cn_key_def)
  have "cn_key t new_id c" using c by (simp add: cn_key_def)
  then have "credited_sum ?v t1 j1 = credited_sum db t1 j1" for t1 j1
    unfolding credited_sum_void_credit cns unfolding credited_sum_def
    using new by (simp, intro sum_where_cong) auto
  then have sums: "credited_sum ?v = credited_sum db" by (simp add: fun_eq_iff)
  have paid: "paid_sum ?v = paid_sum db" by (simp add: fun_eq_iff paid_sum_def cns)
  let ?a = "(add_credit c db)\<lparr>credit_note_sequences := sqs,
            credit_note_lines := credit_note_lines db @ map (written_credit_line new_id) (cc_lines r)\<rparr>"
  have i: "invoices ?a = invoices db" "invoices ?v = invoices (recompute_invoice_balance ?a t (cc_invoice r) now)"
    by (simp_all add: db1)
  have "\<exists>row'. select_invoice db2 t' j = Some row' \<and> same_standing row row'"
    if row: "select_invoice db t' j = Some row"
    using standing_restored [OF assms(1) i fun_cong [OF fun_cong [OF paid]] fun_cong [OF fun_cong [OF sums]] row,
        where ?now2.0 = now'] c \<open>c' = c\<close>
    by (simp add: db2)
  moreover have "map cn_id (credit_notes db2) = map cn_id (credit_notes db) @ [new_id]"
    using c by (simp add: db2 recompute_invoice_balance_def void_credit_def map_update_where cns)
  moreover have "credited_sum db2 = credited_sum ?v"
    by (simp add: db2 fun_eq_iff credited_sum_def recompute_invoice_balance_def)
  ultimately show ?thesis using sums by simp
qed

definition sample_credit_env :: credit_env where
  "sample_credit_env = \<lparr> ce_delegation = False, ce_issue = Inr [], ce_void = Inr (), ce_document = Inr () \<rparr>"

definition sample_credit :: create_credit_note_request where
  "sample_credit = \<lparr> cc_invoice = 100, cc_issue_date = None, cc_reason = ''Goodwill'', cc_tax_amount = None,
     cc_currency = None,
     cc_lines = [\<lparr> cq_description = ''Goodwill'', cq_quantity = 1, cq_unit_price = 15, cq_sort_order = 0 \<rparr>] \<rparr>"

definition sample_credited :: "(bill_db \<times> credit_note) app_result" where
  "sample_credited = credit_note_tx sample_credit_env sample_bill 7 sample_credit 20520 sample_user
     (''USD'', None) 70 1771300000"

theorem void_credit_note_undoes_create_witness:
  "\<exists>db1 db2. map_sum id fst sample_credited = Inr db1
     \<and> map_option inv_balance_due (select_invoice db1 7 100) = Some 85
     \<and> void_credit_note sample_credit_env db1 7 70 sample_user 1771300060 = Inr db2
     \<and> credited_sum db2 = credited_sum sample_bill
     \<and> (\<exists>row'. select_invoice db2 7 100 = Some row' \<and> same_standing sample_invoice row')"
proof -
  have "map_sum id (\<lambda>(db1, _). (map_option inv_balance_due (select_invoice db1 7 100),
      is_ok (void_credit_note sample_credit_env db1 7 70 sample_user 1771300060))) sample_credited
      = Inr (Some 85, True)" by code_simp
  then obtain x where x: "sample_credited = Inr x" "(case x of (db1, _) \<Rightarrow>
      (map_option inv_balance_due (select_invoice db1 7 100),
       is_ok (void_credit_note sample_credit_env db1 7 70 sample_user 1771300060))) = (Some 85, True)"
    by (rule map_sum_InrE)
  obtain db1 c where "x = (db1, c)" by (cases x)
  with x have run: "sample_credited = Inr (db1, c)" "map_option inv_balance_due (select_invoice db1 7 100) = Some 85"
    "is_ok (void_credit_note sample_credit_env db1 7 70 sample_user 1771300060)" by simp_all
  from run(3) obtain db2 where v: "void_credit_note sample_credit_env db1 7 70 sample_user 1771300060 = Inr db2"
    by (auto simp: is_ok_def split: sum.splits)
  have fresh: "70 \<notin> set (map cn_id (credit_notes sample_bill))" by code_simp
  have s: "select_invoice sample_bill 7 100 = Some sample_invoice" by code_simp
  have m: "map_sum id fst sample_credited = Inr db1" by (simp add: run(1))
  from void_credit_note_undoes_create [OF sample_bill_ok fresh run(1) [unfolded sample_credited_def] v, of 7 100 sample_invoice]
    run(2) v s m show ?thesis by blast
qed

end
