(* ===== verification/Sending_Guarantees.thy ===== *)
theory Sending_Guarantees
  imports Payment_Guarantees
begin

text \<open>
  Creating, editing and sending an invoice, of \<open>Invoicing\<close>: where the figures of a new invoice come
  from, what a refused edit leaves behind, and how the sending of an amendment replaces the invoice
  it amends. The last section shows two behaviours of \<open>update_invoice\<close> the comments of the source
  rule out.
\<close>

section \<open>Rows under an update\<close>

lemma select_update_row:
  assumes "keeps_key f"
  shows "select_invoice (update_invoice_row t i f db) t' j =
    map_option (\<lambda>r. if inv_key t i r then f r else r) (select_invoice db t' j)"
  unfolding select_invoice_def update_row_simps
  by (rule select_one_update_where) (use assms in \<open>simp add: inv_key_def keeps_key_def\<close>)

lemma select_invoice_key: "select_invoice db t j = Some r \<Longrightarrow> inv_key t j r"
  by (simp add: select_invoice_def select_one_SomeD)

lemma select_update_other:
  assumes "keeps_key f" and "j \<noteq> i"
  shows "select_invoice (update_invoice_row t i f db) t' j = select_invoice db t' j"
  unfolding select_update_row [OF assms(1)]
  using assms(2) by (cases "select_invoice db t' j") (auto dest: select_invoice_key simp: inv_key_def)

lemma select_update_this:
  assumes "keeps_key f" and "select_invoice db t i = Some r"
  shows "select_invoice (update_invoice_row t i f db) t i = Some (f r)"
  unfolding select_update_row [OF assms(1)] using assms(2) select_invoice_key [OF assms(2)] by simp

text \<open>The mark \<open>void_amended\<close> leaves on the invoice that is replaced.\<close>

definition replaced_by :: "string \<Rightarrow> uuid option \<Rightarrow> instant \<Rightarrow> invoice \<Rightarrow> invoice" where
  "replaced_by number user now x = x\<lparr>inv_status := Void, inv_voided_at := Some now, inv_voided_by := user,
     inv_void_reason := Some (''Replaced by invoice '' @ number), inv_balance_due := 0\<rparr>"

lemma keeps_key_replaced_by [simp]: "keeps_key (replaced_by number user now)"
  by (simp add: keeps_key_def replaced_by_def)

lemma keeps_key_header [simp]:
  "keeps_key (update_header r current locked contact due snapshot now)"
  "keeps_key (tax_update s tax d)"
  by (simp_all add: keeps_key_def update_header_def tax_update_def Let_def)

text \<open>What a committed edit does to the row of the draft and to every other row of the tenant.\<close>

lemma update_invoice_tx_rows:
  assumes "update_invoice_tx env tdb db t i r current ctx now = Inr db'"
    and "sent = just_sent r current (inv_status locked)" and "select_invoice db t i = Some locked"
    and "inv_amends current \<noteq> Some i"
  shows "(\<exists>row. select_invoice db' t i = Some row \<and> inv_status row = opt_or (ui_status r) (inv_status locked))
    \<and> (sent \<longrightarrow> check_amended db t (inv_amends current) = Inr ())
    \<and> (j \<noteq> i \<longrightarrow> select_invoice db' t j = (if sent \<and> inv_amends current = Some j
         then map_option (replaced_by (inv_number current) (ctx_user ctx) now) (select_invoice db t j)
         else select_invoice db t j))"
  using assms(1)
proof (rule update_invoice_tx_cases)
  fix locked' sent' amends db1 contact due snapshot db2 db3 db4 db6
  assume lock: "select_invoice db t i = Some locked'"
    and sent: "sent' = just_sent r current (inv_status locked')"
    and am: "amends = (if sent' then inv_amends current else None)"
    and lines: "replace_lines db t i (ui_lines r) = Inr db1"
    and chk: "check_amended db1 t amends = Inr ()"
    and db2: "db2 = update_invoice_row t i (update_header r current locked' contact due snapshot now) db1"
    and db3: "(if ui_lines r \<noteq> None \<or> ui_tax_rate r \<noteq> None \<or> ui_tax_amount r \<noteq> None
      then apply_tax db2 t i (or_else (ui_tax_rate r) (inv_tax_rate_id current))
             (ui_tax_amount r) (opt_or (ui_discount r) (inv_discount current))
      else Inr db2) = Inr db3"
    and db4: "sent' \<and> (\<exists>recipient. deliver env db3 t i r ctx recipient = Inr db4) \<or> \<not> sent' \<and> db4 = db3"
    and db6: "db6 = audited t ctx AUpdate ''invoices'' i db4
     \<or> db6 = audited t ctx AUpdate ''invoices'' i (audited t ctx AUpdate ''invoices'' i db4)"
    and void: "void_amended env db6 t ctx (inv_number current) amends now = Inr db'"
  have s: "locked' = locked" "sent' = sent" using lock sent assms(2,3) by simp_all
  have sel1: "select_invoice db1 = select_invoice db"
    using replace_lines_Inr [OF lines] by (simp add: select_invoice_def fun_eq_iff)
  let ?st = "opt_or (ui_status r) (inv_status locked)"
  have two: "(\<exists>row. select_invoice db2 t i = Some row \<and> inv_status row = ?st)
      \<and> (j \<noteq> i \<longrightarrow> select_invoice db2 t j = select_invoice db t j)" for j
    using lock s by (simp add: db2 select_update_this select_update_other sel1 update_header_def Let_def)
  have three: "(\<exists>row. select_invoice db3 t i = Some row \<and> inv_status row = ?st)
      \<and> (j \<noteq> i \<longrightarrow> select_invoice db3 t j = select_invoice db t j)" for j
  proof (cases "db3 = db2")
    case False
    then have "apply_tax db2 t i (or_else (ui_tax_rate r) (inv_tax_rate_id current))
             (ui_tax_amount r) (opt_or (ui_discount r) (inv_discount current)) = Inr db3"
      using db3 by (auto split: if_splits)
    then obtain a b c where "db3 = update_invoice_row t i (tax_update a b c) db2" by (rule apply_tax_Inr) blast
    with two [of j] show ?thesis by (auto simp: select_update_this select_update_other tax_update_def)
  qed (use two in simp)
  have four: "(\<exists>row. select_invoice db4 t i = Some row \<and> inv_status row = ?st)
      \<and> (j \<noteq> i \<longrightarrow> select_invoice db4 t j = select_invoice db t j)" for j
    using db4
  proof (elim disjE conjE exE)
    fix recipient assume "deliver env db3 t i r ctx recipient = Inr db4"
    then obtain f where f: "db4 = audited t ctx AUpdate ''invoices'' i (update_invoice_row t i f db3)"
      "\<And>x. \<exists>a b. f x = x\<lparr>inv_emailed_to := a, inv_delivery := b\<rparr>" by (rule deliver_Inr) blast
    have fx: "inv_id (f x) = inv_id x" "inv_tenant (f x) = inv_tenant x" "inv_status (f x) = inv_status x" for x
      using f(2) [of x] by auto
    then have "keeps_key f" by (simp add: keeps_key_def)
    with three [of j] fx show ?thesis by (auto simp: f(1) select_update_this select_update_other)
  qed (use three in simp)
  have six: "select_invoice db6 = select_invoice db4" using db6 by (auto simp: fun_eq_iff)
  let ?v = "replaced_by (inv_number current) (ctx_user ctx) now"
  show ?thesis
  proof (cases amends)
    case None
    with void_amended_Inr [OF void] six four [of j] am s show ?thesis by (auto simp: check_amended_def)
  next
    case (Some k)
    then have k: "k \<noteq> i" "inv_amends current = Some k" sent using am s assms(4) by (auto split: if_splits)
    have db': "db' = audited t ctx AUpdate ''invoices'' k (update_invoice_row t k ?v db6)"
      using void_amended_Inr [OF void] Some by (simp add: replaced_by_def [abs_def])
    have "select_invoice db' t i = select_invoice db4 t i"
      using k by (simp add: db' select_update_other six)
    moreover have "select_invoice db' t j = (if j = k then map_option ?v (select_invoice db t j) else select_invoice db t j)"
      if "j \<noteq> i"
    proof (cases "j = k")
      case True
      have "select_invoice db6 t k = select_invoice db t k" using four [of k] k six by simp
      then show ?thesis unfolding db' select_invoice_audited select_update_row [OF keeps_key_replaced_by]
        using True by (cases "select_invoice db t k") (auto dest: select_invoice_key)
    qed (use that four [of j] in \<open>simp add: db' select_update_other six\<close>)
    moreover have "check_amended db t (Some k) = Inr ()"
      using chk Some by (simp add: check_amended_def sel1)
    ultimately show ?thesis using four [of j] k by auto
  qed
qed

lemma and_then_InlE:
  assumes "and_then r k = Inl e"
  obtains "r = Inl e" | x where "r = Inr x" "k x = Inl e"
  using assms by (cases r) auto

lemma plain_not_refused [simp]: "plain r \<noteq> Inl (e, True)"
  by (cases r) (simp_all add: plain_def)

lemma deliver_refused:
  assumes "deliver env db t i r ctx recipient = Inl (e, True)"
  shows "env_mail env = Inl e"
  using assms
  by (cases "env_mail env") (auto simp: deliver_def elim!: and_then_InlE split: option.splits prod.splits)

lemma update_invoice_tx_refused:
  assumes "update_invoice_tx env tdb db t i r current ctx now = Inl (e, True)"
  shows "env_mail env = Inl e"
  using assms
  by (auto simp: update_invoice_tx_def void_amended_def Let_def elim!: and_then_InlE
      dest: deliver_refused split: option.splits if_splits)

lemma update_invoice_cases:
  assumes "update_invoice env tdb db t i r ctx now = (db', res)"
  obtains e where "db' = db" "res = Inl e"
  | current e refused where "select_invoice db t i = Some current"
      "update_invoice_tx env tdb db t i r current ctx now = Inl (e, refused)" "res = Inl e"
      "db' = (if refused then audited t ctx AUpdate ''invoices'' i db else db)"
  | current where "select_invoice db t i = Some current" "\<not> is_frozen (inv_status current)"
      "update_invoice_tx env tdb db t i r current ctx now = Inr db'" "res = load_invoice db' t i"
proof (cases "\<exists>e. db' = db \<and> res = Inl e")
  case True
  with that(1) show thesis by blast
next
  case False
  then obtain current where cur: "select_invoice db t i = Some current" "\<not> is_frozen (inv_status current)"
    using assms by (auto simp: update_invoice_def load_invoice_def update_invoice_from_def
        split: sum.splits option.splits if_splits)
  show thesis
  proof (cases "update_invoice_tx env tdb db t i r current ctx now")
    case (Inl x)
    with assms cur False that(2) [OF cur(1), of "fst x" "snd x"] show thesis
      by (cases x) (auto simp: update_invoice_def load_invoice_def update_invoice_from_def split: sum.splits)
  next
    case (Inr db1)
    with assms cur False that(3) [OF cur] show thesis
      by (auto simp: update_invoice_def load_invoice_def update_invoice_from_def split: sum.splits)
  qed
qed

section \<open>Editing and sending\<close>


definition sample_change :: update_invoice_request where
  "sample_change = \<lparr> ui_company = None, ui_billing_contact = None, ui_contract = None, ui_invoice_date = None,
     ui_due_date = None, ui_payment_term = None, ui_tax_amount = None, ui_tax_rate = None, ui_discount = None,
     ui_lines = None, ui_status = None, ui_delivery = None, ui_legacy_skip_email = None \<rparr>"

definition sample_env :: "unit app_result \<Rightarrow> invoice_env" where
  "sample_env mail = \<lparr> env_delegation = False, env_issue = Inr None, env_issuer = Inr ''MSP'', env_document = Inr (),
     env_portal_grant = Inr (), env_mail_budget = None, env_mail = mail, env_void_in_provider = Inr () \<rparr>"

definition sample_time :: time_db where
  "sample_time = \<lparr> contracts = [], contract_items = [], hour_balances = [], time_entries = [], work_types = [],
     companies = [], tickets = [], users = [], own_companies = [], rounding_rules = [], tenant_settings = [],
     active_timers = [], audit_log = [] \<rparr>"

definition sample_send :: update_invoice_request where
  "sample_send = sample_change\<lparr>ui_status := Some Sent\<rparr>"


text \<open>
  Sending an amendment replaces the original, and both happen or neither: when the send
  commits, the amendment is sent, and the original, which was sent, unpaid and uncredited up to
  that moment, is void, owes nothing, names the number that replaced it and prints as it did.
\<close>

theorem sending_an_amendment_voids_the_original:
  assumes "update_invoice env tdb db t i r ctx now = (db', Inr row)"
    and "select_invoice db t i = Some draft" and "inv_amends draft = Some j" and "j \<noteq> i"
    and "just_sent r draft (inv_status draft)"
  shows "inv_status row = Sent \<and> select_invoice db' t i = Some row
    \<and> (\<exists>orig orig'. select_invoice db t j = Some orig \<and> replaceable orig
        \<and> select_invoice db' t j = Some orig' \<and> inv_status orig' = Void \<and> inv_balance_due orig' = 0
        \<and> inv_void_reason orig' = Some (''Replaced by invoice '' @ inv_number draft)
        \<and> printed orig' = printed orig)"
  using assms(1)
proof (cases rule: update_invoice_cases)
  case (3 current)
  then have cur: "current = draft" using assms(2) by simp
  have am: "inv_amends draft \<noteq> Some i" using assms(3,4) by simp
  note rows = update_invoice_tx_rows [OF 3(3) [unfolded cur] refl assms(2) am, of j]
  have "select_invoice db' t i = Some row" using 3(4) by (auto simp: load_invoice_def split: option.splits)
  moreover have "inv_status row = Sent" using rows calculation assms(5) by (simp add: just_sent_def)
  moreover obtain orig where "select_invoice db t j = Some orig" "replaceable orig"
    using rows assms(3,5) by (auto simp: check_amended_def split: option.splits if_splits)
  moreover have "printed (replaced_by n u k x) = printed x" for n u k x
    by (simp add: printed_def replaced_by_def)
  ultimately show ?thesis using rows assms(3,4,5) by (simp add: replaced_by_def)
qed simp_all

definition sample_amending :: bill_db where
  "sample_amending = sample_bill\<lparr>
     invoices := [sample_invoice\<lparr>inv_status := Sent, inv_amount_paid := 0, inv_balance_due := 120\<rparr>,
                  sample_draft\<lparr>inv_amends := Some 100\<rparr>],
     payments := []\<rparr>"

theorem sending_an_amendment_voids_the_original_witness:
  "\<exists>db' row orig'. update_invoice (sample_env (Inr ())) sample_time sample_amending 7 101 sample_send
       sample_user 1771300000 = (db', Inr row)
     \<and> inv_status row = Sent \<and> select_invoice db' 7 100 = Some orig' \<and> inv_status orig' = Void
     \<and> inv_void_reason orig' = Some ''Replaced by invoice INV-000041''"
proof -
  let ?u = "update_invoice (sample_env (Inr ())) sample_time sample_amending 7 101 sample_send
       sample_user 1771300000"
  let ?d = "sample_draft\<lparr>inv_amends := Some 100\<rparr>"
  have "is_ok (snd ?u)" by code_simp
  then obtain row where u: "?u = (fst ?u, Inr row)" by (cases "snd ?u") (auto simp: prod_eq_iff)
  have s: "select_invoice sample_amending 7 101 = Some ?d" by code_simp
  have d: "inv_amends ?d = Some 100" "(100 :: uuid) \<noteq> 101" "just_sent sample_send ?d (inv_status ?d)"
    "inv_number ?d = ''INV-000041''"
    by (simp_all add: just_sent_def sample_send_def sample_draft_def)
  from sending_an_amendment_voids_the_original [OF u s d(1,2,3)] u show ?thesis unfolding d(4) by auto
qed

section \<open>Where the figures come from\<close>

lemma lines_total_write_lines:
  assumes "\<forall>l \<in> set (invoice_lines db). il_invoice l \<noteq> i"
  shows "lines_total (write_lines db i ls) i = sum_list (map (\<lambda>l. num2 (lr_quantity l * lr_unit_price l)) ls)"
proof -
  have "sum_where (\<lambda>l. il_invoice l = i) il_total (invoice_lines db) = 0" using assms by (intro sum_where_none) blast
  moreover have "sum_where (\<lambda>l. il_invoice l = i) il_total (map (written_line x i) ls)
      = sum_list (map (\<lambda>l. num2 (lr_quantity l * lr_unit_price l)) ls)" for x
    by (induction ls) (simp_all add: written_line_def)
  ultimately show ?thesis by (simp add: lines_total_def write_lines_def)
qed

lemma is_num2_sum_num2: "is_num2 (sum_list (map (\<lambda>x. num2 (f x)) xs))"
  by (induction xs) auto

lemma new_invoice_money:
  "inv_amount_paid (new_invoice t i n sch r dt contact cur ext now) = 0"
  "inv_amount_credited (new_invoice t i n sch r dt contact cur ext now) = 0"
  "inv_status (new_invoice t i n sch r dt contact cur ext now) = (if ext = None then Draft else Sent)"
  by (simp_all add: new_invoice_def Let_def)

lemma create_invoice_tx_cases:
  assumes "create_invoice_tx draw db t r ctx pre ext new_id now = Inr db'"
  obtains db1 number scheme dt contact currency db2 db3 where
    "next_invoice_number draw db t (ci_company r) = Inr (db1, number, scheme)"
    "insert_invoice db1 (new_invoice t new_id number scheme r dt contact currency ext now) = Inr db2"
    "apply_tax (write_lines db2 new_id (ci_lines r)) t new_id (ci_tax_rate r)
                 (ci_tax_amount r) (opt_or (ci_discount r) 0) = Inr db3"
    "db' = audited t ctx ACreate ''invoices'' new_id db3"
  using assms by (auto simp: create_invoice_tx_def Let_def elim!: and_then_InrE)

text \<open>
  The figures of a new invoice come from its lines: the subtotal is the sum of the line totals
  as they are stored, the tax is the amount that was asked for or else the rate applied to the
  taxable lines, the total is the subtotal plus the tax less the discount, all of it is owed, and
  an invoice issued by the accounting provider is created sent, any other as a draft.
\<close>

theorem created_invoice_totals:
  assumes "create_invoice_tx draw db t r ctx pre ext new_id now = Inr db'"
    and "new_id \<notin> set (map inv_id (invoices db))"
    and "\<forall>l \<in> set (invoice_lines db). il_invoice l \<noteq> new_id"
  shows "\<exists>row. select_invoice db' t new_id = Some row
    \<and> inv_subtotal row = lines_total db' new_id
    \<and> inv_subtotal row = sum_list (map (\<lambda>l. num2 (lr_quantity l * lr_unit_price l)) (ci_lines r))
    \<and> inv_tax_amount row = (case ci_tax_amount r of Some a \<Rightarrow> num2 a
        | None \<Rightarrow> num2 (taxable_total db' new_id * opt_or (inv_tax_rate row) 0 / 100))
    \<and> (is_num2 (opt_or (ci_discount r) 0) \<and> is_num2 (opt_or (ci_tax_amount r) 0) \<longrightarrow>
         inv_total row = inv_subtotal row + inv_tax_amount row - opt_or (ci_discount r) 0)
    \<and> inv_balance_due row = inv_total row \<and> inv_amount_paid row = 0
    \<and> inv_status row = (if ext = None then Draft else Sent)"
  using assms(1)
proof (rule create_invoice_tx_cases)
  fix db1 number scheme dt contact currency db2 db3
  assume num: "next_invoice_number draw db t (ci_company r) = Inr (db1, number, scheme)"
    and ins: "insert_invoice db1 (new_invoice t new_id number scheme r dt contact currency ext now) = Inr db2"
    and tax: "apply_tax (write_lines db2 new_id (ci_lines r)) t new_id (ci_tax_rate r)
                 (ci_tax_amount r) (opt_or (ci_discount r) 0) = Inr db3"
    and db': "db' = audited t ctx ACreate ''invoices'' new_id db3"
  let ?w = "write_lines db2 new_id (ci_lines r)"
  let ?n = "new_invoice t new_id number scheme r dt contact currency ext now"
  note f = next_invoice_number_frame [OF num]
  have db2: "db2 = db1\<lparr>invoices := invoices db1 @ [?n]\<rparr>"
    using ins by (simp add: insert_invoice_def split: if_splits)
  have "select_one (inv_key t new_id) (invoices db1) = None"
    using assms(2) f by (auto simp: select_one_None inv_key_def)
  then have sel: "select_invoice ?w t new_id = Some ?n"
    by (simp add: select_invoice_def write_lines_frame db2 table_simps inv_key_def) (simp add: new_invoice_def Let_def)
  from tax obtain rate where db3: "db3 = update_invoice_row t new_id (tax_update (lines_total ?w new_id)
      (tax_of (taxable_total ?w new_id) (ci_tax_amount r) rate) (opt_or (ci_discount r) 0)) ?w"
    by (rule apply_tax_Inr)
  have tot: "lines_total db' new_id = lines_total ?w new_id" "taxable_total db' new_id = taxable_total ?w new_id"
    by (simp_all add: db' db3 lines_total_def taxable_total_def)
  have lt: "lines_total ?w new_id = sum_list (map (\<lambda>l. num2 (lr_quantity l * lr_unit_price l)) (ci_lines r))"
    by (rule lines_total_write_lines) (use assms(3) f in \<open>simp add: db2\<close>)
  have n2: "is_num2 (lines_total ?w new_id)" unfolding lt by (rule is_num2_sum_num2)
  have row: "select_invoice db' t new_id = Some (tax_update (lines_total ?w new_id)
      (tax_of (taxable_total ?w new_id) (ci_tax_amount r) rate) (opt_or (ci_discount r) 0) ?n)"
    unfolding db' db3 select_invoice_audited by (rule select_update_this [OF _ sel]) simp
  show ?thesis
    unfolding row option.inject
    using n2 by (intro exI conjI refl)
      (auto simp: tax_update_def tot lt [symmetric] new_invoice_money tax_of_def split: option.splits
        intro!: num2_id is_num2_add is_num2_diff)
qed

definition sample_create :: create_invoice_request where
  "sample_create = \<lparr> ci_company = 3, ci_billing_contact = None, ci_for_contract = None, ci_invoice_date = 20520,
     ci_due_date = Some 20550, ci_payment_term = None, ci_tax_amount = Some 4, ci_tax_rate = None,
     ci_discount = Some 2, ci_currency = Some ''USD'',
     ci_lines = [\<lparr> lr_type = LService, lr_product = None, lr_taxable = True, lr_description = ''Visit'',
       lr_quantity = 3 / 2, lr_unit_price = 50, lr_ticket = None, lr_project = None, lr_sort_order = 0 \<rparr>] \<rparr>"

theorem created_invoice_totals_witness:
  "\<exists>db' row. create_invoice_tx (\<lambda>_ _. 0) sample_bill 7 sample_create sample_user None None 102 1771300000 = Inr db'
     \<and> select_invoice db' 7 102 = Some row \<and> inv_subtotal row = lines_total db' 102
     \<and> inv_total row = inv_subtotal row + 4 - 2 \<and> inv_status row = Draft"
proof -
  let ?c = "create_invoice_tx (\<lambda>_ _. 0) sample_bill 7 sample_create sample_user None None 102 1771300000"
  have "is_ok ?c" by code_simp
  then obtain db' where c: "?c = Inr db'" by (auto simp: is_ok_def split: sum.splits)
  have "102 \<notin> set (map inv_id (invoices sample_bill))" by code_simp
  moreover have "\<forall>l \<in> set (invoice_lines sample_bill). il_invoice l \<noteq> 102" by code_simp
  moreover have "is_num2 (opt_or (ci_discount sample_create) 0) \<and> is_num2 (opt_or (ci_tax_amount sample_create) 0)"
    by code_simp
  moreover have "opt_or (ci_discount sample_create) 0 = 2" "ci_tax_amount sample_create = Some 4"
    "is_num2 (4 :: decimal)" by code_simp+
  ultimately show ?thesis using created_invoice_totals [OF c] c by auto
qed

section \<open>Behaviour the comments rule out\<close>

text \<open>
  A draft can be marked as paid by an edit: the request may name any status but void and
  written off, so setting \<open>paid\<close> on a draft succeeds with no payment recorded, without the invoice
  being sent, and freezes the invoice although the recompute is meant to be the only writer of that
  status.
\<close>

theorem draft_can_be_marked_paid:
  assumes "select_invoice db t i = Some draft" and "\<not> is_frozen (inv_status draft)"
  shows "\<exists>db' row. update_invoice env tdb db t i (sample_change\<lparr>ui_status := Some Paid\<rparr>) ctx now = (db', Inr row)
    \<and> inv_status row = Paid \<and> inv_amount_paid row = inv_amount_paid draft \<and> inv_sent_at row = inv_sent_at draft
    \<and> payments db' = payments db"
proof -
  let ?r = "sample_change\<lparr>ui_status := Some Paid\<rparr>"
  let ?h = "update_header ?r draft draft None None None now"
  have r: "check_update_request ?r = Inr ()" "company_change ?r draft = None"
    "just_sent ?r draft (inv_status draft) = False"
    by (simp_all add: check_update_request_def delivery_choice_def company_change_def just_sent_def sample_change_def)
  have "update_invoice_tx env tdb db t i ?r draft ctx now
      = Inr (audited t ctx AUpdate ''invoices'' i (update_invoice_row t i ?h db))"
    using assms r
    by (simp add: update_invoice_tx_def Let_def replace_lines_def check_opt_def check_amended_def choose_recipient_def
        updated_due_date_def void_amended_def plain_def)
       (simp add: sample_change_def or_else_def)
  moreover have "select_invoice (audited t ctx AUpdate ''invoices'' i (update_invoice_row t i ?h db)) t i = Some (?h draft)"
    using select_update_this [OF keeps_key_header(1) assms(1)] by simp
  ultimately show ?thesis
    using assms r by (simp add: update_invoice_def update_invoice_from_def load_invoice_def)
       (simp add: update_header_def Let_def sample_change_def just_sent_def)
qed

theorem draft_can_be_marked_paid_witness:
  "inv_status sample_draft = Draft \<and>
   (\<exists>db' row. update_invoice (sample_env (Inr ())) sample_time sample_bill 7 101 (sample_change\<lparr>ui_status := Some Paid\<rparr>)
        sample_user 0 = (db', Inr row)
      \<and> inv_status row = Paid \<and> inv_amount_paid row = 0 \<and> inv_sent_at row = None)"
proof -
  have "select_invoice sample_bill 7 101 = Some sample_draft" by code_simp
  moreover have "\<not> is_frozen (inv_status sample_draft)" "inv_status sample_draft = Draft"
    "inv_amount_paid sample_draft = 0" "inv_sent_at sample_draft = None" by code_simp+
  ultimately show ?thesis using draft_can_be_marked_paid [of sample_bill 7 101 sample_draft] by metis
qed

definition sample_relined :: bill_db where
  "sample_relined = fst (update_invoice (sample_env (Inr ())) sample_time sample_bill 7 101
     (sample_change\<lparr>ui_lines := Some (ci_lines sample_create)\<rparr>) sample_user 1771300000)"

text \<open>
  An edit that waits for the row writes back figures it read before: the second of two edits
  of a draft, which read the invoice before the first one replaced its lines, restores the old
  subtotal and total, so that the header no longer agrees with the lines.
\<close>

theorem waiting_edit_restores_old_totals:
  "map_option inv_subtotal (select_invoice sample_relined 7 101) = Some 75
   \<and> lines_total sample_relined 101 = 75
   \<and> (case update_invoice_from sample_draft (sample_env (Inr ())) sample_time sample_relined 7 101
          (sample_change\<lparr>ui_due_date := Some 20540\<rparr>) sample_user 1771300001 of
        (db', res) \<Rightarrow> is_ok res \<and> map_option inv_subtotal (select_invoice db' 7 101) = Some 80
          \<and> map_option inv_total (select_invoice db' 7 101) = Some 80 \<and> lines_total db' 101 = 75)"
  by code_simp

end
