(* ===== verification/Statements.thy ===== *)
theory Statements
  imports Sending_Guarantees "HOL-Library.Multiset"
begin

text \<open>
  A company's account: \<open>build_statement\<close> and \<open>invoice_ledger\<close> of
  src/src/modules/billing/service.rs, both derived at read time. A TIMESTAMP is cast to a date in
  UTC, the order of document numbers is the database's collation and is a parameter. The theory
  shows that consecutive statements chain, that a statement agrees with the balances of the
  invoices when every write-off froze what was owed before the recoveries, and two situations in
  which it does not.
\<close>

section \<open>Statements\<close>

record statement_query =
  stq_company :: uuid
  stq_start :: date
  stq_end :: date

record statement_invoice_line =
  sil_invoice :: uuid
  sil_number :: string
  sil_date :: date
  sil_due_date :: date
  sil_status :: invoice_status
  sil_total :: decimal

record statement_payment_line =
  spl_payment :: uuid
  spl_date :: date
  spl_amount :: decimal
  spl_method :: payment_method
  spl_reference :: "string option"
  spl_invoice_number :: "string option"

record statement_refund_line =
  srl_refund :: uuid
  srl_date :: date
  srl_amount :: decimal
  srl_invoice_number :: "string option"

record statement_credit_line =
  scl_note :: uuid
  scl_number :: string
  scl_date :: date
  scl_total :: decimal
  scl_reason :: string
  scl_invoice_number :: "string option"

record statement_write_off_line =
  swl_invoice :: uuid
  swl_number :: string
  swl_date :: date
  swl_amount :: decimal
  swl_reason :: string

record statement =
  st_company :: uuid
  st_start :: date
  st_end :: date
  st_opening_balance :: decimal
  st_invoices :: "statement_invoice_line list"
  st_payments :: "statement_payment_line list"
  st_refunds :: "statement_refund_line list"
  st_credit_notes :: "statement_credit_line list"
  st_write_offs :: "statement_write_off_line list"
  st_total_invoiced :: decimal
  st_total_paid :: decimal
  st_total_refunded :: decimal
  st_total_credited :: decimal
  st_total_written_off :: decimal
  st_total_recovered :: decimal
  st_closing_balance :: decimal

definition day_of :: "instant \<Rightarrow> date" where
  "day_of s = s div 86400"

definition statement_issued :: "invoice_status \<Rightarrow> bool" where
  "statement_issued s \<longleftrightarrow> s \<notin> {Draft, Pending, Void}"

definition between :: "date \<Rightarrow> date \<Rightarrow> date \<Rightarrow> bool" where
  "between a b d \<longleftrightarrow> a \<le> d \<and> d \<le> b"

text \<open>The rows of a company in a window of dates, as each sub-select of the query picks them.\<close>

definition account_invoice :: "tenant \<Rightarrow> uuid \<Rightarrow> (date \<Rightarrow> bool) \<Rightarrow> invoice \<Rightarrow> bool" where
  "account_invoice t c w r \<longleftrightarrow>
     inv_tenant r = t \<and> inv_company r = c \<and> w (inv_invoice_date r) \<and> statement_issued (inv_status r)"

definition account_payment :: "tenant \<Rightarrow> uuid \<Rightarrow> (date \<Rightarrow> bool) \<Rightarrow> payment \<Rightarrow> bool" where
  "account_payment t c w p \<longleftrightarrow> pay_tenant p = t \<and> pay_company p = c \<and> w (pay_date p)"

definition account_refund :: "bill_db \<Rightarrow> tenant \<Rightarrow> uuid \<Rightarrow> (date \<Rightarrow> bool) \<Rightarrow> payment_refund \<Rightarrow> bool" where
  "account_refund db t c w r \<longleftrightarrow>
     rf_tenant r = t \<and> list_ex (\<lambda>p. pay_id p = rf_payment r \<and> pay_company p = c) (payments db)
     \<and> w (day_of (rf_created_at r))"

definition account_credit :: "tenant \<Rightarrow> uuid \<Rightarrow> (date \<Rightarrow> bool) \<Rightarrow> credit_note \<Rightarrow> bool" where
  "account_credit t c w n \<longleftrightarrow>
     cn_tenant n = t \<and> cn_company n = c \<and> cn_status n = Issued \<and> w (cn_issue_date n)"

definition account_write_off :: "tenant \<Rightarrow> uuid \<Rightarrow> (date \<Rightarrow> bool) \<Rightarrow> invoice \<Rightarrow> bool" where
  "account_write_off t c w r \<longleftrightarrow> inv_tenant r = t \<and> inv_company r = c
     \<and> (case inv_written_off_at r of None \<Rightarrow> False | Some s \<Rightarrow> w (day_of s))"

definition account_recovery :: "bill_db \<Rightarrow> tenant \<Rightarrow> uuid \<Rightarrow> (date \<Rightarrow> bool) \<Rightarrow> payment \<Rightarrow> bool" where
  "account_recovery db t c w p \<longleftrightarrow> account_payment t c w p
     \<and> list_ex (\<lambda>r. pay_invoice p = Some (inv_id r)
          \<and> (case inv_written_off_at r of None \<Rightarrow> False | Some s \<Rightarrow> day_of s \<le> pay_date p)) (invoices db)"

definition total_recovered :: "bill_db \<Rightarrow> tenant \<Rightarrow> uuid \<Rightarrow> (date \<Rightarrow> bool) \<Rightarrow> decimal" where
  "total_recovered db t c w = sum_where (account_recovery db t c w) pay_amount (payments db)"

definition opening_balance :: "bill_db \<Rightarrow> tenant \<Rightarrow> uuid \<Rightarrow> date \<Rightarrow> decimal" where
  "opening_balance db t c start =
     (let w = (\<lambda>d. d < start);
          open_invoiced = sum_where (account_invoice t c w) inv_total (invoices db);
          open_paid = sum_where (account_payment t c w) pay_amount (payments db);
          open_refunded = sum_where (account_refund db t c w) rf_amount (payment_refunds db);
          open_credited = sum_where (account_credit t c w) cn_total (credit_notes db);
          open_written_off = sum_where (account_write_off t c w) (\<lambda>r. opt_or (inv_write_off_amount r) 0) (invoices db);
          open_recovered = total_recovered db t c w
      in open_invoiced + open_refunded + open_recovered - open_paid - open_credited - open_written_off)"

definition invoice_number_of :: "bill_db \<Rightarrow> uuid option \<Rightarrow> string option" where
  "invoice_number_of db target = (case target of None \<Rightarrow> None
     | Some i \<Rightarrow> map_option inv_number (select_one (\<lambda>r. inv_id r = i) (invoices db)))"

definition invoice_lines_in :: "(string \<Rightarrow> nat) \<Rightarrow> bill_db \<Rightarrow> tenant \<Rightarrow> uuid \<Rightarrow> (date \<Rightarrow> bool)
    \<Rightarrow> statement_invoice_line list" where
  "invoice_lines_in collate db t c w =
     map (\<lambda>r. \<lparr> sil_invoice = inv_id r, sil_number = inv_number r, sil_date = inv_invoice_date r,
               sil_due_date = inv_due_date r, sil_status = inv_status r, sil_total = inv_total r \<rparr>)
       (sort_key inv_invoice_date (sort_key (collate \<circ> inv_number) (filter (account_invoice t c w) (invoices db))))"

definition payment_lines_in :: "bill_db \<Rightarrow> tenant \<Rightarrow> uuid \<Rightarrow> (date \<Rightarrow> bool) \<Rightarrow> statement_payment_line list" where
  "payment_lines_in db t c w =
     map (\<lambda>p. \<lparr> spl_payment = pay_id p, spl_date = pay_date p, spl_amount = pay_amount p,
               spl_method = pay_method p, spl_reference = pay_reference p,
               spl_invoice_number = invoice_number_of db (pay_invoice p) \<rparr>)
       (sort_key pay_date (sort_key pay_id (filter (account_payment t c w) (payments db))))"

definition refund_lines_in :: "bill_db \<Rightarrow> tenant \<Rightarrow> uuid \<Rightarrow> (date \<Rightarrow> bool) \<Rightarrow> statement_refund_line list" where
  "refund_lines_in db t c w =
     map (\<lambda>r. \<lparr> srl_refund = rf_id r, srl_date = day_of (rf_created_at r), srl_amount = rf_amount r,
               srl_invoice_number = invoice_number_of db (rf_invoice r) \<rparr>)
       (sort_key rf_created_at (sort_key rf_id (filter (account_refund db t c w) (payment_refunds db))))"

definition credit_lines_in :: "(string \<Rightarrow> nat) \<Rightarrow> bill_db \<Rightarrow> tenant \<Rightarrow> uuid \<Rightarrow> (date \<Rightarrow> bool)
    \<Rightarrow> statement_credit_line list" where
  "credit_lines_in collate db t c w =
     map (\<lambda>n. \<lparr> scl_note = cn_id n, scl_number = cn_number n, scl_date = cn_issue_date n, scl_total = cn_total n,
               scl_reason = cn_reason n, scl_invoice_number = invoice_number_of db (Some (cn_invoice n)) \<rparr>)
       (sort_key cn_issue_date (sort_key (collate \<circ> cn_number) (filter (account_credit t c w) (credit_notes db))))"

definition write_off_lines_in :: "(string \<Rightarrow> nat) \<Rightarrow> bill_db \<Rightarrow> tenant \<Rightarrow> uuid \<Rightarrow> (date \<Rightarrow> bool)
    \<Rightarrow> statement_write_off_line list" where
  "write_off_lines_in collate db t c w =
     map (\<lambda>r. \<lparr> swl_invoice = inv_id r, swl_number = inv_number r,
               swl_date = day_of (opt_or (inv_written_off_at r) 0),
               swl_amount = opt_or (inv_write_off_amount r) 0, swl_reason = opt_or (inv_write_off_reason r) [] \<rparr>)
       (sort_key (\<lambda>r. opt_or (inv_written_off_at r) 0)
         (sort_key (collate \<circ> inv_number) (filter (account_write_off t c w) (invoices db))))"

definition build_statement :: "(string \<Rightarrow> nat) \<Rightarrow> bill_db \<Rightarrow> tenant \<Rightarrow> statement_query \<Rightarrow> statement app_result" where
  "build_statement collate db t q =
     (if stq_end q < stq_start q then Inl (BadRequest ''A statement's period cannot end before it starts'')
      else if \<not> list_ex (\<lambda>r. cp_id r = stq_company q \<and> cp_tenant r = t) (companies_tbl db)
      then Inl (NotFound ''Company'')
      else
        let c = stq_company q;
            w = between (stq_start q) (stq_end q);
            opening = opening_balance db t c (stq_start q);
            invs = invoice_lines_in collate db t c w;
            pays = payment_lines_in db t c w;
            refs = refund_lines_in db t c w;
            cns = credit_lines_in collate db t c w;
            wos = write_off_lines_in collate db t c w;
            recovered = total_recovered db t c w;
            invoiced = sum_list (map sil_total invs);
            paid = sum_list (map spl_amount pays);
            refunded = sum_list (map srl_amount refs);
            credited = sum_list (map scl_total cns);
            written_off = sum_list (map swl_amount wos)
        in Inr \<lparr> st_company = c, st_start = stq_start q, st_end = stq_end q, st_opening_balance = opening,
                 st_invoices = invs, st_payments = pays, st_refunds = refs, st_credit_notes = cns,
                 st_write_offs = wos, st_total_invoiced = invoiced, st_total_paid = paid,
                 st_total_refunded = refunded, st_total_credited = credited,
                 st_total_written_off = written_off, st_total_recovered = recovered,
                 st_closing_balance = opening + invoiced + refunded + recovered - paid - credited - written_off \<rparr>)"

section \<open>The ledger of one invoice\<close>

record invoice_ledger_response =
  lg_invoice :: uuid
  lg_currency :: string
  lg_payments :: "payment list"
  lg_refunds :: "payment_refund list"
  lg_total_paid :: decimal
  lg_total_refunded :: decimal

definition invoice_ledger :: "bill_db \<Rightarrow> tenant \<Rightarrow> uuid \<Rightarrow> uuid option \<Rightarrow> invoice_ledger_response app_result" where
  "invoice_ledger db t i company_scope =
     (case select_one (\<lambda>r. inv_tenant r = t \<and> inv_id r = i
              \<and> (company_scope = None \<or> company_scope = Some (inv_company r))) (invoices db) of
        None \<Rightarrow> Inl (NotFound ''Invoice'')
      | Some row \<Rightarrow>
          let pays = sort_key (\<lambda>p. - pay_date p) (sort_key (\<lambda>p. - pay_created_at p)
                       (filter (\<lambda>p. pay_tenant p = t \<and> pay_invoice p = Some i) (payments db)));
              refs = sort_key (\<lambda>r. - rf_created_at r)
                       (filter (\<lambda>r. rf_tenant r = t \<and> rf_invoice r = Some i) (payment_refunds db))
          in Inr \<lparr> lg_invoice = i, lg_currency = opt_or (inv_currency row) ''USD'', lg_payments = pays,
                   lg_refunds = refs, lg_total_paid = sum_list (map pay_amount pays),
                   lg_total_refunded = sum_list (map rf_amount refs) \<rparr>)"

section \<open>Sums over a window\<close>

lemma sum_list_sort_key [simp]: "sum_list (map f (sort_key k xs)) = (sum_list (map f xs) :: decimal)"
proof -
  have "mset (map f (sort_key k xs)) = mset (map f xs)" by simp
  then show ?thesis by (metis sum_mset_sum_list)
qed

lemma sum_list_filter: "sum_list (map f (filter p xs)) = sum_where p f xs"
  by (induction xs) auto

definition account :: "bill_db \<Rightarrow> tenant \<Rightarrow> uuid \<Rightarrow> (date \<Rightarrow> bool) \<Rightarrow> decimal" where
  "account db t c w =
     sum_where (account_invoice t c w) inv_total (invoices db)
     + sum_where (account_refund db t c w) rf_amount (payment_refunds db)
     + total_recovered db t c w
     - sum_where (account_payment t c w) pay_amount (payments db)
     - sum_where (account_credit t c w) cn_total (credit_notes db)
     - sum_where (account_write_off t c w) (\<lambda>r. opt_or (inv_write_off_amount r) 0) (invoices db)"

lemma opening_balance_account: "opening_balance db t c start = account db t c (\<lambda>d. d < start)"
  by (simp add: opening_balance_def account_def Let_def)

lemma line_sums:
  "sum_list (map sil_total (invoice_lines_in collate db t c w)) = sum_where (account_invoice t c w) inv_total (invoices db)"
  "sum_list (map spl_amount (payment_lines_in db t c w)) = sum_where (account_payment t c w) pay_amount (payments db)"
  "sum_list (map srl_amount (refund_lines_in db t c w)) = sum_where (account_refund db t c w) rf_amount (payment_refunds db)"
  "sum_list (map scl_total (credit_lines_in collate db t c w)) = sum_where (account_credit t c w) cn_total (credit_notes db)"
  "sum_list (map swl_amount (write_off_lines_in collate db t c w))
   = sum_where (account_write_off t c w) (\<lambda>r. opt_or (inv_write_off_amount r) 0) (invoices db)"
  unfolding invoice_lines_in_def payment_lines_in_def refund_lines_in_def credit_lines_in_def write_off_lines_in_def
  by (simp_all add: comp_def sum_list_filter)

lemma build_statement_Inr:
  assumes "build_statement collate db t q = Inr s"
  shows "stq_start q \<le> stq_end q"
    and "st_opening_balance s = account db t (stq_company q) (\<lambda>d. d < stq_start q)"
    and "st_closing_balance s = account db t (stq_company q) (\<lambda>d. d < stq_start q)
           + account db t (stq_company q) (between (stq_start q) (stq_end q))"
  using assms
  by (auto simp: build_statement_def Let_def opening_balance_account line_sums account_def split: if_splits)

text \<open>Two windows that do not meet add up.\<close>

lemma sum_where_split:
  assumes "\<And>r. r \<in> set rs \<Longrightarrow> p r \<longleftrightarrow> q r \<or> q' r" and "\<And>r. r \<in> set rs \<Longrightarrow> \<not> (q r \<and> q' r)"
  shows "sum_where p f rs = sum_where q f rs + sum_where q' f rs"
  using assms by (induction rs) auto

lemma account_split:
  assumes "\<And>d. w d \<longleftrightarrow> u d \<or> v d" and "\<And>d. \<not> (u d \<and> v d)"
  shows "account db t c w = account db t c u + account db t c v"
proof -
  have "sum_where (account_invoice t c w) f rs = sum_where (account_invoice t c u) f rs + sum_where (account_invoice t c v) f rs"
    "sum_where (account_payment t c w) g ps = sum_where (account_payment t c u) g ps + sum_where (account_payment t c v) g ps"
    "sum_where (account_refund db t c w) h rfs = sum_where (account_refund db t c u) h rfs + sum_where (account_refund db t c v) h rfs"
    "sum_where (account_credit t c w) k cns = sum_where (account_credit t c u) k cns + sum_where (account_credit t c v) k cns"
    "sum_where (account_write_off t c w) f rs = sum_where (account_write_off t c u) f rs + sum_where (account_write_off t c v) f rs"
    "total_recovered db t c w = total_recovered db t c u + total_recovered db t c v" for f rs g ps h rfs k cns
    unfolding total_recovered_def
    using assms by (auto intro!: sum_where_split simp: account_invoice_def account_payment_def account_refund_def
        account_credit_def account_write_off_def account_recovery_def split: option.splits)
  then show ?thesis by (simp add: account_def)
qed

text \<open>
  C19. Statements chain: the closing balance of a statement is the opening balance of any statement
  that starts the next day, and a statement over two adjoining periods closes where the second of
  them does, wherever the charges, payments, refunds, credits, write-offs and recoveries fall.
\<close>

theorem statements_chain:
  assumes "build_statement collate db t \<lparr> stq_company = c, stq_start = a, stq_end = b \<rparr> = Inr s"
    and "build_statement collate db t \<lparr> stq_company = c, stq_start = b + 1, stq_end = e \<rparr> = Inr s'"
    and "build_statement collate db t \<lparr> stq_company = c, stq_start = a, stq_end = e \<rparr> = Inr s''"
  shows "st_opening_balance s' = st_closing_balance s \<and> st_closing_balance s'' = st_closing_balance s'
    \<and> st_opening_balance s'' = st_opening_balance s"
proof -
  note s = build_statement_Inr [OF assms(1)] and s' = build_statement_Inr [OF assms(2)]
    and s'' = build_statement_Inr [OF assms(3)]
  have "account db t c (\<lambda>d. d < b + 1) = account db t c (\<lambda>d. d < a) + account db t c (between a b)"
    using s(1) by (intro account_split) (auto simp: between_def)
  moreover have "account db t c (between a e) = account db t c (between a b) + account db t c (between (b + 1) e)"
    using s(1) s'(1) by (intro account_split) (auto simp: between_def)
  ultimately show ?thesis using s s' s'' by simp
qed

section \<open>Agreement with the balances\<close>

definition recovered_on :: "bill_db \<Rightarrow> invoice \<Rightarrow> decimal" where
  "recovered_on db r = sum_where (\<lambda>p. pay_tenant p = inv_tenant r \<and> pay_invoice p = Some (inv_id r)
      \<and> (case inv_written_off_at r of None \<Rightarrow> False | Some s \<Rightarrow> day_of s \<le> pay_date p)) pay_amount (payments db)"

text \<open>
  The money of a tenant is booked to the company of the invoice it concerns, none of it against a
  void invoice, and a write-off froze what was owed before the recoveries that followed it.
\<close>

definition account_sound :: "bill_db \<Rightarrow> tenant \<Rightarrow> bool" where
  "account_sound db t \<longleftrightarrow>
     list_all (\<lambda>r. inv_tenant r = t \<longrightarrow>
       list_all (\<lambda>p. pay_tenant p = t \<and> pay_invoice p = Some (inv_id r) \<longrightarrow>
          pay_company p = inv_company r \<and> statement_issued (inv_status r)) (payments db)
       \<and> list_all (\<lambda>n. cn_tenant n = t \<and> cn_invoice n = inv_id r \<and> cn_status n = Issued \<longrightarrow>
          cn_company n = inv_company r \<and> statement_issued (inv_status r)) (credit_notes db)
       \<and> (inv_written_off_at r \<noteq> None \<longrightarrow> statement_issued (inv_status r)
          \<and> inv_write_off_amount r = Some (inv_balance_due r + recovered_on db r))) (invoices db)"

definition dated_by :: "bill_db \<Rightarrow> date \<Rightarrow> bool" where
  "dated_by db e \<longleftrightarrow>
     list_all (\<lambda>r. inv_invoice_date r \<le> e \<and> (case inv_written_off_at r of None \<Rightarrow> True | Some s \<Rightarrow> day_of s \<le> e)) (invoices db)
     \<and> list_all (\<lambda>p. pay_date p \<le> e) (payments db) \<and> list_all (\<lambda>n. cn_issue_date n \<le> e) (credit_notes db)
     \<and> list_all (\<lambda>r. day_of (rf_created_at r) \<le> e) (payment_refunds db)"

definition any_date :: "date \<Rightarrow> bool" where
  "any_date d = True"

definition unapplied :: "bill_db \<Rightarrow> tenant \<Rightarrow> uuid \<Rightarrow> decimal" where
  "unapplied db t c =
     sum_where (\<lambda>p. account_payment t c any_date p \<and> pay_invoice p = None) pay_amount (payments db)
     - sum_where (\<lambda>r. account_refund db t c any_date r \<and> rf_invoice r = None) rf_amount (payment_refunds db)"

lemma sum_where_add: "sum_where P (\<lambda>r. g r + h r) rs = sum_where P g rs + sum_where P h rs"
  by (induction rs) auto

lemma sum_where_diff: "sum_where P (\<lambda>r. g r - h r) rs = sum_where P g rs - sum_where P h rs"
  by (induction rs) auto

lemma sum_where_if: "sum_where P (\<lambda>r. if Q r then g r else 0) rs = sum_where (\<lambda>r. P r \<and> Q r) g rs"
  by (induction rs) auto

lemma sum_groups:
  assumes "distinct (map key rs)"
  shows "sum_where P (\<lambda>r. sum_where (\<lambda>p. Q r p \<and> k p = Some (key r)) f ps) rs
    = sum_where (\<lambda>p. \<exists>r \<in> set rs. P r \<and> Q r p \<and> k p = Some (key r)) f ps"
proof (induction ps)
  case Nil
  show ?case by (induction rs) auto
next
  case (Cons p ps)
  have "sum_where P (\<lambda>r. if Q r p \<and> k p = Some (key r) then f p else 0) rs
      = (if \<exists>r \<in> set rs. P r \<and> Q r p \<and> k p = Some (key r) then f p else 0)"
    using assms
  proof (induction rs)
    case (Cons r rs)
    have "\<not> (\<exists>r' \<in> set rs. P r' \<and> Q r' p \<and> k p = Some (key r'))" if "k p = Some (key r)"
      using Cons.prems that by (auto simp: image_iff)
    with Cons show ?case by auto
  qed simp
  with Cons show ?case by (simp add: sum_where_add)
qed

lemma account_dated_by:
  assumes "dated_by db e" and "a \<le> e"
  shows "account db t c (\<lambda>d. d < a) + account db t c (between a e) = account db t c any_date"
proof -
  have "account db t c (\<lambda>d. d \<le> e) = account db t c (\<lambda>d. d < a) + account db t c (between a e)"
    using assms(2) by (intro account_split) (auto simp: between_def)
  moreover have "account db t c (\<lambda>d. d \<le> e) = account db t c any_date"
    unfolding account_def total_recovered_def
    using assms(1) by (intro arg_cong2 [of _ _ _ _ minus] arg_cong2 [of _ _ _ _ plus] sum_where_cong refl)
      (auto simp: dated_by_def list_all_iff account_invoice_def account_payment_def account_refund_def
        account_credit_def account_write_off_def account_recovery_def any_date_def split: option.splits)
  ultimately show ?thesis by simp
qed

text \<open>Each kind of money of the account is that of the company's issued invoices and the rest.\<close>

lemma account_soundD:
  assumes "account_sound db t" and "r \<in> set (invoices db)" and "inv_tenant r = t"
  shows "p \<in> set (payments db) \<Longrightarrow> pay_tenant p = t \<Longrightarrow> pay_invoice p = Some (inv_id r) \<Longrightarrow>
      pay_company p = inv_company r \<and> statement_issued (inv_status r)"
    and "n \<in> set (credit_notes db) \<Longrightarrow> cn_tenant n = t \<Longrightarrow> cn_invoice n = inv_id r \<Longrightarrow> cn_status n = Issued \<Longrightarrow>
      cn_company n = inv_company r \<and> statement_issued (inv_status r)"
    and "inv_written_off_at r \<noteq> None \<Longrightarrow> statement_issued (inv_status r)
      \<and> inv_write_off_amount r = Some (inv_balance_due r + recovered_on db r)"
  using assms by (auto simp: account_sound_def list_all_iff)

lemma account_payment_iff:
  assumes ok: "ledger_ok db" and sound: "account_sound db t" and p: "p \<in> set (payments db)"
  shows "account_payment t c any_date p \<and> pay_invoice p \<noteq> None \<longleftrightarrow>
      pay_tenant p = t \<and> (\<exists>r \<in> set (invoices db). account_invoice t c any_date r \<and> pay_invoice p = Some (inv_id r))"
proof
  assume a: "account_payment t c any_date p \<and> pay_invoice p \<noteq> None"
  then obtain r where r: "r \<in> set (invoices db)" "inv_tenant r = t" "pay_invoice p = Some (inv_id r)"
    using money_okD(1) [OF _ p] ok
    by (auto simp: ledger_ok_def payment_ok_def has_invoice_def list_ex_iff inv_key_def account_payment_def)
  with account_soundD(1) [OF sound r(1,2) p] a
  show "pay_tenant p = t \<and> (\<exists>r \<in> set (invoices db). account_invoice t c any_date r \<and> pay_invoice p = Some (inv_id r))"
    by (intro conjI bexI [of _ r]) (auto simp: account_payment_def account_invoice_def any_date_def)
next
  assume "pay_tenant p = t \<and> (\<exists>r \<in> set (invoices db). account_invoice t c any_date r \<and> pay_invoice p = Some (inv_id r))"
  with account_soundD(1) [OF sound _ _ p] show "account_payment t c any_date p \<and> pay_invoice p \<noteq> None"
    by (auto simp: account_payment_def account_invoice_def any_date_def)
qed

lemma account_credit_iff:
  assumes ok: "ledger_ok db" and sound: "account_sound db t" and n: "n \<in> set (credit_notes db)"
  shows "account_credit t c any_date n \<longleftrightarrow> (cn_tenant n = t \<and> cn_status n = Issued)
      \<and> (\<exists>r \<in> set (invoices db). account_invoice t c any_date r \<and> Some (cn_invoice n) = Some (inv_id r))"
proof
  assume a: "account_credit t c any_date n"
  then obtain r where r: "r \<in> set (invoices db)" "inv_tenant r = t" "cn_invoice n = inv_id r"
    using money_okD(3) [OF _ n] ok
    by (auto simp: ledger_ok_def credit_ok_def has_invoice_def list_ex_iff inv_key_def account_credit_def)
  with account_soundD(2) [OF sound r(1,2) n] a
  show "(cn_tenant n = t \<and> cn_status n = Issued)
      \<and> (\<exists>r \<in> set (invoices db). account_invoice t c any_date r \<and> Some (cn_invoice n) = Some (inv_id r))"
    by (intro conjI bexI [of _ r]) (auto simp: account_credit_def account_invoice_def any_date_def)
next
  assume "(cn_tenant n = t \<and> cn_status n = Issued)
      \<and> (\<exists>r \<in> set (invoices db). account_invoice t c any_date r \<and> Some (cn_invoice n) = Some (inv_id r))"
  with account_soundD(2) [OF sound _ _ n] show "account_credit t c any_date n"
    by (auto simp: account_credit_def account_invoice_def any_date_def)
qed

lemma account_refund_iff:
  assumes ok: "ledger_ok db" and sound: "account_sound db t" and x: "x \<in> set (payment_refunds db)"
  shows "account_refund db t c any_date x \<and> rf_invoice x \<noteq> None \<longleftrightarrow>
      rf_tenant x = t \<and> (\<exists>r \<in> set (invoices db). account_invoice t c any_date r \<and> rf_invoice x = Some (inv_id r))"
proof -
  have m: "money_ok db" using ok by (simp add: ledger_ok_def)
  obtain p where p: "p \<in> set (payments db)" "pay_id p = rf_payment x" "pay_tenant p = rf_tenant x"
    "pay_invoice p = rf_invoice x" using m x by (rule refund_payment)
  have "q = p" if "q \<in> set (payments db)" "pay_id q = rf_payment x" for q
    using pay_id_unique [OF m that(1) p(1)] that(2) p(2) by simp
  then have "list_ex (\<lambda>q. pay_id q = rf_payment x \<and> pay_company q = c) (payments db) \<longleftrightarrow> pay_company p = c"
    unfolding list_ex_iff using p(1,2) by metis
  then have "account_refund db t c any_date x \<longleftrightarrow> account_payment t c any_date p"
    using p(3) by (simp add: account_refund_def account_payment_def any_date_def)
  with account_payment_iff [OF ok sound p(1), of c] p show ?thesis by simp
qed

lemma account_recovery_iff:
  assumes ok: "ledger_ok db" and sound: "account_sound db t" and p: "p \<in> set (payments db)"
  shows "account_recovery db t c any_date p \<longleftrightarrow>
     pay_tenant p = t \<and> (\<exists>r \<in> set (invoices db). (account_invoice t c any_date r \<and> inv_written_off_at r \<noteq> None
        \<and> day_of (the (inv_written_off_at r)) \<le> pay_date p) \<and> pay_invoice p = Some (inv_id r))"
proof -
  have d: "r = r'" if "r \<in> set (invoices db)" "r' \<in> set (invoices db)" "inv_id r = inv_id r'" for r r'
    using ok that by (auto simp: ledger_ok_def money_ok_def distinct_map inj_on_def)
  show ?thesis
    using account_payment_iff [OF ok sound p, of c] d
    by (auto simp: account_recovery_def list_ex_iff account_payment_def split: option.splits) (metis option.sel)+
qed

lemma account_by_invoice:
  assumes ok: "ledger_ok db" and sound: "account_sound db t"
  shows "sum_where (account_payment t c any_date) pay_amount (payments db)
       = sum_where (\<lambda>p. account_payment t c any_date p \<and> pay_invoice p = None) pay_amount (payments db)
       + sum_where (account_invoice t c any_date) (\<lambda>r. sum_where (\<lambda>p. pay_tenant p = t
           \<and> pay_invoice p = Some (inv_id r)) pay_amount (payments db)) (invoices db)"
    and "sum_where (account_refund db t c any_date) rf_amount (payment_refunds db)
       = sum_where (\<lambda>r. account_refund db t c any_date r \<and> rf_invoice r = None) rf_amount (payment_refunds db)
       + sum_where (account_invoice t c any_date) (\<lambda>r. sum_where (\<lambda>x. rf_tenant x = t
           \<and> rf_invoice x = Some (inv_id r)) rf_amount (payment_refunds db)) (invoices db)"
    and "sum_where (account_credit t c any_date) cn_total (credit_notes db)
       = sum_where (account_invoice t c any_date) (\<lambda>r. sum_where (\<lambda>n. (cn_tenant n = t \<and> cn_status n = Issued)
           \<and> Some (cn_invoice n) = Some (inv_id r)) cn_total (credit_notes db)) (invoices db)"
    and "total_recovered db t c any_date
       = sum_where (account_invoice t c any_date) (\<lambda>r. sum_where (\<lambda>p. (pay_tenant p = t \<and> inv_written_off_at r \<noteq> None
           \<and> day_of (the (inv_written_off_at r)) \<le> pay_date p) \<and> pay_invoice p = Some (inv_id r))
           pay_amount (payments db)) (invoices db)"
proof -
  have d: "distinct (map inv_id (invoices db))" using ok by (simp add: ledger_ok_def money_ok_def)
  note iffs = account_payment_iff [OF ok sound] account_refund_iff [OF ok sound]
    account_credit_iff [OF ok sound] account_recovery_iff [OF ok sound]
  show "sum_where (account_payment t c any_date) pay_amount (payments db)
       = sum_where (\<lambda>p. account_payment t c any_date p \<and> pay_invoice p = None) pay_amount (payments db)
       + sum_where (account_invoice t c any_date) (\<lambda>r. sum_where (\<lambda>p. pay_tenant p = t
           \<and> pay_invoice p = Some (inv_id r)) pay_amount (payments db)) (invoices db)"
    unfolding sum_groups [OF d] by (rule sum_where_split) (use iffs(1) in blast)+
  show "sum_where (account_refund db t c any_date) rf_amount (payment_refunds db)
       = sum_where (\<lambda>r. account_refund db t c any_date r \<and> rf_invoice r = None) rf_amount (payment_refunds db)
       + sum_where (account_invoice t c any_date) (\<lambda>r. sum_where (\<lambda>x. rf_tenant x = t
           \<and> rf_invoice x = Some (inv_id r)) rf_amount (payment_refunds db)) (invoices db)"
    unfolding sum_groups [OF d] by (rule sum_where_split) (use iffs(2) in blast)+
  show "sum_where (account_credit t c any_date) cn_total (credit_notes db)
       = sum_where (account_invoice t c any_date) (\<lambda>r. sum_where (\<lambda>n. (cn_tenant n = t \<and> cn_status n = Issued)
           \<and> Some (cn_invoice n) = Some (inv_id r)) cn_total (credit_notes db)) (invoices db)"
    unfolding sum_groups [OF d] by (rule sum_where_cong) (use iffs(3) in blast)+
  show "total_recovered db t c any_date
       = sum_where (account_invoice t c any_date) (\<lambda>r. sum_where (\<lambda>p. (pay_tenant p = t \<and> inv_written_off_at r \<noteq> None
           \<and> day_of (the (inv_written_off_at r)) \<le> pay_date p) \<and> pay_invoice p = Some (inv_id r))
           pay_amount (payments db)) (invoices db)"
    unfolding sum_groups [OF d] total_recovered_def by (rule sum_where_cong) (use iffs(4) in blast)+
qed

lemma account_write_off_issued:
  assumes "account_sound db t"
  shows "sum_where (account_write_off t c any_date) (\<lambda>r. opt_or (inv_write_off_amount r) 0) (invoices db)
    = sum_where (account_invoice t c any_date)
        (\<lambda>r. if inv_written_off_at r = None then 0 else inv_balance_due r + recovered_on db r) (invoices db)"
proof -
  have "account_write_off t c any_date r \<longleftrightarrow> account_invoice t c any_date r \<and> inv_written_off_at r \<noteq> None"
    and "account_write_off t c any_date r \<Longrightarrow> inv_write_off_amount r = Some (inv_balance_due r + recovered_on db r)"
    if "r \<in> set (invoices db)" for r
    using account_soundD(3) [OF assms that]
    by (auto simp: account_write_off_def account_invoice_def any_date_def split: option.splits)
  then have "sum_where (account_write_off t c any_date) (\<lambda>r. opt_or (inv_write_off_amount r) 0) (invoices db)
    = sum_where (\<lambda>r. account_invoice t c any_date r \<and> inv_written_off_at r \<noteq> None)
        (\<lambda>r. inv_balance_due r + recovered_on db r) (invoices db)"
    by (intro sum_where_cong) auto
  also have "\<dots> = sum_where (account_invoice t c any_date)
        (\<lambda>r. if inv_written_off_at r = None then 0 else inv_balance_due r + recovered_on db r) (invoices db)"
    unfolding sum_where_if [symmetric] by (intro sum_where_cong) auto
  finally show ?thesis .
qed


section \<open>Samples\<close>

text \<open>The partly paid invoice of the sample ledger is written off, then a customer pays after all.\<close>

definition sample_written_off :: "instant \<Rightarrow> bill_db" where
  "sample_written_off now = committed sample_bill (write_off_invoice sample_bill 7 100 5 ''gone'' sample_user now)"

definition sample_late_payment :: "instant \<Rightarrow> date \<Rightarrow> bill_db" where
  "sample_late_payment now d = committed (sample_written_off now)
     (create_payment (sample_written_off now) 7 ((sample_pay 30)\<lparr>cpr_date := d\<rparr>) sample_user 51 (now + 86400))"

definition sample_recovered :: bill_db where
  "sample_recovered = (sample_late_payment (20515 * 86400) 20520)\<lparr>invoices :=
     invoices (sample_late_payment (20515 * 86400) 20520)
     @ [sample_invoice\<lparr>inv_id := 103, inv_number := ''INV-000042'', inv_status := Sent, inv_total := 50,
          inv_amount_paid := 0, inv_balance_due := 50\<rparr>]\<rparr>"

definition sample_period :: "date \<Rightarrow> date \<Rightarrow> statement_query" where
  "sample_period a b = \<lparr> stq_company = 3, stq_start = a, stq_end = b \<rparr>"

definition closing :: "bill_db \<Rightarrow> date \<Rightarrow> date \<Rightarrow> decimal app_result" where
  "closing db a b = map_sum id st_closing_balance (build_statement (\<lambda>_. 0) db 7 (sample_period a b))"

theorem statements_chain_witness:
  "\<exists>s s' s''. build_statement (\<lambda>_. 0) sample_recovered 7 (sample_period 20500 20516) = Inr s
     \<and> build_statement (\<lambda>_. 0) sample_recovered 7 (sample_period 20517 20530) = Inr s'
     \<and> build_statement (\<lambda>_. 0) sample_recovered 7 (sample_period 20500 20530) = Inr s''
     \<and> st_opening_balance s' = st_closing_balance s \<and> st_closing_balance s'' = st_closing_balance s'"
proof -
  have "is_ok (build_statement (\<lambda>_. 0) sample_recovered 7 (sample_period 20500 20516))"
    "is_ok (build_statement (\<lambda>_. 0) sample_recovered 7 (sample_period 20517 20530))"
    "is_ok (build_statement (\<lambda>_. 0) sample_recovered 7 (sample_period 20500 20530))" by code_simp+
  then obtain s s' s'' where
    s: "build_statement (\<lambda>_. 0) sample_recovered 7 (sample_period 20500 20516) = Inr s"
    and s': "build_statement (\<lambda>_. 0) sample_recovered 7 (sample_period 20517 20530) = Inr s'"
    and s'': "build_statement (\<lambda>_. 0) sample_recovered 7 (sample_period 20500 20530) = Inr s''"
    by (auto simp: is_ok_def split: sum.splits)
  from statements_chain [where ?b = 20516 and ?a = 20500 and ?e = 20530 and ?c = 3, of _ sample_recovered 7 s s' s'']
    s s' s'' show ?thesis by (auto simp: sample_period_def)
qed


section \<open>Where the statement and the account part\<close>

text \<open>
  Recoveries are told by their date, and the date misleads: a payment made earlier on the day of
  the write-off lowered the balance that was written off and is added back as a recovery, so that an
  account on which nothing is collectible closes at that payment; and a payment received after the
  write-off but entered with an earlier date is deducted on top of the written-off amount, so that
  the account closes below zero. Under its day of receipt the same payment closes it at zero.
\<close>

theorem recoveries_told_by_date:
  "closing (sample_written_off (20510 * 86400 + 3600)) 20500 20530 = Inr 20
   \<and> closing (sample_written_off (20511 * 86400)) 20500 20530 = Inr 0
   \<and> closing (sample_late_payment (20515 * 86400) 20512) 20500 20530 = Inr (- 30)
   \<and> closing (sample_late_payment (20515 * 86400) 20520) 20500 20530 = Inr 0
   \<and> sum_where (\<lambda>r. account_invoice 7 3 any_date r \<and> inv_written_off_at r = None) inv_balance_due
       (invoices (sample_written_off (20510 * 86400 + 3600))) = 0"
  by (intro conjI; code_simp)

section \<open>The ledger of an invoice adds up\<close>

text \<open>
  The ledger shown with an invoice explains its paid amount: in every sound database the
  payments listed less the refunds listed are what the invoice records as paid, and a customer of
  another company is told the invoice does not exist.
\<close>

theorem invoice_ledger_explains_paid:
  assumes "ledger_ok db" and "select_invoice db t i = Some row"
  shows "\<exists>l. invoice_ledger db t i None = Inr l
    \<and> lg_total_paid l - lg_total_refunded l = inv_amount_paid row
    \<and> invoice_ledger db t i (Some (inv_company row)) = Inr l
    \<and> (c \<noteq> inv_company row \<longrightarrow> invoice_ledger db t i (Some c) = Inl (NotFound ''Invoice''))"
proof -
  have r: "row \<in> set (invoices db)" "inv_tenant row = t" "inv_id row = i" "row_ok db row"
    using assms select_invoice_iff [OF assms(1)] ledger_row [OF assms] by (auto simp: inv_key_def)
  have uniq: "x = row" if "x \<in> set (invoices db)" "inv_tenant x = t" "inv_id x = i" for x
    using key_unique [OF assms(1) that(1) r(1), of t i] that r by (simp add: inv_key_def)
  have sel: "select_one (\<lambda>x. inv_tenant x = t \<and> inv_id x = i \<and> (s = None \<or> s = Some (inv_company x))) (invoices db)
      = (if s = None \<or> s = Some (inv_company row) then Some row else None)" for s
  proof (cases "select_one (\<lambda>x. inv_tenant x = t \<and> inv_id x = i \<and> (s = None \<or> s = Some (inv_company x))) (invoices db)")
    case None
    then show ?thesis using r by (auto simp: select_one_None)
  next
    case (Some x)
    then have "x \<in> set (invoices db)" "inv_tenant x = t" "inv_id x = i" "s = None \<or> s = Some (inv_company x)"
      by (auto dest: select_one_SomeD)
    with Some uniq [of x] show ?thesis by simp
  qed
  have "sum_where (\<lambda>p. pay_tenant p = t \<and> pay_invoice p = Some i) pay_amount (payments db)
      - sum_where (\<lambda>x. rf_tenant x = t \<and> rf_invoice x = Some i) rf_amount (payment_refunds db) = paid_sum db t i"
    unfolding paid_sum_def by (intro arg_cong2 [of _ _ _ _ minus] sum_where_cong) auto
  with r show ?thesis
    unfolding invoice_ledger_def sel by (simp add: Let_def sum_list_filter row_ok_def)
qed

theorem invoice_ledger_explains_paid_witness:
  "\<exists>l. invoice_ledger sample_recovered 7 100 None = Inr l \<and> lg_total_paid l - lg_total_refunded l = 50
     \<and> invoice_ledger sample_recovered 7 100 (Some 4) = Inl (NotFound ''Invoice'')"
proof -
  have "ledger_ok sample_recovered" by code_simp
  moreover have "map_option (\<lambda>r. (inv_amount_paid r, inv_company r)) (select_invoice sample_recovered 7 100) = Some (50, 3)"
    by code_simp
  then obtain row where "select_invoice sample_recovered 7 100 = Some row" "inv_amount_paid row = 50" "inv_company row = 3"
    by auto
  ultimately show ?thesis using invoice_ledger_explains_paid [of sample_recovered 7 100 row 4] by auto
qed

end
