(* ===== verification/Work_Guarantees.thy ===== *)
theory Work_Guarantees
  imports Statements Timesheets
begin

text \<open>
  Work is billed once: what \<open>create_invoice_from_time_entries\<close> and the recurring run promise. An
  entry that goes on an invoice leaves the set of entries that can, a contract's period is invoiced
  at most once, an item with the rule \<open>once\<close> at most once, and a repeated run creates nothing.
\<close>

section \<open>Time and mileage\<close>

lemma sort_key_Nil [simp]: "sort_key k xs = [] \<longleftrightarrow> xs = []"
  by (metis length_0_conv length_sort)

text \<open>Marking exactly the rows that satisfy a condition leaves none that does.\<close>

lemma none_left:
  assumes "\<And>x. p x \<Longrightarrow> x \<in> set rs \<Longrightarrow> q x" and "\<And>x. \<not> p (f x)"
  shows "filter p (update_where q f rs) = []"
  using assms by (auto simp: filter_empty_conv set_update_where)

lemma no_entry_left:
  "eligible_entries (mark_entries t i (map te_id (eligible_entries tdb t r)) tdb) t r = []"
proof -
  have "filter (selected_entry t r) (time_entries (mark_entries t i (map te_id (eligible_entries tdb t r)) tdb)) = []"
    unfolding mark_entries_def time_db.simps
    by (simp, rule none_left) (auto simp: eligible_entries_def selected_entry_def invoice_eligible_def)
  then show ?thesis by (simp add: eligible_entries_def)
qed

lemma no_mile_left:
  assumes "mileage_entries db' = mileage_entries db"
  shows "eligible_mileage (mark_mileage t i (map me_id (eligible_mileage db t c)) db') t c = []"
proof -
  have "filter (eligible_mile t c)
      (mileage_entries (mark_mileage t i (map me_id (eligible_mileage db t c)) db')) = []"
    unfolding mark_mileage_def
    by (simp add: assms, rule none_left) (auto simp: eligible_mileage_def eligible_mile_def)
  then show ?thesis by (simp add: eligible_mileage_def)
qed

lemma next_invoice_number_only:
  assumes "next_invoice_number draw db t c = Inr (db', n, sch)"
  obtains sqs cqs cts where "db' = db\<lparr>invoice_sequences := sqs, company_sequences := cqs, companies_tbl := cts\<rparr>"
proof (cases "read_scheme db t = CompanyPrefix")
  case True
  with assms obtain db1 p k where e: "ensure_company_prefix draw db t c = Inr (db1, p)"
    and k: "next_company_number db1 t c = Inr (db', k)"
    by (auto simp: next_invoice_number_def elim!: and_then_InrE)
  obtain cts where db1: "db1 = db\<lparr>companies_tbl := cts\<rparr>"
  proof (cases "db1 = db")
    case False
    then have "\<exists>q. assign_prefix PREFIX_ATTEMPTS False draw db t c = Inr (db1, q)"
      using e by (auto simp: ensure_company_prefix_def split: option.splits)
    then show thesis using that assign_prefix_Inr by blast
  qed (use that [of "companies_tbl db"] in simp)
  obtain cqs where db': "db' = db1\<lparr>company_sequences := cqs\<rparr>"
    using k by (auto simp: next_company_number_def split: option.splits elim!: and_then_InrE)
  show thesis by (rule that [where sqs = "invoice_sequences db" and cqs = cqs and cts = cts]) (simp add: db' db1)
next
  case False
  with assms obtain sqs where "db' = db\<lparr>invoice_sequences := sqs\<rparr>"
    by (auto simp: next_invoice_number_def next_tenant_invoice_number_def map_sum_def split: sum.splits)
  then show thesis
    by (intro that [where sqs = sqs and cqs = "company_sequences db" and cts = "companies_tbl db"]) simp
qed

text \<open>The other tables pass through the steps that raise a draft.\<close>

lemma raising_frame:
  "next_invoice_number draw db t c = Inr (db1, n, sch) \<Longrightarrow>
     mileage_entries db1 = mileage_entries db \<and> invoice_runs db1 = invoice_runs db"
  "insert_invoice db r = Inr db2 \<Longrightarrow>
     mileage_entries db2 = mileage_entries db \<and> invoice_runs db2 = invoice_runs db \<and> invoice_lines db2 = invoice_lines db"
  "apply_tax db t i a b d = Inr db3 \<Longrightarrow>
     mileage_entries db3 = mileage_entries db \<and> invoice_runs db3 = invoice_runs db \<and> invoice_lines db3 = invoice_lines db"
  by (auto simp: insert_invoice_def update_invoice_row_def split: if_splits elim!: apply_tax_Inr
      elim: next_invoice_number_only)

text \<open>The figures of a raised draft: the tax is taken over its own lines and nothing else is on it.\<close>

lemma raised_totals:
  assumes num: "next_invoice_number draw db t company = Inr (db1, number, scheme)"
    and ins: "insert_invoice db1 (raised_invoice t i number scheme company contact con d dt sub cur) = Inr db2"
    and db3: "invoices db3 = invoices db2" "invoice_lines db3 = invoice_lines db2 @ ls"
    and tax: "apply_tax db3 t i rate None 0 = Inr db4"
    and db': "invoices db' = invoices db4" "invoice_lines db' = invoice_lines db4"
    and own: "\<forall>l \<in> set ls. il_invoice l = i \<and> is_num2 (il_total l)"
    and fresh: "i \<notin> set (map inv_id (invoices db))" "\<forall>l \<in> set (invoice_lines db). il_invoice l \<noteq> i"
  obtains row where "select_invoice db' t i = Some row" "filter (\<lambda>l. il_invoice l = i) (invoice_lines db') = ls"
    "inv_subtotal row = sum_list (map il_total ls)"
    "inv_tax_amount row = num2 (sum_where il_taxable il_total ls * opt_or (inv_tax_rate row) 0 / 100)"
    "inv_total row = inv_subtotal row + inv_tax_amount row" "inv_balance_due row = inv_total row"
    "inv_status row = Draft" "inv_contract row = con" "inv_company row = company"
proof -
  let ?n = "raised_invoice t i number scheme company contact con d dt sub cur"
  note f = next_invoice_number_frame [OF num]
  have db2: "db2 = db1\<lparr>invoices := invoices db1 @ [?n]\<rparr>"
    using ins by (simp add: insert_invoice_def split: if_splits)
  have "select_one (inv_key t i) (invoices db1) = None"
    using fresh(1) f by (auto simp: select_one_None inv_key_def)
  then have sel: "select_invoice db3 t i = Some ?n"
    by (simp add: select_invoice_def db3 db2 table_simps inv_key_def)
  from tax obtain rt where db4: "db4 = update_invoice_row t i (tax_update (lines_total db3 i)
      (tax_of (taxable_total db3 i) None rt) 0) db3"
    by (rule apply_tax_Inr)
  have mine: "filter (\<lambda>l. il_invoice l = i) (invoice_lines db3) = ls"
    using own fresh(2) f by (simp add: db3 db2 filter_empty_conv)
  then have lt: "lines_total db3 i = sum_list (map il_total ls)" by (simp add: lines_total_def sum_where_def)
  have "taxable_total db3 i = sum_where il_taxable il_total (filter (\<lambda>l. il_invoice l = i) (invoice_lines db3))"
    by (simp add: taxable_total_def sum_where_def conj_commute)
  then have tt: "taxable_total db3 i = sum_where il_taxable il_total ls" by (simp only: mine)
  have n2: "is_num2 (sum_list (map il_total ls))" using own by (induction ls) auto
  have row: "select_invoice db' t i = Some (tax_update (lines_total db3 i)
      (tax_of (taxable_total db3 i) None rt) 0 ?n)"
    using select_update_this [OF _ sel, of "tax_update (lines_total db3 i) (tax_of (taxable_total db3 i) None rt) 0"]
    by (simp add: db4 [symmetric] select_invoice_def db'(1))
  have "num2 (sum_list (map il_total ls) + fst (tax_of x None rt))
      = sum_list (map il_total ls) + num2 (fst (tax_of x None rt))" for x
    using n2 by (auto simp: tax_of_def num2_id is_num2_add split: option.splits)
  then show thesis
    using n2 mine
    by (intro that [OF row])
       (auto simp: tax_update_def lt tt db' db4 num2_id, auto simp: raised_invoice_def tax_of_def split: option.splits)
qed

lemma map_enumerate_snd: "map (\<lambda>x. f (snd x)) (enumerate k xs) = map f xs"
  by (induction xs arbitrary: k) simp_all

lemma work_lines_simps:
  "map il_total (time_lines X i es) = map (\<lambda>e. num2 (snd (snd (invoice_line_figures e)))) es"
  "map il_total (mileage_lines i k ms) = map (\<lambda>m. num2 (snd (snd (mileage_figures m)))) ms"
  "concat (map il_time_entries (time_lines X i es)) = map te_id es"
  "concat (map il_time_entries (mileage_lines i k ms)) = []"
  by (simp_all add: time_lines_def mileage_lines_def comp_def case_prod_beta
      map_enumerate_snd map_enumerate_snd [where f = "\<lambda>e. num2 (snd (snd (invoice_line_figures e)))"]
      map_enumerate_snd [where f = "\<lambda>m. num2 (snd (snd (mileage_figures m)))"])

lemma work_lines_own:
  "l \<in> set (time_lines X i es @ mileage_lines i k ms) \<Longrightarrow> il_invoice l = i \<and> is_num2 (il_total l) \<and> il_taxable l"
  by (auto simp: time_lines_def mileage_lines_def)

text \<open>What the transaction leaves, read off its steps.\<close>

lemma time_invoice_result:
  assumes "create_invoice_from_time_entries X draw db tdb t today r ctx new_id = Inr (db', tdb', row)"
    and "new_id \<notin> set (map inv_id (invoices db))" and "\<forall>l \<in> set (invoice_lines db). il_invoice l \<noteq> new_id"
  defines "es \<equiv> eligible_entries tdb t r" and "ms \<equiv> eligible_mileage db t (ti_company r)"
  defines "ls \<equiv> time_lines X new_id es @ mileage_lines new_id (length es) ms"
  shows "filter (\<lambda>l. il_invoice l = new_id) (invoice_lines db') = ls"
    and "tdb' = mark_entries t new_id (map te_id es) tdb" and "eligible_mileage db' t (ti_company r) = []"
    and "inv_subtotal row = sum_list (map il_total ls)"
    and "inv_tax_amount row = num2 (inv_subtotal row * opt_or (inv_tax_rate row) 0 / 100)"
    and "inv_total row = inv_subtotal row + inv_tax_amount row"
    and "inv_balance_due row = inv_total row \<and> inv_status row = Draft \<and> inv_company row = ti_company r"
proof -
  obtain db1 number scheme contact d dt cur db2 db3 where
    num: "next_invoice_number draw db t (ti_company r) = Inr (db1, number, scheme)"
    and ins: "insert_invoice db1 (raised_invoice t new_id number scheme (ti_company r) contact (ti_contract r) d dt
       (sources_subtotal es ms) cur) = Inr db2"
    and tax: "apply_tax (add_lines ls db2) t new_id (ti_tax_rate r) None 0 = Inr db3"
    and db': "db' = audited t ctx ACreate ''invoices'' new_id (mark_mileage t new_id (map me_id ms) db3)"
    and tdb': "tdb' = mark_entries t new_id (map te_id es) tdb" and row: "load_invoice db' t new_id = Inr row"
    by (rule from_time_entries_cases [OF assms(1)]) (auto simp: es_def ms_def ls_def)
  have own: "\<forall>l \<in> set ls. il_invoice l = new_id \<and> is_num2 (il_total l)"
    using work_lines_own [of _ X new_id es "length es" ms] unfolding ls_def by blast
  have all: "sum_where il_taxable il_total ls = sum_list (map il_total ls)"
    using work_lines_own [of _ X new_id es "length es" ms] by (simp add: sum_where_def ls_def filter_id_conv)
  have steps: "invoices (add_lines ls db2) = invoices db2" "invoice_lines (add_lines ls db2) = invoice_lines db2 @ ls"
    "invoices db' = invoices db3" "invoice_lines db' = invoice_lines db3"
    by (simp_all add: add_lines_def db' mark_mileage_def audited_def)
  obtain R where R: "select_invoice db' t new_id = Some R"
      "filter (\<lambda>l. il_invoice l = new_id) (invoice_lines db') = ls" "inv_subtotal R = sum_list (map il_total ls)"
      "inv_tax_amount R = num2 (sum_where il_taxable il_total ls * opt_or (inv_tax_rate R) 0 / 100)"
      "inv_total R = inv_subtotal R + inv_tax_amount R" "inv_balance_due R = inv_total R" "inv_status R = Draft"
      "inv_company R = ti_company r"
    by (rule raised_totals [OF num ins steps(1,2) tax steps(3,4) own assms(2,3)])
  have "row = R" using row R(1) by (simp add: load_invoice_def)
  with R all show "filter (\<lambda>l. il_invoice l = new_id) (invoice_lines db') = ls"
    "inv_subtotal row = sum_list (map il_total ls)"
    "inv_tax_amount row = num2 (inv_subtotal row * opt_or (inv_tax_rate row) 0 / 100)"
    "inv_total row = inv_subtotal row + inv_tax_amount row"
    "inv_balance_due row = inv_total row \<and> inv_status row = Draft \<and> inv_company row = ti_company r" by simp_all
  have "mileage_entries db3 = mileage_entries db"
    using raising_frame(1) [OF num] raising_frame(2) [OF ins] raising_frame(3) [OF tax]
    by (simp add: add_lines_def)
  from no_mile_left [OF this] show "eligible_mileage db' t (ti_company r) = []"
    by (simp add: db' ms_def eligible_mileage_def audited_def)
  show "tdb' = mark_entries t new_id (map te_id es) tdb" by (rule tdb')
qed

section \<open>Work is billed once\<close>

definition sample_texts :: line_texts where
  "sample_texts = \<lparr> tx_date = (\<lambda>_. ''2026-01-07''), tx_decimal = (\<lambda>_. ''1.5''), tx_work_type = (\<lambda>_. ''Remote''),
     tx_ticket = (\<lambda>_. None) \<rparr>"

definition sample_mile :: mileage_entry where
  "sample_mile = \<lparr> me_id = 60, me_tenant = 7, me_company = 3, me_date = 20461, me_distance = 12, me_rate = Some (1 / 2),
     me_total = None, me_is_billable = True, me_billing_status = ''ready_to_bill'', me_invoice = None,
     me_ticket = None, me_start_address = None, me_end_address = None \<rparr>"

definition sample_driven :: bill_db where
  "sample_driven = sample_bill\<lparr>mileage_entries := [sample_mile]\<rparr>"

definition sample_time_invoice :: time_invoice_request where
  "sample_time_invoice = \<lparr> ti_company = 3, ti_billing_contact = None, ti_contract = None, ti_invoice_date = None,
     ti_due_date = None, ti_currency = None, ti_entry_ids = None, ti_tax_rate = None \<rparr>"

abbreviation sample_time_run :: "(bill_db \<times> time_db \<times> invoice) app_result" where
  "sample_time_run \<equiv> create_invoice_from_time_entries sample_texts (\<lambda>_ _. 0) sample_driven (sample_week sample_entry)
     7 20520 sample_time_invoice sample_user 102"

lemma sample_time_run_ok:
  "is_ok sample_time_run" "102 \<notin> set (map inv_id (invoices sample_driven))"
  "\<forall>l \<in> set (invoice_lines sample_driven). il_invoice l \<noteq> 102"
  "\<forall>e \<in> set (time_entries (sample_week sample_entry)). te_invoice e \<noteq> Some 102"
  by code_simp+

text \<open>
  C32. Logged time is billed once. When an invoice is generated from a company's time and mileage, the
  lines of the new invoice name exactly the entries that were eligible, in their order; exactly those
  entries then carry the invoice; and nothing eligible is left, neither time nor mileage, so that the
  same request made again is refused and raises no second invoice.
\<close>

theorem time_is_billed_once:
  assumes "create_invoice_from_time_entries X draw db tdb t today r ctx new_id = Inr (db', tdb', row)"
    and "new_id \<notin> set (map inv_id (invoices db))" and "\<forall>l \<in> set (invoice_lines db). il_invoice l \<noteq> new_id"
    and "\<forall>e \<in> set (time_entries tdb). te_invoice e \<noteq> Some new_id"
  shows "concat (map il_time_entries (filter (\<lambda>l. il_invoice l = new_id) (invoice_lines db')))
      = map te_id (eligible_entries tdb t r)
    \<and> te_id ` {e \<in> set (time_entries tdb'). te_invoice e = Some new_id} = te_id ` set (eligible_entries tdb t r)
    \<and> eligible_entries tdb' t r = [] \<and> eligible_mileage db' t (ti_company r) = []
    \<and> \<not> is_ok (create_invoice_from_time_entries X draw' db' tdb' t today' r ctx' new_id')"
proof -
  note res = time_invoice_result [OF assms(1,2,3)]
  have none: "eligible_entries tdb' t r = []" "eligible_mileage db' t (ti_company r) = []"
    using res(2,3) by (simp_all add: no_entry_left)
  then have "\<not> is_ok (create_invoice_from_time_entries X draw' db' tdb' t today' r ctx' new_id')"
    by (cases "assert_billing_company db' t (ti_company r)")
       (simp_all add: create_invoice_from_time_entries_def is_ok_def Let_def)
  moreover have "te_id ` {e \<in> set (time_entries tdb'). te_invoice e = Some new_id}
      = te_id ` set (eligible_entries tdb t r)"
  proof -
    have mine: "te_tenant e = t \<and> e \<in> set (time_entries tdb)" if "e \<in> set (eligible_entries tdb t r)" for e
      using that by (auto simp: eligible_entries_def selected_entry_def invoice_eligible_def)
    have "{e \<in> set (time_entries tdb'). te_invoice e = Some new_id}
        = (\<lambda>e. e\<lparr>te_billing_status := ''billed'', te_invoice := Some new_id\<rparr>)
          ` {e \<in> set (time_entries tdb). te_tenant e = t \<and> te_id e \<in> te_id ` set (eligible_entries tdb t r)}"
      using assms(4) by (auto simp: res(2) mark_entries_def set_update_where image_iff)
    then show ?thesis using mine by (force simp: image_iff)
  qed
  ultimately show ?thesis using none res(1) by (simp add: work_lines_simps)
qed

theorem time_is_billed_once_witness:
  "\<exists>db' tdb' row. sample_time_run = Inr (db', tdb', row)
     \<and> concat (map il_time_entries (filter (\<lambda>l. il_invoice l = 102) (invoice_lines db'))) = [30]
     \<and> eligible_mileage db' 7 3 = []
     \<and> \<not> is_ok (create_invoice_from_time_entries sample_texts (\<lambda>_ _. 0) db' tdb' 7 20521 sample_time_invoice sample_user 103)"
proof -
  obtain db' tdb' row where r: "sample_time_run = Inr (db', tdb', row)"
    using sample_time_run_ok(1) by (auto simp: is_ok_def split: sum.splits)
  have "map te_id (eligible_entries (sample_week sample_entry) 7 sample_time_invoice) = [30]"
    "ti_company sample_time_invoice = 3" by code_simp+
  with time_is_billed_once [OF r sample_time_run_ok(2-4)] r show ?thesis by auto
qed

text \<open>
  The figures of an invoice generated from time and mileage: every line is taxable, the subtotal is
  the sum of what the eligible entries and journeys come to, each rounded to the cent as its line
  stores it, the tax is the rate over that subtotal, the whole of it is owed, and the invoice is a
  draft of the company that was asked for.
\<close>

theorem time_invoice_totals:
  assumes "create_invoice_from_time_entries X draw db tdb t today r ctx new_id = Inr (db', tdb', row)"
    and "new_id \<notin> set (map inv_id (invoices db))" and "\<forall>l \<in> set (invoice_lines db). il_invoice l \<noteq> new_id"
  shows "inv_subtotal row = sum_list (map (\<lambda>e. num2 (snd (snd (invoice_line_figures e)))) (eligible_entries tdb t r))
      + sum_list (map (\<lambda>m. num2 (snd (snd (mileage_figures m)))) (eligible_mileage db t (ti_company r)))
    \<and> inv_tax_amount row = num2 (inv_subtotal row * opt_or (inv_tax_rate row) 0 / 100)
    \<and> inv_total row = inv_subtotal row + inv_tax_amount row \<and> inv_balance_due row = inv_total row
    \<and> inv_status row = Draft \<and> inv_company row = ti_company r"
  using time_invoice_result [OF assms] by (simp add: work_lines_simps)

theorem time_invoice_totals_witness:
  "\<exists>db' tdb' row. sample_time_run = Inr (db', tdb', row) \<and> inv_subtotal row = 186 \<and> inv_balance_due row = inv_total row"
proof -
  obtain db' tdb' row where r: "sample_time_run = Inr (db', tdb', row)"
    using sample_time_run_ok(1) by (auto simp: is_ok_def split: sum.splits)
  have "sum_list (map (\<lambda>e. num2 (snd (snd (invoice_line_figures e))))
         (eligible_entries (sample_week sample_entry) 7 sample_time_invoice))
      + sum_list (map (\<lambda>m. num2 (snd (snd (mileage_figures m))))
         (eligible_mileage sample_driven 7 (ti_company sample_time_invoice))) = 186" by code_simp
  with time_invoice_totals [OF r sample_time_run_ok(2,3)] r show ?thesis by metis
qed

section \<open>Claims on one-off items\<close>

text \<open>Claiming touches nothing but the billed mark of an item, and never takes one away.\<close>

definition claimed_from :: "billing_item \<Rightarrow> billing_item \<Rightarrow> bool" where
  "claimed_from x x' \<longleftrightarrow> x' = x \<or> (\<exists>n. x' = x\<lparr>bit_billed_at := Some n\<rparr>)"

lemma claimed_fromD:
  "claimed_from x x' \<Longrightarrow> bit_id x' = bit_id x \<and> bit_tenant x' = bit_tenant x \<and> bit_contract x' = bit_contract x
     \<and> bit_rule x' = bit_rule x \<and> (bit_billed_at x \<noteq> None \<longrightarrow> bit_billed_at x' \<noteq> None)"
  by (auto simp: claimed_from_def)

lemma claimed_from_trans [trans]: "claimed_from x y \<Longrightarrow> claimed_from y z \<Longrightarrow> claimed_from x z"
  by (auto simp: claimed_from_def)

lemma claimed_rows_refl [simp]: "list_all2 claimed_from xs xs"
  by (simp add: list_all2_refl claimed_from_def)

lemma claimed_row: "list_all2 claimed_from xs (update_where p (\<lambda>x. x\<lparr>bit_billed_at := Some now\<rparr>) xs)"
  by (auto simp: update_where_def list_all2_map2 claimed_from_def intro: list_all2_refl)

lemma claim_items_rows: "claim_items t now ys xs = Some xs' \<Longrightarrow> list_all2 claimed_from xs xs'"
proof (induction t now ys xs rule: claim_items.induct)
  case (2 t now y ys xs)
  let ?u = "update_where (claimable t (bit_id y)) (\<lambda>x. x\<lparr>bit_billed_at := Some now\<rparr>) xs"
  from 2 consider "list_all2 claimed_from ?u xs'" | "list_all2 claimed_from xs xs'"
    by (auto split: if_splits)
  then show ?case
    by cases (auto intro: list_all2_trans [OF claimed_from_trans claimed_row])
qed simp

lemma claimed_rows_ids: "list_all2 claimed_from xs xs' \<Longrightarrow> map bit_id xs' = map bit_id xs"
  by (induction rule: list_all2_induct) (auto dest: claimed_fromD)

lemma claimed_rows_none_due:
  assumes "list_all2 claimed_from xs xs'" and "filter (due_item t c) xs = []"
  shows "filter (due_item t c) xs' = []"
  using assms by (induction rule: list_all2_induct) (auto simp: due_item_def dest!: claimed_fromD split: if_splits)

lemma claimed_row_marked:
  assumes "x \<in> set (update_where (claimable t i) (\<lambda>x. x\<lparr>bit_billed_at := Some now\<rparr>) xs)"
    and "bit_id x = i" "bit_tenant x = t"
  shows "bit_billed_at x \<noteq> None"
proof -
  obtain r where r: "x = (if claimable t i r then r\<lparr>bit_billed_at := Some now\<rparr> else r)"
    using assms(1) by (rule in_update_whereE)
  show ?thesis
  proof (cases "claimable t i r")
    case False
    with r have "x = r" by simp
    with False assms(2,3) show ?thesis by (simp add: claimable_def)
  qed (simp add: r)
qed

lemma claim_items_marks:
  assumes "claim_items t now ys xs = Some xs'" and "y \<in> set ys" "bit_rule y = ''once''"
    and "x' \<in> set xs'" "bit_id x' = bit_id y" "bit_tenant x' = t"
  shows "bit_billed_at x' \<noteq> None"
  using assms
proof (induction t now ys xs rule: claim_items.induct)
  case (2 t now z ys xs)
  show ?case
  proof (cases "y = z")
    case True
    let ?u = "update_where (claimable t (bit_id y)) (\<lambda>x. x\<lparr>bit_billed_at := Some now\<rparr>) xs"
    from 2(3,5) True have "claim_items t now ys ?u = Some xs'" by (simp split: if_splits)
    then have "list_all2 claimed_from ?u xs'" by (rule claim_items_rows)
    then obtain x where x: "x \<in> set ?u" "claimed_from x x'"
      using 2(6) by (metis in_set_conv_nth list_all2_conv_all_nth)
    have "bit_id x = bit_id y \<and> bit_tenant x = t" using claimed_fromD [OF x(2)] 2(7,8) by simp
    with claimed_row_marked [OF x(1)] have "bit_billed_at x \<noteq> None" by simp
    with claimed_fromD [OF x(2)] show ?thesis by blast
  next
    case False
    then have y: "y \<in> set ys" using 2(4) by simp
    show ?thesis
    proof (cases "bit_rule z = ''once''")
      case True
      with 2(3) have "list_ex (claimable t (bit_id z)) xs" by (simp split: if_splits)
      with 2(1) 2(3,5-8) y True show ?thesis by simp
    next
      case False
      with 2(2) 2(3,5-8) y show ?thesis by simp
    qed
  qed
qed simp

lemma claim_items_succeed:
  assumes "distinct (map bit_id ys)" and "\<forall>y \<in> set ys. bit_rule y = ''once'' \<longrightarrow> list_ex (claimable t (bit_id y)) xs"
  shows "\<exists>xs'. claim_items t now ys xs = Some xs'"
  using assms
proof (induction ys arbitrary: xs)
  case (Cons z ys)
  let ?u = "update_where (claimable t (bit_id z)) (\<lambda>x. x\<lparr>bit_billed_at := Some now\<rparr>) xs"
  have "list_ex (claimable t (bit_id y)) ?u" if y: "y \<in> set ys" "bit_rule y = ''once''" for y
  proof -
    from y Cons.prems obtain x where "x \<in> set xs" "claimable t (bit_id y) x" by (auto simp: list_ex_iff)
    moreover have "bit_id y \<noteq> bit_id z" using imageI [OF y(1), of bit_id] Cons.prems(1) by auto
    ultimately show ?thesis by (auto simp: list_ex_iff set_update_where claimable_def)
  qed
  with Cons show ?case by auto
qed simp

section \<open>A period is billed once\<close>

lemma period_billed_mono:
  "period_billed db t c d \<Longrightarrow> set (invoice_runs db) \<subseteq> set (invoice_runs db') \<Longrightarrow> period_billed db' t c d"
  by (auto simp: period_billed_def list_ex_iff)

lemma set_due_items [simp]: "set (due_items collate xs t c) = {x \<in> set xs. due_item t c x}"
  by (auto simp: due_items_def)

lemma due_items_Nil: "due_items collate xs t c = [] \<longleftrightarrow> filter (due_item t c) xs = []"
  by (simp add: due_items_def)

text \<open>Either nothing happened, or the run is on record and the items are claimed.\<close>

lemma generate_one_outcome:
  assumes "generate_one_recurring_invoice collate draw db xs t c company period today ctx new_id now = Inr (db', xs', made)"
  obtains (nothing) "db' = db" "xs' = xs" "made = None"
  | (raised) "made = Some new_id" "\<not> period_billed db t c (fst period)" "claim_items t now (due_items collate xs t c) xs = Some xs'"
    "invoice_runs db' = invoice_runs db @ [\<lparr> ir_tenant = t, ir_contract = c, ir_invoice = new_id,
       ir_period_start = fst period, ir_period_end = snd period \<rparr>]"
  using assms
proof (cases rule: generate_one_cases)
  case (2 db1 number scheme contact dt cur db2 db4 ys)
  have "invoice_runs db2 = invoice_runs db" using raising_frame(1) [OF 2(3)] raising_frame(2) [OF 2(4)] by simp
  moreover have "invoice_runs db4 = invoice_runs db2 @ [\<lparr> ir_tenant = t, ir_contract = c, ir_invoice = new_id,
      ir_period_start = fst period, ir_period_end = snd period \<rparr>]"
    using raising_frame(3) [OF 2(7)] by (simp add: add_lines_def)
  ultimately show ?thesis
    using 2 by (intro raised) (simp_all add: period_billed_def audited_def)
qed (rule nothing)

lemma period_billed_run [simp]:
  "invoice_runs db' = rs @ [\<lparr> ir_tenant = t, ir_contract = c, ir_invoice = i, ir_period_start = d, ir_period_end = e \<rparr>]
    \<Longrightarrow> period_billed db' t c d"
  by (simp add: period_billed_def)

lemma generate_one_settled:
  assumes "generate_one_recurring_invoice collate draw db xs t c company period today ctx new_id now = Inr (db', xs', made)"
    and "period_billed db t c (fst period) \<or> filter (due_item t c) xs = []"
  shows "db' = db \<and> xs' = xs \<and> made = None"
proof (cases "filter (due_item t c) xs = []")
  case True
  with assms(1) show ?thesis by (simp add: generate_one_recurring_invoice_def due_items_def)
next
  case False
  with assms(2) have billed: "period_billed db t c (fst period)" by blast
  from assms(1) show ?thesis by (rule generate_one_outcome) (use billed in auto)
qed

lemma once_items_claimed:
  assumes "claim_items t now (due_items collate xs t c) xs = Some xs'"
    and "x \<in> set xs'" "bit_tenant x = t" "bit_contract x = c" "bit_rule x = ''once''"
  shows "bit_billed_at x \<noteq> None"
proof
  assume open_: "bit_billed_at x = None"
  obtain y where y: "y \<in> set xs" "claimed_from y x"
    using claim_items_rows [OF assms(1)] assms(2) by (metis in_set_conv_nth list_all2_conv_all_nth)
  note d = claimed_fromD [OF y(2)]
  have "due_item t c y" using d open_ assms(3-5) by (auto simp: due_item_def)
  with claim_items_marks [OF assms(1), of y x] y(1) d assms(2,3,5) open_ show False by auto
qed

definition sample_item :: billing_item where
  "sample_item = \<lparr> bit_id = 70, bit_tenant = 7, bit_contract = 1, bit_name = ''Onboarding'', bit_quantity = 1,
     bit_unit_price = 250, bit_product = None, bit_rule = ''once'', bit_billed_at = None, bit_sort_order = 0 \<rparr>"

definition sample_items :: "billing_item list" where
  "sample_items = [sample_item, sample_item\<lparr>bit_id := 71, bit_name := ''Monitoring'', bit_rule := ''every_period''\<rparr>]"

text \<open>
  C33. A contract's period is invoiced at most once, and a one-off item at most once. When the recurring
  step raises an invoice, the period was not on record before and is afterwards, and no one-off item
  of the contract is left open. In every later state that has kept the record, the step for the same
  period raises nothing and changes nothing, whatever items the contract has by then.
\<close>

theorem recurring_period_billed_once:
  assumes "generate_one_recurring_invoice collate draw db xs t c company period today ctx new_id now = Inr (db', xs', Some i)"
  shows "\<not> period_billed db t c (fst period) \<and> period_billed db' t c (fst period)
    \<and> (\<forall>x \<in> set xs'. bit_tenant x = t \<and> bit_contract x = c \<and> bit_rule x = ''once'' \<longrightarrow> bit_billed_at x \<noteq> None)
    \<and> (set (invoice_runs db') \<subseteq> set (invoice_runs db2) \<and> fst period2 = fst period \<longrightarrow>
         (case generate_one_recurring_invoice collate2 draw2 db2 xs2 t c company2 period2 today2 ctx2 id2 now2 of
            Inl _ \<Rightarrow> True | Inr res \<Rightarrow> res = (db2, xs2, None)))"
  using assms
proof (rule generate_one_outcome)
  assume claim: "claim_items t now (due_items collate xs t c) xs = Some xs'"
    and new: "\<not> period_billed db t c (fst period)"
    and run: "invoice_runs db' = invoice_runs db @ [\<lparr> ir_tenant = t, ir_contract = c, ir_invoice = new_id,
       ir_period_start = fst period, ir_period_end = snd period \<rparr>]"
  have "(case generate_one_recurring_invoice collate2 draw2 db2 xs2 t c company2 period2 today2 ctx2 id2 now2 of
            Inl _ \<Rightarrow> True | Inr res \<Rightarrow> res = (db2, xs2, None))"
    if "set (invoice_runs db') \<subseteq> set (invoice_runs db2)" "fst period2 = fst period"
    using generate_one_settled [of collate2 draw2 db2 xs2 t c company2 period2 today2 ctx2 id2 now2]
      period_billed_mono [OF period_billed_run [OF run] that(1)] that(2)
    by (auto split: sum.split prod.split)
  with new period_billed_run [OF run] once_items_claimed [OF claim] show ?thesis by blast
qed simp

theorem recurring_period_billed_once_witness:
  "\<exists>db' xs'. generate_one_recurring_invoice length (\<lambda>_ _. 0) sample_bill sample_items 7 1 3 (20454, 20484) 20520
       sample_user 102 1771300000 = Inr (db', xs', Some 102)
     \<and> period_billed db' 7 1 20454 \<and> (\<forall>x \<in> set xs'. bit_tenant x = 7 \<and> bit_contract x = 1 \<and> bit_rule x = ''once'' \<longrightarrow> bit_billed_at x \<noteq> None)"
proof -
  let ?g = "generate_one_recurring_invoice length (\<lambda>_ _. 0) sample_bill sample_items 7 1 3 (20454, 20484) 20520
       sample_user 102 1771300000"
  have "map_sum id (snd \<circ> snd) ?g = Inr (Some 102)" by code_simp
  then obtain db' xs' where g: "?g = Inr (db', xs', Some 102)" by (auto simp: map_sum_def split: sum.splits)
  from recurring_period_billed_once [OF g] g show ?thesis by auto
qed

section \<open>A repeated run\<close>

text \<open>A contract is settled for a day when its period is on record or has nothing to bill.\<close>

definition settled :: "cal \<Rightarrow> date \<Rightarrow> tenant \<Rightarrow> run_db \<Rightarrow> contract \<Rightarrow> bool" where
  "settled C today t s c \<longleftrightarrow> (case period_to_bill C today c of None \<Rightarrow> True | Some p \<Rightarrow>
     period_billed (run_bill s) t (c_id c) (fst p) \<or> filter (due_item t (c_id c)) (run_items s) = [])"

text \<open>Later states of a run: the record of runs grows, items are only claimed, contracts and zones stay.\<close>

definition run_later :: "run_db \<Rightarrow> run_db \<Rightarrow> bool" where
  "run_later s s' \<longleftrightarrow> set (invoice_runs (run_bill s)) \<subseteq> set (invoice_runs (run_bill s'))
     \<and> list_all2 claimed_from (run_items s) (run_items s')
     \<and> contracts (run_time s') = contracts (run_time s) \<and> business_zones s' = business_zones s"

lemma run_later_refl [simp]: "run_later s s"
  by (simp add: run_later_def)

lemma run_later_trans: "run_later a b \<Longrightarrow> run_later b c \<Longrightarrow> run_later a c"
  unfolding run_later_def using list_all2_trans [of claimed_from claimed_from claimed_from, OF claimed_from_trans] by auto

lemma settled_later: "settled C today t s c \<Longrightarrow> run_later s s' \<Longrightarrow> settled C today t s' c"
  by (auto simp: settled_def run_later_def split: option.splits dest: period_billed_mono claimed_rows_none_due)

lemma roll_closing_contracts: "roll_closing C tdb t c d bal = Inr tdb' \<Longrightarrow> contracts tdb' = contracts tdb"
  by (auto simp: roll_closing_def roll_to_next_period_def Let_def split: option.splits sum.splits if_splits prod.splits
      app_error.splits)

lemma generate_one_later:
  assumes "generate_one_recurring_invoice collate draw (run_bill s) (run_items s) t c company period today ctx new_id now
      = Inr (db', xs', made)"
  shows "run_later s (s\<lparr>run_bill := db', run_items := xs'\<rparr>)"
  using assms by (rule generate_one_outcome) (auto simp: run_later_def dest: claim_items_rows)

lemma generate_one_settles:
  assumes "generate_one_recurring_invoice collate draw (run_bill s) (run_items s) t (c_id c) company period today ctx new_id now
      = Inr (db', xs', made)"
    and "period_to_bill C today' c = Some period" and "distinct (map bit_id (run_items s))"
  shows "settled C today' t (s\<lparr>run_bill := db', run_items := xs'\<rparr>) c"
  using assms(1)
proof (rule generate_one_outcome)
  assume same: "db' = run_bill s" "xs' = run_items s" "made = None"
  let ?ys = "due_items collate (run_items s) t (c_id c)"
  have "distinct (map bit_id ?ys)"
    using assms(3) by (auto simp: due_items_def distinct_map intro: inj_on_subset)
  moreover have "\<forall>y \<in> set ?ys. bit_rule y = ''once'' \<longrightarrow> list_ex (claimable t (bit_id y)) (run_items s)"
    by (auto simp: due_item_def list_ex_iff claimable_def)
  ultimately obtain zs where zs: "claim_items t now ?ys (run_items s) = Some zs"
    using claim_items_succeed by blast
  show ?thesis
  proof (rule ccontr)
    assume "\<not> ?thesis"
    then have open_: "\<not> period_billed (run_bill s) t (c_id c) (fst period)" "?ys \<noteq> []"
      by (auto simp: settled_def assms(2) same due_items_Nil)
    from assms(1) same open_ zs show False
      by (auto simp: generate_one_recurring_invoice_def Let_def map_sum_def period_billed_def
          split: if_splits sum.splits elim!: and_then_InrE dest!: raising_frame(1,2))
  qed
next
  assume run: "invoice_runs db' = invoice_runs (run_bill s) @ [\<lparr> ir_tenant = t, ir_contract = c_id c, ir_invoice = new_id,
       ir_period_start = fst period, ir_period_end = snd period \<rparr>]"
  show ?thesis using period_billed_run [OF run] by (simp add: settled_def assms(2))
qed

lemma run_contracts_Cons_cases:
  assumes "run_contracts C collate draw ids t today ctx now (c # cs) s = (s', res)"
  obtains (skip) "period_to_bill C today c = None" "run_contracts C collate draw ids t today ctx now cs s = (s', res)"
  | (roll) period e where "period_to_bill C today c = Some period" "s' = s" "res = Inl e"
  | (refused) period tdb e where "period_to_bill C today c = Some period"
    "roll_closing C (run_time s) t (c_id c) (fst period) (snd (ids (c_id c))) = Inr tdb"
    "s' = s\<lparr>run_time := tdb\<rparr>" "res = Inl e"
  | (made) period tdb db xs made r where "period_to_bill C today c = Some period"
    "roll_closing C (run_time s) t (c_id c) (fst period) (snd (ids (c_id c))) = Inr tdb"
    "generate_one_recurring_invoice collate draw (run_bill s) (run_items s) t (c_id c) (c_company c) period today ctx
       (fst (ids (c_id c))) now = Inr (db, xs, made)"
    "run_contracts C collate draw ids t today ctx now cs (s\<lparr>run_time := tdb, run_bill := db, run_items := xs\<rparr>) = (s', r)"
    "res = map_sum id (\<lambda>created. case made of None \<Rightarrow> created | Some i \<Rightarrow> i # created) r"
proof (cases "period_to_bill C today c")
  case None
  with assms skip show thesis by simp
next
  case (Some period)
  let ?roll = "roll_closing C (run_time s) t (c_id c) (fst period) (snd (ids (c_id c)))"
  let ?g = "generate_one_recurring_invoice collate draw (run_bill s) (run_items s) t (c_id c) (c_company c) period
      today ctx (fst (ids (c_id c))) now"
  consider e where "?roll = Inl e" | tdb e where "?roll = Inr tdb" "?g = Inl e"
    | tdb db xs m where "?roll = Inr tdb" "?g = Inr (db, xs, m)"
    by (metis obj_sumE surj_pair)
  then show thesis
  proof cases
    case 1
    with assms Some show thesis by (intro roll [where e = e]) auto
  next
    case 2
    with assms Some show thesis by (intro refused [where e = e]) auto
  next
    case 3
    obtain s2 r where r: "run_contracts C collate draw ids t today ctx now cs
        (s\<lparr>run_time := tdb, run_bill := db, run_items := xs\<rparr>) = (s2, r)" by fastforce
    with assms Some 3 have "s' = s2" "res = map_sum id (\<lambda>created. case m of None \<Rightarrow> created | Some i \<Rightarrow> i # created) r"
      by (auto split: sum.splits)
    with Some 3 r show thesis by (intro made) simp_all
  qed
qed

lemma run_contracts_later:
  "run_contracts C collate draw ids t today ctx now cs s = (s', res) \<Longrightarrow> run_later s s'"
proof (induction cs arbitrary: s s' res)
  case (Cons c cs)
  from Cons.prems show ?case
  proof (cases rule: run_contracts_Cons_cases)
    case (refused period tdb e)
    then show ?thesis using roll_closing_contracts by (auto simp: run_later_def)
  next
    case (made period tdb db xs made r)
    have "run_later s (s\<lparr>run_time := tdb\<rparr>)"
      using roll_closing_contracts [OF made(2)] by (simp add: run_later_def)
    moreover have "run_later (s\<lparr>run_time := tdb\<rparr>) (s\<lparr>run_time := tdb, run_bill := db, run_items := xs\<rparr>)"
      using made(3) generate_one_later [of _ _ "s\<lparr>run_time := tdb\<rparr>"] by simp
    ultimately show ?thesis using Cons.IH [OF made(4)] by (blast intro: run_later_trans)
  qed (use Cons.IH in auto)
qed simp

lemma run_contracts_settles:
  assumes "run_contracts C collate draw ids t today ctx now cs s = (s', Inr created)"
    and "distinct (map bit_id (run_items s))"
  shows "\<forall>c \<in> set cs. settled C today t s' c"
  using assms
proof (induction cs arbitrary: s created)
  case (Cons c cs)
  from Cons.prems(1) show ?case
  proof (cases rule: run_contracts_Cons_cases)
    case skip
    with Cons.IH [OF skip(2) Cons.prems(2)] show ?thesis by (simp add: settled_def)
  next
    case (made period tdb db xs made r)
    let ?s1 = "s\<lparr>run_time := tdb\<rparr>" and ?s2 = "s\<lparr>run_time := tdb, run_bill := db, run_items := xs\<rparr>"
    from made(5) obtain cr where r: "r = Inr cr" by (cases r) auto
    have later: "run_later ?s1 ?s2" using made(3) generate_one_later [of _ _ ?s1] by simp
    then have "distinct (map bit_id (run_items ?s2))"
      using Cons.prems(2) claimed_rows_ids by (fastforce simp: run_later_def)
    moreover have "settled C today t ?s2 c"
      using generate_one_settles [of _ _ ?s1 _ c, OF _ made(1)] made(3) Cons.prems(2) by simp
    ultimately show ?thesis
      using Cons.IH [OF made(4) [unfolded r]] settled_later run_contracts_later [OF made(4)] by auto
  qed auto
qed simp

lemma run_contracts_settled:
  assumes "run_contracts C collate draw ids t today ctx now cs s = (s', res)" and "\<forall>c \<in> set cs. settled C today t s c"
  shows "run_bill s' = run_bill s \<and> run_items s' = run_items s \<and> (\<forall>created. res = Inr created \<longrightarrow> created = [])"
  using assms
proof (induction cs arbitrary: s res)
  case (Cons c cs)
  from Cons.prems(1) show ?case
  proof (cases rule: run_contracts_Cons_cases)
    case (made period tdb db xs made r)
    have same: "db = run_bill s \<and> xs = run_items s \<and> made = None"
      using generate_one_settled [OF made(3)] Cons.prems(2) made(1) by (simp add: settled_def)
    have "settled C today t (s\<lparr>run_time := tdb, run_bill := db, run_items := xs\<rparr>) d" if "d \<in> set cs" for d
      using Cons.prems(2) same that by (auto simp: settled_def split: option.splits)
    with Cons.IH [OF made(4)] made(5) same show ?thesis by (cases r) auto
  qed (use Cons in auto)
qed simp

text \<open>
  C34. The recurring run can be repeated. A second run on the same day of the tenant, started from where a
  completed run left the data, creates no invoice and leaves every billing table and every contract
  item as it is, with whatever random choices and identifiers it draws and even when it stops with
  an error. (Each row of the item table has an identifier of its own.)
\<close>

theorem second_run_creates_nothing:
  assumes "generate_due_recurring_invoices C local_date collate draw ids s t now ctx = (s1, Inr created)"
    and "generate_due_recurring_invoices C local_date collate2 draw2 ids2 s1 t now2 ctx2 = (s2, res)"
    and "local_date (read_tenant_zone s t) now2 = local_date (read_tenant_zone s t) now"
    and "distinct (map bit_id (run_items s))"
  shows "run_bill s2 = run_bill s1 \<and> run_items s2 = run_items s1 \<and> (\<forall>again. res = Inr again \<longrightarrow> again = [])"
proof -
  let ?today = "local_date (read_tenant_zone s t) now"
  have run: "run_contracts C collate draw ids t ?today ctx now (due_contracts s t ?today) s = (s1, Inr created)"
    using assms(1) by (simp add: generate_due_recurring_invoices_def Let_def)
  note later = run_contracts_later [OF run]
  have "read_tenant_zone s1 t = read_tenant_zone s t" "due_contracts s1 t ?today = due_contracts s t ?today"
    using later by (simp_all add: run_later_def read_tenant_zone_def due_contracts_def)
  then have again: "run_contracts C collate2 draw2 ids2 t ?today ctx2 now2 (due_contracts s t ?today) s1 = (s2, res)"
    using assms(2,3) by (simp add: generate_due_recurring_invoices_def Let_def)
  show ?thesis
    by (rule run_contracts_settled [OF again]) (use run_contracts_settles [OF run assms(4)] in blast)
qed

definition sample_run :: run_db where
  "sample_run = \<lparr> run_bill = sample_bill, run_time = sample_week sample_entry, run_items = sample_items,
     business_zones = [(7, ''Europe/Berlin'')] \<rparr>"

theorem second_run_creates_nothing_witness:
  "\<exists>s1 s2 res. generate_due_recurring_invoices gregorian (\<lambda>_ now. now div 86400) length (\<lambda>_ _. 0) (\<lambda>c. (c + 200, c + 300))
       sample_run 7 1771300000 sample_user = (s1, Inr [201])
     \<and> generate_due_recurring_invoices gregorian (\<lambda>_ now. now div 86400) length (\<lambda>_ _. 0) (\<lambda>c. (c + 400, c + 500))
         s1 7 1771300060 sample_user = (s2, res) \<and> run_bill s2 = run_bill s1"
proof -
  let ?run = "\<lambda>ids s now. generate_due_recurring_invoices gregorian (\<lambda>_ now. now div 86400) length (\<lambda>_ _. 0) ids s 7 now sample_user"
  let ?s1 = "fst (?run (\<lambda>c. (c + 200, c + 300)) sample_run 1771300000)"
  have "snd (?run (\<lambda>c. (c + 200, c + 300)) sample_run 1771300000) = Inr [201]" by code_simp
  then have 1: "?run (\<lambda>c. (c + 200, c + 300)) sample_run 1771300000 = (?s1, Inr [201])" by (simp add: prod_eq_iff)
  obtain s2 res where 2: "?run (\<lambda>c. (c + 400, c + 500)) ?s1 1771300060 = (s2, res)" by fastforce
  have "distinct (map bit_id (run_items sample_run))" by code_simp
  with second_run_creates_nothing [OF 1 2] have "run_bill s2 = run_bill ?s1" by simp
  with 1 2 show ?thesis by blast
qed

end
