(* ===== verification/Sla_Clock.thy ===== *)
theory Sla_Clock
  imports Calendar Time_Rules Pagination
begin

text \<open>
  The business-hours clock of src/src/modules/sla/clock.rs and the write-time checks of
  src/src/modules/sla/models.rs that guard what it reads. An instant of this theory is a number of
  microseconds, the resolution of a timestamp column, and so is a time of day. A time zone is what
  the clock asks of chrono-tz: the local reading of an instant and the earliest instant with a local
  reading, if there is one. The text parsers of chrono are parameters. Hours are exact: the budget in
  seconds is rounded from a value of at most two decimals, where the floating-point product is exact
  after rounding.
\<close>

section \<open>Time\<close>

definition SECOND :: int where "SECOND = 1000000"
definition MINUTE :: int where "MINUTE = 60000000"
definition DAY :: int where "DAY = 86400000000"

record zone =
  zn_local :: "instant \<Rightarrow> int"
  zn_earliest :: "int \<Rightarrow> instant option"

definition fixed_zone :: "int \<Rightarrow> zone" where
  "fixed_zone offset = \<lparr> zn_local = (\<lambda>i. i + offset), zn_earliest = (\<lambda>n. Some (n - offset)) \<rparr>"

definition UTC :: zone where "UTC = fixed_zone 0"

definition date_naive :: "zone \<Rightarrow> instant \<Rightarrow> date" where
  "date_naive Z i = zn_local Z i div DAY"

record chrono_text =
  ct_time :: "string \<Rightarrow> string \<Rightarrow> int option"
  ct_date :: "string \<Rightarrow> string \<Rightarrow> date option"
  ct_zone :: "string \<Rightarrow> zone option"

text \<open>A value of serde\_json; the entries of an object come in the order of their keys.\<close>

datatype json = JNull | JBool bool | JNum rat | JStr string | JArr "json list" | JObj "(string \<times> json) list"

definition json_get :: "json \<Rightarrow> string \<Rightarrow> json option" where
  "json_get v k = (case v of JObj es \<Rightarrow> map_of es k | _ \<Rightarrow> None)"

definition as_str :: "json \<Rightarrow> string option" where
  "as_str v = (case v of JStr s \<Rightarrow> Some s | _ \<Rightarrow> None)"

section \<open>Schedules\<close>

datatype operational_hours = Always | BusinessHours

definition operational_from_db :: "string \<Rightarrow> operational_hours" where
  "operational_from_db s = (if to_lowercase s = ''24x7'' then Always else BusinessHours)"

record window =
  win_start :: int
  win_end :: int

record business_schedule =
  sch_tz :: zone
  sch_days :: "nat \<Rightarrow> window list option"

definition has_any_window :: "business_schedule \<Rightarrow> bool" where
  "has_any_window S \<longleftrightarrow> list_ex (\<lambda>d. opt_or (sch_days S d) [] \<noteq> []) [0..<7]"

definition windows :: "business_schedule \<Rightarrow> nat \<Rightarrow> window list" where
  "windows S d = opt_or (sch_days S d) []"

definition from_windows :: "zone \<Rightarrow> (nat \<times> (int \<times> int) list) list \<Rightarrow> business_schedule" where
  "from_windows Z days = \<lparr> sch_tz = Z, sch_days = fold (\<lambda>(d, ws) m.
     let vs = sort_key win_start (map (\<lambda>(s, e). \<lparr> win_start = s, win_end = e \<rparr>) (filter (\<lambda>(s, e). e > s) ws))
     in if vs = [] then m else m(d := Some vs)) days (\<lambda>_. None) \<rparr>"

definition parse_weekday_key :: "string \<Rightarrow> nat option" where
  "parse_weekday_key key =
     (let k = trim key in
      if k \<in> {''0'', ''sun'', ''sunday''} then Some 0
      else if k \<in> {''1'', ''mon'', ''monday''} then Some 1
      else if k \<in> {''2'', ''tue'', ''tuesday''} then Some 2
      else if k \<in> {''3'', ''wed'', ''wednesday''} then Some 3
      else if k \<in> {''4'', ''thu'', ''thursday''} then Some 4
      else if k \<in> {''5'', ''fri'', ''friday''} then Some 5
      else if k \<in> {''6'', ''sat'', ''saturday''} then Some 6
      else None)"

definition parse_hhmm :: "chrono_text \<Rightarrow> string \<Rightarrow> int option" where
  "parse_hhmm T s = (case ct_time T ''%H:%M'' s of Some v \<Rightarrow> Some v | None \<Rightarrow> ct_time T ''%H:%M:%S'' s)"

definition parse_time_field :: "chrono_text \<Rightarrow> json \<Rightarrow> string \<Rightarrow> int option" where
  "parse_time_field T v k = Option.bind (json_get v k) (\<lambda>f. Option.bind (as_str f) (parse_hhmm T))"

definition parse_window :: "chrono_text \<Rightarrow> json \<Rightarrow> window option" where
  "parse_window T v =
     Option.bind (parse_time_field T v ''start'') (\<lambda>s.
     Option.bind (parse_time_field T v ''end'') (\<lambda>e.
       if e > s then Some \<lparr> win_start = s, win_end = e \<rparr> else None))"

definition parse_windows :: "chrono_text \<Rightarrow> json \<Rightarrow> window list" where
  "parse_windows T v =
     (case v of
        JArr items \<Rightarrow> List.map_filter (parse_window T) items
      | JObj _ \<Rightarrow> (case parse_window T v of None \<Rightarrow> [] | Some w \<Rightarrow> [w])
      | _ \<Rightarrow> [])"

definition add_day :: "chrono_text \<Rightarrow> string \<times> json \<Rightarrow> (nat \<Rightarrow> window list option) \<Rightarrow> nat \<Rightarrow> window list option" where
  "add_day T entry m =
     (case parse_weekday_key (fst entry) of
        None \<Rightarrow> m
      | Some d \<Rightarrow>
          let ws = sort_key win_start (parse_windows T (snd entry))
          in if ws = [] then m else m(d := Some (opt_or (m d) [] @ ws)))"

definition parse_schedule :: "chrono_text \<Rightarrow> string \<Rightarrow> json \<Rightarrow> business_schedule" where
  "parse_schedule T timezone schedule =
     \<lparr> sch_tz = opt_or (ct_zone T timezone) UTC,
       sch_days = (case schedule of JObj es \<Rightarrow> fold (add_day T) es (\<lambda>_. None) | _ \<Rightarrow> (\<lambda>_. None)) \<rparr>"

definition holiday_text :: "json \<Rightarrow> string option" where
  "holiday_text v =
     (case v of JStr s \<Rightarrow> Some s | JObj _ \<Rightarrow> Option.bind (json_get v ''date'') as_str | _ \<Rightarrow> None)"

definition parse_holiday :: "chrono_text \<Rightarrow> json \<Rightarrow> date option" where
  "parse_holiday T v = Option.bind (holiday_text v) (ct_date T ''%Y-%m-%d'')"

definition parse_holidays :: "chrono_text \<Rightarrow> json \<Rightarrow> date list" where
  "parse_holidays T v = (case v of JArr items \<Rightarrow> List.map_filter (parse_holiday T) items | _ \<Rightarrow> [])"

section \<open>Checks at write time\<close>

definition validate_schedule_window :: "chrono_text \<Rightarrow> json \<Rightarrow> unit app_result" where
  "validate_schedule_window T v =
     (case v of
        JObj _ \<Rightarrow>
          (case (Option.bind (json_get v ''start'') as_str, Option.bind (json_get v ''end'') as_str) of
             (Some s, Some e) \<Rightarrow>
               (case (parse_hhmm T s, parse_hhmm T e) of
                  (Some s', Some e') \<Rightarrow>
                    if e' \<le> s' then Inl (Validation ''must have end after start'') else Inr ()
                | _ \<Rightarrow> Inl (Validation ''has an unparseable time''))
           | _ \<Rightarrow> Inl (Validation ''needs string start and end times''))
      | _ \<Rightarrow> Inl (Validation ''must be a start, end object''))"

fun validate_all :: "('a \<Rightarrow> unit app_result) \<Rightarrow> 'a list \<Rightarrow> unit app_result" where
  "validate_all f [] = Inr ()"
| "validate_all f (x # xs) = and_then (f x) (\<lambda>_. validate_all f xs)"

definition validate_schedule_day :: "chrono_text \<Rightarrow> json \<Rightarrow> unit app_result" where
  "validate_schedule_day T v =
     (case v of
        JNull \<Rightarrow> Inr ()
      | JObj _ \<Rightarrow> validate_schedule_window T v
      | JArr items \<Rightarrow> validate_all (validate_schedule_window T) items
      | _ \<Rightarrow> Inl (Validation ''must be null, a window or an array of windows''))"

definition validate_business_schedule :: "chrono_text \<Rightarrow> json \<Rightarrow> unit app_result" where
  "validate_business_schedule T v =
     (case v of
        JNull \<Rightarrow> Inr ()
      | JObj es \<Rightarrow>
          validate_all (\<lambda>(key, value).
            if parse_weekday_key key = None then Inl (Validation ''unknown weekday key'')
            else validate_schedule_day T value) es
      | _ \<Rightarrow> Inl (Validation ''schedule must be a JSON object keyed by weekday''))"

definition validate_holiday_list :: "chrono_text \<Rightarrow> json \<Rightarrow> unit app_result" where
  "validate_holiday_list T v =
     (case v of
        JNull \<Rightarrow> Inr ()
      | JArr items \<Rightarrow>
          validate_all (\<lambda>item.
            case holiday_text item of
              None \<Rightarrow> Inl (Validation ''each holiday must be a date string or an object with one'')
            | Some s \<Rightarrow>
                if ct_date T ''%Y-%m-%d'' s = None then Inl (Validation ''holiday date is not a valid date'') else Inr ())
          items
      | _ \<Rightarrow> Inl (Validation ''holidays must be a JSON array''))"

section \<open>The walk\<close>

fun gap_walk :: "zone \<Rightarrow> nat \<Rightarrow> int \<Rightarrow> instant option" where
  "gap_walk Z 0 n = None"
| "gap_walk Z (Suc k) n =
     (case zn_earliest Z (n + MINUTE) of Some i \<Rightarrow> Some i | None \<Rightarrow> gap_walk Z k (n + MINUTE))"

definition local_dt :: "zone \<Rightarrow> date \<Rightarrow> int \<Rightarrow> instant" where
  "local_dt Z d time =
     (let naive = d * DAY + time in
      case zn_earliest Z naive of
        Some i \<Rightarrow> i
      | None \<Rightarrow> (case gap_walk Z 180 naive of Some i \<Rightarrow> i | None \<Rightarrow> naive))"

definition next_day_start :: "cal \<Rightarrow> zone \<Rightarrow> date \<Rightarrow> instant" where
  "next_day_start C Z d = local_dt Z (opt_or (succ_opt C d) d) 0"

definition consume_window :: "zone \<Rightarrow> date \<Rightarrow> window \<Rightarrow> instant \<Rightarrow> int \<Rightarrow> instant \<times> int" where
  "consume_window Z d w cursor remaining =
     (let win_from = local_dt Z d (win_start w);
          win_to = local_dt Z d (win_end w);
          cursor1 = (if cursor < win_from then win_from else cursor);
          avail = win_to - cursor1
      in if remaining \<le> avail then (cursor1 + remaining, 0) else (win_to, remaining - avail))"

text \<open>One round of the loop: a window of the day is consumed, or the cursor moves to the next midnight.\<close>

definition walk_step :: "cal \<Rightarrow> business_schedule \<Rightarrow> date list \<Rightarrow> instant \<Rightarrow> int \<Rightarrow> instant \<times> int" where
  "walk_step C S hs cursor remaining =
     (let Z = sch_tz S; d = date_naive Z cursor; ws = windows S (weekday d) in
      if d \<in> set hs \<or> ws = [] then (next_day_start C Z d, remaining)
      else case find (\<lambda>w. \<not> cursor \<ge> local_dt Z d (win_end w)) ws of
             None \<Rightarrow> (next_day_start C Z d, remaining)
           | Some w \<Rightarrow> consume_window Z d w cursor remaining)"

definition MAX_ROUNDS :: int where "MAX_ROUNDS = 366 * 30"

function walk :: "cal \<Rightarrow> business_schedule \<Rightarrow> date list \<Rightarrow> int \<Rightarrow> instant \<Rightarrow> int \<Rightarrow> instant \<times> int" where
  "walk C S hs rounds cursor remaining =
     (if rounds \<le> 0 \<or> remaining \<le> 0 then (cursor, remaining)
      else case walk_step C S hs cursor remaining of (c, r) \<Rightarrow> walk C S hs (rounds - 1) c r)"
  by pat_completeness auto
termination by (relation "measure (\<lambda>(C, S, hs, rounds, c, r). nat rounds)") auto

declare walk.simps [simp del]

definition due_at_business_hours :: "cal \<Rightarrow> instant \<Rightarrow> int \<Rightarrow> business_schedule \<Rightarrow> date list \<Rightarrow> instant" where
  "due_at_business_hours C start budget S hs = fst (walk C S hs MAX_ROUNDS start budget)"

definition budget_of :: "decimal \<Rightarrow> int" where
  "budget_of hours = \<lfloor>hours * 3600 + 1 / 2\<rfloor> * SECOND"

definition due_at :: "cal \<Rightarrow> instant \<Rightarrow> decimal \<Rightarrow> business_schedule \<Rightarrow> date list \<Rightarrow> operational_hours \<Rightarrow> instant" where
  "due_at C start hours S hs operational =
     (if hours \<le> 0 then start
      else let budget = budget_of hours in
        case operational of
          Always \<Rightarrow> start + budget
        | BusinessHours \<Rightarrow>
            if \<not> has_any_window S then start + budget
            else due_at_business_hours C start budget S hs)"

end
