(* ===== verification/Sla_Walk.thy ===== *)
theory Sla_Walk
  imports Sla_Clock
begin

text \<open>
  What the walk of the clock computes. \<open>open_time\<close> counts the open microseconds of an interval, the
  abstract meaning of a schedule; locale \<open>business_clock\<close> states what the walk relies on of the
  time zone and the schedule, and shows that the walk spends its budget on open time exactly.
\<close>

section \<open>Open time\<close>

definition open_at :: "business_schedule \<Rightarrow> date list \<Rightarrow> instant \<Rightarrow> bool" where
  "open_at S hs i \<longleftrightarrow>
     (let Z = sch_tz S; d = date_naive Z i in
      d \<notin> set hs \<and> (\<exists>w \<in> set (windows S (weekday d)).
        local_dt Z d (win_start w) \<le> i \<and> i < local_dt Z d (win_end w)))"

definition open_time :: "business_schedule \<Rightarrow> date list \<Rightarrow> instant \<Rightarrow> instant \<Rightarrow> int" where
  "open_time S hs a b = int (card {i. a \<le> i \<and> i < b \<and> open_at S hs i})"

lemma finite_open [simp]: "finite {i :: int. a \<le> i \<and> i < b \<and> P i}"
  by (rule finite_subset [of _ "{a..<b}"]) auto

lemma open_time_split:
  assumes "a \<le> b" "b \<le> c"
  shows "open_time S hs a c = open_time S hs a b + open_time S hs b c"
proof -
  have "{i. a \<le> i \<and> i < c \<and> open_at S hs i}
      = {i. a \<le> i \<and> i < b \<and> open_at S hs i} \<union> {i. b \<le> i \<and> i < c \<and> open_at S hs i}"
    using assms by auto
  then show ?thesis unfolding open_time_def by (simp add: card_Un_disjoint disjoint_iff)
qed

lemma open_time_closed:
  assumes "\<And>i. a \<le> i \<Longrightarrow> i < b \<Longrightarrow> \<not> open_at S hs i"
  shows "open_time S hs a b = 0"
proof -
  have "{i. a \<le> i \<and> i < b \<and> open_at S hs i} = {}" using assms by auto
  then show ?thesis by (simp add: open_time_def)
qed

lemma open_time_open:
  assumes "\<And>i. a \<le> i \<Longrightarrow> i < b \<Longrightarrow> open_at S hs i" and "a \<le> b"
  shows "open_time S hs a b = b - a"
proof -
  have "{i. a \<le> i \<and> i < b \<and> open_at S hs i} = {a..<b}" using assms by auto
  then show ?thesis using assms(2) by (simp add: open_time_def)
qed

lemma open_time_nonneg [simp]: "0 \<le> open_time S hs a b"
  by (simp add: open_time_def)

lemma open_time_empty [simp]: "b \<le> a \<Longrightarrow> open_time S hs a b = 0"
  by (rule open_time_closed) simp

lemma open_time_mono: "a \<le> b \<Longrightarrow> b \<le> c \<Longrightarrow> open_time S hs a b \<le> open_time S hs a c"
  using open_time_split [of a b c S hs] by simp

lemma length_filter_less_if:
  assumes "\<And>x. P x \<Longrightarrow> Q x" and "x \<in> set xs" "Q x" "\<not> P x"
  shows "length (filter P xs) < length (filter Q xs)"
  using assms(2)
proof (induction xs)
  case (Cons y ys)
  have "length (filter P ys) \<le> length (filter Q ys)" using assms(1) by (induction ys) auto
  with Cons assms show ?case by auto
qed simp

section \<open>What the walk relies on\<close>

text \<open>
  The local clock moves through the days in order, the first instant of a day is its midnight, and the
  times a schedule names exist on every day: true of every zone whose clock changes skip neither a
  midnight nor a boundary of a window. The windows of a day are in the order of their starts.
\<close>

definition schedule_times :: "business_schedule \<Rightarrow> int set" where
  "schedule_times S = insert 0 (\<Union>d < 7. \<Union>w \<in> set (windows S d). {win_start w, win_end w})"

definition schedule_sorted :: "business_schedule \<Rightarrow> bool" where
  "schedule_sorted S \<longleftrightarrow> (\<forall>d < 7. sorted (map win_start (windows S d))
     \<and> (\<forall>w \<in> set (windows S d). 0 \<le> win_start w \<and> win_start w < win_end w \<and> win_end w < DAY))"

definition zone_regular :: "zone \<Rightarrow> int set \<Rightarrow> bool" where
  "zone_regular Z T \<longleftrightarrow>
     (\<forall>d. \<forall>s \<in> T. zn_earliest Z (d * DAY + s) \<noteq> None)
     \<and> (\<forall>n i. zn_earliest Z n = Some i \<longrightarrow> zn_local Z i = n)
     \<and> (\<forall>n m i j. n \<le> m \<longrightarrow> zn_earliest Z n = Some i \<longrightarrow> zn_earliest Z m = Some j \<longrightarrow> i \<le> j)
     \<and> (\<forall>i j. i \<le> j \<longrightarrow> date_naive Z i \<le> date_naive Z j)
     \<and> (\<forall>d i j. zn_earliest Z (d * DAY) = Some i \<longrightarrow> date_naive Z j = d \<longrightarrow> i \<le> j)"

definition pending :: "business_schedule \<Rightarrow> instant \<Rightarrow> nat" where
  "pending S c = (let d = date_naive (sch_tz S) c in
     length (filter (\<lambda>w. c < local_dt (sch_tz S) d (win_end w)) (windows S (weekday d))))"

locale business_clock =
  fixes C :: cal and S :: business_schedule and hs :: "date list"
  assumes zone: "zone_regular (sch_tz S) (schedule_times S)" and sorted: "schedule_sorted S"
begin

abbreviation "day_of \<equiv> date_naive (sch_tz S)"
abbreviation "dt \<equiv> local_dt (sch_tz S)"

lemma dt_eq:
  assumes "s \<in> schedule_times S" shows "zn_earliest (sch_tz S) (d * DAY + s) = Some (dt d s)"
proof -
  obtain i where "zn_earliest (sch_tz S) (d * DAY + s) = Some i"
    using zone assms unfolding zone_regular_def by blast
  then show ?thesis by (simp add: local_dt_def)
qed

lemma times_range: "s \<in> schedule_times S \<Longrightarrow> 0 \<le> s \<and> s < DAY"
  using sorted by (fastforce simp: schedule_times_def schedule_sorted_def DAY_def)

lemma dt_day:
  assumes "s \<in> schedule_times S" shows "day_of (dt d s) = d"
proof -
  have "zn_local (sch_tz S) (dt d s) = d * DAY + s" using dt_eq [OF assms] zone by (simp add: zone_regular_def)
  then show ?thesis using times_range [OF assms] by (simp add: date_naive_def)
qed

lemma dt_mono: "s \<in> schedule_times S \<Longrightarrow> s' \<in> schedule_times S \<Longrightarrow> s \<le> s' \<Longrightarrow> dt d s \<le> dt d s'"
  using dt_eq [of s d] dt_eq [of s' d] zone unfolding zone_regular_def by (meson add_left_mono)

lemma day_mono: "i \<le> j \<Longrightarrow> day_of i \<le> day_of j"
  using zone by (simp add: zone_regular_def)

lemma zero_time [simp]: "0 \<in> schedule_times S"
  by (simp add: schedule_times_def)

lemma midnight_first: "dt (day_of i) 0 \<le> i"
  using dt_eq [of 0 "day_of i"] zone by (simp add: zone_regular_def)

lemma window_times:
  "w \<in> set (windows S (weekday d)) \<Longrightarrow> win_start w \<in> schedule_times S \<and> win_end w \<in> schedule_times S \<and> win_start w < win_end w"
  using sorted weekday_less [of d] by (force simp: schedule_times_def schedule_sorted_def)

text \<open>Between an instant and the next midnight the day stays the same.\<close>

lemma same_day: "i \<le> j \<Longrightarrow> j < dt (day_of i + 1) 0 \<Longrightarrow> day_of j = day_of i"
proof -
  assume a: "i \<le> j" "j < dt (day_of i + 1) 0"
  have "day_of j \<le> day_of i + 1" using day_mono [of j "dt (day_of i + 1) 0"] a(2) by (simp add: dt_day)
  moreover have "day_of j \<noteq> day_of i + 1" using midnight_first [of j] a(2) by auto
  ultimately show ?thesis using day_mono [OF a(1)] by simp
qed

lemma before_midnight: "i < dt (day_of i + 1) 0"
  using day_mono [of "dt (day_of i + 1) 0" i] by (fastforce simp: dt_day)

lemma day_between: "day_of i = d \<Longrightarrow> s \<in> schedule_times S \<Longrightarrow> i \<le> j \<Longrightarrow> j \<le> dt d s \<Longrightarrow> day_of j = d"
  using day_mono [of i j] day_mono [of j "dt d s"] by (simp add: dt_day)

text \<open>A day without a window left is closed until the next midnight.\<close>

lemma rest_of_day_closed:
  assumes "day_of c \<in> set hs \<or> (\<forall>w \<in> set (windows S (weekday (day_of c))). dt (day_of c) (win_end w) \<le> c)"
  shows "open_time S hs c (dt (day_of c + 1) 0) = 0"
proof (rule open_time_closed)
  fix i assume i: "c \<le> i" "i < dt (day_of c + 1) 0"
  show "\<not> open_at S hs i"
    using assms same_day [OF i] i(1) by (fastforce simp: open_at_def Let_def)
qed

text \<open>The first window that has not ended: closed before it, open in it.\<close>

lemma window_open:
  assumes w: "find (\<lambda>w. \<not> c \<ge> dt (day_of c) (win_end w)) (windows S (weekday (day_of c))) = Some w"
    and "day_of c \<notin> set hs"
  defines "c1 \<equiv> (if c < dt (day_of c) (win_start w) then dt (day_of c) (win_start w) else c)"
  shows "c \<le> c1" and "c1 \<le> dt (day_of c) (win_end w)" and "open_time S hs c c1 = 0"
    and "c1 \<le> i \<Longrightarrow> i < dt (day_of c) (win_end w) \<Longrightarrow> open_at S hs i"
proof -
  let ?d = "day_of c" and ?ws = "windows S (weekday (day_of c))"
  obtain k where k: "k < length ?ws" "w = ?ws ! k" "c < dt ?d (win_end w)"
    "\<forall>j < k. dt ?d (win_end (?ws ! j)) \<le> c"
    using w by (fastforce simp: find_Some_iff)
  have mem: "w \<in> set ?ws" using k by simp
  note t = window_times [OF mem]
  show "c \<le> c1" by (simp add: c1_def)
  show "c1 \<le> dt ?d (win_end w)" using k(3) dt_mono [of "win_start w" "win_end w" ?d] t by (simp add: c1_def)
  show "open_time S hs c c1 = 0"
  proof (rule open_time_closed)
    fix i assume i: "c \<le> i" "i < c1"
    then have lt: "i < dt ?d (win_start w)" by (simp add: c1_def split: if_splits)
    have di: "day_of i = ?d" using day_between [OF refl, of "win_start w" c i] t i(1) lt by simp
    have "\<not> (dt ?d (win_start v) \<le> i \<and> i < dt ?d (win_end v))" if v: "v \<in> set ?ws" for v
    proof -
      obtain j where j: "j < length ?ws" "v = ?ws ! j" using v by (auto simp: in_set_conv_nth)
      show ?thesis
      proof (cases "j < k")
        case True
        with k(4) j i(1) show ?thesis by fastforce
      next
        case False
        have "sorted (map win_start ?ws)" using sorted weekday_less by (simp add: schedule_sorted_def)
        then have "win_start w \<le> win_start v" using False j k by (simp add: sorted_iff_nth_mono)
        with dt_mono [of "win_start w" "win_start v" ?d] t window_times [OF v] lt show ?thesis by auto
      qed
    qed
    then show "\<not> open_at S hs i" by (auto simp: open_at_def Let_def di)
  qed
  assume i: "c1 \<le> i" "i < dt ?d (win_end w)"
  have "day_of i = ?d"
    using day_between [OF refl, of "win_end w" c i] t i by (simp add: c1_def split: if_splits)
  moreover have "dt ?d (win_start w) \<le> i" using i(1) by (simp add: c1_def split: if_splits)
  ultimately show "open_at S hs i" using i(2) assms(2) mem by (auto simp: open_at_def Let_def)
qed

text \<open>One round, away from the end of the calendar: it spends the open time it passes.\<close>

lemma walk_step_spends:
  assumes step: "walk_step C S hs c r = (c', r')" and "0 < r" and range: "day_of c < cal_max C"
  shows "c \<le> c'" "0 \<le> r'" "open_time S hs c c' = r - r'" "r' = 0 \<Longrightarrow> open_at S hs (c' - 1)" "day_of c' \<le> day_of c + 1"
proof -
  let ?d = "day_of c"
  have next_day: "next_day_start C (sch_tz S) ?d = dt (?d + 1) 0"
    using range by (simp add: next_day_start_def succ_opt_def)
  have "c \<le> c' \<and> 0 \<le> r' \<and> open_time S hs c c' = r - r' \<and> (r' = 0 \<longrightarrow> open_at S hs (c' - 1)) \<and> day_of c' \<le> ?d + 1"
  proof (cases "find (\<lambda>w. \<not> c \<ge> dt ?d (win_end w)) (windows S (weekday ?d))")
    case None
    then have ended: "\<forall>w \<in> set (windows S (weekday ?d)). dt ?d (win_end w) \<le> c" by (auto simp: find_None_iff)
    have "(c', r') = (dt (?d + 1) 0, r)" using step None by (auto simp: walk_step_def Let_def next_day split: if_splits)
    with rest_of_day_closed ended before_midnight [of c] \<open>0 < r\<close> show ?thesis by (simp add: dt_day)
  next
    case (Some w)
    show ?thesis
    proof (cases "?d \<in> set hs")
      case True
      with step have "(c', r') = (dt (?d + 1) 0, r)" by (simp add: walk_step_def Let_def next_day)
      with True rest_of_day_closed [of c] before_midnight [of c] \<open>0 < r\<close> show ?thesis by (simp add: dt_day)
    next
      case False
      define c1 where "c1 = (if c < dt ?d (win_start w) then dt ?d (win_start w) else c)"
      note w = window_open [OF Some False, folded c1_def]
      have ne: "windows S (weekday ?d) \<noteq> []" using Some by (cases "windows S (weekday ?d)") auto
      have mem: "w \<in> set (windows S (weekday ?d))" using Some by (auto simp: find_Some_iff)
      let ?to = "dt ?d (win_end w)"
      have "walk_step C S hs c r = (if r \<le> ?to - c1 then (c1 + r, 0) else (?to, r - (?to - c1)))"
        using False ne Some by (simp add: walk_step_def consume_window_def Let_def flip: c1_def)
      then have res: "(c', r') = (if r \<le> ?to - c1 then (c1 + r, 0) else (?to, r - (?to - c1)))" using step by simp
      have le: "c1 \<le> c'" "c' \<le> ?to" using res w(2) \<open>0 < r\<close> by (auto split: if_splits)
      have "open_time S hs c1 c' = c' - c1" by (rule open_time_open) (use w(4) le in auto)
      with w(1,3) le have "open_time S hs c c' = c' - c1" using open_time_split [of c c1 c' S hs] by simp
      moreover have "r' = 0 \<longrightarrow> open_at S hs (c' - 1)" using res w(4) [of "c' - 1"] le \<open>0 < r\<close> by (auto split: if_splits)
      moreover have "day_of c' \<le> ?d"
        using day_mono [OF le(2)] window_times [OF mem] by (simp add: dt_day)
      ultimately show ?thesis using res w(1) le \<open>0 < r\<close> by (auto split: if_splits)
    qed
  qed
  then show "c \<le> c'" "0 \<le> r'" "open_time S hs c c' = r - r'" "r' = 0 \<Longrightarrow> open_at S hs (c' - 1)" "day_of c' \<le> day_of c + 1"
    by blast+
qed

lemma walk_spends:
  assumes "walk C S hs n c r = (c', r')" "0 \<le> r" "day_of c + n < cal_max C"
  shows "c \<le> c' \<and> 0 \<le> r' \<and> open_time S hs c c' = r - r' \<and> (0 < r \<and> r' = 0 \<longrightarrow> open_at S hs (c' - 1))"
  using assms
proof (induction "nat n" arbitrary: n c r)
  case 0
  then show ?case by (auto simp: walk.simps [of _ _ _ n])
next
  case (Suc m)
  then have n: "0 < n" "m = nat (n - 1)" by simp_all
  show ?case
  proof (cases "r \<le> 0")
    case True
    with Suc.prems show ?thesis by (simp add: walk.simps [of _ _ _ n])
  next
    case False
    obtain c1 r1 where step: "walk_step C S hs c r = (c1, r1)" by fastforce
    with Suc.prems(1) False n have rest: "walk C S hs (n - 1) c1 r1 = (c', r')" by (simp add: walk.simps [of _ _ _ n])
    have "day_of c < cal_max C" using Suc.prems(3) n by simp
    note st = walk_step_spends [OF step _ this]
    have IH: "c1 \<le> c' \<and> 0 \<le> r' \<and> open_time S hs c1 c' = r1 - r' \<and> (0 < r1 \<and> r' = 0 \<longrightarrow> open_at S hs (c' - 1))"
      by (rule Suc.hyps(1) [OF n(2) rest]) (use st False Suc.prems(3) in auto)
    have "r1 = 0 \<Longrightarrow> c1 = c'" using rest by (simp add: walk.simps [of _ _ _ "n - 1"])
    with st False IH have "0 < r \<and> r' = 0 \<longrightarrow> open_at S hs (c' - 1)" by (cases "r1 = 0") auto
    with st False IH show ?thesis using open_time_split [of c c1 c' S hs] by auto
  qed
qed

text \<open>
  The rounds a walk needs: on each day one per window that has not ended, and one to leave it. The
  walk stays at or before an instant that has enough open time behind it.
\<close>

lemma pending_le: "(\<And>d. length (windows S d) \<le> k) \<Longrightarrow> pending S c \<le> k"
  unfolding pending_def Let_def using length_filter_le le_trans by blast

lemma walk_step_progress:
  assumes "walk_step C S hs c r = (c', r')" "0 < r" "0 < r'" "day_of c < cal_max C"
  shows "day_of c' = day_of c + 1 \<or> day_of c' = day_of c \<and> pending S c' < pending S c"
proof -
  let ?d = "day_of c" and ?ws = "windows S (weekday (day_of c))"
  have next_day: "day_of (next_day_start C (sch_tz S) ?d) = ?d + 1"
    using assms(4) by (simp add: next_day_start_def succ_opt_def dt_day)
  show ?thesis
  proof (cases "?d \<in> set hs \<or> ?ws = [] \<or> find (\<lambda>w. \<not> c \<ge> dt ?d (win_end w)) ?ws = None")
    case True
    with assms(1) have "c' = next_day_start C (sch_tz S) ?d" by (auto simp: walk_step_def Let_def split: if_splits)
    with next_day show ?thesis by simp
  next
    case False
    then obtain w where w: "find (\<lambda>w. \<not> c \<ge> dt ?d (win_end w)) ?ws = Some w" by auto
    then have mem: "w \<in> set ?ws" "c < dt ?d (win_end w)" by (auto simp: find_Some_iff)
    from assms(1,3) False w have c': "c' = dt ?d (win_end w)"
      by (auto simp: walk_step_def consume_window_def Let_def split: if_splits)
    then have d: "day_of c' = ?d" using window_times [OF mem(1)] by (simp add: dt_day)
    have "length (filter (\<lambda>v. c' < dt ?d (win_end v)) ?ws) < length (filter (\<lambda>v. c < dt ?d (win_end v)) ?ws)"
      by (rule length_filter_less_if) (use mem c' in auto)
    then show ?thesis using d by (simp add: pending_def Let_def)
  qed
qed

lemma walk_finishes:
  assumes "r \<le> open_time S hs c e" "0 \<le> r" "day_of c + n < cal_max C" and "\<And>d. length (windows S d) \<le> k"
    and "(day_of e - day_of c) * (int k + 1) + int (pending S c) + 1 \<le> n"
  shows "snd (walk C S hs n c r) = 0"
  using assms(1,2,3,5)
proof (induction "nat n" arbitrary: n c r)
  case 0
  have "r = 0"
  proof (rule ccontr)
    assume "r \<noteq> 0"
    with 0 have "c < e" by (cases "c < e") auto
    then have "0 \<le> (day_of e - day_of c) * (int k + 1)" using day_mono [of c e] by simp
    with 0 show False by simp
  qed
  with 0 show ?case by (simp add: walk.simps [of _ _ _ n])
next
  case (Suc m)
  then have n: "0 < n" "m = nat (n - 1)" by simp_all
  show ?case
  proof (cases "r = 0")
    case True
    then show ?thesis by (simp add: walk.simps [of _ _ _ n])
  next
    case False
    with Suc.prems have r: "0 < r" by simp
    obtain c1 r1 where step: "walk_step C S hs c r = (c1, r1)" by fastforce
    with r n have rest: "walk C S hs n c r = walk C S hs (n - 1) c1 r1" by (simp add: walk.simps [of _ _ _ n])
    have dc: "day_of c < cal_max C" using Suc.prems(3) n by simp
    note st = walk_step_spends [OF step r dc]
    show ?thesis
    proof (cases "r1 = 0")
      case True
      then show ?thesis by (simp add: rest walk.simps [of _ _ _ "n - 1"])
    next
      case False
      then have r1: "0 < r1" using st(2) by simp
      have "c1 < e"
      proof (rule ccontr)
        assume "\<not> c1 < e"
        moreover have "c \<le> e" using Suc.prems(1) r by (cases "c \<le> e") auto
        ultimately have "open_time S hs c e \<le> open_time S hs c c1" by (intro open_time_mono) auto
        with Suc.prems(1) st(3) r1 show False by simp
      qed
      then have "open_time S hs c e = open_time S hs c c1 + open_time S hs c1 e"
        by (intro open_time_split st(1)) simp
      then have enough: "r1 \<le> open_time S hs c1 e" using Suc.prems(1) st(3) by simp
      have "(day_of e - day_of c1) * (int k + 1) + int (pending S c1) + 1 \<le> n - 1"
        using walk_step_progress [OF step r r1 dc]
      proof
        assume d: "day_of c1 = day_of c + 1"
        have "(day_of e - day_of c1) * (int k + 1) = (day_of e - day_of c) * (int k + 1) - (int k + 1)"
          by (simp add: d algebra_simps)
        moreover have "int (pending S c1) \<le> int k" using pending_le [OF assms(4)] by simp
        ultimately show ?thesis using Suc.prems(4) by simp
      next
        assume "day_of c1 = day_of c \<and> pending S c1 < pending S c"
        with Suc.prems(4) show ?thesis by simp
      qed
      then show ?thesis
        unfolding rest by (intro Suc.hyps(1) [OF n(2) enough]) (use r1 st(5) Suc.prems(3) in auto)
    qed
  qed
qed

end

text \<open>The meaning of the walk, once it is given enough rounds: the least instant with the budget behind it.\<close>

context business_clock
begin

lemma due_at_least:
  assumes "0 \<le> b" "b \<le> open_time S hs start e" and "\<And>d. length (windows S d) \<le> k"
    and "(day_of e - day_of start + 1) * (int k + 1) \<le> MAX_ROUNDS" and "day_of start + MAX_ROUNDS < cal_max C"
  defines "due \<equiv> due_at_business_hours C start b S hs"
  shows "start \<le> due" "open_time S hs start due = b" "start \<le> j \<Longrightarrow> j < due \<Longrightarrow> open_time S hs start j < b"
proof -
  have "int (pending S start) \<le> int k" using pending_le [OF assms(3)] by simp
  then have "(day_of e - day_of start) * (int k + 1) + int (pending S start) + 1 \<le> MAX_ROUNDS"
    using assms(4) by (simp add: algebra_simps)
  from walk_finishes [OF assms(2,1,5,3) this] have w: "walk C S hs MAX_ROUNDS start b = (due, 0)"
    by (simp add: due_def due_at_business_hours_def prod_eq_iff)
  note sp = walk_spends [OF w assms(1,5)]
  then show "start \<le> due" and o: "open_time S hs start due = b" by simp_all
  assume j: "start \<le> j" "j < due"
  have "b \<noteq> 0" using w j by (auto simp: walk.simps [of _ _ _ MAX_ROUNDS])
  then have last: "open_at S hs (due - 1)" using sp assms(1) by simp
  have "open_at S hs i" if "due - 1 \<le> i" "i < due" for i
  proof -
    have "i = due - 1" using that by linarith
    with last show ?thesis by simp
  qed
  then have "open_time S hs (due - 1) due = 1" using open_time_open [of "due - 1" due S hs] by simp
  moreover have "open_time S hs start due = open_time S hs start (due - 1) + open_time S hs (due - 1) due"
    using j by (intro open_time_split) auto
  moreover have "open_time S hs start j \<le> open_time S hs start (due - 1)" using j by (intro open_time_mono) auto
  ultimately show "open_time S hs start j < b" using o by simp
qed

text \<open>A larger budget never ends earlier.\<close>

lemma walk_mono:
  assumes "0 \<le> r" "r \<le> r'" "day_of c + n < cal_max C"
  shows "fst (walk C S hs n c r) \<le> fst (walk C S hs n c r')"
  using assms
proof (induction "nat n" arbitrary: n c r r')
  case 0
  then show ?case by (simp add: walk.simps [of _ _ _ n])
next
  case (Suc m)
  then have n: "0 < n" "m = nat (n - 1)" by simp_all
  obtain e q where w': "walk C S hs n c r' = (e, q)" by fastforce
  have ge: "c \<le> e" using walk_spends [OF w'] Suc.prems by simp
  show ?case
  proof (cases "r = 0")
    case True
    with ge w' show ?thesis by (simp add: walk.simps [of _ _ _ n c 0])
  next
    case False
    with Suc.prems have pos: "0 < r" "0 < r'" by simp_all
    obtain c1 r1 c2 r2 where st: "walk_step C S hs c r = (c1, r1)" "walk_step C S hs c r' = (c2, r2)" by fastforce
    have dc: "day_of c < cal_max C" using Suc.prems(3) n by simp
    note sp1 = walk_step_spends [OF st(1) pos(1) dc] and sp2 = walk_step_spends [OF st(2) pos(2) dc]
    have rest: "walk C S hs n c r = walk C S hs (n - 1) c1 r1" "walk C S hs n c r' = walk C S hs (n - 1) c2 r2"
      using st pos n by (simp_all add: walk.simps [of _ _ _ n])
    have "c1 = c2 \<and> r1 \<le> r2 \<or> r1 = 0 \<and> c1 \<le> c2"
      using st pos Suc.prems(2)
      by (auto simp: walk_step_def consume_window_def Let_def split: if_splits option.splits)
    then show ?thesis
    proof
      assume "c1 = c2 \<and> r1 \<le> r2"
      then show ?thesis unfolding rest using Suc.hyps(1) [OF n(2), of r1 r2 c1] sp1 Suc.prems(3) by simp
    next
      assume z: "r1 = 0 \<and> c1 \<le> c2"
      obtain e2 q2 where w2: "walk C S hs (n - 1) c2 r2 = (e2, q2)" by fastforce
      have "c2 \<le> e2" using walk_spends [OF w2] sp2 Suc.prems(3) by simp
      with z w2 show ?thesis unfolding rest by (simp add: walk.simps [of _ _ _ "n - 1" c1 0])
    qed
  qed
qed

end

lemma fixed_zone_regular: "T \<subseteq> {0..<DAY} \<Longrightarrow> zone_regular (fixed_zone z) T"
  by (auto simp: zone_regular_def fixed_zone_def date_naive_def DAY_def intro: zdiv_mono1)

end
