(* ===== verification/Sla_Service.thy ===== *)
theory Sla_Service
  imports Sla_Clock Audit_Trail
begin

text \<open>
  The SLA service of src/src/modules/sla/service.rs, the request checks of its models.rs and the
  sweep of its worker.rs, with the badge of src/crates/mokosh-types/src/tickets.rs. The tables are the
  ones the service writes; a ticket has the columns the service reads and writes. Foreign keys and
  the checks of the migrations are the branches that answer \<open>Database\<close>. The notification dispatcher
  is a parameter: the number of messages it fans out to, or its error.
\<close>

section \<open>Tables\<close>

record sla_policy =
  pl_id :: uuid
  pl_tenant :: tenant
  pl_name :: string
  pl_description :: "string option"
  pl_business_hours :: "uuid option"
  pl_default :: "bool option"

record sla_target =
  tg_id :: uuid
  tg_policy :: uuid
  tg_priority :: uuid
  tg_first_response :: "decimal option"
  tg_resolution :: "decimal option"
  tg_operational :: "string option"

record business_hours =
  bh_id :: uuid
  bh_tenant :: tenant
  bh_name :: string
  bh_timezone :: string
  bh_schedule :: json
  bh_holidays :: "uuid list option"
  bh_default :: "bool option"

record holiday_calendar =
  hc_id :: uuid
  hc_tenant :: tenant
  hc_name :: string
  hc_holidays :: json

record sla_ticket =
  tk_id :: uuid
  tk_tenant :: tenant
  tk_sla :: "uuid option"
  tk_priority :: uuid
  tk_status :: uuid
  tk_assigned :: "uuid option"
  tk_created_at :: instant
  tk_first_response_due :: "instant option"
  tk_first_response_at :: "instant option"
  tk_resolution_due :: "instant option"
  tk_sla_due :: "instant option"
  tk_resolved_at :: "instant option"
  tk_closed_at :: "instant option"

record sla_notification =
  sn_tenant :: tenant
  sn_ticket :: uuid
  sn_kind :: string

record sla_db =
  sla_policies :: "sla_policy list"
  sla_targets :: "sla_target list"
  hours_tbl :: "business_hours list"
  calendars_tbl :: "holiday_calendar list"
  sla_tickets :: "sla_ticket list"
  ticket_priorities :: "uuid list"
  ticket_statuses :: "(uuid \<times> bool option) list"
  sla_notifications :: "sla_notification list"
  sla_audit :: "audit_row list"

section \<open>Requests\<close>

text \<open>A decimal as it came in: its value and the number of decimals it was written with.\<close>

record wire_decimal =
  wd_value :: decimal
  wd_scale :: nat

record policy_request =
  plr_name :: string
  plr_description :: "string option"
  plr_business_hours :: "uuid option"
  plr_default :: bool

record target_request =
  tgr_priority :: uuid
  tgr_first_response :: "wire_decimal option"
  tgr_resolution :: "wire_decimal option"
  tgr_operational :: string

record hours_request =
  br_name :: string
  br_timezone :: string
  br_schedule :: json
  br_default :: bool

record calendar_request =
  hr_name :: string
  hr_holidays :: json

definition SLA_HOURS_MAX_EXCLUSIVE :: decimal where "SLA_HOURS_MAX_EXCLUSIVE = 100000000"

definition validate_name :: "string \<Rightarrow> unit app_result" where
  "validate_name s = (if 1 \<le> length s \<and> length s \<le> 100 then Inr () else Inl (Validation ''name''))"

definition validate_sla_target_hours :: "wire_decimal \<Rightarrow> unit app_result" where
  "validate_sla_target_hours v =
     (if wd_value v \<le> 0 then Inl (Validation ''SLA target hours must be greater than 0'')
      else if wd_scale v > 2 then Inl (Validation ''SLA target hours must have at most 2 decimal places'')
      else if wd_value v \<ge> SLA_HOURS_MAX_EXCLUSIVE then Inl (Validation ''SLA target hours out of range'')
      else Inr ())"

definition validate_sla_target_range :: "target_request \<Rightarrow> unit app_result" where
  "validate_sla_target_range r =
     (case (tgr_first_response r, tgr_resolution r) of
        (Some f, Some s) \<Rightarrow>
          if wd_value f > wd_value s
          then Inl (Validation ''first_response_hours must be less than or equal to resolution_hours'') else Inr ()
      | _ \<Rightarrow> Inr ())"

definition validate_opt :: "('a \<Rightarrow> unit app_result) \<Rightarrow> 'a option \<Rightarrow> unit app_result" where
  "validate_opt f x = (case x of None \<Rightarrow> Inr () | Some a \<Rightarrow> f a)"

definition validate_target :: "target_request \<Rightarrow> unit app_result" where
  "validate_target r =
     and_then (validate_opt validate_sla_target_hours (tgr_first_response r)) (\<lambda>_.
     and_then (validate_opt validate_sla_target_hours (tgr_resolution r)) (\<lambda>_.
     validate_sla_target_range r))"

definition validate_hours :: "chrono_text \<Rightarrow> hours_request \<Rightarrow> unit app_result" where
  "validate_hours T r = and_then (validate_name (br_name r)) (\<lambda>_. validate_business_schedule T (br_schedule r))"

definition validate_calendar :: "chrono_text \<Rightarrow> calendar_request \<Rightarrow> unit app_result" where
  "validate_calendar T r = and_then (validate_name (hr_name r)) (\<lambda>_. validate_holiday_list T (hr_holidays r))"

section \<open>Policies\<close>

definition policy_key :: "tenant \<Rightarrow> uuid \<Rightarrow> sla_policy \<Rightarrow> bool" where
  "policy_key t i p \<longleftrightarrow> pl_tenant p = t \<and> pl_id p = i"

definition hours_exist :: "sla_db \<Rightarrow> uuid option \<Rightarrow> bool" where
  "hours_exist db i = (case i of None \<Rightarrow> True | Some b \<Rightarrow> list_ex (\<lambda>x. bh_id x = b) (hours_tbl db))"

definition create_policy :: "sla_db \<Rightarrow> tenant \<Rightarrow> policy_request \<Rightarrow> audit_ctx \<Rightarrow> uuid \<Rightarrow> sla_db app_result" where
  "create_policy db t r ctx new_id =
     (let ps = (if plr_default r
                then update_where (\<lambda>p. pl_tenant p = t) (\<lambda>p. p\<lparr>pl_default := Some False\<rparr>) (sla_policies db)
                else sla_policies db)
      in if \<not> hours_exist db (plr_business_hours r) then Inl (Database ''foreign key'')
         else Inr (db\<lparr>sla_policies := ps @ [\<lparr> pl_id = new_id, pl_tenant = t, pl_name = plr_name r,
                        pl_description = plr_description r, pl_business_hours = plr_business_hours r,
                        pl_default = Some (plr_default r) \<rparr>],
                      sla_audit := audit_write (sla_audit db) t ctx ACreate ''sla_policies'' (Some new_id)\<rparr>))"

definition get_policy :: "sla_db \<Rightarrow> tenant \<Rightarrow> uuid \<Rightarrow> sla_policy app_result" where
  "get_policy db t i =
     (case select_one (policy_key t i) (sla_policies db) of
        None \<Rightarrow> Inl (NotFound ''SLA policy'') | Some p \<Rightarrow> Inr p)"

definition update_policy :: "sla_db \<Rightarrow> tenant \<Rightarrow> uuid \<Rightarrow> policy_request \<Rightarrow> sla_db app_result" where
  "update_policy db t i r =
     (let ps = (if plr_default r
                then update_where (\<lambda>p. pl_tenant p = t \<and> pl_id p \<noteq> i) (\<lambda>p. p\<lparr>pl_default := Some False\<rparr>) (sla_policies db)
                else sla_policies db)
      in if \<not> list_ex (policy_key t i) ps then Inl (NotFound ''SLA policy'')
         else if \<not> hours_exist db (plr_business_hours r) then Inl (Database ''foreign key'')
         else Inr (db\<lparr>sla_policies := update_where (policy_key t i) (\<lambda>p. p\<lparr>pl_name := plr_name r,
                        pl_description := plr_description r, pl_business_hours := plr_business_hours r,
                        pl_default := Some (plr_default r)\<rparr>) ps\<rparr>))"

text \<open>Targets go with their policy, and a ticket that named it loses the reference.\<close>

definition delete_policy :: "sla_db \<Rightarrow> tenant \<Rightarrow> uuid \<Rightarrow> sla_db app_result" where
  "delete_policy db t i =
     (if \<not> list_ex (policy_key t i) (sla_policies db) then Inl (NotFound ''SLA policy'')
      else Inr (db\<lparr>sla_policies := delete_where (policy_key t i) (sla_policies db),
                   sla_targets := delete_where (\<lambda>g. tg_policy g = i) (sla_targets db),
                   sla_tickets := update_where (\<lambda>k. tk_sla k = Some i) (\<lambda>k. k\<lparr>tk_sla := None\<rparr>) (sla_tickets db)\<rparr>))"

section \<open>Targets\<close>

definition target_key :: "uuid \<Rightarrow> uuid \<Rightarrow> sla_target \<Rightarrow> bool" where
  "target_key p k g \<longleftrightarrow> tg_policy g = p \<and> tg_priority g = k"

definition upsert_target :: "sla_db \<Rightarrow> tenant \<Rightarrow> uuid \<Rightarrow> target_request \<Rightarrow> uuid \<Rightarrow> sla_db app_result" where
  "upsert_target db t p r new_id =
     (if \<not> list_ex (policy_key t p) (sla_policies db) then Inl (NotFound ''SLA policy'')
      else if tgr_priority r \<notin> set (ticket_priorities db) then Inl (Database ''foreign key'')
      else if tgr_operational r \<notin> {''business_hours'', ''24x7''} then Inl (Database ''check'')
      else
        let fr = map_option (num2 \<circ> wd_value) (tgr_first_response r);
            rs = map_option (num2 \<circ> wd_value) (tgr_resolution r)
        in if list_ex (target_key p (tgr_priority r)) (sla_targets db)
           then Inr (db\<lparr>sla_targets := update_where (target_key p (tgr_priority r))
                  (\<lambda>g. g\<lparr>tg_first_response := fr, tg_resolution := rs, tg_operational := Some (tgr_operational r)\<rparr>)
                  (sla_targets db)\<rparr>)
           else Inr (db\<lparr>sla_targets := sla_targets db @ [\<lparr> tg_id = new_id, tg_policy = p, tg_priority = tgr_priority r,
                  tg_first_response = fr, tg_resolution = rs, tg_operational = Some (tgr_operational r) \<rparr>]\<rparr>))"

definition delete_target :: "sla_db \<Rightarrow> tenant \<Rightarrow> uuid \<Rightarrow> sla_db app_result" where
  "delete_target db t i =
     (let doomed = (\<lambda>g. tg_id g = i \<and> list_ex (policy_key t (tg_policy g)) (sla_policies db)) in
      if \<not> list_ex doomed (sla_targets db) then Inl (NotFound ''SLA target'')
      else Inr (db\<lparr>sla_targets := delete_where doomed (sla_targets db)\<rparr>))"

section \<open>Business hours\<close>

definition hours_key :: "tenant \<Rightarrow> uuid \<Rightarrow> business_hours \<Rightarrow> bool" where
  "hours_key t i b \<longleftrightarrow> bh_tenant b = t \<and> bh_id b = i"

text \<open>A JSON null schedule is the SQL value 'null' of the column, not NULL.\<close>

definition create_business_hours :: "sla_db \<Rightarrow> tenant \<Rightarrow> hours_request \<Rightarrow> audit_ctx \<Rightarrow> uuid \<Rightarrow> sla_db app_result" where
  "create_business_hours db t r ctx new_id =
     (let bs = (if br_default r
                then update_where (\<lambda>b. bh_tenant b = t) (\<lambda>b. b\<lparr>bh_default := Some False\<rparr>) (hours_tbl db)
                else hours_tbl db)
      in Inr (db\<lparr>hours_tbl := bs @ [\<lparr> bh_id = new_id, bh_tenant = t, bh_name = br_name r, bh_timezone = br_timezone r,
                   bh_schedule = br_schedule r, bh_holidays = None, bh_default = Some (br_default r) \<rparr>],
                 sla_audit := audit_write (sla_audit db) t ctx ACreate ''business_hours'' (Some new_id)\<rparr>))"

definition update_business_hours :: "sla_db \<Rightarrow> tenant \<Rightarrow> uuid \<Rightarrow> hours_request \<Rightarrow> sla_db app_result" where
  "update_business_hours db t i r =
     (let bs = (if br_default r
                then update_where (\<lambda>b. bh_tenant b = t \<and> bh_id b \<noteq> i) (\<lambda>b. b\<lparr>bh_default := Some False\<rparr>) (hours_tbl db)
                else hours_tbl db)
      in if \<not> list_ex (hours_key t i) bs then Inl (NotFound ''Business hours'')
         else Inr (db\<lparr>hours_tbl := update_where (hours_key t i) (\<lambda>b. b\<lparr>bh_name := br_name r, bh_timezone := br_timezone r,
                        bh_schedule := br_schedule r, bh_default := Some (br_default r)\<rparr>) bs\<rparr>))"

definition delete_business_hours :: "sla_db \<Rightarrow> tenant \<Rightarrow> uuid \<Rightarrow> sla_db app_result" where
  "delete_business_hours db t i =
     (if \<not> list_ex (hours_key t i) (hours_tbl db) then Inl (NotFound ''Business hours'')
      else if list_ex (\<lambda>p. pl_business_hours p = Some i) (sla_policies db) then Inl (Database ''foreign key'')
      else Inr (db\<lparr>hours_tbl := delete_where (hours_key t i) (hours_tbl db)\<rparr>))"

section \<open>Holiday calendars\<close>

definition calendar_key :: "tenant \<Rightarrow> uuid \<Rightarrow> holiday_calendar \<Rightarrow> bool" where
  "calendar_key t i h \<longleftrightarrow> hc_tenant h = t \<and> hc_id h = i"

definition create_holiday_calendar :: "sla_db \<Rightarrow> tenant \<Rightarrow> calendar_request \<Rightarrow> audit_ctx \<Rightarrow> uuid \<Rightarrow> sla_db app_result" where
  "create_holiday_calendar db t r ctx new_id =
     Inr (db\<lparr>calendars_tbl := calendars_tbl db @ [\<lparr> hc_id = new_id, hc_tenant = t, hc_name = hr_name r,
               hc_holidays = hr_holidays r \<rparr>],
             sla_audit := audit_write (sla_audit db) t ctx ACreate ''holiday_calendars'' (Some new_id)\<rparr>)"

definition update_holiday_calendar :: "sla_db \<Rightarrow> tenant \<Rightarrow> uuid \<Rightarrow> calendar_request \<Rightarrow> sla_db app_result" where
  "update_holiday_calendar db t i r =
     (if \<not> list_ex (calendar_key t i) (calendars_tbl db) then Inl (NotFound ''Holiday calendar'')
      else Inr (db\<lparr>calendars_tbl := update_where (calendar_key t i)
             (\<lambda>h. h\<lparr>hc_name := hr_name r, hc_holidays := hr_holidays r\<rparr>) (calendars_tbl db)\<rparr>))"

definition delete_holiday_calendar :: "sla_db \<Rightarrow> tenant \<Rightarrow> uuid \<Rightarrow> sla_db app_result" where
  "delete_holiday_calendar db t i =
     (if \<not> list_ex (calendar_key t i) (calendars_tbl db) then Inl (NotFound ''Holiday calendar'')
      else Inr (db\<lparr>calendars_tbl := delete_where (calendar_key t i) (calendars_tbl db)\<rparr>))"

section \<open>Evaluation\<close>

definition ticket_key :: "tenant \<Rightarrow> uuid \<Rightarrow> sla_ticket \<Rightarrow> bool" where
  "ticket_key t i k \<longleftrightarrow> tk_tenant k = t \<and> tk_id k = i"

definition applicable_policy :: "sla_db \<Rightarrow> tenant \<Rightarrow> sla_ticket \<Rightarrow> sla_policy option" where
  "applicable_policy db t k =
     (case tk_sla k of
        Some p \<Rightarrow> select_one (policy_key t p) (sla_policies db)
      | None \<Rightarrow> select_one (\<lambda>p. pl_tenant p = t \<and> pl_default p = Some True) (sla_policies db))"

definition load_schedule_and_holidays :: "chrono_text \<Rightarrow> sla_db \<Rightarrow> tenant \<Rightarrow> uuid option \<Rightarrow> business_schedule \<times> date list" where
  "load_schedule_and_holidays T db t bh =
     (let none = (\<lparr> sch_tz = UTC, sch_days = (\<lambda>_. None) \<rparr>, []) in
      case bh of
        None \<Rightarrow> none
      | Some i \<Rightarrow>
          (case select_one (hours_key t i) (hours_tbl db) of
             None \<Rightarrow> none
           | Some b \<Rightarrow>
               (parse_schedule T (bh_timezone b) (bh_schedule b),
                case bh_holidays b of
                  None \<Rightarrow> []
                | Some ids \<Rightarrow> concat (map (\<lambda>h. parse_holidays T (hc_holidays h))
                    (filter (\<lambda>h. hc_tenant h = t \<and> hc_id h \<in> set ids) (calendars_tbl db))))))"

definition set_due :: "tenant \<Rightarrow> uuid \<Rightarrow> instant option \<Rightarrow> instant option \<Rightarrow> sla_db \<Rightarrow> sla_db" where
  "set_due t i fr rs db = db\<lparr>sla_tickets := update_where (ticket_key t i)
     (\<lambda>k. k\<lparr>tk_first_response_due := fr, tk_resolution_due := rs, tk_sla_due := rs\<rparr>) (sla_tickets db)\<rparr>"

definition evaluate_for_ticket :: "cal \<Rightarrow> chrono_text \<Rightarrow> sla_db \<Rightarrow> tenant \<Rightarrow> uuid \<Rightarrow> sla_db" where
  "evaluate_for_ticket C T db t i =
     (case select_one (ticket_key t i) (sla_tickets db) of
        None \<Rightarrow> db
      | Some k \<Rightarrow>
          (case applicable_policy db t k of
             None \<Rightarrow> db
           | Some p \<Rightarrow>
               (case select_one (target_key (pl_id p) (tk_priority k)) (sla_targets db) of
                  None \<Rightarrow> db
                | Some g \<Rightarrow>
                    let (schedule, holidays) = load_schedule_and_holidays T db t (pl_business_hours p);
                        operational = operational_from_db (opt_or (tg_operational g) ''business_hours'');
                        due = (\<lambda>h. due_at C (tk_created_at k) h schedule holidays operational)
                    in set_due t i (map_option due (tg_first_response g)) (map_option due (tg_resolution g)) db)))"

section \<open>The sweep\<close>

definition SLA_AT_RISK_LEAD_FLOOR :: int where "SLA_AT_RISK_LEAD_FLOOR = 5 * MINUTE"
definition SLA_AT_RISK_LEAD_CEIL :: int where "SLA_AT_RISK_LEAD_CEIL = 24 * 60 * MINUTE"

definition sla_at_risk_lead :: "instant \<Rightarrow> instant \<Rightarrow> int" where
  "sla_at_risk_lead created due =
     (let window = due - created in
      if window \<le> 0 then SLA_AT_RISK_LEAD_FLOOR
      else max SLA_AT_RISK_LEAD_FLOOR (min (window div 1000 div 5 * 1000) SLA_AT_RISK_LEAD_CEIL))"

datatype sla_status = OnTrack | Warning | Breached | NotApplicable

record sla_clock =
  sc_created_at :: instant
  sc_sla_due_date :: "instant option"
  sc_closed_at :: "instant option"
  sc_resolved_at :: "instant option"
  sc_status_is_closed :: bool

definition compute_sla_status :: "instant \<Rightarrow> sla_clock \<Rightarrow> sla_status" where
  "compute_sla_status now c =
     (if sc_closed_at c \<noteq> None \<or> sc_resolved_at c \<noteq> None \<or> sc_status_is_closed c then NotApplicable
      else case sc_sla_due_date c of
        None \<Rightarrow> NotApplicable
      | Some due \<Rightarrow>
          if now > due then Breached
          else if now \<ge> due - sla_at_risk_lead (sc_created_at c) due then Warning
          else OnTrack)"

record milestone =
  ms_due :: "instant option"
  ms_breached_kind :: string
  ms_at_risk_kind :: string
  ms_satisfied :: bool

definition milestones :: "sla_ticket \<Rightarrow> milestone list" where
  "milestones k =
     [\<lparr> ms_due = tk_first_response_due k, ms_breached_kind = ''first_response_breached'',
        ms_at_risk_kind = ''first_response_at_risk'', ms_satisfied = (tk_first_response_at k \<noteq> None) \<rparr>,
      \<lparr> ms_due = tk_resolution_due k, ms_breached_kind = ''resolution_breached'',
        ms_at_risk_kind = ''resolution_at_risk'', ms_satisfied = False \<rparr>]"

definition alert_of :: "instant \<Rightarrow> instant \<Rightarrow> milestone \<Rightarrow> (string \<times> string) option" where
  "alert_of now created m =
     (if ms_satisfied m then None
      else case ms_due m of
        None \<Rightarrow> None
      | Some due \<Rightarrow>
          if now \<ge> due then Some (ms_breached_kind m, ''sla.breached'')
          else if now \<ge> due - sla_at_risk_lead created due then Some (ms_at_risk_kind m, ''sla.at_risk'')
          else None)"

definition swept_ticket :: "sla_db \<Rightarrow> sla_ticket \<Rightarrow> bool" where
  "swept_ticket db k \<longleftrightarrow> tk_resolved_at k = None \<and> tk_closed_at k = None
     \<and> (case map_of (ticket_statuses db) (tk_status k) of None \<Rightarrow> False | Some c \<Rightarrow> \<not> opt_or c False)
     \<and> (tk_first_response_due k \<noteq> None \<or> tk_resolution_due k \<noteq> None)"

definition claimed_key :: "uuid \<Rightarrow> string \<Rightarrow> sla_notification \<Rightarrow> bool" where
  "claimed_key i kind n \<longleftrightarrow> sn_ticket n = i \<and> sn_kind n = kind"

definition claim_sla_notification :: "sla_notification list \<Rightarrow> tenant \<Rightarrow> uuid \<Rightarrow> string \<Rightarrow> sla_notification list \<times> nat" where
  "claim_sla_notification ns t i kind =
     (if list_ex (claimed_key i kind) ns then (ns, 0)
      else (ns @ [\<lparr> sn_tenant = t, sn_ticket = i, sn_kind = kind \<rparr>], 1))"

text \<open>The dispatcher answers for a tenant, an event, the assignee, the ticket and the kind.\<close>

type_synonym dispatcher = "tenant \<Rightarrow> string \<Rightarrow> uuid \<Rightarrow> uuid \<Rightarrow> string \<Rightarrow> nat app_result"

fun sweep_milestones :: "dispatcher \<Rightarrow> instant \<Rightarrow> sla_ticket \<Rightarrow> uuid \<Rightarrow> milestone list \<Rightarrow> sla_notification list
    \<Rightarrow> sla_notification list \<times> nat" where
  "sweep_milestones send now k assignee [] ns = (ns, 0)"
| "sweep_milestones send now k assignee (m # ms) ns =
     (case alert_of now (tk_created_at k) m of
        None \<Rightarrow> sweep_milestones send now k assignee ms ns
      | Some (kind, event) \<Rightarrow>
          (case claim_sla_notification ns (tk_tenant k) (tk_id k) kind of
             (ns1, claimed) \<Rightarrow>
               if claimed = 0 then sweep_milestones send now k assignee ms ns1
               else
                 (case sweep_milestones send now k assignee ms ns1 of
                    (ns2, n) \<Rightarrow>
                      (ns2, (case send (tk_tenant k) event assignee (tk_id k) kind of Inl _ \<Rightarrow> 0 | Inr fanout \<Rightarrow> fanout) + n))))"

fun sweep_tickets :: "dispatcher \<Rightarrow> instant \<Rightarrow> sla_ticket list \<Rightarrow> sla_notification list \<Rightarrow> sla_notification list \<times> nat" where
  "sweep_tickets send now [] ns = (ns, 0)"
| "sweep_tickets send now (k # ks) ns =
     (case tk_assigned k of
        None \<Rightarrow> sweep_tickets send now ks ns
      | Some assignee \<Rightarrow>
          (case sweep_milestones send now k assignee (milestones k) ns of
             (ns1, n) \<Rightarrow> (case sweep_tickets send now ks ns1 of (ns2, n') \<Rightarrow> (ns2, n + n'))))"

definition run_tick :: "dispatcher option \<Rightarrow> instant \<Rightarrow> sla_db \<Rightarrow> sla_db \<times> nat" where
  "run_tick notifications now db =
     (case notifications of
        None \<Rightarrow> (db, 0)
      | Some send \<Rightarrow>
          (case sweep_tickets send now (filter (swept_ticket db) (sla_tickets db)) (sla_notifications db) of
             (ns, n) \<Rightarrow> (db\<lparr>sla_notifications := ns\<rparr>, n)))"

end
