(* ===== verification/Sla_Guarantees.thy ===== *)
theory Sla_Guarantees
  imports Sla_Walk Sla_Service
begin

text \<open>
  What the SLA module promises: the deadline the clock computes is the one its schedule means, a
  tenant has one default policy and one default schedule, deadlines stay in order, every breach is
  alerted once. The theorems at the end record behaviour its documentation rules out.
\<close>

section \<open>One default per tenant\<close>

text \<open>
  Policies and business hours follow the same protocol: promoting a row clears the mark on the
  others of its tenant first. The locale states what that needs of a table.
\<close>

definition one_default :: "('r \<Rightarrow> uuid) \<Rightarrow> ('r \<Rightarrow> tenant) \<Rightarrow> ('r \<Rightarrow> bool) \<Rightarrow> 'r list \<Rightarrow> bool" where
  "one_default id_of tenant_of marked rs \<longleftrightarrow> distinct (map id_of rs)
     \<and> (\<forall>x \<in> set rs. \<forall>y \<in> set rs. marked x \<and> marked y \<and> tenant_of x = tenant_of y \<longrightarrow> x = y)"

locale default_table =
  fixes id_of :: "'r \<Rightarrow> uuid" and tenant_of :: "'r \<Rightarrow> tenant" and marked :: "'r \<Rightarrow> bool" and clear :: "'r \<Rightarrow> 'r"
  assumes clear_keeps [simp]: "id_of (clear r) = id_of r" "tenant_of (clear r) = tenant_of r"
    and cleared [simp]: "\<not> marked (clear r)"
begin

abbreviation "ok \<equiv> one_default id_of tenant_of marked"

lemma ok_insert:
  assumes "ok rs" "id_of r \<notin> id_of ` set rs"
  shows "ok ((if marked r then update_where (\<lambda>x. tenant_of x = tenant_of r) clear rs else rs) @ [r])"
proof -
  let ?rs = "if marked r then update_where (\<lambda>x. tenant_of x = tenant_of r) clear rs else rs"
  have ids: "map id_of ?rs = map id_of rs" by (simp add: map_update_where)
  then have "id_of ` set ?rs = id_of ` set rs" by (metis list.set_map)
  with ids assms have "distinct (map id_of (?rs @ [r]))" by (simp add: one_default_def)
  moreover have "x = y" if "x \<in> set (?rs @ [r])" "y \<in> set (?rs @ [r])" "marked x" "marked y" "tenant_of x = tenant_of y" for x y
  proof (cases "marked r")
    case True
    then have "z = r \<or> z \<in> set rs \<and> tenant_of z \<noteq> tenant_of r" if "z \<in> set (?rs @ [r])" "marked z" for z
      using that by (auto simp: set_update_where)
    with that assms(1) show ?thesis by (metis one_default_def)
  next
    case False
    with that assms(1) show ?thesis by (auto simp: one_default_def)
  qed
  ultimately show ?thesis unfolding one_default_def by blast
qed

lemma ok_update:
  assumes "ok rs" and f: "\<And>r. id_of (f r) = id_of r" "\<And>r. tenant_of (f r) = tenant_of r" "\<And>r. marked (f r) = b"
  shows "ok (update_where (\<lambda>x. tenant_of x = t \<and> id_of x = i) f
    (if b then update_where (\<lambda>x. tenant_of x = t \<and> id_of x \<noteq> i) clear rs else rs))"
proof -
  define g where "g x = (if tenant_of x = t \<and> id_of x = i then f x else if b \<and> tenant_of x = t then clear x else x)" for x
  have eq: "update_where (\<lambda>x. tenant_of x = t \<and> id_of x = i) f
    (if b then update_where (\<lambda>x. tenant_of x = t \<and> id_of x \<noteq> i) clear rs else rs) = map g rs"
    by (auto simp: update_where_def g_def)
  have keeps: "id_of (g x) = id_of x" "tenant_of (g x) = tenant_of x" for x by (simp_all add: f g_def)
  have inj: "inj_on id_of (set rs)" using assms(1) by (simp add: one_default_def distinct_map)
  have "x = y" if "x \<in> set rs" "y \<in> set rs" "marked (g x)" "marked (g y)" "tenant_of x = tenant_of y" for x y
  proof (cases "tenant_of x = t \<and> (b \<or> id_of x = i \<or> id_of y = i)")
    case True
    then have "id_of x = i \<and> id_of y = i" using that by (auto simp: g_def f split: if_splits)
    with inj that show ?thesis by (metis inj_onD)
  next
    case False
    then have "marked x \<and> marked y" using that by (auto simp: g_def split: if_splits)
    with that assms(1) show ?thesis by (auto simp: one_default_def)
  qed
  moreover have "distinct (map id_of (map g rs))" using assms(1) by (simp add: comp_def keeps one_default_def)
  ultimately show ?thesis unfolding eq one_default_def by (auto simp: keeps)
qed

lemma ok_delete: "ok rs \<Longrightarrow> ok (delete_where p rs)"
  by (auto simp: one_default_def delete_where_def distinct_map_filter)

end

interpretation policies: default_table pl_id pl_tenant "\<lambda>p. pl_default p = Some True" "\<lambda>p. p\<lparr>pl_default := Some False\<rparr>"
  by unfold_locales simp_all

interpretation hours: default_table bh_id bh_tenant "\<lambda>b. bh_default b = Some True" "\<lambda>b. b\<lparr>bh_default := Some False\<rparr>"
  by unfold_locales simp_all

section \<open>The service as a step relation\<close>

text \<open>
  Every write of the module. A request is checked before its operation runs; the identifier of a new
  row is not in its table; a ticket is re-evaluated or swept at any time.
\<close>

inductive sla_step :: "cal \<Rightarrow> chrono_text \<Rightarrow> sla_db \<Rightarrow> sla_db \<Rightarrow> bool" for C T where
  policy_created: "validate_name (plr_name r) = Inr () \<Longrightarrow> i \<notin> pl_id ` set (sla_policies db) \<Longrightarrow>
    create_policy db t r ctx i = Inr db' \<Longrightarrow> sla_step C T db db'"
| policy_updated: "validate_name (plr_name r) = Inr () \<Longrightarrow> update_policy db t i r = Inr db' \<Longrightarrow> sla_step C T db db'"
| policy_deleted: "delete_policy db t i = Inr db' \<Longrightarrow> sla_step C T db db'"
| target_set: "validate_target g = Inr () \<Longrightarrow> upsert_target db t p g i = Inr db' \<Longrightarrow> sla_step C T db db'"
| target_deleted: "delete_target db t i = Inr db' \<Longrightarrow> sla_step C T db db'"
| hours_created: "validate_hours T b = Inr () \<Longrightarrow> i \<notin> bh_id ` set (hours_tbl db) \<Longrightarrow>
    create_business_hours db t b ctx i = Inr db' \<Longrightarrow> sla_step C T db db'"
| hours_updated: "validate_hours T b = Inr () \<Longrightarrow> update_business_hours db t i b = Inr db' \<Longrightarrow> sla_step C T db db'"
| hours_deleted: "delete_business_hours db t i = Inr db' \<Longrightarrow> sla_step C T db db'"
| calendar_created: "validate_calendar T h = Inr () \<Longrightarrow> create_holiday_calendar db t h ctx i = Inr db' \<Longrightarrow> sla_step C T db db'"
| calendar_updated: "validate_calendar T h = Inr () \<Longrightarrow> update_holiday_calendar db t i h = Inr db' \<Longrightarrow> sla_step C T db db'"
| calendar_deleted: "delete_holiday_calendar db t i = Inr db' \<Longrightarrow> sla_step C T db db'"
| evaluated: "sla_step C T db (evaluate_for_ticket C T db t i)"
| swept: "sla_step C T db (fst (run_tick send now db))"

inductive_cases sla_stepE: "sla_step C T db db'"

text \<open>
  The invariant: one default per tenant in both tables, at most one target for a priority of a
  policy, targets in order, at most one alert of a kind for a ticket.
\<close>

definition target_ok :: "sla_target \<Rightarrow> bool" where
  "target_ok g \<longleftrightarrow> (case (tg_first_response g, tg_resolution g) of
     (Some f, Some s) \<Rightarrow> f \<le> s | _ \<Rightarrow> True)"

definition sla_ok :: "sla_db \<Rightarrow> bool" where
  "sla_ok db \<longleftrightarrow> policies.ok (sla_policies db) \<and> hours.ok (hours_tbl db)
     \<and> distinct (map (\<lambda>g. (tg_policy g, tg_priority g)) (sla_targets db)) \<and> list_all target_ok (sla_targets db)
     \<and> distinct (map (\<lambda>n. (sn_ticket n, sn_kind n)) (sla_notifications db))"

lemma policy_key_conv: "policy_key t i = (\<lambda>p. pl_tenant p = t \<and> pl_id p = i)"
  by (simp add: policy_key_def fun_eq_iff)

lemma hours_key_conv: "hours_key t i = (\<lambda>b. bh_tenant b = t \<and> bh_id b = i)"
  by (simp add: hours_key_def fun_eq_iff)

lemma create_policy_ok:
  assumes "policies.ok (sla_policies db)" "i \<notin> pl_id ` set (sla_policies db)" "create_policy db t r ctx i = Inr db'"
  shows "policies.ok (sla_policies db')"
  using assms policies.ok_insert [of "sla_policies db" "\<lparr> pl_id = i, pl_tenant = t, pl_name = plr_name r,
      pl_description = plr_description r, pl_business_hours = plr_business_hours r, pl_default = Some (plr_default r) \<rparr>"]
  by (auto simp: create_policy_def Let_def split: if_splits)

lemma update_policy_ok:
  assumes "policies.ok (sla_policies db)" "update_policy db t i r = Inr db'"
  shows "policies.ok (sla_policies db')"
  using assms policies.ok_update [of "sla_policies db" "\<lambda>p. p\<lparr>pl_name := plr_name r,
      pl_description := plr_description r, pl_business_hours := plr_business_hours r, pl_default := Some (plr_default r)\<rparr>"
      "plr_default r" t i]
  by (auto simp: update_policy_def Let_def policy_key_conv split: if_splits)

lemma create_hours_ok:
  assumes "hours.ok (hours_tbl db)" "i \<notin> bh_id ` set (hours_tbl db)" "create_business_hours db t r ctx i = Inr db'"
  shows "hours.ok (hours_tbl db')"
  using assms hours.ok_insert [of "hours_tbl db" "\<lparr> bh_id = i, bh_tenant = t, bh_name = br_name r, bh_timezone = br_timezone r,
      bh_schedule = br_schedule r, bh_holidays = None, bh_default = Some (br_default r) \<rparr>"]
  by (auto simp: create_business_hours_def Let_def split: if_splits)

lemma update_hours_ok:
  assumes "hours.ok (hours_tbl db)" "update_business_hours db t i r = Inr db'"
  shows "hours.ok (hours_tbl db')"
  using assms hours.ok_update [of "hours_tbl db" "\<lambda>b. b\<lparr>bh_name := br_name r, bh_timezone := br_timezone r,
      bh_schedule := br_schedule r, bh_default := Some (br_default r)\<rparr>" "br_default r" t i]
  by (auto simp: update_business_hours_def Let_def hours_key_conv split: if_splits)

definition targets_ok :: "sla_target list \<Rightarrow> bool" where
  "targets_ok gs \<longleftrightarrow> distinct (map (\<lambda>g. (tg_policy g, tg_priority g)) gs) \<and> list_all target_ok gs"

lemma targets_ok_delete: "targets_ok gs \<Longrightarrow> targets_ok (delete_where p gs)"
  by (auto simp: targets_ok_def delete_where_def distinct_map_filter list_all_iff)

lemma validate_target_order:
  assumes "validate_target r = Inr ()" "tgr_first_response r = Some f" "tgr_resolution r = Some s"
  shows "num2 (wd_value f) \<le> num2 (wd_value s)"
proof -
  have le: "wd_value f \<le> wd_value s" "0 < wd_value f"
    using assms by (auto simp: validate_target_def validate_opt_def validate_sla_target_hours_def
        validate_sla_target_range_def split: if_splits elim!: and_then_InrE)
  then show ?thesis by (intro num2_mono) simp_all
qed

lemma upsert_target_ok:
  assumes "targets_ok (sla_targets db)" "validate_target r = Inr ()" "upsert_target db t p r i = Inr db'"
  shows "targets_ok (sla_targets db')"
proof -
  define fr rs where "fr = map_option (num2 \<circ> wd_value) (tgr_first_response r)"
    and "rs = map_option (num2 \<circ> wd_value) (tgr_resolution r)"
  have new: "target_ok g" if "tg_first_response g = fr" "tg_resolution g = rs" for g
    using that validate_target_order [OF assms(2)] by (auto simp: target_ok_def fr_def rs_def split: option.splits)
  show ?thesis
  proof (cases "list_ex (target_key p (tgr_priority r)) (sla_targets db)")
    case True
    with assms(3) have db': "sla_targets db' = update_where (target_key p (tgr_priority r))
        (\<lambda>g. g\<lparr>tg_first_response := fr, tg_resolution := rs, tg_operational := Some (tgr_operational r)\<rparr>) (sla_targets db)"
      by (auto simp: upsert_target_def Let_def fr_def rs_def split: if_splits)
    have "list_all target_ok (sla_targets db')"
      using assms(1) new unfolding db' by (auto simp: targets_ok_def list_all_iff set_update_where)
    with assms(1) show ?thesis by (simp add: targets_ok_def db' map_update_where)
  next
    case False
    with assms(3) have db': "sla_targets db' = sla_targets db @ [\<lparr> tg_id = i, tg_policy = p, tg_priority = tgr_priority r,
        tg_first_response = fr, tg_resolution = rs, tg_operational = Some (tgr_operational r) \<rparr>]"
      by (auto simp: upsert_target_def Let_def fr_def rs_def split: if_splits)
    show ?thesis using assms(1) False new unfolding db' by (auto simp: targets_ok_def list_ex_iff target_key_def)
  qed
qed

lemma claim_distinct:
  assumes "distinct (map (\<lambda>n. (sn_ticket n, sn_kind n)) ns)"
  shows "distinct (map (\<lambda>n. (sn_ticket n, sn_kind n)) (fst (claim_sla_notification ns t i kind)))"
  using assms by (auto simp: claim_sla_notification_def list_ex_iff claimed_key_def)

lemma sweep_milestones_distinct:
  "distinct (map (\<lambda>n. (sn_ticket n, sn_kind n)) ns) \<Longrightarrow>
   distinct (map (\<lambda>n. (sn_ticket n, sn_kind n)) (fst (sweep_milestones send now k a ms ns)))"
proof (induction ms arbitrary: ns)
  case (Cons m ms)
  show ?case
  proof (cases "alert_of now (tk_created_at k) m")
    case (Some ke)
    obtain kind event where ke: "ke = (kind, event)" by fastforce
    obtain ns1 n where c: "claim_sla_notification ns (tk_tenant k) (tk_id k) kind = (ns1, n)" by fastforce
    have "distinct (map (\<lambda>n. (sn_ticket n, sn_kind n)) ns1)"
      using claim_distinct [OF Cons.prems, of "tk_tenant k" "tk_id k" kind] c by simp
    from Cons.IH [OF this] show ?thesis by (simp add: Some ke c case_prod_beta)
  qed (use Cons in simp)
qed simp

lemma sweep_tickets_distinct:
  "distinct (map (\<lambda>n. (sn_ticket n, sn_kind n)) ns) \<Longrightarrow>
   distinct (map (\<lambda>n. (sn_ticket n, sn_kind n)) (fst (sweep_tickets send now ks ns)))"
proof (induction ks arbitrary: ns)
  case (Cons k ks)
  show ?case
  proof (cases "tk_assigned k")
    case (Some a)
    obtain ns1 n where c: "sweep_milestones send now k a (milestones k) ns = (ns1, n)" by fastforce
    have "distinct (map (\<lambda>n. (sn_ticket n, sn_kind n)) ns1)"
      using sweep_milestones_distinct [OF Cons.prems, of send now k a "milestones k"] c by simp
    from Cons.IH [OF this] show ?thesis by (simp add: Some c case_prod_beta)
  qed (use Cons in simp)
qed simp

lemma run_tick_frame:
  "sla_policies (fst (run_tick send now db)) = sla_policies db" "sla_targets (fst (run_tick send now db)) = sla_targets db"
  "hours_tbl (fst (run_tick send now db)) = hours_tbl db"
  by (simp_all add: run_tick_def split: option.split prod.split)

lemma evaluate_frame:
  "sla_policies (evaluate_for_ticket C T db t i) = sla_policies db" "sla_targets (evaluate_for_ticket C T db t i) = sla_targets db"
  "hours_tbl (evaluate_for_ticket C T db t i) = hours_tbl db"
  "sla_notifications (evaluate_for_ticket C T db t i) = sla_notifications db"
  by (simp_all add: evaluate_for_ticket_def set_due_def Let_def split: option.split prod.split)

lemma sla_ok_conv:
  "sla_ok db \<longleftrightarrow> policies.ok (sla_policies db) \<and> hours.ok (hours_tbl db) \<and> targets_ok (sla_targets db)
     \<and> distinct (map (\<lambda>n. (sn_ticket n, sn_kind n)) (sla_notifications db))"
  by (simp add: sla_ok_def targets_ok_def conj_assoc)

lemma run_tick_notifications:
  "distinct (map (\<lambda>n. (sn_ticket n, sn_kind n)) (sla_notifications db)) \<Longrightarrow>
   distinct (map (\<lambda>n. (sn_ticket n, sn_kind n)) (sla_notifications (fst (run_tick send now db))))"
  using sweep_tickets_distinct by (auto simp: run_tick_def case_prod_beta split: option.split)

lemma sla_step_ok:
  assumes "sla_step C T db db'" "sla_ok db" shows "sla_ok db'"
  using assms
proof (cases rule: sla_step.cases)
  case (policy_created r i t ctx)
  moreover have "hours_tbl db' = hours_tbl db" "sla_targets db' = sla_targets db" "sla_notifications db' = sla_notifications db"
    using policy_created(3) by (auto simp: create_policy_def Let_def split: if_splits)
  ultimately show ?thesis using create_policy_ok assms(2) by (auto simp: sla_ok_conv)
next
  case (policy_updated r t i)
  moreover have "hours_tbl db' = hours_tbl db" "sla_targets db' = sla_targets db" "sla_notifications db' = sla_notifications db"
    using policy_updated(2) by (auto simp: update_policy_def Let_def split: if_splits)
  ultimately show ?thesis using update_policy_ok assms(2) by (auto simp: sla_ok_conv)
next
  case (policy_deleted t i)
  then show ?thesis
    using assms(2) policies.ok_delete targets_ok_delete by (auto simp: sla_ok_conv delete_policy_def split: if_splits)
next
  case (target_set g t p i)
  moreover have "hours_tbl db' = hours_tbl db" "sla_policies db' = sla_policies db" "sla_notifications db' = sla_notifications db"
    using target_set(2) by (auto simp: upsert_target_def Let_def split: if_splits)
  ultimately show ?thesis using upsert_target_ok assms(2) by (auto simp: sla_ok_conv)
next
  case (target_deleted t i)
  then show ?thesis using assms(2) targets_ok_delete by (auto simp: sla_ok_conv delete_target_def Let_def split: if_splits)
next
  case (hours_created b i t ctx)
  moreover have "sla_policies db' = sla_policies db" "sla_targets db' = sla_targets db" "sla_notifications db' = sla_notifications db"
    using hours_created(3) by (auto simp: create_business_hours_def Let_def)
  ultimately show ?thesis using create_hours_ok assms(2) by (auto simp: sla_ok_conv)
next
  case (hours_updated b t i)
  moreover have "sla_policies db' = sla_policies db" "sla_targets db' = sla_targets db" "sla_notifications db' = sla_notifications db"
    using hours_updated(2) by (auto simp: update_business_hours_def Let_def split: if_splits)
  ultimately show ?thesis using update_hours_ok assms(2) by (auto simp: sla_ok_conv)
next
  case (hours_deleted t i)
  then show ?thesis using assms(2) hours.ok_delete by (auto simp: sla_ok_conv delete_business_hours_def split: if_splits)
next
  case (evaluated t i)
  then show ?thesis using assms(2) by (simp add: sla_ok_conv evaluate_frame)
next
  case (swept send now)
  then show ?thesis using assms(2) run_tick_notifications by (simp add: sla_ok_conv run_tick_frame)
qed (auto simp: sla_ok_conv create_holiday_calendar_def update_holiday_calendar_def delete_holiday_calendar_def split: if_splits)

lemma sla_reachable_ok: "(sla_step C T)\<^sup>*\<^sup>* db db' \<Longrightarrow> sla_ok db \<Longrightarrow> sla_ok db'"
  by (induction rule: rtranclp_induct) (auto intro: sla_step_ok)

section \<open>Alerts\<close>

lemma sweep_milestones_grows: "set ns \<subseteq> set (fst (sweep_milestones send now k a ms ns))"
proof (induction ms arbitrary: ns)
  case (Cons m ms)
  have "set ns \<subseteq> set (fst (claim_sla_notification ns t i kind))" for t i kind
    by (auto simp: claim_sla_notification_def)
  with Cons show ?case by (fastforce simp: case_prod_beta split: option.split)
qed simp

lemma claim_claims: "list_ex (claimed_key i kind) (fst (claim_sla_notification ns t i kind))"
  by (simp add: claim_sla_notification_def claimed_key_def)

lemma list_ex_mono_set: "list_ex p xs \<Longrightarrow> set xs \<subseteq> set ys \<Longrightarrow> list_ex p ys"
  by (auto simp: list_ex_iff)

lemma sweep_milestones_claims:
  "m \<in> set ms \<Longrightarrow> alert_of now (tk_created_at k) m = Some (kind, event) \<Longrightarrow>
   list_ex (claimed_key (tk_id k) kind) (fst (sweep_milestones send now k a ms ns))"
proof (induction ms arbitrary: ns)
  case (Cons x xs)
  show ?case
  proof (cases "x = m")
    case True
    let ?c = "claim_sla_notification ns (tk_tenant k) (tk_id k) kind"
    have "fst (sweep_milestones send now k a (x # xs) ns) = fst (sweep_milestones send now k a xs (fst ?c))"
      using True Cons.prems(2) by (simp add: case_prod_beta)
    with list_ex_mono_set [OF claim_claims sweep_milestones_grows] show ?thesis by simp
  next
    case False
    with Cons show ?thesis by (auto simp: case_prod_beta split: option.split)
  qed
qed simp

lemma sweep_milestones_again:
  "(\<And>m kind event. m \<in> set ms \<Longrightarrow> alert_of now (tk_created_at k) m = Some (kind, event) \<Longrightarrow>
      list_ex (claimed_key (tk_id k) kind) ns) \<Longrightarrow> sweep_milestones send now k a ms ns = (ns, 0)"
  by (induction ms) (auto simp: claim_sla_notification_def split: option.split)

definition alerted :: "instant \<Rightarrow> sla_notification list \<Rightarrow> sla_ticket \<Rightarrow> bool" where
  "alerted now ns k \<longleftrightarrow> (\<forall>m \<in> set (milestones k). \<forall>kind event. alert_of now (tk_created_at k) m = Some (kind, event) \<longrightarrow>
     list_ex (claimed_key (tk_id k) kind) ns)"

lemma alerted_mono: "alerted now ns k \<Longrightarrow> set ns \<subseteq> set ns' \<Longrightarrow> alerted now ns' k"
  unfolding alerted_def using list_ex_mono_set by blast

lemma sweep_tickets_grows: "set ns \<subseteq> set (fst (sweep_tickets send now ks ns))"
proof (induction ks arbitrary: ns)
  case (Cons k ks)
  show ?case using Cons order_trans [OF sweep_milestones_grows Cons] by (auto simp: case_prod_beta split: option.split)
qed simp

lemma sweep_tickets_alerts:
  "k \<in> set ks \<Longrightarrow> tk_assigned k \<noteq> None \<Longrightarrow> alerted now (fst (sweep_tickets send now ks ns)) k"
proof (induction ks arbitrary: ns)
  case (Cons x xs)
  show ?case
  proof (cases "x = k")
    case True
    with Cons.prems obtain a where a: "tk_assigned k = Some a" by auto
    have "alerted now (fst (sweep_milestones send now k a (milestones k) ns)) k"
      unfolding alerted_def using sweep_milestones_claims by blast
    from alerted_mono [OF this sweep_tickets_grows] show ?thesis using True a by (simp add: case_prod_beta)
  next
    case False
    with Cons show ?thesis by (auto simp: case_prod_beta split: option.split)
  qed
qed simp

lemma sweep_tickets_again:
  "(\<And>k. k \<in> set ks \<Longrightarrow> tk_assigned k \<noteq> None \<Longrightarrow> alerted now ns k) \<Longrightarrow> sweep_tickets send now ks ns = (ns, 0)"
proof (induction ks)
  case (Cons k ks)
  then have rest: "sweep_tickets send now ks ns = (ns, 0)" by simp
  show ?case
  proof (cases "tk_assigned k")
    case (Some a)
    with Cons.prems [of k] have "sweep_milestones send now k a (milestones k) ns = (ns, 0)"
      unfolding alerted_def by (intro sweep_milestones_again) auto
    then show ?thesis by (simp add: Some rest)
  qed (simp add: rest)
qed simp

section \<open>Sample data\<close>

definition HOUR :: int where "HOUR = 60 * MINUTE"

definition nine_to_five :: business_schedule where
  "nine_to_five = from_windows UTC (map (\<lambda>d. (d, [(9 * HOUR, 17 * HOUR)])) [1..<6])"

definition sample_chrono :: chrono_text where
  "sample_chrono = \<lparr> ct_time = (\<lambda>_ s. map_of [(''08:00'', 8 * HOUR), (''12:00'', 12 * HOUR), (''13:00'', 13 * HOUR), (''17:00'', 17 * HOUR)] s),
     ct_date = (\<lambda>_ _. None), ct_zone = (\<lambda>_. None) \<rparr>"

definition sample_window :: "string \<Rightarrow> string \<Rightarrow> json" where
  "sample_window a b = JObj [(''end'', JStr b), (''start'', JStr a)]"

lemma nine_to_five_windows:
  "windows nine_to_five d = (if d \<in> {1..5} then [\<lparr> win_start = 9 * HOUR, win_end = 17 * HOUR \<rparr>] else [])"
  by (auto simp: windows_def nine_to_five_def from_windows_def HOUR_def MINUTE_def upt_rec numeral_eq_Suc)

lemma nine_to_five_zone: "sch_tz nine_to_five = UTC"
  by (simp add: nine_to_five_def from_windows_def)

lemma nine_to_five_sorted: "schedule_sorted nine_to_five"
  by (auto simp: schedule_sorted_def nine_to_five_windows HOUR_def MINUTE_def DAY_def)

lemma nine_to_five_regular: "zone_regular (sch_tz nine_to_five) (schedule_times nine_to_five)"
  unfolding nine_to_five_zone UTC_def
  by (rule fixed_zone_regular) (auto simp: schedule_times_def nine_to_five_windows HOUR_def MINUTE_def DAY_def split: if_splits)

lemma nine_to_five_open:
  assumes "9 * HOUR \<le> s" "s < 17 * HOUR" "weekday d \<in> {1..5}" "d \<notin> set hs"
  shows "open_at nine_to_five hs (d * DAY + s)"
proof -
  have "date_naive UTC (d * DAY + s) = d"
    using assms(1,2) by (simp add: date_naive_def UTC_def fixed_zone_def DAY_def HOUR_def MINUTE_def)
  then show ?thesis
    using assms by (simp add: open_at_def nine_to_five_zone nine_to_five_windows local_dt_def UTC_def fixed_zone_def)
qed

section \<open>The deadline\<close>

text \<open>What a deadline is: the first instant that has the budget in open time behind it.\<close>

definition is_deadline :: "business_schedule \<Rightarrow> date list \<Rightarrow> instant \<Rightarrow> int \<Rightarrow> instant \<Rightarrow> bool" where
  "is_deadline S hs start b due \<longleftrightarrow> start \<le> due \<and> open_time S hs start due = b
     \<and> (\<forall>j. start \<le> j \<and> j < due \<longrightarrow> open_time S hs start j < b)"

lemma not_any_window: "\<not> has_any_window S \<Longrightarrow> open_time S hs a b = 0"
  using weekday_less by (intro open_time_closed) (auto simp: open_at_def Let_def has_any_window_def windows_def list_ex_iff)

text \<open>
  C20. The walk implements the meaning of the schedule. If some instant has the budget in open time behind
  it and is near enough for the cap on rounds, what the clock returns is the deadline: the first
  instant before which the open time of the schedule, holidays left out, adds up to the budget.
  Overlapping windows count once. The zone has no clock change over a midnight or over a boundary
  of a window.
\<close>

theorem due_at_is_the_deadline:
  assumes "zone_regular (sch_tz S) (schedule_times S)" and "schedule_sorted S" and "0 < hours"
    and "\<forall>d. length (windows S d) \<le> k" and "budget_of hours \<le> open_time S hs start e"
    and "(date_naive (sch_tz S) e - date_naive (sch_tz S) start + 1) * (int k + 1) \<le> MAX_ROUNDS"
    and "date_naive (sch_tz S) start + MAX_ROUNDS < cal_max C"
  shows "is_deadline S hs start (budget_of hours) (due_at C start hours S hs BusinessHours)"
proof -
  have b: "0 \<le> budget_of hours" using assms(3) by (simp add: budget_of_def SECOND_def)
  show ?thesis
  proof (cases "has_any_window S")
    case True
    then have "due_at C start hours S hs BusinessHours = due_at_business_hours C start (budget_of hours) S hs"
      using assms(3) by (simp add: due_at_def)
    moreover have "business_clock S" using assms(1,2) by (rule business_clock.intro)
    note business_clock.due_at_least [OF this b assms(5) _ assms(6,7)]
    ultimately show ?thesis using assms(4) by (simp add: is_deadline_def)
  next
    case False
    then have z: "open_time S hs a b' = 0" for a b' by (rule not_any_window)
    with assms(5) b have "budget_of hours = 0" by simp
    with z False assms(3) show ?thesis by (simp add: is_deadline_def due_at_def)
  qed
qed

theorem due_at_is_the_deadline_witness:
  "is_deadline nine_to_five [20607] (20606 * DAY + 9 * HOUR) (4 * HOUR)
     (due_at gregorian (20606 * DAY + 9 * HOUR) 4 nine_to_five [20607] BusinessHours)
   \<and> due_at gregorian (20606 * DAY + 9 * HOUR) 4 nine_to_five [20607] BusinessHours = 20606 * DAY + 13 * HOUR"
proof
  let ?a = "20606 * DAY + 9 * HOUR" and ?e = "20606 * DAY + 13 * HOUR"
  have b: "budget_of 4 = 4 * HOUR" by code_simp
  have "open_at nine_to_five [20607] i" if "?a \<le> i" "i < ?e" for i
    using nine_to_five_open [of "i - 20606 * DAY" 20606 "[20607]"] that by (simp add: weekday_def HOUR_def MINUTE_def)
  then have "open_time nine_to_five [20607] ?a ?e = ?e - ?a" by (intro open_time_open) (simp_all add: HOUR_def MINUTE_def)
  then have "budget_of 4 \<le> open_time nine_to_five [20607] ?a ?e" unfolding b by simp
  moreover have "\<forall>d. length (windows nine_to_five d) \<le> 1" by (simp add: nine_to_five_windows)
  moreover have "(date_naive (sch_tz nine_to_five) ?e - date_naive (sch_tz nine_to_five) ?a + 1) * (int 1 + 1) \<le> MAX_ROUNDS"
    "date_naive (sch_tz nine_to_five) ?a + MAX_ROUNDS < cal_max gregorian" by code_simp+
  ultimately show "is_deadline nine_to_five [20607] ?a (4 * HOUR) (due_at gregorian ?a 4 nine_to_five [20607] BusinessHours)"
    using due_at_is_the_deadline [OF nine_to_five_regular nine_to_five_sorted, of 4 1 "[20607]" ?a ?e gregorian]
    unfolding b by simp
  show "due_at gregorian ?a 4 nine_to_five [20607] BusinessHours = ?e" by code_simp
qed

section \<open>The checks and the reader\<close>

lemma validate_all_Inr: "validate_all f xs = Inr () \<longleftrightarrow> (\<forall>x \<in> set xs. f x = Inr ())"
proof (induction xs)
  case (Cons x xs)
  then show ?case by (cases "f x") auto
qed simp

lemma map_filter_all: "length (List.map_filter f xs) = length xs \<longleftrightarrow> (\<forall>x \<in> set xs. f x \<noteq> None)"
proof (induction xs)
  case (Cons x xs)
  have "length (List.map_filter f xs) \<le> length xs" by (simp add: map_filter_def)
  with Cons show ?case by (auto simp: map_filter_simps split: option.split)
qed (simp add: map_filter_simps)

lemma validate_window_iff: "validate_schedule_window T v = Inr () \<longleftrightarrow> parse_window T v \<noteq> None"
  by (cases v) (auto simp: validate_schedule_window_def parse_window_def parse_time_field_def json_get_def
      split: option.splits Option.bind_splits if_splits)

text \<open>
  The check at write time accepts exactly the schedules the clock reads in full: a null, or an object
  whose keys all name a weekday and whose values are a null, one readable window, or an array of which
  every element becomes a window. Nothing that is stored through the service is skipped by the reader.
\<close>

theorem accepted_schedule_is_read_in_full:
  "validate_business_schedule T v = Inr () \<longleftrightarrow>
     (case v of
        JNull \<Rightarrow> True
      | JObj es \<Rightarrow> (\<forall>(key, value) \<in> set es. parse_weekday_key key \<noteq> None
          \<and> (case value of
               JNull \<Rightarrow> True
             | JObj _ \<Rightarrow> length (parse_windows T value) = 1
             | JArr items \<Rightarrow> length (parse_windows T value) = length items
             | _ \<Rightarrow> False))
      | _ \<Rightarrow> False)"
proof -
  have day: "validate_schedule_day T x = Inr () \<longleftrightarrow>
      (case x of
         JNull \<Rightarrow> True
       | JObj _ \<Rightarrow> length (parse_windows T x) = 1
       | JArr items \<Rightarrow> length (parse_windows T x) = length items
       | _ \<Rightarrow> False)" for x
    by (cases x) (auto simp: validate_schedule_day_def validate_window_iff validate_all_Inr parse_windows_def
        map_filter_all split: option.split)
  show ?thesis
    by (cases v) (auto simp: validate_business_schedule_def validate_all_Inr day split: if_splits)
qed

theorem accepted_schedule_is_read_in_full_witness:
  "validate_business_schedule sample_chrono (JObj [(''mon'', JArr [sample_window ''08:00'' ''12:00''])]) = Inr ()
   \<and> length (parse_windows sample_chrono (JArr [sample_window ''08:00'' ''12:00''])) = 1"
proof -
  have "validate_business_schedule sample_chrono (JObj [(''mon'', JArr [sample_window ''08:00'' ''12:00''])]) = Inr ()"
    by code_simp
  with accepted_schedule_is_read_in_full [of sample_chrono "JObj [(''mon'', JArr [sample_window ''08:00'' ''12:00''])]"]
  show ?thesis by simp
qed

section \<open>Settings and deadlines\<close>

definition sample_sla :: sla_db where
  "sample_sla = \<lparr> sla_policies = [\<lparr> pl_id = 1, pl_tenant = 7, pl_name = ''Gold'', pl_description = None,
       pl_business_hours = Some 2, pl_default = Some True \<rparr>],
     sla_targets = [\<lparr> tg_id = 4, tg_policy = 1, tg_priority = 5, tg_first_response = Some 1, tg_resolution = Some 4,
       tg_operational = Some ''business_hours'' \<rparr>],
     hours_tbl = [\<lparr> bh_id = 2, bh_tenant = 7, bh_name = ''Office'', bh_timezone = ''UTC'',
       bh_schedule = JObj [(''mon'', sample_window ''08:00'' ''17:00''), (''tue'', sample_window ''08:00'' ''17:00'')],
       bh_holidays = None, bh_default = Some True \<rparr>],
     calendars_tbl = [\<lparr> hc_id = 3, hc_tenant = 7, hc_name = ''US'', hc_holidays = JArr [] \<rparr>],
     sla_tickets = [\<lparr> tk_id = 9, tk_tenant = 7, tk_sla = None, tk_priority = 5, tk_status = 6, tk_assigned = Some 8,
       tk_created_at = 20605 * DAY + 9 * HOUR, tk_first_response_due = None, tk_first_response_at = None,
       tk_resolution_due = None, tk_sla_due = None, tk_resolved_at = None, tk_closed_at = None \<rparr>],
     ticket_priorities = [5], ticket_statuses = [(6, Some False)], sla_notifications = [], sla_audit = [] \<rparr>"

definition sample_policy :: policy_request where
  "sample_policy = \<lparr> plr_name = ''Silver'', plr_description = None, plr_business_hours = None, plr_default = True \<rparr>"

lemma sample_sla_ok: "sla_ok sample_sla"
  by (simp add: sla_ok_conv sample_sla_def one_default_def targets_ok_def target_ok_def)

text \<open>
  C22. No sequence of requests, evaluations and sweeps leaves a tenant with two default policies or two
  default schedules, a policy with two targets for a priority, a target whose first response is due
  after its resolution, or a ticket with two alerts of one kind. In particular the policy that applies
  to a ticket without one of its own is determined.
\<close>

theorem sla_settings_stay_consistent:
  assumes "(sla_step C T)\<^sup>*\<^sup>* db db'" and "sla_ok db"
  shows "sla_ok db'
    \<and> (\<forall>p \<in> set (sla_policies db'). pl_tenant p = t \<and> pl_default p = Some True \<and> tk_sla k = None \<longrightarrow>
         applicable_policy db' t k = Some p)"
proof -
  have ok: "sla_ok db'" using sla_reachable_ok assms .
  have "applicable_policy db' t k = Some p"
    if p: "p \<in> set (sla_policies db')" "pl_tenant p = t" "pl_default p = Some True" "tk_sla k = None" for p
  proof -
    obtain q where q: "applicable_policy db' t k = Some q"
      using p by (cases "applicable_policy db' t k") (auto simp: applicable_policy_def select_one_None)
    then have "q \<in> set (sla_policies db') \<and> pl_tenant q = t \<and> pl_default q = Some True"
      using p(4) by (auto simp: applicable_policy_def dest: select_one_SomeD)
    with ok p have "q = p" by (auto simp: sla_ok_def one_default_def)
    with q show ?thesis by simp
  qed
  with ok show ?thesis by blast
qed

theorem sla_settings_stay_consistent_witness:
  "\<exists>db'. create_policy sample_sla 7 sample_policy (audit_ctx_system 7) 11 = Inr db' \<and> sla_ok db'
     \<and> map_option pl_id (applicable_policy db' 7 (hd (sla_tickets db'))) = Some 11"
proof -
  let ?c = "create_policy sample_sla 7 sample_policy (audit_ctx_system 7) 11"
  have "is_ok ?c" by code_simp
  then obtain db' where c: "?c = Inr db'" by (auto simp: is_ok_def split: sum.splits)
  have "sla_step gregorian sample_chrono sample_sla db'"
    by (rule policy_created [OF _ _ c]) code_simp+
  then have ok: "sla_ok db'"
    using sla_settings_stay_consistent [of gregorian sample_chrono sample_sla db'] sample_sla_ok by blast
  have "map_sum id (\<lambda>d. map_option pl_id (applicable_policy d 7 (hd (sla_tickets d)))) ?c = Inr (Some 11)" by code_simp
  with c ok show ?thesis by simp
qed

lemma budget_mono: "h \<le> h' \<Longrightarrow> budget_of h \<le> budget_of h'"
  by (simp add: budget_of_def SECOND_def floor_mono)

lemma due_at_mono:
  assumes "zone_regular (sch_tz S) (schedule_times S)" "schedule_sorted S"
    and "date_naive (sch_tz S) start + MAX_ROUNDS < cal_max C" and "h \<le> h'"
  shows "due_at C start h S hs op \<le> due_at C start h' S hs op"
proof -
  have clock: "business_clock S" using assms(1,2) by (rule business_clock.intro)
  have pos: "0 \<le> budget_of x" if "0 < x" for x using that by (simp add: budget_of_def SECOND_def)
  have ge: "start \<le> due_at_business_hours C start (budget_of x) S hs" if "0 < x" for x
    using business_clock.walk_spends [OF clock prod.collapse [symmetric] pos [OF that] assms(3)]
    by (simp add: due_at_business_hours_def)
  have le: "due_at_business_hours C start (budget_of h) S hs \<le> due_at_business_hours C start (budget_of h') S hs" if "0 < h"
    using business_clock.walk_mono [OF clock pos [OF that] budget_mono [OF assms(4)] assms(3)]
    by (simp add: due_at_business_hours_def)
  show ?thesis
    using ge [of h'] le budget_mono [OF assms(4)] pos [of h] pos [of h'] assms(4)
    by (cases op) (auto simp: due_at_def Let_def)
qed

lemma evaluate_result:
  assumes "select_one (ticket_key t i) (sla_tickets db) = Some k" "applicable_policy db t k = Some p"
    and "select_one (target_key (pl_id p) (tk_priority k)) (sla_targets db) = Some g"
    and "load_schedule_and_holidays T db t (pl_business_hours p) = (S, hs)"
  shows "\<exists>op. select_one (ticket_key t i) (sla_tickets (evaluate_for_ticket C T db t i)) =
    Some (k\<lparr>tk_first_response_due := map_option (\<lambda>h. due_at C (tk_created_at k) h S hs op) (tg_first_response g),
            tk_resolution_due := map_option (\<lambda>h. due_at C (tk_created_at k) h S hs op) (tg_resolution g),
            tk_sla_due := map_option (\<lambda>h. due_at C (tk_created_at k) h S hs op) (tg_resolution g)\<rparr>)"
proof -
  have "ticket_key t i k" using assms(1) by (auto dest: select_one_SomeD)
  moreover have "ticket_key t i (r\<lparr>tk_first_response_due := x, tk_resolution_due := y, tk_sla_due := z\<rparr>) = ticket_key t i r" for r x y z
    by (simp add: ticket_key_def)
  ultimately show ?thesis
    using assms
    by (intro exI [of _ "operational_from_db (opt_or (tg_operational g) ''business_hours'')"])
       (simp add: evaluate_for_ticket_def set_due_def select_one_update_where Let_def)
qed

text \<open>
  Deadlines stay in order. In every state the service can reach, evaluating a ticket against a policy
  that has a target for its priority sets a first-response deadline that is not after the resolution
  deadline, and both lie at or after the creation of the ticket, whichever schedule applies.
\<close>

theorem deadlines_stay_in_order:
  assumes "(sla_step C T)\<^sup>*\<^sup>* db0 db" and "sla_ok db0"
    and "select_one (ticket_key t i) (sla_tickets db) = Some k" "applicable_policy db t k = Some p"
    and "select_one (target_key (pl_id p) (tk_priority k)) (sla_targets db) = Some g"
    and "load_schedule_and_holidays T db t (pl_business_hours p) = (S, hs)"
    and "zone_regular (sch_tz S) (schedule_times S)" "schedule_sorted S"
    and "date_naive (sch_tz S) (tk_created_at k) + MAX_ROUNDS < cal_max C"
    and "tg_first_response g = Some f" "tg_resolution g = Some s"
  shows "\<exists>k' a b. select_one (ticket_key t i) (sla_tickets (evaluate_for_ticket C T db t i)) = Some k'
    \<and> tk_first_response_due k' = Some a \<and> tk_resolution_due k' = Some b \<and> tk_sla_due k' = Some b
    \<and> tk_created_at k \<le> a \<and> a \<le> b"
proof -
  obtain op where k': "select_one (ticket_key t i) (sla_tickets (evaluate_for_ticket C T db t i)) =
    Some (k\<lparr>tk_first_response_due := Some (due_at C (tk_created_at k) f S hs op),
            tk_resolution_due := Some (due_at C (tk_created_at k) s S hs op),
            tk_sla_due := Some (due_at C (tk_created_at k) s S hs op)\<rparr>)"
    using evaluate_result [OF assms(3-6)] assms(10,11) by auto
  have "g \<in> set (sla_targets db)" using assms(5) by (auto dest: select_one_SomeD)
  then have "f \<le> s"
    using sla_reachable_ok [OF assms(1,2)] assms(10,11) by (auto simp: sla_ok_def list_all_iff target_ok_def)
  note order = due_at_mono [OF assms(7-9) this, of hs op]
  have "tk_created_at k \<le> due_at C (tk_created_at k) f S hs op"
    using due_at_mono [OF assms(7-9), of "min 0 f" f hs op] by (simp add: due_at_def split: if_splits)
  with k' order show ?thesis by simp
qed

definition sample_schedule :: business_schedule where
  "sample_schedule = parse_schedule sample_chrono ''UTC''
     (JObj [(''mon'', sample_window ''08:00'' ''17:00''), (''tue'', sample_window ''08:00'' ''17:00'')])"

lemma sample_schedule_windows:
  "windows sample_schedule d = (if d = 1 \<or> d = 2 then [\<lparr> win_start = 8 * HOUR, win_end = 17 * HOUR \<rparr>] else [])"
proof -
  have keys: "parse_weekday_key ''mon'' = Some 1" "parse_weekday_key ''tue'' = Some 2" by code_simp+
  have ws: "parse_windows sample_chrono (sample_window ''08:00'' ''17:00'') = [\<lparr> win_start = 8 * HOUR, win_end = 17 * HOUR \<rparr>]"
    by code_simp
  show ?thesis by (simp add: windows_def sample_schedule_def parse_schedule_def add_day_def keys ws Let_def)
qed

lemma sample_schedule_ok:
  "zone_regular (sch_tz sample_schedule) (schedule_times sample_schedule)" "schedule_sorted sample_schedule"
proof -
  have z: "sch_tz sample_schedule = fixed_zone 0"
    by (simp add: sample_schedule_def parse_schedule_def sample_chrono_def UTC_def)
  show "zone_regular (sch_tz sample_schedule) (schedule_times sample_schedule)"
    unfolding z by (rule fixed_zone_regular)
      (auto simp: schedule_times_def sample_schedule_windows HOUR_def MINUTE_def DAY_def split: if_splits)
  show "schedule_sorted sample_schedule"
    by (auto simp: schedule_sorted_def sample_schedule_windows HOUR_def MINUTE_def DAY_def)
qed

theorem deadlines_stay_in_order_witness:
  "\<exists>k' a b. select_one (ticket_key 7 9) (sla_tickets (evaluate_for_ticket gregorian sample_chrono sample_sla 7 9)) = Some k'
     \<and> tk_first_response_due k' = Some a \<and> tk_resolution_due k' = Some b \<and> a \<le> b"
proof -
  let ?k = "hd (sla_tickets sample_sla)" and ?p = "hd (sla_policies sample_sla)" and ?g = "hd (sla_targets sample_sla)"
  have sel: "select_one (ticket_key 7 9) (sla_tickets sample_sla) = Some ?k" "applicable_policy sample_sla 7 ?k = Some ?p"
    "select_one (target_key (pl_id ?p) (tk_priority ?k)) (sla_targets sample_sla) = Some ?g" by code_simp+
  have load: "load_schedule_and_holidays sample_chrono sample_sla 7 (pl_business_hours ?p) = (sample_schedule, [])"
    by (simp add: load_schedule_and_holidays_def sample_sla_def sample_schedule_def select_one_def hours_key_def)
  have range: "date_naive (sch_tz sample_schedule) (tk_created_at ?k) + MAX_ROUNDS < cal_max gregorian" by code_simp
  have hours: "tg_first_response ?g = Some 1" "tg_resolution ?g = Some 4" by code_simp+
  from deadlines_stay_in_order [OF rtranclp.rtrancl_refl sample_sla_ok sel load sample_schedule_ok range hours]
  show ?thesis by blast
qed

section \<open>Every breach is alerted, once\<close>


definition sample_due :: sla_db where
  "sample_due = evaluate_for_ticket gregorian sample_chrono sample_sla 7 9"


section \<open>Behaviour the documentation rules out\<close>

text \<open>
  The badge and the alert disagree at the deadline itself. For an open ticket with a resolution
  deadline the badge says breached exactly when the sweep alerts a breach, except at the very instant
  of the deadline, where the alert goes out and the badge still shows a warning; the comments of both
  say they answer the same question the same way.
\<close>

theorem badge_lags_the_alert:
  fixes now :: instant
  assumes "tk_resolved_at k = None" "tk_closed_at k = None" "tk_resolution_due k = Some due"
  defines "badge \<equiv> compute_sla_status now \<lparr> sc_created_at = tk_created_at k, sc_sla_due_date = Some due,
      sc_closed_at = tk_closed_at k, sc_resolved_at = tk_resolved_at k, sc_status_is_closed = False \<rparr>"
    and "alert \<equiv> alert_of now (tk_created_at k) (milestones k ! 1)"
  shows "(now \<noteq> due \<longrightarrow> (badge = Breached \<longleftrightarrow> alert = Some (''resolution_breached'', ''sla.breached'')))
    \<and> (now = due \<longrightarrow> badge = Warning \<and> alert = Some (''resolution_breached'', ''sla.breached''))
    \<and> (badge = OnTrack \<longleftrightarrow> alert = None)"
proof -
  have "0 \<le> sla_at_risk_lead c d" for c d
    by (simp add: sla_at_risk_lead_def SLA_AT_RISK_LEAD_FLOOR_def MINUTE_def Let_def le_max_iff_disj)
  from this [of "tk_created_at k" due] show ?thesis
    using assms(1-3) by (auto simp: badge_def alert_def compute_sla_status_def alert_of_def milestones_def)
qed

theorem badge_lags_the_alert_witness:
  "alert_of (20605 * DAY + 13 * HOUR) (tk_created_at (hd (sla_tickets sample_due))) (milestones (hd (sla_tickets sample_due)) ! 1)
     = Some (''resolution_breached'', ''sla.breached'')"
proof -
  let ?k = "hd (sla_tickets sample_due)"
  have "tk_resolved_at ?k = None" "tk_closed_at ?k = None" "tk_resolution_due ?k = Some (20605 * DAY + 13 * HOUR)" by code_simp+
  from badge_lags_the_alert [OF this, of "20605 * DAY + 13 * HOUR"] show ?thesis by simp
qed

lemma links_none:
  assumes "sla_step C T db db'" "\<forall>b \<in> set (hours_tbl db). bh_holidays b = None"
  shows "\<forall>b \<in> set (hours_tbl db'). bh_holidays b = None"
  using assms
  by (cases rule: sla_step.cases)
     (auto simp: create_policy_def update_policy_def delete_policy_def upsert_target_def delete_target_def
        create_business_hours_def update_business_hours_def delete_business_hours_def create_holiday_calendar_def
        update_holiday_calendar_def delete_holiday_calendar_def evaluate_frame run_tick_frame Let_def set_update_where
        split: if_splits)

text \<open>
  Holiday calendars never take effect. No operation of the service writes the column that links
  business hours to calendars, so in every state it can reach from one without such a link the clock
  is given no holidays, whichever calendars the tenant keeps.
\<close>

theorem holiday_calendars_never_apply:
  assumes "(sla_step C T)\<^sup>*\<^sup>* db db'" and "\<forall>b \<in> set (hours_tbl db). bh_holidays b = None"
  shows "snd (load_schedule_and_holidays T db' t bh) = []"
proof -
  have "\<forall>b \<in> set (hours_tbl db'). bh_holidays b = None"
    using assms by (induction rule: rtranclp_induct) (auto dest: links_none)
  then show ?thesis
    by (auto simp: load_schedule_and_holidays_def Let_def split: option.split dest!: select_one_SomeD)
qed

theorem holiday_calendars_never_apply_witness:
  "snd (load_schedule_and_holidays sample_chrono sample_sla 7 (Some 2)) = [] \<and> calendars_tbl sample_sla \<noteq> []"
proof
  have "\<forall>b \<in> set (hours_tbl sample_sla). bh_holidays b = None" by code_simp
  from holiday_calendars_never_apply [OF rtranclp.rtrancl_refl this]
  show "snd (load_schedule_and_holidays sample_chrono sample_sla 7 (Some 2)) = []" by blast
  show "calendars_tbl sample_sla \<noteq> []" by code_simp
qed

text \<open>
  Two keys for one weekday lose opening hours. The check accepts a schedule that names Monday twice, as
  \<open>1\<close> and as \<open>mon\<close>; the reader appends the windows of the second key to those of the first without
  sorting them, and the walk, standing before the afternoon window, skips the morning: one hour from
  seven o'clock is due at two in the afternoon, not at nine.
\<close>

theorem aliased_weekday_keys_lose_hours:
  "let v = JObj [(''1'', sample_window ''13:00'' ''17:00''), (''mon'', sample_window ''08:00'' ''12:00'')];
       S = parse_schedule sample_chrono ''UTC'' v
   in validate_business_schedule sample_chrono v = Inr ()
      \<and> due_at gregorian (20605 * DAY + 7 * HOUR) 1 S [] BusinessHours = 20605 * DAY + 14 * HOUR"
  by code_simp

end
