(* ===== verification/Quotes.thy ===== *)
theory Quotes
  imports Invoicing
begin

text \<open>
  Quotes and the approvals that stand over them: src/src/modules/quotes/{models.rs, service.rs,
  approval_sync.rs} and src/src/modules/approvals/{models.rs, service.rs}. A quote is a sales
  document with lines; staff sign it off, the client accepts or declines it, an accepted quote
  becomes a project. The companies, contacts and tax rates it reads are those of billing and no
  operation here writes them. Reading and writing of an operation that takes no row lock are two
  definitions, so that two requests can be interleaved. The JSON images of the audit rows are left
  out, as is the resolution of identifiers to display names.
\<close>

section \<open>Statuses and line types\<close>

datatype quote_status = QDraft | QSubmitted | QApproved | QRejected | QSent | QAccepted | QDeclined
  | QExpired | QConverted | QCancelled

primrec quote_status_as_str :: "quote_status \<Rightarrow> string" where
  "quote_status_as_str QDraft = ''draft''"
| "quote_status_as_str QSubmitted = ''submitted''"
| "quote_status_as_str QApproved = ''approved''"
| "quote_status_as_str QRejected = ''rejected''"
| "quote_status_as_str QSent = ''sent''"
| "quote_status_as_str QAccepted = ''accepted''"
| "quote_status_as_str QDeclined = ''declined''"
| "quote_status_as_str QExpired = ''expired''"
| "quote_status_as_str QConverted = ''converted''"
| "quote_status_as_str QCancelled = ''cancelled''"

definition quote_status_from_str :: "string \<Rightarrow> quote_status option" where
  "quote_status_from_str s =
     (if s = ''draft'' then Some QDraft
      else if s = ''submitted'' then Some QSubmitted
      else if s = ''approved'' then Some QApproved
      else if s = ''rejected'' then Some QRejected
      else if s = ''sent'' then Some QSent
      else if s = ''accepted'' then Some QAccepted
      else if s = ''declined'' then Some QDeclined
      else if s = ''expired'' then Some QExpired
      else if s = ''converted'' then Some QConverted
      else if s = ''cancelled'' then Some QCancelled
      else None)"

definition quote_frozen :: "quote_status \<Rightarrow> bool" where
  "quote_frozen s \<longleftrightarrow> s \<in> {QSent, QAccepted, QDeclined, QExpired, QConverted, QCancelled}"

definition allows_content_edit :: "quote_status \<Rightarrow> bool" where
  "allows_content_edit s \<longleftrightarrow> s \<in> {QDraft, QRejected}"

definition is_client_visible :: "quote_status \<Rightarrow> bool" where
  "is_client_visible s \<longleftrightarrow> s \<in> {QSent, QAccepted, QDeclined, QExpired, QConverted}"

definition is_staff_settable :: "quote_status \<Rightarrow> bool" where
  "is_staff_settable s \<longleftrightarrow> s \<in> {QDraft, QSubmitted, QApproved, QRejected, QCancelled}"

definition CLIENT_VISIBLE_STATUSES :: "string list" where
  "CLIENT_VISIBLE_STATUSES = [''sent'', ''accepted'', ''declined'', ''expired'', ''converted'']"

datatype quote_line_type = QLService | QLProduct | QLLabour | QLExpense | QLAdjustment | QLDiscount

primrec quote_line_type_as_str :: "quote_line_type \<Rightarrow> string" where
  "quote_line_type_as_str QLService = ''service''"
| "quote_line_type_as_str QLProduct = ''product''"
| "quote_line_type_as_str QLLabour = ''labour''"
| "quote_line_type_as_str QLExpense = ''expense''"
| "quote_line_type_as_str QLAdjustment = ''adjustment''"
| "quote_line_type_as_str QLDiscount = ''discount''"

definition quote_line_type_from_str :: "string \<Rightarrow> quote_line_type option" where
  "quote_line_type_from_str s =
     (if s = ''service'' then Some QLService
      else if s = ''product'' then Some QLProduct
      else if s = ''labour'' then Some QLLabour
      else if s = ''expense'' then Some QLExpense
      else if s = ''adjustment'' then Some QLAdjustment
      else if s = ''discount'' then Some QLDiscount
      else None)"

datatype approval_target = TTicket | TChangeRequest | TQuote | TTimeEntry

primrec approval_target_as_str :: "approval_target \<Rightarrow> string" where
  "approval_target_as_str TTicket = ''ticket''"
| "approval_target_as_str TChangeRequest = ''change_request''"
| "approval_target_as_str TQuote = ''quote''"
| "approval_target_as_str TTimeEntry = ''time_entry''"

definition approval_target_from_str :: "string \<Rightarrow> approval_target option" where
  "approval_target_from_str s =
     (if s = ''ticket'' then Some TTicket
      else if s = ''change_request'' then Some TChangeRequest
      else if s = ''quote'' then Some TQuote
      else if s = ''time_entry'' then Some TTimeEntry
      else None)"

text \<open>The values the CHECK on \<open>ticket_approvals.status\<close> admits.\<close>

datatype approval_status = ApPending | ApApproved | ApRejected | ApCancelled

section \<open>Tables\<close>

record quote =
  qt_id :: uuid
  qt_tenant :: tenant
  qt_number :: "string option"
  qt_company :: uuid
  qt_billing_contact :: "uuid option"
  qt_title :: string
  qt_summary :: "string option"
  qt_description :: "string option"
  qt_status :: quote_status
  qt_valid_until :: "date option"
  qt_subtotal :: decimal
  qt_tax_amount :: decimal
  qt_tax_rate_id :: "uuid option"
  qt_tax_rate :: "decimal option"
  qt_total :: decimal
  qt_currency :: "string option"
  qt_requested_by :: "uuid option"
  qt_sent_at :: "instant option"
  qt_decided_at :: "instant option"
  qt_decided_by :: "uuid option"
  qt_decision_notes :: "string option"
  qt_project :: "uuid option"
  qt_delivery :: "(delivery_method \<times> string option) option"
  qt_delivered_by :: "uuid option"
  qt_emailed_to :: "string option"
  qt_emailed_at :: "instant option"

record quote_line =
  ql_id :: uuid
  ql_quote :: uuid
  ql_type :: quote_line_type
  ql_description :: string
  ql_quantity :: decimal
  ql_unit_price :: decimal
  ql_total :: decimal
  ql_sort_order :: int
  ql_taxable :: bool

record approval =
  ap_id :: uuid
  ap_tenant :: tenant
  ap_target :: approval_target
  ap_entity :: uuid
  ap_ticket :: "uuid option"
  ap_requested_by :: "uuid option"
  ap_requested_by_contact :: "uuid option"
  ap_user :: "uuid option"
  ap_role :: "string option"
  ap_contact :: "uuid option"
  ap_status :: approval_status
  ap_notes :: "string option"
  ap_decision_notes :: "string option"
  ap_decided_by :: "uuid option"
  ap_decided_by_contact :: "uuid option"
  ap_decided_at :: "instant option"

record project_row =
  pj_id :: uuid
  pj_tenant :: tenant
  pj_name :: string
  pj_description :: "string option"
  pj_company :: uuid
  pj_manager :: "uuid option"
  pj_start :: "date option"
  pj_target_end :: "date option"
  pj_budget_hours :: "decimal option"
  pj_budget_amount :: decimal
  pj_billing_method :: string

text \<open>
  \<open>portal_contacts\<close> are the contacts with \<open>is_portal_user\<close> set; \<open>staff_users\<close> the rows of the users
  table, which the foreign keys point to; \<open>parent_rows\<close> the tickets, change requests and time entries
  an approval can be asked for.
\<close>

record quote_db =
  quotes_tbl :: "quote list"
  quote_lines_tbl :: "quote_line list"
  quote_sequences :: "number_sequence list"
  approvals_tbl :: "approval list"
  quote_projects :: "project_row list"
  portal_contacts :: "(tenant \<times> uuid) list"
  staff_users :: "uuid list"
  parent_rows :: "(approval_target \<times> tenant \<times> uuid) list"
  quote_audit :: "audit_row list"

section \<open>Requests\<close>

record quote_line_request =
  qlr_type :: quote_line_type
  qlr_description :: string
  qlr_quantity :: decimal
  qlr_unit_price :: decimal
  qlr_sort_order :: int
  qlr_taxable :: bool

record create_quote_request =
  cq_company :: uuid
  cq_billing_contact :: "uuid option"
  cq_title :: string
  cq_summary :: "string option"
  cq_description :: "string option"
  cq_valid_until :: "date option"
  cq_currency :: "string option"
  cq_tax_amount :: "decimal option"
  cq_tax_rate :: "uuid option"
  cq_lines :: "quote_line_request list"

record update_quote_request =
  uq_billing_contact :: "uuid option"
  uq_title :: "string option"
  uq_summary :: "string option"
  uq_description :: "string option"
  uq_valid_until :: "date option"
  uq_currency :: "string option"
  uq_tax_amount :: "decimal option"
  uq_tax_rate :: "uuid option"
  uq_status :: "quote_status option"
  uq_lines :: "quote_line_request list option"

record convert_quote_request =
  cv_manager :: "uuid option"
  cv_start :: "date option"
  cv_target_end :: "date option"
  cv_billing_method :: "string option"
  cv_budget_hours :: "decimal option"

record client_decision =
  cd_company :: uuid
  cd_contact :: uuid
  cd_accept :: bool
  cd_notes :: "string option"

record approval_request =
  apr_user :: "uuid option"
  apr_role :: "string option"
  apr_contact :: "uuid option"
  apr_notes :: "string option"

definition validate_billing_method :: "string \<Rightarrow> unit app_result" where
  "validate_billing_method s =
     (if s \<in> {''fixed_price'', ''time_and_materials'', ''not_billable''} then Inr ()
      else Inl (Validation ''invalid_billing_method''))"

definition validate_project_dates :: "convert_quote_request \<Rightarrow> unit app_result" where
  "validate_project_dates r =
     (case (cv_start r, cv_target_end r) of
        (Some start, Some end_date) \<Rightarrow>
          if end_date < start then Inl (Validation ''target_end_date_before_start_date'') else Inr ()
      | _ \<Rightarrow> Inr ())"

definition validate_convert :: "convert_quote_request \<Rightarrow> unit app_result" where
  "validate_convert r =
     and_then (case cv_billing_method r of None \<Rightarrow> Inr () | Some s \<Rightarrow> validate_billing_method s)
       (\<lambda>_. validate_project_dates r)"

section \<open>Rows, numbers, tax and totals\<close>

definition quote_key :: "tenant \<Rightarrow> uuid \<Rightarrow> quote \<Rightarrow> bool" where
  "quote_key t i r \<longleftrightarrow> qt_tenant r = t \<and> qt_id r = i"

definition select_quote :: "quote_db \<Rightarrow> tenant \<Rightarrow> uuid \<Rightarrow> quote option" where
  "select_quote db t i = select_one (quote_key t i) (quotes_tbl db)"

definition update_quote_row :: "tenant \<Rightarrow> uuid \<Rightarrow> (quote \<Rightarrow> quote) \<Rightarrow> quote_db \<Rightarrow> quote_db" where
  "update_quote_row t i f db = db\<lparr>quotes_tbl := update_where (quote_key t i) f (quotes_tbl db)\<rparr>"

definition quote_audited :: "tenant \<Rightarrow> audit_ctx \<Rightarrow> audit_action \<Rightarrow> string \<Rightarrow> uuid \<Rightarrow> quote_db \<Rightarrow> quote_db" where
  "quote_audited t ctx a entity i db = db\<lparr>quote_audit := audit_write (quote_audit db) t ctx a entity (Some i)\<rparr>"

definition next_quote_number :: "quote_db \<Rightarrow> tenant \<Rightarrow> (quote_db \<times> string) app_result" where
  "next_quote_number db t =
     map_sum id (\<lambda>(sqs, s). (db\<lparr>quote_sequences := sqs\<rparr>, s)) (next_in_series t ''QUO-'' (quote_sequences db))"

definition quote_company_in_tenant :: "bill_db \<Rightarrow> tenant \<Rightarrow> uuid \<Rightarrow> unit app_result" where
  "quote_company_in_tenant bdb t c =
     (if list_ex (company_key t c) (companies_tbl bdb) then Inr ()
      else Inl (BadRequest ''Unknown company''))"

definition settle_tax_rate :: "bill_db \<Rightarrow> quote_db \<Rightarrow> tenant \<Rightarrow> uuid \<Rightarrow> uuid option \<Rightarrow> bool \<Rightarrow> bool
    \<Rightarrow> quote_db app_result" where
  "settle_tax_rate bdb db t i requested_rate amount_given default_when_unset =
     (let write = (\<lambda>rate. update_quote_row t i
            (\<lambda>q. q\<lparr>qt_tax_rate_id := map_option fst rate, qt_tax_rate := map_option snd rate\<rparr>) db) in
      if amount_given then Inr (write None)
      else case requested_rate of
             Some r \<Rightarrow> map_sum id (\<lambda>rate. write (Some rate)) (assert_tax_rate_in_tenant bdb t r)
           | None \<Rightarrow> if default_when_unset then Inr (write (default_tax_rate bdb t)) else Inr db)"

definition quote_lines_total :: "quote_db \<Rightarrow> uuid \<Rightarrow> decimal" where
  "quote_lines_total db i = sum_where (\<lambda>l. ql_quote l = i) ql_total (quote_lines_tbl db)"

definition quote_taxable_total :: "quote_db \<Rightarrow> uuid \<Rightarrow> decimal" where
  "quote_taxable_total db i = sum_where (\<lambda>l. ql_quote l = i \<and> ql_taxable l) ql_total (quote_lines_tbl db)"

definition recompute_totals :: "quote_db \<Rightarrow> tenant \<Rightarrow> uuid \<Rightarrow> quote_db" where
  "recompute_totals db t i =
     (let subtotal = quote_lines_total db i;
          db1 = update_quote_row t i (\<lambda>q. q\<lparr>qt_subtotal := num2 subtotal,
                  qt_tax_amount := (case qt_tax_rate q of
                     Some pct \<Rightarrow> num2 (quote_taxable_total db i * pct / 100)
                   | None \<Rightarrow> qt_tax_amount q)\<rparr>) db
      in update_quote_row t i (\<lambda>q. q\<lparr>qt_total := num2 (qt_subtotal q + qt_tax_amount q)\<rparr>) db1)"

definition status_of :: "quote_db \<Rightarrow> tenant \<Rightarrow> uuid \<Rightarrow> quote_status app_result" where
  "status_of db t i =
     (case select_quote db t i of None \<Rightarrow> Inl (NotFound ''Quote'') | Some q \<Rightarrow> Inr (qt_status q))"

definition assert_content_editable :: "quote_status \<Rightarrow> unit app_result" where
  "assert_content_editable s =
     (if allows_content_edit s then Inr () else Inl (Conflict ''Quote cannot be edited''))"

definition quote_line_row :: "uuid \<Rightarrow> uuid \<Rightarrow> quote_line_request \<Rightarrow> quote_line" where
  "quote_line_row i line_id l =
     \<lparr> ql_id = line_id, ql_quote = i, ql_type = qlr_type l, ql_description = qlr_description l,
       ql_quantity = num2 (qlr_quantity l), ql_unit_price = num2 (qlr_unit_price l),
       ql_total = num2 (qlr_quantity l * qlr_unit_price l), ql_sort_order = qlr_sort_order l,
       ql_taxable = qlr_taxable l \<rparr>"

definition insert_quote_line :: "uuid \<Rightarrow> uuid \<Rightarrow> quote_line_request \<Rightarrow> quote_db \<Rightarrow> quote_db" where
  "insert_quote_line i line_id l db =
     db\<lparr>quote_lines_tbl := quote_lines_tbl db @ [quote_line_row i line_id l]\<rparr>"

text \<open>The loop over the lines of a request; the n-th line gets the n-th fresh identifier.\<close>

fun insert_quote_lines :: "(nat \<Rightarrow> uuid) \<Rightarrow> uuid \<Rightarrow> nat \<Rightarrow> quote_line_request list \<Rightarrow> quote_db \<Rightarrow> quote_db" where
  "insert_quote_lines new_line i n [] db = db"
| "insert_quote_lines new_line i n (l # ls) db =
     insert_quote_lines new_line i (Suc n) ls (insert_quote_line i (new_line n) l db)"

section \<open>Reading\<close>

definition effective_status :: "quote_status \<Rightarrow> date option \<Rightarrow> date \<Rightarrow> quote_status" where
  "effective_status stored valid_until today =
     (case valid_until of
        Some until \<Rightarrow> if stored = QSent \<and> until < today then QExpired else stored
      | None \<Rightarrow> stored)"

definition quote_response :: "date \<Rightarrow> quote \<Rightarrow> quote" where
  "quote_response today q = q\<lparr>qt_status := effective_status (qt_status q) (qt_valid_until q) today\<rparr>"

type_synonym quote_view = "quote \<times> quote_line list"

definition get_quote :: "quote_db \<Rightarrow> tenant \<Rightarrow> uuid \<Rightarrow> date \<Rightarrow> quote_view app_result" where
  "get_quote db t i today =
     (case select_quote db t i of
        None \<Rightarrow> Inl (NotFound ''Quote'')
      | Some q \<Rightarrow> Inr (quote_response today q,
                      sort_key ql_sort_order (filter (\<lambda>l. ql_quote l = i) (quote_lines_tbl db))))"

definition get_quote_for_company :: "quote_db \<Rightarrow> tenant \<Rightarrow> date \<Rightarrow> uuid \<Rightarrow> uuid \<Rightarrow> quote_view app_result" where
  "get_quote_for_company db t today company i =
     and_then (get_quote db t i today) (\<lambda>v.
       if qt_company (fst v) \<noteq> company \<or> \<not> is_client_visible (qt_status (fst v)) then Inl (NotFound ''Quote'')
       else Inr v)"

text \<open>The rows the two queries of the portal list select, before the page is cut.\<close>

definition list_quotes_for_company :: "quote_db \<Rightarrow> tenant \<Rightarrow> date \<Rightarrow> uuid \<Rightarrow> quote list \<times> nat" where
  "list_quotes_for_company db t today company =
     (let rows = filter (\<lambda>q. qt_tenant q = t \<and> qt_company q = company
                    \<and> quote_status_as_str (qt_status q) \<in> set CLIENT_VISIBLE_STATUSES) (quotes_tbl db)
      in (map (quote_response today) rows, length rows))"

definition answer_quote :: "quote_db \<Rightarrow> tenant \<Rightarrow> uuid \<Rightarrow> date \<Rightarrow> (quote_db \<times> quote_view) app_result" where
  "answer_quote db t i today = map_sum id (\<lambda>v. (db, v)) (get_quote db t i today)"

section \<open>Creating and editing\<close>

definition insert_quote :: "quote_db \<Rightarrow> quote \<Rightarrow> quote_db app_result" where
  "insert_quote db q =
     (if list_ex (\<lambda>x. qt_tenant x = qt_tenant q \<and> qt_number x = qt_number q) (quotes_tbl db)
      then Inl (Conflict ''That record already exists'')
      else Inr (db\<lparr>quotes_tbl := quotes_tbl db @ [q]\<rparr>))"

definition new_quote :: "tenant \<Rightarrow> uuid \<Rightarrow> string \<Rightarrow> uuid option \<Rightarrow> uuid \<Rightarrow> create_quote_request \<Rightarrow> quote" where
  "new_quote t i number contact requested_by r =
     (let subtotal = sum_list (map (\<lambda>l. qlr_quantity l * qlr_unit_price l) (cq_lines r));
          tax = opt_or (cq_tax_amount r) 0
      in \<lparr> qt_id = i, qt_tenant = t, qt_number = Some number, qt_company = cq_company r,
           qt_billing_contact = contact, qt_title = cq_title r, qt_summary = cq_summary r,
           qt_description = cq_description r, qt_status = QDraft, qt_valid_until = cq_valid_until r,
           qt_subtotal = num2 subtotal, qt_tax_amount = num2 tax, qt_tax_rate_id = None, qt_tax_rate = None,
           qt_total = num2 (subtotal + tax), qt_currency = Some (opt_or (cq_currency r) ''USD''),
           qt_requested_by = Some requested_by, qt_sent_at = None, qt_decided_at = None, qt_decided_by = None,
           qt_decision_notes = None, qt_project = None, qt_delivery = None, qt_delivered_by = None,
           qt_emailed_to = None, qt_emailed_at = None \<rparr>)"

definition create_quote :: "bill_db \<Rightarrow> quote_db \<Rightarrow> tenant \<Rightarrow> date \<Rightarrow> uuid \<Rightarrow> create_quote_request \<Rightarrow> audit_ctx
    \<Rightarrow> uuid \<Rightarrow> (nat \<Rightarrow> uuid) \<Rightarrow> (quote_db \<times> quote_view) app_result" where
  "create_quote bdb db t today requested_by r ctx new_id new_line =
     and_then (quote_company_in_tenant bdb t (cq_company r)) (\<lambda>_.
     and_then (resolve_billing_contact bdb t (cq_company r) (cq_billing_contact r)) (\<lambda>contact.
     and_then (next_quote_number db t) (\<lambda>(db1, number).
     and_then (insert_quote db1 (new_quote t new_id number contact requested_by r)) (\<lambda>db2.
     and_then (settle_tax_rate bdb (insert_quote_lines new_line new_id 0 (cq_lines r) db2) t new_id
                 (cq_tax_rate r) (cq_tax_amount r \<noteq> None) True) (\<lambda>db3.
       answer_quote (quote_audited t ctx ACreate ''quotes'' new_id (recompute_totals db3 t new_id)) t new_id today)))))"

definition changes_content :: "update_quote_request \<Rightarrow> bool" where
  "changes_content r \<longleftrightarrow> uq_billing_contact r \<noteq> None \<or> uq_title r \<noteq> None \<or> uq_summary r \<noteq> None
     \<or> uq_description r \<noteq> None \<or> uq_valid_until r \<noteq> None \<or> uq_currency r \<noteq> None
     \<or> uq_tax_amount r \<noteq> None \<or> uq_tax_rate r \<noteq> None \<or> uq_lines r \<noteq> None"

definition staff_approval :: "tenant \<Rightarrow> uuid \<Rightarrow> approval \<Rightarrow> bool" where
  "staff_approval t i a \<longleftrightarrow> ap_tenant a = t \<and> ap_target a = TQuote \<and> ap_entity a = i \<and> ap_contact a = None"

definition count_approvals :: "quote_db \<Rightarrow> tenant \<Rightarrow> uuid \<Rightarrow> approval_status \<Rightarrow> nat" where
  "count_approvals db t i s =
     length (filter (\<lambda>a. staff_approval t i a \<and> ap_status a = s) (approvals_tbl db))"

definition has_pending_staff_approval :: "quote_db \<Rightarrow> tenant \<Rightarrow> uuid \<Rightarrow> bool" where
  "has_pending_staff_approval db t i \<longleftrightarrow> 0 < count_approvals db t i ApPending"

definition check_new_status :: "quote_db \<Rightarrow> tenant \<Rightarrow> uuid \<Rightarrow> quote_status option \<Rightarrow> unit app_result" where
  "check_new_status db t i s =
     (case s of
        None \<Rightarrow> Inr ()
      | Some next \<Rightarrow>
          if \<not> is_staff_settable next then Inl (Conflict ''Status is not settable here'')
          else if next = QApproved \<and> has_pending_staff_approval db t i
          then Inl (Conflict ''This quote is waiting on an approval'')
          else Inr ())"

definition quote_header :: "update_quote_request \<Rightarrow> quote \<Rightarrow> quote" where
  "quote_header r q = q\<lparr>
     qt_billing_contact := or_else (uq_billing_contact r) (qt_billing_contact q),
     qt_title := opt_or (uq_title r) (qt_title q),
     qt_summary := or_else (uq_summary r) (qt_summary q),
     qt_description := or_else (uq_description r) (qt_description q),
     qt_valid_until := or_else (uq_valid_until r) (qt_valid_until q),
     qt_currency := or_else (uq_currency r) (qt_currency q),
     qt_tax_amount := (case uq_tax_amount r of Some x \<Rightarrow> num2 x | None \<Rightarrow> qt_tax_amount q),
     qt_status := opt_or (uq_status r) (qt_status q)\<rparr>"

definition replace_quote_lines :: "(nat \<Rightarrow> uuid) \<Rightarrow> uuid \<Rightarrow> quote_line_request list option \<Rightarrow> quote_db \<Rightarrow> quote_db" where
  "replace_quote_lines new_line i new db =
     (case new of
        None \<Rightarrow> db
      | Some ls \<Rightarrow> insert_quote_lines new_line i 0 ls
          (db\<lparr>quote_lines_tbl := delete_where (\<lambda>l. ql_quote l = i) (quote_lines_tbl db)\<rparr>))"

definition update_quote :: "bill_db \<Rightarrow> quote_db \<Rightarrow> tenant \<Rightarrow> date \<Rightarrow> uuid \<Rightarrow> update_quote_request \<Rightarrow> audit_ctx
    \<Rightarrow> (nat \<Rightarrow> uuid) \<Rightarrow> (quote_db \<times> quote_view) app_result" where
  "update_quote bdb db t today i r ctx new_line =
     (case select_quote db t i of
        None \<Rightarrow> Inl (NotFound ''Quote'')
      | Some current \<Rightarrow>
          if quote_frozen (qt_status current) then Inl (Conflict ''Quote cannot be edited'')
          else
            and_then (if changes_content r then assert_content_editable (qt_status current) else Inr ()) (\<lambda>_.
            and_then (check_new_status db t i (uq_status r)) (\<lambda>_.
            and_then (case uq_billing_contact r of
                        None \<Rightarrow> Inr () | Some c \<Rightarrow> assert_for_company bdb t (qt_company current) c) (\<lambda>_.
            and_then (settle_tax_rate bdb (replace_quote_lines new_line i (uq_lines r)
                          (update_quote_row t i (quote_header r) db)) t i
                        (uq_tax_rate r) (uq_tax_amount r \<noteq> None) False) (\<lambda>db1.
              answer_quote (quote_audited t ctx AUpdate ''quotes'' i (recompute_totals db1 t i)) t i today)))))"

definition cancel_quote :: "quote_db \<Rightarrow> tenant \<Rightarrow> uuid \<Rightarrow> audit_ctx \<Rightarrow> quote_db app_result" where
  "cancel_quote db t i ctx =
     and_then (status_of db t i) (\<lambda>s.
       if quote_frozen s then Inl (Conflict ''Quote cannot be cancelled'')
       else Inr (quote_audited t ctx ADelete ''quotes'' i
                  (update_quote_row t i (\<lambda>q. q\<lparr>qt_status := QCancelled\<rparr>) db)))"

definition add_line :: "quote_db \<Rightarrow> tenant \<Rightarrow> date \<Rightarrow> uuid \<Rightarrow> quote_line_request \<Rightarrow> uuid
    \<Rightarrow> (quote_db \<times> quote_view) app_result" where
  "add_line db t today i l line_id =
     and_then (status_of db t i) (\<lambda>s.
     and_then (assert_content_editable s) (\<lambda>_.
       answer_quote (recompute_totals (insert_quote_line i line_id l db) t i) t i today))"

definition line_key :: "uuid \<Rightarrow> uuid \<Rightarrow> quote_line \<Rightarrow> bool" where
  "line_key i line_id l \<longleftrightarrow> ql_id l = line_id \<and> ql_quote l = i"

definition update_line :: "quote_db \<Rightarrow> tenant \<Rightarrow> date \<Rightarrow> uuid \<Rightarrow> uuid \<Rightarrow> quote_line_request
    \<Rightarrow> (quote_db \<times> quote_view) app_result" where
  "update_line db t today i line_id l =
     and_then (status_of db t i) (\<lambda>s.
     and_then (assert_content_editable s) (\<lambda>_.
       if \<not> list_ex (line_key i line_id) (quote_lines_tbl db) then Inl (NotFound ''Quote line'')
       else answer_quote (recompute_totals (db\<lparr>quote_lines_tbl := update_where (line_key i line_id)
              (\<lambda>x. x\<lparr>ql_type := qlr_type l, ql_description := qlr_description l,
                     ql_quantity := num2 (qlr_quantity l), ql_unit_price := num2 (qlr_unit_price l),
                     ql_total := num2 (qlr_quantity l * qlr_unit_price l), ql_sort_order := qlr_sort_order l\<rparr>)
              (quote_lines_tbl db)\<rparr>) t i) t i today))"

definition delete_line :: "quote_db \<Rightarrow> tenant \<Rightarrow> date \<Rightarrow> uuid \<Rightarrow> uuid \<Rightarrow> (quote_db \<times> quote_view) app_result" where
  "delete_line db t today i line_id =
     and_then (status_of db t i) (\<lambda>s.
     and_then (assert_content_editable s) (\<lambda>_.
       if \<not> list_ex (line_key i line_id) (quote_lines_tbl db) then Inl (NotFound ''Quote line'')
       else answer_quote (recompute_totals
              (db\<lparr>quote_lines_tbl := delete_where (line_key i line_id) (quote_lines_tbl db)\<rparr>) t i) t i today))"

end
