(* ===== verification/Quote_Signoff.thy ===== *)
theory Quote_Signoff
  imports Quotes
begin

text \<open>
  What happens to a quote once it is worked up: the send, the client's decision, the conversion
  into a project (src/src/modules/quotes/service.rs), the sign-off by staff
  (src/src/modules/approvals/service.rs and routes.rs, src/src/modules/quotes/approval_sync.rs) and
  the portal link of src/src/modules/contact_portal/links.rs. The mail dispatcher, the identity of
  the organisation, the company's portal handle and the text of an identifier are the answers of
  \<open>quote_env\<close>. The user or contact that acts is a row of its table.
\<close>

section \<open>The portal link\<close>

definition starts_with :: "string \<Rightarrow> string \<Rightarrow> bool" where
  "starts_with p s \<longleftrightarrow> take (length p) s = p"

definition is_in_app_path :: "string \<Rightarrow> bool" where
  "is_in_app_path path \<longleftrightarrow> starts_with ''/'' path \<and> \<not> starts_with ''//'' path
     \<and> list_all (\<lambda>c. c \<notin> {CHR ''?'', CHR ''#'', CHR ''&'', CHR '' '', CHR 0x5C}) path"

definition int_text :: "int \<Rightarrow> string" where
  "int_text n = (if n < 0 then ''-'' @ digits_of (nat (- n)) else digits_of (nat n))"

definition trim_end_slashes :: "string \<Rightarrow> string" where
  "trim_end_slashes s = rev (dropWhile (\<lambda>c. c = CHR ''/'') (rev s))"

definition portal_login_link :: "string \<Rightarrow> int option \<Rightarrow> string option \<Rightarrow> string option" where
  "portal_login_link origin portal_id next_path =
     (let o1 = trim_end_slashes (trim origin) in
      if o1 = [] then None
      else let base = (case portal_id of
                 Some handle \<Rightarrow> o1 @ ''/portal/'' @ int_text handle @ ''/login''
               | None \<Rightarrow> o1 @ ''/portal/login'')
           in case next_path of
                Some n \<Rightarrow> Some (if is_in_app_path n then base @ ''?next='' @ n else base)
              | None \<Rightarrow> Some base)"

section \<open>Sending\<close>

text \<open>What the dispatcher is asked to mail.\<close>

record quote_mail =
  qm_recipient :: string
  qm_number :: string
  qm_title :: string
  qm_total :: decimal
  qm_valid_until :: "date option"
  qm_link :: string
  qm_sender :: "string \<times> string"

record quote_env =
  qe_dispatch :: "(quote_mail \<Rightarrow> unit app_result) option"
  qe_origin :: string
  qe_portal_id :: "int option"
  qe_org :: "(string \<times> string) app_result"
  qe_uuid_text :: "uuid \<Rightarrow> string"
  qe_failure_recorded :: bool

definition mail_quote_to_client :: "quote_env \<Rightarrow> quote \<Rightarrow> string \<Rightarrow> unit app_result" where
  "mail_quote_to_client env q address =
     (case qe_dispatch env of
        None \<Rightarrow> Inl (ExternalService ''mail'' ''this service cannot send email'')
      | Some dispatch \<Rightarrow>
          (case portal_login_link (qe_origin env) (qe_portal_id env)
                  (Some (''/quotes/'' @ qe_uuid_text env (qt_id q))) of
             None \<Rightarrow> Inl (ExternalService ''mail'' ''no portal origin is configured'')
           | Some link \<Rightarrow>
               (case qe_org env of
                  Inl _ \<Rightarrow> Inl (ExternalService ''mail'' ''the organisation's identity could not be read'')
                | Inr sender \<Rightarrow>
                    (case dispatch \<lparr> qm_recipient = address, qm_number = opt_or (qt_number q) ''(unnumbered)'',
                             qm_title = qt_title q, qm_total = qt_total q, qm_valid_until = qt_valid_until q,
                             qm_link = link, qm_sender = sender \<rparr> of
                       Inl _ \<Rightarrow> Inl (ExternalService ''mail'' ''Could not email the quote'')
                     | Inr _ \<Rightarrow> Inr ()))))"

definition quote_delivery_choice :: "(delivery_method \<times> string option) option \<Rightarrow> delivery_method \<times> string option" where
  "quote_delivery_choice d =
     (case d of
        Some (m, note) \<Rightarrow> (m, case map_option trim note of Some [] \<Rightarrow> None | x \<Rightarrow> x)
      | None \<Rightarrow> (ByEmail, None))"

definition quote_recipient :: "bill_db \<Rightarrow> tenant \<Rightarrow> quote \<Rightarrow> (uuid \<times> string) app_result" where
  "quote_recipient bdb t q =
     and_then (resolve_billing_contact bdb t (qt_company q) (qt_billing_contact q)) (\<lambda>contact.
       (case contact of
          None \<Rightarrow> Inl (Conflict ''This quote has nobody to send to: the company has no billing contact'')
        | Some c \<Rightarrow>
            (case select_one (\<lambda>x. ct_tenant x = t \<and> ct_id x = c) (contacts_tbl bdb) of
               None \<Rightarrow> Inl (Conflict ''This quote has nobody to send to: the billing contact has no email address'')
             | Some x \<Rightarrow>
                 if trim (opt_or (ct_email x) []) = []
                 then Inl (Conflict ''This quote has nobody to send to: the billing contact has no email address'')
                 else Inr (c, trim (opt_or (ct_email x) [])))))"

definition mark_sent :: "delivery_method \<times> string option \<Rightarrow> uuid option \<Rightarrow> audit_ctx \<Rightarrow> instant \<Rightarrow> quote \<Rightarrow> quote" where
  "mark_sent choice contact ctx now q = q\<lparr>
     qt_status := QSent, qt_sent_at := Some now,
     qt_billing_contact := or_else contact (qt_billing_contact q),
     qt_delivery := Some (fst choice, if contact \<noteq> None then None else snd choice),
     qt_delivered_by := or_else (qt_delivered_by q) (ctx_user ctx)\<rparr>"

definition send_quote_tx :: "quote_env \<Rightarrow> bill_db \<Rightarrow> quote_db \<Rightarrow> tenant \<Rightarrow> date \<Rightarrow> uuid
    \<Rightarrow> delivery_method \<times> string option \<Rightarrow> audit_ctx \<Rightarrow> instant \<Rightarrow> quote_db send_result" where
  "send_quote_tx env bdb db t today i choice ctx now =
     (case select_quote db t i of
        None \<Rightarrow> Inl (NotFound ''Quote'', False)
      | Some q \<Rightarrow>
          if qt_status q \<noteq> QApproved then Inl (Conflict ''Quote cannot be sent; it must be internally approved first'', False)
          else if fst choice = ByEmail then
            and_then (plain (quote_recipient bdb t q)) (\<lambda>(contact, address).
              let sent = mark_sent choice (Some contact) ctx now q;
                  db1 = update_quote_row t i (mark_sent choice (Some contact) ctx now) db in
              and_then (map_sum (\<lambda>e. (e, True)) id (mail_quote_to_client env (quote_response today sent) address)) (\<lambda>_.
                Inr (quote_audited t ctx AUpdate ''quotes'' i (quote_audited t ctx AUpdate ''quotes'' i
                  (update_quote_row t i (\<lambda>x. x\<lparr>qt_emailed_at := Some now, qt_emailed_to := Some address\<rparr>) db1)))))
          else
            Inr (quote_audited t ctx AUpdate ''quotes'' i (quote_audited t ctx AUpdate ''quotes'' i
                  (update_quote_row t i (mark_sent choice None ctx now) db))))"

text \<open>A refused mail rolls the transition back and is recorded in a transaction of its own.\<close>

definition send_quote :: "quote_env \<Rightarrow> bill_db \<Rightarrow> quote_db \<Rightarrow> tenant \<Rightarrow> date \<Rightarrow> uuid
    \<Rightarrow> (delivery_method \<times> string option) option \<Rightarrow> audit_ctx \<Rightarrow> instant \<Rightarrow> quote_db \<times> quote_view app_result" where
  "send_quote env bdb db t today i delivery ctx now =
     (let choice = quote_delivery_choice delivery in
      if choice = (ByOther, None) then (db, Inl (Validation ''delivery.note''))
      else case send_quote_tx env bdb db t today i choice ctx now of
             Inl (e, refused) \<Rightarrow>
               (if refused \<and> qe_failure_recorded env then quote_audited t ctx AUpdate ''quotes'' i db else db, Inl e)
           | Inr db1 \<Rightarrow> (db1, get_quote db1 t i today))"

record delivery_option =
  dop_method :: delivery_method
  dop_available :: bool
  dop_recipient :: "string option"
  dop_reason :: "string option"

definition resolve_quote_email_option :: "quote_env \<Rightarrow> bill_db \<Rightarrow> tenant \<Rightarrow> quote \<Rightarrow> delivery_option" where
  "resolve_quote_email_option env bdb t q =
     (let refuse = (\<lambda>reason. \<lparr> dop_method = ByEmail, dop_available = False, dop_recipient = None, dop_reason = Some reason \<rparr>) in
      if qe_dispatch env = None then refuse ''Email is not configured on this server''
      else
        (case or_else (qt_billing_contact q)
                (case select_one (company_key t (qt_company q)) (companies_tbl bdb) of
                   None \<Rightarrow> None | Some r \<Rightarrow> cp_default_contact r) of
           None \<Rightarrow> refuse ''No billing contact is set''
         | Some c \<Rightarrow>
             (case select_one (\<lambda>x. ct_tenant x = t \<and> ct_id x = c) (contacts_tbl bdb) of
                None \<Rightarrow> refuse ''Billing contact no longer exists''
              | Some x \<Rightarrow>
                  if trim (opt_or (ct_email x) []) = [] then refuse ''Billing contact is missing email address''
                  else \<lparr> dop_method = ByEmail, dop_available = True,
                         dop_recipient = Some (trim (opt_or (ct_email x) [])), dop_reason = None \<rparr>)))"

definition quote_delivery_options :: "quote_env \<Rightarrow> bill_db \<Rightarrow> quote_db \<Rightarrow> tenant \<Rightarrow> date \<Rightarrow> uuid
    \<Rightarrow> delivery_option list app_result" where
  "quote_delivery_options env bdb db t today i =
     and_then (get_quote db t i today) (\<lambda>(q, _).
       let option = (\<lambda>m ok. \<lparr> dop_method = m, dop_available = ok, dop_recipient = None,
             dop_reason = (if ok then None else Some ''Quote cannot be sent; it must be internally approved first'') \<rparr>)
       in Inr (if qt_status q \<noteq> QApproved then map (\<lambda>m. option m False) [ByEmail, ByPost, ByOther]
               else [resolve_quote_email_option env bdb t q, option ByPost True, option ByOther True]))"

section \<open>The client's decision\<close>

text \<open>The check reads the row without a lock; the write names the row by its key alone.\<close>

definition decide_check :: "quote_db \<Rightarrow> tenant \<Rightarrow> date \<Rightarrow> uuid \<Rightarrow> client_decision \<Rightarrow> unit app_result" where
  "decide_check db t today i d =
     (case select_quote db t i of
        None \<Rightarrow> Inl (NotFound ''Quote'')
      | Some q \<Rightarrow>
          if qt_company q \<noteq> cd_company d \<or> \<not> is_client_visible (qt_status q) then Inl (NotFound ''Quote'')
          else if effective_status (qt_status q) (qt_valid_until q) today \<noteq> QSent
          then Inl (Conflict ''Quote can no longer be decided'')
          else Inr ())"

definition decide_apply :: "quote_db \<Rightarrow> tenant \<Rightarrow> uuid \<Rightarrow> client_decision \<Rightarrow> audit_ctx \<Rightarrow> instant \<Rightarrow> quote_db" where
  "decide_apply db t i d ctx now =
     quote_audited t ctx AUpdate ''quotes'' i (update_quote_row t i (\<lambda>q. q\<lparr>
       qt_status := (if cd_accept d then QAccepted else QDeclined), qt_decided_at := Some now,
       qt_decided_by := Some (cd_contact d), qt_decision_notes := cd_notes d\<rparr>) db)"

definition decide_quote :: "quote_db \<Rightarrow> tenant \<Rightarrow> date \<Rightarrow> uuid \<Rightarrow> client_decision \<Rightarrow> audit_ctx \<Rightarrow> instant
    \<Rightarrow> (quote_db \<times> quote_view) app_result" where
  "decide_quote db t today i d ctx now =
     and_then (decide_check db t today i d) (\<lambda>_. answer_quote (decide_apply db t i d ctx now) t i today)"

section \<open>Conversion into a project\<close>

definition converted_project :: "tenant \<Rightarrow> quote \<Rightarrow> convert_quote_request \<Rightarrow> uuid \<Rightarrow> project_row" where
  "converted_project t q r project_id =
     \<lparr> pj_id = project_id, pj_tenant = t, pj_name = qt_title q, pj_description = qt_description q,
       pj_company = qt_company q, pj_manager = cv_manager r, pj_start = cv_start r, pj_target_end = cv_target_end r,
       pj_budget_hours = map_option num2 (cv_budget_hours r), pj_budget_amount = qt_total q,
       pj_billing_method = opt_or (cv_billing_method r) ''fixed_price'' \<rparr>"

definition convert_quote :: "quote_db \<Rightarrow> tenant \<Rightarrow> date \<Rightarrow> uuid \<Rightarrow> convert_quote_request \<Rightarrow> audit_ctx \<Rightarrow> uuid
    \<Rightarrow> (quote_db \<times> quote_view) app_result" where
  "convert_quote db t today i r ctx project_id =
     (case select_quote db t i of
        None \<Rightarrow> Inl (NotFound ''Quote'')
      | Some q \<Rightarrow>
          if qt_status q = QConverted \<and> qt_project q \<noteq> None then answer_quote db t i today
          else if qt_status q \<noteq> QAccepted
          then Inl (Conflict ''Quote cannot be converted; the client must accept it first'')
          else if \<not> list_all (\<lambda>u. u \<in> set (staff_users db)) (case cv_manager r of None \<Rightarrow> [] | Some u \<Rightarrow> [u])
          then Inl (Database ''foreign key'')
          else
            let db1 = db\<lparr>quote_projects := quote_projects db @ [converted_project t q r project_id]\<rparr>;
                db2 = update_quote_row t i (\<lambda>x. x\<lparr>qt_status := QConverted, qt_project := Some project_id\<rparr>) db1
            in answer_quote (quote_audited t ctx AUpdate ''quotes'' i
                 (quote_audited t ctx ACreate ''projects'' project_id db2)) t i today)"

section \<open>Staff sign-off\<close>

definition signoff_outcome :: "quote_status \<Rightarrow> nat \<Rightarrow> nat \<Rightarrow> quote_status option" where
  "signoff_outcome current pending rejected =
     (if current \<noteq> QSubmitted then None
      else if 0 < rejected then Some QRejected
      else if pending = 0 then Some QApproved
      else None)"

definition apply_decision :: "quote_db \<Rightarrow> tenant \<Rightarrow> uuid \<Rightarrow> quote_db \<times> quote_status option" where
  "apply_decision db t i =
     (case select_quote db t i of
        None \<Rightarrow> (db, None)
      | Some q \<Rightarrow>
          (case signoff_outcome (qt_status q) (count_approvals db t i ApPending) (count_approvals db t i ApRejected) of
             None \<Rightarrow> (db, None)
           | Some next \<Rightarrow> (update_quote_row t i (\<lambda>x. x\<lparr>qt_status := next\<rparr>) db, Some next)))"

definition approval_key :: "tenant \<Rightarrow> uuid \<Rightarrow> approval \<Rightarrow> bool" where
  "approval_key t a r \<longleftrightarrow> ap_tenant r = t \<and> ap_id r = a"

definition select_approval :: "quote_db \<Rightarrow> tenant \<Rightarrow> uuid \<Rightarrow> approval option" where
  "select_approval db t a = select_one (approval_key t a) (approvals_tbl db)"

definition get_approval :: "quote_db \<Rightarrow> tenant \<Rightarrow> uuid \<Rightarrow> approval app_result" where
  "get_approval db t a =
     (case select_approval db t a of None \<Rightarrow> Inl (NotFound ''Approval'') | Some r \<Rightarrow> Inr r)"

definition update_approval_row :: "(approval \<Rightarrow> bool) \<Rightarrow> (approval \<Rightarrow> approval) \<Rightarrow> quote_db \<Rightarrow> quote_db" where
  "update_approval_row p f db = db\<lparr>approvals_tbl := update_where p f (approvals_tbl db)\<rparr>"

definition answer_approval :: "quote_db \<Rightarrow> tenant \<Rightarrow> uuid \<Rightarrow> (quote_db \<times> approval) app_result" where
  "answer_approval db t a = map_sum id (\<lambda>r. (db, r)) (get_approval db t a)"

definition new_approval :: "tenant \<Rightarrow> approval_target \<Rightarrow> uuid \<Rightarrow> uuid option \<Rightarrow> uuid option \<Rightarrow> approval_request \<Rightarrow> uuid
    \<Rightarrow> approval" where
  "new_approval t target entity by_user by_contact r new_id =
     \<lparr> ap_id = new_id, ap_tenant = t, ap_target = target, ap_entity = entity,
       ap_ticket = (if target = TTicket then Some entity else None),
       ap_requested_by = by_user, ap_requested_by_contact = by_contact,
       ap_user = apr_user r, ap_role = apr_role r, ap_contact = apr_contact r, ap_status = ApPending,
       ap_notes = apr_notes r, ap_decision_notes = None, ap_decided_by = None, ap_decided_by_contact = None,
       ap_decided_at = None \<rparr>"

definition approver_kinds :: "approval_request \<Rightarrow> nat" where
  "approver_kinds r = of_bool (apr_user r \<noteq> None) + of_bool (apr_role r \<noteq> None) + of_bool (apr_contact r \<noteq> None)"

definition create_for_entity :: "quote_db \<Rightarrow> tenant \<Rightarrow> approval_target \<Rightarrow> uuid \<Rightarrow> uuid \<Rightarrow> approval_request \<Rightarrow> uuid
    \<Rightarrow> (quote_db \<times> approval) app_result" where
  "create_for_entity db t target entity requested_by r new_id =
     (if approver_kinds r \<noteq> 1 then Inl (BadRequest ''Set exactly one of approver_user_id, approver_role or approver_contact_id'')
      else if \<not> list_all (\<lambda>c. (t, c) \<in> set (portal_contacts db)) (case apr_contact r of None \<Rightarrow> [] | Some c \<Rightarrow> [c])
      then Inl (BadRequest ''approver_contact_id is not a portal contact of this tenant'')
      else if \<not> list_all (\<lambda>u. u \<in> set (staff_users db)) (case apr_user r of None \<Rightarrow> [] | Some u \<Rightarrow> [u])
      then Inl (Database ''foreign key'')
      else answer_approval (db\<lparr>approvals_tbl := approvals_tbl db
             @ [new_approval t target entity (Some requested_by) None r new_id]\<rparr>) t new_id)"

definition create_contact_request :: "quote_db \<Rightarrow> tenant \<Rightarrow> uuid \<Rightarrow> uuid \<Rightarrow> string \<Rightarrow> uuid
    \<Rightarrow> (quote_db \<times> approval) app_result" where
  "create_contact_request db t ticket contact note new_id =
     answer_approval (db\<lparr>approvals_tbl := approvals_tbl db @ [new_approval t TTicket ticket None (Some contact)
       \<lparr> apr_user = None, apr_role = Some ''admin'', apr_contact = None, apr_notes = Some note \<rparr> new_id]\<rparr>) t new_id"

text \<open>The check on the parent, which the routes and the ticket wrappers run first.\<close>

definition assert_parent_exists :: "quote_db \<Rightarrow> approval_target \<Rightarrow> tenant \<Rightarrow> uuid \<Rightarrow> unit app_result" where
  "assert_parent_exists db target t entity =
     (if target = TQuote then (if select_quote db t entity = None then Inl (NotFound ''Quote'') else Inr ())
      else if (target, t, entity) \<in> set (parent_rows db) then Inr ()
      else Inl (NotFound (case target of TTicket \<Rightarrow> ''Ticket'' | TChangeRequest \<Rightarrow> ''Change request''
                                       | TQuote \<Rightarrow> ''Quote'' | TTimeEntry \<Rightarrow> ''Time entry'')))"

definition create_approval :: "quote_db \<Rightarrow> approval_target \<Rightarrow> tenant \<Rightarrow> uuid \<Rightarrow> uuid \<Rightarrow> approval_request \<Rightarrow> uuid
    \<Rightarrow> (quote_db \<times> approval) app_result" where
  "create_approval db target t entity requested_by r new_id =
     and_then (assert_parent_exists db target t entity) (\<lambda>_.
       create_for_entity db t target entity requested_by r new_id)"

definition create_staff_request :: "quote_db \<Rightarrow> tenant \<Rightarrow> uuid \<Rightarrow> uuid \<Rightarrow> string \<Rightarrow> uuid
    \<Rightarrow> (quote_db \<times> approval) app_result" where
  "create_staff_request db t ticket requested_by note new_id =
     and_then (assert_parent_exists db TTicket t ticket) (\<lambda>_.
       create_for_entity db t TTicket ticket requested_by
         \<lparr> apr_user = None, apr_role = Some ''admin'', apr_contact = None, apr_notes = Some note \<rparr> new_id)"

definition parse_decision :: "string \<Rightarrow> approval_status app_result" where
  "parse_decision s =
     (if s = ''approve'' then Inr ApApproved else if s = ''reject'' then Inr ApRejected
      else Inl (BadRequest ''Decision must be 'approve' or 'reject' ''))"

definition decide_approval :: "quote_db \<Rightarrow> tenant \<Rightarrow> uuid \<Rightarrow> uuid \<Rightarrow> string \<Rightarrow> string \<times> string option \<Rightarrow> audit_ctx
    \<Rightarrow> instant \<Rightarrow> (quote_db \<times> approval) app_result" where
  "decide_approval db t a caller role req ctx now =
     and_then (parse_decision (fst req)) (\<lambda>new_status.
       (case select_approval db t a of
          None \<Rightarrow> Inl (NotFound ''Approval'')
        | Some r \<Rightarrow>
            if ap_status r \<noteq> ApPending then Inl (BadRequest ''Approval is already decided'')
            else if \<not> (ap_user r = Some caller \<or> ap_role r = Some role)
            then Inl (Forbidden ''Only the assigned approver may decide'')
            else
              let db1 = update_approval_row (\<lambda>x. approval_key t a x \<and> ap_status x = ApPending)
                    (\<lambda>x. x\<lparr>ap_status := new_status, ap_decision_notes := snd req, ap_decided_by := Some caller,
                           ap_decided_at := Some now\<rparr>) db;
                  db2 = (if ap_target r \<noteq> TQuote then db1
                         else case apply_decision db1 t (ap_entity r) of
                                (moved, Some _) \<Rightarrow> quote_audited t ctx AUpdate ''quotes'' (ap_entity r) moved
                              | (same, None) \<Rightarrow> same)
              in answer_approval db2 t a))"

definition audit_portal_event :: "quote_db \<Rightarrow> tenant \<Rightarrow> uuid option \<Rightarrow> audit_action \<Rightarrow> quote_db" where
  "audit_portal_event db t contact action =
     db\<lparr>quote_audit := audit_write (quote_audit db) t
          \<lparr> ctx_tenant = Some t, ctx_user = None, ctx_ip = None, ctx_user_agent = None \<rparr>
          action ''portal_contact'' contact\<rparr>"

definition decide_as_contact :: "bool \<Rightarrow> quote_db \<Rightarrow> tenant \<Rightarrow> uuid \<Rightarrow> uuid \<Rightarrow> string \<times> string option \<Rightarrow> instant
    \<Rightarrow> (quote_db \<times> approval) app_result" where
  "decide_as_contact audit_written db t a contact req now =
     and_then (parse_decision (fst req)) (\<lambda>new_status.
       (case select_one (\<lambda>x. approval_key t a x \<and> ap_contact x = Some contact) (approvals_tbl db) of
          None \<Rightarrow> Inl (NotFound ''Approval'')
        | Some r \<Rightarrow>
            if ap_status r \<noteq> ApPending then Inl (BadRequest ''Approval is already decided'')
            else
              let db1 = update_approval_row
                    (\<lambda>x. approval_key t a x \<and> ap_contact x = Some contact \<and> ap_status x = ApPending)
                    (\<lambda>x. x\<lparr>ap_status := new_status, ap_decision_notes := snd req,
                           ap_decided_by_contact := Some contact, ap_decided_at := Some now\<rparr>) db
              in answer_approval (if audit_written then audit_portal_event db1 t (Some contact) AUpdate else db1) t a))"

text \<open>Rescinding reads the row without a lock and writes it by key alone.\<close>

definition cancel_check :: "quote_db \<Rightarrow> tenant \<Rightarrow> uuid \<Rightarrow> uuid \<Rightarrow> unit app_result" where
  "cancel_check db t a caller =
     (case select_approval db t a of
        None \<Rightarrow> Inl (NotFound ''Approval'')
      | Some r \<Rightarrow>
          if ap_status r \<noteq> ApPending then Inl (BadRequest ''Approval is already decided'')
          else if ap_requested_by r \<noteq> Some caller then Inl (Forbidden ''Only the requester may cancel'')
          else Inr ())"

definition cancel_apply :: "quote_db \<Rightarrow> tenant \<Rightarrow> uuid \<Rightarrow> instant \<Rightarrow> quote_db" where
  "cancel_apply db t a now =
     update_approval_row (approval_key t a) (\<lambda>x. x\<lparr>ap_status := ApCancelled, ap_decided_at := Some now\<rparr>) db"

definition cancel_approval :: "quote_db \<Rightarrow> tenant \<Rightarrow> uuid \<Rightarrow> uuid \<Rightarrow> instant \<Rightarrow> quote_db app_result" where
  "cancel_approval db t a caller now = and_then (cancel_check db t a caller) (\<lambda>_. Inr (cancel_apply db t a now))"

section \<open>Queues\<close>

definition pending_for_user :: "quote_db \<Rightarrow> tenant \<Rightarrow> uuid \<Rightarrow> string list \<Rightarrow> approval list" where
  "pending_for_user db t user roles = filter (\<lambda>a. ap_tenant a = t \<and> ap_status a = ApPending
     \<and> (ap_user a = Some user \<or> (case ap_role a of None \<Rightarrow> False | Some r \<Rightarrow> r \<in> set roles))) (approvals_tbl db)"

definition pending_count_for_user :: "quote_db \<Rightarrow> tenant \<Rightarrow> uuid \<Rightarrow> string list \<Rightarrow> nat" where
  "pending_count_for_user db t user roles = sum_list (map (\<lambda>a. of_bool (ap_tenant a = t \<and> ap_status a = ApPending
     \<and> (ap_user a = Some user \<or> (case ap_role a of None \<Rightarrow> False | Some r \<Rightarrow> r \<in> set roles)))) (approvals_tbl db))"

definition pending_for_contact :: "quote_db \<Rightarrow> tenant \<Rightarrow> uuid \<Rightarrow> approval list" where
  "pending_for_contact db t contact =
     filter (\<lambda>a. ap_tenant a = t \<and> ap_status a = ApPending \<and> ap_contact a = Some contact) (approvals_tbl db)"

definition list_for_entity :: "quote_db \<Rightarrow> tenant \<Rightarrow> approval_target \<Rightarrow> uuid \<Rightarrow> approval list" where
  "list_for_entity db t target entity =
     rev (filter (\<lambda>a. ap_tenant a = t \<and> ap_target a = target \<and> ap_entity a = entity) (approvals_tbl db))"

end
