(* ===== verification/Quote_Lifecycle.thy ===== *)
theory Quote_Lifecycle
  imports Quote_Signoff
begin

text \<open>
  The invariant of the quotes and approvals modules and the abstract life of a quote. A quote is
  seen as a document (\<open>doc_of\<close>: status, content, lines); \<open>doc_step\<close> is the life of that document.
  For every operation the theory shows that it keeps the invariant \<open>quote_ok\<close> (totals, lines, project
  links) and changes at most one document, along \<open>doc_step\<close>; \<open>quote_step\<close> collects the operations.
\<close>

named_theorems quote_simps \<open>reading a table after a write\<close>

section \<open>Enumerations\<close>

interpretation quote_statuses: text_enum quote_status_as_str quote_status_from_str
proof
  show "quote_status_from_str (quote_status_as_str x) = Some x" for x
    by (cases x) (simp_all add: quote_status_from_str_def)
  show "quote_status_from_str s = Some x \<Longrightarrow> quote_status_as_str x = s" for s x
    by (auto simp: quote_status_from_str_def split: if_splits)
qed

interpretation quote_line_types: text_enum quote_line_type_as_str quote_line_type_from_str
proof
  show "quote_line_type_from_str (quote_line_type_as_str x) = Some x" for x
    by (cases x) (simp_all add: quote_line_type_from_str_def)
  show "quote_line_type_from_str s = Some x \<Longrightarrow> quote_line_type_as_str x = s" for s x
    by (auto simp: quote_line_type_from_str_def split: if_splits)
qed

interpretation approval_targets: text_enum approval_target_as_str approval_target_from_str
proof
  show "approval_target_from_str (approval_target_as_str x) = Some x" for x
    by (cases x) (simp_all add: approval_target_from_str_def)
  show "approval_target_from_str s = Some x \<Longrightarrow> approval_target_as_str x = s" for s x
    by (auto simp: approval_target_from_str_def split: if_splits)
qed

lemma quote_status_lists:
  "quote_status_as_str s \<in> set CLIENT_VISIBLE_STATUSES \<longleftrightarrow> is_client_visible s"
  "quote_frozen s \<longleftrightarrow> is_client_visible s \<or> s = QCancelled"
  "is_staff_settable s \<longleftrightarrow> \<not> is_client_visible s"
  "allows_content_edit s \<Longrightarrow> \<not> quote_frozen s"
  by (cases s; simp add: CLIENT_VISIBLE_STATUSES_def is_client_visible_def quote_frozen_def
      is_staff_settable_def allows_content_edit_def)+

section \<open>Reading after writing\<close>

definition find_quote :: "quote_db \<Rightarrow> uuid \<Rightarrow> quote option" where
  "find_quote db i = select_one (\<lambda>q. qt_id q = i) (quotes_tbl db)"

definition doc_lines :: "quote_db \<Rightarrow> uuid \<Rightarrow> quote_line list" where
  "doc_lines db i = filter (\<lambda>l. ql_quote l = i) (quote_lines_tbl db)"

lemma totals_of_lines:
  "quote_lines_total db i = sum_list (map ql_total (doc_lines db i))"
  "quote_taxable_total db i = sum_list (map ql_total (filter ql_taxable (doc_lines db i)))"
  by (simp_all add: quote_lines_total_def quote_taxable_total_def doc_lines_def sum_where_def conj_commute)

lemma select_find:
  assumes "distinct (map qt_id (quotes_tbl db))"
  shows "select_quote db t i = Some q \<longleftrightarrow> find_quote db i = Some q \<and> qt_tenant q = t"
proof -
  have "select_one (quote_key t i) qs = Some q \<longleftrightarrow> select_one (\<lambda>q. qt_id q = i) qs = Some q \<and> qt_tenant q = t"
    if "distinct (map qt_id qs)" for qs
    using that
  proof (induction qs)
    case (Cons x xs)
    from Cons.prems have "qt_id x = i \<Longrightarrow> select_one (quote_key t i) xs = None"
      by (metis (no_types, lifting) distinct.simps(2) image_eqI list.map(2) list.set_map quote_key_def select_one_None)
    with Cons show ?case by (auto simp: select_one_simps quote_key_def [of t i x])
  qed (simp add: table_simps)
  with assms show ?thesis by (simp add: select_quote_def find_quote_def)
qed

lemma find_quote_id: "find_quote db i = Some q \<Longrightarrow> qt_id q = i"
  by (auto simp: find_quote_def dest: select_one_SomeD)

lemma find_quote_member:
  assumes "distinct (map qt_id (quotes_tbl db))"
  shows "q \<in> set (quotes_tbl db) \<longleftrightarrow> find_quote db (qt_id q) = Some q"
proof -
  have "q \<in> set qs \<longleftrightarrow> select_one (\<lambda>x. qt_id x = qt_id q) qs = Some q" if "distinct (map qt_id qs)" for qs
    using that by (induction qs) (auto simp: table_simps rev_image_eqI)
  with assms show ?thesis by (simp add: find_quote_def)
qed

lemma find_quote_None: "find_quote db i = None \<longleftrightarrow> i \<notin> qt_id ` set (quotes_tbl db)"
  by (auto simp: find_quote_def select_one_None)

text \<open>Every write to the header goes through a row update that keeps identifier and tenant.\<close>

definition keeps_quote_key :: "(quote \<Rightarrow> quote) \<Rightarrow> bool" where
  "keeps_quote_key f \<longleftrightarrow> (\<forall>q. qt_id (f q) = qt_id q \<and> qt_tenant (f q) = qt_tenant q)"

lemma find_update_quote_row [quote_simps]:
  "keeps_quote_key f \<Longrightarrow> find_quote (update_quote_row t i f db) j =
     map_option (\<lambda>q. if quote_key t i q then f q else q) (find_quote db j)"
  by (simp add: find_quote_def update_quote_row_def keeps_quote_key_def select_one_update_where)

lemma select_quote_audited [simp]: "select_quote (quote_audited t ctx a e j db) t' i = select_quote db t' i"
  by (simp add: select_quote_def quote_audited_def)

lemma select_updated_row:
  assumes "keeps_quote_key f" "select_quote db t i = Some q" shows "select_quote (update_quote_row t i f db) t i = Some (f q)"
proof -
  have "quote_key t i q" using assms(2) by (auto simp: select_quote_def dest: select_one_SomeD)
  moreover have "quote_key t i (f r) = quote_key t i r" for r using assms(1) by (simp add: keeps_quote_key_def quote_key_def)
  ultimately show ?thesis
    using assms(2) by (simp add: select_quote_def update_quote_row_def select_one_update_where)
qed

lemma ids_update_quote_row [quote_simps]:
  "keeps_quote_key f \<Longrightarrow> map qt_id (quotes_tbl (update_quote_row t i f db)) = map qt_id (quotes_tbl db)"
  by (simp add: update_quote_row_def keeps_quote_key_def map_update_where)

lemma update_quote_row_frame [simp]:
  "quote_lines_tbl (update_quote_row t i f db) = quote_lines_tbl db"
  "approvals_tbl (update_quote_row t i f db) = approvals_tbl db"
  "quote_projects (update_quote_row t i f db) = quote_projects db"
  "quote_sequences (update_quote_row t i f db) = quote_sequences db"
  by (simp_all add: update_quote_row_def)

lemma quote_audited_frame [simp]:
  "quotes_tbl (quote_audited t ctx a e i db) = quotes_tbl db"
  "quote_lines_tbl (quote_audited t ctx a e i db) = quote_lines_tbl db"
  "approvals_tbl (quote_audited t ctx a e i db) = approvals_tbl db"
  "quote_projects (quote_audited t ctx a e i db) = quote_projects db"
  by (simp_all add: quote_audited_def)

lemma insert_lines_frame [simp]:
  "quotes_tbl (insert_quote_lines nl i n ls db) = quotes_tbl db"
  "approvals_tbl (insert_quote_lines nl i n ls db) = approvals_tbl db"
  "quote_projects (insert_quote_lines nl i n ls db) = quote_projects db"
  by (induction ls arbitrary: n db) (simp_all add: insert_quote_line_def)

lemma insert_lines_set:
  "l \<in> set (quote_lines_tbl (insert_quote_lines nl i n ls db)) \<Longrightarrow>
   l \<in> set (quote_lines_tbl db) \<or> ql_quote l = i \<and> is_num2 (ql_total l)"
  by (induction ls arbitrary: n db) (fastforce simp: insert_quote_line_def quote_line_row_def)+

lemma insert_lines_other:
  "j \<noteq> i \<Longrightarrow> doc_lines (insert_quote_lines nl i n ls db) j = doc_lines db j"
  by (induction ls arbitrary: n db) (simp_all add: insert_quote_line_def doc_lines_def quote_line_row_def)

lemma replace_lines_frame [simp]:
  "quotes_tbl (replace_quote_lines nl i new db) = quotes_tbl db"
  "approvals_tbl (replace_quote_lines nl i new db) = approvals_tbl db"
  "quote_projects (replace_quote_lines nl i new db) = quote_projects db"
  by (simp_all add: replace_quote_lines_def split: option.split)

lemma replace_lines_set:
  "l \<in> set (quote_lines_tbl (replace_quote_lines nl i new db)) \<Longrightarrow>
   l \<in> set (quote_lines_tbl db) \<or> ql_quote l = i \<and> is_num2 (ql_total l)"
  by (auto simp: replace_quote_lines_def split: option.splits dest: insert_lines_set)

lemma replace_lines_other:
  "j \<noteq> i \<Longrightarrow> doc_lines (replace_quote_lines nl i new db) j = doc_lines db j"
  by (cases new) (simp_all add: replace_quote_lines_def insert_lines_other, auto simp: doc_lines_def delete_where_def intro!: filter_cong)

lemma find_quote_cong: "quotes_tbl db = quotes_tbl db' \<Longrightarrow> find_quote db j = find_quote db' j"
  by (simp add: find_quote_def)

lemma doc_lines_cong: "quote_lines_tbl db = quote_lines_tbl db' \<Longrightarrow> doc_lines db j = doc_lines db' j"
  by (simp add: doc_lines_def)

definition retotal :: "quote_db \<Rightarrow> uuid \<Rightarrow> quote \<Rightarrow> quote" where
  "retotal db i q =
     (let s = num2 (quote_lines_total db i);
          x = (case qt_tax_rate q of Some pct \<Rightarrow> num2 (quote_taxable_total db i * pct / 100) | None \<Rightarrow> qt_tax_amount q)
      in q\<lparr>qt_subtotal := s, qt_tax_amount := x, qt_total := num2 (s + x)\<rparr>)"

lemma recompute_totals_conv: "recompute_totals db t i = update_quote_row t i (retotal db i) db"
  by (auto simp: recompute_totals_def update_quote_row_def retotal_def Let_def update_where_def quote_key_def)

lemma retotal_keeps: "keeps_quote_key (retotal db i)"
  by (simp add: keeps_quote_key_def retotal_def Let_def)

lemma settle_tax_rate_row:
  assumes "settle_tax_rate bdb db t i r given use_default = Inr db'"
  shows "\<exists>f. db' = update_quote_row t i f db \<and> (\<forall>q. \<exists>a b. f q = q\<lparr>qt_tax_rate_id := a, qt_tax_rate := b\<rparr>)"
proof -
  define w where "w rate = update_quote_row t i
    (\<lambda>q. q\<lparr>qt_tax_rate_id := map_option fst rate, qt_tax_rate := map_option snd rate\<rparr>) db" for rate
  have set_rate: ?thesis if "db' = w rate" for rate
    using that unfolding w_def by blast
  have "db = update_quote_row t i (\<lambda>q. q\<lparr>qt_tax_rate_id := qt_tax_rate_id q, qt_tax_rate := qt_tax_rate q\<rparr>) db"
    by (simp add: update_quote_row_def update_where_def)
  then have unchanged: ?thesis if "db' = db" using that by blast
  show ?thesis
  proof (cases given)
    case True
    with assms show ?thesis by (intro set_rate [of None]) (simp add: settle_tax_rate_def w_def)
  next
    case False
    show ?thesis
    proof (cases r)
      case None
      with assms False show ?thesis
        by (cases use_default) (use unchanged set_rate [of "default_tax_rate bdb t"] in \<open>auto simp: settle_tax_rate_def w_def Let_def\<close>)
    next
      case (Some x)
      with assms False show ?thesis
        by (cases "assert_tax_rate_in_tenant bdb t x") (use set_rate [of "Some (projr (assert_tax_rate_in_tenant bdb t x))"] in \<open>auto simp: settle_tax_rate_def w_def Let_def\<close>)
    qed
  qed
qed

section \<open>The document and its life\<close>

text \<open>
  The abstract view: a quote is a status, a content and its lines. Its life is a relation on that
  view; everything the customer is shown is in it.
\<close>

type_synonym quote_content =
  "(tenant \<times> string option \<times> uuid \<times> uuid option) \<times>
   (string \<times> string option \<times> string option \<times> date option \<times> string option) \<times>
   (decimal \<times> decimal \<times> uuid option \<times> decimal option \<times> decimal)"

type_synonym quote_doc = "quote_status \<times> quote_content \<times> quote_line list"

definition content_of :: "quote \<Rightarrow> quote_content" where
  "content_of q =
     ((qt_tenant q, qt_number q, qt_company q, qt_requested_by q),
      (qt_title q, qt_summary q, qt_description q, qt_valid_until q, qt_currency q),
      (qt_subtotal q, qt_tax_amount q, qt_tax_rate_id q, qt_tax_rate q, qt_total q))"

definition doc_of :: "quote_db \<Rightarrow> uuid \<Rightarrow> quote_doc option" where
  "doc_of db i = map_option (\<lambda>q. (qt_status q, content_of q, doc_lines db i)) (find_quote db i)"

inductive lifecycle :: "quote_status \<Rightarrow> quote_status \<Rightarrow> bool" where
  staff: "\<not> quote_frozen s \<Longrightarrow> is_staff_settable s' \<Longrightarrow> lifecycle s s'"
| issue: "lifecycle QApproved QSent"
| accept: "lifecycle QSent QAccepted"
| decline: "lifecycle QSent QDeclined"
| convert: "lifecycle QAccepted QConverted"

inductive_cases lifecycle_fromE: "lifecycle s s'"

inductive doc_step :: "quote_doc option \<Rightarrow> quote_doc option \<Rightarrow> bool" where
  opened: "doc_step None (Some (QDraft, c, ls))"
| revised: "allows_content_edit s \<Longrightarrow> is_staff_settable s' \<Longrightarrow> doc_step (Some (s, c, ls)) (Some (s', c', ls'))"
| moved: "lifecycle s s' \<Longrightarrow> doc_step (Some (s, c, ls)) (Some (s', c, ls))"

inductive_cases doc_step_fromE: "doc_step (Some d) d'"

section \<open>The invariant\<close>

definition quote_money_ok :: "quote_line list \<Rightarrow> quote \<Rightarrow> bool" where
  "quote_money_ok ls q \<longleftrightarrow> qt_subtotal q = sum_list (map ql_total ls)
     \<and> (case qt_tax_rate q of
          Some pct \<Rightarrow> qt_tax_amount q = num2 (sum_list (map ql_total (filter ql_taxable ls)) * pct / 100)
        | None \<Rightarrow> is_num2 (qt_tax_amount q))
     \<and> qt_total q = qt_subtotal q + qt_tax_amount q"

lemma quote_money_content: "content_of q = content_of q' \<Longrightarrow> quote_money_ok ls q = quote_money_ok ls q'"
  by (auto simp: quote_money_ok_def content_of_def split: option.splits)

definition project_ok :: "project_row list \<Rightarrow> quote \<Rightarrow> bool" where
  "project_ok pjs q \<longleftrightarrow> (qt_status q = QConverted \<longleftrightarrow> qt_project q \<noteq> None)
     \<and> (\<forall>p. qt_project q = Some p \<longrightarrow> (\<exists>pj \<in> set pjs. pj_id pj = p \<and> pj_tenant pj = qt_tenant q
            \<and> pj_company pj = qt_company q \<and> pj_budget_amount pj = qt_total q))"

definition lines_sound :: "quote_db \<Rightarrow> bool" where
  "lines_sound db \<longleftrightarrow> (\<forall>l \<in> set (quote_lines_tbl db). is_num2 (ql_total l) \<and> find_quote db (ql_quote l) \<noteq> None)"

definition quote_ok :: "quote_db \<Rightarrow> bool" where
  "quote_ok db \<longleftrightarrow> distinct (map qt_id (quotes_tbl db)) \<and> lines_sound db
     \<and> (\<forall>i q. find_quote db i = Some q \<longrightarrow> quote_money_ok (doc_lines db i) q \<and> project_ok (quote_projects db) q)
     \<and> (\<forall>i j q r. find_quote db i = Some q \<and> find_quote db j = Some r \<and> qt_project q \<noteq> None
          \<and> qt_project q = qt_project r \<longrightarrow> i = j)"

text \<open>What an operation on one quote leaves alone.\<close>

definition touched :: "uuid \<Rightarrow> quote \<Rightarrow> quote \<Rightarrow> quote_db \<Rightarrow> quote_db \<Rightarrow> bool" where
  "touched i q q' db db' \<longleftrightarrow> map qt_id (quotes_tbl db') = map qt_id (quotes_tbl db)
     \<and> find_quote db i = Some q \<and> find_quote db' i = Some q'
     \<and> (\<forall>j. j \<noteq> i \<longrightarrow> find_quote db' j = find_quote db j \<and> doc_lines db' j = doc_lines db j)"

lemma touched_docs:
  "touched i q q' db db' \<Longrightarrow> doc_of db i = Some (qt_status q, content_of q, doc_lines db i)"
  "touched i q q' db db' \<Longrightarrow> doc_of db' i = Some (qt_status q', content_of q', doc_lines db' i)"
  by (simp_all add: touched_def doc_of_def)

lemma retotal_status [simp]: "qt_status (retotal db i q) = qt_status q"
  by (simp add: retotal_def Let_def)

lemma touched_others: "touched i q q' db db' \<Longrightarrow> j \<noteq> i \<Longrightarrow> doc_of db' j = doc_of db j"
  by (simp add: touched_def doc_of_def)

lemma quote_ok_touched:
  assumes ok: "quote_ok db" and t: "touched i q q' db db'" and "lines_sound db'"
    and "quote_money_ok (doc_lines db' i) q'" "project_ok (quote_projects db') q'"
    and pjs: "set (quote_projects db) \<subseteq> set (quote_projects db')"
    and new: "qt_project q' = qt_project q \<or> (\<exists>p. qt_project q' = Some p \<and> p \<notin> pj_id ` set (quote_projects db))"
  shows "quote_ok db'"
proof -
  have rows: "find_quote db' j = (if j = i then Some q' else find_quote db j)"
    and ls: "j \<noteq> i \<Longrightarrow> doc_lines db' j = doc_lines db j" for j using t by (auto simp: touched_def)
  have old: "project_ok (quote_projects db') r" if "find_quote db j = Some r" for j r
    using ok that pjs unfolding quote_ok_def project_ok_def by (meson subsetD)
  have linked: "p \<in> pj_id ` set (quote_projects db)" if "find_quote db j = Some r" "qt_project r = Some p" for j r p
    using ok that unfolding quote_ok_def project_ok_def by (metis image_eqI)
  have uniq: "j = k" if "find_quote db j = Some r" "find_quote db k = Some r'" "qt_project r \<noteq> None" "qt_project r = qt_project r'" for j k r r'
    using ok that unfolding quote_ok_def by blast
  have i: "find_quote db i = Some q" using t by (simp add: touched_def)
  have uniq': "j = i" if "find_quote db j = Some r" "qt_project r \<noteq> None" "qt_project r = qt_project q'" for j r
    using new
  proof
    assume "qt_project q' = qt_project q"
    with uniq [OF that(1) i] that show ?thesis by simp
  next
    assume "\<exists>p. qt_project q' = Some p \<and> p \<notin> pj_id ` set (quote_projects db)"
    with linked [OF that(1)] that show ?thesis by auto
  qed
  have "distinct (map qt_id (quotes_tbl db'))" using ok t by (simp add: quote_ok_def touched_def)
  moreover have "quote_money_ok (doc_lines db' j) r \<and> project_ok (quote_projects db') r" if "find_quote db' j = Some r" for j r
    using that assms(4,5) ls old ok by (cases "j = i") (auto simp: rows quote_ok_def)
  moreover have "j = k" if "find_quote db' j = Some r" "find_quote db' k = Some r'" "qt_project r \<noteq> None" "qt_project r = qt_project r'" for j k r r'
    using that uniq uniq' unfolding rows by (metis option.inject)
  ultimately show ?thesis using assms(3) unfolding quote_ok_def by blast
qed

lemma quote_ok_cong:
  "quotes_tbl db = quotes_tbl db' \<Longrightarrow> quote_lines_tbl db = quote_lines_tbl db' \<Longrightarrow> quote_projects db = quote_projects db' \<Longrightarrow>
   quote_ok db = quote_ok db' \<and> doc_of db = doc_of db'"
  using find_quote_cong [of db db'] doc_lines_cong [of db db']
  by (simp add: quote_ok_def lines_sound_def doc_of_def fun_eq_iff)

lemma quote_ok_audited [simp]:
  "quote_ok (quote_audited t ctx a e i db) = quote_ok db" "doc_of (quote_audited t ctx a e i db) = doc_of db"
  using quote_ok_cong [of "quote_audited t ctx a e i db" db] by simp_all

lemma touched_row:
  assumes "distinct (map qt_id (quotes_tbl db))" "select_quote db t i = Some q" "keeps_quote_key f"
  shows "touched i q (f q) db (update_quote_row t i f db)"
proof -
  have q: "find_quote db i = Some q" "qt_tenant q = t" "qt_id q = i"
    using assms select_find find_quote_id by auto
  have "\<not> quote_key t i r" if "find_quote db j = Some r" "j \<noteq> i" for j r
    using that find_quote_id by (auto simp: quote_key_def)
  then have "map_option (\<lambda>q. if quote_key t i q then f q else q) (find_quote db j) = find_quote db j" if "j \<noteq> i" for j
    using that by (cases "find_quote db j") auto
  with q assms(3) show ?thesis
    by (simp add: touched_def quote_simps doc_lines_def quote_key_def)
qed

lemma lines_sound_row: "lines_sound db \<Longrightarrow> keeps_quote_key f \<Longrightarrow> lines_sound (update_quote_row t i f db)"
  by (simp add: lines_sound_def quote_simps)

text \<open>A write that changes neither content nor project: the status may move along the lifecycle.\<close>

lemma status_write:
  assumes ok: "quote_ok db" and q: "select_quote db t i = Some q" and f: "keeps_quote_key f"
    and same: "content_of (f q) = content_of q" "qt_project (f q) = qt_project q"
    and life: "lifecycle (qt_status q) (qt_status (f q))" "qt_status (f q) \<noteq> QConverted"
  defines "db' \<equiv> update_quote_row t i f db"
  shows "quote_ok db'" "doc_step (doc_of db i) (doc_of db' i)" "j \<noteq> i \<Longrightarrow> doc_of db' j = doc_of db j"
proof -
  have t: "touched i q (f q) db db'" using ok q f unfolding db'_def quote_ok_def by (intro touched_row) auto
  have ls: "doc_lines db' = doc_lines db" by (simp add: db'_def doc_lines_def fun_eq_iff)
  have pjs: "quote_projects db' = quote_projects db" by (simp add: db'_def)
  have "qt_status q \<noteq> QConverted"
    using life(1) by (auto elim!: lifecycle_fromE simp: quote_frozen_def)
  moreover have "quote_money_ok (doc_lines db i) q" "project_ok (quote_projects db) q" "lines_sound db"
    using ok t unfolding quote_ok_def touched_def by blast+
  ultimately have "quote_money_ok (doc_lines db' i) (f q)" "project_ok (quote_projects db') (f q)" "lines_sound db'"
    using same life(2) lines_sound_row [OF _ f, of db t i]
      quote_money_content [OF same(1)]
    by (simp_all add: project_ok_def ls pjs db'_def [symmetric])
  then show "quote_ok db'"
    using quote_ok_touched [OF ok t] same by (simp add: db'_def)
  show "doc_step (doc_of db i) (doc_of db' i)"
    using t life same by (auto simp: touched_def doc_of_def ls intro: doc_step.moved)
  show "j \<noteq> i \<Longrightarrow> doc_of db' j = doc_of db j" using t by (rule touched_others)
qed

section \<open>Edits\<close>

lemma is_num2_sum_list: "(\<And>l. l \<in> set ls \<Longrightarrow> is_num2 (f l)) \<Longrightarrow> is_num2 (sum_list (map f ls))"
  by (induction ls) auto

lemma lines_sound_num2: "lines_sound db \<Longrightarrow> l \<in> set (doc_lines db i) \<Longrightarrow> is_num2 (ql_total l)"
  by (simp add: lines_sound_def doc_lines_def)

lemma retotal_money:
  assumes "lines_sound db" "qt_tax_rate q = None \<Longrightarrow> is_num2 (qt_tax_amount q)"
  shows "quote_money_ok (doc_lines db i) (retotal db i q)"
proof -
  have "is_num2 (sum_list (map ql_total (doc_lines db i)))"
    by (rule is_num2_sum_list) (rule lines_sound_num2 [OF assms(1)])
  then show ?thesis
    using assms(2) by (cases "qt_tax_rate q") (auto simp: quote_money_ok_def retotal_def Let_def totals_of_lines is_num2_add)
qed

lemma retotal_same:
  assumes "quote_money_ok (doc_lines db i) q" "lines_sound db"
  shows "retotal db i q = q"
proof -
  have "is_num2 (sum_list (map ql_total (doc_lines db i)))"
    by (rule is_num2_sum_list) (rule lines_sound_num2 [OF assms(2)])
  with assms(1) show ?thesis
    by (cases "qt_tax_rate q") (auto simp: quote_money_ok_def retotal_def Let_def totals_of_lines is_num2_add)
qed

lemma touched_lines:
  assumes "distinct (map qt_id (quotes_tbl db))" "select_quote db t i = Some q"
    and "quotes_tbl db1 = quotes_tbl db" "\<And>j. j \<noteq> i \<Longrightarrow> doc_lines db1 j = doc_lines db j"
  shows "touched i q q db db1"
  using assms select_find find_quote_cong [of db1 db] by (auto simp: touched_def)

lemma touched_trans: "touched i q q1 db db1 \<Longrightarrow> touched i q1 q2 db1 db2 \<Longrightarrow> touched i q q2 db db2"
  by (simp add: touched_def)

lemma touched_select:
  assumes "quote_ok db" "touched i q q' db db'" "qt_tenant q' = t"
  shows "select_quote db' t i = Some q'"
  using assms select_find [of db'] by (simp add: touched_def quote_ok_def)

text \<open>Every change of content ends in a recomputation of the totals.\<close>

lemma content_write:
  assumes ok: "quote_ok db" and t: "touched i q q1 db db1" and ten: "qt_tenant q1 = t"
    and ls: "lines_sound db1" and pj: "quote_projects db1 = quote_projects db" "qt_project q1 = qt_project q"
    and tax: "qt_tax_rate q1 = None \<Longrightarrow> is_num2 (qt_tax_amount q1)"
    and st: "qt_status q \<noteq> QConverted" "qt_status q1 \<noteq> QConverted"
  defines "db' \<equiv> recompute_totals db1 t i"
  shows "quote_ok db'" "touched i q (retotal db1 i q1) db db'" "doc_lines db' = doc_lines db1"
proof -
  have "touched i q1 (retotal db1 i q1) db1 db'"
    unfolding db'_def recompute_totals_conv
    using ok t touched_select [OF ok t ten] retotal_keeps by (intro touched_row) (simp_all add: touched_def quote_ok_def)
  with t show t': "touched i q (retotal db1 i q1) db db'" by (rule touched_trans)
  show lof: "doc_lines db' = doc_lines db1" by (simp add: db'_def recompute_totals_conv doc_lines_def fun_eq_iff)
  have "project_ok (quote_projects db) q" using ok t unfolding quote_ok_def touched_def by blast
  then have "qt_project q = None" using st by (simp add: project_ok_def)
  moreover have "lines_sound db'" using ls retotal_keeps by (simp add: db'_def recompute_totals_conv lines_sound_row)
  ultimately show "quote_ok db'"
    using quote_ok_touched [OF ok t'] retotal_money [OF ls tax] pj st
    by (simp add: lof project_ok_def, simp add: db'_def recompute_totals_conv retotal_def Let_def)
qed

lemma answer_quote_Inr: "answer_quote db t i today = Inr (db', v) \<longleftrightarrow> db' = db \<and> get_quote db t i today = Inr v"
  by (cases "get_quote db t i today") (auto simp: answer_quote_def)

lemma status_of_Inr: "status_of db t i = Inr s \<longleftrightarrow> (\<exists>q. select_quote db t i = Some q \<and> s = qt_status q)"
  by (auto simp: status_of_def split: option.split)

lemma editable_Inr: "assert_content_editable s = Inr u \<longleftrightarrow> allows_content_edit s"
  by (simp add: assert_content_editable_def)

lemma editable_status: "allows_content_edit s \<Longrightarrow> is_staff_settable s \<and> s \<noteq> QConverted"
  by (auto simp: allows_content_edit_def is_staff_settable_def)

text \<open>The three operations on one line share their proof.\<close>

lemma line_edit:
  assumes ok: "quote_ok db" and q: "select_quote db t i = Some q" and ed: "allows_content_edit (qt_status q)"
    and "quotes_tbl db1 = quotes_tbl db" "quote_projects db1 = quote_projects db" "lines_sound db1"
    and "\<And>j. j \<noteq> i \<Longrightarrow> doc_lines db1 j = doc_lines db j"
  defines "db' \<equiv> recompute_totals db1 t i"
  shows "quote_ok db' \<and> doc_step (doc_of db i) (doc_of db' i) \<and> (\<forall>j. j \<noteq> i \<longrightarrow> doc_of db' j = doc_of db j)"
proof -
  have t: "touched i q q db db1" using assms by (intro touched_lines) (auto simp: quote_ok_def)
  have qt: "qt_tenant q = t" using ok q select_find by (auto simp: quote_ok_def)
  have "quote_money_ok (doc_lines db i) q" using ok t unfolding quote_ok_def touched_def by blast
  then have tax: "qt_tax_rate q = None \<Longrightarrow> is_num2 (qt_tax_amount q)" by (simp add: quote_money_ok_def)
  note w = content_write [OF ok t qt assms(6) assms(5) refl tax conjunct2 [OF editable_status [OF ed]]
      conjunct2 [OF editable_status [OF ed]], folded db'_def]
  have "doc_step (doc_of db i) (doc_of db' i)"
    using touched_docs [OF w(2)] ed editable_status [OF ed] by (simp add: doc_step.revised)
  with w(1) touched_others [OF w(2)] show ?thesis by blast
qed

definition quote_effect :: "quote_db \<Rightarrow> quote_db \<Rightarrow> bool" where
  "quote_effect db db' \<longleftrightarrow> quote_ok db' \<and> (\<exists>i. (\<forall>j. j \<noteq> i \<longrightarrow> doc_of db' j = doc_of db j)
     \<and> (doc_of db' i = doc_of db i \<or> doc_step (doc_of db i) (doc_of db' i)))"

lemma quote_effect_audited [simp]:
  "quote_effect db (quote_audited t ctx a e i db') = quote_effect db db'"
  by (simp add: quote_effect_def)

lemma quote_effect_same:
  "quote_ok db \<Longrightarrow> quotes_tbl db' = quotes_tbl db \<Longrightarrow> quote_lines_tbl db' = quote_lines_tbl db \<Longrightarrow>
   quote_projects db' = quote_projects db \<Longrightarrow> quote_effect db db'"
  using quote_ok_cong [of db' db] by (simp add: quote_effect_def)

lemma status_effect:
  assumes "quote_ok db" "select_quote db t i = Some q" "keeps_quote_key f"
    "content_of (f q) = content_of q" "qt_project (f q) = qt_project q"
    "lifecycle (qt_status q) (qt_status (f q))" "qt_status (f q) \<noteq> QConverted"
  shows "quote_effect db (update_quote_row t i f db)"
  using status_write [OF assms] unfolding quote_effect_def by blast

lemma line_effect:
  assumes "quote_ok db" "select_quote db t i = Some q" "allows_content_edit (qt_status q)"
    "quotes_tbl db1 = quotes_tbl db" "quote_projects db1 = quote_projects db" "lines_sound db1"
    "\<And>j. j \<noteq> i \<Longrightarrow> doc_lines db1 j = doc_lines db j"
  shows "quote_effect db (recompute_totals db1 t i)"
  using line_edit [OF assms] unfolding quote_effect_def by blast

lemma lines_sound_of:
  assumes "quote_ok db" "find_quote db i \<noteq> None" "quotes_tbl db1 = quotes_tbl db"
    and "\<And>l. l \<in> set (quote_lines_tbl db1) \<Longrightarrow> l \<in> set (quote_lines_tbl db) \<or> ql_quote l = i \<and> is_num2 (ql_total l)"
  shows "lines_sound db1"
  using assms find_quote_cong [of db1 db] unfolding lines_sound_def quote_ok_def by metis

lemma select_found: "quote_ok db \<Longrightarrow> select_quote db t i = Some q \<Longrightarrow> find_quote db i = Some q \<and> qt_tenant q = t"
  using select_find by (simp add: quote_ok_def)

lemma add_line_effect:
  assumes "quote_ok db" "add_line db t today i l n = Inr (db', v)" shows "quote_effect db db'"
proof -
  obtain q where q: "select_quote db t i = Some q" "allows_content_edit (qt_status q)"
    and db': "db' = recompute_totals (insert_quote_line i n l db) t i"
    using assms(2) by (auto simp: add_line_def status_of_Inr editable_Inr answer_quote_Inr elim!: and_then_InrE)
  show ?thesis unfolding db'
    using assms(1) q select_found [OF assms(1) q(1)]
    by (intro line_effect lines_sound_of [OF assms(1), of i])
       (auto simp: insert_quote_line_def doc_lines_def quote_line_row_def)
qed

lemma update_line_effect:
  assumes "quote_ok db" "update_line db t today i n l = Inr (db', v)" shows "quote_effect db db'"
proof -
  define f where "f x = x\<lparr>ql_type := qlr_type l, ql_description := qlr_description l,
     ql_quantity := num2 (qlr_quantity l), ql_unit_price := num2 (qlr_unit_price l),
     ql_total := num2 (qlr_quantity l * qlr_unit_price l), ql_sort_order := qlr_sort_order l\<rparr>" for x :: quote_line
  obtain q where q: "select_quote db t i = Some q" "allows_content_edit (qt_status q)"
    and db': "db' = recompute_totals (db\<lparr>quote_lines_tbl := update_where (line_key i n) f (quote_lines_tbl db)\<rparr>) t i"
    using assms(2) by (auto simp: update_line_def status_of_Inr editable_Inr answer_quote_Inr f_def [abs_def]
        split: if_splits elim!: and_then_InrE)
  have key: "ql_quote (f x) = ql_quote x" for x by (simp add: f_def)
  have "filter (\<lambda>x. ql_quote x = j) (update_where (line_key i n) f ls) = filter (\<lambda>x. ql_quote x = j) ls" if "j \<noteq> i" for j ls
    using that by (induction ls) (auto simp: table_simps line_key_def key)
  then show ?thesis unfolding db'
    using assms(1) q select_found [OF assms(1) q(1)]
    by (intro line_effect lines_sound_of [OF assms(1), of i])
       (auto simp: doc_lines_def set_update_where line_key_def f_def split: if_splits)
qed

lemma delete_line_effect:
  assumes "quote_ok db" "delete_line db t today i n = Inr (db', v)" shows "quote_effect db db'"
proof -
  obtain q where q: "select_quote db t i = Some q" "allows_content_edit (qt_status q)"
    and db': "db' = recompute_totals (db\<lparr>quote_lines_tbl := delete_where (line_key i n) (quote_lines_tbl db)\<rparr>) t i"
    using assms(2) by (auto simp: delete_line_def status_of_Inr editable_Inr answer_quote_Inr
        split: if_splits elim!: and_then_InrE)
  show ?thesis unfolding db'
    using assms(1) q select_found [OF assms(1) q(1)]
    by (intro line_effect lines_sound_of [OF assms(1), of i])
       (auto simp: doc_lines_def delete_where_def line_key_def intro!: filter_cong)
qed

section \<open>The header\<close>

lemma quote_header_keeps: "keeps_quote_key (quote_header r)"
  by (simp add: keeps_quote_key_def quote_header_def)

lemma check_new_status_Inr:
  "check_new_status db t i s = Inr u \<longleftrightarrow> (\<forall>x. s = Some x \<longrightarrow> is_staff_settable x
     \<and> \<not> (x = QApproved \<and> has_pending_staff_approval db t i))"
  by (auto simp: check_new_status_def split: option.split)

lemma update_quoteE:
  assumes "update_quote bdb db t today i r ctx nl = Inr (db', v)"
  obtains q f where "select_quote db t i = Some q" "\<not> quote_frozen (qt_status q)"
    and "changes_content r \<Longrightarrow> allows_content_edit (qt_status q)"
    and "check_new_status db t i (uq_status r) = Inr ()"
    and "settle_tax_rate bdb (replace_quote_lines nl i (uq_lines r) (update_quote_row t i (quote_header r) db)) t i
           (uq_tax_rate r) (uq_tax_amount r \<noteq> None) False
         = Inr (update_quote_row t i f (replace_quote_lines nl i (uq_lines r) (update_quote_row t i (quote_header r) db)))"
    and "\<And>q. \<exists>a b. f q = q\<lparr>qt_tax_rate_id := a, qt_tax_rate := b\<rparr>"
    and "db' = quote_audited t ctx AUpdate ''quotes'' i (recompute_totals (update_quote_row t i f
           (replace_quote_lines nl i (uq_lines r) (update_quote_row t i (quote_header r) db))) t i)"
proof -
  from assms obtain q db1 where q: "select_quote db t i = Some q" "\<not> quote_frozen (qt_status q)"
      "changes_content r \<Longrightarrow> allows_content_edit (qt_status q)" "check_new_status db t i (uq_status r) = Inr ()"
    and s: "settle_tax_rate bdb (replace_quote_lines nl i (uq_lines r) (update_quote_row t i (quote_header r) db)) t i
           (uq_tax_rate r) (uq_tax_amount r \<noteq> None) False = Inr db1"
    and db': "db' = quote_audited t ctx AUpdate ''quotes'' i (recompute_totals db1 t i)"
    unfolding update_quote_def
    by (auto simp: answer_quote_Inr editable_Inr split: option.splits if_splits elim!: and_then_InrE)
  from settle_tax_rate_row [OF s] s db' q show thesis using that by blast
qed

lemma money_tax_num2: "quote_money_ok ls q \<Longrightarrow> is_num2 (qt_tax_amount q)"
  by (cases "qt_tax_rate q") (auto simp: quote_money_ok_def)

lemma header_status:
  assumes "\<not> quote_frozen (qt_status q)" "check_new_status db t i (uq_status r) = Inr ()"
  shows "is_staff_settable (qt_status (quote_header r q))" "qt_status (quote_header r q) \<noteq> QConverted"
proof -
  show s: "is_staff_settable (qt_status (quote_header r q))"
    using assms by (cases "uq_status r")
      (auto simp: quote_header_def check_new_status_Inr opt_or_def quote_status_lists)
  then show "qt_status (quote_header r q) \<noteq> QConverted" by (auto simp: is_staff_settable_def)
qed

lemma header_only_status:
  assumes "\<not> changes_content r"
  shows "content_of (quote_header r q) = content_of q" "replace_quote_lines nl i (uq_lines r) db = db"
    "settle_tax_rate bdb db t i (uq_tax_rate r) (uq_tax_amount r \<noteq> None) False = Inr db"
  using assms
  by (auto simp: changes_content_def content_of_def quote_header_def opt_or_def or_else_def
      replace_quote_lines_def settle_tax_rate_def)

lemma rate_write:
  assumes "\<And>q. \<exists>a b. f q = q\<lparr>qt_tax_rate_id := a, qt_tax_rate := b\<rparr>"
  shows "keeps_quote_key f" "qt_status (f q) = qt_status q" "qt_project (f q) = qt_project q"
    "qt_tax_amount (f q) = qt_tax_amount q" "qt_tenant (f q) = qt_tenant q"
proof -
  have fields: "qt_id (f q) = qt_id q \<and> qt_tenant (f q) = qt_tenant q \<and> qt_status (f q) = qt_status q
    \<and> qt_project (f q) = qt_project q \<and> qt_tax_amount (f q) = qt_tax_amount q" for q
  proof -
    from assms [of q] obtain a b where "f q = q\<lparr>qt_tax_rate_id := a, qt_tax_rate := b\<rparr>" by blast
    then show ?thesis by simp
  qed
  then show "keeps_quote_key f" by (simp add: keeps_quote_key_def)
  show "qt_status (f q) = qt_status q" "qt_project (f q) = qt_project q"
    "qt_tax_amount (f q) = qt_tax_amount q" "qt_tenant (f q) = qt_tenant q" using fields by simp_all
qed

lemma header_written:
  fixes nl :: "nat \<Rightarrow> uuid" and ls :: "quote_line_request list option" and r :: update_quote_request
  assumes ok: "quote_ok db" and q: "select_quote db t i = Some q" and f: "keeps_quote_key f"
  defines "dbL \<equiv> replace_quote_lines nl i ls (update_quote_row t i (quote_header r) db)"
  shows "touched i q (f (quote_header r q)) db (update_quote_row t i f dbL)" "lines_sound (update_quote_row t i f dbL)"
    "quote_projects (update_quote_row t i f dbL) = quote_projects db"
proof -
  define db0 where "db0 = update_quote_row t i (quote_header r) db"
  define h where "h = quote_header r q"
  have t0: "touched i q h db db0"
    unfolding db0_def h_def using ok q quote_header_keeps by (intro touched_row) (auto simp: quote_ok_def)
  have ten: "qt_tenant h = t" using select_found [OF ok q] quote_header_keeps by (auto simp: h_def keeps_quote_key_def)
  have s0: "select_quote db0 t i = Some h" using touched_select [OF ok t0] ten by simp
  have ids: "distinct (map qt_id (quotes_tbl db0))" using ok t0 by (simp add: touched_def quote_ok_def)
  have dbL: "dbL = replace_quote_lines nl i ls db0" by (simp add: dbL_def db0_def)
  have tL: "touched i h h db0 dbL"
    unfolding dbL using ids s0 by (rule touched_lines) (simp_all add: replace_lines_other)
  have "select_quote dbL t i = Some h" using s0 by (simp add: select_quote_def dbL)
  then have "touched i h (f h) dbL (update_quote_row t i f dbL)"
    using ids f by (intro touched_row) (simp_all add: dbL)
  with t0 tL show "touched i q (f (quote_header r q)) db (update_quote_row t i f dbL)"
    unfolding h_def by (blast intro: touched_trans)
  have "lines_sound db0" using ok quote_header_keeps by (simp add: db0_def lines_sound_row quote_ok_def)
  moreover have "find_quote db0 i \<noteq> None" using t0 by (simp add: touched_def)
  moreover have "find_quote dbL j = find_quote db0 j" for j by (rule find_quote_cong) (simp add: dbL)
  ultimately have "lines_sound dbL"
    unfolding lines_sound_def using replace_lines_set [of _ nl i ls db0, folded dbL] by metis
  then show "lines_sound (update_quote_row t i f dbL)" using f by (rule lines_sound_row)
  show "quote_projects (update_quote_row t i f dbL) = quote_projects db" by (simp add: dbL_def)
qed

lemma update_quote_effect:
  assumes ok: "quote_ok db" and u: "update_quote bdb db t today i r ctx nl = Inr (db', v)"
  shows "quote_effect db db'"
  using u
proof (cases rule: update_quoteE)
  case (1 q f)
  define dbL where "dbL = replace_quote_lines nl i (uq_lines r) (update_quote_row t i (quote_header r) db)"
  define db1 where "db1 = update_quote_row t i f dbL"
  define q1 where "q1 = f (quote_header r q)"
  note f = rate_write [OF 1(6)]
  note hw = header_written [OF ok 1(1) f(1), where nl = nl and ls = "uq_lines r" and r = r, folded dbL_def, folded db1_def q1_def]
  have m: "quote_money_ok (doc_lines db i) q" using ok hw(1) unfolding quote_ok_def touched_def by blast
  have q1: "qt_status q1 = qt_status (quote_header r q)" "qt_project q1 = qt_project q" "qt_tenant q1 = t" "is_num2 (qt_tax_amount q1)"
    using f money_tax_num2 [OF m] select_found [OF ok 1(1)]
    by (auto simp: q1_def quote_header_def split: option.split)
  note st = header_status [OF 1(2,4)]
  have nc: "qt_status q \<noteq> QConverted" using 1(2) by (auto simp: quote_frozen_def)
  have db': "db' = quote_audited t ctx AUpdate ''quotes'' i (recompute_totals db1 t i)"
    using 1(7) by (simp add: db1_def dbL_def)
  note w = content_write [OF ok hw(1) q1(3) hw(2,3) q1(2) q1(4) nc, unfolded q1(1), OF st(2)]
  have "doc_step (doc_of db i) (doc_of (recompute_totals db1 t i) i)"
  proof (cases "changes_content r")
    case True
    with touched_docs [OF w(2)] 1(3) st(1) q1(1) show ?thesis by (simp add: doc_step.revised)
  next
    case False
    note hs = header_only_status [OF this]
    have "db1 = update_quote_row t i (quote_header r) db" using 1(5) hs by (simp add: db1_def dbL_def)
    moreover have "touched i q (quote_header r q) db (update_quote_row t i (quote_header r) db)"
      using ok 1(1) quote_header_keeps by (intro touched_row) (auto simp: quote_ok_def)
    ultimately have h: "q1 = quote_header r q" "doc_lines db1 = doc_lines db"
      using hw(1) by (auto simp: touched_def doc_lines_def)
    then have "retotal db1 i q1 = q1"
      using retotal_same [of db1 i q1] hw(2) m quote_money_content [OF hs(1)] by simp
    then show ?thesis
      using touched_docs [OF w(2)] w(3) h hs(1) lifecycle.staff [OF 1(2) st(1)] by (simp add: doc_step.moved)
  qed
  then have "quote_effect db (recompute_totals db1 t i)"
    using w(1) touched_others [OF w(2)] unfolding quote_effect_def by blast
  then show ?thesis by (simp add: db')
qed

section \<open>Opening a quote\<close>

lemma fresh_no_lines:
  assumes "quote_ok db" "i \<notin> qt_id ` set (quotes_tbl db)" shows "doc_lines db i = []"
proof -
  have "ql_quote l \<noteq> i" if "l \<in> set (quote_lines_tbl db)" for l
    using assms that find_quote_None [of db i] by (auto simp: quote_ok_def lines_sound_def)
  then show ?thesis by (auto simp: doc_lines_def filter_empty_conv)
qed

lemma create_quoteE:
  assumes "create_quote bdb db t today u r ctx i nl = Inr (db', v)"
  obtains sqs q f where "qt_id q = i" "qt_tenant q = t" "qt_status q = QDraft" "qt_project q = None" "is_num2 (qt_tax_amount q)"
    and "\<And>q. \<exists>a b. f q = q\<lparr>qt_tax_rate_id := a, qt_tax_rate := b\<rparr>"
    and "db' = quote_audited t ctx ACreate ''quotes'' i (recompute_totals (update_quote_row t i f
           (insert_quote_lines nl i 0 (cq_lines r) (db\<lparr>quote_sequences := sqs, quotes_tbl := quotes_tbl db @ [q]\<rparr>))) t i)"
proof -
  from assms obtain contact db1 number db2 db3 where n: "next_quote_number db t = Inr (db1, number)"
    and ins: "insert_quote db1 (new_quote t i number contact u r) = Inr db2"
    and s: "settle_tax_rate bdb (insert_quote_lines nl i 0 (cq_lines r) db2) t i (cq_tax_rate r) (cq_tax_amount r \<noteq> None) True = Inr db3"
    and db': "db' = quote_audited t ctx ACreate ''quotes'' i (recompute_totals db3 t i)"
    unfolding create_quote_def by (auto simp: answer_quote_Inr elim!: and_then_InrE)
  from n obtain sqs where "db1 = db\<lparr>quote_sequences := sqs\<rparr>"
    by (cases "next_in_series t ''QUO-'' (quote_sequences db)") (auto simp: next_quote_number_def)
  with ins have db2: "db2 = db\<lparr>quote_sequences := sqs, quotes_tbl := quotes_tbl db @ [new_quote t i number contact u r]\<rparr>"
    by (simp add: insert_quote_def split: if_splits)
  from settle_tax_rate_row [OF s] obtain f where f: "\<And>q. \<exists>a b. f q = q\<lparr>qt_tax_rate_id := a, qt_tax_rate := b\<rparr>"
    "db3 = update_quote_row t i f (insert_quote_lines nl i 0 (cq_lines r) db2)" by blast
  show thesis
    by (rule that [of "new_quote t i number contact u r" f sqs])
       (use f db' db2 in \<open>simp_all add: new_quote_def Let_def\<close>)
qed

lemma create_quote_docs:
  assumes ok: "quote_ok db" and fresh: "i \<notin> qt_id ` set (quotes_tbl db)"
    and c: "create_quote bdb db t today u r ctx i nl = Inr (db', v)"
  shows "quote_ok db' \<and> doc_of db i = None \<and> map_option fst (doc_of db' i) = Some QDraft
     \<and> (\<forall>j. j \<noteq> i \<longrightarrow> doc_of db' j = doc_of db j)"
  using c
proof (cases rule: create_quoteE)
  case (1 sqs q f)
  define dbL where "dbL = insert_quote_lines nl i 0 (cq_lines r) (db\<lparr>quote_sequences := sqs, quotes_tbl := quotes_tbl db @ [q]\<rparr>)"
  define db1 where "db1 = update_quote_row t i f dbL"
  define db2 where "db2 = recompute_totals db1 t i"
  note f = rate_write [OF 1(6)]
  have none: "find_quote db i = None" using fresh by (simp add: find_quote_None)
  have key: "quote_key t i q" using 1(1,2) by (simp add: quote_key_def)
  have "\<not> quote_key t i x" if "find_quote db j = Some x" for j x
    using that none find_quote_id [OF that] by (auto simp: quote_key_def)
  then have other: "map_option (\<lambda>x. if quote_key t i x then g x else x) (find_quote db j) = find_quote db j" for g j
    by (cases "find_quote db j") auto
  have findL: "find_quote dbL j = (if j = i then Some q else find_quote db j)" for j
    using none 1(1) by (auto simp: dbL_def find_quote_def table_simps split: option.split)
  have key': "quote_key t i (f q)" using key f(1) by (simp add: quote_key_def keeps_quote_key_def)
  have find1: "find_quote db1 j = (if j = i then Some (f q) else find_quote db j)" for j
    using key by (simp add: db1_def find_update_quote_row [OF f(1)] findL other)
  have find2: "find_quote db2 j = (if j = i then Some (retotal db1 i (f q)) else find_quote db j)" for j
    using key f(1) by (simp add: db2_def recompute_totals_conv find_update_quote_row [OF retotal_keeps] find1 other key')
  have lines: "doc_lines db2 = doc_lines dbL" "doc_lines db1 = doc_lines dbL"
    by (simp_all add: db2_def db1_def recompute_totals_conv doc_lines_def fun_eq_iff)
  have lines': "doc_lines dbL j = doc_lines db j" if "j \<noteq> i" for j
    unfolding dbL_def insert_lines_other [OF that] by (rule doc_lines_cong) simp
  have "lines_sound dbL"
    using ok insert_lines_set [of _ nl i 0 "cq_lines r" "db\<lparr>quote_sequences := sqs, quotes_tbl := quotes_tbl db @ [q]\<rparr>", folded dbL_def]
    unfolding lines_sound_def quote_ok_def findL by fastforce
  then have ls: "lines_sound db1" "lines_sound db2"
    using f(1) retotal_keeps by (simp_all add: db1_def db2_def recompute_totals_conv lines_sound_row)
  have "map qt_id (quotes_tbl db2) = map qt_id (quotes_tbl db) @ [i]"
    using 1(1) by (simp add: db2_def db1_def recompute_totals_conv ids_update_quote_row retotal_keeps f(1) dbL_def)
  then have ids: "distinct (map qt_id (quotes_tbl db2))" using ok fresh by (simp add: quote_ok_def)
  have money: "quote_money_ok (doc_lines db2 i) (retotal db1 i (f q))"
    using retotal_money [OF ls(1), of "f q" i] f 1(5) by (simp add: lines)
  have new: "qt_project (retotal db1 i (f q)) = None" "qt_status (retotal db1 i (f q)) = QDraft"
    using f 1(3,4) by (simp_all add: retotal_def Let_def)
  have pj: "quote_projects db2 = quote_projects db" by (simp add: db2_def db1_def dbL_def recompute_totals_conv)
  have "quote_ok db2"
    unfolding quote_ok_def find2 pj using ids ls(2) ok money new lines lines'
    by (auto simp: quote_ok_def project_ok_def split: if_splits)
  moreover have "doc_of db2 j = doc_of db j" if "j \<noteq> i" for j using that by (simp add: doc_of_def find2 lines lines')
  moreover have "doc_of db i = None" "map_option fst (doc_of db2 i) = Some QDraft"
    using none new by (simp_all add: doc_of_def find2)
  ultimately show ?thesis using 1(7) by (simp add: db2_def db1_def dbL_def)
qed

lemma create_quote_effect:
  assumes "quote_ok db" "i \<notin> qt_id ` set (quotes_tbl db)" "create_quote bdb db t today u r ctx i nl = Inr (db', v)"
  shows "quote_effect db db'"
proof -
  note docs = create_quote_docs [OF assms]
  then obtain d where "doc_of db' i = Some (QDraft, fst (snd d), snd (snd d))" by (cases "doc_of db' i") auto
  with docs have "doc_step (doc_of db i) (doc_of db' i)" using doc_step.opened by presburger
  with docs show ?thesis unfolding quote_effect_def by blast
qed

section \<open>Moves\<close>

lemma cancel_quote_effect:
  assumes "quote_ok db" "cancel_quote db t i ctx = Inr db'" shows "quote_effect db db'"
proof -
  obtain q where "select_quote db t i = Some q" "\<not> quote_frozen (qt_status q)"
    and "db' = quote_audited t ctx ADelete ''quotes'' i (update_quote_row t i (\<lambda>q. q\<lparr>qt_status := QCancelled\<rparr>) db)"
    using assms(2) by (auto simp: cancel_quote_def status_of_Inr split: if_splits elim!: and_then_InrE)
  then show ?thesis
    using status_effect [OF assms(1), of t i q "\<lambda>q. q\<lparr>qt_status := QCancelled\<rparr>"] lifecycle.staff [of "qt_status q" QCancelled]
    by (simp add: keeps_quote_key_def content_of_def is_staff_settable_def)
qed

definition sent_row :: "delivery_method \<times> string option \<Rightarrow> audit_ctx \<Rightarrow> instant \<Rightarrow> (uuid \<times> string) option \<Rightarrow> quote \<Rightarrow> quote" where
  "sent_row choice ctx now recipient q =
     (let s = mark_sent choice (map_option fst recipient) ctx now q in
      case recipient of None \<Rightarrow> s | Some (_, address) \<Rightarrow> s\<lparr>qt_emailed_at := Some now, qt_emailed_to := Some address\<rparr>)"

lemma sent_row_facts:
  "keeps_quote_key (sent_row choice ctx now rec)" "content_of (sent_row choice ctx now rec q) = content_of q"
  "qt_project (sent_row choice ctx now rec q) = qt_project q" "qt_status (sent_row choice ctx now rec q) = QSent"
  by (simp_all add: keeps_quote_key_def sent_row_def mark_sent_def content_of_def Let_def split: option.split)

lemma send_quote_txE:
  assumes "send_quote_tx env bdb db t today i choice ctx now = Inr db'"
  obtains q rec where "select_quote db t i = Some q" "qt_status q = QApproved"
    and "fst choice = ByEmail \<longleftrightarrow> rec \<noteq> None"
    and "\<And>c a. rec = Some (c, a) \<Longrightarrow> quote_recipient bdb t q = Inr (c, a)
           \<and> mail_quote_to_client env (quote_response today (mark_sent choice (Some c) ctx now q)) a = Inr ()"
    and "db' = quote_audited t ctx AUpdate ''quotes'' i (quote_audited t ctx AUpdate ''quotes'' i
           (update_quote_row t i (sent_row choice ctx now rec) db))"
proof -
  from assms obtain q where q: "select_quote db t i = Some q" "qt_status q = QApproved"
    by (auto simp: send_quote_tx_def split: option.splits if_splits)
  have fuse: "update_quote_row t i (\<lambda>x. x\<lparr>qt_emailed_at := Some now, qt_emailed_to := Some a\<rparr>)
      (update_quote_row t i (mark_sent choice (Some c) ctx now) db)
      = update_quote_row t i (sent_row choice ctx now (Some (c, a))) db" for c a
    by (auto simp: update_quote_row_def update_where_def sent_row_def mark_sent_def quote_key_def)
  show thesis
  proof (cases "fst choice = ByEmail")
    case True
    with assms q obtain c a where r: "quote_recipient bdb t q = Inr (c, a)"
      by (cases "quote_recipient bdb t q") (auto simp: send_quote_tx_def plain_def)
    let ?mail = "mail_quote_to_client env (quote_response today (mark_sent choice (Some c) ctx now q)) a"
    have m: "?mail = Inr ()"
      using assms q True r by (cases ?mail) (simp_all add: send_quote_tx_def plain_def Let_def)
    have db': "db' = quote_audited t ctx AUpdate ''quotes'' i (quote_audited t ctx AUpdate ''quotes'' i
           (update_quote_row t i (sent_row choice ctx now (Some (c, a))) db))"
      using assms q True r m by (simp add: send_quote_tx_def plain_def Let_def fuse [symmetric])
    show ?thesis by (rule that [of q "Some (c, a)"]) (use q True r m db' in auto)
  next
    case False
    have "sent_row choice ctx now None = mark_sent choice None ctx now" by (simp add: sent_row_def fun_eq_iff)
    with False assms q show ?thesis by (intro that [of q None]) (auto simp: send_quote_tx_def)
  qed
qed

lemma send_quote_effect:
  assumes "quote_ok db" shows "quote_effect db (fst (send_quote env bdb db t today i delivery ctx now))"
proof (cases "send_quote_tx env bdb db t today i (quote_delivery_choice delivery) ctx now")
  case (Inl e)
  have "quote_effect db db" using quote_effect_same [OF assms] by simp
  with Inl show ?thesis by (cases e) (simp add: send_quote_def Let_def)
next
  case (Inr db1)
  have "quote_effect db db" using quote_effect_same [OF assms] by simp
  moreover from Inr have "quote_effect db db1"
  proof (cases rule: send_quote_txE)
    case (1 q rec)
    have "quote_effect db (update_quote_row t i (sent_row (quote_delivery_choice delivery) ctx now rec) db)"
      using assms 1(1) by (rule status_effect) (simp_all add: sent_row_facts 1(2) lifecycle.issue)
    then show ?thesis by (simp add: 1(5))
  qed
  ultimately show ?thesis using Inr by (simp add: send_quote_def Let_def)
qed

lemma decide_check_Inr:
  "decide_check db t today i d = Inr u \<longleftrightarrow> (\<exists>q. select_quote db t i = Some q \<and> qt_status q = QSent
     \<and> qt_company q = cd_company d \<and> (\<forall>until. qt_valid_until q = Some until \<longrightarrow> today \<le> until))"
  by (cases "select_quote db t i"; cases "qt_valid_until (the (select_quote db t i))")
     (auto simp: decide_check_def effective_status_def is_client_visible_def split: if_splits)

lemma decide_quote_effect:
  assumes "quote_ok db" "decide_quote db t today i d ctx now = Inr (db', v)" shows "quote_effect db db'"
proof -
  let ?f = "\<lambda>q. q\<lparr>qt_status := (if cd_accept d then QAccepted else QDeclined), qt_decided_at := Some now,
       qt_decided_by := Some (cd_contact d), qt_decision_notes := cd_notes d\<rparr>"
  obtain q where q: "select_quote db t i = Some q" "qt_status q = QSent"
    and db': "db' = quote_audited t ctx AUpdate ''quotes'' i (update_quote_row t i ?f db)"
    using assms(2) by (auto simp: decide_quote_def decide_check_Inr answer_quote_Inr decide_apply_def elim!: and_then_InrE)
  have "quote_effect db (update_quote_row t i ?f db)"
    using assms(1) q(1) by (rule status_effect) (auto simp: keeps_quote_key_def content_of_def q(2) intro: lifecycle.intros)
  then show ?thesis by (simp add: db')
qed

lemma convert_quoteE:
  assumes "convert_quote db t today i r ctx p = Inr (db', v)"
  obtains (again) q where "select_quote db t i = Some q" "qt_status q = QConverted" "qt_project q \<noteq> None" "db' = db"
  | (fresh) q where "select_quote db t i = Some q" "qt_status q = QAccepted"
      and "db' = quote_audited t ctx AUpdate ''quotes'' i (quote_audited t ctx ACreate ''projects'' p
             (update_quote_row t i (\<lambda>x. x\<lparr>qt_status := QConverted, qt_project := Some p\<rparr>)
               (db\<lparr>quote_projects := quote_projects db @ [converted_project t q r p]\<rparr>)))"
  using assms unfolding convert_quote_def Let_def
  by (cases "select_quote db t i") (auto simp: answer_quote_Inr split: if_splits)

lemma convert_quote_effect:
  assumes ok: "quote_ok db" and fresh: "p \<notin> pj_id ` set (quote_projects db)"
    and c: "convert_quote db t today i r ctx p = Inr (db', v)"
  shows "quote_effect db db'"
  using c
proof (cases rule: convert_quoteE)
  case again
  then show ?thesis using quote_effect_same [OF ok] by simp
next
  case (fresh q)
  define pj where "pj = converted_project t q r p"
  define dbp where "dbp = db\<lparr>quote_projects := quote_projects db @ [pj]\<rparr>"
  define f where "f = (\<lambda>x::quote. x\<lparr>qt_status := QConverted, qt_project := Some p\<rparr>)"
  define db1 where "db1 = update_quote_row t i f dbp"
  have f: "keeps_quote_key f" by (simp add: keeps_quote_key_def f_def)
  have same: "find_quote dbp = find_quote db" "doc_lines dbp = doc_lines db" "quotes_tbl dbp = quotes_tbl db"
    by (simp_all add: dbp_def find_quote_def doc_lines_def fun_eq_iff)
  have "touched i q (f q) dbp db1"
    unfolding db1_def using ok fresh(1) f by (intro touched_row) (simp_all add: dbp_def quote_ok_def select_quote_def)
  then have t: "touched i q (f q) db db1" by (simp add: touched_def same)
  have ls: "doc_lines db1 = doc_lines db" by (simp add: db1_def dbp_def doc_lines_def fun_eq_iff)
  have pjs: "quote_projects db1 = quote_projects db @ [pj]" by (simp add: db1_def dbp_def)
  have q: "quote_money_ok (doc_lines db i) q" "qt_tenant q = t" "lines_sound db"
    using ok t select_found [OF ok fresh(1)] unfolding quote_ok_def touched_def by blast+
  have "lines_sound dbp" using q(3) by (simp add: lines_sound_def same) (simp add: dbp_def)
  then have sound: "lines_sound db1" using f by (simp add: db1_def lines_sound_row)
  have cont: "content_of (f q) = content_of q" by (simp add: f_def content_of_def)
  have "quote_money_ok (doc_lines db1 i) (f q)" using q(1) quote_money_content [OF cont] by (simp add: ls)
  moreover have "project_ok (quote_projects db1) (f q)" using q(2) by (simp add: project_ok_def pjs f_def pj_def converted_project_def)
  ultimately have "quote_ok db1"
    using assms(2) by (intro quote_ok_touched [OF ok t sound]) (auto simp: pjs f_def)
  moreover have "doc_step (doc_of db i) (doc_of db1 i)"
    using touched_docs [OF t] cont fresh(2) lifecycle.convert by (simp add: ls f_def doc_step.moved)
  ultimately have "quote_effect db db1" using touched_others [OF t] unfolding quote_effect_def by blast
  then show ?thesis by (simp add: fresh(3) db1_def dbp_def f_def pj_def)
qed

section \<open>Approvals\<close>

lemma answer_approval_Inr: "answer_approval db t a = Inr (db', r) \<longleftrightarrow> db' = db \<and> get_approval db t a = Inr r"
  by (cases "get_approval db t a") (auto simp: answer_approval_def)

lemma update_approval_frame [simp]:
  "quotes_tbl (update_approval_row p f db) = quotes_tbl db" "quote_lines_tbl (update_approval_row p f db) = quote_lines_tbl db"
  "quote_projects (update_approval_row p f db) = quote_projects db"
  "approvals_tbl (update_approval_row p f db) = update_where p f (approvals_tbl db)"
  by (simp_all add: update_approval_row_def)

lemma quote_effect_left: "doc_of db1 = doc_of db \<Longrightarrow> quote_effect db1 db' = quote_effect db db'"
  by (simp add: quote_effect_def)

definition decided_row :: "approval_status \<Rightarrow> string option \<Rightarrow> uuid \<Rightarrow> instant \<Rightarrow> approval \<Rightarrow> approval" where
  "decided_row s notes caller now x =
     x\<lparr>ap_status := s, ap_decision_notes := notes, ap_decided_by := Some caller, ap_decided_at := Some now\<rparr>"

lemma parse_decision_Inr:
  "parse_decision x = Inr s \<longleftrightarrow> x = ''approve'' \<and> s = ApApproved \<or> x = ''reject'' \<and> s = ApRejected"
  by (auto simp: parse_decision_def)

lemma decide_approvalE:
  assumes "decide_approval db t a caller role req ctx now = Inr (db', v)"
  obtains s r db1 where "parse_decision (fst req) = Inr s" "select_approval db t a = Some r" "ap_status r = ApPending"
    and "ap_user r = Some caller \<or> ap_role r = Some role"
    and "db1 = update_approval_row (\<lambda>x. approval_key t a x \<and> ap_status x = ApPending) (decided_row s (snd req) caller now) db"
    and "db' = (if ap_target r \<noteq> TQuote then db1
                else case apply_decision db1 t (ap_entity r) of
                       (moved, Some _) \<Rightarrow> quote_audited t ctx AUpdate ''quotes'' (ap_entity r) moved
                     | (same, None) \<Rightarrow> same)"
  using assms unfolding decide_approval_def decided_row_def [abs_def] Let_def
  by (auto simp: answer_approval_Inr split: option.splits if_splits elim!: and_then_InrE)

lemma apply_decision_cases:
  obtains (stays) "apply_decision db t i = (db, None)"
  | (moves) q next_status where "select_quote db t i = Some q" "qt_status q = QSubmitted"
      "signoff_outcome (qt_status q) (count_approvals db t i ApPending) (count_approvals db t i ApRejected) = Some next_status"
      "next_status \<in> {QApproved, QRejected}"
      "apply_decision db t i = (update_quote_row t i (\<lambda>x. x\<lparr>qt_status := next_status\<rparr>) db, Some next_status)"
  by (cases "select_quote db t i";
      cases "signoff_outcome (qt_status (the (select_quote db t i))) (count_approvals db t i ApPending) (count_approvals db t i ApRejected)")
     (auto simp: apply_decision_def signoff_outcome_def split: if_splits)

lemma apply_decision_effect:
  assumes "quote_ok db" shows "quote_effect db (fst (apply_decision db t i))"
proof (cases rule: apply_decision_cases [of db t i])
  case stays
  then show ?thesis using quote_effect_same [OF assms] by simp
next
  case (moves q n)
  have "quote_effect db (update_quote_row t i (\<lambda>x. x\<lparr>qt_status := n\<rparr>) db)"
    using assms moves(1) by (rule status_effect)
      (use moves(4) in \<open>auto simp: keeps_quote_key_def content_of_def moves(2) quote_frozen_def is_staff_settable_def intro!: lifecycle.staff\<close>)
  then show ?thesis by (simp add: moves(5))
qed

lemma decide_approval_effect:
  assumes "quote_ok db" "decide_approval db t a caller role req ctx now = Inr (db', v)" shows "quote_effect db db'"
  using assms(2)
proof (cases rule: decide_approvalE)
  case (1 s r db1)
  have same: "quote_ok db1" "doc_of db1 = doc_of db" using quote_ok_cong [of db1 db] assms(1) 1(5) by simp_all
  have "quote_effect db db1" using quote_effect_same [OF assms(1)] 1(5) by simp
  moreover have "quote_effect db (fst (apply_decision db1 t (ap_entity r)))"
    using apply_decision_effect [OF same(1)] by (simp add: quote_effect_left [OF same(2)])
  ultimately show ?thesis using 1(6) by (auto split: prod.splits option.splits if_splits)
qed

section \<open>The modules as a step relation\<close>

text \<open>Every write of the two modules; the identifier of a new row is not in its table.\<close>

inductive quote_step :: "quote_db \<Rightarrow> quote_db \<Rightarrow> bool" where
  created: "i \<notin> qt_id ` set (quotes_tbl db) \<Longrightarrow> create_quote bdb db t today u r ctx i nl = Inr (db', v) \<Longrightarrow> quote_step db db'"
| updated: "update_quote bdb db t today i ur ctx nl = Inr (db', v) \<Longrightarrow> quote_step db db'"
| cancelled: "cancel_quote db t i ctx = Inr db' \<Longrightarrow> quote_step db db'"
| line_added: "add_line db t today i l n = Inr (db', v) \<Longrightarrow> quote_step db db'"
| line_updated: "update_line db t today i n l = Inr (db', v) \<Longrightarrow> quote_step db db'"
| line_deleted: "delete_line db t today i n = Inr (db', v) \<Longrightarrow> quote_step db db'"
| sent: "quote_step db (fst (send_quote env bdb db t today i delivery ctx now))"
| decided: "decide_quote db t today i d ctx now = Inr (db', v) \<Longrightarrow> quote_step db db'"
| converted: "p \<notin> pj_id ` set (quote_projects db) \<Longrightarrow> validate_convert cr = Inr () \<Longrightarrow>
    convert_quote db t today i cr ctx p = Inr (db', v) \<Longrightarrow> quote_step db db'"
| approval_asked: "a \<notin> ap_id ` set (approvals_tbl db) \<Longrightarrow>
    create_approval db target t e u ar a = Inr (db', av) \<Longrightarrow> quote_step db db'"
| contact_asked: "a \<notin> ap_id ` set (approvals_tbl db) \<Longrightarrow>
    create_contact_request db t e c note a = Inr (db', av) \<Longrightarrow> quote_step db db'"
| staff_asked: "a \<notin> ap_id ` set (approvals_tbl db) \<Longrightarrow>
    create_staff_request db t e u note a = Inr (db', av) \<Longrightarrow> quote_step db db'"
| approval_decided: "decide_approval db t a u role req ctx now = Inr (db', av) \<Longrightarrow> quote_step db db'"
| contact_decided: "decide_as_contact audit_written db t a c req now = Inr (db', av) \<Longrightarrow> quote_step db db'"
| rescinded: "cancel_approval db t a u now = Inr db' \<Longrightarrow> quote_step db db'"

lemma create_for_entity_Inr:
  "create_for_entity db t target e u r a = Inr (db', v) \<Longrightarrow>
   db' = db\<lparr>approvals_tbl := approvals_tbl db @ [new_approval t target e (Some u) None r a]\<rparr>"
  by (auto simp: create_for_entity_def answer_approval_Inr split: if_splits)

lemma new_approval_id [simp]: "ap_id (new_approval t target e u c r a) = a"
  by (simp add: new_approval_def)

lemma asked: "db' = db\<lparr>approvals_tbl := approvals_tbl db @ [new_approval t target e u c r a]\<rparr> \<Longrightarrow>
   \<exists>x. ap_id x = a \<and> db' = db\<lparr>approvals_tbl := approvals_tbl db @ [x]\<rparr>"
  using new_approval_id by blast

lemma ask_Inr:
  "create_approval db target t e u r a = Inr (db', v) \<Longrightarrow> \<exists>x. ap_id x = a \<and> db' = db\<lparr>approvals_tbl := approvals_tbl db @ [x]\<rparr>"
  "create_contact_request db t e c note a = Inr (db', v) \<Longrightarrow> \<exists>x. ap_id x = a \<and> db' = db\<lparr>approvals_tbl := approvals_tbl db @ [x]\<rparr>"
  "create_staff_request db t e u note a = Inr (db', v) \<Longrightarrow> \<exists>x. ap_id x = a \<and> db' = db\<lparr>approvals_tbl := approvals_tbl db @ [x]\<rparr>"
  unfolding create_approval_def create_contact_request_def create_staff_request_def answer_approval_Inr
  by (elim and_then_InrE conjE; (drule create_for_entity_Inr)?; erule asked)+

lemma decide_as_contactE:
  assumes "decide_as_contact w db t a c req now = Inr (db', v)"
  obtains s aud where "parse_decision (fst req) = Inr s"
    and "db' = (update_approval_row (\<lambda>x. approval_key t a x \<and> ap_contact x = Some c \<and> ap_status x = ApPending)
        (\<lambda>x. x\<lparr>ap_status := s, ap_decision_notes := snd req, ap_decided_by_contact := Some c, ap_decided_at := Some now\<rparr>) db)
        \<lparr>quote_audit := aud\<rparr>"
proof -
  from assms obtain s where s: "parse_decision (fst req) = Inr s"
    by (auto simp: decide_as_contact_def elim!: and_then_InrE)
  with assms show thesis
    by (intro that [of s "quote_audit db'"])
       (auto simp: decide_as_contact_def Let_def answer_approval_Inr audit_portal_event_def update_approval_row_def
          split: option.splits if_splits)
qed

lemma cancel_approvalE:
  assumes "cancel_approval db t a u now = Inr db'"
  obtains r where "select_approval db t a = Some r" "ap_status r = ApPending" "ap_requested_by r = Some u" "db' = cancel_apply db t a now"
  using assms by (auto simp: cancel_approval_def cancel_check_def split: option.splits if_splits elim!: and_then_InrE)

lemma quote_step_effect:
  assumes "quote_step db db'" "quote_ok db" shows "quote_effect db db'"
  using assms
proof cases
  case (approval_asked a target t e u ar av)
  then show ?thesis using quote_effect_same [OF assms(2)] ask_Inr(1) by fastforce
next
  case (contact_asked a t e c nt av)
  then show ?thesis using quote_effect_same [OF assms(2)] ask_Inr(2) by fastforce
next
  case (staff_asked a t e u nt av)
  then show ?thesis using quote_effect_same [OF assms(2)] ask_Inr(3) by fastforce
next
  case (contact_decided w t a c req now av)
  then show ?thesis by (rule decide_as_contactE) (auto intro!: quote_effect_same [OF assms(2)])
next
  case (rescinded t a u now)
  then show ?thesis by (rule cancel_approvalE) (auto simp: cancel_apply_def intro!: quote_effect_same [OF assms(2)])
qed (use assms(2) in \<open>auto intro: create_quote_effect update_quote_effect cancel_quote_effect add_line_effect update_line_effect
      delete_line_effect send_quote_effect decide_quote_effect convert_quote_effect decide_approval_effect\<close>)

lemma quote_reachable_ok: "quote_step\<^sup>*\<^sup>* db db' \<Longrightarrow> quote_ok db \<Longrightarrow> quote_ok db'"
  by (induction rule: rtranclp_induct) (auto dest: quote_step_effect simp: quote_effect_def)

section \<open>Statuses and approvals, operation by operation\<close>

definition status_at :: "quote_db \<Rightarrow> uuid \<Rightarrow> quote_status option" where
  "status_at db i = map_option qt_status (find_quote db i)"

lemma status_at_audited [simp]: "status_at (quote_audited t ctx a e i db) = status_at db"
  by (simp add: status_at_def find_quote_def fun_eq_iff)

lemma status_at_write:
  "keeps_quote_key f \<Longrightarrow> (\<And>q. qt_status (f q) = s) \<Longrightarrow> status_at (update_quote_row t i f db) j \<in> {status_at db j, Some s}"
  by (cases "find_quote db j") (simp_all add: status_at_def quote_simps)

lemma status_at_recompute [simp]: "status_at (recompute_totals db t i) = status_at db"
  by (simp add: status_at_def recompute_totals_conv find_update_quote_row [OF retotal_keeps] option.map_comp comp_def if_distrib
      fun_eq_iff cong: if_cong)

lemma status_at_cong: "quotes_tbl db = quotes_tbl db' \<Longrightarrow> status_at db = status_at db'"
  by (simp add: status_at_def find_quote_def fun_eq_iff)

text \<open>What a write of the quotes service does to the statuses; it leaves the approvals alone.\<close>

lemma line_status:
  "add_line db t today i l n = Inr (db', v) \<Longrightarrow> status_at db' = status_at db \<and> approvals_tbl db' = approvals_tbl db"
  "update_line db t today i n l = Inr (db', v) \<Longrightarrow> status_at db' = status_at db \<and> approvals_tbl db' = approvals_tbl db"
  "delete_line db t today i n = Inr (db', v) \<Longrightarrow> status_at db' = status_at db \<and> approvals_tbl db' = approvals_tbl db"
  by (auto simp: add_line_def update_line_def delete_line_def answer_quote_Inr insert_quote_line_def
      recompute_totals_conv [of _ t i] split: if_splits elim!: and_then_InrE)
     (auto simp: recompute_totals_conv [symmetric] intro!: fun_cong [OF status_at_cong] ext)

lemma cancel_status:
  assumes "cancel_quote db t i ctx = Inr db'"
  shows "status_at db' j \<in> {status_at db j, Some QCancelled}" "approvals_tbl db' = approvals_tbl db"
  using assms status_at_write [of "\<lambda>q. q\<lparr>qt_status := QCancelled\<rparr>" QCancelled t i db j]
  by (auto simp: cancel_quote_def keeps_quote_key_def split: if_splits elim!: and_then_InrE)

lemma send_status:
  assumes db'_def: "db' = fst (send_quote env bdb db t today i delivery ctx now)"
  shows "status_at db' j \<in> {status_at db j, Some QSent}" "approvals_tbl db' = approvals_tbl db"
proof -
  have "status_at db' j \<in> {status_at db j, Some QSent} \<and> approvals_tbl db' = approvals_tbl db"
  proof (cases "send_quote_tx env bdb db t today i (quote_delivery_choice delivery) ctx now")
    case (Inl e)
    then show ?thesis by (cases e) (auto simp: db'_def send_quote_def Let_def)
  next
    case (Inr db1)
    then show ?thesis
    proof (cases rule: send_quote_txE)
      case (1 q rec)
      have "status_at db1 j \<in> {status_at db j, Some QSent} \<and> approvals_tbl db1 = approvals_tbl db"
        using status_at_write [OF sent_row_facts(1,4)] by (simp add: 1(5))
      with Inr show ?thesis by (auto simp: db'_def send_quote_def Let_def)
    qed
  qed
  then show "status_at db' j \<in> {status_at db j, Some QSent}" "approvals_tbl db' = approvals_tbl db" by auto
qed

lemma decide_status:
  assumes "decide_quote db t today i d ctx now = Inr (db', v)"
  shows "status_at db' j \<in> {status_at db j, Some (if cd_accept d then QAccepted else QDeclined)}" "approvals_tbl db' = approvals_tbl db"
proof -
  let ?f = "\<lambda>q. q\<lparr>qt_status := (if cd_accept d then QAccepted else QDeclined), qt_decided_at := Some now,
       qt_decided_by := Some (cd_contact d), qt_decision_notes := cd_notes d\<rparr>"
  have db': "db' = quote_audited t ctx AUpdate ''quotes'' i (update_quote_row t i ?f db)"
    using assms by (auto simp: decide_quote_def answer_quote_Inr decide_apply_def elim!: and_then_InrE)
  show "status_at db' j \<in> {status_at db j, Some (if cd_accept d then QAccepted else QDeclined)}"
    unfolding db' status_at_audited by (rule status_at_write) (simp_all add: keeps_quote_key_def)
  show "approvals_tbl db' = approvals_tbl db" by (simp add: db')
qed

lemma convert_status:
  assumes "convert_quote db t today i r ctx p = Inr (db', v)"
  shows "status_at db' j \<in> {status_at db j, Some QConverted}" "approvals_tbl db' = approvals_tbl db"
proof -
  have "status_at db' j \<in> {status_at db j, Some QConverted} \<and> approvals_tbl db' = approvals_tbl db"
    using assms
  proof (cases rule: convert_quoteE)
    case (fresh q)
    have "status_at (db\<lparr>quote_projects := quote_projects db @ [converted_project t q r p]\<rparr>) = status_at db"
      by (rule status_at_cong) simp
    then show ?thesis
      using status_at_write [of "\<lambda>x. x\<lparr>qt_status := QConverted, qt_project := Some p\<rparr>" QConverted t i
          "db\<lparr>quote_projects := quote_projects db @ [converted_project t q r p]\<rparr>" j]
      by (simp add: fresh(3) keeps_quote_key_def)
  qed auto
  then show "status_at db' j \<in> {status_at db j, Some QConverted}" "approvals_tbl db' = approvals_tbl db" by auto
qed

lemma update_status:
  assumes ok: "quote_ok db" and "update_quote bdb db t today i r ctx nl = Inr (db', v)"
  shows "status_at db' j = status_at db j
     \<or> j = i \<and> status_at db' j = uq_status r \<and> check_new_status db t i (uq_status r) = Inr () \<and> map_option qt_tenant (find_quote db j) = Some t"
    and "approvals_tbl db' = approvals_tbl db"
proof -
  from assms(2) have "(status_at db' j = status_at db j \<or> j = i \<and> status_at db' j = uq_status r
       \<and> check_new_status db t i (uq_status r) = Inr () \<and> map_option qt_tenant (find_quote db j) = Some t) \<and> approvals_tbl db' = approvals_tbl db"
  proof (cases rule: update_quoteE)
    case (1 q f)
    note f = rate_write [OF 1(6)]
    have hw: "touched i q (f (quote_header r q)) db (update_quote_row t i f (replace_quote_lines nl i (uq_lines r)
        (update_quote_row t i (quote_header r) db)))"
      using header_written(1) [OF ok 1(1) f(1)] .
    have ten: "qt_tenant q = t" using select_found [OF ok 1(1)] by simp
    show ?thesis
    proof (cases "j = i")
      case True
      with hw f ten 1(4) show ?thesis
        by (cases "uq_status r") (simp_all add: 1(7) recompute_totals_conv [symmetric], simp_all add: touched_def status_at_def
            quote_header_def opt_or_def recompute_totals_conv)
    next
      case False
      with hw show ?thesis by (simp add: 1(7) touched_def) (simp add: status_at_def recompute_totals_conv)
    qed
  qed
  then show "status_at db' j = status_at db j
     \<or> j = i \<and> status_at db' j = uq_status r \<and> check_new_status db t i (uq_status r) = Inr () \<and> map_option qt_tenant (find_quote db j) = Some t"
    "approvals_tbl db' = approvals_tbl db" by auto
qed

lemma create_status:
  assumes "quote_ok db" "i \<notin> qt_id ` set (quotes_tbl db)" "create_quote bdb db t today u r ctx i nl = Inr (db', v)"
  shows "status_at db' j \<in> {status_at db j, Some QDraft}" "approvals_tbl db' = approvals_tbl db"
proof -
  have "status_at db k = map_option fst (doc_of db k)" for db k by (simp add: status_at_def doc_of_def option.map_comp comp_def)
  with create_quote_docs [OF assms] show "status_at db' j \<in> {status_at db j, Some QDraft}" by (cases "j = i") auto
  show "approvals_tbl db' = approvals_tbl db"
    using assms(3) by (cases rule: create_quoteE) (simp add: recompute_totals_conv)
qed

end
