(* ===== verification/Quote_Guarantees.thy ===== *)
theory Quote_Guarantees
  imports Quote_Lifecycle
begin

text \<open>
  What the quotes and approvals modules promise, over every sequence of their operations: figures
  that add up, a document in the client's hands that never changes, a sign-off that waits for its
  approvers, one project per accepted quote, decisions that stand. The last section records what
  the code does where two requests meet, where an old rejection is counted again and where a field
  of a request is dropped.
\<close>

section \<open>A worked example\<close>

definition quote_bill :: bill_db where
  "quote_bill = (sample_numbers None)\<lparr>
     companies_tbl := [\<lparr> cp_id = 3, cp_tenant = 7, cp_invoice_prefix = None, cp_default_contact = Some 12 \<rparr>],
     contacts_tbl := [\<lparr> ct_id = 12, ct_tenant = 7, ct_company = Some 3, ct_email = Some '' ap@client.example '' \<rparr>],
     tax_rates := [\<lparr> tr_id = 9, tr_tenant = 7, tr_rate = 81 / 10, tr_is_default = True, tr_is_active = True,
                    tr_created_at = 0 \<rparr>]\<rparr>"

definition quote_user :: audit_ctx where
  "quote_user = \<lparr> ctx_tenant = Some 7, ctx_user = Some 5, ctx_ip = None, ctx_user_agent = None \<rparr>"

definition quote_order :: create_quote_request where
  "quote_order = \<lparr> cq_company = 3, cq_billing_contact = None, cq_title = ''Office move'', cq_summary = None,
     cq_description = Some ''Move 12 desks'', cq_valid_until = Some 20600, cq_currency = None, cq_tax_amount = None,
     cq_tax_rate = None,
     cq_lines = [\<lparr> qlr_type = QLLabour, qlr_description = ''Labour'', qlr_quantity = 5 / 2, qlr_unit_price = 100,
                   qlr_sort_order = 1, qlr_taxable = True \<rparr>,
                 \<lparr> qlr_type = QLExpense, qlr_description = ''Van'', qlr_quantity = 1, qlr_unit_price = 60,
                   qlr_sort_order = 0, qlr_taxable = False \<rparr>] \<rparr>"

definition quote_to :: "quote_status \<Rightarrow> update_quote_request" where
  "quote_to s = \<lparr> uq_billing_contact = None, uq_title = None, uq_summary = None, uq_description = None,
     uq_valid_until = None, uq_currency = None, uq_tax_amount = None, uq_tax_rate = None, uq_status = Some s,
     uq_lines = None \<rparr>"

definition quote_mailer :: quote_env where
  "quote_mailer = \<lparr> qe_dispatch = Some (\<lambda>_. Inr ()), qe_origin = ''https://msp.example/'', qe_portal_id = Some 123456789,
     qe_org = Inr (''MSP'', ''''), qe_uuid_text = digits_of, qe_failure_recorded = True \<rparr>"

definition quote_approver :: "uuid \<Rightarrow> approval_request" where
  "quote_approver u = \<lparr> apr_user = Some u, apr_role = None, apr_contact = None, apr_notes = None \<rparr>"

definition quote_answer :: "bool \<Rightarrow> client_decision" where
  "quote_answer b = \<lparr> cd_company = 3, cd_contact = 12, cd_accept = b, cd_notes = None \<rparr>"

definition quote_plan :: convert_quote_request where
  "quote_plan = \<lparr> cv_manager = Some 6, cv_start = None, cv_target_end = None, cv_billing_method = None, cv_budget_hours = None \<rparr>"

definition quote_row :: "quote_status \<Rightarrow> quote" where
  "quote_row s = \<lparr> qt_id = 1, qt_tenant = 7, qt_number = Some ''QUO-000001'', qt_company = 3, qt_billing_contact = Some 12,
     qt_title = ''Office move'', qt_summary = None, qt_description = Some ''Move 12 desks'', qt_status = s,
     qt_valid_until = Some 20600, qt_subtotal = 310, qt_tax_amount = 81 / 4, qt_tax_rate_id = Some 9,
     qt_tax_rate = Some (81 / 10), qt_total = 1321 / 4, qt_currency = Some ''USD'', qt_requested_by = Some 5,
     qt_sent_at = None, qt_decided_at = None, qt_decided_by = None, qt_decision_notes = None, qt_project = None,
     qt_delivery = None, qt_delivered_by = None, qt_emailed_to = None, qt_emailed_at = None \<rparr>"

definition quote_at :: "quote_status \<Rightarrow> approval list \<Rightarrow> quote_db" where
  "quote_at s aps = \<lparr> quotes_tbl = [quote_row s],
     quote_lines_tbl = [\<lparr> ql_id = 0, ql_quote = 1, ql_type = QLLabour, ql_description = ''Labour'', ql_quantity = 5 / 2,
                          ql_unit_price = 100, ql_total = 250, ql_sort_order = 1, ql_taxable = True \<rparr>,
                        \<lparr> ql_id = 1, ql_quote = 1, ql_type = QLExpense, ql_description = ''Van'', ql_quantity = 1,
                          ql_unit_price = 60, ql_total = 60, ql_sort_order = 0, ql_taxable = False \<rparr>],
     quote_sequences = [\<lparr> sq_tenant = 7, sq_last_number = 1, sq_prefix = Some ''QUO-'' \<rparr>], approvals_tbl = aps,
     quote_projects = [], portal_contacts = [(7, 12)], staff_users = [5, 6], parent_rows = [], quote_audit = [] \<rparr>"

definition quote_approval :: "uuid \<Rightarrow> uuid \<Rightarrow> approval_status \<Rightarrow> approval" where
  "quote_approval a u s = \<lparr> ap_id = a, ap_tenant = 7, ap_target = TQuote, ap_entity = 1, ap_ticket = None,
     ap_requested_by = Some 5, ap_requested_by_contact = None, ap_user = Some u, ap_role = None, ap_contact = None,
     ap_status = s, ap_notes = None, ap_decision_notes = None, ap_decided_by = None, ap_decided_by_contact = None,
     ap_decided_at = None \<rparr>"

lemma quote_at_ok: "s \<noteq> QConverted \<Longrightarrow> quote_ok (quote_at s aps)"
proof -
  have n: "num2 (250 * (81 / 10) / 100) = 81 / 4" "is_num2 250" "is_num2 60" by code_simp+
  assume "s \<noteq> QConverted"
  with n show ?thesis
    by (simp add: quote_ok_def lines_sound_def quote_at_def find_quote_def table_simps doc_lines_def quote_money_ok_def
        project_ok_def quote_row_def)
qed

lemma committed_step:
  assumes "is_ok r" "\<And>s' v. r = Inr (s', v) \<Longrightarrow> quote_step s s'" shows "quote_step s (committed s r)"
  using assms by (cases r) auto

definition quote_drafted :: quote_db where
  "quote_drafted = committed (quote_at QSent []) (create_quote quote_bill (quote_at QSent []) 7 20500 5 quote_order quote_user 2 (\<lambda>n. n + 2))"

lemma quote_drafted_step: "quote_step (quote_at QSent []) quote_drafted"
  unfolding quote_drafted_def
  by (rule committed_step, code_simp) (erule quote_step.created [rotated], simp add: quote_at_def quote_row_def)

section \<open>Figures\<close>

text \<open>
  C24. Whatever sequence of operations the two modules run, the stored figures of every quote follow
  from its lines: the subtotal is their sum, the tax is the frozen rate applied to the taxable ones,
  the total is the two together. A converted quote is linked to a project of its company whose
  budget is that total, and no two quotes are linked to the same project.
\<close>

theorem quote_figures_add_up:
  assumes "quote_ok db" and "quote_step\<^sup>*\<^sup>* db db'" and "q \<in> set (quotes_tbl db')"
  shows "qt_subtotal q = quote_lines_total db' (qt_id q) \<and> qt_total q = qt_subtotal q + qt_tax_amount q
    \<and> (\<forall>pct. qt_tax_rate q = Some pct \<longrightarrow> qt_tax_amount q = num2 (quote_taxable_total db' (qt_id q) * pct / 100))
    \<and> (qt_status q = QConverted \<longrightarrow> (\<exists>pj \<in> set (quote_projects db'). qt_project q = Some (pj_id pj)
           \<and> pj_company pj = qt_company q \<and> pj_budget_amount pj = qt_total q))
    \<and> (\<forall>q' \<in> set (quotes_tbl db'). qt_project q \<noteq> None \<and> qt_project q' = qt_project q \<longrightarrow> q' = q)"
proof -
  have ok: "quote_ok db'" using quote_reachable_ok [OF assms(2,1)] .
  have mem: "x \<in> set (quotes_tbl db') \<longleftrightarrow> find_quote db' (qt_id x) = Some x" for x
    using ok by (intro find_quote_member) (simp add: quote_ok_def)
  have row: "quote_money_ok (doc_lines db' (qt_id q)) q" "project_ok (quote_projects db') q"
    using ok assms(3) mem unfolding quote_ok_def by blast+
  have "q' = q" if q': "q' \<in> set (quotes_tbl db')" "qt_project q \<noteq> None" "qt_project q' = qt_project q" for q'
  proof -
    have "qt_id q = qt_id q'" using ok assms(3) mem q' unfolding quote_ok_def by metis
    with q'(1) assms(3) mem show "q' = q" by (metis option.inject)
  qed
  with row show ?thesis by (auto simp: quote_money_ok_def totals_of_lines project_ok_def)
qed

theorem quote_figures_add_up_witness:
  "quote_ok (quote_at QSent []) \<and> quote_step\<^sup>*\<^sup>* (quote_at QSent []) quote_drafted
   \<and> length (quotes_tbl quote_drafted) = 2
   \<and> list_all (\<lambda>q. qt_total q = quote_lines_total quote_drafted (qt_id q) + qt_tax_amount q) (quotes_tbl quote_drafted)"
proof -
  have steps: "quote_step\<^sup>*\<^sup>* (quote_at QSent []) quote_drafted" using quote_drafted_step by (rule r_into_rtranclp)
  have ok: "quote_ok (quote_at QSent [])" by (rule quote_at_ok) simp
  have "length (quotes_tbl quote_drafted) = 2" by code_simp
  with ok steps show ?thesis
    using quote_figures_add_up [OF ok steps] by (auto simp: list_all_iff)
qed

section \<open>The life of a quote\<close>

text \<open>
  C23. The services implement the lifecycle of a quote: an operation changes at most one quote; it
  opens a new draft, revises one that is a draft or rejected, or leaves content and lines alone and
  moves the status along the lifecycle.
\<close>

theorem quotes_refine_the_lifecycle:
  assumes "quote_ok db" and "quote_step db db'"
  shows "\<exists>i. (\<forall>j. j \<noteq> i \<longrightarrow> doc_of db' j = doc_of db j)
     \<and> (doc_of db' i = doc_of db i \<or> doc_step (doc_of db i) (doc_of db' i))"
  using quote_step_effect [OF assms(2,1)] by (simp add: quote_effect_def)

theorem quotes_refine_the_lifecycle_witness:
  "quote_ok (quote_at QSent []) \<and> doc_of (quote_at QSent []) 2 = None \<and> doc_of quote_drafted 2 \<noteq> None
   \<and> doc_step (doc_of (quote_at QSent []) 2) (doc_of quote_drafted 2)
   \<and> doc_of quote_drafted 1 = doc_of (quote_at QSent []) 1"
proof -
  have ok: "quote_ok (quote_at QSent [])" by (rule quote_at_ok) simp
  have new: "doc_of (quote_at QSent []) 2 = None" "doc_of quote_drafted 2 \<noteq> None" by code_simp+
  obtain i where "\<forall>j. j \<noteq> i \<longrightarrow> doc_of quote_drafted j = doc_of (quote_at QSent []) j"
    "doc_of quote_drafted i = doc_of (quote_at QSent []) i \<or> doc_step (doc_of (quote_at QSent []) i) (doc_of quote_drafted i)"
    using quotes_refine_the_lifecycle [OF ok quote_drafted_step] by blast
  moreover from this new have "i = 2" by metis
  ultimately show ?thesis using ok new by auto
qed

lemma lifecycle_visible: "lifecycle s s' \<Longrightarrow> is_client_visible s \<Longrightarrow> is_client_visible s'"
  by (cases rule: lifecycle.cases) (auto simp: quote_frozen_def is_client_visible_def)

lemma doc_step_issued:
  assumes "doc_step (Some (s, c, ls)) d" "is_client_visible s"
  shows "\<exists>s'. d = Some (s', c, ls) \<and> is_client_visible s' \<and> lifecycle s s'"
  using assms(1)
proof (cases rule: doc_step.cases)
  case (revised s' c' ls')
  with assms(2) show ?thesis by (auto simp: allows_content_edit_def is_client_visible_def)
next
  case (moved s')
  with assms(2) lifecycle_visible show ?thesis by blast
qed

lemma issued_document_stays:
  assumes "quote_ok db" "quote_step\<^sup>*\<^sup>* db db'" "doc_of db i = Some (s, c, ls)" "is_client_visible s"
  shows "\<exists>s'. doc_of db' i = Some (s', c, ls) \<and> is_client_visible s' \<and> lifecycle\<^sup>*\<^sup>* s s'"
  using assms(2)
proof (induction rule: rtranclp_induct)
  case base
  then show ?case using assms(3,4) by blast
next
  case (step db1 db2)
  then obtain s1 where s1: "doc_of db1 i = Some (s1, c, ls)" "is_client_visible s1" "lifecycle\<^sup>*\<^sup>* s s1" by blast
  have "quote_ok db1" using quote_reachable_ok [OF step(1) assms(1)] .
  then have "doc_of db2 i = doc_of db1 i \<or> doc_step (doc_of db1 i) (doc_of db2 i)"
    using quote_step_effect [OF step(2)] unfolding quote_effect_def by metis
  then show ?case
  proof
    assume "doc_step (doc_of db1 i) (doc_of db2 i)"
    with s1 doc_step_issued [of s1 c ls "doc_of db2 i"] show ?thesis by (auto intro: rtranclp.rtrancl_into_rtrancl)
  qed (use s1 in auto)
qed



section \<open>Sign-off\<close>

lemma has_pending_cong: "approvals_tbl db = approvals_tbl db' \<Longrightarrow> has_pending_staff_approval db t i = has_pending_staff_approval db' t i"
  by (simp add: has_pending_staff_approval_def count_approvals_def)

lemma decide_approval_status:
  assumes "quote_ok db" "decide_approval db t a u role req ctx now = Inr (db', v)" "find_quote db i = Some q"
    "status_at db' i = Some QApproved" "qt_status q \<noteq> QApproved"
  shows "\<not> has_pending_staff_approval db' (qt_tenant q) i"
  using assms(2)
proof (cases rule: decide_approvalE)
  case (1 s r db1)
  have same: "quotes_tbl db1 = quotes_tbl db" by (simp add: 1(5))
  have q1: "find_quote db1 i = Some q" using assms(3) find_quote_cong [OF same] by simp
  have st1: "status_at db1 i = Some (qt_status q)" by (simp add: status_at_def q1)
  show ?thesis
  proof (cases rule: apply_decision_cases [of db1 t "ap_entity r"])
    case stays
    with 1(6) assms(4,5) st1 show ?thesis by (auto split: if_splits)
  next
    case (moves x n)
    let ?f = "\<lambda>x. x\<lparr>qt_status := n\<rparr>"
    have db': "ap_target r = TQuote" "db' = quote_audited t ctx AUpdate ''quotes'' (ap_entity r) (update_quote_row t (ap_entity r) ?f db1)"
      using 1(6) moves(5) assms(4,5) st1 by (auto split: if_splits)
    have "map_option (\<lambda>x. if quote_key t (ap_entity r) x then ?f x else x) (find_quote db1 i) = find_quote db' i"
      by (simp add: db'(2) keeps_quote_key_def find_update_quote_row [symmetric]) (simp add: find_quote_def)
    then have hit: "quote_key t (ap_entity r) q" "n = QApproved"
      using assms(4,5) q1 by (auto simp: status_at_def split: if_splits)
    with q1 have "i = ap_entity r" "t = qt_tenant q" by (auto simp: quote_key_def dest: find_quote_id)
    moreover have "count_approvals db1 t (ap_entity r) ApPending = 0"
      using moves(3) hit(2) by (auto simp: signoff_outcome_def split: if_splits)
    ultimately show ?thesis by (simp add: has_pending_staff_approval_def db'(2) count_approvals_def)
  qed
qed

text \<open>
  C26. No quote becomes approved over an outstanding sign-off: whenever an operation, by hand or by a
  decision, turns a quote approved, no staff approval of that quote is waiting for an answer.
\<close>

theorem approved_means_signed_off:
  assumes "quote_ok db" and "quote_step db db'"
    and "select_quote db t i = Some q" "qt_status q \<noteq> QApproved"
    and "select_quote db' t i = Some q'" "qt_status q' = QApproved"
  shows "\<not> has_pending_staff_approval db' t i"
proof -
  have ok': "quote_ok db'" using quote_step_effect [OF assms(2,1)] by (simp add: quote_effect_def)
  have q: "find_quote db i = Some q" "qt_tenant q = t" using select_found [OF assms(1,3)] by simp_all
  have st: "status_at db i = Some (qt_status q)" "status_at db' i = Some QApproved"
    using q select_found [OF ok' assms(5)] assms(6) by (simp_all add: status_at_def)
  have same: False if "status_at db' i = status_at db i" using that st assms(4) by simp
  have frame: False if "quotes_tbl db' = quotes_tbl db" using status_at_cong [OF that] same by simp
  from assms(2) show ?thesis
  proof cases
    case (updated bdb t' today i' ur ctx nl v)
    then have "i = i' \<and> Some QApproved = uq_status ur \<and> check_new_status db t' i' (uq_status ur) = Inr () \<and> t' = t"
      using update_status(1) [OF assms(1), of bdb t' today i' ur ctx nl db' v i] same st q by auto
    then have "\<not> has_pending_staff_approval db t i" unfolding check_new_status_Inr by metis
    with has_pending_cong [OF update_status(2) [OF assms(1) updated]] show ?thesis by simp
  next
    case (approval_decided t' a u role req ctx now av)
    with decide_approval_status [OF assms(1) _ q(1) st(2) assms(4)] q(2) show ?thesis by simp
  next
    case (created i' bdb t' today u r ctx nl v)
    then show ?thesis using create_status(1) [OF assms(1) created, of i] same st by auto
  next
    case (cancelled t' i' ctx)
    then show ?thesis using cancel_status(1) [of db t' i' ctx db' i] same st by auto
  next
    case (sent env bdb t' today i' delivery ctx now)
    then show ?thesis using send_status(1) [of db' env bdb db t' today i' delivery ctx now i] same st by auto
  next
    case (decided t' today i' d ctx now v)
    then show ?thesis using decide_status(1) [OF decided, of i] same st by (auto split: if_splits)
  next
    case (converted p cr t' today i' ctx v)
    then show ?thesis using convert_status(1) [OF converted(3), of i] same st by auto
  next
    case (contact_decided w t' a c req now av)
    then show ?thesis by (rule decide_as_contactE) (use frame in auto)
  next
    case (rescinded t' a u now)
    then show ?thesis by (rule cancel_approvalE) (use frame in \<open>auto simp: cancel_apply_def\<close>)
  qed (use same frame line_status ask_Inr in fastforce)+
qed

theorem approved_means_signed_off_witness:
  "\<exists>db' q q' v. decide_approval (quote_at QSubmitted [quote_approval 40 6 ApPending]) 7 40 6 ''technician'' (''approve'', None) quote_user 100 = Inr (db', v)
     \<and> select_quote (quote_at QSubmitted [quote_approval 40 6 ApPending]) 7 1 = Some q \<and> qt_status q = QSubmitted
     \<and> select_quote db' 7 1 = Some q' \<and> qt_status q' = QApproved \<and> \<not> has_pending_staff_approval db' 7 1"
proof -
  let ?db = "quote_at QSubmitted [quote_approval 40 6 ApPending]"
  let ?r = "decide_approval ?db 7 40 6 ''technician'' (''approve'', None) quote_user 100"
  have "is_ok ?r" "map_option qt_status (select_quote (committed ?db ?r) 7 1) = Some QApproved" by code_simp+
  then obtain db' v q' where r: "?r = Inr (db', v)" and q': "select_quote db' 7 1 = Some q'" "qt_status q' = QApproved"
    by (auto simp: is_ok_def split: sum.splits)
  have q: "select_quote ?db 7 1 = Some (quote_row QSubmitted)" by code_simp
  have ok: "quote_ok ?db" by (rule quote_at_ok) simp
  have s: "qt_status (quote_row QSubmitted) = QSubmitted" by (simp add: quote_row_def)
  have "\<not> has_pending_staff_approval db' 7 1"
    using approved_means_signed_off [OF ok quote_step.approval_decided [OF r] q _ q'] s by simp
  with r q s q' show ?thesis by blast
qed

text \<open>What a step does to the approvals: a new row, or pending rows that are settled.\<close>

definition settles :: "approval \<Rightarrow> approval \<Rightarrow> bool" where
  "settles x x' \<longleftrightarrow> ap_status x = ApPending \<and> ap_status x' \<noteq> ApPending
     \<and> (ap_id x', ap_tenant x', ap_target x', ap_entity x', ap_user x', ap_role x', ap_contact x')
       = (ap_id x, ap_tenant x, ap_target x, ap_entity x, ap_user x, ap_role x, ap_contact x)"

definition approvals_move :: "approval list \<Rightarrow> approval list \<Rightarrow> bool" where
  "approvals_move xs ys \<longleftrightarrow> (\<exists>x. ap_id x \<notin> ap_id ` set xs \<and> ys = xs @ [x])
     \<or> (\<exists>g. ys = map g xs \<and> (\<forall>x \<in> set xs. g x = x \<or> settles x (g x)))"

lemma approvals_move_refl: "approvals_move xs xs"
  unfolding approvals_move_def by (metis list.map_ident)

lemma approvals_move_update:
  assumes "\<And>x. x \<in> set xs \<Longrightarrow> p x \<Longrightarrow> settles x (f x)" shows "approvals_move xs (update_where p f xs)"
  unfolding approvals_move_def update_where_def
  by (intro disjI2 exI [of _ "\<lambda>r. if p r then f r else r"]) (use assms in auto)

lemma asked_move:
  assumes "\<exists>x. ap_id x = a \<and> db' = db\<lparr>approvals_tbl := approvals_tbl db @ [x]\<rparr>" "a \<notin> ap_id ` set (approvals_tbl db)"
  shows "approvals_move (approvals_tbl db) (approvals_tbl db')"
  using assms by (auto simp: approvals_move_def)

lemma quote_step_approvals:
  assumes "quote_step db db'" "quote_ok db" "distinct (map ap_id (approvals_tbl db))"
  shows "approvals_move (approvals_tbl db) (approvals_tbl db')"
  using assms(1)
proof cases
  case (approval_decided t a u role req ctx now av)
  then show ?thesis
  proof (cases rule: decide_approvalE)
    case (1 s r db1)
    have "approvals_tbl (fst (apply_decision db1 t (ap_entity r))) = approvals_tbl db1"
      by (cases rule: apply_decision_cases [of db1 t "ap_entity r"]) simp_all
    then have "approvals_tbl db' = approvals_tbl db1" using 1(6) by (auto split: if_splits option.splits prod.splits)
    moreover have "s \<noteq> ApPending" using 1(1) by (auto simp: parse_decision_Inr)
    ultimately show ?thesis by (auto simp: 1(5) decided_row_def settles_def intro!: approvals_move_update)
  qed
next
  case (contact_decided w t a c req now av)
  then show ?thesis
  proof (cases rule: decide_as_contactE)
    case (1 s aud)
    have "s \<noteq> ApPending" using 1(1) by (auto simp: parse_decision_Inr)
    then show ?thesis by (auto simp: 1(2) settles_def intro!: approvals_move_update)
  qed
next
  case (rescinded t a u now)
  then obtain r where r: "select_approval db t a = Some r" "ap_status r = ApPending" "db' = cancel_apply db t a now"
    by (rule cancel_approvalE)
  have "x = r" if "x \<in> set (approvals_tbl db)" "approval_key t a x" for x
    using that r(1) assms(3) by (auto simp: select_approval_def approval_key_def distinct_map inj_on_def dest!: select_one_SomeD)
  with r show ?thesis by (auto simp: cancel_apply_def settles_def intro!: approvals_move_update)
next
  case (approval_asked a target t e u ar av)
  then show ?thesis by (blast intro: asked_move ask_Inr(1))
next
  case (contact_asked a t e c nt av)
  then show ?thesis by (blast intro: asked_move ask_Inr(2))
next
  case (staff_asked a t e u nt av)
  then show ?thesis by (blast intro: asked_move ask_Inr(3))
next
  case (sent env bdb t today i delivery ctx now)
  then show ?thesis using send_status(2) [OF sent] approvals_move_refl by simp
next
  case (created i bdb t today u r ctx nl v)
  then show ?thesis using create_status(2) [OF assms(2) created] approvals_move_refl by simp
next
  case (updated bdb t today i ur ctx nl v)
  then show ?thesis using update_status(2) [OF assms(2) updated] approvals_move_refl by simp
qed (auto simp: approvals_move_refl cancel_status(2) decide_status(2) convert_status(2) dest: line_status)

lemma approvals_move_distinct: "approvals_move xs ys \<Longrightarrow> distinct (map ap_id xs) \<Longrightarrow> distinct (map ap_id ys)"
proof (unfold approvals_move_def, elim disjE exE conjE)
  fix g assume "distinct (map ap_id xs)" "ys = map g xs" "\<forall>x \<in> set xs. g x = x \<or> settles x (g x)"
  moreover from this(3) have "map ap_id (map g xs) = map ap_id xs" by (auto simp: settles_def)
  ultimately show "distinct (map ap_id ys)" by metis
qed auto

text \<open>
  An approval is answered once: through every sequence of operations an approval keeps its
  subject and its approver; while it is pending it may be settled (approved, rejected or rescinded),
  and once it is settled nothing about it changes again, neither its outcome nor who gave it.
\<close>

theorem approvals_are_settled_once:
  assumes "quote_ok db" and "distinct (map ap_id (approvals_tbl db))" and "quote_step\<^sup>*\<^sup>* db db'"
    and "x \<in> set (approvals_tbl db)"
  shows "\<exists>x' \<in> set (approvals_tbl db'). x' = x \<or> settles x x'"
proof -
  from assms(3) have "(\<exists>x' \<in> set (approvals_tbl db'). x' = x \<or> settles x x') \<and> distinct (map ap_id (approvals_tbl db'))"
  proof (induction rule: rtranclp_induct)
    case base
    then show ?case using assms(2,4) by blast
  next
    case (step db1 db2)
    then obtain x1 where x1: "x1 \<in> set (approvals_tbl db1)" "x1 = x \<or> settles x x1" by blast
    have move: "approvals_move (approvals_tbl db1) (approvals_tbl db2)"
      using quote_step_approvals [OF step(2) quote_reachable_ok [OF step(1) assms(1)]] step(3) by simp
    then obtain x2 where "x2 \<in> set (approvals_tbl db2)" "x2 = x1 \<or> settles x1 x2"
      using x1(1) unfolding approvals_move_def by fastforce
    with x1(2) move step(3) approvals_move_distinct show ?case by (auto simp: settles_def)
  qed
  then show ?thesis ..
qed

theorem approvals_are_settled_once_witness:
  "\<exists>db' v. decide_approval (quote_at QSubmitted [quote_approval 40 6 ApPending, quote_approval 41 5 ApRejected]) 7 40 6 ''technician''
       (''approve'', None) quote_user 100 = Inr (db', v)
     \<and> quote_approval 41 5 ApRejected \<in> set (approvals_tbl db')"
proof -
  let ?db = "quote_at QSubmitted [quote_approval 40 6 ApPending, quote_approval 41 5 ApRejected]"
  let ?r = "decide_approval ?db 7 40 6 ''technician'' (''approve'', None) quote_user 100"
  have "is_ok ?r" by code_simp
  then obtain db' v where r: "?r = Inr (db', v)" by (auto simp: is_ok_def split: sum.splits)
  have ok: "quote_ok ?db" by (rule quote_at_ok) simp
  have d: "distinct (map ap_id (approvals_tbl ?db))" by code_simp
  have m: "quote_approval 41 5 ApRejected \<in> set (approvals_tbl ?db)" by (simp add: quote_at_def)
  have "\<exists>x' \<in> set (approvals_tbl db'). x' = quote_approval 41 5 ApRejected \<or> settles (quote_approval 41 5 ApRejected) x'"
    using approvals_are_settled_once [OF ok d r_into_rtranclp m] quote_step.approval_decided [OF r] by blast
  with r show ?thesis by (simp add: settles_def quote_approval_def)
qed

section \<open>The client\<close>

lemma lifecycle_decided:
  assumes "lifecycle\<^sup>*\<^sup>* s s'" "s \<in> {QAccepted, QDeclined}" shows "s' \<in> {QAccepted, QDeclined, QConverted}"
  using assms
proof (induction rule: rtranclp_induct)
  case (step s1 s2)
  from step(2) step(3) [OF assms(2)] show ?case by (cases rule: lifecycle.cases) (auto simp: quote_frozen_def)
qed auto

lemma decide_sets_status:
  assumes "decide_quote db t today i d ctx now = Inr (db', v)" "find_quote db i = Some q" "qt_tenant q = t"
  shows "status_at db' i = Some (if cd_accept d then QAccepted else QDeclined)"
proof -
  let ?f = "\<lambda>q. q\<lparr>qt_status := (if cd_accept d then QAccepted else QDeclined), qt_decided_at := Some now,
       qt_decided_by := Some (cd_contact d), qt_decision_notes := cd_notes d\<rparr>"
  have "db' = quote_audited t ctx AUpdate ''quotes'' i (update_quote_row t i ?f db)"
    using assms(1) by (auto simp: decide_quote_def answer_quote_Inr decide_apply_def elim!: and_then_InrE)
  moreover have "quote_key t i q" using assms(2,3) find_quote_id by (simp add: quote_key_def)
  ultimately show ?thesis using assms(2) by (simp add: status_at_def [of "update_quote_row _ _ _ _"] keeps_quote_key_def quote_simps)
qed



text \<open>
  Converting is idempotent: the first conversion of an accepted quote makes exactly one project,
  named after the quote, with the quoted total as its budget, and links it; converting again,
  whatever the second request asks for, changes nothing and answers with the same link.
\<close>

theorem convert_quote_once:
  assumes "quote_ok db" and "select_quote db t i = Some q" and "qt_status q = QAccepted"
    and "convert_quote db t today i r ctx p = Inr (db', (q', ls))"
  shows "quote_projects db' = quote_projects db @ [converted_project t q r p] \<and> qt_project q' = Some p
     \<and> pj_budget_amount (converted_project t q r p) = qt_total q
     \<and> convert_quote db' t today i r' ctx' p' = Inr (db', (q', ls))"
  using assms(4)
proof (cases rule: convert_quoteE)
  case (fresh q0)
  let ?f = "\<lambda>x. x\<lparr>qt_status := QConverted, qt_project := Some p\<rparr>"
  have q0: "q0 = q" using fresh(1) assms(2) by simp
  have "select_quote db' t i = Some (?f q)"
    using assms(2) select_updated_row [of ?f "db\<lparr>quote_projects := quote_projects db @ [converted_project t q0 r p]\<rparr>" t i q]
    by (simp add: fresh(3) keeps_quote_key_def select_quote_def [of "db\<lparr>quote_projects := _\<rparr>"] select_quote_def [of db])
  moreover have "get_quote db' t i today = Inr (q', ls)"
    using assms(4) unfolding convert_quote_def Let_def by (auto simp: answer_quote_Inr split: option.splits if_splits)
  ultimately show ?thesis
    by (simp add: fresh(3) q0 converted_project_def convert_quote_def answer_quote_Inr)
       (auto simp: get_quote_def quote_response_def)
qed (use assms in auto)

theorem convert_quote_once_witness:
  "\<exists>db' q' ls. convert_quote (quote_at QAccepted []) 7 20510 1 quote_plan quote_user 77 = Inr (db', (q', ls))
     \<and> length (quote_projects db') = 1 \<and> convert_quote db' 7 20510 1 quote_plan quote_user 78 = Inr (db', (q', ls))"
proof -
  have "is_ok (convert_quote (quote_at QAccepted []) 7 20510 1 quote_plan quote_user 77)" by code_simp
  then obtain db' q' ls where r: "convert_quote (quote_at QAccepted []) 7 20510 1 quote_plan quote_user 77 = Inr (db', (q', ls))"
    by (auto simp: is_ok_def split: sum.splits)
  have ok: "quote_ok (quote_at QAccepted [])" by (rule quote_at_ok) simp
  have q: "select_quote (quote_at QAccepted []) 7 1 = Some (quote_row QAccepted)" "qt_status (quote_row QAccepted) = QAccepted"
    by code_simp+
  have "quote_projects (quote_at QAccepted []) = []" by (simp add: quote_at_def)
  with convert_quote_once [OF ok q r] r show ?thesis by auto
qed

text \<open>
  A send that is refused changes no quote. Whatever the reason (the status, the recipient, the
  dispatcher, the missing portal link), quotes, lines, approvals and projects are what they were; at
  most the record of the failed attempt is added to the audit trail. A send by email that succeeds
  was accepted by the dispatcher for exactly the address the quote then names.
\<close>

theorem refused_quote_send_changes_nothing:
  assumes "send_quote env bdb db t today i delivery ctx now = (db', r)"
  shows "case r of
      Inl e \<Rightarrow> quotes_tbl db' = quotes_tbl db \<and> quote_lines_tbl db' = quote_lines_tbl db
        \<and> approvals_tbl db' = approvals_tbl db \<and> quote_projects db' = quote_projects db
    | Inr (q, ls) \<Rightarrow> qt_emailed_to q = Some address \<and> fst (quote_delivery_choice delivery) = ByEmail \<longrightarrow>
        (\<exists>dispatch m. qe_dispatch env = Some dispatch \<and> dispatch m = Inr () \<and> qm_recipient m = address)"
proof (cases "quote_delivery_choice delivery = (ByOther, None)")
  case True
  with assms show ?thesis by (auto simp: send_quote_def Let_def)
next
  case False
  show ?thesis
  proof (cases "send_quote_tx env bdb db t today i (quote_delivery_choice delivery) ctx now")
    case (Inl e)
    with False assms show ?thesis by (cases e) (auto simp: send_quote_def Let_def)
  next
    case (Inr db1)
    with False assms have r: "db' = db1" "r = get_quote db1 t i today" by (auto simp: send_quote_def Let_def)
    from Inr show ?thesis
    proof (cases rule: send_quote_txE)
      case (1 q rec)
      have q1: "select_quote db1 t i = Some (sent_row (quote_delivery_choice delivery) ctx now rec q)"
        using select_updated_row [OF sent_row_facts(1) 1(1)] by (simp add: 1(5))
      have "\<exists>dispatch m. qe_dispatch env = Some dispatch \<and> dispatch m = Inr () \<and> qm_recipient m = a" if "rec = Some (c, a)" for c a
        using 1(4) [OF that] by (auto simp: mail_quote_to_client_def split: option.splits sum.splits)
      with 1(3) show ?thesis
        by (cases rec) (auto simp: r get_quote_def q1 quote_response_def sent_row_def)
    qed
  qed
qed

theorem refused_quote_send_changes_nothing_witness:
  "let out = send_quote quote_mailer quote_bill (quote_at QDraft []) 7 20500 1 None quote_user 200 in
     snd out = Inl (Conflict ''Quote cannot be sent; it must be internally approved first'')
     \<and> quotes_tbl (fst out) = quotes_tbl (quote_at QDraft [])"
proof -
  let ?out = "send_quote quote_mailer quote_bill (quote_at QDraft []) 7 20500 1 None quote_user 200"
  have "snd ?out = Inl (Conflict ''Quote cannot be sent; it must be internally approved first'')" by code_simp
  with refused_quote_send_changes_nothing [OF surjective_pairing, of quote_mailer quote_bill "quote_at QDraft []" 7 20500 1 None quote_user 200]
  show ?thesis by (simp add: Let_def)
qed

section \<open>Where the code departs from its account\<close>

text \<open>
  A rejection is remembered past the round it belongs to. The sign-off counts every staff approval
  the quote ever had, so once one of them was rejected, a quote that has been revised and submitted
  again is rejected by the very decision that approves it, even if every approver of the new round
  approves.
\<close>

theorem old_rejection_vetoes_new_round:
  assumes "select_quote db t i = Some q" and "qt_status q = QSubmitted"
    and "old \<in> set (approvals_tbl db)" and "staff_approval t i old" and "ap_status old = ApRejected"
    and "select_approval db t a = Some r" and "ap_target r = TQuote" and "ap_entity r = i"
    and "decide_approval db t a u role (''approve'', note_text) ctx now = Inr (db', v)"
  shows "map_option qt_status (select_quote db' t i) = Some QRejected"
  using assms(9)
proof (cases rule: decide_approvalE)
  case (1 s r' db1)
  have r': "r' = r" using 1(2) assms(6) by simp
  have "old \<in> set (approvals_tbl db1)"
    using assms(3,5) by (force simp: 1(5) set_update_where)
  then have "0 < count_approvals db1 t i ApRejected"
    using assms(4,5) by (force simp: count_approvals_def length_greater_0_conv filter_empty_conv simp del: length_greater_0_conv intro!: length_pos_if_in_set)
  moreover have "select_quote db1 t i = Some q" using assms(1) by (simp add: select_quote_def 1(5))
  ultimately have "apply_decision db1 t i = (update_quote_row t i (\<lambda>x. x\<lparr>qt_status := QRejected\<rparr>) db1, Some QRejected)"
    by (simp add: apply_decision_def signoff_outcome_def assms(2))
  then have "db' = quote_audited t ctx AUpdate ''quotes'' i (update_quote_row t i (\<lambda>x. x\<lparr>qt_status := QRejected\<rparr>) db1)"
    using 1(6) assms(7,8) r' by simp
  then show ?thesis
    using select_updated_row [OF _ \<open>select_quote db1 t i = Some q\<close>] by (simp add: keeps_quote_key_def)
qed

theorem old_rejection_vetoes_new_round_witness:
  "\<exists>db' v. decide_approval (quote_at QSubmitted [quote_approval 41 5 ApRejected, quote_approval 40 6 ApPending]) 7 40 6 ''technician''
       (''approve'', None) quote_user 100 = Inr (db', v)
     \<and> map_option qt_status (select_quote db' 7 1) = Some QRejected \<and> ap_status v = ApApproved"
proof -
  let ?db = "quote_at QSubmitted [quote_approval 41 5 ApRejected, quote_approval 40 6 ApPending]"
  let ?r = "decide_approval ?db 7 40 6 ''technician'' (''approve'', None) quote_user 100"
  have "is_ok ?r" "map_sum id (\<lambda>x. ap_status (snd x)) ?r = Inr ApApproved" by code_simp+
  then obtain db' v where r: "?r = Inr (db', v)" "ap_status v = ApApproved" by (auto simp: is_ok_def split: sum.splits)
  have q: "select_quote ?db 7 1 = Some (quote_row QSubmitted)" "qt_status (quote_row QSubmitted) = QSubmitted" by code_simp+
  have m: "quote_approval 41 5 ApRejected \<in> set (approvals_tbl ?db)" "staff_approval 7 1 (quote_approval 41 5 ApRejected)"
    "ap_status (quote_approval 41 5 ApRejected) = ApRejected"
    by (simp_all add: quote_at_def quote_approval_def staff_approval_def)
  have a: "select_approval ?db 7 40 = Some (quote_approval 40 6 ApPending)" "ap_target (quote_approval 40 6 ApPending) = TQuote"
    "ap_entity (quote_approval 40 6 ApPending) = 1" by code_simp+
  from old_rejection_vetoes_new_round [OF q m a r(1)] r show ?thesis by blast
qed

text \<open>
  Two answers that meet are both taken. The client's decision is checked on an unlocked read and
  written by key alone: a decline that was checked while the quote was sent still lands after an
  acceptance has been recorded and the quote converted, and leaves a declined quote that is linked
  to a project.
\<close>

theorem late_decision_overwrites_conversion:
  assumes "quote_ok db" and "decide_check db t today i d = Inr ()" and "\<not> cd_accept d"
    and "decide_quote db t today i d1 ctx1 now1 = Inr (db1, v1)"
    and "convert_quote db1 t today i r ctx2 p = Inr (db2, (q2, ls))" and "p \<notin> pj_id ` set (quote_projects db1)"
  shows "\<exists>q. select_quote (decide_apply db2 t i d ctx now) t i = Some q \<and> qt_status q = QDeclined
     \<and> qt_project q = Some p \<and> qt_decided_by q = Some (cd_contact d) \<and> \<not> quote_ok (decide_apply db2 t i d ctx now)"
proof -
  have ok1: "quote_ok db1" using quote_step_effect [OF quote_step.decided [OF assms(4)] assms(1)] by (simp add: quote_effect_def)
  have "\<exists>q1. select_quote db1 t i = Some q1 \<and> qt_status q1 \<in> {QAccepted, QDeclined}"
  proof -
    from assms(4) obtain q where "select_quote db t i = Some q" by (auto simp: decide_quote_def decide_check_Inr elim!: and_then_InrE)
    then have q: "find_quote db i = Some q" "qt_tenant q = t" using select_found [OF assms(1)] by auto
    have st: "status_at db1 i = Some (if cd_accept d1 then QAccepted else QDeclined)" using decide_sets_status [OF assms(4) q] .
    from assms(5) obtain q1 where "select_quote db1 t i = Some q1" by (cases "select_quote db1 t i") (auto simp: convert_quote_def)
    with st select_found [OF ok1] show ?thesis by (auto simp: status_at_def)
  qed
  with assms(5) obtain q1 where "select_quote db1 t i = Some q1"
    and db2: "db2 = quote_audited t ctx2 AUpdate ''quotes'' i (quote_audited t ctx2 ACreate ''projects'' p
             (update_quote_row t i (\<lambda>x. x\<lparr>qt_status := QConverted, qt_project := Some p\<rparr>)
               (db1\<lparr>quote_projects := quote_projects db1 @ [converted_project t q1 r p]\<rparr>)))"
    by (auto elim!: convert_quoteE)
  then have "select_quote (db1\<lparr>quote_projects := quote_projects db1 @ [converted_project t q1 r p]\<rparr>) t i = Some q1"
    by (simp add: select_quote_def)
  then obtain x where "select_quote db2 t i = Some x" "qt_project x = Some p"
    using select_updated_row [of "\<lambda>x. x\<lparr>qt_status := QConverted, qt_project := Some p\<rparr>"] by (simp add: db2 keeps_quote_key_def)
  then obtain q where q: "select_quote (decide_apply db2 t i d ctx now) t i = Some q" "qt_status q = QDeclined"
      "qt_project q = Some p" "qt_decided_by q = Some (cd_contact d)"
    using assms(3) select_updated_row by (simp add: decide_apply_def keeps_quote_key_def)
  have "\<not> quote_ok (decide_apply db2 t i d ctx now)"
  proof
    assume ok: "quote_ok (decide_apply db2 t i d ctx now)"
    then have "project_ok (quote_projects (decide_apply db2 t i d ctx now)) q"
      using select_found [OF ok q(1)] unfolding quote_ok_def by blast
    with q show False by (simp add: project_ok_def)
  qed
  with q show ?thesis by blast
qed

theorem late_decision_overwrites_conversion_witness:
  "\<exists>db1 v1 db2 q2 ls q. decide_quote (quote_at QSent []) 7 20510 1 (quote_answer True) quote_user 300 = Inr (db1, v1)
     \<and> convert_quote db1 7 20510 1 quote_plan quote_user 77 = Inr (db2, (q2, ls))
     \<and> select_quote (decide_apply db2 7 1 (quote_answer False) quote_user 301) 7 1 = Some q
     \<and> qt_status q = QDeclined \<and> qt_project q = Some 77"
proof -
  let ?r = "decide_quote (quote_at QSent []) 7 20510 1 (quote_answer True) quote_user 300"
  let ?c = "convert_quote (committed (quote_at QSent []) ?r) 7 20510 1 quote_plan quote_user 77"
  have "is_ok ?r" "is_ok ?c" "quote_projects (committed (quote_at QSent []) ?r) = []" by code_simp+
  then obtain db1 v1 db2 q2 ls where r: "?r = Inr (db1, v1)" "convert_quote db1 7 20510 1 quote_plan quote_user 77 = Inr (db2, (q2, ls))"
    "quote_projects db1 = []" by (auto simp: is_ok_def split: sum.splits)
  have ok: "quote_ok (quote_at QSent [])" by (rule quote_at_ok) simp
  have c: "decide_check (quote_at QSent []) 7 20510 1 (quote_answer False) = Inr ()" "\<not> cd_accept (quote_answer False)" by code_simp+
  from late_decision_overwrites_conversion [OF ok c r(1,2), of quote_user 301] r show ?thesis by auto
qed

text \<open>
  Whether a line is taxable cannot be changed once it is on the quote: an update of a line drops
  that field of the request, so a request that exempts the line and one that taxes it have the same
  effect and the tax stays what it was for it.
\<close>

theorem update_line_ignores_taxability:
  "update_line db t today i n (l\<lparr>qlr_taxable := b\<rparr>) = update_line db t today i n l"
  by (simp add: update_line_def)

end
