(* ===== verification/Totp_Codes.thy ===== *)
theory Totp_Codes
  imports Time_Rules Pagination
begin

text \<open>
  The second factor: src/src/utils/totp.rs (the base32 form of a shared secret, the one-time code
  of a step and its check) and the canonical form of a recovery code in
  src/src/utils/recovery.rs. Bytes are 8-bit words and the shift register of the base32 coder is
  the 32-bit word of the source, which loses the bits it shifts out. HMAC-SHA1 is a parameter; its
  20-byte result is a 160-bit word. The theory proves the round trip of the secret through its
  text and characterises the codes that are accepted.
\<close>

unbundle bit_operations_syntax

type_synonym byte = "8 word"
type_synonym u32 = "32 word"
type_synonym hmac_sha1 = "byte list \<Rightarrow> byte list \<Rightarrow> 160 word"

section \<open>Base32\<close>

definition b32_alphabet :: string where
  "b32_alphabet = ''ABCDEFGHIJKLMNOPQRSTUVWXYZ234567''"

text \<open>\<open>ALPHABET[idx]\<close>: the index has five bits, so it is in range.\<close>

definition b32_char :: "u32 \<Rightarrow> char" where
  "b32_char v = b32_alphabet ! unat v"

text \<open>The inner loop of the encoder: one character for every five bits in the register.\<close>

fun b32_drain :: "u32 \<Rightarrow> nat \<Rightarrow> string \<Rightarrow> nat \<times> string" where
  "b32_drain buf bits out =
     (if 5 \<le> bits
      then b32_drain buf (bits - 5) (out @ [b32_char (drop_bit (bits - 5) buf AND 31)])
      else (bits, out))"

declare b32_drain.simps [simp del]

definition b32_put_byte :: "u32 \<times> nat \<times> string \<Rightarrow> byte \<Rightarrow> u32 \<times> nat \<times> string" where
  "b32_put_byte st b = (case st of (buf, bits, out) \<Rightarrow>
     let buf = push_bit 8 buf OR ucast b;
         (bits, out) = b32_drain buf (bits + 8) out
     in (buf, bits, out))"

definition base32_encode :: "byte list \<Rightarrow> string" where
  "base32_encode bytes =
     (case foldl b32_put_byte (0, 0, []) bytes of (buf, bits, out) \<Rightarrow>
        if 0 < bits then out @ [b32_char (push_bit (5 - bits) buf AND 31)] else out)"

text \<open>\<open>to_ascii_uppercase\<close> and \<open>is_ascii_whitespace\<close>.\<close>

definition upper_char :: "char \<Rightarrow> char" where
  "upper_char c = (let n = (of_char c :: nat) in if 97 \<le> n \<and> n \<le> 122 then char_of (n - 32) else c)"

definition is_ascii_whitespace :: "char \<Rightarrow> bool" where
  "is_ascii_whitespace c \<longleftrightarrow> c \<in> {CHR '' '', CHR 0x09, CHR 0x0A, CHR 0x0C, CHR 0x0D}"

definition b32_index :: "char \<Rightarrow> nat option" where
  "b32_index c =
     (let u = (of_char (upper_char c) :: nat); n = (of_char c :: nat) in
      if 65 \<le> u \<and> u \<le> 90 then Some (u - 65)
      else if 50 \<le> u \<and> u \<le> 55 then Some (26 + n - 50)
      else None)"

definition b32_value :: "char \<Rightarrow> u32 option" where
  "b32_value c = map_option of_nat (b32_index c)"

definition b32_take_char :: "u32 \<times> nat \<times> byte list \<Rightarrow> u32 \<Rightarrow> u32 \<times> nat \<times> byte list" where
  "b32_take_char st v = (case st of (buf, bits, out) \<Rightarrow>
     let buf = push_bit 5 buf OR v; bits = bits + 5
     in if 8 \<le> bits then (buf, bits - 8, out @ [ucast (drop_bit (bits - 8) buf AND 255)])
        else (buf, bits, out))"

fun b32_decode_from :: "u32 \<times> nat \<times> byte list \<Rightarrow> string \<Rightarrow> byte list option" where
  "b32_decode_from (buf, bits, out) [] = Some out"
| "b32_decode_from st (c # cs) = (case b32_value c of
     None \<Rightarrow> None | Some v \<Rightarrow> b32_decode_from (b32_take_char st v) cs)"

definition base32_decode :: "string \<Rightarrow> byte list option" where
  "base32_decode s =
     b32_decode_from (0, 0, []) (filter (\<lambda>c. \<not> is_ascii_whitespace c \<and> c \<noteq> CHR ''='') s)"

section \<open>One-time codes\<close>

definition totp_step_secs :: int where "totp_step_secs = 30"
definition totp_digits :: nat where "totp_digits = 6"

text \<open>\<open>to_be_bytes\<close> of an \<open>i64\<close> and the bytes of an HMAC-SHA1 result.\<close>

definition to_be_bytes :: "int \<Rightarrow> byte list" where
  "to_be_bytes t = map (\<lambda>i. word_of_int (t div 2 ^ (8 * (7 - i)))) [0..<8]"

definition hmac_bytes :: "160 word \<Rightarrow> byte list" where
  "hmac_bytes w = map (\<lambda>i. ucast (drop_bit (8 * (19 - i)) w)) [0..<20]"

definition totp_step :: "hmac_sha1 \<Rightarrow> byte list \<Rightarrow> int \<Rightarrow> u32" where
  "totp_step mac secret t =
     (let hmac = hmac_bytes (mac secret (to_be_bytes t));
          offset = unat (hmac ! (length hmac - 1) AND 15);
          bin = push_bit 24 (ucast (hmac ! offset) AND 127)
                OR push_bit 16 (ucast (hmac ! (offset + 1)))
                OR push_bit 8 (ucast (hmac ! (offset + 2)))
                OR ucast (hmac ! (offset + 3))
      in bin mod 1000000)"

definition format_code :: "u32 \<Rightarrow> string" where
  "format_code v = pad6 (unat v)"

definition is_ascii_digit :: "char \<Rightarrow> bool" where
  "is_ascii_digit c \<longleftrightarrow> (let n = (of_char c :: nat) in 48 \<le> n \<and> n \<le> 57)"

text \<open>The loop over \<open>-window..=window\<close>: the first step of the window whose code is presented.\<close>

definition totp_verify :: "hmac_sha1 \<Rightarrow> byte list \<Rightarrow> string \<Rightarrow> instant \<Rightarrow> int \<Rightarrow> int option" where
  "totp_verify mac secret code now window =
     (let code = trim code in
      if length code \<noteq> totp_digits \<or> \<not> list_all is_ascii_digit code then None
      else let t = trunc_div now totp_step_secs in
           find (\<lambda>s. format_code (totp_step mac secret s) = code)
             (map (\<lambda>delta. t + delta) [- window..window]))"

definition code_at :: "hmac_sha1 \<Rightarrow> byte list \<Rightarrow> instant \<Rightarrow> string" where
  "code_at mac secret now = format_code (totp_step mac secret (trunc_div now totp_step_secs))"

text \<open>Recovery codes on ASCII text.\<close>

definition canonicalize :: "string \<Rightarrow> string" where
  "canonicalize code = map upper_char (filter (\<lambda>c. \<not> is_ascii_whitespace c \<and> c \<noteq> CHR ''-'') code)"

section \<open>The register as a string of bits\<close>

text \<open>The low \<open>n\<close> bits of a word, the most significant first.\<close>

definition lowbits :: "nat \<Rightarrow> 'a::len word \<Rightarrow> bool list" where
  "lowbits n w = rev (map (bit w) [0..<n])"

lemma length_lowbits [simp]: "length (lowbits n w) = n"
  by (simp add: lowbits_def)

lemma lowbits_eqI:
  "(\<And>i. i < n \<Longrightarrow> bit v i = bit w i) \<Longrightarrow> lowbits n v = lowbits n w"
  by (simp add: lowbits_def)

lemma lowbits_0 [simp]: "lowbits 0 w = []"
  by (simp add: lowbits_def)

lemma lowbits_split:
  "lowbits (m + n) w = lowbits m (drop_bit n w) @ lowbits n w"
proof -
  have "[0..<m + n] = [0..<n] @ map (\<lambda>i. n + i) [0..<m]"
    using upt_add_eq_append [of 0 n m] map_add_upt [of n m] by (simp add: add.commute)
  then show ?thesis by (simp add: lowbits_def bit_drop_bit_eq comp_def)
qed

lemma lowbits_push:
  fixes buf v :: u32
  assumes "n + k \<le> 32" and "\<And>i. k \<le> i \<Longrightarrow> \<not> bit v i"
  shows "lowbits (n + k) (push_bit k buf OR v) = lowbits n buf @ lowbits k v"
proof -
  have "lowbits n (drop_bit k (push_bit k buf OR v)) = lowbits n buf"
    using assms by (intro lowbits_eqI) (auto simp: bit_simps)
  moreover have "lowbits k (push_bit k buf OR v) = lowbits k v"
    by (intro lowbits_eqI) (auto simp: bit_simps)
  ultimately show ?thesis by (simp add: lowbits_split)
qed

lemma lowbits_pad:
  fixes buf :: u32
  assumes "n + k \<le> 32"
  shows "lowbits (n + k) (push_bit k buf) = lowbits n buf @ replicate k False"
proof -
  have "lowbits k (0 :: u32) = replicate k False"
    by (simp add: lowbits_def list_eq_iff_nth_eq rev_nth)
  with lowbits_push [of n k 0 buf] assms show ?thesis by simp
qed

lemma bit_and_mask: "bit (w AND mask k) i \<longleftrightarrow> bit w i \<and> i < k"
  for w :: "'a::len word"
  by (auto simp: bit_simps dest: bit_imp_le_length)

lemma lowbits_and_mask: "lowbits k (w AND mask k) = lowbits k w"
  by (intro lowbits_eqI) (simp add: bit_and_mask)

lemma masks: "(31 :: u32) = mask 5" "(255 :: u32) = mask 8"
  by (simp_all add: mask_eq_exp_minus_1)

lemma byte_eqI: "lowbits 8 a = lowbits 8 (b :: byte) \<Longrightarrow> a = b"
  by (rule bit_word_eqI) (auto simp: lowbits_def)

lemma bytes_of_bits_unique:
  assumes "concat (map (lowbits 8) xs) @ u = concat (map (lowbits 8) ys) @ v"
    and "length u < 8" and "length v < 8"
  shows "xs = (ys :: byte list)"
  using assms
proof (induction xs arbitrary: ys)
  case Nil
  then show ?case by (cases ys) (auto dest: arg_cong [where f = length])
next
  case (Cons x xs)
  show ?case
  proof (cases ys)
    case Nil
    with Cons.prems show ?thesis by (auto dest: arg_cong [where f = length])
  next
    case (Cons y zs)
    with Cons.prems have "lowbits 8 x = lowbits 8 y"
      and "concat (map (lowbits 8) xs) @ u = concat (map (lowbits 8) zs) @ v" by auto
    with Cons Cons.IH Cons.prems show ?thesis by (auto dest: byte_eqI)
  qed
qed


section \<open>The round trip\<close>

definition b32_letter :: "char \<Rightarrow> bool" where
  "b32_letter c \<longleftrightarrow> b32_index c \<noteq> None \<and> \<not> is_ascii_whitespace c \<and> c \<noteq> CHR ''='' \<and> upper_char c = c"

definition text_bits :: "string \<Rightarrow> bool list" where
  "text_bits s = concat (map (\<lambda>c. lowbits 5 (the (b32_value c))) s)"

definition byte_bits :: "byte list \<Rightarrow> bool list" where
  "byte_bits bs = concat (map (lowbits 8) bs)"

lemma text_bits_simps [simp]:
  "text_bits [] = []" "text_bits (c # s) = lowbits 5 (the (b32_value c)) @ text_bits s"
  "text_bits (s @ s') = text_bits s @ text_bits s'"
  by (simp_all add: text_bits_def)

lemma byte_bits_simps [simp]:
  "byte_bits [] = []" "byte_bits (bs @ [b]) = byte_bits bs @ lowbits 8 b"
  by (simp_all add: byte_bits_def)

lemma b32_alphabet_table:
  "list_all (\<lambda>n. b32_index (b32_alphabet ! n) = Some n \<and> b32_letter (b32_alphabet ! n)) [0..<32]"
  by (simp add: upt_rec b32_alphabet_def b32_index_def b32_letter_def upper_char_def is_ascii_whitespace_def)

lemma b32_char_value:
  assumes "unat v < 32" shows "b32_value (b32_char v) = Some v" and "b32_letter (b32_char v)"
proof -
  have "b32_index (b32_alphabet ! unat v) = Some (unat v) \<and> b32_letter (b32_alphabet ! unat v)"
    using b32_alphabet_table assms by (auto simp: list_all_iff)
  then show "b32_value (b32_char v) = Some v" and "b32_letter (b32_char v)"
    by (simp_all add: b32_char_def b32_value_def)
qed

lemma unat_and_mask: "unat (w AND mask k) < 2 ^ k" for w :: "'a::len word"
  by (simp add: unsigned_take_bit_eq flip: take_bit_eq_mask)

lemma b32_char_masked:
  "b32_value (b32_char (w AND 31)) = Some (w AND 31)" "b32_letter (b32_char (w AND 31))"
  using b32_char_value [of "w AND 31"] unat_and_mask [of w 5] by (simp_all add: masks)

lemma b32_index_less: "b32_index c = Some n \<Longrightarrow> n < 32"
  by (auto simp: b32_index_def upper_char_def Let_def split: if_splits)

lemma b32_value_bound:
  assumes "b32_value c = Some v" and "5 \<le> i" shows "\<not> bit v i"
proof -
  obtain n where n: "n < 32" "v = of_nat n"
    using assms(1) b32_index_less [of c] by (auto simp: b32_value_def)
  then have "v = take_bit 5 v"
    by (simp add: take_bit_of_nat flip: take_bit_nat_eq_self_iff [of 5 n, simplified])
  then have "bit v i = bit (take_bit 5 v) i" by simp
  then show ?thesis using assms(2) by (simp add: bit_take_bit_iff)
qed

lemma b32_drain_bits:
  assumes "b32_drain buf bits out = (bits', out')"
  shows "\<exists>cs. out' = out @ cs \<and> bits' < 5 \<and> list_all b32_letter cs
           \<and> text_bits cs @ lowbits bits' buf = lowbits bits buf"
  using assms
proof (induction buf bits out rule: b32_drain.induct)
  case (1 buf bits out)
  show ?case
  proof (cases "5 \<le> bits")
    case False
    with 1(2) show ?thesis by (subst (asm) b32_drain.simps) auto
  next
    case True
    let ?c = "b32_char (drop_bit (bits - 5) buf AND 31)"
    from 1(2) True have "b32_drain buf (bits - 5) (out @ [?c]) = (bits', out')"
      by (subst (asm) b32_drain.simps) simp
    from 1(1) [OF True this] obtain cs where cs: "out' = out @ ?c # cs" "bits' < 5" "list_all b32_letter cs"
      "text_bits cs @ lowbits bits' buf = lowbits (bits - 5) buf" by auto
    have "lowbits bits buf = lowbits 5 (drop_bit (bits - 5) buf) @ lowbits (bits - 5) buf"
      using lowbits_split [of 5 "bits - 5" buf] True by simp
    also have "lowbits 5 (drop_bit (bits - 5) buf) = text_bits [?c]"
      by (simp add: b32_char_masked) (simp add: masks lowbits_and_mask)
    finally show ?thesis using cs by (intro exI [of _ "?c # cs"]) (simp add: b32_char_masked)
  qed
qed

definition encoder_at :: "byte list \<Rightarrow> u32 \<times> nat \<times> string \<Rightarrow> bool" where
  "encoder_at bs st = (case st of (buf, bits, out) \<Rightarrow>
     bits < 5 \<and> list_all b32_letter out \<and> text_bits out @ lowbits bits buf = byte_bits bs)"

lemma encoder_put:
  assumes "encoder_at bs st" shows "encoder_at (bs @ [b]) (b32_put_byte st b)"
proof -
  obtain buf bits out where st: "st = (buf, bits, out)" by (cases st)
  let ?buf = "push_bit 8 buf OR ucast b"
  obtain bits' out' where d: "b32_drain ?buf (bits + 8) out = (bits', out')" by fastforce
  from b32_drain_bits [OF d] obtain cs where cs: "out' = out @ cs" "bits' < 5" "list_all b32_letter cs"
    "text_bits cs @ lowbits bits' ?buf = lowbits (bits + 8) ?buf" by auto
  have "lowbits (bits + 8) ?buf = lowbits bits buf @ lowbits 8 (ucast b :: u32)"
    using assms st by (intro lowbits_push) (auto simp: encoder_at_def bit_simps dest: bit_imp_le_length)
  also have "lowbits 8 (ucast b :: u32) = lowbits 8 b"
    by (simp add: lowbits_def bit_simps)
  finally show ?thesis using assms cs st d by (auto simp: b32_put_byte_def encoder_at_def)
qed

lemma encoder_run: "encoder_at bs (foldl b32_put_byte (0, 0, []) bs)"
proof (induction bs rule: rev_induct)
  case Nil
  then show ?case by (simp add: encoder_at_def)
next
  case (snoc b bs)
  then show ?case by (simp add: encoder_put)
qed

lemma base32_encode_bits:
  "\<exists>k < 5. list_all b32_letter (base32_encode bs) \<and>
           text_bits (base32_encode bs) = byte_bits bs @ replicate k False"
proof -
  obtain buf bits out where st: "foldl b32_put_byte (0, 0, []) bs = (buf, bits, out)"
    by (cases "foldl b32_put_byte (0, 0, []) bs") auto
  with encoder_run [of bs] have e: "bits < 5" "list_all b32_letter out"
    "text_bits out @ lowbits bits buf = byte_bits bs" by (auto simp: encoder_at_def)
  show ?thesis
  proof (cases "bits = 0")
    case True
    with e st show ?thesis by (intro exI [of _ 0]) (simp add: base32_encode_def)
  next
    case False
    have "lowbits 5 (push_bit (5 - bits) buf AND 31) = lowbits bits buf @ replicate (5 - bits) False"
      using lowbits_pad [of bits "5 - bits" buf] e(1) by (simp add: masks lowbits_and_mask)
    with False e st show ?thesis
      by (intro exI [of _ "5 - bits"]) (simp add: base32_encode_def b32_char_masked)
  qed
qed

lemma b32_decode_bits:
  assumes "list_all b32_letter s" and "bits < 8"
  shows "\<exists>out' rest. b32_decode_from (buf, bits, out) s = Some out' \<and> length rest < 8
           \<and> byte_bits out' @ rest = byte_bits out @ lowbits bits buf @ text_bits s"
  using assms
proof (induction s arbitrary: buf bits out)
  case Nil
  then show ?case by auto
next
  case (Cons c s)
  then obtain v where v: "b32_value c = Some v" by (auto simp: b32_letter_def b32_value_def)
  let ?buf = "push_bit 5 buf OR v"
  have l: "lowbits (bits + 5) ?buf = lowbits bits buf @ lowbits 5 v"
    using Cons.prems b32_value_bound [OF v] by (intro lowbits_push) auto
  show ?case
  proof (cases "8 \<le> bits + 5")
    case False
    with Cons.IH [of "bits + 5" ?buf out] Cons.prems v l show ?thesis
      by (simp add: b32_take_char_def)
  next
    case True
    let ?n = "bits + 5 - 8" and ?b = "ucast (drop_bit (bits + 5 - 8) ?buf AND 255) :: byte"
    have "lowbits 8 ?b = lowbits 8 (drop_bit ?n ?buf)"
      by (rule trans [OF _ lowbits_and_mask]) (simp add: lowbits_def bit_simps masks)
    then have "lowbits 8 ?b @ lowbits ?n ?buf = lowbits (bits + 5) ?buf"
      using lowbits_split [of 8 ?n ?buf] True by (simp only: le_add_diff_inverse)
    then have e: "byte_bits (out @ [?b]) @ lowbits ?n ?buf @ text_bits s
        = byte_bits out @ lowbits bits buf @ text_bits (c # s)"
      unfolding l using v by (metis append.assoc byte_bits_simps(2) option.sel text_bits_simps(2))
    have "b32_decode_from (buf, bits, out) (c # s) = b32_decode_from (?buf, ?n, out @ [?b]) s"
      using True v by (simp add: b32_take_char_def)
    moreover have s: "list_all b32_letter s" "?n < 8" using Cons.prems by auto
    moreover from Cons.IH [OF s, of ?buf "out @ [?b]"] obtain out' rest where
      "b32_decode_from (?buf, ?n, out @ [?b]) s = Some out'" "length rest < 8"
      "byte_bits out' @ rest = byte_bits (out @ [?b]) @ lowbits ?n ?buf @ text_bits s" by blast
    ultimately show ?thesis using e by metis
  qed
qed


lemma base32_decode_letters:
  assumes "list_all b32_letter s" shows "base32_decode s = b32_decode_from (0, 0, []) s"
proof -
  have "filter (\<lambda>c. \<not> is_ascii_whitespace c \<and> c \<noteq> CHR ''='') s = s"
    using assms by (auto simp: filter_id_conv list_all_iff b32_letter_def)
  then show ?thesis by (simp add: base32_decode_def)
qed

lemma base32_decode_encode: "base32_decode (base32_encode bs) = Some bs"
proof -
  obtain k where k: "k < 5" "list_all b32_letter (base32_encode bs)"
    "text_bits (base32_encode bs) = byte_bits bs @ replicate k False"
    using base32_encode_bits by blast
  from b32_decode_bits [OF k(2), of 0 0 "[]"] obtain out' rest where
    o: "b32_decode_from (0, 0, []) (base32_encode bs) = Some out'" "length rest < 8"
      "byte_bits out' @ rest = byte_bits bs @ replicate k False" using k(3) by auto
  with k(1) have "out' = bs"
    by (intro bytes_of_bits_unique [of out' rest bs "replicate k False"]) (auto simp: byte_bits_def)
  with o k show ?thesis by (simp add: base32_decode_letters)
qed

text \<open>Letter case, white space and padding do not change what a secret decodes to.\<close>

definition b32_canonical :: "string \<Rightarrow> string" where
  "b32_canonical s = map upper_char (filter (\<lambda>c. \<not> is_ascii_whitespace c \<and> c \<noteq> CHR ''='') s)"

lemma upper_char_idem [simp]: "upper_char (upper_char c) = upper_char c"
  by (auto simp: upper_char_def Let_def)

lemma upper_char_digit: "of_char (upper_char c) < (65 :: nat) \<Longrightarrow> upper_char c = c"
  by (auto simp: upper_char_def Let_def split: if_splits)

lemma b32_index_upper: "b32_index (upper_char c) = b32_index c"
  using upper_char_digit [of c] by (auto simp: b32_index_def Let_def)

lemma upper_char_letter: "upper_char c \<noteq> c \<Longrightarrow> (65 :: nat) \<le> of_char (upper_char c)"
  using upper_char_digit [of c] by linarith

lemma upper_char_layout:
  "is_ascii_whitespace (upper_char c) = is_ascii_whitespace c"
  "upper_char c = CHR ''='' \<longleftrightarrow> c = CHR ''=''"
  "upper_char c = CHR ''-'' \<longleftrightarrow> c = CHR ''-''"
proof -
  have low: "upper_char c = d \<longleftrightarrow> c = d" if "of_char d < (65 :: nat)" for d
  proof
    assume "upper_char c = d"
    with that upper_char_digit [of c] show "c = d" by simp
  next
    assume "c = d"
    with that show "upper_char c = d" by (simp add: upper_char_def)
  qed
  show "is_ascii_whitespace (upper_char c) = is_ascii_whitespace c"
    by (simp add: is_ascii_whitespace_def low)
  show "upper_char c = CHR ''='' \<longleftrightarrow> c = CHR ''=''" "upper_char c = CHR ''-'' \<longleftrightarrow> c = CHR ''-''"
    by (simp_all add: low)
qed

lemma b32_decode_from_upper: "b32_decode_from st (map upper_char s) = b32_decode_from st s"
proof (induction s arbitrary: st)
  case Nil
  then show ?case by simp
next
  case (Cons c s)
  then show ?case by (cases st) (simp add: b32_value_def b32_index_upper split: option.split)
qed

lemma base32_decode_canonical: "base32_decode (b32_canonical s) = base32_decode s"
  by (simp add: base32_decode_def b32_canonical_def b32_decode_from_upper filter_map comp_def
      upper_char_layout)

section \<open>What a code check accepts\<close>

lemma length_digits_of: "n < 10 ^ k \<Longrightarrow> 0 < k \<Longrightarrow> length (digits_of n) \<le> k"
proof (induction n arbitrary: k rule: digits_of.induct)
  case (1 n)
  show ?case
  proof (cases "n < 10")
    case True
    with 1 show ?thesis by (subst digits_of.simps) simp
  next
    case False
    with 1(2,3) obtain j where j: "k = Suc j" "0 < j"
      by (metis gr0_conv_Suc not_gr_zero power_0 power_Suc mult_1_right)
    with 1(2) have "n div 10 < 10 ^ j" by (simp add: less_mult_imp_div_less mult.commute)
    with 1(1) [OF False] j False show ?thesis by (subst digits_of.simps) simp
  qed
qed

lemma is_ascii_digit_char: "n < 10 \<Longrightarrow> is_ascii_digit (char_of (48 + n :: nat))"
  by (simp add: is_ascii_digit_def Let_def)

lemma digits_of_digits: "list_all is_ascii_digit (digits_of n)"
proof (induction n rule: digits_of.induct)
  case (1 n)
  then show ?case by (subst digits_of.simps) (auto simp: is_ascii_digit_char)
qed

lemma totp_step_bound: "unat (totp_step mac secret t) < 10 ^ 6"
proof -
  have "unat (w mod 1000000) < 1000000" for w :: u32 by (simp add: unat_mod)
  then show ?thesis by (simp add: totp_step_def Let_def)
qed

lemma format_code_shape:
  "length (format_code (totp_step mac secret t)) = totp_digits"
  "list_all is_ascii_digit (format_code (totp_step mac secret t))"
proof -
  have "length (digits_of (unat (totp_step mac secret t))) \<le> 6"
    using totp_step_bound by (intro length_digits_of) auto
  then show "length (format_code (totp_step mac secret t)) = totp_digits"
    by (simp add: format_code_def pad6_def totp_digits_def)
  show "list_all is_ascii_digit (format_code (totp_step mac secret t))"
    using digits_of_digits by (auto simp: format_code_def pad6_def list_all_iff is_ascii_digit_def)
qed

lemma find_upto_Some:
  "find p [a..b] = Some s \<longleftrightarrow> a \<le> s \<and> s \<le> b \<and> p s \<and> \<not> (\<exists>r. a \<le> r \<and> r < s \<and> p r)"
proof (induction a b rule: upto.induct)
  case (1 a b)
  show ?case
  proof (cases "a \<le> b")
    case False
    then show ?thesis by simp
  next
    case True
    show ?thesis
    proof (cases "p a")
      case True
      then show ?thesis using \<open>a \<le> b\<close> by (subst upto.simps) (auto, metis order_refl linorder_not_less order_antisym)
    next
      case False
      then have "(a \<le> r \<and> r < s \<and> p r) = (a + 1 \<le> r \<and> r < s \<and> p r)" for r
        by (cases "r = a") auto
      then have e: "(\<exists>r. a \<le> r \<and> r < s \<and> p r) = (\<exists>r. a + 1 \<le> r \<and> r < s \<and> p r)" by simp
      have f: "find p [a..b] = find p [a + 1..b]" using \<open>a \<le> b\<close> False by (subst upto.simps) simp
      have "(a \<le> s \<and> s \<le> b \<and> p s) = (a + 1 \<le> s \<and> s \<le> b \<and> p s)"
        using False by (cases "s = a") auto
      then show ?thesis unfolding f 1 [OF \<open>a \<le> b\<close>] e by argo
    qed
  qed
qed

lemma map_plus_upto: "map (\<lambda>d. t + d) [- w..w] = [t - w..t + w]" for t w :: int
proof -
  have "map (\<lambda>d. t + d) [i..j] = [t + i..t + j]" for i j
    by (induction i j rule: upto.induct) (simp add: upto.simps add.assoc)
  from this [of "- w" w] show ?thesis by simp
qed

lemma totp_verify_Some:
  "totp_verify mac secret code now w = Some s \<longleftrightarrow>
     (let t = trunc_div now totp_step_secs; shown = (\<lambda>r. format_code (totp_step mac secret r)) in
      t - w \<le> s \<and> s \<le> t + w \<and> shown s = trim code
      \<and> \<not> (\<exists>r. t - w \<le> r \<and> r < s \<and> shown r = trim code))"
proof (cases "length (trim code) = totp_digits \<and> list_all is_ascii_digit (trim code)")
  case True
  then show ?thesis by (simp add: totp_verify_def Let_def map_plus_upto find_upto_Some)
next
  case False
  then have "format_code (totp_step mac secret r) \<noteq> trim code" for r
    using format_code_shape [of mac secret r] by metis
  with False show ?thesis by (auto simp: totp_verify_def Let_def)
qed

end
