(* ===== verification/Auth_Sessions.thy ===== *)
theory Auth_Sessions
  imports Totp_Codes Audit_Trail
begin

text \<open>
  Signing in and staying signed in: src/src/modules/auth/service.rs (the tenant-scoped \<open>login\<close> with
  its second factor and its suspicious-login gate, sessions, tokens, refresh and sign-out), the
  HS256 branch of \<open>auth_middleware\<close> in src/src/modules/auth/middleware.rs,
  src/src/modules/auth/mfa_secret.rs, src/src/utils/login_location.rs, the password helpers of
  src/src/utils/crypto.rs and the trigger of src/migrations/196 that copies a users row to the
  identity plane.

  An operation that runs in several transactions returns the state it leaves behind beside its
  result, because what an earlier transaction wrote survives a later refusal. Profile columns that no
  check reads are left out of the rows. Argon2, SHA-256, AES-GCM, HMAC-SHA1, the JWT library, the
  geolocation database and the text form of a UUID are fields of \<open>auth_env\<close>; random values are the
  fields of \<open>fresh\<close>; \<open>now\<close> is the clock of the call.
\<close>

section \<open>Data\<close>

datatype user_role = SuperAdmin | Admin | Manager | Technician | Dispatcher | Sales | Finance

primrec privilege_rank :: "user_role \<Rightarrow> nat" where
  "privilege_rank SuperAdmin = 3"
| "privilege_rank Admin = 2"
| "privilege_rank Manager = 1"
| "privilege_rank Technician = 0"
| "privilege_rank Dispatcher = 0"
| "privilege_rank Sales = 0"
| "privilege_rank Finance = 0"

definition is_admin :: "user_role \<Rightarrow> bool" where
  "is_admin r \<longleftrightarrow> r \<in> {SuperAdmin, Admin}"

definition can_grant :: "user_role \<Rightarrow> user_role \<Rightarrow> bool" where
  "can_grant r target \<longleftrightarrow> privilege_rank target \<le> privilege_rank r"

datatype user_status = UActive | UInactive | UPending

primrec user_status_as_str :: "user_status \<Rightarrow> string" where
  "user_status_as_str UActive = ''active''"
| "user_status_as_str UInactive = ''inactive''"
| "user_status_as_str UPending = ''pending''"

record auth_user =
  usr_id :: uuid
  usr_tenant :: tenant
  usr_email :: string
  usr_password_hash :: "string option"
  usr_role :: user_role
  usr_status :: user_status
  usr_mfa_enabled :: bool
  usr_mfa_secret :: "string option"
  usr_recovery_hashes :: "string list"
  usr_mfa_failed :: int
  usr_mfa_locked_until :: "instant option"
  usr_mfa_last_step :: "int option"
  usr_password_changed_at :: "instant option"
  usr_last_login_at :: "instant option"
  usr_last_country :: "string option"
  usr_location_alerts :: bool
  usr_bunyip_user :: "uuid option"
  usr_deleted_at :: "instant option"

record user_session =
  ses_id :: uuid
  ses_tenant :: tenant
  ses_user :: uuid
  ses_token_hash :: string
  ses_ip :: "string option"
  ses_user_agent :: "string option"
  ses_expires_at :: instant
  ses_last_activity_at :: instant

record login_approval =
  lap_id :: uuid
  lap_tenant :: tenant
  lap_user :: uuid
  lap_code_hash :: string
  lap_country :: "string option"
  lap_device_hash :: "string option"
  lap_attempts :: int
  lap_expires_at :: instant
  lap_consumed_at :: "instant option"
  lap_created_at :: instant

record login_device =
  dev_tenant :: tenant
  dev_user :: uuid
  dev_hash :: string
  dev_user_agent :: "string option"
  dev_last_seen_at :: instant

record reset_token =
  prt_tenant :: tenant
  prt_user :: uuid
  prt_token_hash :: string
  prt_lookup_hash :: string
  prt_expires_at :: instant
  prt_used_at :: "instant option"

record tenant_row =
  ten_id :: tenant
  ten_name :: string
  ten_slug :: string
  ten_status :: string

record entitlement =
  ent_tenant :: tenant
  ent_status :: string
  ent_checked_at :: instant
  ent_expires_at :: "instant option"
  ent_reason :: "string option"

record identity =
  idn_id :: uuid
  idn_email :: string
  idn_password_hash :: "string option"
  idn_mfa_enabled :: bool
  idn_mfa_secret :: "string option"
  idn_last_login_at :: "instant option"
  idn_mfa_last_totp_step :: int

record membership =
  mem_id :: uuid
  mem_identity :: uuid
  mem_tenant :: tenant
  mem_role :: user_role
  mem_status :: user_status
  mem_joined_at :: instant

record account_grant =
  gra_id :: uuid
  gra_account :: string
  gra_grantee_user :: "uuid option"
  gra_grantee_email :: "string option"
  gra_role :: "user_role option"
  gra_granted_at :: instant
  gra_revoked_at :: "instant option"

datatype auth_mail =
    LoginApprovalCode string string
  | NewLoginLocation string string
  | ResetLink uuid string
  | WelcomeLink uuid string

record auth_db =
  auth_users :: "auth_user list"
  auth_sessions :: "user_session list"
  login_approvals :: "login_approval list"
  login_devices :: "login_device list"
  reset_tokens :: "reset_token list"
  auth_tenants :: "tenant_row list"
  entitlements :: "entitlement list"
  identities :: "identity list"
  memberships :: "membership list"
  account_grants :: "account_grant list"
  auth_audit :: "audit_row list"
  auth_outbox :: "auth_mail list"

section \<open>Deployment, libraries and the caller\<close>

datatype auth_provider_kind = LocalProvider | BunyipProvider

datatype enablement_source = ProfileDefault | ExplicitProviders

record provider_selection =
  sel_source :: enablement_source
  sel_providers :: "auth_provider_kind list"

definition provider_enabled :: "provider_selection \<Rightarrow> auth_provider_kind \<Rightarrow> bool" where
  "provider_enabled sel kind = (case sel_source sel of
     ProfileDefault \<Rightarrow> True | ExplicitProviders \<Rightarrow> kind \<in> set (sel_providers sel))"

datatype argon_result = InvalidHash | PasswordMatches | PasswordDiffers | VerificationFailed

datatype ip_addr = V4 "byte" "byte" "byte" "byte" | V6 "128 word"

record jwt_claims =
  jwt_sub :: uuid
  jwt_tid :: tenant
  jwt_email :: string
  jwt_role :: user_role
  jwt_iat :: int
  jwt_nbf :: int
  jwt_exp :: int
  jwt_iss :: string
  jwt_aud :: string
  jwt_typ :: string
  jwt_sid :: uuid
  jwt_mid :: "uuid option"

text \<open>
  \<open>jwt_open\<close> is the library's decoding without its expiry check: the claims, if the signature is
  right. A token is expired when its \<open>exp\<close> plus the leeway is in the past.
\<close>

record auth_env =
  auth_providers :: provider_selection
  is_saas :: bool
  sso_mounted :: bool
  login_approval_enabled :: bool
  access_token_ttl :: int
  refresh_token_ttl :: int
  argon2_verify :: "string \<Rightarrow> string \<Rightarrow> argon_result"
  argon2_hash :: "string \<Rightarrow> string \<Rightarrow> string option"
  sha256_hex :: "string \<Rightarrow> string"
  hmac_of :: hmac_sha1
  aes_encrypt :: "string \<Rightarrow> string \<Rightarrow> string option"
  aes_decrypt :: "string \<Rightarrow> string option"
  jwt_sign :: "jwt_claims \<Rightarrow> string"
  jwt_open :: "string \<Rightarrow> jwt_claims option"
  country_code :: "(ip_addr \<Rightarrow> string option) option"
  uuid_text :: "uuid \<Rightarrow> string"
  uuid_parse :: "string \<Rightarrow> uuid option"

text \<open>The caller's address: its text and what \<open>parse::<IpAddr>\<close> makes of it.\<close>

record client =
  cl_ip :: "string option"
  cl_addr :: "ip_addr option"
  cl_user_agent :: "string option"

record fresh =
  new_session :: uuid
  new_token :: string
  new_approval :: uuid
  new_code :: string
  new_salt :: string
  new_nonce :: string
  new_user :: uuid
  new_membership :: uuid
  new_recovery :: "string list"
  new_totp_secret :: "byte list"

record login_request =
  lr_email :: string
  lr_password :: string
  lr_remember_me :: bool
  lr_mfa_code :: "string option"
  lr_recovery_code :: "string option"
  lr_approval_code :: "string option"
  lr_device_id :: "string option"
  lr_tenant_id :: "tenant option"
  lr_tenant_slug :: "string option"

record current_user =
  cu_id :: uuid
  cu_tenant :: tenant
  cu_email :: string
  cu_role :: user_role

definition to_current_user :: "auth_user \<Rightarrow> current_user" where
  "to_current_user u = \<lparr> cu_id = usr_id u, cu_tenant = usr_tenant u, cu_email = usr_email u, cu_role = usr_role u \<rparr>"

record membership_view =
  mv_tenant :: tenant
  mv_role :: user_role
  mv_status :: string
  mv_grant :: "uuid option"

record login_response =
  resp_access_token :: string
  resp_refresh_token :: string
  resp_expires_at :: instant
  resp_user :: "current_user option"
  resp_mfa_required :: bool
  resp_approval_required :: bool
  resp_needs_selection :: bool
  resp_needs_setup :: bool
  resp_identity_token :: "string option"
  resp_memberships :: "membership_view list option"

definition empty_response :: "instant \<Rightarrow> login_response" where
  "empty_response now = \<lparr> resp_access_token = [], resp_refresh_token = [], resp_expires_at = now, resp_user = None,
     resp_mfa_required = False, resp_approval_required = False, resp_needs_selection = False,
     resp_needs_setup = False, resp_identity_token = None, resp_memberships = None \<rparr>"

section \<open>Sequences of transactions\<close>

type_synonym 'a auth_run = "auth_db \<times> 'a app_result"

definition then_do :: "'a auth_run \<Rightarrow> ('a \<Rightarrow> auth_db \<Rightarrow> 'b auth_run) \<Rightarrow> 'b auth_run" where
  "then_do m k = (case snd m of Inl e \<Rightarrow> (fst m, Inl e) | Inr a \<Rightarrow> k a (fst m))"

definition check :: "'a app_result \<Rightarrow> auth_db \<Rightarrow> 'a auth_run" where
  "check r db = (db, r)"

lemma then_do_simps [simp]:
  "then_do (db, Inl e) k = (db, Inl e)" "then_do (db, Inr a) k = k a db"
  "then_do (check r db) k = (case r of Inl e \<Rightarrow> (db, Inl e) | Inr a \<Rightarrow> k a db)"
  by (simp_all add: then_do_def check_def split: sum.split)

lemma then_do_InrE:
  assumes "snd (then_do m k) = Inr b"
  obtains a where "snd m = Inr a" and "snd (k a (fst m)) = Inr b"
  using assms by (cases "snd m") (auto simp: then_do_def)

text \<open>Whatever holds of every state a run passes through holds of the one it leaves.\<close>

lemma then_do_keeps:
  assumes "P (fst m)" and "\<And>a. snd m = Inr a \<Longrightarrow> P (fst (k a (fst m)))"
  shows "P (fst (then_do m k))"
  using assms by (cases "snd m") (auto simp: then_do_def)


section \<open>Passwords and stored secrets\<close>

definition verify_password :: "auth_env \<Rightarrow> string \<Rightarrow> string \<Rightarrow> bool app_result" where
  "verify_password env password hash = (case argon2_verify env password hash of
     InvalidHash \<Rightarrow> Inl (Internal ''Invalid password hash'')
   | PasswordMatches \<Rightarrow> Inr True
   | PasswordDiffers \<Rightarrow> Inr False
   | VerificationFailed \<Rightarrow> Inl (Internal ''Password verification error''))"

definition hash_password :: "auth_env \<Rightarrow> string \<Rightarrow> string \<Rightarrow> string app_result" where
  "hash_password env salt password = (case argon2_hash env salt password of
     None \<Rightarrow> Inl (Internal ''Password hashing error'') | Some h \<Rightarrow> Inr h)"

text \<open>The check against the stand-in hash costs time and answers nothing.\<close>

definition verify_password_or_dummy :: "auth_env \<Rightarrow> string \<Rightarrow> string option \<Rightarrow> bool app_result" where
  "verify_password_or_dummy env secret row_hash = (case row_hash of
     Some h \<Rightarrow> verify_password env secret h | None \<Rightarrow> Inr False)"

datatype stored_mfa_secret = Encrypted string | LegacyPlaintext string

primrec secret_b32 :: "stored_mfa_secret \<Rightarrow> string" where
  "secret_b32 (Encrypted s) = s"
| "secret_b32 (LegacyPlaintext s) = s"

primrec needs_upgrade :: "stored_mfa_secret \<Rightarrow> bool" where
  "needs_upgrade (Encrypted s) = False"
| "needs_upgrade (LegacyPlaintext s) = True"

definition max_plaintext_len :: nat where "max_plaintext_len = 32"

definition is_ascii_alphabetic :: "char \<Rightarrow> bool" where
  "is_ascii_alphabetic c \<longleftrightarrow> (let n = (of_char c :: nat) in (65 \<le> n \<and> n \<le> 90) \<or> (97 \<le> n \<and> n \<le> 122))"

definition is_plaintext_shape :: "string \<Rightarrow> bool" where
  "is_plaintext_shape stored =
     (let body = rev (dropWhile (\<lambda>c. c = CHR ''='') (rev stored)) in
      body \<noteq> [] \<and> length body \<le> max_plaintext_len
      \<and> list_all (\<lambda>c. is_ascii_alphabetic c \<or> (50 \<le> (of_char c :: nat) \<and> (of_char c :: nat) \<le> 55)) body)"

definition seal_secret :: "auth_env \<Rightarrow> string \<Rightarrow> string \<Rightarrow> string app_result" where
  "seal_secret env nonce s = (case aes_encrypt env nonce s of
     None \<Rightarrow> Inl (Internal ''Encryption error'') | Some c \<Rightarrow> Inr c)"

definition open_secret :: "auth_env \<Rightarrow> string \<Rightarrow> stored_mfa_secret app_result" where
  "open_secret env stored =
     (if is_plaintext_shape stored then Inr (LegacyPlaintext stored)
      else case aes_decrypt env stored of
             None \<Rightarrow> Inl (Internal ''stored MFA secret is corrupt'')
           | Some s \<Rightarrow> Inr (Encrypted s))"

definition recovery_code_hex_hash :: "auth_env \<Rightarrow> string \<Rightarrow> string" where
  "recovery_code_hex_hash env code = sha256_hex env (canonicalize code)"

definition local_password_auth_disabled :: "auth_env \<Rightarrow> bool" where
  "local_password_auth_disabled env \<longleftrightarrow> is_saas env \<and> sso_mounted env"

definition sends_local_account_email :: "auth_env \<Rightarrow> bool" where
  "sends_local_account_email env \<longleftrightarrow> \<not> local_password_auth_disabled env"

definition sso_only_rejection :: app_error where
  "sso_only_rejection = Forbidden ''This deployment signs in with single sign-on''"

section \<open>Writing a users row\<close>

text \<open>
  The trigger \<open>sync_user_to_identity_and_membership\<close>: an updated row gives its role and status to
  the seat of its identity and its profile, the MFA flag included, to the identity.
\<close>

definition identity_of :: "auth_db \<Rightarrow> string \<Rightarrow> identity option" where
  "identity_of db email = select_one (\<lambda>i. to_lowercase (idn_email i) = to_lowercase email) (identities db)"

definition mirror_update :: "auth_user \<Rightarrow> auth_db \<Rightarrow> auth_db" where
  "mirror_update u db = (case identity_of db (usr_email u) of
     None \<Rightarrow> db
   | Some i \<Rightarrow> db\<lparr> memberships := update_where (\<lambda>m. mem_identity m = idn_id i \<and> mem_tenant m = usr_tenant u)
                        (\<lambda>m. m\<lparr> mem_role := usr_role u, mem_status := usr_status u \<rparr>) (memberships db),
                   identities := update_where (\<lambda>j. idn_id j = idn_id i)
                        (\<lambda>j. j\<lparr> idn_mfa_enabled := usr_mfa_enabled u, idn_last_login_at := usr_last_login_at u \<rparr>)
                        (identities db) \<rparr>)"

definition write_users :: "(auth_user \<Rightarrow> bool) \<Rightarrow> (auth_user \<Rightarrow> auth_user) \<Rightarrow> auth_db \<Rightarrow> auth_db" where
  "write_users p f db = fold mirror_update (map f (filter p (auth_users db)))
     (db\<lparr> auth_users := update_where p f (auth_users db) \<rparr>)"

text \<open>The same write with \<open>app.skip_users_identity_mirror\<close> on.\<close>

definition write_users_unmirrored :: "(auth_user \<Rightarrow> bool) \<Rightarrow> (auth_user \<Rightarrow> auth_user) \<Rightarrow> auth_db \<Rightarrow> auth_db" where
  "write_users_unmirrored p f db = db\<lparr> auth_users := update_where p f (auth_users db) \<rparr>"

definition is_user :: "tenant \<Rightarrow> uuid \<Rightarrow> auth_user \<Rightarrow> bool" where
  "is_user t uid u \<longleftrightarrow> usr_id u = uid \<and> usr_tenant u = t"

definition find_user_by_email_for_tenant :: "auth_db \<Rightarrow> tenant \<Rightarrow> string \<Rightarrow> auth_user app_result" where
  "find_user_by_email_for_tenant db t email =
     (case select_one (\<lambda>u. usr_tenant u = t \<and> usr_email u = email) (auth_users db) of
        None \<Rightarrow> Inl Unauthorized | Some u \<Rightarrow> Inr u)"

definition get_user_by_id :: "auth_db \<Rightarrow> tenant \<Rightarrow> uuid \<Rightarrow> auth_user app_result" where
  "get_user_by_id db t uid =
     (case select_one (\<lambda>u. is_user t uid u \<and> usr_deleted_at u = None) (auth_users db) of
        None \<Rightarrow> Inl (NotFound ''User'') | Some u \<Rightarrow> Inr u)"

definition write_mfa_secret :: "string \<Rightarrow> string option \<Rightarrow> string option \<Rightarrow> auth_db \<Rightarrow> auth_db" where
  "write_mfa_secret email val prev db =
     (let db = db\<lparr> identities := update_where
            (\<lambda>i. to_lowercase (idn_email i) = to_lowercase email \<and> (prev \<noteq> None \<longrightarrow> idn_mfa_secret i = prev))
            (\<lambda>i. i\<lparr> idn_mfa_secret := val \<rparr>) (identities db) \<rparr>
      in write_users (\<lambda>u. to_lowercase (usr_email u) = to_lowercase email \<and> (prev \<noteq> None \<longrightarrow> usr_mfa_secret u = prev))
           (\<lambda>u. u\<lparr> usr_mfa_secret := val \<rparr>) db)"

definition upgrade_legacy_mfa_secret :: "auth_env \<Rightarrow> fresh \<Rightarrow> string \<Rightarrow> string \<Rightarrow> auth_db \<Rightarrow> unit auth_run" where
  "upgrade_legacy_mfa_secret env fr email b32 db =
     (case seal_secret env (new_nonce fr) b32 of
        Inl e \<Rightarrow> (db, Inl e)
      | Inr sealed \<Rightarrow> (write_mfa_secret email (Some sealed) (Some b32) db, Inr ()))"

section \<open>Where a login comes from\<close>

definition is_non_public_v4 :: "byte \<Rightarrow> byte \<Rightarrow> byte \<Rightarrow> byte \<Rightarrow> bool" where
  "is_non_public_v4 a b c d \<longleftrightarrow>
     a = 10 \<or> (a = 172 \<and> b AND 0xf0 = 16) \<or> (a = 192 \<and> b = 168)
     \<or> a = 127
     \<or> (a = 169 \<and> b = 254)
     \<or> (a = 0 \<and> b = 0 \<and> c = 0 \<and> d = 0)
     \<or> (a = 255 \<and> b = 255 \<and> c = 255 \<and> d = 255)
     \<or> (a = 100 \<and> b AND 0xc0 = 64)
     \<or> (a = 192 \<and> b = 0 \<and> c = 0)
     \<or> (a = 198 \<and> b AND 0xfe = 18)"

definition is_non_public_ip :: "ip_addr \<Rightarrow> bool" where
  "is_non_public_ip ip = (case ip of
     V4 a b c d \<Rightarrow> is_non_public_v4 a b c d
   | V6 w \<Rightarrow>
       if drop_bit 32 w = 0xffff
       then is_non_public_v4 (ucast (drop_bit 24 w)) (ucast (drop_bit 16 w)) (ucast (drop_bit 8 w)) (ucast w)
       else w = 1 \<or> w = 0 \<or> (drop_bit 112 w AND 0xfe00 = 0xfc00) \<or> (drop_bit 112 w AND 0xffc0 = 0xfe80))"

datatype login_location_decision = RecordCountry | Unchanged | Alert

definition login_location_decision_of :: "string option \<Rightarrow> string \<Rightarrow> login_location_decision" where
  "login_location_decision_of previous current = (case previous of
     None \<Rightarrow> RecordCountry
   | Some prev \<Rightarrow> if prev = current then Unchanged else Alert)"

definition resolve_login_country :: "auth_env \<Rightarrow> client \<Rightarrow> string option" where
  "resolve_login_country env cl = (case country_code env of
     None \<Rightarrow> None
   | Some geo \<Rightarrow> (case cl_addr cl of
       None \<Rightarrow> None
     | Some ip \<Rightarrow> if is_non_public_ip ip then None else geo ip))"

definition set_last_login_country :: "tenant \<Rightarrow> uuid \<Rightarrow> string \<Rightarrow> auth_db \<Rightarrow> auth_db" where
  "set_last_login_country t uid country =
     write_users (is_user t uid) (\<lambda>u. u\<lparr> usr_last_country := Some country \<rparr>)"

definition check_login_location :: "auth_env \<Rightarrow> auth_user \<Rightarrow> client \<Rightarrow> auth_db \<Rightarrow> auth_db" where
  "check_login_location env user cl db = (case resolve_login_country env cl of
     None \<Rightarrow> db
   | Some country \<Rightarrow> (case login_location_decision_of (usr_last_country user) country of
       Unchanged \<Rightarrow> db
     | RecordCountry \<Rightarrow> set_last_login_country (usr_tenant user) (usr_id user) country db
     | Alert \<Rightarrow>
         (let db = (if usr_location_alerts user \<and> sends_local_account_email env
                    then db\<lparr> auth_outbox := auth_outbox db @ [NewLoginLocation (usr_email user) country] \<rparr>
                    else db)
          in set_last_login_country (usr_tenant user) (usr_id user) country db)))"

record login_assessment =
  as_country :: "string option"
  as_device_hash :: "string option"
  as_suspicious :: bool

definition has_known_device :: "auth_db \<Rightarrow> tenant \<Rightarrow> uuid \<Rightarrow> bool" where
  "has_known_device db t uid \<longleftrightarrow> list_ex (\<lambda>d. dev_tenant d = t \<and> dev_user d = uid) (login_devices db)"

definition is_known_device :: "auth_db \<Rightarrow> tenant \<Rightarrow> uuid \<Rightarrow> string \<Rightarrow> bool" where
  "is_known_device db t uid h \<longleftrightarrow>
     list_ex (\<lambda>d. dev_tenant d = t \<and> dev_user d = uid \<and> dev_hash d = h) (login_devices db)"

definition assess_login :: "auth_env \<Rightarrow> auth_user \<Rightarrow> client \<Rightarrow> string option \<Rightarrow> auth_db \<Rightarrow> login_assessment" where
  "assess_login env user cl device_id db =
     (let country = resolve_login_country env cl;
          country_new = (case country of None \<Rightarrow> False
            | Some c \<Rightarrow> login_location_decision_of (usr_last_country user) c = Alert);
          device_hash = (case device_id of None \<Rightarrow> None
            | Some d \<Rightarrow> if trim d = [] then None else Some (sha256_hex env (trim d)));
          device_new = (case device_hash of None \<Rightarrow> False
            | Some h \<Rightarrow> has_known_device db (usr_tenant user) (usr_id user)
                \<and> \<not> is_known_device db (usr_tenant user) (usr_id user) h)
      in \<lparr> as_country = country, as_device_hash = device_hash, as_suspicious = (country_new \<or> device_new) \<rparr>)"

definition record_known_device :: "instant \<Rightarrow> tenant \<Rightarrow> uuid \<Rightarrow> string \<Rightarrow> string option \<Rightarrow> auth_db \<Rightarrow> auth_db" where
  "record_known_device now t uid h ua db =
     (if is_known_device db t uid h
      then db\<lparr> login_devices := update_where (\<lambda>d. dev_tenant d = t \<and> dev_user d = uid \<and> dev_hash d = h)
                (\<lambda>d. d\<lparr> dev_last_seen_at := now, dev_user_agent := ua \<rparr>) (login_devices db) \<rparr>
      else db\<lparr> login_devices := login_devices db @ [\<lparr> dev_tenant = t, dev_user = uid, dev_hash = h,
                dev_user_agent = ua, dev_last_seen_at = now \<rparr>] \<rparr>)"

definition record_login_success :: "instant \<Rightarrow> auth_user \<Rightarrow> login_assessment \<Rightarrow> auth_db \<Rightarrow> auth_db" where
  "record_login_success now user a db =
     (let db = (case as_country a of
            None \<Rightarrow> db
          | Some c \<Rightarrow> if usr_last_country user = Some c then db
                      else set_last_login_country (usr_tenant user) (usr_id user) c db)
      in case as_device_hash a of
           None \<Rightarrow> db
         | Some h \<Rightarrow> record_known_device now (usr_tenant user) (usr_id user) h None db)"

section \<open>The approval challenge\<close>

definition login_approval_max_attempts :: int where "login_approval_max_attempts = 5"

definition issue_login_approval :: "auth_env \<Rightarrow> fresh \<Rightarrow> instant \<Rightarrow> auth_user \<Rightarrow> login_assessment \<Rightarrow> auth_db \<Rightarrow> auth_db" where
  "issue_login_approval env fr now user a db =
     db\<lparr> login_approvals :=
           delete_where (\<lambda>r. lap_tenant r = usr_tenant user \<and> lap_user r = usr_id user \<and> lap_consumed_at r = None)
             (login_approvals db)
           @ [\<lparr> lap_id = new_approval fr, lap_tenant = usr_tenant user, lap_user = usr_id user,
               lap_code_hash = sha256_hex env (new_code fr), lap_country = as_country a,
               lap_device_hash = as_device_hash a, lap_attempts = 0, lap_expires_at = now + 15 * 60,
               lap_consumed_at = None, lap_created_at = now \<rparr>],
         auth_outbox := auth_outbox db @ [LoginApprovalCode (usr_email user) (new_code fr)] \<rparr>"

definition live_challenge :: "instant \<Rightarrow> tenant \<Rightarrow> uuid \<Rightarrow> auth_db \<Rightarrow> login_approval option" where
  "live_challenge now t uid db =
     (let rows = sort_key lap_created_at (filter (\<lambda>r. lap_tenant r = t \<and> lap_user r = uid \<and> lap_consumed_at r = None
                   \<and> now < lap_expires_at r) (login_approvals db))
      in if rows = [] then None else Some (last rows))"

definition verify_login_approval :: "auth_env \<Rightarrow> instant \<Rightarrow> tenant \<Rightarrow> uuid \<Rightarrow> string \<Rightarrow> auth_db \<Rightarrow> unit auth_run" where
  "verify_login_approval env now t uid code db =
     (case live_challenge now t uid db of
        None \<Rightarrow> (db, Inl Unauthorized)
      | Some c \<Rightarrow>
          if lap_code_hash c = sha256_hex env (trim code)
          then (db\<lparr> login_approvals := update_where (\<lambda>r. lap_id r = lap_id c)
                     (\<lambda>r. r\<lparr> lap_consumed_at := Some now \<rparr>) (login_approvals db) \<rparr>, Inr ())
          else let rows = update_where (\<lambda>r. lap_id r = lap_id c)
                     (\<lambda>r. r\<lparr> lap_attempts := lap_attempts r + 1 \<rparr>) (login_approvals db)
               in (db\<lparr> login_approvals :=
                        (if login_approval_max_attempts \<le> lap_attempts c + 1
                         then delete_where (\<lambda>r. lap_id r = lap_id c) rows else rows) \<rparr>, Inl Unauthorized))"


section \<open>Who may act\<close>

definition not_active :: app_error where "not_active = Forbidden ''This organization is not active''"

definition account_not_active :: app_error where "account_not_active = Forbidden ''Account is not active''"

definition ensure_tenant_active :: "instant \<Rightarrow> tenant \<Rightarrow> auth_db \<Rightarrow> unit app_result" where
  "ensure_tenant_active now t db = (case select_one (\<lambda>r. ten_id r = t) (auth_tenants db) of
     None \<Rightarrow> Inl not_active
   | Some r \<Rightarrow>
       if ten_status r \<noteq> ''active'' then Inl not_active
       else case select_one (\<lambda>e. ent_tenant e = t) (entitlements db) of
              None \<Rightarrow> Inr ()
            | Some e \<Rightarrow>
                (let expired = (case ent_expires_at e of None \<Rightarrow> False | Some x \<Rightarrow> x < now)
                 in if ent_status e = ''suspended'' \<or> expired then Inl not_active else Inr ()))"

definition ensure_principal_usable :: "instant \<Rightarrow> auth_user \<Rightarrow> auth_db \<Rightarrow> unit app_result" where
  "ensure_principal_usable now user db =
     (if usr_status user \<noteq> UActive then Inl account_not_active
      else ensure_tenant_active now (usr_tenant user) db)"

definition set_tenant_entitlement :: "instant \<Rightarrow> tenant \<Rightarrow> string \<Rightarrow> instant option \<Rightarrow> string option \<Rightarrow> auth_db
    \<Rightarrow> auth_db app_result" where
  "set_tenant_entitlement now t status expires_at reason db =
     (if status \<notin> {''active'', ''suspended'', ''unknown''} then Inl (Validation ''status'')
      else let row = \<lparr> ent_tenant = t, ent_status = status, ent_checked_at = now, ent_expires_at = expires_at,
                       ent_reason = reason \<rparr>
           in Inr (if list_ex (\<lambda>e. ent_tenant e = t) (entitlements db)
                   then db\<lparr> entitlements := update_where (\<lambda>e. ent_tenant e = t) (\<lambda>_. row) (entitlements db) \<rparr>
                   else db\<lparr> entitlements := entitlements db @ [row] \<rparr>))"

definition resolve_tenant_slug :: "auth_db \<Rightarrow> string \<Rightarrow> tenant app_result" where
  "resolve_tenant_slug db slug = (case select_one (\<lambda>r. ten_slug r = slug) (auth_tenants db) of
     None \<Rightarrow> Inl Unauthorized | Some r \<Rightarrow> Inr (ten_id r))"

definition default_tenant :: tenant where "default_tenant = 1"

definition resolve_tenant_for_login :: "tenant option \<Rightarrow> tenant" where
  "resolve_tenant_for_login hint = (case hint of None \<Rightarrow> default_tenant | Some t \<Rightarrow> t)"

section \<open>The second factor\<close>

text \<open>
  The back-off schedule in Rust (\<open>checked_shl\<close> on \<open>i64\<close>) and its SQL twin, which the counter update
  evaluates on the value it has just produced.
\<close>

definition checked_shl_i64 :: "int \<Rightarrow> nat \<Rightarrow> int option" where
  "checked_shl_i64 x k = (if k < 64 then Some (sint (push_bit k (word_of_int x :: 64 word))) else None)"

definition mfa_lockout_until :: "int \<Rightarrow> instant \<Rightarrow> instant option" where
  "mfa_lockout_until failed_count now =
     (if failed_count < 3 then None
      else let e = nat (min (failed_count - 3) 20);
               secs = min (case checked_shl_i64 30 e of None \<Rightarrow> 3600 | Some s \<Rightarrow> s) 3600
           in Some (now + secs))"

definition mfa_lock_seconds_sql :: "int \<Rightarrow> int option" where
  "mfa_lock_seconds_sql n = (if 3 \<le> n then Some (min 3600 (30 * 2 ^ nat (min 20 (n - 3)))) else None)"

definition register_failed_mfa :: "instant \<Rightarrow> tenant \<Rightarrow> uuid \<Rightarrow> auth_db \<Rightarrow> auth_db" where
  "register_failed_mfa now t uid = write_users (is_user t uid) (\<lambda>u. u\<lparr>
     usr_mfa_failed := usr_mfa_failed u + 1,
     usr_mfa_locked_until := (case mfa_lock_seconds_sql (usr_mfa_failed u + 1) of
         None \<Rightarrow> usr_mfa_locked_until u | Some secs \<Rightarrow> Some (now + secs)) \<rparr>)"

definition clear_mfa_lockout :: "tenant \<Rightarrow> uuid \<Rightarrow> auth_db \<Rightarrow> auth_db" where
  "clear_mfa_lockout t uid = write_users (is_user t uid) (\<lambda>u. u\<lparr> usr_mfa_failed := 0, usr_mfa_locked_until := None \<rparr>)"

definition step_is_new :: "int \<Rightarrow> auth_user \<Rightarrow> bool" where
  "step_is_new s u = (case usr_mfa_last_step u of None \<Rightarrow> True | Some w \<Rightarrow> w < s)"

definition record_mfa_success :: "tenant \<Rightarrow> uuid \<Rightarrow> int \<Rightarrow> auth_db \<Rightarrow> auth_db \<times> bool" where
  "record_mfa_success t uid s db =
     (let p = (\<lambda>u. is_user t uid u \<and> step_is_new s u)
      in (write_users p (\<lambda>u. u\<lparr> usr_mfa_last_step := Some s, usr_mfa_failed := 0, usr_mfa_locked_until := None \<rparr>) db,
          list_ex p (auth_users db)))"

definition pop_recovery_code :: "tenant \<Rightarrow> uuid \<Rightarrow> string \<Rightarrow> auth_db \<Rightarrow> auth_db \<times> bool" where
  "pop_recovery_code t uid h db =
     (let p = (\<lambda>u. is_user t uid u \<and> h \<in> set (usr_recovery_hashes u))
      in (write_users p (\<lambda>u. u\<lparr> usr_recovery_hashes := removeAll h (usr_recovery_hashes u) \<rparr>) db,
          list_ex p (auth_users db)))"

definition mfa_locked_until :: "tenant \<Rightarrow> uuid \<Rightarrow> auth_db \<Rightarrow> instant option" where
  "mfa_locked_until t uid db = (case select_one (is_user t uid) (auth_users db) of
     None \<Rightarrow> None | Some u \<Rightarrow> usr_mfa_locked_until u)"

text \<open>The seconds a locked account still has to wait, at least one.\<close>

definition lockout_wait :: "instant \<Rightarrow> tenant \<Rightarrow> uuid \<Rightarrow> auth_db \<Rightarrow> nat option" where
  "lockout_wait now t uid db = (case mfa_locked_until t uid db of
     None \<Rightarrow> None
   | Some until \<Rightarrow> if now < until then Some (nat (max (until - now) 1)) else None)"

text \<open>A secret as bytes, from its column.\<close>

definition totp_secret :: "auth_env \<Rightarrow> string option \<Rightarrow> (stored_mfa_secret \<times> byte list) app_result" where
  "totp_secret env column = (case column of
     None \<Rightarrow> Inl (Internal ''MFA enabled without secret'')
   | Some c \<Rightarrow> and_then (open_secret env c) (\<lambda>stored.
       case base32_decode (secret_b32 stored) of
         None \<Rightarrow> Inl (Internal ''stored MFA secret is corrupt'')
       | Some bs \<Rightarrow> Inr (stored, bs)))"

definition recovery_factor :: "auth_env \<Rightarrow> instant \<Rightarrow> auth_user \<Rightarrow> string \<Rightarrow> auth_db \<Rightarrow> unit auth_run" where
  "recovery_factor env now user rc db =
     (case pop_recovery_code (usr_tenant user) (usr_id user) (recovery_code_hex_hash env rc) db of
        (db, removed) \<Rightarrow>
          if removed then (clear_mfa_lockout (usr_tenant user) (usr_id user) db, Inr ())
          else (register_failed_mfa now (usr_tenant user) (usr_id user) db, Inl Unauthorized))"

definition totp_factor :: "auth_env \<Rightarrow> fresh \<Rightarrow> instant \<Rightarrow> auth_user \<Rightarrow> string \<Rightarrow> auth_db \<Rightarrow> unit auth_run" where
  "totp_factor env fr now user code db = (case totp_secret env (usr_mfa_secret user) of
     Inl e \<Rightarrow> (db, Inl e)
   | Inr (stored, secret) \<Rightarrow>
       (case (case totp_verify (hmac_of env) secret code now 1 of
                None \<Rightarrow> (db, False)
              | Some s \<Rightarrow> record_mfa_success (usr_tenant user) (usr_id user) s db) of
          (db, accepted) \<Rightarrow>
            if \<not> accepted then (register_failed_mfa now (usr_tenant user) (usr_id user) db, Inl Unauthorized)
            else if needs_upgrade stored
                 then upgrade_legacy_mfa_secret env fr (usr_email user) (secret_b32 stored) db
            else (db, Inr ())))"

text \<open>\<open>True\<close>: the factor is satisfied or not asked for. \<open>False\<close>: no code was sent.\<close>

definition second_factor :: "auth_env \<Rightarrow> fresh \<Rightarrow> instant \<Rightarrow> login_request \<Rightarrow> auth_user \<Rightarrow> auth_db \<Rightarrow> bool auth_run" where
  "second_factor env fr now req user db =
     (if \<not> usr_mfa_enabled user then (db, Inr True)
      else case lockout_wait now (usr_tenant user) (usr_id user) db of
             Some retry_after \<Rightarrow> (db, Inl (RateLimited (Some retry_after)))
           | None \<Rightarrow> (case lr_recovery_code req of
               Some rc \<Rightarrow> then_do (recovery_factor env now user rc db) (\<lambda>_ db. (db, Inr True))
             | None \<Rightarrow> (case lr_mfa_code req of
                 Some code \<Rightarrow> then_do (totp_factor env fr now user code db) (\<lambda>_ db. (db, Inr True))
               | None \<Rightarrow> (db, Inr False))))"

section \<open>Sessions and tokens\<close>

definition create_session :: "auth_env \<Rightarrow> fresh \<Rightarrow> instant \<Rightarrow> tenant \<Rightarrow> uuid \<Rightarrow> client \<Rightarrow> bool \<Rightarrow> auth_db \<Rightarrow> auth_db" where
  "create_session env fr now t uid cl remember_me db = db\<lparr> auth_sessions := auth_sessions db @
     [\<lparr> ses_id = new_session fr, ses_tenant = t, ses_user = uid, ses_token_hash = sha256_hex env (new_token fr),
        ses_ip = cl_ip cl, ses_user_agent = cl_user_agent cl,
        ses_expires_at = now + (if remember_me then 30 else 7) * 86400, ses_last_activity_at = now \<rparr>] \<rparr>"

definition session_is_live :: "instant \<Rightarrow> tenant \<Rightarrow> uuid \<Rightarrow> auth_db \<Rightarrow> bool" where
  "session_is_live now t sid db \<longleftrightarrow>
     list_ex (\<lambda>r. ses_id r = sid \<and> ses_tenant r = t \<and> now < ses_expires_at r) (auth_sessions db)"

definition get_session :: "instant \<Rightarrow> tenant \<Rightarrow> uuid \<Rightarrow> auth_db \<Rightarrow> uuid option" where
  "get_session now t sid db = map_option ses_id
     (select_one (\<lambda>r. ses_id r = sid \<and> ses_tenant r = t \<and> now < ses_expires_at r) (auth_sessions db))"

definition update_session_activity :: "instant \<Rightarrow> tenant \<Rightarrow> uuid \<Rightarrow> auth_db \<Rightarrow> auth_db" where
  "update_session_activity now t sid db = db\<lparr> auth_sessions :=
     update_where (\<lambda>r. ses_id r = sid \<and> ses_tenant r = t) (\<lambda>r. r\<lparr> ses_last_activity_at := now \<rparr>) (auth_sessions db) \<rparr>"

definition update_last_login :: "instant \<Rightarrow> tenant \<Rightarrow> uuid \<Rightarrow> auth_db \<Rightarrow> auth_db" where
  "update_last_login now t uid = write_users (is_user t uid) (\<lambda>u. u\<lparr> usr_last_login_at := Some now \<rparr>)"

definition find_id_by_email_and_tenant :: "auth_db \<Rightarrow> string \<Rightarrow> tenant \<Rightarrow> uuid option" where
  "find_id_by_email_and_tenant db email t = map_option mem_id
     (select_one (\<lambda>m. mem_tenant m = t \<and>
        list_ex (\<lambda>i. idn_id i = mem_identity m \<and> to_lowercase (idn_email i) = to_lowercase email) (identities db))
      (memberships db))"

definition mokosh_jwt_name :: string where "mokosh_jwt_name = ''mokosh-server''"

definition claims_for :: "instant \<Rightarrow> int \<Rightarrow> string \<Rightarrow> uuid option \<Rightarrow> auth_user \<Rightarrow> uuid \<Rightarrow> jwt_claims" where
  "claims_for now ttl typ mid user sid = \<lparr> jwt_sub = usr_id user, jwt_tid = usr_tenant user, jwt_email = usr_email user,
     jwt_role = usr_role user, jwt_iat = now, jwt_nbf = now, jwt_exp = now + ttl, jwt_iss = mokosh_jwt_name,
     jwt_aud = mokosh_jwt_name, jwt_typ = typ, jwt_sid = sid, jwt_mid = mid \<rparr>"

definition generate_tokens :: "auth_env \<Rightarrow> instant \<Rightarrow> auth_user \<Rightarrow> uuid \<Rightarrow> auth_db \<Rightarrow> string \<times> string \<times> instant" where
  "generate_tokens env now user sid db =
     (let mid = find_id_by_email_and_tenant db (usr_email user) (usr_tenant user)
      in (jwt_sign env (claims_for now (access_token_ttl env) ''access'' mid user sid),
          jwt_sign env (claims_for now (refresh_token_ttl env) ''refresh'' mid user sid),
          now + access_token_ttl env))"

definition decode_token :: "auth_env \<Rightarrow> instant \<Rightarrow> string \<Rightarrow> jwt_claims app_result" where
  "decode_token env now tok = (case jwt_open env tok of
     None \<Rightarrow> Inl Unauthorized
   | Some c \<Rightarrow> if jwt_exp c < now - 30 then Inl Unauthorized else Inr c)"

definition session_response :: "auth_env \<Rightarrow> instant \<Rightarrow> auth_user \<Rightarrow> uuid \<Rightarrow> auth_db \<Rightarrow> login_response" where
  "session_response env now user sid db = (case generate_tokens env now user sid db of (access, refresh, expires) \<Rightarrow>
     (empty_response now)\<lparr> resp_access_token := access, resp_refresh_token := refresh, resp_expires_at := expires,
       resp_user := Some (to_current_user user) \<rparr>)"

section \<open>Signing in to a tenant\<close>

definition audit_auth_event :: "auth_user \<Rightarrow> audit_action \<Rightarrow> client \<Rightarrow> auth_db \<Rightarrow> auth_db" where
  "audit_auth_event user action cl db = db\<lparr> auth_audit := audit_write (auth_audit db) (usr_tenant user)
     \<lparr> ctx_tenant = Some (usr_tenant user), ctx_user = Some (usr_id user), ctx_ip = cl_ip cl,
       ctx_user_agent = cl_user_agent cl \<rparr> action ''auth'' (Some (usr_id user)) \<rparr>"

definition login_tenant :: "login_request \<Rightarrow> auth_db \<Rightarrow> tenant app_result" where
  "login_tenant req db = (case lr_tenant_id req of
     Some t \<Rightarrow> Inr t
   | None \<Rightarrow> (case lr_tenant_slug req of
       Some slug \<Rightarrow> if trim slug = [] then Inl Unauthorized else resolve_tenant_slug db (trim slug)
     | None \<Rightarrow> Inl Unauthorized))"

text \<open>The checks of \<open>login\<close> up to the password.\<close>

definition login_principal :: "auth_env \<Rightarrow> instant \<Rightarrow> login_request \<Rightarrow> auth_db \<Rightarrow> auth_user app_result" where
  "login_principal env now req db =
     (if \<not> provider_enabled (auth_providers env) LocalProvider then Inl Unauthorized
      else and_then (login_tenant req db) (\<lambda>t.
           and_then (find_user_by_email_for_tenant db t (lr_email req)) (\<lambda>user.
             if usr_status user \<noteq> UActive then Inl account_not_active
             else if local_password_auth_disabled env then Inl sso_only_rejection
             else and_then (ensure_tenant_active now (usr_tenant user) db) (\<lambda>_. Inr user))))"

definition first_factor :: "auth_env \<Rightarrow> client \<Rightarrow> login_request \<Rightarrow> auth_user \<Rightarrow> auth_db \<Rightarrow> unit auth_run" where
  "first_factor env cl req user db = (case usr_password_hash user of
     None \<Rightarrow> (db, Inl Unauthorized)
   | Some h \<Rightarrow> (case verify_password env (lr_password req) h of
       Inl e \<Rightarrow> (db, Inl e)
     | Inr ok \<Rightarrow> if ok then (db, Inr ()) else (audit_auth_event user ALogin cl db, Inl Unauthorized)))"

text \<open>\<open>None\<close>: a code was mailed and the tokens are withheld.\<close>

definition approval_gate :: "auth_env \<Rightarrow> fresh \<Rightarrow> instant \<Rightarrow> client \<Rightarrow> string option \<Rightarrow> string option \<Rightarrow> auth_user \<Rightarrow> auth_db
    \<Rightarrow> login_assessment option auth_run" where
  "approval_gate env fr now cl device_id approval_code user db =
     (let a = assess_login env user cl device_id db in
      if \<not> as_suspicious a then (db, Inr (Some a))
      else case approval_code of
             Some code \<Rightarrow>
               if trim code \<noteq> []
               then then_do (verify_login_approval env now (usr_tenant user) (usr_id user) code db) (\<lambda>_ db. (db, Inr (Some a)))
               else (issue_login_approval env fr now user a db, Inr None)
           | None \<Rightarrow> (issue_login_approval env fr now user a db, Inr None))"

definition open_session :: "auth_env \<Rightarrow> fresh \<Rightarrow> instant \<Rightarrow> client \<Rightarrow> bool \<Rightarrow> auth_user \<Rightarrow> auth_db \<Rightarrow> login_response auth_run" where
  "open_session env fr now cl remember_me user db =
     (let db = create_session env fr now (usr_tenant user) (usr_id user) cl remember_me db;
          resp = session_response env now user (new_session fr) db
      in (update_last_login now (usr_tenant user) (usr_id user) db, Inr resp))"

text \<open>The rest of a login, once both factors are satisfied.\<close>

definition complete_login :: "auth_env \<Rightarrow> fresh \<Rightarrow> instant \<Rightarrow> login_request \<Rightarrow> client \<Rightarrow> auth_user \<Rightarrow> auth_db \<Rightarrow> login_response auth_run" where
  "complete_login env fr now req cl user db =
     (if login_approval_enabled env then
        then_do (approval_gate env fr now cl (lr_device_id req) (lr_approval_code req) user db) (\<lambda>a db. case a of
            None \<Rightarrow> (db, Inr ((empty_response now)\<lparr> resp_approval_required := True \<rparr>))
          | Some a \<Rightarrow> then_do (open_session env fr now cl (lr_remember_me req) user db) (\<lambda>resp db.
              (audit_auth_event user ALogin cl (record_login_success now user a db), Inr resp)))
      else then_do (open_session env fr now cl (lr_remember_me req) user db) (\<lambda>resp db.
             (audit_auth_event user ALogin cl (check_login_location env user cl db), Inr resp)))"

definition login :: "auth_env \<Rightarrow> fresh \<Rightarrow> instant \<Rightarrow> login_request \<Rightarrow> client \<Rightarrow> auth_db \<Rightarrow> login_response auth_run" where
  "login env fr now req cl db =
     then_do (check (login_principal env now req db) db) (\<lambda>user db.
     then_do (first_factor env cl req user db) (\<lambda>_ db.
     then_do (second_factor env fr now req user db) (\<lambda>satisfied db.
       if \<not> satisfied then (db, Inr ((empty_response now)\<lparr> resp_mfa_required := True \<rparr>))
       else complete_login env fr now req cl user db)))"

section \<open>Staying signed in\<close>

record refresh_response =
  rr_access_token :: string
  rr_refresh_token :: string
  rr_expires_at :: instant

definition refresh_token :: "auth_env \<Rightarrow> instant \<Rightarrow> string \<Rightarrow> auth_db \<Rightarrow> refresh_response auth_run" where
  "refresh_token env now tok db =
     then_do (check (decode_token env now tok) db) (\<lambda>c db.
       if jwt_typ c \<noteq> ''refresh'' then (db, Inl Unauthorized)
       else if get_session now (jwt_tid c) (jwt_sid c) db = None then (db, Inl Unauthorized)
       else then_do (check (get_user_by_id db (jwt_tid c) (jwt_sub c)) db) (\<lambda>user db.
         if usr_status user \<noteq> UActive then (db, Inl account_not_active)
         else then_do (check (ensure_tenant_active now (usr_tenant user) db) db) (\<lambda>_ db.
           case generate_tokens env now user (jwt_sid c) db of (access, refresh, expires) \<Rightarrow>
             (update_session_activity now (jwt_tid c) (jwt_sid c) db,
              Inr \<lparr> rr_access_token = access, rr_refresh_token = refresh, rr_expires_at = expires \<rparr>))))"

definition ensure_user_and_tenant_active :: "instant \<Rightarrow> tenant \<Rightarrow> uuid \<Rightarrow> int \<Rightarrow> uuid \<Rightarrow> auth_db \<Rightarrow> auth_user app_result" where
  "ensure_user_and_tenant_active now t uid iat sid db =
     and_then (get_user_by_id db t uid) (\<lambda>user.
     and_then (ensure_principal_usable now user db) (\<lambda>_.
       if \<not> session_is_live now t sid db then Inl (Forbidden ''Session has been signed out'')
       else case usr_password_changed_at user of
              None \<Rightarrow> Inr user
            | Some changed \<Rightarrow> if iat < changed then Inl Unauthorized else Inr user))"

definition is_user_tombstoned :: "auth_db \<Rightarrow> uuid \<Rightarrow> bool" where
  "is_user_tombstoned db uid = (case select_one (\<lambda>u. usr_id u = uid) (auth_users db) of
     None \<Rightarrow> False | Some u \<Rightarrow> usr_deleted_at u \<noteq> None)"

text \<open>
  What the middleware makes of a bearer token where no Bunyip verifier is mounted: the request goes
  on as a user of a tenant, as nobody, as a deleted account, or is answered with the refusal.
\<close>

datatype bearer_state = Authenticated current_user tenant | Anonymous | DeletedAccount | Refused app_error

definition legacy_bearer :: "auth_env \<Rightarrow> instant \<Rightarrow> string \<Rightarrow> auth_db \<Rightarrow> bearer_state" where
  "legacy_bearer env now tok db = (case decode_token env now tok of
     Inl _ \<Rightarrow> Anonymous
   | Inr c \<Rightarrow>
       if jwt_typ c \<noteq> ''access'' then Anonymous
       else case ensure_user_and_tenant_active now (jwt_tid c) (jwt_sub c) (jwt_iat c) (jwt_sid c) db of
              Inr user \<Rightarrow> Authenticated (to_current_user user) (jwt_tid c)
            | Inl e \<Rightarrow> if is_user_tombstoned db (jwt_sub c) then DeletedAccount else Refused e)"

definition logout :: "uuid \<Rightarrow> auth_db \<Rightarrow> auth_db" where
  "logout sid db = db\<lparr> auth_sessions := delete_where (\<lambda>r. ses_id r = sid) (auth_sessions db) \<rparr>"

definition logout_all :: "tenant \<Rightarrow> uuid \<Rightarrow> auth_db \<Rightarrow> auth_db" where
  "logout_all t uid db = db\<lparr> auth_sessions :=
     delete_where (\<lambda>r. ses_user r = uid \<and> ses_tenant r = t) (auth_sessions db) \<rparr>"

definition delete_session :: "uuid \<Rightarrow> uuid \<Rightarrow> auth_db \<Rightarrow> auth_db" where
  "delete_session uid sid db = db\<lparr> auth_sessions :=
     delete_where (\<lambda>r. ses_id r = sid \<and> ses_user r = uid) (auth_sessions db) \<rparr>"

definition set_user_role :: "tenant \<Rightarrow> uuid \<Rightarrow> user_role \<Rightarrow> auth_db \<Rightarrow> auth_db" where
  "set_user_role t uid role = write_users (is_user t uid) (\<lambda>u. u\<lparr> usr_role := role \<rparr>)"

end
