(* ===== verification/Auth_Accounts.thy ===== *)
theory Auth_Accounts
  imports Auth_Sessions
begin

text \<open>
  The account behind a sign-in: password reset and change, the administration of users, enrolment of
  the second factor, and the identity plane (login without a tenant, the choice of a tenant, the
  switch to another one) of src/src/modules/auth/service.rs, src/src/modules/auth/routes.rs and
  src/src/db/identity.rs. Conventions are those of \<open>Auth_Sessions\<close>.
\<close>

section \<open>Password reset\<close>

text \<open>\<open>split_once('.')\<close>.\<close>

fun split_once :: "char \<Rightarrow> string \<Rightarrow> (string \<times> string) option" where
  "split_once d [] = None"
| "split_once d (c # cs) =
     (if c = d then Some ([], cs) else map_option (\<lambda>(a, b). (c # a, b)) (split_once d cs))"

definition parse_user_bound_token :: "auth_env \<Rightarrow> string \<Rightarrow> (uuid \<times> string) option" where
  "parse_user_bound_token env tok = (case split_once (CHR ''.'') tok of
     None \<Rightarrow> None
   | Some (i, secret) \<Rightarrow>
       if secret = [] then None else map_option (\<lambda>u. (u, secret)) (uuid_parse env i))"

definition store_reset_token :: "auth_env \<Rightarrow> fresh \<Rightarrow> instant \<Rightarrow> tenant \<Rightarrow> uuid \<Rightarrow> int \<Rightarrow> auth_db \<Rightarrow> string auth_run" where
  "store_reset_token env fr now t uid ttl db =
     (case hash_password env (new_salt fr) (new_token fr) of
        Inl e \<Rightarrow> (db, Inl e)
      | Inr h \<Rightarrow>
          (db\<lparr> reset_tokens := reset_tokens db @ [\<lparr> prt_tenant = t, prt_user = uid, prt_token_hash = h,
                 prt_lookup_hash = sha256_hex env (new_token fr), prt_expires_at = now + ttl, prt_used_at = None \<rparr>] \<rparr>,
           Inr (uuid_text env uid @ ''.'' @ new_token fr)))"

definition request_password_reset :: "auth_env \<Rightarrow> fresh \<Rightarrow> instant \<Rightarrow> tenant option \<Rightarrow> string \<Rightarrow> auth_db \<Rightarrow> unit auth_run" where
  "request_password_reset env fr now hint email db =
     (if local_password_auth_disabled env then (db, Inl sso_only_rejection)
      else case find_user_by_email_for_tenant db (resolve_tenant_for_login hint) email of
             Inl _ \<Rightarrow> (db, Inr ())
           | Inr user \<Rightarrow>
               then_do (store_reset_token env fr now (usr_tenant user) (usr_id user) (24 * 3600) db) (\<lambda>tok db.
                 (db\<lparr> auth_outbox := auth_outbox db @ [ResetLink (usr_id user) tok] \<rparr>, Inr ())))"

definition redeemable :: "auth_env \<Rightarrow> instant \<Rightarrow> uuid \<Rightarrow> string \<Rightarrow> auth_db \<Rightarrow> reset_token option" where
  "redeemable env now uid secret db = select_one (\<lambda>r. prt_user r = uid \<and> prt_lookup_hash r = sha256_hex env secret
     \<and> prt_used_at r = None \<and> now < prt_expires_at r) (reset_tokens db)"

definition set_password_context :: "auth_env \<Rightarrow> instant \<Rightarrow> string \<Rightarrow> auth_db \<Rightarrow> (string \<times> string) app_result" where
  "set_password_context env now tok db = (case parse_user_bound_token env tok of
     None \<Rightarrow> Inl (NotFound ''token'')
   | Some (uid, secret) \<Rightarrow>
       (let row = redeemable env now uid secret db;
            verified = (case verify_password_or_dummy env secret (map_option prt_token_hash row) of
                          Inl _ \<Rightarrow> False | Inr ok \<Rightarrow> ok)
        in case row of
             None \<Rightarrow> Inl (NotFound ''token'')
           | Some r \<Rightarrow>
               if \<not> verified then Inl (NotFound ''token'')
               else case select_one (\<lambda>x. ten_id x = prt_tenant r) (auth_tenants db) of
                      None \<Rightarrow> Inl (NotFound ''token'')
                    | Some x \<Rightarrow> Inr (ten_name x, ten_slug x)))"

record reset_request =
  rp_token :: string
  rp_new_password :: string
  rp_confirm_password :: string

definition invalid_reset_token :: app_error where
  "invalid_reset_token = BadRequest ''Invalid or expired reset token''"

definition set_password :: "instant \<Rightarrow> tenant \<Rightarrow> uuid \<Rightarrow> (auth_user \<Rightarrow> auth_user) \<Rightarrow> auth_db \<Rightarrow> auth_db" where
  "set_password now t uid f db = logout_all t uid
     (write_users_unmirrored (is_user t uid) (\<lambda>u. (f u)\<lparr> usr_password_changed_at := Some now \<rparr>) db)"

definition reset_password :: "auth_env \<Rightarrow> fresh \<Rightarrow> instant \<Rightarrow> reset_request \<Rightarrow> auth_db \<Rightarrow> unit auth_run" where
  "reset_password env fr now req db =
     (if local_password_auth_disabled env then (db, Inl sso_only_rejection)
      else if rp_new_password req \<noteq> rp_confirm_password req then (db, Inl (Validation ''confirm_password''))
      else case parse_user_bound_token env (rp_token req) of
             None \<Rightarrow> (db, Inl invalid_reset_token)
           | Some (uid, secret) \<Rightarrow>
               (let row = redeemable env now uid secret db in
                then_do (check (verify_password_or_dummy env secret (map_option prt_token_hash row)) db) (\<lambda>verified db.
                  case row of
                    None \<Rightarrow> (db, Inl invalid_reset_token)
                  | Some r \<Rightarrow>
                      if \<not> verified then (db, Inl invalid_reset_token)
                      else then_do (check (hash_password env (new_salt fr) (rp_new_password req)) db) (\<lambda>h db.
                        let t = prt_tenant r;
                            db = set_password now t uid
                                   (\<lambda>u. u\<lparr> usr_password_hash := Some h, usr_status := UActive \<rparr>) db
                        in (db\<lparr> reset_tokens := update_where
                                  (\<lambda>x. prt_user x = uid \<and> prt_tenant x = t \<and> prt_used_at x = None)
                                  (\<lambda>x. x\<lparr> prt_used_at := Some now \<rparr>) (reset_tokens db) \<rparr>, Inr ())))))"

record change_request =
  cp_current_password :: string
  cp_new_password :: string
  cp_confirm_password :: string

definition change_password :: "auth_env \<Rightarrow> fresh \<Rightarrow> instant \<Rightarrow> tenant \<Rightarrow> uuid \<Rightarrow> change_request \<Rightarrow> auth_db \<Rightarrow> unit auth_run" where
  "change_password env fr now t uid req db =
     (if cp_new_password req \<noteq> cp_confirm_password req then (db, Inl (Validation ''confirm_password''))
      else case select_one (is_user t uid) (auth_users db) of
             None \<Rightarrow> (db, Inl (NotFound ''User''))
           | Some user \<Rightarrow> (case usr_password_hash user of
               None \<Rightarrow> (db, Inl (Forbidden ''This account has no local password set''))
             | Some h \<Rightarrow>
                 then_do (check (verify_password env (cp_current_password req) h) db) (\<lambda>ok db.
                   if \<not> ok then (db, Inl (Validation ''current_password''))
                   else then_do (check (hash_password env (new_salt fr) (cp_new_password req)) db) (\<lambda>h' db.
                     (set_password now t uid (\<lambda>u. u\<lparr> usr_password_hash := Some h' \<rparr>) db, Inr ())))))"

section \<open>Users\<close>

record create_user_request =
  cur_email :: string
  cur_role :: user_role
  cur_send_welcome :: bool

text \<open>
  The trigger on an insert: the first row of an address seeds the identity, and the row gets its seat.
\<close>

definition mirror_insert :: "fresh \<Rightarrow> instant \<Rightarrow> auth_user \<Rightarrow> auth_db \<Rightarrow> auth_db" where
  "mirror_insert fr now u db =
     (let (i, db) = (case identity_of db (usr_email u) of
            Some i \<Rightarrow> (idn_id i, db)
          | None \<Rightarrow> (usr_id u, db\<lparr> identities := identities db @ [\<lparr> idn_id = usr_id u, idn_email = usr_email u,
               idn_password_hash = usr_password_hash u, idn_mfa_enabled = usr_mfa_enabled u,
               idn_mfa_secret = usr_mfa_secret u, idn_last_login_at = usr_last_login_at u,
               idn_mfa_last_totp_step = 0 \<rparr>] \<rparr>))
      in if list_ex (\<lambda>m. mem_identity m = i \<and> mem_tenant m = usr_tenant u) (memberships db)
         then db\<lparr> memberships := update_where (\<lambda>m. mem_identity m = i \<and> mem_tenant m = usr_tenant u)
                    (\<lambda>m. m\<lparr> mem_role := usr_role u, mem_status := usr_status u \<rparr>) (memberships db) \<rparr>
         else db\<lparr> memberships := memberships db @ [\<lparr> mem_id = new_membership fr, mem_identity = i,
                    mem_tenant = usr_tenant u, mem_role = usr_role u, mem_status = usr_status u,
                    mem_joined_at = now \<rparr>] \<rparr>)"

definition create_user :: "auth_env \<Rightarrow> fresh \<Rightarrow> instant \<Rightarrow> tenant \<Rightarrow> create_user_request \<Rightarrow> audit_ctx \<Rightarrow> auth_db \<Rightarrow> auth_user auth_run" where
  "create_user env fr now t req ctx db =
     (if list_ex (\<lambda>u. usr_tenant u = t \<and> usr_email u = cur_email req) (auth_users db)
      then (db, Inl (Conflict ''A user with this email already exists''))
      else
        let u = \<lparr> usr_id = new_user fr, usr_tenant = t, usr_email = cur_email req, usr_password_hash = None,
                  usr_role = cur_role req, usr_status = UPending, usr_mfa_enabled = False, usr_mfa_secret = None,
                  usr_recovery_hashes = [], usr_mfa_failed = 0, usr_mfa_locked_until = None, usr_mfa_last_step = None,
                  usr_password_changed_at = None, usr_last_login_at = None, usr_last_country = None,
                  usr_location_alerts = True, usr_bunyip_user = None, usr_deleted_at = None \<rparr>;
            db = mirror_insert fr now u (db\<lparr> auth_users := auth_users db @ [u],
                   auth_audit := audit_write (auth_audit db) t ctx ACreate ''users'' (Some (new_user fr)) \<rparr>)
        in if cur_send_welcome req \<and> sends_local_account_email env
           then then_do (store_reset_token env fr now t (new_user fr) (7 * 86400) db) (\<lambda>tok db.
                  let db = db\<lparr> auth_outbox := auth_outbox db @ [WelcomeLink (new_user fr) tok] \<rparr>
                  in (db, get_user_by_id db t (new_user fr)))
           else (db, get_user_by_id db t (new_user fr)))"

text \<open>\<open>upd_profile\<close>: a column outside the model is among the fields given.\<close>

record update_user_request =
  upd_email :: "string option"
  upd_role :: "user_role option"
  upd_status :: "user_status option"
  upd_location_alerts :: "bool option"
  upd_profile :: bool

definition apply_user_update :: "update_user_request \<Rightarrow> auth_user \<Rightarrow> auth_user" where
  "apply_user_update req u = u\<lparr>
     usr_email := (case upd_email req of None \<Rightarrow> usr_email u | Some e \<Rightarrow> e),
     usr_role := (case upd_role req of None \<Rightarrow> usr_role u | Some r \<Rightarrow> r),
     usr_status := (case upd_status req of None \<Rightarrow> usr_status u | Some s \<Rightarrow> s),
     usr_location_alerts := (case upd_location_alerts req of None \<Rightarrow> usr_location_alerts u | Some b \<Rightarrow> b) \<rparr>"

definition update_user :: "tenant \<Rightarrow> uuid \<Rightarrow> update_user_request \<Rightarrow> audit_ctx \<Rightarrow> auth_db \<Rightarrow> auth_user auth_run" where
  "update_user t uid req ctx db =
     (if upd_email req = None \<and> upd_role req = None \<and> upd_status req = None \<and> upd_location_alerts req = None
         \<and> \<not> upd_profile req
      then (db, get_user_by_id db t uid)
      else if list_ex (is_user t uid) (auth_users db)
           \<and> list_ex (\<lambda>u. usr_tenant u = t \<and> usr_id u \<noteq> uid \<and> Some (usr_email u) = upd_email req) (auth_users db)
      then (db, Inl (Conflict ''That record already exists''))
      else let db = write_users (is_user t uid) (apply_user_update req) db;
               db = db\<lparr> auth_audit := audit_write (auth_audit db) t ctx AUpdate ''users'' (Some uid) \<rparr>
           in (db, get_user_by_id db t uid))"

text \<open>The handlers add the permission check and the role ceiling.\<close>

definition no_permission :: app_error where
  "no_permission = Forbidden ''You do not have permission to do that''"

definition create_user_route :: "auth_env \<Rightarrow> fresh \<Rightarrow> instant \<Rightarrow> current_user \<Rightarrow> create_user_request \<Rightarrow> audit_ctx \<Rightarrow> auth_db
    \<Rightarrow> auth_user auth_run" where
  "create_user_route env fr now caller req ctx db =
     (if \<not> is_admin (cu_role caller) then (db, Inl no_permission)
      else if \<not> can_grant (cu_role caller) (cur_role req)
           then (db, Inl (Forbidden ''Cannot create a user with a role above your own''))
      else create_user env fr now (cu_tenant caller) req ctx db)"

definition update_user_route :: "current_user \<Rightarrow> uuid \<Rightarrow> update_user_request \<Rightarrow> audit_ctx \<Rightarrow> auth_db \<Rightarrow> auth_user auth_run" where
  "update_user_route caller uid req ctx db =
     (if \<not> is_admin (cu_role caller) then (db, Inl no_permission)
      else if (case upd_role req of None \<Rightarrow> False | Some r \<Rightarrow> \<not> can_grant (cu_role caller) r)
           then (db, Inl (Forbidden ''Cannot assign a role above your own''))
      else update_user (cu_tenant caller) uid req ctx db)"

section \<open>Enrolling the second factor\<close>

definition write_mfa_enabled :: "string \<Rightarrow> bool \<Rightarrow> auth_db \<Rightarrow> auth_db" where
  "write_mfa_enabled email enabled db =
     (let db = write_users (\<lambda>u. to_lowercase (usr_email u) = to_lowercase email) (\<lambda>u. u\<lparr> usr_mfa_enabled := enabled \<rparr>) db
      in db\<lparr> identities := update_where (\<lambda>i. to_lowercase (idn_email i) = to_lowercase email)
               (\<lambda>i. i\<lparr> idn_mfa_enabled := enabled, idn_mfa_last_totp_step := 0 \<rparr>) (identities db) \<rparr>)"

definition start_mfa_enrollment :: "auth_env \<Rightarrow> fresh \<Rightarrow> tenant \<Rightarrow> uuid \<Rightarrow> auth_db \<Rightarrow> string auth_run" where
  "start_mfa_enrollment env fr t uid db =
     then_do (check (get_user_by_id db t uid) db) (\<lambda>user db.
       if usr_mfa_enabled user then (db, Inl (Conflict ''MFA is already enabled''))
       else let b32 = base32_encode (new_totp_secret fr) in
            then_do (check (seal_secret env (new_nonce fr) b32) db) (\<lambda>sealed db.
              (write_mfa_secret (usr_email user) (Some sealed) None db, Inr b32)))"

definition enable_mfa :: "auth_env \<Rightarrow> fresh \<Rightarrow> instant \<Rightarrow> tenant \<Rightarrow> uuid \<Rightarrow> string \<Rightarrow> auth_db \<Rightarrow> string list auth_run" where
  "enable_mfa env fr now t uid code db =
     then_do (check (get_user_by_id db t uid) db) (\<lambda>user db.
       if usr_mfa_secret user = None then (db, Inl (BadRequest ''MFA enrollment has not been started''))
       else then_do (check (totp_secret env (usr_mfa_secret user)) db) (\<lambda>(stored, secret) db.
         if totp_verify (hmac_of env) secret code now 1 = None then (db, Inl (BadRequest ''Invalid MFA code''))
         else then_do (if needs_upgrade stored
                       then upgrade_legacy_mfa_secret env fr (usr_email user) (secret_b32 stored) db
                       else (db, Inr ())) (\<lambda>_ db.
           (write_users (is_user t uid)
              (\<lambda>u. u\<lparr> usr_recovery_hashes := map (recovery_code_hex_hash env) (new_recovery fr) \<rparr>)
              (write_mfa_enabled (usr_email user) True db), Inr (new_recovery fr)))))"

definition disable_mfa :: "auth_env \<Rightarrow> tenant \<Rightarrow> uuid \<Rightarrow> string \<Rightarrow> auth_db \<Rightarrow> unit auth_run" where
  "disable_mfa env t uid password db =
     then_do (check (get_user_by_id db t uid) db) (\<lambda>user db.
       case usr_password_hash user of
         None \<Rightarrow> (db, Inl (BadRequest ''This account has no password''))
       | Some h \<Rightarrow> then_do (check (verify_password env password h) db) (\<lambda>ok db.
           if \<not> ok then (db, Inl Unauthorized)
           else (write_mfa_secret (usr_email user) None None
                  (write_users (is_user t uid) (\<lambda>u. u\<lparr> usr_recovery_hashes := [] \<rparr>)
                    (write_mfa_enabled (usr_email user) False db)), Inr ())))"

section \<open>Signing in without a tenant\<close>

definition mint_identity_token :: "auth_env \<Rightarrow> instant \<Rightarrow> uuid \<Rightarrow> string \<Rightarrow> string" where
  "mint_identity_token env now i email = jwt_sign env \<lparr> jwt_sub = i, jwt_tid = 0, jwt_email = email,
     jwt_role = Technician, jwt_iat = now, jwt_nbf = now, jwt_exp = now + 300, jwt_iss = mokosh_jwt_name,
     jwt_aud = mokosh_jwt_name, jwt_typ = ''identity'', jwt_sid = 0, jwt_mid = None \<rparr>"

definition decode_identity_token :: "auth_env \<Rightarrow> instant \<Rightarrow> string \<Rightarrow> (uuid \<times> string) app_result" where
  "decode_identity_token env now tok = and_then (decode_token env now tok) (\<lambda>c.
     if jwt_typ c \<noteq> ''identity'' then Inl Unauthorized else Inr (jwt_sub c, jwt_email c))"

text \<open>The grant arm is collected first; an own seat in a tenant it names is skipped.\<close>

definition names_grantee :: "auth_db \<Rightarrow> identity \<Rightarrow> account_grant \<Rightarrow> bool" where
  "names_grantee db i g \<longleftrightarrow>
     (gra_grantee_user g \<noteq> None
       \<and> list_ex (\<lambda>u. to_lowercase (usr_email u) = to_lowercase (idn_email i) \<and> usr_bunyip_user u = gra_grantee_user g
            \<and> usr_deleted_at u = None) (auth_users db))
     \<or> (case gra_grantee_email g of None \<Rightarrow> False | Some e \<Rightarrow> to_lowercase (idn_email i) = to_lowercase e)"

definition grant_views :: "auth_db \<Rightarrow> identity \<Rightarrow> membership_view list" where
  "grant_views db i = concat (map (\<lambda>g. case gra_role g of
       None \<Rightarrow> []
     | Some r \<Rightarrow> map (\<lambda>x. \<lparr> mv_tenant = ten_id x, mv_role = r, mv_status = ''active'', mv_grant = Some (gra_id g) \<rparr>)
                   (filter (\<lambda>x. ten_slug x = gra_account g) (auth_tenants db)))
     (sort_key gra_granted_at (filter (\<lambda>g. gra_revoked_at g = None \<and> names_grantee db i g) (account_grants db))))"

definition owner_views :: "auth_db \<Rightarrow> identity \<Rightarrow> membership_view list" where
  "owner_views db i = map (\<lambda>m. \<lparr> mv_tenant = mem_tenant m, mv_role = mem_role m,
       mv_status = user_status_as_str (mem_status m), mv_grant = None \<rparr>)
     (sort_key mem_joined_at (filter (\<lambda>m. mem_identity m = idn_id i \<and> mem_status m = UActive
        \<and> list_ex (\<lambda>x. ten_id x = mem_tenant m) (auth_tenants db)) (memberships db)))"

definition list_views_for_identity :: "auth_db \<Rightarrow> identity \<Rightarrow> membership_view list" where
  "list_views_for_identity db i = foldl (\<lambda>vs v. if list_ex (\<lambda>w. mv_tenant w = mv_tenant v) vs then vs else vs @ [v])
     (grant_views db i) (owner_views db i)"

text \<open>The seats whose users row has the password, each with that row. A failed check counts as no match.\<close>

definition seat_user :: "auth_env \<Rightarrow> auth_db \<Rightarrow> string \<Rightarrow> string \<Rightarrow> membership_view \<Rightarrow> auth_user option" where
  "seat_user env db email password v = (case find_user_by_email_for_tenant db (mv_tenant v) email of
     Inl _ \<Rightarrow> None
   | Inr user \<Rightarrow> (case usr_password_hash user of
       None \<Rightarrow> None
     | Some h \<Rightarrow> if verify_password env password h = Inr True then Some user else None))"

definition matching_seats :: "auth_env \<Rightarrow> auth_db \<Rightarrow> string \<Rightarrow> string \<Rightarrow> membership_view list \<Rightarrow> (membership_view \<times> auth_user) list" where
  "matching_seats env db email password vs = List.map_filter (\<lambda>v. map_option (Pair v) (seat_user env db email password v)) vs"

definition record_identity_mfa_success :: "uuid \<Rightarrow> int \<Rightarrow> auth_db \<Rightarrow> auth_db \<times> bool" where
  "record_identity_mfa_success i s db =
     (let p = (\<lambda>j. idn_id j = i \<and> idn_mfa_last_totp_step j < s)
      in (db\<lparr> identities := update_where p (\<lambda>j. j\<lparr> idn_mfa_last_totp_step := s \<rparr>) (identities db) \<rparr>,
          list_ex p (identities db)))"

definition identity_factor :: "auth_env \<Rightarrow> fresh \<Rightarrow> instant \<Rightarrow> login_request \<Rightarrow> identity \<Rightarrow> auth_db \<Rightarrow> bool auth_run" where
  "identity_factor env fr now req i db =
     (if \<not> idn_mfa_enabled i then (db, Inr True)
      else case lr_mfa_code req of
             None \<Rightarrow> (db, Inr False)
           | Some code \<Rightarrow>
               if trim code = [] then (db, Inr False)
               else then_do (check (totp_secret env (idn_mfa_secret i)) db) (\<lambda>(stored, secret) db.
                 case totp_verify (hmac_of env) secret (trim code) now 1 of
                   None \<Rightarrow> (db, Inl Unauthorized)
                 | Some s \<Rightarrow> (case record_identity_mfa_success (idn_id i) s db of (db, advanced) \<Rightarrow>
                     if \<not> advanced then (db, Inl Unauthorized)
                     else then_do (if needs_upgrade stored
                                   then upgrade_legacy_mfa_secret env fr (idn_email i) (secret_b32 stored) db
                                   else (db, Inr ())) (\<lambda>_ db. (db, Inr True)))))"

definition check_login_approval :: "auth_env \<Rightarrow> fresh \<Rightarrow> instant \<Rightarrow> client \<Rightarrow> string option \<Rightarrow> string option \<Rightarrow> auth_user \<Rightarrow> auth_db
    \<Rightarrow> login_response option auth_run" where
  "check_login_approval env fr now cl device_id approval_code user db =
     (if \<not> login_approval_enabled env then (db, Inr None)
      else then_do (approval_gate env fr now cl device_id approval_code user db) (\<lambda>a db.
        (db, Inr (case a of Some _ \<Rightarrow> None | None \<Rightarrow> Some ((empty_response now)\<lparr> resp_approval_required := True \<rparr>)))))"

definition mint_session_for_user :: "auth_env \<Rightarrow> fresh \<Rightarrow> instant \<Rightarrow> client \<Rightarrow> auth_user \<Rightarrow> auth_db \<Rightarrow> login_response auth_run" where
  "mint_session_for_user env fr now cl user db = open_session env fr now cl False user db"

definition mint_session_for_membership :: "auth_env \<Rightarrow> fresh \<Rightarrow> instant \<Rightarrow> client \<Rightarrow> tenant \<Rightarrow> string \<Rightarrow> auth_db \<Rightarrow> login_response auth_run" where
  "mint_session_for_membership env fr now cl t email db =
     then_do (check (find_user_by_email_for_tenant db t email) db) (\<lambda>user db.
     then_do (check (ensure_principal_usable now user db) db) (\<lambda>_ db.
       mint_session_for_user env fr now cl user db))"

text \<open>The first factor of the identity plane: the seats the password opens; none where there is no seat at all.\<close>

definition identity_password :: "auth_env \<Rightarrow> login_request \<Rightarrow> identity \<Rightarrow> auth_db \<Rightarrow> (membership_view \<times> auth_user) list app_result" where
  "identity_password env req i db =
     (let all = list_views_for_identity db i in
      if all = [] then
        (case idn_password_hash i of
           None \<Rightarrow> Inl Unauthorized
         | Some h \<Rightarrow> and_then (verify_password env (lr_password req) h) (\<lambda>ok. if ok then Inr [] else Inl Unauthorized))
      else let matched = matching_seats env db (idn_email i) (lr_password req) all
           in if matched = [] then Inl Unauthorized else Inr matched)"

text \<open>The branch on how many seats the password opens: set up, enter the one, or choose.\<close>

definition enter_seat :: "auth_env \<Rightarrow> fresh \<Rightarrow> instant \<Rightarrow> login_request \<Rightarrow> client \<Rightarrow> auth_user \<Rightarrow> auth_db \<Rightarrow> login_response auth_run" where
  "enter_seat env fr now req cl user db =
     then_do (check (ensure_principal_usable now user db) db) (\<lambda>_ db.
     then_do (check_login_approval env fr now cl (lr_device_id req) (lr_approval_code req) user db) (\<lambda>withheld db.
       case withheld of
         Some resp \<Rightarrow> (db, Inr resp)
       | None \<Rightarrow> mint_session_for_user env fr now cl user db))"

definition scope_login :: "auth_env \<Rightarrow> fresh \<Rightarrow> instant \<Rightarrow> login_request \<Rightarrow> client \<Rightarrow> identity
    \<Rightarrow> (membership_view \<times> auth_user) list \<Rightarrow> auth_db \<Rightarrow> login_response auth_run" where
  "scope_login env fr now req cl i matched db =
     (let identity_token = mint_identity_token env now (idn_id i) (idn_email i) in
      case matched of
        [] \<Rightarrow> (db, Inr ((empty_response now)\<lparr> resp_needs_setup := True, resp_identity_token := Some identity_token \<rparr>))
      | [(v, user)] \<Rightarrow> enter_seat env fr now req cl user db
      | _ \<Rightarrow> (db, Inr ((empty_response now)\<lparr> resp_needs_selection := True, resp_identity_token := Some identity_token,
                resp_memberships := Some (map fst matched) \<rparr>)))"

definition authenticate_identity_first :: "auth_env \<Rightarrow> fresh \<Rightarrow> instant \<Rightarrow> login_request \<Rightarrow> client \<Rightarrow> auth_db \<Rightarrow> login_response auth_run" where
  "authenticate_identity_first env fr now req cl db = (case identity_of db (lr_email req) of
     None \<Rightarrow> (db, Inl Unauthorized)
   | Some i \<Rightarrow>
       then_do (check (identity_password env req i db) db) (\<lambda>matched db.
       then_do (identity_factor env fr now req i db) (\<lambda>satisfied db.
         if \<not> satisfied then (db, Inr ((empty_response now)\<lparr> resp_mfa_required := True \<rparr>))
         else scope_login env fr now req cl i matched db)))"

definition select_tenant_for_identity :: "auth_env \<Rightarrow> fresh \<Rightarrow> instant \<Rightarrow> client \<Rightarrow> string \<Rightarrow> tenant \<Rightarrow> auth_db \<Rightarrow> login_response auth_run" where
  "select_tenant_for_identity env fr now cl tok t db =
     then_do (check (decode_identity_token env now tok) db) (\<lambda>(i, email) db.
       case select_one (\<lambda>m. mem_identity m = i \<and> mem_tenant m = t) (memberships db) of
         None \<Rightarrow> (db, Inl (NotFound ''Membership in this tenant''))
       | Some m \<Rightarrow>
           if mem_status m \<noteq> UActive then (db, Inl (NotFound ''Membership is not active''))
           else mint_session_for_membership env fr now cl t email db)"

definition has_tenant_hint :: "login_request \<Rightarrow> bool" where
  "has_tenant_hint req \<longleftrightarrow> lr_tenant_id req \<noteq> None
     \<or> trim (case lr_tenant_slug req of None \<Rightarrow> [] | Some s \<Rightarrow> s) \<noteq> []"

text \<open>The dispatch of the login handler, after its rate limiter.\<close>

definition login_route :: "auth_env \<Rightarrow> fresh \<Rightarrow> instant \<Rightarrow> login_request \<Rightarrow> client \<Rightarrow> auth_db \<Rightarrow> login_response auth_run" where
  "login_route env fr now req cl db =
     (if has_tenant_hint req then login env fr now req cl db
      else authenticate_identity_first env fr now req cl db)"

definition switch_tenant :: "auth_env \<Rightarrow> fresh \<Rightarrow> instant \<Rightarrow> client \<Rightarrow> current_user \<Rightarrow> tenant \<Rightarrow> auth_db \<Rightarrow> login_response auth_run" where
  "switch_tenant env fr now cl caller t db =
     (let seats = (case identity_of db (cu_email caller) of None \<Rightarrow> [] | Some i \<Rightarrow> list_views_for_identity db i) in
      if list_ex (\<lambda>v. mv_tenant v = t \<and> mv_status v = ''active'') seats
      then mint_session_for_membership env fr now cl t (cu_email caller) db
      else (db, Inl (NotFound ''No active membership in the requested tenant'')))"

end
