(* ===== verification/Auth_Invariants.thy ===== *)
theory Auth_Invariants
  imports Auth_Accounts
begin

text \<open>
  What every operation of the auth service keeps: the rows of the users table keep their identity
  and their TOTP watermark never falls (\<open>users_evolve\<close>), and the tables refer to each other as their
  keys and foreign keys say (\<open>auth_ok\<close>). \<open>auth_step\<close> is one operation of the service, \<open>auth_step\<^sup>*\<^sup>*\<close> any
  sequence of them.
\<close>

named_theorems auth_frame \<open>tables that a write leaves alone\<close>

section \<open>Frames\<close>

lemma mirror_update_frame [auth_frame]:
  "auth_users (mirror_update u db) = auth_users db" "auth_sessions (mirror_update u db) = auth_sessions db"
  "login_approvals (mirror_update u db) = login_approvals db" "login_devices (mirror_update u db) = login_devices db"
  "reset_tokens (mirror_update u db) = reset_tokens db" "auth_tenants (mirror_update u db) = auth_tenants db"
  "entitlements (mirror_update u db) = entitlements db" "account_grants (mirror_update u db) = account_grants db"
  by (simp_all add: mirror_update_def split: option.split)

lemma fold_frame: "(\<And>x s. g (f x s) = g s) \<Longrightarrow> g (fold f xs s) = g s"
  by (induction xs arbitrary: s) simp_all

lemma write_users_frame [auth_frame]:
  "auth_users (write_users p f db) = update_where p f (auth_users db)"
  "auth_sessions (write_users p f db) = auth_sessions db"
  "login_approvals (write_users p f db) = login_approvals db" "login_devices (write_users p f db) = login_devices db"
  "reset_tokens (write_users p f db) = reset_tokens db" "auth_tenants (write_users p f db) = auth_tenants db"
  "entitlements (write_users p f db) = entitlements db" "account_grants (write_users p f db) = account_grants db"
  by (simp_all add: write_users_def fold_frame auth_frame)

section \<open>How a users row may change\<close>

definition step_le :: "int option \<Rightarrow> int option \<Rightarrow> bool" where
  "step_le a b = (case a of None \<Rightarrow> True | Some x \<Rightarrow> (case b of None \<Rightarrow> False | Some y \<Rightarrow> x \<le> y))"

definition user_le :: "auth_user \<Rightarrow> auth_user \<Rightarrow> bool" where
  "user_le u v \<longleftrightarrow> usr_id v = usr_id u \<and> usr_tenant v = usr_tenant u \<and> step_le (usr_mfa_last_step u) (usr_mfa_last_step v)
     \<and> (0 \<le> usr_mfa_failed u \<longrightarrow> 0 \<le> usr_mfa_failed v)"

text \<open>The rows a state starts with are still there, in place, and rows may have been added.\<close>

definition users_evolve :: "auth_user list \<Rightarrow> auth_user list \<Rightarrow> bool" where
  "users_evolve us vs \<longleftrightarrow> (\<exists>vs1 vs2. vs = vs1 @ vs2 \<and> list_all2 user_le us vs1)"

lemma user_le_refl [simp]: "user_le u u"
  by (simp add: user_le_def step_le_def split: option.split)

lemma user_le_trans: "user_le u v \<Longrightarrow> user_le v w \<Longrightarrow> user_le u w"
  by (auto simp: user_le_def step_le_def split: option.splits)

lemma users_evolve_refl [simp]: "users_evolve us us"
proof -
  have "us = us @ []" "list_all2 user_le us us" by (simp_all add: list.rel_refl)
  then show ?thesis unfolding users_evolve_def by blast
qed

lemma users_evolve_trans:
  assumes "users_evolve us vs" and "users_evolve vs ws" shows "users_evolve us ws"
proof -
  obtain v1 v2 where v: "vs = v1 @ v2" "list_all2 user_le us v1" using assms(1) by (auto simp: users_evolve_def)
  obtain w1 w2 where w: "ws = w1 @ w2" "list_all2 user_le vs w1" using assms(2) by (auto simp: users_evolve_def)
  then obtain w3 w4 where "w1 = w3 @ w4" "list_all2 user_le v1 w3" using v(1) by (auto simp: list_all2_append1)
  moreover have "list_all2 user_le us w3"
    using list_all2_trans [of user_le user_le user_le] user_le_trans v(2) calculation(2) by blast
  ultimately show ?thesis using w(1) by (auto simp: users_evolve_def)
qed

lemma users_evolve_update:
  assumes "\<And>u. p u \<Longrightarrow> user_le u (f u)" shows "users_evolve us (update_where p f us)"
proof -
  have "list_all2 user_le us (update_where p f us)"
    using assms by (auto simp: update_where_def list_all2_conv_all_nth)
  then show ?thesis by (auto simp: users_evolve_def)
qed

lemma users_evolve_append: "users_evolve us (us @ vs)"
proof -
  have "list_all2 user_le us us" by (simp add: list.rel_refl)
  then show ?thesis unfolding users_evolve_def by blast
qed

lemma users_evolve_member:
  assumes "users_evolve us vs" and "u \<in> set us" obtains v where "v \<in> set vs" and "user_le u v"
proof -
  obtain vs1 vs2 where v: "vs = vs1 @ vs2" "list_all2 user_le us vs1" using assms(1) by (auto simp: users_evolve_def)
  then obtain v where "v \<in> set vs1" "user_le u v"
    using assms(2) by (metis in_set_conv_nth list_all2_conv_all_nth)
  with v that show thesis by auto
qed

definition user_keys :: "auth_user list \<Rightarrow> (uuid \<times> tenant) set" where
  "user_keys us = (\<lambda>u. (usr_id u, usr_tenant u)) ` set us"

lemma users_evolve_keys: "users_evolve us vs \<Longrightarrow> user_keys us \<subseteq> user_keys vs"
proof
  fix k assume e: "users_evolve us vs" and "k \<in> user_keys us"
  then obtain u where u: "u \<in> set us" "k = (usr_id u, usr_tenant u)" by (auto simp: user_keys_def)
  from e u(1) obtain v where "v \<in> set vs" "user_le u v" by (rule users_evolve_member)
  with u(2) show "k \<in> user_keys vs" by (auto simp: user_keys_def user_le_def intro!: image_eqI [of _ _ v])
qed

section \<open>The tables agree\<close>

definition unconsumed :: "login_approval \<Rightarrow> bool" where
  "unconsumed r \<longleftrightarrow> lap_consumed_at r = None"

definition auth_ok :: "auth_db \<Rightarrow> bool" where
  "auth_ok db \<longleftrightarrow>
     distinct (map usr_id (auth_users db))
     \<and> distinct (map (\<lambda>u. (usr_tenant u, usr_email u)) (auth_users db))
     \<and> (\<forall>u \<in> set (auth_users db). 0 \<le> usr_mfa_failed u)
     \<and> distinct (map ses_id (auth_sessions db))
     \<and> (\<forall>r \<in> set (auth_sessions db). (ses_user r, ses_tenant r) \<in> user_keys (auth_users db))
     \<and> (\<forall>r \<in> set (reset_tokens db). (prt_user r, prt_tenant r) \<in> user_keys (auth_users db))
     \<and> (\<forall>d \<in> set (login_devices db). (dev_user d, dev_tenant d) \<in> user_keys (auth_users db))
     \<and> distinct (map lap_id (login_approvals db))
     \<and> (\<forall>r \<in> set (login_approvals db). (lap_user r, lap_tenant r) \<in> user_keys (auth_users db)
          \<and> 0 \<le> lap_attempts r \<and> lap_attempts r < login_approval_max_attempts)
     \<and> distinct (map (\<lambda>r. (lap_user r, lap_tenant r)) (filter unconsumed (login_approvals db)))
     \<and> distinct (map ent_tenant (entitlements db))"


lemma auth_ok_same_tables:
  assumes "auth_users db' = auth_users db" "auth_sessions db' = auth_sessions db" "login_approvals db' = login_approvals db"
    "login_devices db' = login_devices db" "reset_tokens db' = reset_tokens db" "entitlements db' = entitlements db"
  shows "auth_ok db' = auth_ok db"
  using assms by (simp add: auth_ok_def)

text \<open>What one transaction may do: evolve the users table and keep the tables in agreement.\<close>

definition auth_safe :: "auth_db \<Rightarrow> auth_db \<Rightarrow> bool" where
  "auth_safe db db' \<longleftrightarrow> users_evolve (auth_users db) (auth_users db') \<and> (auth_ok db \<longrightarrow> auth_ok db')"

lemma auth_safe_refl [simp, intro]: "auth_safe db db"
  by (simp add: auth_safe_def)

lemma auth_safe_trans [trans]: "auth_safe a b \<Longrightarrow> auth_safe b c \<Longrightarrow> auth_safe a c"
  by (auto simp: auth_safe_def intro: users_evolve_trans)

lemma auth_safe_then_do:
  assumes "auth_safe db (fst m)" and "\<And>a. snd m = Inr a \<Longrightarrow> auth_safe (fst m) (fst (k a (fst m)))"
  shows "auth_safe db (fst (then_do m k))"
  using assms by (intro then_do_keeps [where P = "auth_safe db"]) (auto intro: auth_safe_trans)

lemma auth_safe_same_tables:
  assumes "auth_users db' = auth_users db" "auth_sessions db' = auth_sessions db" "login_approvals db' = login_approvals db"
    "login_devices db' = login_devices db" "reset_tokens db' = reset_tokens db" "entitlements db' = entitlements db"
  shows "auth_safe db db'"
  using assms auth_ok_same_tables [of db' db] by (simp add: auth_safe_def)

text \<open>A write to the users table that keeps keys and addresses.\<close>

definition row_write :: "(auth_user \<Rightarrow> auth_user) \<Rightarrow> bool" where
  "row_write f \<longleftrightarrow> (\<forall>u. usr_id (f u) = usr_id u \<and> usr_tenant (f u) = usr_tenant u \<and> usr_email (f u) = usr_email u)"

lemma user_keys_update:
  assumes "\<And>u. p u \<Longrightarrow> usr_id (f u) = usr_id u \<and> usr_tenant (f u) = usr_tenant u"
  shows "user_keys (update_where p f us) = user_keys us"
proof -
  have "map (\<lambda>u. (usr_id u, usr_tenant u)) (update_where p f us) = map (\<lambda>u. (usr_id u, usr_tenant u)) us"
    using assms by (intro map_update_where) simp
  then show ?thesis unfolding user_keys_def by (metis list.set_map)
qed

lemma auth_ok_users:
  assumes "auth_ok db" "row_write f" "\<And>u. p u \<Longrightarrow> 0 \<le> usr_mfa_failed u \<Longrightarrow> 0 \<le> usr_mfa_failed (f u)"
  shows "auth_ok (db\<lparr> auth_users := update_where p f (auth_users db) \<rparr>)"
proof -
  have "user_keys (update_where p f (auth_users db)) = user_keys (auth_users db)"
    using assms(2) by (intro user_keys_update) (simp add: row_write_def)
  moreover have "map usr_id (update_where p f (auth_users db)) = map usr_id (auth_users db)"
    "map (\<lambda>u. (usr_tenant u, usr_email u)) (update_where p f (auth_users db))
       = map (\<lambda>u. (usr_tenant u, usr_email u)) (auth_users db)"
    using assms(2) by (intro map_update_where; simp add: row_write_def)+
  ultimately show ?thesis using assms by (auto simp: auth_ok_def set_update_where)
qed

lemma auth_safe_write:
  assumes "row_write f" "\<And>u. p u \<Longrightarrow> user_le u (f u)"
  shows "auth_safe db (write_users p f db)" and "auth_safe db (write_users_unmirrored p f db)"
proof -
  have u: "users_evolve (auth_users db) (update_where p f (auth_users db))"
    using assms(2) by (rule users_evolve_update)
  have "auth_ok (db\<lparr> auth_users := update_where p f (auth_users db) \<rparr>)" if "auth_ok db"
    using that assms by (intro auth_ok_users) (auto simp: user_le_def)
  then have "auth_ok db \<longrightarrow> auth_ok (write_users_unmirrored p f db)" by (simp add: write_users_unmirrored_def)
  moreover have "auth_ok (write_users p f db) = auth_ok (write_users_unmirrored p f db)"
    by (rule auth_ok_same_tables) (simp_all add: auth_frame write_users_unmirrored_def)
  ultimately show "auth_safe db (write_users p f db)" "auth_safe db (write_users_unmirrored p f db)"
    using u by (simp_all add: auth_safe_def auth_frame write_users_unmirrored_def)
qed

section \<open>The transactions of the service\<close>

lemma step_le_refl [simp]: "step_le a a"
  by (simp add: step_le_def split: option.split)

lemma safe_write_simple:
  assumes "row_write f" "\<And>u. usr_mfa_last_step (f u) = usr_mfa_last_step u" "\<And>u. 0 \<le> usr_mfa_failed u \<Longrightarrow> 0 \<le> usr_mfa_failed (f u)"
  shows "auth_safe db (write_users p f db)" and "auth_safe db (write_users_unmirrored p f db)"
  using assms by (intro auth_safe_write; simp add: user_le_def row_write_def)+

lemma register_failed_safe: "auth_safe db (register_failed_mfa now t uid db)"
  unfolding register_failed_mfa_def by (rule safe_write_simple) (simp_all add: row_write_def)

lemma clear_lockout_safe: "auth_safe db (clear_mfa_lockout t uid db)"
  unfolding clear_mfa_lockout_def by (rule safe_write_simple) (simp_all add: row_write_def)

lemma set_country_safe: "auth_safe db (set_last_login_country t uid c db)"
  unfolding set_last_login_country_def by (rule safe_write_simple) (simp_all add: row_write_def)

lemma last_login_safe: "auth_safe db (update_last_login now t uid db)"
  unfolding update_last_login_def by (rule safe_write_simple) (simp_all add: row_write_def)

lemma set_role_safe: "auth_safe db (set_user_role t uid r db)"
  unfolding set_user_role_def by (rule safe_write_simple) (simp_all add: row_write_def)

lemma pop_recovery_safe: "auth_safe db (fst (pop_recovery_code t uid h db))"
  unfolding pop_recovery_code_def Let_def fst_conv by (rule safe_write_simple) (simp_all add: row_write_def)

lemma mfa_success_safe: "auth_safe db (fst (record_mfa_success t uid s db))"
  unfolding record_mfa_success_def Let_def fst_conv
  by (rule auth_safe_write) (auto simp: row_write_def user_le_def step_le_def step_is_new_def split: option.splits)

lemma write_secret_safe: "auth_safe db (write_mfa_secret email v prev db)"
proof -
  let ?db = "db\<lparr> identities := update_where
      (\<lambda>i. to_lowercase (idn_email i) = to_lowercase email \<and> (prev \<noteq> None \<longrightarrow> idn_mfa_secret i = prev))
      (\<lambda>i. i\<lparr> idn_mfa_secret := v \<rparr>) (identities db) \<rparr>"
  have "auth_safe db ?db" by (rule auth_safe_same_tables) simp_all
  also have "auth_safe ?db (write_mfa_secret email v prev db)"
    unfolding write_mfa_secret_def Let_def by (rule safe_write_simple) (simp_all add: row_write_def)
  finally show ?thesis .
qed

lemma upgrade_safe: "auth_safe db (fst (upgrade_legacy_mfa_secret env fr email b32 db))"
  by (simp add: upgrade_legacy_mfa_secret_def write_secret_safe split: sum.split)

lemma write_enabled_safe: "auth_safe db (write_mfa_enabled email b db)"
proof -
  let ?db = "write_users (\<lambda>u. to_lowercase (usr_email u) = to_lowercase email) (\<lambda>u. u\<lparr> usr_mfa_enabled := b \<rparr>) db"
  have "auth_safe db ?db" by (rule safe_write_simple) (simp_all add: row_write_def)
  also have "auth_safe ?db (write_mfa_enabled email b db)"
    by (rule auth_safe_same_tables) (simp_all add: write_mfa_enabled_def Let_def)
  finally show ?thesis .
qed

lemma logout_safe:
  "auth_safe db (logout sid db)" "auth_safe db (logout_all t uid db)" "auth_safe db (delete_session uid sid db)"
  by (auto simp: auth_safe_def auth_ok_def logout_def logout_all_def delete_session_def delete_where_def
      intro: distinct_map_filter)


lemma session_activity_safe: "auth_safe db (update_session_activity now t sid db)"
  by (auto simp: auth_safe_def auth_ok_def update_session_activity_def set_update_where map_update_where)

lemma reset_rows_safe:
  assumes "\<And>r. prt_user (f r) = prt_user r \<and> prt_tenant (f r) = prt_tenant r"
  shows "auth_safe db (db\<lparr> reset_tokens := update_where p f (reset_tokens db) \<rparr>)"
  using assms by (auto simp: auth_safe_def auth_ok_def set_update_where)

lemma audit_safe [intro]: "auth_safe db (db\<lparr> auth_audit := a \<rparr>)"
  and outbox_safe [intro]: "auth_safe db (db\<lparr> auth_outbox := m \<rparr>)"
  and identities_safe [intro]: "auth_safe db (db\<lparr> identities := is \<rparr>)"
  and memberships_safe [intro]: "auth_safe db (db\<lparr> memberships := ms \<rparr>)"
  by (rule auth_safe_same_tables; simp)+

lemma audit_event_safe: "auth_safe db (audit_auth_event u a cl db)"
  unfolding audit_auth_event_def by (rule audit_safe)

text \<open>A row is added for a user that exists.\<close>

definition row_of :: "auth_user \<Rightarrow> auth_db \<Rightarrow> bool" where
  "row_of u db \<longleftrightarrow> (usr_id u, usr_tenant u) \<in> user_keys (auth_users db)"

lemma row_of_safe: "row_of u db \<Longrightarrow> auth_safe db db' \<Longrightarrow> row_of u db'"
  using users_evolve_keys by (auto simp: row_of_def auth_safe_def)

lemma known_device_safe:
  "row_of u db \<Longrightarrow> auth_safe db (record_known_device now (usr_tenant u) (usr_id u) h ua db)"
  by (auto simp: auth_safe_def auth_ok_def record_known_device_def row_of_def set_update_where)

lemma login_success_safe:
  assumes "row_of u db" shows "auth_safe db (record_login_success now u a db)"
proof -
  let ?db = "case as_country a of None \<Rightarrow> db
    | Some c \<Rightarrow> if usr_last_country u = Some c then db else set_last_login_country (usr_tenant u) (usr_id u) c db"
  have "auth_safe db ?db" by (simp add: set_country_safe split: option.split)
  moreover from row_of_safe [OF assms this] have "auth_safe ?db (record_login_success now u a db)"
    by (cases "as_device_hash a") (simp_all add: record_login_success_def Let_def known_device_safe)
  ultimately show ?thesis by (rule auth_safe_trans)
qed

lemma location_safe: "auth_safe db (check_login_location env u cl db)"
  by (auto simp: check_login_location_def Let_def split: option.split login_location_decision.split
      intro: set_country_safe auth_safe_trans [OF outbox_safe set_country_safe])

lemma create_session_safe:
  assumes "row_of u db" and "new_session fr \<notin> ses_id ` set (auth_sessions db)"
  shows "auth_safe db (create_session env fr now (usr_tenant u) (usr_id u) cl rm db)"
  using assms by (auto simp: auth_safe_def auth_ok_def create_session_def row_of_def)

definition approvals_ok :: "auth_user list \<Rightarrow> login_approval list \<Rightarrow> bool" where
  "approvals_ok us rows \<longleftrightarrow> distinct (map lap_id rows)
     \<and> (\<forall>r \<in> set rows. (lap_user r, lap_tenant r) \<in> user_keys us \<and> 0 \<le> lap_attempts r \<and> lap_attempts r < login_approval_max_attempts)
     \<and> distinct (map (\<lambda>r. (lap_user r, lap_tenant r)) (filter unconsumed rows))"

lemma auth_ok_approvals:
  "auth_ok db \<Longrightarrow> approvals_ok (auth_users db) rows \<Longrightarrow> auth_ok (db\<lparr> login_approvals := rows \<rparr>)"
  by (simp add: auth_ok_def approvals_ok_def)

lemma approvals_ok_filter:
  assumes "approvals_ok us rows" shows "approvals_ok us (delete_where q rows)"
proof -
  have "filter unconsumed (delete_where q rows) = filter (\<lambda>r. \<not> q r) (filter unconsumed rows)"
    by (simp add: delete_where_def conj_commute)
  then show ?thesis using assms by (simp add: approvals_ok_def delete_where_def distinct_map_filter del: filter_filter)
qed

lemma issue_approval_safe:
  assumes "row_of u db" and "new_approval fr \<notin> lap_id ` set (login_approvals db)"
  shows "auth_safe db (issue_login_approval env fr now u a db)"
proof -
  let ?old = "delete_where (\<lambda>r. lap_tenant r = usr_tenant u \<and> lap_user r = usr_id u \<and> lap_consumed_at r = None) (login_approvals db)"
  have "auth_ok (issue_login_approval env fr now u a db)" if ok: "auth_ok db"
  proof -
    have "approvals_ok (auth_users db) ?old"
      using ok by (intro approvals_ok_filter) (simp add: auth_ok_def approvals_ok_def)
    moreover have "(usr_id u, usr_tenant u) \<notin> (\<lambda>r. (lap_user r, lap_tenant r)) ` set (filter unconsumed ?old)"
      by (auto simp: unconsumed_def)
    moreover have "new_approval fr \<notin> lap_id ` set ?old" using assms(2) by auto
    ultimately show ?thesis using ok assms(1)
      by (simp add: auth_ok_def issue_login_approval_def row_of_def unconsumed_def login_approval_max_attempts_def approvals_ok_def)
  qed
  then show ?thesis by (simp add: auth_safe_def issue_login_approval_def)
qed

lemma last_or_NoneD: "(if xs = [] then None else Some (last xs)) = Some c \<Longrightarrow> c \<in> set xs"
  by (auto split: if_splits)

lemma live_challenge_SomeD:
  assumes "live_challenge now t uid db = Some c"
  shows "c \<in> set (login_approvals db)" "lap_tenant c = t" "lap_user c = uid" "lap_consumed_at c = None" "now < lap_expires_at c"
proof -
  from last_or_NoneD [OF assms [unfolded live_challenge_def Let_def]]
  show "c \<in> set (login_approvals db)" "lap_tenant c = t" "lap_user c = uid" "lap_consumed_at c = None"
    "now < lap_expires_at c" by auto
qed

lemma distinct_filter_update:
  assumes "distinct (map k (filter p rs))" and "\<And>r. k (f r) = k r" and "\<And>r. p (f r) \<Longrightarrow> p r"
  shows "distinct (map k (filter p (update_where q f rs)))"
  using assms(1)
proof (induction rs)
  case Nil
  then show ?case by (simp add: table_simps)
next
  case (Cons r rs)
  have "set (map k (filter p (update_where q f rs))) \<subseteq> set (map k (filter p rs))"
    using assms(2,3) by (force simp: set_update_where split: if_splits)
  with Cons assms(2,3) show ?case by (auto simp: table_simps split: if_splits)
qed

lemma verify_approval_safe: "auth_safe db (fst (verify_login_approval env now t uid code db))"
proof (cases "live_challenge now t uid db")
  case None
  then show ?thesis by (simp add: verify_login_approval_def)
next
  case (Some c)
  note c = live_challenge_SomeD [OF Some]
  let ?q = "\<lambda>r. lap_id r = lap_id c"
  let ?used = "update_where ?q (\<lambda>r. r\<lparr> lap_consumed_at := Some now \<rparr>) (login_approvals db)"
  let ?more = "update_where ?q (\<lambda>r. r\<lparr> lap_attempts := lap_attempts r + 1 \<rparr>) (login_approvals db)"
  have "approvals_ok (auth_users db) ?used" if ok: "approvals_ok (auth_users db) (login_approvals db)"
    using ok by (auto simp: approvals_ok_def set_update_where unconsumed_def map_update_where
        intro!: distinct_filter_update)
  moreover have "approvals_ok (auth_users db) ?more"
    if ok: "approvals_ok (auth_users db) (login_approvals db)" and "lap_attempts c + 1 < login_approval_max_attempts"
  proof -
    have "r = c" if "r \<in> set (login_approvals db)" "lap_id r = lap_id c" for r
      using ok that c(1) by (auto simp: approvals_ok_def distinct_map inj_on_def)
    then have "\<forall>r \<in> set (login_approvals db). lap_id r = lap_id c \<longrightarrow> lap_attempts r + 1 < login_approval_max_attempts"
      using that(2) by blast
    with ok show ?thesis
      by (auto simp: approvals_ok_def set_update_where unconsumed_def map_update_where intro!: distinct_filter_update)
  qed
  moreover have "delete_where ?q ?more = delete_where ?q (login_approvals db)"
    by (rule delete_where_update_where) simp
  moreover have "auth_ok db \<Longrightarrow> approvals_ok (auth_users db) (login_approvals db)"
    by (simp add: auth_ok_def approvals_ok_def)
  ultimately show ?thesis
    using Some by (auto simp: auth_safe_def verify_login_approval_def Let_def not_le
        intro!: auth_ok_approvals approvals_ok_filter)
qed


section \<open>The factors write to the account alone\<close>

text \<open>
  The checks of a sign-in touch the counters, the watermark and the secret of an account, its
  mirror, the audit trail and nothing else.
\<close>

definition same_account :: "auth_user \<Rightarrow> auth_user \<Rightarrow> bool" where
  "same_account u v \<longleftrightarrow> usr_id v = usr_id u \<and> usr_tenant v = usr_tenant u \<and> usr_email v = usr_email u
     \<and> usr_status v = usr_status u \<and> usr_role v = usr_role u \<and> usr_password_hash v = usr_password_hash u
     \<and> usr_password_changed_at v = usr_password_changed_at u \<and> usr_deleted_at v = usr_deleted_at u"

definition factor_safe :: "auth_db \<Rightarrow> auth_db \<Rightarrow> bool" where
  "factor_safe db db' \<longleftrightarrow> auth_safe db db' \<and> list_all2 same_account (auth_users db) (auth_users db')
     \<and> auth_sessions db' = auth_sessions db \<and> login_approvals db' = login_approvals db
     \<and> reset_tokens db' = reset_tokens db \<and> auth_tenants db' = auth_tenants db \<and> entitlements db' = entitlements db"

lemma same_account_refl [simp]: "same_account u u"
  by (simp add: same_account_def)

lemma factor_safe_refl [simp, intro]: "factor_safe db db"
  by (simp add: factor_safe_def list.rel_refl)

lemma factor_safe_trans: "factor_safe a b \<Longrightarrow> factor_safe b c \<Longrightarrow> factor_safe a c"
  unfolding factor_safe_def
  by (auto intro: auth_safe_trans list_all2_trans [of same_account same_account same_account] simp: same_account_def)

lemma factor_safe_then_do:
  assumes "factor_safe db (fst m)" and "\<And>a. snd m = Inr a \<Longrightarrow> factor_safe (fst m) (fst (k a (fst m)))"
  shows "factor_safe db (fst (then_do m k))"
  using assms by (intro then_do_keeps [where P = "factor_safe db"]) (auto intro: factor_safe_trans)

lemma list_all2_update: "(\<And>u. R u u) \<Longrightarrow> (\<And>u. p u \<Longrightarrow> R u (f u)) \<Longrightarrow> list_all2 R us (update_where p f us)"
  by (auto simp: update_where_def list_all2_conv_all_nth)

lemma factor_safe_write:
  assumes "\<And>u. same_account u (f u)" "\<And>u. p u \<Longrightarrow> user_le u (f u)"
  shows "factor_safe db (write_users p f db)"
  unfolding factor_safe_def
  using assms auth_safe_write(1) [of f p db]
  by (auto simp: auth_frame row_write_def same_account_def intro!: list_all2_update)

lemma factor_safe_identities [intro]: "factor_safe db (db\<lparr> identities := is \<rparr>)"
  and factor_safe_audit [intro]: "factor_safe db (db\<lparr> auth_audit := a \<rparr>)"
  by (auto simp: factor_safe_def list.rel_refl)

lemma register_failed_factor: "factor_safe db (register_failed_mfa now t uid db)"
  unfolding register_failed_mfa_def by (rule factor_safe_write) (simp_all add: same_account_def user_le_def)

lemma recovery_factor_safe: "factor_safe db (fst (recovery_factor env now u rc db))"
proof -
  let ?db = "fst (pop_recovery_code (usr_tenant u) (usr_id u) (recovery_code_hex_hash env rc) db)"
  have "factor_safe db ?db"
    unfolding pop_recovery_code_def Let_def fst_conv
    by (rule factor_safe_write) (simp_all add: same_account_def user_le_def)
  moreover have "factor_safe ?db (clear_mfa_lockout t uid ?db)" for t uid
    unfolding clear_mfa_lockout_def by (rule factor_safe_write) (simp_all add: same_account_def user_le_def)
  ultimately show ?thesis
    by (auto simp: recovery_factor_def split: prod.split intro: factor_safe_trans register_failed_factor)
qed

lemma upgrade_factor: "factor_safe db (fst (upgrade_legacy_mfa_secret env fr email b32 db))"
proof -
  have "factor_safe db (write_mfa_secret email v prev db)" for v prev
    unfolding write_mfa_secret_def Let_def
    by (rule factor_safe_trans [OF factor_safe_identities factor_safe_write]) (simp_all add: same_account_def user_le_def)
  then show ?thesis by (simp add: upgrade_legacy_mfa_secret_def split: sum.split)
qed

lemma mfa_success_factor: "factor_safe db (fst (record_mfa_success t uid s db))"
  unfolding record_mfa_success_def Let_def fst_conv
  by (rule factor_safe_write) (auto simp: same_account_def user_le_def step_le_def step_is_new_def split: option.splits)

lemma totp_factor_safe: "factor_safe db (fst (totp_factor env fr now u code db))"
proof (cases "totp_secret env (usr_mfa_secret u)")
  case (Inl e)
  then show ?thesis by (simp add: totp_factor_def)
next
  case (Inr x)
  obtain stored secret where x: "x = (stored, secret)" by (cases x)
  let ?m = "case totp_verify (hmac_of env) secret code now 1 of None \<Rightarrow> (db, False)
    | Some s \<Rightarrow> record_mfa_success (usr_tenant u) (usr_id u) s db"
  have "factor_safe db (fst ?m)" by (simp add: mfa_success_factor split: option.split)
  then have "factor_safe db (fst (case ?m of (db, accepted) \<Rightarrow>
      if \<not> accepted then (register_failed_mfa now (usr_tenant u) (usr_id u) db, Inl Unauthorized)
      else if needs_upgrade stored then upgrade_legacy_mfa_secret env fr (usr_email u) (secret_b32 stored) db
      else (db, Inr ())))"
    by (cases ?m) (auto intro: factor_safe_trans register_failed_factor upgrade_factor)
  then show ?thesis using Inr x by (simp add: totp_factor_def)
qed

lemma second_factor_safe: "factor_safe db (fst (second_factor env fr now req u db))"
  by (auto simp: second_factor_def split: option.split
      intro!: factor_safe_then_do recovery_factor_safe totp_factor_safe)

lemma first_factor_safe: "factor_safe db (fst (first_factor env cl req u db))"
  by (auto simp: first_factor_def audit_auth_event_def split: option.split sum.split)

lemma identity_step_factor: "factor_safe db (fst (record_identity_mfa_success i s db))"
  by (auto simp: record_identity_mfa_success_def Let_def)

lemma identity_code_safe:
  "factor_safe db (fst (case record_identity_mfa_success (idn_id i) s db of (db, advanced) \<Rightarrow>
     if \<not> advanced then (db, Inl Unauthorized)
     else then_do (if needs_upgrade stored then upgrade_legacy_mfa_secret env fr (idn_email i) (secret_b32 stored) db
                   else (db, Inr ())) (\<lambda>_ db. (db, Inr True))))"
proof (cases "record_identity_mfa_success (idn_id i) s db")
  case (Pair db1 advanced)
  with identity_step_factor [of db "idn_id i" s] have "factor_safe db db1" by simp
  moreover have "factor_safe db1 (fst (then_do (if needs_upgrade stored
      then upgrade_legacy_mfa_secret env fr (idn_email i) (secret_b32 stored) db1 else (db1, Inr ())) (\<lambda>_ db. (db, Inr True))))"
    by (rule factor_safe_then_do) (simp_all add: upgrade_factor)
  ultimately have "factor_safe db (fst (then_do (if needs_upgrade stored
      then upgrade_legacy_mfa_secret env fr (idn_email i) (secret_b32 stored) db1 else (db1, Inr ())) (\<lambda>_ db. (db, Inr True))))"
    by (rule factor_safe_trans)
  with Pair \<open>factor_safe db db1\<close> show ?thesis by simp
qed

lemma identity_factor_safe: "factor_safe db (fst (identity_factor env fr now req i db))"
proof (cases "totp_secret env (idn_mfa_secret i)")
  case (Inl e)
  then show ?thesis by (simp add: identity_factor_def split: option.split)
next
  case (Inr x)
  obtain stored secret where x: "x = (stored, secret)" by (cases x)
  show ?thesis
  proof (cases "lr_mfa_code req")
    case None
    then show ?thesis by (simp add: identity_factor_def)
  next
    case (Some code)
    show ?thesis
      using Inr x Some
      by (cases "totp_verify (hmac_of env) secret (trim code) now 1")
        (simp_all add: identity_factor_def identity_code_safe)
  qed
qed


section \<open>Every operation is safe\<close>

definition fresh_for :: "fresh \<Rightarrow> auth_db \<Rightarrow> bool" where
  "fresh_for fr db \<longleftrightarrow> new_session fr \<notin> ses_id ` set (auth_sessions db)
     \<and> new_approval fr \<notin> lap_id ` set (login_approvals db) \<and> new_user fr \<notin> usr_id ` set (auth_users db)"

lemma same_accounts_ids: "list_all2 same_account us vs \<Longrightarrow> map usr_id vs = map usr_id us"
  by (induction rule: list_all2_induct) (simp_all add: same_account_def)

lemma factor_safe_users:
  assumes "factor_safe db db'" shows "usr_id ` set (auth_users db') = usr_id ` set (auth_users db)"
proof -
  have "map usr_id (auth_users db') = map usr_id (auth_users db)"
    using assms by (intro same_accounts_ids) (simp add: factor_safe_def)
  then have "set (map usr_id (auth_users db')) = set (map usr_id (auth_users db))" by (simp only:)
  then show ?thesis by simp
qed

lemma fresh_factor: "factor_safe db db' \<Longrightarrow> fresh_for fr db \<Longrightarrow> fresh_for fr db'"
  using factor_safe_users [of db db'] by (auto simp: fresh_for_def factor_safe_def)

lemma factor_auth_safe: "factor_safe db db' \<Longrightarrow> auth_safe db db'"
  by (simp add: factor_safe_def)

lemma user_row_of: "u \<in> set (auth_users db) \<Longrightarrow> row_of u db"
  by (auto simp: row_of_def user_keys_def)

lemma found_users:
  "find_user_by_email_for_tenant db t e = Inr u \<Longrightarrow> u \<in> set (auth_users db) \<and> usr_tenant u = t \<and> usr_email u = e"
  "get_user_by_id db t uid = Inr u \<Longrightarrow> u \<in> set (auth_users db) \<and> usr_tenant u = t \<and> usr_id u = uid \<and> usr_deleted_at u = None"
  by (auto simp: find_user_by_email_for_tenant_def get_user_by_id_def is_user_def split: option.splits dest!: select_one_SomeD)

lemma login_principal_InrD:
  assumes "login_principal env now req db = Inr u"
  shows "u \<in> set (auth_users db)" "login_tenant req db = Inr (usr_tenant u)" "usr_email u = lr_email req"
    "usr_status u = UActive" "ensure_tenant_active now (usr_tenant u) db = Inr ()"
    "\<not> local_password_auth_disabled env" "provider_enabled (auth_providers env) LocalProvider"
  using assms by (auto simp: login_principal_def split: if_splits elim!: and_then_InrE dest: found_users(1))

lemma approval_gate_safe:
  assumes "row_of u db" "fresh_for fr db"
  shows "auth_safe db (fst (approval_gate env fr now cl d c u db))"
    and "auth_sessions (fst (approval_gate env fr now cl d c u db)) = auth_sessions db"
proof -
  have i: "auth_safe db (issue_login_approval env fr now u a db)" for a
    using assms by (auto simp: fresh_for_def intro: issue_approval_safe)
  show "auth_safe db (fst (approval_gate env fr now cl d c u db))"
    unfolding approval_gate_def Let_def
    by (auto simp: i verify_approval_safe split: option.split intro!: auth_safe_then_do)
  have v: "auth_sessions (fst (verify_login_approval env now t uid code db)) = auth_sessions db" for t uid code
    by (simp add: verify_login_approval_def Let_def split: option.split)
  show "auth_sessions (fst (approval_gate env fr now cl d c u db)) = auth_sessions db"
    unfolding approval_gate_def Let_def
    by (auto simp: issue_login_approval_def v split: option.split
        intro!: then_do_keeps [where P = "\<lambda>s. auth_sessions s = auth_sessions db"])
qed

lemma open_session_safe:
  assumes "row_of u db" "new_session fr \<notin> ses_id ` set (auth_sessions db)"
  shows "auth_safe db (fst (open_session env fr now cl rm u db))"
  using auth_safe_trans [OF create_session_safe [OF assms] last_login_safe]
  by (simp add: open_session_def Let_def)

lemma complete_login_safe:
  assumes "row_of u db" "fresh_for fr db" shows "auth_safe db (fst (complete_login env fr now req cl u db))"
proof -
  have tail: "auth_safe d (fst (then_do (open_session env fr now cl (lr_remember_me req) u d)
      (\<lambda>resp e. (audit_auth_event u ALogin cl (g e), Inr resp))))"
    if "row_of u d" "new_session fr \<notin> ses_id ` set (auth_sessions d)" "\<And>e. row_of u e \<Longrightarrow> auth_safe e (g e)" for d g
  proof (rule auth_safe_then_do)
    show o: "auth_safe d (fst (open_session env fr now cl (lr_remember_me req) u d))"
      using that(1,2) by (rule open_session_safe)
    show "auth_safe (fst (open_session env fr now cl (lr_remember_me req) u d))
      (fst (audit_auth_event u ALogin cl (g (fst (open_session env fr now cl (lr_remember_me req) u d))), Inr resp))" for resp
      using auth_safe_trans [OF that(3) [OF row_of_safe [OF that(1) o]] audit_event_safe] by simp
  qed
  show ?thesis
  proof (cases "login_approval_enabled env")
    case False
    then show ?thesis
      using assms by (auto simp: complete_login_def fresh_for_def intro!: tail location_safe)
  next
    case True
    let ?gate = "approval_gate env fr now cl (lr_device_id req) (lr_approval_code req) u db"
    have g: "auth_safe db (fst ?gate)" using assms by (rule approval_gate_safe(1))
    show ?thesis
      unfolding complete_login_def if_P [OF True]
      by (rule auth_safe_then_do [OF g])
        (use row_of_safe [OF assms(1) g] approval_gate_safe(2) [OF assms] assms(2) in
          \<open>auto simp: fresh_for_def split: option.split intro!: tail login_success_safe\<close>)
  qed
qed

lemma login_safe:
  assumes "fresh_for fr db" shows "auth_safe db (fst (login env fr now req cl db))"
proof (cases "login_principal env now req db")
  case (Inl e)
  then show ?thesis by (simp add: login_def)
next
  case (Inr u)
  let ?d1 = "fst (first_factor env cl req u db)"
  let ?d2 = "fst (second_factor env fr now req u ?d1)"
  note u = user_row_of [OF login_principal_InrD(1) [OF Inr]]
  have f1: "factor_safe db ?d1" by (rule first_factor_safe)
  have f2: "factor_safe ?d1 ?d2" by (rule second_factor_safe)
  have "row_of u ?d2" "fresh_for fr ?d2"
    using u f1 f2 assms by (blast intro: row_of_safe factor_auth_safe fresh_factor)+
  then have "auth_safe ?d2 (fst (complete_login env fr now req cl u ?d2))" by (rule complete_login_safe)
  then show ?thesis
    unfolding login_def check_def Inr then_do_simps
    using f1 f2 by (intro auth_safe_then_do) (auto intro: factor_auth_safe)
qed


lemma refresh_safe: "auth_safe db (fst (refresh_token env now tok db))"
  unfolding refresh_token_def
  by (auto simp: check_def session_activity_safe split: sum.split prod.split intro!: auth_safe_then_do)

lemma store_token_safe:
  assumes "(uid, t) \<in> user_keys (auth_users db)"
  shows "auth_safe db (fst (store_reset_token env fr now t uid ttl db))"
  using assms by (auto simp: store_reset_token_def auth_safe_def auth_ok_def split: sum.split)

lemma request_reset_safe: "auth_safe db (fst (request_password_reset env fr now hint email db))"
proof (cases "find_user_by_email_for_tenant db (resolve_tenant_for_login hint) email")
  case (Inl e)
  then show ?thesis by (simp add: request_password_reset_def)
next
  case (Inr u)
  then have "(usr_id u, usr_tenant u) \<in> user_keys (auth_users db)"
    using found_users(1) [OF Inr] user_row_of [of u db] by (simp add: row_of_def)
  then show ?thesis using Inr
    by (auto simp: request_password_reset_def intro!: auth_safe_then_do store_token_safe)
qed

lemma set_password_safe:
  assumes "row_write f" "\<And>u. usr_mfa_last_step (f u) = usr_mfa_last_step u" "\<And>u. usr_mfa_failed (f u) = usr_mfa_failed u"
  shows "auth_safe db (set_password now t uid f db)"
  unfolding set_password_def
  by (rule auth_safe_trans [OF safe_write_simple(2) logout_safe(2)]) (use assms in \<open>simp_all add: row_write_def\<close>)

lemma reset_password_safe: "auth_safe db (fst (reset_password env fr now req db))"
proof -
  have "auth_safe db (let d = set_password now t uid (\<lambda>u. u\<lparr> usr_password_hash := Some h, usr_status := UActive \<rparr>) db
      in d\<lparr> reset_tokens := update_where p (\<lambda>x. x\<lparr> prt_used_at := Some now \<rparr>) (reset_tokens d) \<rparr>)" for t uid h p
    unfolding Let_def
    by (rule auth_safe_trans [OF set_password_safe reset_rows_safe]) (simp_all add: row_write_def)
  then show ?thesis
    by (auto simp: reset_password_def Let_def split: option.split sum.split)
qed

lemma change_password_safe: "auth_safe db (fst (change_password env fr now t uid req db))"
proof -
  have "auth_safe db (set_password now t uid (\<lambda>u. u\<lparr> usr_password_hash := Some h \<rparr>) db)" for h
    by (rule set_password_safe) (simp_all add: row_write_def)
  then show ?thesis by (auto simp: change_password_def split: option.split sum.split)
qed

lemma mirror_insert_safe: "auth_safe db (mirror_insert fr now u db)"
  by (rule auth_safe_same_tables) (auto simp: mirror_insert_def Let_def split: option.split)

lemma create_user_safe:
  assumes "fresh_for fr db" shows "auth_safe db (fst (create_user env fr now t req ctx db))"
proof (cases "list_ex (\<lambda>u. usr_tenant u = t \<and> usr_email u = cur_email req) (auth_users db)")
  case True
  then show ?thesis by (simp add: create_user_def)
next
  case False
  define u where "u = \<lparr> usr_id = new_user fr, usr_tenant = t, usr_email = cur_email req, usr_password_hash = None,
                  usr_role = cur_role req, usr_status = UPending, usr_mfa_enabled = False, usr_mfa_secret = None,
                  usr_recovery_hashes = [], usr_mfa_failed = 0, usr_mfa_locked_until = None, usr_mfa_last_step = None,
                  usr_password_changed_at = None, usr_last_login_at = None, usr_last_country = None,
                  usr_location_alerts = True, usr_bunyip_user = None, usr_deleted_at = None \<rparr>"
  let ?a = "audit_write (auth_audit db) t ctx ACreate ''users'' (Some (new_user fr))"
  let ?db = "db\<lparr> auth_users := auth_users db @ [u], auth_audit := ?a \<rparr>"
  have k: "(new_user fr, t) \<in> user_keys (auth_users ?db)" by (simp add: user_keys_def u_def)
  have "auth_ok ?db" if "auth_ok db"
    using that False assms by (auto simp: auth_ok_def user_keys_def fresh_for_def u_def list_ex_iff)
  then have "auth_safe db ?db" by (simp add: auth_safe_def users_evolve_append)
  then have m: "auth_safe db (mirror_insert fr now u ?db)" by (rule auth_safe_trans [OF _ mirror_insert_safe])
  have "auth_safe (mirror_insert fr now u ?db) (fst (store_reset_token env fr now t (new_user fr) ttl (mirror_insert fr now u ?db)))" for ttl
    using users_evolve_keys mirror_insert_safe [of ?db fr now u] k by (intro store_token_safe) (auto simp: auth_safe_def)
  with m have "auth_safe db (fst (store_reset_token env fr now t (new_user fr) ttl (mirror_insert fr now u ?db)))" for ttl
    by (rule auth_safe_trans)
  then have "auth_safe db (fst (then_do (store_reset_token env fr now t (new_user fr) ttl (mirror_insert fr now u ?db))
      (\<lambda>tok d. let d = d\<lparr> auth_outbox := auth_outbox d @ [WelcomeLink (new_user fr) tok] \<rparr> in (d, get_user_by_id d t (new_user fr)))))" for ttl
    by (rule auth_safe_then_do) (auto simp: Let_def)
  with m False show ?thesis by (simp add: create_user_def u_def [symmetric] Let_def)
qed

lemma distinct_emails_update:
  assumes "distinct (map usr_id us)" "distinct (map (\<lambda>u. (usr_tenant u, usr_email u)) us)"
    "\<And>u. usr_id (f u) = usr_id u \<and> usr_tenant (f u) = usr_tenant u"
    "\<And>u v. u \<in> set us \<Longrightarrow> v \<in> set us \<Longrightarrow> is_user t uid u \<Longrightarrow> usr_tenant v = t \<Longrightarrow> usr_id v \<noteq> uid \<Longrightarrow> usr_email (f u) \<noteq> usr_email v"
  shows "distinct (map (\<lambda>u. (usr_tenant u, usr_email u)) (update_where (is_user t uid) f us))"
proof -
  let ?k = "\<lambda>u. (usr_tenant u, usr_email u)" and ?g = "\<lambda>u. if is_user t uid u then f u else u"
  have i: "inj_on usr_id (set us)" "distinct us" and e: "inj_on ?k (set us)" using assms(1,2) by (auto simp: distinct_map)
  have "inj_on (\<lambda>u. ?k (?g u)) (set us)"
  proof (rule inj_onI)
    fix u v assume uv: "u \<in> set us" "v \<in> set us" "?k (?g u) = ?k (?g v)"
    then show "u = v"
      using i(1) e assms(4) [of u v] assms(4) [of v u] assms(3)
      by (cases "is_user t uid u"; cases "is_user t uid v") (auto simp: is_user_def inj_on_def)
  qed
  then show ?thesis using i(2) by (simp add: update_where_def distinct_map comp_def)
qed

lemma update_user_safe: "auth_safe db (fst (update_user t uid req ctx db))"
proof (cases "upd_email req = None \<and> upd_role req = None \<and> upd_status req = None \<and> upd_location_alerts req = None \<and> \<not> upd_profile req
    \<or> (list_ex (is_user t uid) (auth_users db)
       \<and> list_ex (\<lambda>u. usr_tenant u = t \<and> usr_id u \<noteq> uid \<and> Some (usr_email u) = upd_email req) (auth_users db))")
  case True
  then show ?thesis by (auto simp: update_user_def)
next
  case False
  let ?f = "apply_user_update req" and ?us = "update_where (is_user t uid) (apply_user_update req) (auth_users db)"
  have f: "usr_id (?f u) = usr_id u \<and> usr_tenant (?f u) = usr_tenant u" "usr_mfa_failed (?f u) = usr_mfa_failed u" "user_le u (?f u)" for u
    by (simp_all add: apply_user_update_def user_le_def)
  have "auth_ok (db\<lparr> auth_users := ?us \<rparr>)" if ok: "auth_ok db"
  proof -
    have "user_keys ?us = user_keys (auth_users db)" by (rule user_keys_update) (simp add: f)
    moreover have "map usr_id ?us = map usr_id (auth_users db)" by (rule map_update_where) (simp add: f)
    moreover have "distinct (map (\<lambda>u. (usr_tenant u, usr_email u)) ?us)"
    proof (rule distinct_emails_update)
      show "usr_email (?f u) \<noteq> usr_email v"
        if uv: "u \<in> set (auth_users db)" "v \<in> set (auth_users db)" "is_user t uid u" "usr_tenant v = t" "usr_id v \<noteq> uid" for u v
      proof (cases "upd_email req")
        case None
        have "inj_on (\<lambda>u. (usr_tenant u, usr_email u)) (set (auth_users db))" using ok by (simp add: auth_ok_def distinct_map)
        with None uv show ?thesis by (auto simp: apply_user_update_def inj_on_def is_user_def)
      next
        case (Some e)
        with False uv show ?thesis by (auto simp: apply_user_update_def list_ex_iff)
      qed
    qed (use ok f in \<open>simp_all add: auth_ok_def\<close>)
    ultimately show ?thesis using ok f(2) by (auto simp: auth_ok_def set_update_where)
  qed
  moreover have "auth_ok (write_users (is_user t uid) ?f db) = auth_ok (db\<lparr> auth_users := ?us \<rparr>)"
    by (rule auth_ok_same_tables) (simp_all add: auth_frame)
  moreover have "users_evolve (auth_users db) ?us" by (rule users_evolve_update) (rule f(3))
  ultimately have "auth_safe db (write_users (is_user t uid) ?f db)" by (simp add: auth_safe_def auth_frame)
  then show ?thesis using False by (auto simp: update_user_def Let_def intro: auth_safe_trans)
qed

lemma auth_safe_entitlements:
  assumes "distinct (map ent_tenant (entitlements db)) \<Longrightarrow> distinct (map ent_tenant es)"
  shows "auth_safe db (db\<lparr> entitlements := es \<rparr>)"
  using assms by (simp add: auth_safe_def auth_ok_def)

lemma entitlement_safe:
  assumes "set_tenant_entitlement now t st ex why db = Inr db'" shows "auth_safe db db'"
proof -
  define row where "row = \<lparr> ent_tenant = t, ent_status = st, ent_checked_at = now, ent_expires_at = ex, ent_reason = why \<rparr>"
  have "map ent_tenant (update_where (\<lambda>e. ent_tenant e = t) (\<lambda>_. row) (entitlements db)) = map ent_tenant (entitlements db)"
    by (rule map_update_where) (simp add: row_def)
  then have u: "auth_safe db (db\<lparr> entitlements := update_where (\<lambda>e. ent_tenant e = t) (\<lambda>_. row) (entitlements db) \<rparr>)"
    by (intro auth_safe_entitlements) (simp only:)
  have n: "auth_safe db (db\<lparr> entitlements := entitlements db @ [row] \<rparr>)" if "\<not> list_ex (\<lambda>e. ent_tenant e = t) (entitlements db)"
    using that by (intro auth_safe_entitlements) (auto simp: row_def list_ex_iff)
  have "db' = (if list_ex (\<lambda>e. ent_tenant e = t) (entitlements db)
      then db\<lparr> entitlements := update_where (\<lambda>e. ent_tenant e = t) (\<lambda>_. row) (entitlements db) \<rparr>
      else db\<lparr> entitlements := entitlements db @ [row] \<rparr>)"
    using assms by (simp add: set_tenant_entitlement_def Let_def row_def split: if_split_asm)
  then show ?thesis using u n by simp
qed

lemma start_mfa_safe: "auth_safe db (fst (start_mfa_enrollment env fr t uid db))"
  by (auto simp: start_mfa_enrollment_def Let_def write_secret_safe split: sum.split)

lemma enable_mfa_safe: "auth_safe db (fst (enable_mfa env fr now t uid code db))"
proof -
  have w: "auth_safe d (write_users (is_user t uid) (\<lambda>u. u\<lparr> usr_recovery_hashes := hs \<rparr>) (write_mfa_enabled e True d))" for hs e d
    by (rule auth_safe_trans [OF write_enabled_safe safe_write_simple(1)]) (simp_all add: row_write_def)
  show ?thesis
    by (auto simp: enable_mfa_def w upgrade_safe split: sum.split prod.split intro!: auth_safe_then_do)
qed

lemma disable_mfa_safe: "auth_safe db (fst (disable_mfa env t uid pw db))"
proof -
  have "auth_safe db (write_users (is_user t uid) (\<lambda>u. u\<lparr> usr_recovery_hashes := [] \<rparr>) (write_mfa_enabled e False db))" for e
    by (rule auth_safe_trans [OF write_enabled_safe safe_write_simple(1)]) (simp_all add: row_write_def)
  then show ?thesis
    by (auto simp: disable_mfa_def split: sum.split option.split intro: auth_safe_trans [OF _ write_secret_safe])
qed


lemma check_approval_safe:
  assumes "row_of u db" "fresh_for fr db"
  shows "auth_safe db (fst (check_login_approval env fr now cl d c u db))"
    and "auth_sessions (fst (check_login_approval env fr now cl d c u db)) = auth_sessions db"
  using approval_gate_safe [OF assms, of env now cl d c]
  by (auto simp: check_login_approval_def intro!: auth_safe_then_do
      then_do_keeps [where P = "\<lambda>s. auth_sessions s = auth_sessions db"])

lemma mint_user_safe:
  "row_of u db \<Longrightarrow> new_session fr \<notin> ses_id ` set (auth_sessions db) \<Longrightarrow> auth_safe db (fst (mint_session_for_user env fr now cl u db))"
  unfolding mint_session_for_user_def by (rule open_session_safe)

lemma mint_membership_safe:
  assumes "fresh_for fr db" shows "auth_safe db (fst (mint_session_for_membership env fr now cl t email db))"
  using assms user_row_of found_users(1) [of db t email]
  by (auto simp: mint_session_for_membership_def fresh_for_def split: sum.split intro!: mint_user_safe)

lemma select_tenant_safe:
  "fresh_for fr db \<Longrightarrow> auth_safe db (fst (select_tenant_for_identity env fr now cl tok t db))"
  by (auto simp: select_tenant_for_identity_def mint_membership_safe split: sum.split prod.split option.split)

lemma switch_tenant_safe: "fresh_for fr db \<Longrightarrow> auth_safe db (fst (switch_tenant env fr now cl caller t db))"
  by (simp add: switch_tenant_def Let_def mint_membership_safe)

lemma seat_userD:
  assumes "seat_user env db email pw v = Some u"
  shows "u \<in> set (auth_users db)" "usr_tenant u = mv_tenant v" "usr_email u = email"
    "\<exists>h. usr_password_hash u = Some h \<and> argon2_verify env pw h = PasswordMatches"
proof -
  obtain h where "find_user_by_email_for_tenant db (mv_tenant v) email = Inr u" "usr_password_hash u = Some h"
    "verify_password env pw h = Inr True"
    using assms by (auto simp: seat_user_def split: sum.splits option.splits if_splits)
  then show "u \<in> set (auth_users db)" "usr_tenant u = mv_tenant v" "usr_email u = email"
    "\<exists>h. usr_password_hash u = Some h \<and> argon2_verify env pw h = PasswordMatches"
    using found_users(1) by (auto simp: verify_password_def split: argon_result.splits)
qed

lemma matching_seatsD:
  "(v, u) \<in> set (matching_seats env db email pw vs) \<Longrightarrow> v \<in> set vs \<and> seat_user env db email pw v = Some u"
  by (auto simp: matching_seats_def map_filter_def)

lemma identity_passwordD:
  assumes "identity_password env req i db = Inr matched" "(v, u) \<in> set matched"
  shows "seat_user env db (idn_email i) (lr_password req) v = Some u" "v \<in> set (list_views_for_identity db i)"
  using assms matching_seatsD
  by (fastforce simp: identity_password_def Let_def split: if_splits option.splits elim!: and_then_InrE)+

lemma enter_seat_safe:
  assumes "row_of u db" "fresh_for fr db" shows "auth_safe db (fst (enter_seat env fr now req cl u db))"
proof -
  let ?d = "fst (check_login_approval env fr now cl (lr_device_id req) (lr_approval_code req) u db)"
  note g = check_approval_safe [OF assms]
  have "auth_safe ?d (fst (mint_session_for_user env fr now cl u ?d))"
    using row_of_safe [OF assms(1) g(1)] g(2) assms(2) by (intro mint_user_safe) (auto simp: fresh_for_def)
  then show ?thesis
    by (auto simp: enter_seat_def check_def split: sum.split option.split intro!: auth_safe_then_do g(1))
qed

lemma scope_login_safe:
  assumes "\<And>v u. (v, u) \<in> set matched \<Longrightarrow> row_of u db" "fresh_for fr db"
  shows "auth_safe db (fst (scope_login env fr now req cl i matched db))"
  using assms by (auto simp: scope_login_def Let_def enter_seat_safe split: list.split)

lemma identity_first_safe:
  assumes "fresh_for fr db" shows "auth_safe db (fst (authenticate_identity_first env fr now req cl db))"
proof (cases "identity_of db (lr_email req)")
  case None
  then show ?thesis by (simp add: authenticate_identity_first_def)
next
  case (Some i)
  show ?thesis
  proof (cases "identity_password env req i db")
    case (Inl e)
    with Some show ?thesis by (simp add: authenticate_identity_first_def)
  next
    case (Inr matched)
    let ?d = "fst (identity_factor env fr now req i db)"
    have f: "factor_safe db ?d" by (rule identity_factor_safe)
    have r: "row_of u ?d" if "(v, u) \<in> set matched" for v u
      using identity_passwordD(1) [OF Inr that] seat_userD(1) user_row_of row_of_safe factor_auth_safe [OF f] by blast
    have "auth_safe ?d (fst (scope_login env fr now req cl i matched ?d))"
      using r fresh_factor [OF f assms] by (rule scope_login_safe)
    with Some Inr factor_auth_safe [OF f] show ?thesis
      by (auto simp: authenticate_identity_first_def intro!: auth_safe_then_do)
  qed
qed

lemma login_route_safe: "fresh_for fr db \<Longrightarrow> auth_safe db (fst (login_route env fr now req cl db))"
  by (simp add: login_route_def login_safe identity_first_safe)

section \<open>Steps of the service\<close>

inductive auth_step :: "auth_db \<Rightarrow> auth_db \<Rightarrow> bool" where
  signed_in: "fresh_for fr db \<Longrightarrow> auth_step db (fst (login_route env fr now req cl db))"
| selected: "fresh_for fr db \<Longrightarrow> auth_step db (fst (select_tenant_for_identity env fr now cl tok t db))"
| switched: "fresh_for fr db \<Longrightarrow> auth_step db (fst (switch_tenant env fr now cl caller t db))"
| refreshed: "auth_step db (fst (refresh_token env now tok db))"
| signed_out: "auth_step db (logout sid db)"
| signed_out_everywhere: "auth_step db (logout_all t uid db)"
| session_deleted: "auth_step db (delete_session uid sid db)"
| reset_requested: "auth_step db (fst (request_password_reset env fr now hint email db))"
| password_reset: "auth_step db (fst (reset_password env fr now rreq db))"
| password_changed: "auth_step db (fst (change_password env fr now t uid creq db))"
| user_created: "fresh_for fr db \<Longrightarrow> auth_step db (fst (create_user_route env fr now caller ureq ctx db))"
| user_updated: "auth_step db (fst (update_user_route caller uid preq ctx db))"
| role_set: "auth_step db (set_user_role t uid role db)"
| mfa_started: "auth_step db (fst (start_mfa_enrollment env fr t uid db))"
| mfa_enabled: "auth_step db (fst (enable_mfa env fr now t uid code db))"
| mfa_disabled: "auth_step db (fst (disable_mfa env t uid pw db))"
| entitled: "set_tenant_entitlement now t st ex why db = Inr db' \<Longrightarrow> auth_step db db'"

lemma auth_step_safe: "auth_step db db' \<Longrightarrow> auth_safe db db'"
proof (induction rule: auth_step.induct)
  case (user_created fr db env now caller ureq ctx)
  then show ?case by (simp add: create_user_route_def create_user_safe)
next
  case (user_updated db caller uid preq ctx)
  then show ?case by (simp add: update_user_route_def update_user_safe)
qed (simp_all add: login_route_safe select_tenant_safe switch_tenant_safe refresh_safe logout_safe request_reset_safe
    reset_password_safe change_password_safe set_role_safe start_mfa_safe enable_mfa_safe disable_mfa_safe entitlement_safe)

lemma auth_steps_safe: "auth_step\<^sup>*\<^sup>* db db' \<Longrightarrow> auth_safe db db'"
  by (induction rule: rtranclp_induct) (auto intro: auth_safe_trans auth_step_safe)

end
