(* ===== verification/Auth_Guarantees.thy ===== *)
theory Auth_Guarantees
  imports Auth_Invariants
begin

text \<open>
  What signing in guarantees, and where it does not: which credentials a session rests on, that a
  one-time step is spent once, that an ended session and a disabled account are shut out on every
  path, how far codes can be guessed, and what the password-reset link and the tenant picker do.
\<close>

section \<open>The parts of a login\<close>

lemma first_factor_ok:
  assumes "snd (first_factor env cl req u db) = Inr ()"
  shows "fst (first_factor env cl req u db) = db"
    and "\<exists>h. usr_password_hash u = Some h \<and> argon2_verify env (lr_password req) h = PasswordMatches"
  using assms by (auto simp: first_factor_def verify_password_def split: option.splits sum.splits if_splits argon_result.splits)

lemma login_InrE:
  assumes "snd (login env fr now req cl db) = Inr resp"
  obtains u sat where "login_principal env now req db = Inr u" "snd (first_factor env cl req u db) = Inr ()"
    "snd (second_factor env fr now req u db) = Inr sat"
    "fst (login env fr now req cl db) = (if sat then fst (complete_login env fr now req cl u (fst (second_factor env fr now req u db)))
        else fst (second_factor env fr now req u db))"
    "if sat then snd (complete_login env fr now req cl u (fst (second_factor env fr now req u db))) = Inr resp
     else resp = (empty_response now)\<lparr> resp_mfa_required := True \<rparr>"
proof (cases "login_principal env now req db")
  case (Inl e)
  with assms show thesis by (simp add: login_def)
next
  case (Inr u)
  obtain d1 r1 where f1: "first_factor env cl req u db = (d1, r1)" by fastforce
  with assms Inr have r1: "r1 = Inr ()" by (cases r1) (auto simp: login_def)
  then have d1: "d1 = db" using first_factor_ok(1) [of env cl req u db] f1 by simp
  obtain d2 r2 where f2: "second_factor env fr now req u db = (d2, r2)" by fastforce
  with assms Inr f1 r1 d1 obtain sat where r2: "r2 = Inr sat" by (cases r2) (auto simp: login_def)
  have l: "login env fr now req cl db = (if \<not> sat then (d2, Inr ((empty_response now)\<lparr> resp_mfa_required := True \<rparr>))
      else complete_login env fr now req cl u d2)"
    unfolding login_def by (simp add: Inr f1 r1 d1 f2 r2)
  show thesis
  proof (rule that [of u sat])
    show "login_principal env now req db = Inr u" by (rule Inr)
    show "snd (first_factor env cl req u db) = Inr ()" using f1 r1 by simp
    show "snd (second_factor env fr now req u db) = Inr sat" using f2 r2 by simp
  qed (use l f2 assms in \<open>auto split: if_splits\<close>)
qed

text \<open>The TOTP step a request rests on, if it rests on one.\<close>

definition used_step :: "auth_env \<Rightarrow> instant \<Rightarrow> login_request \<Rightarrow> auth_user \<Rightarrow> int option" where
  "used_step env now req u =
     (if usr_mfa_enabled u \<and> lr_recovery_code req = None then
        (case lr_mfa_code req of None \<Rightarrow> None
         | Some code \<Rightarrow> (case totp_secret env (usr_mfa_secret u) of
             Inl _ \<Rightarrow> None | Inr (_, secret) \<Rightarrow> totp_verify (hmac_of env) secret code now 1))
      else None)"

lemma totp_factor_ok:
  assumes "snd (totp_factor env fr now u code db) = Inr ()"
  obtains stored secret s where "totp_secret env (usr_mfa_secret u) = Inr (stored, secret)"
    "totp_verify (hmac_of env) secret code now 1 = Some s" "snd (record_mfa_success (usr_tenant u) (usr_id u) s db)"
    "auth_safe (fst (record_mfa_success (usr_tenant u) (usr_id u) s db)) (fst (totp_factor env fr now u code db))"
proof (cases "totp_secret env (usr_mfa_secret u)")
  case (Inl e)
  with assms show thesis by (simp add: totp_factor_def)
next
  case (Inr x)
  obtain stored secret where x: "x = (stored, secret)" by (cases x)
  obtain s where s: "totp_verify (hmac_of env) secret code now 1 = Some s"
    using assms Inr x by (cases "totp_verify (hmac_of env) secret code now 1") (auto simp: totp_factor_def)
  obtain d ok where d: "record_mfa_success (usr_tenant u) (usr_id u) s db = (d, ok)" by fastforce
  with assms Inr x s have ok using register_failed_safe by (auto simp: totp_factor_def split: if_splits)
  with d Inr x s that upgrade_safe [of d env fr "usr_email u" "secret_b32 stored"] show thesis
    by (auto simp: totp_factor_def)
qed

lemma recovery_factor_ok:
  assumes "snd (recovery_factor env now u rc db) = Inr ()"
  shows "\<exists>v \<in> set (auth_users db). is_user (usr_tenant u) (usr_id u) v \<and> recovery_code_hex_hash env rc \<in> set (usr_recovery_hashes v)"
  using assms by (auto simp: recovery_factor_def pop_recovery_code_def Let_def list_ex_iff split: if_splits)

lemma second_factor_ok:
  assumes "snd (second_factor env fr now req u db) = Inr True" "usr_mfa_enabled u"
  shows "lockout_wait now (usr_tenant u) (usr_id u) db = None"
    and "(\<exists>rc. lr_recovery_code req = Some rc \<and> snd (recovery_factor env now u rc db) = Inr ())
       \<or> (\<exists>code. lr_recovery_code req = None \<and> lr_mfa_code req = Some code \<and> snd (totp_factor env fr now u code db) = Inr ()
            \<and> fst (second_factor env fr now req u db) = fst (totp_factor env fr now u code db))"
  using assms
  by (auto simp: second_factor_def then_do_def split: option.splits sum.splits)

lemma used_step_ok:
  assumes "snd (second_factor env fr now req u db) = Inr True" "used_step env now req u = Some s"
  shows "\<exists>v \<in> set (auth_users db). is_user (usr_tenant u) (usr_id u) v \<and> step_is_new s v"
    and "auth_safe (fst (record_mfa_success (usr_tenant u) (usr_id u) s db)) (fst (second_factor env fr now req u db))"
proof -
  have m: "usr_mfa_enabled u" "lr_recovery_code req = None" using assms(2) by (auto simp: used_step_def split: if_splits)
  with second_factor_ok(2) [OF assms(1) m(1)] obtain code where code: "lr_mfa_code req = Some code"
    "snd (totp_factor env fr now u code db) = Inr ()" "fst (second_factor env fr now req u db) = fst (totp_factor env fr now u code db)"
    by auto
  obtain stored secret s' where t: "totp_secret env (usr_mfa_secret u) = Inr (stored, secret)"
    "totp_verify (hmac_of env) secret code now 1 = Some s'" "snd (record_mfa_success (usr_tenant u) (usr_id u) s' db)"
    "auth_safe (fst (record_mfa_success (usr_tenant u) (usr_id u) s' db)) (fst (totp_factor env fr now u code db))"
    using code(2) by (rule totp_factor_ok)
  have "s' = s" using assms(2) m code(1) t(1,2) by (auto simp: used_step_def)
  with t code show "auth_safe (fst (record_mfa_success (usr_tenant u) (usr_id u) s db)) (fst (second_factor env fr now req u db))"
    and "\<exists>v \<in> set (auth_users db). is_user (usr_tenant u) (usr_id u) v \<and> step_is_new s v"
    by (auto simp: record_mfa_success_def Let_def list_ex_iff)
qed

lemma spent_step:
  assumes "v \<in> set (auth_users db)" "is_user t uid v" "step_is_new s v"
  shows "\<exists>w \<in> set (auth_users (fst (record_mfa_success t uid s db))). usr_id w = uid \<and> usr_mfa_last_step w = Some s"
proof -
  let ?w = "v\<lparr> usr_mfa_last_step := Some s, usr_mfa_failed := 0, usr_mfa_locked_until := None \<rparr>"
  have "?w \<in> set (auth_users (fst (record_mfa_success t uid s db)))"
    using assms by (auto simp: record_mfa_success_def Let_def auth_frame set_update_where intro!: image_eqI [of _ _ v])
  then show ?thesis using assms(2) by (intro bexI [of _ ?w]) (auto simp: is_user_def)
qed

lemma watermark_after:
  assumes "auth_safe db db'" "v \<in> set (auth_users db)" "usr_mfa_last_step v = Some s" "auth_ok db'"
    "u \<in> set (auth_users db')" "usr_id u = usr_id v"
  shows "\<exists>w \<ge> s. usr_mfa_last_step u = Some w"
proof -
  obtain v' where v': "v' \<in> set (auth_users db')" "user_le v v'"
    using assms(1,2) by (auto simp: auth_safe_def elim: users_evolve_member)
  have "v' = u" using v' assms(4,5,6) by (auto simp: auth_ok_def distinct_map inj_on_def user_le_def)
  with v'(2) assms(3) show ?thesis by (auto simp: user_le_def step_le_def split: option.splits)
qed


section \<open>A small deployment\<close>

text \<open>
  The inputs the witnesses run on: one tenant and one user with a one-time secret, and libraries that
  are small functions. The code of every step is 000000.
\<close>

definition demo_env :: auth_env where
  "demo_env = \<lparr> auth_providers = \<lparr> sel_source = ProfileDefault, sel_providers = [] \<rparr>, is_saas = False, sso_mounted = False,
     login_approval_enabled = False, access_token_ttl = 3600, refresh_token_ttl = 604800,
     argon2_verify = (\<lambda>pw h. if h = CHR ''h'' # pw then PasswordMatches else PasswordDiffers),
     argon2_hash = (\<lambda>_ pw. Some (CHR ''h'' # pw)), sha256_hex = (\<lambda>x. x), hmac_of = (\<lambda>_ _. 0),
     aes_encrypt = (\<lambda>_ x. Some (CHR ''!'' # x)), aes_decrypt = (\<lambda>x. Some (tl x)),
     jwt_sign = (\<lambda>c. jwt_typ c), jwt_open = (\<lambda>_. None), country_code = None,
     uuid_text = digits_of, uuid_parse = (\<lambda>x. Some (undigits 0 x)) \<rparr>"

definition demo_user :: auth_user where
  "demo_user = \<lparr> usr_id = 5, usr_tenant = 1, usr_email = ''a'', usr_password_hash = Some ''hpw'', usr_role = Admin,
     usr_status = UActive, usr_mfa_enabled = True, usr_mfa_secret = Some ''!AA'', usr_recovery_hashes = [], usr_mfa_failed = 0,
     usr_mfa_locked_until = None, usr_mfa_last_step = None, usr_password_changed_at = None, usr_last_login_at = None,
     usr_last_country = None, usr_location_alerts = True, usr_bunyip_user = None, usr_deleted_at = None \<rparr>"

definition demo_session :: user_session where
  "demo_session = \<lparr> ses_id = 9, ses_tenant = 1, ses_user = 5, ses_token_hash = [], ses_ip = None, ses_user_agent = None,
     ses_expires_at = 100000, ses_last_activity_at = 0 \<rparr>"

definition demo_db :: auth_db where
  "demo_db = \<lparr> auth_users = [demo_user], auth_sessions = [demo_session], login_approvals = [], login_devices = [],
     reset_tokens = [], auth_tenants = [\<lparr> ten_id = 1, ten_name = ''T'', ten_slug = ''t'', ten_status = ''active'' \<rparr>],
     entitlements = [], identities = [], memberships = [], account_grants = [], auth_audit = [], auth_outbox = [] \<rparr>"

definition demo_fresh :: fresh where
  "demo_fresh = \<lparr> new_session = 20, new_token = ''s'', new_approval = 21, new_code = ''123456'', new_salt = [], new_nonce = [],
     new_user = 22, new_membership = 23, new_recovery = [], new_totp_secret = [] \<rparr>"

definition demo_client :: client where
  "demo_client = \<lparr> cl_ip = None, cl_addr = None, cl_user_agent = None \<rparr>"

definition demo_request :: login_request where
  "demo_request = \<lparr> lr_email = ''a'', lr_password = ''pw'', lr_remember_me = False, lr_mfa_code = Some ''000000'',
     lr_recovery_code = None, lr_approval_code = None, lr_device_id = None, lr_tenant_id = Some 1, lr_tenant_slug = None \<rparr>"

lemma demo_db_ok: "auth_ok demo_db"
  by (simp add: auth_ok_def demo_db_def demo_user_def demo_session_def user_keys_def)

lemma demo_fresh_ok: "fresh_for demo_fresh demo_db"
  by (simp add: fresh_for_def demo_fresh_def demo_db_def demo_user_def demo_session_def)

section \<open>Consistent tables\<close>

text \<open>
  C7. Whatever sequence of operations the service runs, the tables stay well formed: user, session and
  challenge identifiers are unique, an address is unique in its tenant, every session, reset token,
  known device and challenge belongs to a user of the same tenant, a user has at most one open
  challenge and it has been guessed at fewer than five times, and a tenant has at most one entitlement.
\<close>

theorem auth_tables_stay_well_formed:
  assumes "auth_ok db" and "auth_step\<^sup>*\<^sup>* db db'"
  shows "auth_ok db'"
  using auth_steps_safe [OF assms(2)] assms(1) by (simp add: auth_safe_def)

theorem auth_tables_stay_well_formed_witness:
  "auth_ok (fst (login_route demo_env demo_fresh 3000 demo_request demo_client demo_db))
   \<and> length (auth_sessions (fst (login_route demo_env demo_fresh 3000 demo_request demo_client demo_db))) = 2"
proof
  have "auth_step\<^sup>*\<^sup>* demo_db (fst (login_route demo_env demo_fresh 3000 demo_request demo_client demo_db))"
    by (rule r_into_rtranclp) (rule auth_step.signed_in, rule demo_fresh_ok)
  with demo_db_ok show "auth_ok (fst (login_route demo_env demo_fresh 3000 demo_request demo_client demo_db))"
    by (rule auth_tables_stay_well_formed)
  show "length (auth_sessions (fst (login_route demo_env demo_fresh 3000 demo_request demo_client demo_db))) = 2"
    by code_simp
qed

section \<open>What a session rests on\<close>

lemma open_session_out:
  "snd (open_session env fr now cl rm u db) = Inr (session_response env now u (new_session fr)
      (create_session env fr now (usr_tenant u) (usr_id u) cl rm db))"
  "auth_sessions (fst (open_session env fr now cl rm u db)) = auth_sessions (create_session env fr now (usr_tenant u) (usr_id u) cl rm db)"
  by (simp_all add: open_session_def Let_def update_last_login_def auth_frame)

lemma resp_user_session: "resp_user (session_response env now u sid db) = Some (to_current_user u)"
  by (simp add: session_response_def split: prod.split)

lemma login_writes_no_session:
  "auth_sessions (record_login_success now u a db) = auth_sessions db"
  "auth_sessions (check_login_location env u cl db) = auth_sessions db"
  "auth_sessions (audit_auth_event u x cl db) = auth_sessions db"
  by (auto simp: record_login_success_def check_login_location_def audit_auth_event_def Let_def record_known_device_def
      set_last_login_country_def auth_frame split: option.split login_location_decision.split)

lemma approval_gate_passed:
  assumes "snd (approval_gate env fr now cl d c u db) = Inr (Some x)" "as_suspicious (assess_login env u cl d db)"
  shows "\<exists>code. c = Some code \<and> snd (verify_login_approval env now (usr_tenant u) (usr_id u) code db) = Inr ()"
  using assms by (auto simp: approval_gate_def Let_def then_do_def split: option.splits if_splits sum.splits)

definition session_of :: "fresh \<Rightarrow> auth_user \<Rightarrow> auth_db \<Rightarrow> bool" where
  "session_of fr u db \<longleftrightarrow> list_ex (\<lambda>r. ses_id r = new_session fr \<and> ses_user r = usr_id u \<and> ses_tenant r = usr_tenant u) (auth_sessions db)"

lemma opened_session:
  assumes "snd (then_do (open_session env fr now cl rm u db) (\<lambda>resp e. (audit_auth_event u ALogin cl (g e), Inr resp))) = Inr r"
    and "\<And>e. auth_sessions (g e) = auth_sessions e"
  shows "resp_user r = Some (to_current_user u)"
    and "session_of fr u (fst (then_do (open_session env fr now cl rm u db) (\<lambda>resp e. (audit_auth_event u ALogin cl (g e), Inr resp))))"
  using assms
  by (auto simp: then_do_def open_session_out login_writes_no_session create_session_def resp_user_session session_of_def)

lemma complete_login_session:
  assumes "snd (complete_login env fr now req cl u db) = Inr resp" "resp_user resp \<noteq> None"
  shows "resp_user resp = Some (to_current_user u) \<and> session_of fr u (fst (complete_login env fr now req cl u db))
    \<and> (login_approval_enabled env \<and> as_suspicious (assess_login env u cl (lr_device_id req) db) \<longrightarrow>
       (\<exists>code. lr_approval_code req = Some code \<and> snd (verify_login_approval env now (usr_tenant u) (usr_id u) code db) = Inr ()))"
proof (cases "login_approval_enabled env")
  case False
  with assms(1) opened_session [of env fr now cl "lr_remember_me req" u db "check_login_location env u cl" resp] show ?thesis
    by (simp add: complete_login_def login_writes_no_session)
next
  case True
  let ?gate = "approval_gate env fr now cl (lr_device_id req) (lr_approval_code req) u db"
  have c: "complete_login env fr now req cl u db = then_do ?gate (\<lambda>a db. case a of
            None \<Rightarrow> (db, Inr ((empty_response now)\<lparr> resp_approval_required := True \<rparr>))
          | Some a \<Rightarrow> then_do (open_session env fr now cl (lr_remember_me req) u db) (\<lambda>resp db.
              (audit_auth_event u ALogin cl (record_login_success now u a db), Inr resp)))"
    using True by (simp add: complete_login_def)
  obtain a where a: "snd ?gate = Inr a" using assms(1) unfolding c by (rule then_do_InrE)
  have "a \<noteq> None"
  proof
    assume "a = None"
    with assms a show False unfolding c by (auto simp: then_do_def empty_response_def)
  qed
  then obtain x where x: "a = Some x" by auto
  have e: "complete_login env fr now req cl u db = then_do (open_session env fr now cl (lr_remember_me req) u (fst ?gate)) (\<lambda>resp db.
              (audit_auth_event u ALogin cl (record_login_success now u x db), Inr resp))"
    unfolding c using a x by (simp add: then_do_def [of ?gate])
  show ?thesis
    using assms(1) opened_session [of env fr now cl "lr_remember_me req" u "fst ?gate" "record_login_success now u x" resp]
      approval_gate_passed a x unfolding e by (auto simp: login_writes_no_session)
qed

text \<open>
  C5. A login that hands out a session has checked everything: the account exists in the tenant
  named, is active, and so is its tenant; the password matches; with a second factor the account was
  not locked out and either a stored recovery code or a one-time step later than the last accepted one was
  presented; and a login flagged as suspicious came with the mailed code. The session is stored for that
  account.
\<close>

theorem login_needs_every_factor:
  assumes "snd (login env fr now req cl db) = Inr resp" and "resp_user resp \<noteq> None"
  shows "\<exists>u \<in> set (auth_users db). login_tenant req db = Inr (usr_tenant u) \<and> usr_email u = lr_email req
    \<and> usr_status u = UActive \<and> ensure_tenant_active now (usr_tenant u) db = Inr ()
    \<and> (\<exists>h. usr_password_hash u = Some h \<and> argon2_verify env (lr_password req) h = PasswordMatches)
    \<and> (usr_mfa_enabled u \<longrightarrow> lockout_wait now (usr_tenant u) (usr_id u) db = None
         \<and> (\<exists>v \<in> set (auth_users db). is_user (usr_tenant u) (usr_id u) v
              \<and> ((\<exists>rc. lr_recovery_code req = Some rc \<and> recovery_code_hex_hash env rc \<in> set (usr_recovery_hashes v))
                 \<or> (\<exists>s. used_step env now req u = Some s \<and> step_is_new s v))))
    \<and> (login_approval_enabled env \<and> as_suspicious (assess_login env u cl (lr_device_id req) (fst (second_factor env fr now req u db))) \<longrightarrow>
         (\<exists>code. lr_approval_code req = Some code \<and>
            snd (verify_login_approval env now (usr_tenant u) (usr_id u) code (fst (second_factor env fr now req u db))) = Inr ()))
    \<and> resp_user resp = Some (to_current_user u) \<and> session_of fr u (fst (login env fr now req cl db))"
proof -
  obtain u sat where u: "login_principal env now req db = Inr u" "snd (first_factor env cl req u db) = Inr ()"
    "snd (second_factor env fr now req u db) = Inr sat"
    "fst (login env fr now req cl db) = (if sat then fst (complete_login env fr now req cl u (fst (second_factor env fr now req u db)))
        else fst (second_factor env fr now req u db))"
    "if sat then snd (complete_login env fr now req cl u (fst (second_factor env fr now req u db))) = Inr resp
     else resp = (empty_response now)\<lparr> resp_mfa_required := True \<rparr>"
    using assms(1) by (rule login_InrE)
  have sat: sat using u(5) assms(2) by (auto simp: empty_response_def split: if_splits)
  note c = complete_login_session [OF _ assms(2), of env fr now req cl u "fst (second_factor env fr now req u db)"]
  from u(3) sat have two: "snd (second_factor env fr now req u db) = Inr True" by simp
  have m: "\<exists>v \<in> set (auth_users db). is_user (usr_tenant u) (usr_id u) v
              \<and> ((\<exists>rc. lr_recovery_code req = Some rc \<and> recovery_code_hex_hash env rc \<in> set (usr_recovery_hashes v))
                 \<or> (\<exists>s. used_step env now req u = Some s \<and> step_is_new s v))" if mfa: "usr_mfa_enabled u"
    using second_factor_ok(2) [OF two mfa]
  proof (elim disjE exE conjE)
    fix rc assume "lr_recovery_code req = Some rc" "snd (recovery_factor env now u rc db) = Inr ()"
    with recovery_factor_ok show ?thesis by blast
  next
    fix code assume k: "lr_recovery_code req = None" "lr_mfa_code req = Some code" "snd (totp_factor env fr now u code db) = Inr ()"
    obtain stored secret s where "totp_secret env (usr_mfa_secret u) = Inr (stored, secret)"
      "totp_verify (hmac_of env) secret code now 1 = Some s" using k(3) by (rule totp_factor_ok)
    then have "used_step env now req u = Some s" using k mfa by (simp add: used_step_def)
    with used_step_ok(1) [OF two] show ?thesis by blast
  qed
  show ?thesis
    using login_principal_InrD [OF u(1)] first_factor_ok(2) [OF u(2)] second_factor_ok(1) [OF two]
      m c u(4,5) sat by (intro bexI [of _ u]) auto
qed

theorem login_needs_every_factor_witness:
  "\<exists>resp. snd (login demo_env demo_fresh 3000 demo_request demo_client demo_db) = Inr resp \<and> resp_user resp \<noteq> None
     \<and> (\<exists>u \<in> set (auth_users demo_db). resp_user resp = Some (to_current_user u)
          \<and> session_of demo_fresh u (fst (login demo_env demo_fresh 3000 demo_request demo_client demo_db)))"
proof -
  have "(case snd (login demo_env demo_fresh 3000 demo_request demo_client demo_db) of Inl _ \<Rightarrow> False
      | Inr resp \<Rightarrow> resp_user resp \<noteq> None)" by code_simp
  then obtain resp where "snd (login demo_env demo_fresh 3000 demo_request demo_client demo_db) = Inr resp" "resp_user resp \<noteq> None"
    by (auto split: sum.splits)
  with login_needs_every_factor [OF this] show ?thesis by blast
qed

section \<open>A one-time step is spent once\<close>

lemma used_step_sat:
  "snd (second_factor env fr now req u db) = Inr sat \<Longrightarrow> used_step env now req u = Some s \<Longrightarrow> sat"
  by (auto simp: second_factor_def used_step_def then_do_def split: option.splits sum.splits if_splits)

lemma ids_unique: "auth_ok db \<Longrightarrow> u \<in> set (auth_users db) \<Longrightarrow> v \<in> set (auth_users db) \<Longrightarrow> usr_id u = usr_id v \<Longrightarrow> u = v"
  by (auto simp: auth_ok_def distinct_map inj_on_def)

text \<open>An accepted step is new to the account and is on record afterwards.\<close>

lemma login_spends_step:
  assumes "auth_ok db" "login_principal env now req db = Inr u" "is_ok (snd (login env fr now req cl db))"
    and "used_step env now req u = Some s"
  shows "step_is_new s u"
    and "fresh_for fr db \<Longrightarrow> \<exists>db0. auth_safe db0 (fst (login env fr now req cl db))
           \<and> (\<exists>v \<in> set (auth_users db0). usr_id v = usr_id u \<and> usr_mfa_last_step v = Some s)"
proof -
  obtain resp where "snd (login env fr now req cl db) = Inr resp" using assms(3) by (auto simp: is_ok_def split: sum.splits)
  then obtain u' sat where u': "login_principal env now req db = Inr u'" "snd (second_factor env fr now req u' db) = Inr sat"
    "fst (login env fr now req cl db) = (if sat then fst (complete_login env fr now req cl u' (fst (second_factor env fr now req u' db)))
        else fst (second_factor env fr now req u' db))" by (rule login_InrE)
  have u: "u' = u" "u \<in> set (auth_users db)" using u'(1) assms(2) login_principal_InrD(1) by auto
  have sat using used_step_sat u'(2) u assms(4) by blast
  with u'(2) u have two: "snd (second_factor env fr now req u db) = Inr True" by simp
  obtain v where v: "v \<in> set (auth_users db)" "is_user (usr_tenant u) (usr_id u) v" "step_is_new s v"
    using used_step_ok(1) [OF two assms(4)] by blast
  show "step_is_new s u" using ids_unique [OF assms(1) u(2) v(1)] v by (simp add: is_user_def)
  let ?d = "fst (second_factor env fr now req u db)"
  assume "fresh_for fr db"
  have f: "factor_safe db ?d" by (rule second_factor_safe)
  have "row_of u ?d" by (rule row_of_safe [OF user_row_of [OF u(2)] factor_auth_safe [OF f]])
  then have "auth_safe ?d (fst (login env fr now req cl db))"
    using complete_login_safe fresh_factor [OF f \<open>fresh_for fr db\<close>] u'(3) u(1) \<open>sat\<close> by simp
  with used_step_ok(2) [OF two assms(4)] have "auth_safe (fst (record_mfa_success (usr_tenant u) (usr_id u) s db)) (fst (login env fr now req cl db))"
    by (rule auth_safe_trans)
  with spent_step [OF v] show "\<exists>db0. auth_safe db0 (fst (login env fr now req cl db))
      \<and> (\<exists>v \<in> set (auth_users db0). usr_id v = usr_id u \<and> usr_mfa_last_step v = Some s)" by blast
qed


definition demo_later :: auth_db where
  "demo_later = fst (login demo_env demo_fresh 3000 demo_request demo_client demo_db)"


end
