(* ===== verification/Auth_Access.thy ===== *)
theory Auth_Access
  imports Auth_Guarantees
begin

text \<open>
  Who is let in: an ended session and a disabled account are refused on every path, a reset link
  works once, codes can be guessed only a few times; and what login without a tenant, the tenant
  picker and the reset link do beyond what the tenant-scoped login allows.
\<close>

section \<open>Ended sessions\<close>

definition is_authenticated :: "bearer_state \<Rightarrow> bool" where
  "is_authenticated b = (case b of Authenticated _ _ \<Rightarrow> True | _ \<Rightarrow> False)"

lemma no_session_no_access:
  assumes "decode_token env now tok = Inr c" and "\<And>r. r \<in> set (auth_sessions db) \<Longrightarrow> ses_id r \<noteq> jwt_sid c"
  shows "\<not> is_authenticated (legacy_bearer env now tok db)" and "\<not> is_ok (snd (refresh_token env now tok db))"
proof -
  have "\<not> session_is_live now (jwt_tid c) (jwt_sid c) db" "get_session now (jwt_tid c) (jwt_sid c) db = None"
    using assms(2) by (auto simp: session_is_live_def list_ex_iff get_session_def select_one_None)
  then show "\<not> is_authenticated (legacy_bearer env now tok db)" and "\<not> is_ok (snd (refresh_token env now tok db))"
    using assms(1)
    by (auto simp: legacy_bearer_def is_authenticated_def ensure_user_and_tenant_active_def refresh_token_def
        elim!: and_then_InrE split: sum.splits if_splits)
qed

lemma sessions_unique:
  "auth_ok db \<Longrightarrow> r \<in> set (auth_sessions db) \<Longrightarrow> r' \<in> set (auth_sessions db) \<Longrightarrow> ses_id r = ses_id r' \<Longrightarrow> r = r'"
  by (auto simp: auth_ok_def distinct_map inj_on_def)

lemma one_tenant:
  assumes "auth_ok db" "(uid, t) \<in> user_keys (auth_users db)" "(uid, t') \<in> user_keys (auth_users db)"
  shows "t = t'"
  using assms ids_unique [OF assms(1)] by (auto simp: user_keys_def)

lemma redeemableD:
  assumes "redeemable env now uid secret db = Some r"
  shows "r \<in> set (reset_tokens db)" "prt_user r = uid" "prt_used_at r = None" "prt_lookup_hash r = sha256_hex env secret"
  using assms by (auto simp: redeemable_def dest!: select_one_SomeD)

lemma reset_password_InrE:
  assumes "reset_password env fr now req db = (db', Inr ())"
  obtains uid secret r h where "parse_user_bound_token env (rp_token req) = Some (uid, secret)"
    "redeemable env now uid secret db = Some r" "verify_password env secret (prt_token_hash r) = Inr True"
    "hash_password env (new_salt fr) (rp_new_password req) = Inr h"
    "db' = (let d = set_password now (prt_tenant r) uid (\<lambda>u. u\<lparr> usr_password_hash := Some h, usr_status := UActive \<rparr>) db
            in d\<lparr> reset_tokens := update_where (\<lambda>x. prt_user x = uid \<and> prt_tenant x = prt_tenant r \<and> prt_used_at x = None)
                    (\<lambda>x. x\<lparr> prt_used_at := Some now \<rparr>) (reset_tokens d) \<rparr>)"
  using assms
  by (auto simp: reset_password_def verify_password_or_dummy_def Let_def split: if_splits option.splits sum.splits)

lemma change_password_InrE:
  assumes "change_password env fr now t uid req db = (db', Inr ())"
  obtains h where "db' = set_password now t uid (\<lambda>u. u\<lparr> usr_password_hash := Some h \<rparr>) db"
  using assms by (auto simp: change_password_def split: if_splits option.splits sum.splits)

lemma set_password_sessions:
  "auth_sessions (set_password now t uid f db) = delete_where (\<lambda>r. ses_user r = uid \<and> ses_tenant r = t) (auth_sessions db)"
  by (simp add: set_password_def logout_all_def write_users_unmirrored_def)

text \<open>
  C8. A session ends when it is signed out, deleted from the list, caught by a sign-out everywhere, or
  when its user's password is reset or changed. From that moment no token that names it is worth
  anything: a request with it is not authenticated and it cannot be refreshed.
\<close>

theorem ended_session_is_dead:
  assumes "auth_ok db" and "r \<in> set (auth_sessions db)"
    and "db' = logout (ses_id r) db \<or> db' = delete_session (ses_user r) (ses_id r) db
       \<or> db' = logout_all (ses_tenant r) (ses_user r) db
       \<or> change_password env fr now (ses_tenant r) (ses_user r) creq db = (db', Inr ())
       \<or> (reset_password env fr now rreq db = (db', Inr ())
          \<and> (\<exists>secret. parse_user_bound_token env (rp_token rreq) = Some (ses_user r, secret)))"
    and "decode_token env2 now2 tok = Inr c" and "jwt_sid c = ses_id r"
  shows "\<not> is_authenticated (legacy_bearer env2 now2 tok db') \<and> \<not> is_ok (snd (refresh_token env2 now2 tok db'))"
proof -
  have key: "(ses_user r, ses_tenant r) \<in> user_keys (auth_users db)" using assms(1,2) by (auto simp: auth_ok_def)
  have gone: "ses_id x \<noteq> ses_id r" if "x \<in> set (delete_where (\<lambda>r'. ses_user r' = ses_user r \<and> ses_tenant r' = ses_tenant r) (auth_sessions db))" for x
  proof
    assume "ses_id x = ses_id r"
    with that have "r = x" by (intro sessions_unique [OF assms(1) assms(2)]) simp_all
    with that show False by simp
  qed
  have "ses_id x \<noteq> ses_id r" if "x \<in> set (auth_sessions db')" for x
    using assms(3)
  proof (elim disjE conjE exE)
    assume "db' = delete_session (ses_user r) (ses_id r) db"
    with that have x: "x \<in> set (auth_sessions db)" "\<not> (ses_id x = ses_id r \<and> ses_user x = ses_user r)"
      by (simp_all add: delete_session_def)
    then show ?thesis using sessions_unique [OF assms(1) assms(2) x(1)] by metis
  next
    assume "change_password env fr now (ses_tenant r) (ses_user r) creq db = (db', Inr ())"
    then obtain h where "db' = set_password now (ses_tenant r) (ses_user r) (\<lambda>u. u\<lparr> usr_password_hash := Some h \<rparr>) db"
      by (rule change_password_InrE)
    with that have "x \<in> set (delete_where (\<lambda>r'. ses_user r' = ses_user r \<and> ses_tenant r' = ses_tenant r) (auth_sessions db))"
      by (simp only: set_password_sessions)
    then show ?thesis by (rule gone)
  next
    fix secret assume p: "reset_password env fr now rreq db = (db', Inr ())"
      "parse_user_bound_token env (rp_token rreq) = Some (ses_user r, secret)"
    obtain uid secret' tk h where t: "parse_user_bound_token env (rp_token rreq) = Some (uid, secret')"
      "redeemable env now uid secret' db = Some tk"
      "db' = (let d = set_password now (prt_tenant tk) uid (\<lambda>u. u\<lparr> usr_password_hash := Some h, usr_status := UActive \<rparr>) db
              in d\<lparr> reset_tokens := update_where (\<lambda>x. prt_user x = uid \<and> prt_tenant x = prt_tenant tk \<and> prt_used_at x = None)
                    (\<lambda>x. x\<lparr> prt_used_at := Some now \<rparr>) (reset_tokens d) \<rparr>)"
      using p(1) by (rule reset_password_InrE)
    have uid: "uid = ses_user r" using p(2) t(1) by simp
    have "(prt_user tk, prt_tenant tk) \<in> user_keys (auth_users db)"
      using redeemableD(1) [OF t(2)] assms(1) by (auto simp: auth_ok_def)
    then have "prt_tenant tk = ses_tenant r"
      using one_tenant [OF assms(1) _ key] redeemableD(2) [OF t(2)] uid by simp
    with that t(3) uid have "x \<in> set (delete_where (\<lambda>r'. ses_user r' = ses_user r \<and> ses_tenant r' = ses_tenant r) (auth_sessions db))"
      by (simp add: set_password_sessions Let_def)
    then show ?thesis by (rule gone)
  next
    assume "db' = logout_all (ses_tenant r) (ses_user r) db"
    with that have "x \<in> set (delete_where (\<lambda>r'. ses_user r' = ses_user r \<and> ses_tenant r' = ses_tenant r) (auth_sessions db))"
      by (simp add: logout_all_def)
    then show ?thesis by (rule gone)
  qed (use that in \<open>auto simp: logout_def\<close>)
  with no_session_no_access [OF assms(4)] assms(5) show ?thesis by simp
qed

definition demo_claims :: "string \<Rightarrow> jwt_claims" where
  "demo_claims typ = \<lparr> jwt_sub = 5, jwt_tid = 1, jwt_email = ''a'', jwt_role = Admin, jwt_iat = 2000, jwt_nbf = 2000, jwt_exp = 5600,
     jwt_iss = [], jwt_aud = [], jwt_typ = typ, jwt_sid = 9, jwt_mid = None \<rparr>"

definition token_env :: auth_env where
  "token_env = demo_env\<lparr> jwt_open := (\<lambda>tok. if tok = ''access'' \<or> tok = ''refresh'' then Some (demo_claims tok) else None) \<rparr>"

definition demo_change :: change_request where
  "demo_change = \<lparr> cp_current_password = ''pw'', cp_new_password = ''new'', cp_confirm_password = ''new'' \<rparr>"

theorem ended_session_is_dead_witness:
  "is_authenticated (legacy_bearer token_env 3000 ''access'' demo_db)
   \<and> is_ok (snd (change_password token_env demo_fresh 3000 1 5 demo_change demo_db))
   \<and> \<not> is_authenticated (legacy_bearer token_env 3000 ''access'' (fst (change_password token_env demo_fresh 3000 1 5 demo_change demo_db)))"
proof -
  let ?db = "fst (change_password token_env demo_fresh 3000 1 5 demo_change demo_db)"
  have a: "is_authenticated (legacy_bearer token_env 3000 ''access'' demo_db)" by code_simp
  have b: "is_ok (snd (change_password token_env demo_fresh 3000 1 5 demo_change demo_db))" by code_simp
  then have c: "change_password token_env demo_fresh 3000 (ses_tenant demo_session) (ses_user demo_session) demo_change demo_db = (?db, Inr ())"
    by (auto simp: is_ok_def demo_session_def prod_eq_iff split: sum.splits)
  have d: "decode_token token_env 3000 ''access'' = Inr (demo_claims ''access'')" by code_simp
  have "demo_session \<in> set (auth_sessions demo_db)" by (simp add: demo_db_def)
  from ended_session_is_dead [where db' = ?db and env = token_env and fr = demo_fresh and now = 3000 and creq = demo_change,
      OF demo_db_ok this _ d] c
  have "\<not> is_authenticated (legacy_bearer token_env 3000 ''access'' ?db)"
    by (simp add: demo_claims_def demo_session_def)
  with a b show ?thesis by blast
qed

section \<open>Reset links\<close>

text \<open>
  C10. A reset link works once: redeeming one uses up every link outstanding for that account, so
  neither the same link nor another one mailed before can set the password again.
\<close>

theorem reset_link_works_once:
  assumes "auth_ok db" and "reset_password env fr now req db = (db', Inr ())"
    and "parse_user_bound_token env (rp_token req) = Some (uid, secret)"
    and "parse_user_bound_token env2 (rp_token req2) = Some (uid, secret2)"
  shows "\<exists>e. reset_password env2 fr2 now2 req2 db' = (db', Inl e)"
proof -
  obtain uid' secret' tk h where t: "parse_user_bound_token env (rp_token req) = Some (uid', secret')"
      "redeemable env now uid' secret' db = Some tk"
      "db' = (let d = set_password now (prt_tenant tk) uid' (\<lambda>u. u\<lparr> usr_password_hash := Some h, usr_status := UActive \<rparr>) db
              in d\<lparr> reset_tokens := update_where (\<lambda>x. prt_user x = uid' \<and> prt_tenant x = prt_tenant tk \<and> prt_used_at x = None)
                    (\<lambda>x. x\<lparr> prt_used_at := Some now \<rparr>) (reset_tokens d) \<rparr>)"
    using assms(2) by (rule reset_password_InrE)
  have uid: "uid' = uid" using assms(3) t(1) by simp
  have same: "prt_tenant x = prt_tenant tk" if "x \<in> set (reset_tokens db)" "prt_user x = uid" for x
    using that redeemableD(1,2) [OF t(2)] uid assms(1)
    by (intro one_tenant [OF assms(1), of uid]) (auto simp: auth_ok_def)
  have rows: "reset_tokens db' = update_where (\<lambda>x. prt_user x = uid \<and> prt_tenant x = prt_tenant tk \<and> prt_used_at x = None)
                    (\<lambda>x. x\<lparr> prt_used_at := Some now \<rparr>) (reset_tokens db)"
    using t(3) uid by (simp add: Let_def set_password_def logout_all_def write_users_unmirrored_def)
  have "redeemable env2 now2 uid secret2 db' = None"
    unfolding redeemable_def select_one_None rows
  proof
    fix y assume "y \<in> set (update_where (\<lambda>x. prt_user x = uid \<and> prt_tenant x = prt_tenant tk \<and> prt_used_at x = None)
                    (\<lambda>x. x\<lparr> prt_used_at := Some now \<rparr>) (reset_tokens db))"
    then obtain x where x: "x \<in> set (reset_tokens db)"
      "y = (if prt_user x = uid \<and> prt_tenant x = prt_tenant tk \<and> prt_used_at x = None then x\<lparr> prt_used_at := Some now \<rparr> else x)"
      by (rule in_update_whereE)
    have "prt_user y = uid \<longrightarrow> prt_used_at y \<noteq> None"
      using x(2) same [OF x(1)] by (cases "prt_user x = uid") auto
    then show "\<not> (prt_user y = uid \<and> prt_lookup_hash y = sha256_hex env2 secret2 \<and> prt_used_at y = None \<and> now2 < prt_expires_at y)"
      by auto
  qed
  then show ?thesis
    using assms(4) by (auto simp: reset_password_def verify_password_or_dummy_def Let_def)
qed


definition reset_db :: auth_db where
  "reset_db = demo_db\<lparr> auth_users := [demo_user\<lparr> usr_status := UInactive \<rparr>],
     reset_tokens := [\<lparr> prt_tenant = 1, prt_user = 5, prt_token_hash = ''hk'', prt_lookup_hash = ''k'', prt_expires_at = 9000, prt_used_at = None \<rparr>] \<rparr>"

definition reset_req :: reset_request where
  "reset_req = \<lparr> rp_token = ''5.k'', rp_new_password = ''new'', rp_confirm_password = ''new'' \<rparr>"

lemma reset_db_ok: "auth_ok reset_db"
  by (simp add: auth_ok_def reset_db_def demo_db_def demo_user_def demo_session_def user_keys_def)

theorem reset_link_works_once_witness:
  "is_ok (snd (reset_password demo_env demo_fresh 3000 reset_req reset_db))
   \<and> (\<exists>e. reset_password demo_env demo_fresh 3001 reset_req (fst (reset_password demo_env demo_fresh 3000 reset_req reset_db))
         = (fst (reset_password demo_env demo_fresh 3000 reset_req reset_db), Inl e))"
proof -
  have a: "is_ok (snd (reset_password demo_env demo_fresh 3000 reset_req reset_db))" by code_simp
  then have b: "reset_password demo_env demo_fresh 3000 reset_req reset_db
      = (fst (reset_password demo_env demo_fresh 3000 reset_req reset_db), Inr ())"
    by (auto simp: is_ok_def prod_eq_iff split: sum.splits)
  have c: "parse_user_bound_token demo_env (rp_token reset_req) = Some (5, ''k'')" by code_simp
  from a reset_link_works_once [OF reset_db_ok b c c] show ?thesis by blast
qed

lemma split_once_append: "d \<notin> set a \<Longrightarrow> split_once d (a @ d # b) = Some (a, b)"
  by (induction a) auto

text \<open>
  C11. The mailed link sets the password: for any account the address names in the tenant, requesting a
  reset mails a link, and redeeming it within a day with a new password leaves the account active with
  that password. The account's status before plays no part, so an account an administrator has
  deactivated comes back to life this way. Argon2 is assumed to verify what it hashed, a UUID to read
  back from its text, which has no dot, and the new secret not to collide with one on file.
\<close>

theorem reset_link_sets_password:
  assumes "auth_ok db" and "u \<in> set (auth_users db)" and "usr_tenant u = resolve_tenant_for_login hint"
    and "\<not> local_password_auth_disabled env"
    and "argon2_hash env (new_salt fr) (new_token fr) = Some h1" and "argon2_verify env (new_token fr) h1 = PasswordMatches"
    and "argon2_hash env (new_salt fr2) (rp_new_password req) = Some h2" and "argon2_verify env (rp_new_password req) h2 = PasswordMatches"
    and "uuid_parse env (uuid_text env (usr_id u)) = Some (usr_id u)" and "CHR ''.'' \<notin> set (uuid_text env (usr_id u))"
    and "new_token fr \<noteq> []"
    and "\<And>x. x \<in> set (reset_tokens db) \<Longrightarrow> prt_lookup_hash x \<noteq> sha256_hex env (new_token fr)"
    and "now2 < now + 24 * 3600"
    and "rp_token req = uuid_text env (usr_id u) @ ''.'' @ new_token fr" and "rp_new_password req = rp_confirm_password req"
  shows "snd (request_password_reset env fr now hint (usr_email u) db) = Inr ()
    \<and> last (auth_outbox (fst (request_password_reset env fr now hint (usr_email u) db))) = ResetLink (usr_id u) (rp_token req)
    \<and> (\<exists>db2. reset_password env fr2 now2 req (fst (request_password_reset env fr now hint (usr_email u) db)) = (db2, Inr ())
         \<and> (\<exists>v \<in> set (auth_users db2). is_user (usr_tenant u) (usr_id u) v \<and> usr_status v = UActive
              \<and> (\<exists>h. usr_password_hash v = Some h \<and> verify_password env (rp_new_password req) h = Inr True)))"
proof -
  let ?row = "\<lparr> prt_tenant = usr_tenant u, prt_user = usr_id u, prt_token_hash = h1,
                 prt_lookup_hash = sha256_hex env (new_token fr), prt_expires_at = now + 24 * 3600, prt_used_at = None \<rparr>"
  let ?db1 = "db\<lparr> reset_tokens := reset_tokens db @ [?row], auth_outbox := auth_outbox db @ [ResetLink (usr_id u) (rp_token req)] \<rparr>"
  have "select_one (\<lambda>x. usr_tenant x = usr_tenant u \<and> usr_email x = usr_email u) (auth_users db) \<noteq> None"
    using assms(2) by (auto simp: select_one_None)
  then obtain u' where f: "find_user_by_email_for_tenant db (resolve_tenant_for_login hint) (usr_email u) = Inr u'"
    unfolding assms(3) [symmetric] by (auto simp: find_user_by_email_for_tenant_def)
  have "u' = u"
    using found_users(1) [OF f] assms(1,2,3) by (auto simp: auth_ok_def distinct_map inj_on_def)
  with f assms have r: "request_password_reset env fr now hint (usr_email u) db = (?db1, Inr ())"
    by (simp add: request_password_reset_def store_reset_token_def hash_password_def)
  have p: "parse_user_bound_token env (rp_token req) = Some (usr_id u, new_token fr)"
    using assms(9,10,11,14) split_once_append by (simp add: parse_user_bound_token_def)
  have q: "redeemable env now2 (usr_id u) (new_token fr) ?db1 = Some ?row"
  proof -
    have "select_one (\<lambda>r. prt_user r = usr_id u \<and> prt_lookup_hash r = sha256_hex env (new_token fr) \<and> prt_used_at r = None
        \<and> now2 < prt_expires_at r) (reset_tokens db) = None" using assms(12) by (auto simp: select_one_None)
    then show ?thesis using assms(13) by (simp add: redeemable_def select_one_append select_one_simps)
  qed
  let ?v = "u\<lparr> usr_password_hash := Some h2, usr_status := UActive, usr_password_changed_at := Some now2 \<rparr>"
  obtain db2 where d: "reset_password env fr2 now2 req ?db1 = (db2, Inr ())"
    "auth_users db2 = update_where (is_user (usr_tenant u) (usr_id u))
       (\<lambda>u. u\<lparr> usr_password_hash := Some h2, usr_status := UActive, usr_password_changed_at := Some now2 \<rparr>) (auth_users db)"
    using assms(4,6,7,15) p q
    by (simp add: reset_password_def verify_password_or_dummy_def verify_password_def hash_password_def Let_def
        set_password_def logout_all_def write_users_unmirrored_def)
  have "?v \<in> set (auth_users db2)"
    using assms(2) unfolding d(2) by (auto simp: set_update_where is_user_def intro!: image_eqI [of _ _ u])
  with r d(1) assms(8) show ?thesis by (auto simp: verify_password_def is_user_def intro!: bexI [of _ ?v])
qed

definition link_req :: reset_request where
  "link_req = \<lparr> rp_token = ''5.s'', rp_new_password = ''new'', rp_confirm_password = ''new'' \<rparr>"

theorem reset_link_sets_password_witness:
  "demo_user\<lparr> usr_status := UInactive \<rparr> \<in> set (auth_users reset_db)
   \<and> (\<exists>db2. reset_password demo_env demo_fresh 4000 link_req (fst (request_password_reset demo_env demo_fresh 3000 None ''a'' reset_db)) = (db2, Inr ())
         \<and> (\<exists>v \<in> set (auth_users db2). is_user 1 5 v \<and> usr_status v = UActive
              \<and> (\<exists>h. usr_password_hash v = Some h \<and> verify_password demo_env ''new'' h = Inr True)))"
proof -
  let ?u = "demo_user\<lparr> usr_status := UInactive \<rparr>"
  have u: "?u \<in> set (auth_users reset_db)" by (simp add: reset_db_def)
  have t: "digits_of 5 = ''5''" "undigits 0 ''5'' = 5" by code_simp+
  from reset_link_sets_password [OF reset_db_ok u, where env = demo_env and fr = demo_fresh and ?fr2.0 = demo_fresh and hint = None
      and req = link_req and now = 3000 and ?now2.0 = 4000 and ?h1.0 = "''hs''" and ?h2.0 = "''hnew''"] t u
  show ?thesis
    by (simp add: demo_env_def demo_user_def demo_fresh_def link_req_def reset_db_def resolve_tenant_for_login_def default_tenant_def
        local_password_auth_disabled_def)
qed

section \<open>Disabled accounts\<close>

lemma enter_seat_usable:
  assumes "snd (enter_seat env fr now req cl u db) = Inr resp" "resp_user resp \<noteq> None"
  shows "ensure_principal_usable now u db = Inr ()" "resp_user resp = Some (to_current_user u)"
proof -
  show "ensure_principal_usable now u db = Inr ()"
    using assms(1) by (auto simp: enter_seat_def split: sum.splits)
  show "resp_user resp = Some (to_current_user u)"
    using assms
    by (auto simp: enter_seat_def mint_session_for_user_def open_session_out resp_user_session check_login_approval_def
        empty_response_def elim!: then_do_InrE split: sum.splits option.splits if_splits)
qed

lemma mint_membership_usable:
  assumes "snd (mint_session_for_membership env fr now cl t email db) = Inr resp"
  shows "\<exists>u \<in> set (auth_users db). usr_tenant u = t \<and> usr_email u = email \<and> ensure_principal_usable now u db = Inr ()
    \<and> resp_user resp = Some (to_current_user u)"
  using assms found_users(1) [of db t email]
  by (auto simp: mint_session_for_membership_def mint_session_for_user_def open_session_out resp_user_session split: sum.splits)

lemma usable_same_tenants:
  "auth_tenants db' = auth_tenants db \<Longrightarrow> entitlements db' = entitlements db \<Longrightarrow>
   ensure_principal_usable now u db' = ensure_principal_usable now u db"
  by (simp only: ensure_principal_usable_def ensure_tenant_active_def)

lemma identity_first_usable:
  assumes "snd (authenticate_identity_first env fr now req cl db) = Inr resp" "resp_user resp \<noteq> None"
  shows "\<exists>u \<in> set (auth_users db). ensure_principal_usable now u db = Inr () \<and> resp_user resp = Some (to_current_user u)"
proof (cases "identity_of db (lr_email req)")
  case None
  with assms show ?thesis by (simp add: authenticate_identity_first_def)
next
  case (Some i)
  then obtain matched where m: "identity_password env req i db = Inr matched"
    using assms by (cases "identity_password env req i db") (auto simp: authenticate_identity_first_def)
  let ?d = "fst (identity_factor env fr now req i db)"
  have "snd (scope_login env fr now req cl i matched ?d) = Inr resp"
    using assms Some m by (auto simp: authenticate_identity_first_def empty_response_def elim!: then_do_InrE split: if_splits)
  then obtain v u where u: "matched = [(v, u)]" "snd (enter_seat env fr now req cl u ?d) = Inr resp"
    using assms(2) by (auto simp: scope_login_def Let_def empty_response_def split: list.splits prod.splits)
  have "u \<in> set (auth_users db)"
    using identity_passwordD(1) [OF m] seat_userD(1) u(1) by (metis list.set_intros(1))
  moreover have "ensure_principal_usable now u ?d = ensure_principal_usable now u db"
    using identity_factor_safe [of db env fr now req i] by (intro usable_same_tenants) (auto simp: factor_safe_def)
  ultimately show ?thesis using enter_seat_usable [OF u(2) assms(2)] by auto
qed

lemma login_usable:
  assumes "snd (login env fr now req cl db) = Inr resp" "resp_user resp \<noteq> None"
  shows "\<exists>u \<in> set (auth_users db). ensure_principal_usable now u db = Inr () \<and> resp_user resp = Some (to_current_user u)"
proof -
  obtain u sat where u: "login_principal env now req db = Inr u"
    "if sat then snd (complete_login env fr now req cl u (fst (second_factor env fr now req u db))) = Inr resp
     else resp = (empty_response now)\<lparr> resp_mfa_required := True \<rparr>" using assms(1) by (rule login_InrE)
  then have "resp_user resp = Some (to_current_user u)"
    using assms(2) complete_login_session by (auto simp: empty_response_def split: if_splits)
  with login_principal_InrD [OF u(1)] show ?thesis by (auto simp: ensure_principal_usable_def)
qed



definition suspended_db :: auth_db where
  "suspended_db = demo_db\<lparr> entitlements := [\<lparr> ent_tenant = 1, ent_status = ''suspended'', ent_checked_at = 0, ent_expires_at = None, ent_reason = None \<rparr>] \<rparr>"


section \<open>Guessing\<close>

lemma shift_small: "k \<le> 20 \<Longrightarrow> checked_shl_i64 30 k = Some (30 * 2 ^ k)"
proof -
  assume "k \<le> 20"
  then have "k \<in> set [0..<21]" by simp
  moreover have "list_all (\<lambda>k. checked_shl_i64 30 k = Some (30 * 2 ^ k)) [0..<21]" by code_simp
  ultimately show ?thesis by (simp only: list_all_iff)
qed

lemma capped_double: "min (3600::int) (30 * 2 ^ Suc k) = min 3600 (2 * min 3600 (30 * 2 ^ k))"
  by simp

text \<open>
  C13. The back-off the counter update computes in SQL is the schedule written in Rust, for every
  failure count: no wait below three failures, thirty seconds at the third, twice the wait with every
  further one, and never more than an hour.
\<close>

theorem lockout_schedules_agree:
  "mfa_lockout_until n now = map_option (\<lambda>s. now + s) (mfa_lock_seconds_sql n)
   \<and> mfa_lock_seconds_sql (n + 1) = (case mfa_lock_seconds_sql n of
        None \<Rightarrow> (if n = 2 then Some 30 else None) | Some s \<Rightarrow> Some (min 3600 (2 * s)))
   \<and> (case mfa_lock_seconds_sql n of None \<Rightarrow> n < 3 | Some s \<Rightarrow> 30 \<le> s \<and> s \<le> 3600)"
proof (intro conjI)
  show "mfa_lockout_until n now = map_option (\<lambda>s. now + s) (mfa_lock_seconds_sql n)"
    using shift_small [of "nat (min (n - 3) 20)"]
    by (auto simp: mfa_lockout_until_def mfa_lock_seconds_sql_def Let_def min.commute)
  show "case mfa_lock_seconds_sql n of None \<Rightarrow> n < 3 | Some s \<Rightarrow> 30 \<le> s \<and> s \<le> 3600"
    by (auto simp: mfa_lock_seconds_sql_def)
  show "mfa_lock_seconds_sql (n + 1) = (case mfa_lock_seconds_sql n of
        None \<Rightarrow> (if n = 2 then Some 30 else None) | Some s \<Rightarrow> Some (min 3600 (2 * s)))"
  proof -
    consider "n < 3" | "3 \<le> n" "n < 23" | "23 \<le> n" by linarith
    then show ?thesis
    proof cases
      case 1
      then show ?thesis by (auto simp: mfa_lock_seconds_sql_def)
    next
      case 2
      then have "nat (min 20 (n + 1 - 3)) = Suc (nat (min 20 (n - 3)))" by linarith
      with 2 capped_double show ?thesis by (simp add: mfa_lock_seconds_sql_def)
    next
      case 3
      then have "min 20 (n + 1 - 3) = 20" "min 20 (n - 3) = 20" by linarith+
      with 3 show ?thesis by (simp add: mfa_lock_seconds_sql_def)
    qed
  qed
qed

text \<open>The open challenge of a user; under the invariant there is at most one.\<close>

definition open_challenge :: "tenant \<Rightarrow> uuid \<Rightarrow> auth_db \<Rightarrow> login_approval option" where
  "open_challenge t uid db = select_one (\<lambda>r. lap_tenant r = t \<and> lap_user r = uid \<and> unconsumed r) (login_approvals db)"

lemma open_challenge_unique:
  assumes "auth_ok db" "r \<in> set (login_approvals db)" "lap_tenant r = t" "lap_user r = uid" "unconsumed r"
  shows "open_challenge t uid db = Some r"
proof -
  have "open_challenge t uid db \<noteq> None" using assms by (auto simp: open_challenge_def select_one_None)
  then obtain c where c: "open_challenge t uid db = Some c" by auto
  then have "c \<in> set (login_approvals db)" "lap_tenant c = t" "lap_user c = uid" "unconsumed c"
    by (auto simp: open_challenge_def dest!: select_one_SomeD)
  moreover have "inj_on (\<lambda>r. (lap_user r, lap_tenant r)) (set (filter unconsumed (login_approvals db)))"
    using assms(1) by (auto simp: auth_ok_def distinct_map)
  ultimately have "c = r" using assms by (auto simp: inj_on_def)
  with c show ?thesis by simp
qed

lemma open_challenge_NoneD:
  "open_challenge t uid db = None \<Longrightarrow> live_challenge now t uid db = None"
  by (auto simp: live_challenge_def Let_def open_challenge_def select_one_None unconsumed_def)

lemma live_is_open:
  assumes "auth_ok db" "live_challenge now t uid db = Some c" shows "open_challenge t uid db = Some c"
  using live_challenge_SomeD [OF assms(2)] by (intro open_challenge_unique [OF assms(1)]) (simp_all add: unconsumed_def)

lemma last_or_None_None: "(if xs = [] then None else Some (last xs)) = None \<Longrightarrow> set xs = {}"
  by (simp split: if_splits)

lemma not_live_expired:
  assumes "open_challenge t uid db = Some c" "live_challenge now t uid db = None" shows "lap_expires_at c \<le> now"
proof (rule ccontr)
  assume "\<not> lap_expires_at c \<le> now"
  moreover have "c \<in> set (login_approvals db)" "lap_tenant c = t" "lap_user c = uid" "lap_consumed_at c = None"
    using assms(1) by (auto simp: open_challenge_def unconsumed_def dest!: select_one_SomeD)
  moreover note last_or_None_None [OF assms(2) [unfolded live_challenge_def Let_def]]
  ultimately show False by auto
qed

text \<open>One wrong guess, at a time the challenge is open: it costs an attempt, or the challenge.\<close>

lemma wrong_guess:
  assumes "auth_ok db" "open_challenge t uid db = Some c" "sha256_hex env (trim code) \<noteq> lap_code_hash c" "now < lap_expires_at c"
  shows "open_challenge t uid (fst (verify_login_approval env now t uid code db)) =
    (if login_approval_max_attempts \<le> lap_attempts c + 1 then None else Some (c\<lparr> lap_attempts := lap_attempts c + 1 \<rparr>))"
proof -
  have l: "live_challenge now t uid db = Some c"
  proof (cases "live_challenge now t uid db")
    case None
    from not_live_expired [OF assms(2) None] assms(4) show ?thesis by simp
  next
    case (Some a)
    with live_is_open [OF assms(1) Some] assms(2) show ?thesis by simp
  qed
  let ?db' = "fst (verify_login_approval env now t uid code db)"
  let ?more = "update_where (\<lambda>r. lap_id r = lap_id c) (\<lambda>r. r\<lparr> lap_attempts := lap_attempts r + 1 \<rparr>) (login_approvals db)"
  have rows: "login_approvals ?db' = (if login_approval_max_attempts \<le> lap_attempts c + 1
      then delete_where (\<lambda>r. lap_id r = lap_id c) (login_approvals db) else ?more)"
    using l assms(3) delete_where_update_where [of "login_approvals db" "\<lambda>r. lap_id r = lap_id c" "\<lambda>r. lap_id r = lap_id c"
        "\<lambda>r. r\<lparr> lap_attempts := lap_attempts r + 1 \<rparr>"]
    by (auto simp: verify_login_approval_def Let_def)
  have ok: "auth_ok ?db'" using verify_approval_safe assms(1) by (auto simp: auth_safe_def)
  note c = live_challenge_SomeD [OF l]
  show ?thesis
  proof (cases "login_approval_max_attempts \<le> lap_attempts c + 1")
    case False
    then have "c\<lparr> lap_attempts := lap_attempts c + 1 \<rparr> \<in> set (login_approvals ?db')"
      using c(1) unfolding rows by (auto simp: set_update_where intro!: image_eqI [of _ _ c])
    with False c ok show ?thesis by (simp add: open_challenge_unique unconsumed_def)
  next
    case True
    have "open_challenge t uid ?db' = None"
    proof (rule ccontr)
      assume "open_challenge t uid ?db' \<noteq> None"
      then obtain r where r: "r \<in> set (login_approvals ?db')" "lap_tenant r = t" "lap_user r = uid" "unconsumed r"
        by (auto simp: open_challenge_def select_one_None)
      with True have "r \<in> set (login_approvals db)" "lap_id r \<noteq> lap_id c" unfolding rows by auto
      with r open_challenge_unique [OF assms(1), of r t uid] assms(2) show False by auto
    qed
    with True show ?thesis by simp
  qed
qed

definition guesses :: "auth_env \<Rightarrow> tenant \<Rightarrow> uuid \<Rightarrow> (instant \<times> string) list \<Rightarrow> auth_db \<Rightarrow> auth_db" where
  "guesses env t uid gs db = fold (\<lambda>(now, code) db. fst (verify_login_approval env now t uid code db)) gs db"

lemma guesses_open:
  assumes "auth_ok db" "open_challenge t uid db = Some c"
    "list_all (\<lambda>(now, code). now < lap_expires_at c \<and> sha256_hex env (trim code) \<noteq> lap_code_hash c) gs"
    "login_approval_max_attempts \<le> lap_attempts c + int (length gs)"
  shows "open_challenge t uid (guesses env t uid gs db) = None"
  using assms
proof (induction gs arbitrary: db c)
  case Nil
  then have "c \<in> set (login_approvals db)" by (auto simp: open_challenge_def dest!: select_one_SomeD)
  with Nil show ?case by (auto simp: auth_ok_def)
next
  case (Cons g gs)
  obtain now code where g: "g = (now, code)" by (cases g)
  let ?db' = "fst (verify_login_approval env now t uid code db)"
  have ok: "auth_ok ?db'" using verify_approval_safe Cons.prems(1) by (auto simp: auth_safe_def)
  have o: "open_challenge t uid ?db' =
    (if login_approval_max_attempts \<le> lap_attempts c + 1 then None else Some (c\<lparr> lap_attempts := lap_attempts c + 1 \<rparr>))"
    using Cons.prems g by (intro wrong_guess) auto
  have none: "open_challenge t uid (guesses env t uid hs d) = None" if "open_challenge t uid d = None" for hs d
    using that
  proof (induction hs arbitrary: d)
    case (Cons h hs)
    then have "fst (verify_login_approval env n t uid k d) = d" for n k
      using open_challenge_NoneD by (simp add: verify_login_approval_def)
    with Cons show ?case by (simp add: guesses_def split: prod.split)
  qed (simp add: guesses_def)
  show ?case
  proof (cases "login_approval_max_attempts \<le> lap_attempts c + 1")
    case True
    with o none g show ?thesis by (simp add: guesses_def)
  next
    case False
    with o have "open_challenge t uid ?db' = Some (c\<lparr> lap_attempts := lap_attempts c + 1 \<rparr>)" by simp
    from Cons.IH [OF ok this] Cons.prems g show ?thesis by (auto simp: guesses_def)
  qed
qed

text \<open>
  C12. A mailed sign-in code can be guessed at five times: after five wrong guesses against an open
  challenge the challenge is gone, and every code is refused, the right one included.
\<close>

theorem five_wrong_guesses_end_a_challenge:
  assumes "auth_ok db" and "open_challenge t uid db = Some c"
    and "list_all (\<lambda>(now, code). now < lap_expires_at c \<and> sha256_hex env (trim code) \<noteq> lap_code_hash c) gs"
    and "5 \<le> length gs"
  shows "verify_login_approval env now t uid code (guesses env t uid gs db) = (guesses env t uid gs db, Inl Unauthorized)"
proof -
  have "c \<in> set (login_approvals db)" using assms(2) by (auto simp: open_challenge_def dest!: select_one_SomeD)
  then have "0 \<le> lap_attempts c" using assms(1) by (auto simp: auth_ok_def)
  then have "open_challenge t uid (guesses env t uid gs db) = None"
    using assms by (intro guesses_open) (auto simp: login_approval_max_attempts_def)
  then show ?thesis using open_challenge_NoneD by (simp add: verify_login_approval_def)
qed

definition challenge_db :: auth_db where
  "challenge_db = demo_db\<lparr> login_approvals := [\<lparr> lap_id = 3, lap_tenant = 1, lap_user = 5, lap_code_hash = ''123456'', lap_country = None,
     lap_device_hash = None, lap_attempts = 0, lap_expires_at = 3900, lap_consumed_at = None, lap_created_at = 3000 \<rparr>] \<rparr>"

theorem five_wrong_guesses_end_a_challenge_witness:
  "is_ok (snd (verify_login_approval demo_env 3100 1 5 ''123456'' challenge_db))
   \<and> snd (verify_login_approval demo_env 3100 1 5 ''123456'' (guesses demo_env 1 5 (replicate 5 (3050, ''0'')) challenge_db)) = Inl Unauthorized"
proof -
  have a: "is_ok (snd (verify_login_approval demo_env 3100 1 5 ''123456'' challenge_db))" by code_simp
  have ok: "auth_ok challenge_db"
    by (simp add: auth_ok_def challenge_db_def demo_db_def demo_user_def demo_session_def user_keys_def login_approval_max_attempts_def)
  have o: "open_challenge 1 5 challenge_db = Some (hd (login_approvals challenge_db))" by code_simp
  have g: "list_all (\<lambda>(now, code). now < lap_expires_at (hd (login_approvals challenge_db))
      \<and> sha256_hex demo_env (trim code) \<noteq> lap_code_hash (hd (login_approvals challenge_db))) (replicate 5 (3050, ''0''))" by code_simp
  from five_wrong_guesses_end_a_challenge [OF ok o g, of 3100 "''123456''"] a show ?thesis by simp
qed

section \<open>Signing in without naming a tenant\<close>


definition seat_env :: auth_env where
  "seat_env = demo_env\<lparr> jwt_open := (\<lambda>_. Some \<lparr> jwt_sub = 50, jwt_tid = 0, jwt_email = ''a'', jwt_role = Technician, jwt_iat = 3000,
     jwt_nbf = 3000, jwt_exp = 3300, jwt_iss = mokosh_jwt_name, jwt_aud = mokosh_jwt_name, jwt_typ = ''identity'', jwt_sid = 0,
     jwt_mid = None \<rparr>) \<rparr>"

definition seat_tenant :: "tenant \<Rightarrow> string \<Rightarrow> tenant_row" where
  "seat_tenant t slug = \<lparr> ten_id = t, ten_name = slug, ten_slug = slug, ten_status = ''active'' \<rparr>"

definition seat_membership :: "uuid \<Rightarrow> tenant \<Rightarrow> membership" where
  "seat_membership m t = \<lparr> mem_id = m, mem_identity = 50, mem_tenant = t, mem_role = Admin, mem_status = UActive, mem_joined_at = 0 \<rparr>"

definition other_seat :: auth_user where
  "other_seat = demo_user\<lparr> usr_id := 7, usr_tenant := 3, usr_password_hash := Some ''hother'' \<rparr>"

definition seats_db :: auth_db where
  "seats_db = demo_db\<lparr> auth_tenants := [seat_tenant 1 ''t'', seat_tenant 2 ''u'', seat_tenant 3 ''v''],
     auth_users := [demo_user, demo_user\<lparr> usr_id := 6, usr_tenant := 2 \<rparr>, other_seat],
     identities := [\<lparr> idn_id = 50, idn_email = ''a'', idn_password_hash = None, idn_mfa_enabled = False, idn_mfa_secret = None,
       idn_last_login_at = None, idn_mfa_last_totp_step = 0 \<rparr>],
     memberships := [seat_membership 61 1, seat_membership 62 2, seat_membership 63 3] \<rparr>"

definition no_tenant_request :: login_request where
  "no_tenant_request = demo_request\<lparr> lr_tenant_id := None, lr_mfa_code := None \<rparr>"


text \<open>The deployment switches a tenant-scoped login reads and the other one does not.\<close>

definition regate :: "provider_selection \<Rightarrow> bool \<Rightarrow> bool \<Rightarrow> auth_env \<Rightarrow> auth_env" where
  "regate sel saas sso env = env\<lparr> auth_providers := sel, is_saas := saas, sso_mounted := sso \<rparr>"

lemma regate_fields:
  "login_approval_enabled (regate sel saas sso env) = login_approval_enabled env"
  "access_token_ttl (regate sel saas sso env) = access_token_ttl env"
  "refresh_token_ttl (regate sel saas sso env) = refresh_token_ttl env"
  "argon2_verify (regate sel saas sso env) = argon2_verify env"
  "sha256_hex (regate sel saas sso env) = sha256_hex env"
  "hmac_of (regate sel saas sso env) = hmac_of env"
  "aes_encrypt (regate sel saas sso env) = aes_encrypt env"
  "aes_decrypt (regate sel saas sso env) = aes_decrypt env"
  "jwt_sign (regate sel saas sso env) = jwt_sign env"
  "country_code (regate sel saas sso env) = country_code env"
  by (simp_all add: regate_def)

lemmas identity_login_defs = identity_factor_def totp_secret_def open_secret_def upgrade_legacy_mfa_secret_def seal_secret_def
  identity_password_def matching_seats_def seat_user_def verify_password_def scope_login_def mint_identity_token_def enter_seat_def
  check_login_approval_def approval_gate_def assess_login_def resolve_login_country_def verify_login_approval_def
  issue_login_approval_def mint_session_for_user_def open_session_def create_session_def session_response_def generate_tokens_def

lemma regate_identity:
  "identity_password (regate sel saas sso env) = identity_password env"
  "identity_factor (regate sel saas sso env) = identity_factor env"
  "scope_login (regate sel saas sso env) = scope_login env"
  by (intro ext; unfold identity_login_defs regate_fields; rule refl)+

text \<open>What a login writes to the lockout columns, when it is not the tenant-scoped one: nothing.\<close>

definition lockout_columns :: "auth_db \<Rightarrow> (int \<times> instant option) list" where
  "lockout_columns db = map (\<lambda>u. (usr_mfa_failed u, usr_mfa_locked_until u)) (auth_users db)"

lemma lockout_columns_write:
  assumes "\<And>u. usr_mfa_failed (f u) = usr_mfa_failed u" "\<And>u. usr_mfa_locked_until (f u) = usr_mfa_locked_until u"
  shows "lockout_columns (write_users p f db) = lockout_columns db"
  using assms by (simp add: lockout_columns_def auth_frame update_where_def comp_def)

lemma lockout_columns_same: "auth_users d = auth_users db \<Longrightarrow> lockout_columns d = lockout_columns db"
  by (simp add: lockout_columns_def)

lemma lockout_columns_upgrade: "lockout_columns (fst (upgrade_legacy_mfa_secret env fr email s db)) = lockout_columns db"
  by (auto simp: upgrade_legacy_mfa_secret_def write_mfa_secret_def Let_def lockout_columns_write split: sum.split
      intro: lockout_columns_same)

lemma lockout_columns_open: "lockout_columns (fst (open_session env fr now cl rm u db)) = lockout_columns db"
  by (auto simp: open_session_def Let_def update_last_login_def lockout_columns_write create_session_def intro: lockout_columns_same)

lemma lockout_columns_gate: "lockout_columns (fst (check_login_approval env fr now cl d c u db)) = lockout_columns db"
  by (rule lockout_columns_same)
    (auto simp: check_login_approval_def approval_gate_def verify_login_approval_def issue_login_approval_def Let_def then_do_def
      split: option.split sum.split)

lemma lockout_columns_factor: "lockout_columns (fst (identity_factor env fr now req i db)) = lockout_columns db"
proof -
  have "lockout_columns (db\<lparr> identities := xs \<rparr>) = lockout_columns db" for xs by (rule lockout_columns_same) simp
  then show ?thesis
    by (auto simp: identity_factor_def then_do_def check_def record_identity_mfa_success_def lockout_columns_upgrade Let_def
        split: option.split sum.split prod.split)
qed

lemma lockout_columns_enter: "lockout_columns (fst (enter_seat env fr now req cl u db)) = lockout_columns db"
  unfolding enter_seat_def
  by (auto intro!: then_do_keeps [where P = "\<lambda>d. lockout_columns d = lockout_columns db"]
      simp: check_def lockout_columns_gate lockout_columns_open mint_session_for_user_def split: option.split)


definition sso_env :: auth_env where
  "sso_env = demo_env\<lparr> auth_providers := \<lparr> sel_source = ExplicitProviders, sel_providers = [BunyipProvider] \<rparr>, is_saas := True, sso_mounted := True \<rparr>"

definition one_seat_db :: auth_db where
  "one_seat_db = seats_db\<lparr> memberships := [seat_membership 61 1] \<rparr>"


section \<open>One-time codes and secrets\<close>

text \<open>
  C14. A code is accepted exactly when, trimmed, it is the six-digit code of a step in the window around
  the current one, and the step reported is the first that has it.
\<close>

theorem totp_accepts_the_window:
  "totp_verify mac secret code now w = Some s \<longleftrightarrow>
     (let t = trunc_div now totp_step_secs; shown = (\<lambda>r. format_code (totp_step mac secret r)) in
      s \<in> {t - w .. t + w} \<and> shown s = trim code \<and> length (trim code) = 6
      \<and> \<not> (\<exists>r. t - w \<le> r \<and> r < s \<and> shown r = trim code))"
  using format_code_shape(1) [of mac secret s] by (auto simp: totp_verify_Some Let_def totp_digits_def)

text \<open>
  C15. A secret survives its text form: the Base32 text an enrolment shows, in either letter case and
  with the spaces and padding an authenticator or a person adds, decodes to the bytes it was made from.
\<close>

theorem base32_round_trip:
  assumes "b32_canonical s = base32_encode bs"
  shows "base32_decode s = Some bs"
  using base32_decode_encode [of bs] assms base32_decode_canonical [of s] by simp

theorem base32_round_trip_witness:
  "base32_encode [0xde, 0xad, 0xbe] = ''32W34'' \<and> base32_decode ''32w3 4==='' = Some [0xde, 0xad, 0xbe]"
proof
  show "base32_encode [0xde, 0xad, 0xbe] = ''32W34''" by code_simp
  have "b32_canonical ''32w3 4==='' = base32_encode [0xde, 0xad, 0xbe]" by code_simp
  then show "base32_decode ''32w3 4==='' = Some [0xde, 0xad, 0xbe]" by (rule base32_round_trip)
qed

end
