(* ===== verification/Spec2Isabelle.thy ===== *)
theory Spec2Isabelle
  imports Time_Ledger Pagination Work_Guarantees Sla_Guarantees Quote_Guarantees Auth_Access
begin

text \<open>
  \<^bold>\<open>A verification library for the mokosh server.\<close>

  The server is the back end of a professional-services product: time tracking against contracts,
  invoicing and payments, quotes and approvals, service levels, tickets, contacts, a client portal. It is
  a set of services (src/src/modules) over one PostgreSQL database; a service runs an operation as one or
  several transactions, writes an audit row, and answers with a value or an \<open>AppError\<close>. The library
  models the services in which figures and promises are kept (hours, money, documents, deadlines) and
  the authentication service that decides who acts.

  \<^bold>\<open>How code becomes definitions.\<close> A table is the list of its rows, a row a record with the columns the
  operations read or write, the database a record of tables (\<open>time_db\<close>, \<open>bill_db\<close>, \<open>sla_db\<close>,
  \<open>quote_db\<close>, \<open>auth_db\<close>). A statement of the embedded SQL is one of the relational operations of
  \<open>Mokosh_Prelude\<close>; a CHECK, a UNIQUE index or a foreign key is a branch that answers an error. A service
  method is one definition: it takes the database, the tenant, the request, and what the method draws from
  outside (new identifiers, the time, answers of other systems), and returns \<open>app_error + state\<close>, so that
  a refusal rolls back. A method that commits more than once is composed of one definition per
  transaction, or returns the state it leaves beside its answer (\<open>auth_run\<close>), and a method that reads
  without a lock is split into its read and its write where two requests can meet; the
  step relations interleave these parts. Text columns with a CHECK are the
  enumeration itself, justified by the round trips of locale \<open>text_enum\<close>. Amounts are exact rationals and
  are rounded where a DECIMAL(p, 2) column is written (\<open>num2\<close>).

  \<^bold>\<open>Theories, the code they model, and what they show.\<close>

  \<^item> \<open>Mokosh_Prelude\<close>, \<open>Audit_Trail\<close>, \<open>Calendar\<close>, \<open>Pagination\<close>: errors (src/src/utils/error.rs), tables,
    rounding, text; the audit trail (modules/audit/context.rs); the dates of chrono, as a record of
    operations with the contract \<open>calendar\<close> and the Gregorian instance; paging and sorting on 32-bit
    words (src/src/utils/pagination.rs): pages partition the rows while the offset does not wrap.

  \<^item> \<open>Billing_Cycle\<close>, \<open>Hour_Balances\<close>: contract periods and block hours (modules/contracts/service.rs, and
    the period of modules/billing/service.rs). Periods tile time and the walks end; a draw splits a request
    exactly, a release undoes it, a roll credits once and within its cap.

  \<^item> \<open>Time_Rules\<close>, \<open>Time_Entries\<close>, \<open>Timesheets\<close>, \<open>Time_Ledger\<close>: modules/time\_tracking/service.rs. The
    length, kind, category, rounding and price of an entry; entries and timers with their draw on the
    hour balances, through locale \<open>hour_pool\<close>; weekly roll-ups and their transitions. After every sequence
    of operations the balances have given out exactly the hours the entries record.

  \<^item> \<open>Billing_Types\<close>, \<open>Billing_Ledger\<close>, \<open>Invoice_Numbers\<close>, \<open>Invoicing\<close>, \<open>Credit_Notes\<close>, \<open>Statements\<close>,
    \<open>Time_Invoicing\<close>, \<open>Recurring_Billing\<close>: modules/billing (service.rs, models.rs, numbering.rs,
    descriptions.rs) and crates/mokosh-types/src/billing.rs. Payments, gateway deliveries, refunds,
    write-off and void; numbers, terms and tax; create, edit, send and amend; credit notes; statements and
    the ledger of an invoice; billing of time, mileage and contracts.

  \<^item> \<open>Ledger_Invariants\<close>, \<open>Raised_Invoices\<close>, \<open>Billing_Steps\<close>, \<open>Billing_Guarantees\<close>, \<open>Sending_Guarantees\<close>,
    \<open>Payment_Guarantees\<close>, \<open>Work_Guarantees\<close>: what billing promises over every interleaving of its
    transactions. The ledger balances, an issued invoice is immutable, tenants are isolated; deliveries and
    refunds are applied once; work and contract periods are billed once; statements chain and agree with
    the balances.

  \<^item> \<open>Sla_Clock\<close>, \<open>Sla_Walk\<close>, \<open>Sla_Service\<close>, \<open>Sla_Guarantees\<close>: modules/sla (clock.rs, models.rs,
    service.rs, worker.rs) and the badge of crates/mokosh-types/src/tickets.rs. The walk of the clock
    refines the meaning of a schedule (locale \<open>business_clock\<close>); settings stay consistent (locale
    \<open>default_table\<close>); breaches are alerted once.

  \<^item> \<open>Quotes\<close>, \<open>Quote_Signoff\<close>, \<open>Quote_Lifecycle\<close>, \<open>Quote_Guarantees\<close>: modules/quotes (models.rs,
    service.rs, approval\_sync.rs), modules/approvals (models.rs, service.rs, routes.rs) and
    modules/contact\_portal/links.rs. Every operation is a step of an abstract document; figures add up;
    what the client has seen does not change; sign-off, client decision and conversion happen once.

  \<^item> \<open>Totp_Codes\<close>, \<open>Auth_Sessions\<close>, \<open>Auth_Accounts\<close>: src/src/utils (totp.rs, recovery.rs, crypto.rs,
    login\_location.rs, net.rs), modules/auth (service.rs, mfa\_secret.rs, routes.rs, the HS256 branch of
    middleware.rs, the provider gate), src/src/db/identity.rs and the trigger of migration 196. Base32 and
    one-time codes on words; login with its factors, lockout and mailed challenge; sessions, tokens,
    refresh and sign-out; reset and change of a password; users, enrolment of the second factor and the
    login without a tenant.

  \<^item> \<open>Auth_Invariants\<close>, \<open>Auth_Guarantees\<close>, \<open>Auth_Access\<close>: the tables stay well formed and the spent
    one-time step never goes back, over every sequence of operations; a session rests on every factor; a
    code is accepted once; an ended session and a disabled account are shut out on every path; reset links
    work once; challenges survive four wrong guesses; the two lockout schedules agree. Two theorems record
    what the login without a tenant leaves out.

  \<^bold>\<open>What is a parameter.\<close> Code outside the repository is an argument: the calendar and time zones of chrono
  and chrono-tz (\<open>cal\<close>, \<open>chrono_text\<close>), the random draw of a prefix, the collation of the database, the
  rendering of dates and decimals, and the answers of other systems during a request (\<open>invoice_env\<close>,
  \<open>credit_env\<close>, \<open>quote_env\<close>, the notification dispatcher), and for authentication Argon2, SHA-256, HMAC-SHA1,
  AES-GCM, the JWT library, geolocation and the text of a UUID (\<open>auth_env\<close>) with the random values of a call
  (\<open>fresh\<close>). What a theorem needs of them is a hypothesis or the assumption of a locale, interpreted on the
  model.

  \<^bold>\<open>Bounds and units.\<close> A date is a day number; an instant is a number of seconds in the time and billing
  theories and of microseconds in the SLA theories; casts of a timestamp to a date are in UTC. Counters
  are 32-bit columns and refuse to pass \<open>MAX_I32\<close>; page offsets are 32-bit words and wrap. Loops follow the
  code: the prefix loop has \<open>PREFIX_ATTEMPTS\<close> rounds, the walk of the SLA clock \<open>MAX_ROUNDS\<close> (366 times 30)
  days, which is enough for every budget the checks admit on a schedule with an open day a week, the
  search for the end of a clock change looks at 180 minutes; the period walks end because a step moves
  forward on a calendar with a last day.

  \<^bold>\<open>Not modelled.\<close> Overflow of DECIMAL columns and of \<open>rust_decimal\<close>; the JSON images of audit rows and
  descriptive columns no rule reads; the resolution of identifiers to display names; HTTP routing and
  deserialisation; row-level security, which repeats the tenant condition the statements carry.
  Of authentication: the resource-server branch for tokens of the external identity provider, the
  provisioning of users from its claims, grant invitations, API keys, back-channel logout, the in-memory
  rate limiters and the listings. Contacts, tickets, assets, projects, knowledge base,
  reports and workflows (record keeping with little rule of its own, or SQL assembled from user filters),
  the portal beyond quotes, contact synchronisation, notifications and mail, payment gateways and accounting
  providers (protocols of third parties), PDF rendering, storage, configuration and the command line.
\<close>

end
